(* ===== verification/Prelude.thy ===== *)
theory Prelude
  imports Main "HOL-Library.Word"
begin

text \<open>
  Shared vocabulary of the development: the fixed-width integer types of
  src/common/Pcsx2Types.h, sub-word lanes of the 128-bit register unions, C++ integer
  conversions and truncating division, and the fact collections the component theories use.
\<close>

unbundle bit_operations_syntax

named_theorems ee_defs \<open>definitions of EE operations\<close>
named_theorems lane_simps \<open>reading and writing lanes of a register\<close>

type_synonym u8 = "8 word"
type_synonym u16 = "16 word"
type_synonym u32 = "32 word"
type_synonym u64 = "64 word"
type_synonym u128 = "128 word"

subsection \<open>Lanes of a wide word\<close>

text \<open>\<open>GPR_reg\<close> is a union: its arrays \<open>UD\<close>, \<open>UL\<close>, \<open>US\<close>, \<open>UC\<close> overlay the same 128 bits
  (little-endian), so element \<open>n\<close> of the \<open>w\<close>-bit view is bits \<open>w * n ..< w * n + w\<close>.\<close>

definition lane :: "nat \<Rightarrow> u128 \<Rightarrow> 'a::len word" where
  "lane n w = ucast (drop_bit (n * LENGTH('a)) w)"

definition set_lane :: "nat \<Rightarrow> 'a::len word \<Rightarrow> u128 \<Rightarrow> u128" where
  "set_lane n v w =
     (w AND NOT (push_bit (n * LENGTH('a)) (mask LENGTH('a)))) OR push_bit (n * LENGTH('a)) (ucast v)"

abbreviation UD :: "u128 \<Rightarrow> nat \<Rightarrow> u64" where "UD w n \<equiv> lane n w"
abbreviation UL :: "u128 \<Rightarrow> nat \<Rightarrow> u32" where "UL w n \<equiv> lane n w"
abbreviation US :: "u128 \<Rightarrow> nat \<Rightarrow> u16" where "US w n \<equiv> lane n w"
abbreviation UC :: "u128 \<Rightarrow> nat \<Rightarrow> u8" where "UC w n \<equiv> lane n w"

lemma bit_lane_iff [bit_simps]:
  "bit (lane n w :: 'a::len word) i \<longleftrightarrow> i < LENGTH('a) \<and> bit w (n * LENGTH('a) + i)"
  by (auto simp: lane_def bit_simps)

lemma bit_set_lane_iff [bit_simps]:
  fixes v :: "'a::len word"
  shows "bit (set_lane n v w) i \<longleftrightarrow>
    i < 128 \<and> (if n * LENGTH('a) \<le> i \<and> i < n * LENGTH('a) + LENGTH('a)
                then bit v (i - n * LENGTH('a)) else bit w i)"
  by (auto simp: set_lane_def bit_simps dest: bit_imp_le_length)

lemma lane_set_lane_same [simp]:
  fixes v :: "'a::len word"
  assumes "Suc n * LENGTH('a) \<le> 128"
  shows "lane n (set_lane n v w) = v"
  using assms by (intro bit_word_eqI) (auto simp: bit_simps)

lemma lane_set_lane_other [simp]:
  fixes v :: "'a::len word"
  assumes "m \<noteq> n"
  shows "lane m (set_lane n v w) = (lane m w :: 'a word)"
proof (rule bit_word_eqI)
  fix i
  assume "i < LENGTH('a)"
  moreover have "\<not> (n * LENGTH('a) \<le> m * LENGTH('a) + i \<and>
      m * LENGTH('a) + i < n * LENGTH('a) + LENGTH('a))" if "i < LENGTH('a)"
  proof
    assume *: "n * LENGTH('a) \<le> m * LENGTH('a) + i \<and> m * LENGTH('a) + i < n * LENGTH('a) + LENGTH('a)"
    then have "(m * LENGTH('a) + i) div LENGTH('a) = n"
      by (intro div_nat_eqI) (auto simp: algebra_simps)
    with that assms show False by simp
  qed
  ultimately show "bit (lane m (set_lane n v w) :: 'a word) i = bit (lane m w :: 'a word) i"
    by (auto simp: bit_simps dest: bit_imp_le_length)
qed

lemma set_lane_set_lane [simp]:
  fixes u v :: "'a::len word"
  shows "set_lane n u (set_lane n v w) = set_lane n u w"
  by (intro bit_word_eqI) (auto simp: bit_simps)

text \<open>A register is determined by its lanes, in each of the four views.\<close>

lemma lane_eqI:
  assumes "LENGTH('a::len) * k = 128" and "\<And>n. n < k \<Longrightarrow> (lane n v :: 'a word) = lane n w"
  shows "v = w"
proof (rule bit_word_eqI)
  fix i
  assume "i < LENGTH(128)"
  then have i: "i < 128" by simp
  have pos: "0 < LENGTH('a)" by simp
  have "i div LENGTH('a) < k"
    using i assms(1) by (metis less_mult_imp_div_less mult.commute)
  from assms(2) [OF this] have "bit (lane (i div LENGTH('a)) v :: 'a word) (i mod LENGTH('a))
      = bit (lane (i div LENGTH('a)) w :: 'a word) (i mod LENGTH('a))" by simp
  then show "bit v i = bit w i"
    using pos by (simp add: bit_simps)
qed

lemmas UD_eqI = lane_eqI [where 'a = 64 and k = 2, simplified]
lemmas UL_eqI = lane_eqI [where 'a = 32 and k = 4, simplified]
lemmas US_eqI = lane_eqI [where 'a = 16 and k = 8, simplified]
lemmas UC_eqI = lane_eqI [where 'a = 8 and k = 16, simplified]

text \<open>The low 32-bit view of the low 64-bit view.\<close>

lemma ucast_UD_UL: "(ucast (UD w 0) :: u32) = UL w 0"
  by (intro bit_word_eqI) (auto simp: bit_simps)

lemma UL_set_UD_low: "UL (set_lane 0 (v :: u64) w) 0 = ucast v"
  by (intro bit_word_eqI) (auto simp: bit_simps)

lemma UL_set_UD_high: "UL (set_lane 0 (v :: u64) w) 1 = ucast (drop_bit 32 v)"
proof (rule bit_word_eqI)
  fix i
  assume "i < LENGTH(32)"
  then show "bit (UL (set_lane 0 v w) 1) i = bit (ucast (drop_bit 32 v) :: u32) i"
    by (simp add: bit_lane_iff bit_set_lane_iff bit_ucast_iff bit_drop_bit_eq del: One_nat_def mult_Suc)
qed

lemma ucast_scast_32: "(ucast (scast x :: u64) :: u32) = x" for x :: u32
  by (intro bit_word_eqI) (simp add: bit_simps min_absorb2)

text \<open>A cast keeps the value modulo the size of the target.\<close>

lemma unat_ucast: "unat (ucast w :: 'b::len word) = unat w mod 2 ^ LENGTH('b)" for w :: "'a::len word"
  by (simp only: unsigned_ucast_eq unsigned_take_bit_eq take_bit_nat_def)

text \<open>Equality of words with constant masks and shifts, bit by bit.\<close>

lemma upt_32: "[0..<32] =
  [0,1,2,3,4,5,6,7,8,9,10,11,12,13,14,15,16,17,18,19,20,21,22,23,24,25,26,27,28,29,30,31]"
  by code_simp

lemma bits_32I:
  fixes v w :: u32
  assumes "list_all (\<lambda>i. bit v i = bit w i) [0..<32]"
  shows "v = w"
  using assms by (intro bit_word_eqI) (simp add: list_all_iff)

lemma upt_64: "[0..<64] =
  [0,1,2,3,4,5,6,7,8,9,10,11,12,13,14,15,16,17,18,19,20,21,22,23,24,25,26,27,28,29,30,31,
  32,33,34,35,36,37,38,39,40,41,42,43,44,45,46,47,48,49,50,51,52,53,54,55,56,57,58,59,60,61,62,63]"
  by code_simp

lemma bits_64I:
  fixes v w :: u64
  assumes "list_all (\<lambda>i. bit v i = bit w i) [0..<64]"
  shows "v = w"
  using assms by (intro bit_word_eqI) (simp add: list_all_iff)

subsection \<open>C++ integer arithmetic\<close>

text \<open>Signed division and remainder truncate towards zero. The sources guard a zero divisor
  before they divide.\<close>

definition sdiv_trunc :: "int \<Rightarrow> int \<Rightarrow> int" where
  "sdiv_trunc a b = sgn a * sgn b * (\<bar>a\<bar> div \<bar>b\<bar>)"

definition smod_trunc :: "int \<Rightarrow> int \<Rightarrow> int" where
  "smod_trunc a b = sgn a * (\<bar>a\<bar> mod \<bar>b\<bar>)"

lemma sdiv_smod_trunc: "sdiv_trunc a b * b + smod_trunc a b = a"
proof -
  have "sdiv_trunc a b * b = sgn a * (\<bar>a\<bar> div \<bar>b\<bar> * (sgn b * b))"
    by (simp add: sdiv_trunc_def ac_simps)
  also have "sgn b * b = \<bar>b\<bar>"
    by (simp add: abs_sgn mult.commute)
  finally have "sdiv_trunc a b * b + smod_trunc a b = sgn a * (\<bar>a\<bar> div \<bar>b\<bar> * \<bar>b\<bar> + \<bar>a\<bar> mod \<bar>b\<bar>)"
    by (simp only: smod_trunc_def distrib_left)
  then show ?thesis
    by (simp only: div_mult_mod_eq sgn_mult_abs)
qed

lemma smod_trunc_bound: "b \<noteq> 0 \<Longrightarrow> \<bar>smod_trunc a b\<bar> < \<bar>b\<bar>"
  by (auto simp: smod_trunc_def abs_mult sgn_if)

text \<open>A word is the residue of its signed value.\<close>

lemma word_eq_of_sint: "sint b = i \<Longrightarrow> b = (word_of_int i :: 'a::len word)"
  by auto

lemma sint_eq_iff: "sint a = sint b \<longleftrightarrow> a = b"
  using word_eq_of_sint [of a "sint b"] word_eq_of_sint [of b "sint b"] by auto

text \<open>The value a C++ assignment of a signed 64-bit quantity leaves in a register lane.\<close>

abbreviation s64_of :: "int \<Rightarrow> u64" where "s64_of i \<equiv> word_of_int i"
abbreviation s32_of :: "int \<Rightarrow> u32" where "s32_of i \<equiv> word_of_int i"

end
