(* ===== verification/EE_State.thy ===== *)
theory EE_State
  imports Prelude
begin

text \<open>
  The Emotion Engine's register file and exception entry: \<open>cpuRegisters\<close> and the operand
  macros of src/pcsx2/R5900.h, and \<open>cpuException\<close> and \<open>cpuTlbMiss\<close> of src/pcsx2/R5900.cpp.
  Register arrays of 32 entries are functions of a 5-bit index, so an index cut out of an
  instruction word is always in range, as it is in the code.
\<close>

subsection \<open>State\<close>

record cpuRegisters =
  GPR :: "5 word \<Rightarrow> u128"
  HI :: u128
  LO :: u128
  CP0 :: "5 word \<Rightarrow> u32"
  sa :: u32
  pc :: u32
  code :: u32
  pccr :: u32
  pcr0 :: u32
  pcr1 :: u32
  eCycle :: "5 word \<Rightarrow> u32"
  sCycle :: "5 word \<Rightarrow> u64"
  cycle :: u64
  interrupt :: u32
  branch :: u32
  opmode :: u32
  tempcycles :: u32
  dmastall :: u32
  pcWriteback :: u32
  nextEventCycle :: u64
  lastEventCycle :: u64
  lastCOP0Cycle :: u64
  lastPERFCycle0 :: u64
  lastPERFCycle1 :: u64

text \<open>The named members of \<open>CP0regs::n\<close> are positions of \<open>CP0regs::r\<close>.\<close>

abbreviation (input) cp0_Index :: "5 word" where "cp0_Index \<equiv> 0"
abbreviation (input) cp0_Random :: "5 word" where "cp0_Random \<equiv> 1"
abbreviation (input) cp0_EntryLo0 :: "5 word" where "cp0_EntryLo0 \<equiv> 2"
abbreviation (input) cp0_EntryLo1 :: "5 word" where "cp0_EntryLo1 \<equiv> 3"
abbreviation (input) cp0_Context :: "5 word" where "cp0_Context \<equiv> 4"
abbreviation (input) cp0_PageMask :: "5 word" where "cp0_PageMask \<equiv> 5"
abbreviation (input) cp0_BadVAddr :: "5 word" where "cp0_BadVAddr \<equiv> 8"
abbreviation (input) cp0_Count :: "5 word" where "cp0_Count \<equiv> 9"
abbreviation (input) cp0_EntryHi :: "5 word" where "cp0_EntryHi \<equiv> 10"
abbreviation (input) cp0_Compare :: "5 word" where "cp0_Compare \<equiv> 11"
abbreviation (input) cp0_Status :: "5 word" where "cp0_Status \<equiv> 12"
abbreviation (input) cp0_Cause :: "5 word" where "cp0_Cause \<equiv> 13"
abbreviation (input) cp0_EPC :: "5 word" where "cp0_EPC \<equiv> 14"
abbreviation (input) cp0_PRid :: "5 word" where "cp0_PRid \<equiv> 15"
abbreviation (input) cp0_Config :: "5 word" where "cp0_Config \<equiv> 16"
abbreviation (input) cp0_ErrorEPC :: "5 word" where "cp0_ErrorEPC \<equiv> 30"

definition set_CP0 :: "5 word \<Rightarrow> u32 \<Rightarrow> cpuRegisters \<Rightarrow> cpuRegisters" where
  "set_CP0 r v s = s\<lparr>CP0 := (CP0 s)(r := v)\<rparr>"

text \<open>Bits of \<open>CP0regs::n.Status.b\<close>, at the positions the bit-field declares.\<close>

abbreviation st_IE :: "cpuRegisters \<Rightarrow> bool" where "st_IE s \<equiv> bit (CP0 s cp0_Status) 0"
abbreviation st_EXL :: "cpuRegisters \<Rightarrow> bool" where "st_EXL s \<equiv> bit (CP0 s cp0_Status) 1"
abbreviation st_ERL :: "cpuRegisters \<Rightarrow> bool" where "st_ERL s \<equiv> bit (CP0 s cp0_Status) 2"
abbreviation st_EIE :: "cpuRegisters \<Rightarrow> bool" where "st_EIE s \<equiv> bit (CP0 s cp0_Status) 16"
abbreviation st_EDI :: "cpuRegisters \<Rightarrow> bool" where "st_EDI s \<equiv> bit (CP0 s cp0_Status) 17"
abbreviation st_BEV :: "cpuRegisters \<Rightarrow> bool" where "st_BEV s \<equiv> bit (CP0 s cp0_Status) 22"
abbreviation st_DEV :: "cpuRegisters \<Rightarrow> bool" where "st_DEV s \<equiv> bit (CP0 s cp0_Status) 23"

definition st_KSU :: "cpuRegisters \<Rightarrow> nat" where
  "st_KSU s = unat (drop_bit 3 (CP0 s cp0_Status) AND 3)"

text \<open>The part of \<open>cpuReset\<close> that initialises \<open>cpuRegs\<close>.\<close>

definition cpuReset :: cpuRegisters where
  "cpuReset =
     \<lparr>GPR = (\<lambda>r. 0), HI = 0, LO = 0,
      CP0 = (\<lambda>r. 0)(cp0_Config := 0x440, cp0_Status := 0x70400004, cp0_PRid := 0x00002e20),
      sa = 0, pc = 0xbfc00000, code = 0, pccr = 0, pcr0 = 0, pcr1 = 0,
      eCycle = (\<lambda>r. 0), sCycle = (\<lambda>r. 0), cycle = 0, interrupt = 0, branch = 0, opmode = 0,
      tempcycles = 0, dmastall = 0, pcWriteback = 0, nextEventCycle = 4, lastEventCycle = 0,
      lastCOP0Cycle = 0, lastPERFCycle0 = 0, lastPERFCycle1 = 0\<rparr>"

subsection \<open>Instruction fields\<close>

definition opFunct :: "cpuRegisters \<Rightarrow> 6 word" where
  "opFunct s = ucast (code s AND 0x3F)"

definition opRd :: "cpuRegisters \<Rightarrow> 5 word" where
  "opRd s = ucast (drop_bit 11 (code s) AND 0x1F)"

definition opRt :: "cpuRegisters \<Rightarrow> 5 word" where
  "opRt s = ucast (drop_bit 16 (code s) AND 0x1F)"

definition opRs :: "cpuRegisters \<Rightarrow> 5 word" where
  "opRs s = ucast (drop_bit 21 (code s) AND 0x1F)"

definition opSa :: "cpuRegisters \<Rightarrow> nat" where
  "opSa s = unat (drop_bit 6 (code s) AND 0x1F)"

definition opImm :: "cpuRegisters \<Rightarrow> u16" where
  "opImm s = ucast (code s)"

definition opImmU :: "cpuRegisters \<Rightarrow> u32" where
  "opImmU s = code s AND 0xffff"

definition opInstrucTarget :: "cpuRegisters \<Rightarrow> u32" where
  "opInstrucTarget s = code s AND 0x03ffffff"

definition opJumpTarget :: "cpuRegisters \<Rightarrow> u32" where
  "opJumpTarget s = push_bit 2 (opInstrucTarget s) + (pc s AND 0xf0000000)"

definition opBranchTarget :: "cpuRegisters \<Rightarrow> u32" where
  "opBranchTarget s = scast (opImm s) * 4 + pc s"

text \<open>\<open>_Imm_\<close> is a signed 16-bit value; C++ widens it with its sign.\<close>

abbreviation imm32 :: "cpuRegisters \<Rightarrow> u32" where "imm32 s \<equiv> scast (opImm s)"
abbreviation imm64 :: "cpuRegisters \<Rightarrow> u64" where "imm64 s \<equiv> scast (opImm s)"

subsection \<open>Register access\<close>

definition wr :: "5 word \<Rightarrow> nat \<Rightarrow> 'a::len word \<Rightarrow> cpuRegisters \<Rightarrow> cpuRegisters" where
  "wr r n v s = s\<lparr>GPR := (GPR s)(r := set_lane n v (GPR s r))\<rparr>"

definition wrHI :: "nat \<Rightarrow> 'a::len word \<Rightarrow> cpuRegisters \<Rightarrow> cpuRegisters" where
  "wrHI n v s = s\<lparr>HI := set_lane n v (HI s)\<rparr>"

definition wrLO :: "nat \<Rightarrow> 'a::len word \<Rightarrow> cpuRegisters \<Rightarrow> cpuRegisters" where
  "wrLO n v s = s\<lparr>LO := set_lane n v (LO s)\<rparr>"

abbreviation rs :: "cpuRegisters \<Rightarrow> u128" where "rs s \<equiv> GPR s (opRs s)"
abbreviation rt :: "cpuRegisters \<Rightarrow> u128" where "rt s \<equiv> GPR s (opRt s)"
abbreviation rd :: "cpuRegisters \<Rightarrow> u128" where "rd s \<equiv> GPR s (opRd s)"

text \<open>\<open>_SetLink(x)\<close>: the return address, zero-extended by the assignment to \<open>UD[0]\<close>.\<close>

definition SetLink :: "5 word \<Rightarrow> cpuRegisters \<Rightarrow> cpuRegisters" where
  "SetLink x s = wr x 0 (ucast (pc s + 4) :: u64) s"

subsection \<open>Exceptions\<close>

text \<open>The vector offset and the status bit that selects the bootstrap vectors. \<open>None\<close> is the
  early return of a reset or NMI at error level 2.\<close>

definition exception_vector :: "u32 \<Rightarrow> cpuRegisters \<Rightarrow> (bool \<times> u32) option" where
  "exception_vector c s =
     (if \<not> st_ERL s then
        Some (\<not> st_BEV s,
          if 0x8 \<le> c AND 0x7C \<and> c AND 0x7C \<le> 0xC then 0x0
          else if c AND 0x7C = 0x0 then 0x200
          else 0x180)
      else if c AND 0x38000 \<le> 0x8000 then None
      else Some (\<not> st_DEV s,
          if c AND 0x38000 = 0x10000 then 0x80
          else if c AND 0x38000 = 0x18000 then 0x100
          else 0))"

definition cpuException :: "u32 \<Rightarrow> u32 \<Rightarrow> cpuRegisters \<Rightarrow> cpuRegisters" where
  "cpuException c bd s0 =
     (let s = set_CP0 cp0_Cause (c AND 0xffff) (s0\<lparr>branch := 0\<rparr>) in
      case exception_vector c s of
        None \<Rightarrow> s\<lparr>pc := 0xBFC00000\<rparr>
      | Some (checkStatus, offset0) \<Rightarrow>
          let (s', offset) =
            (if \<not> st_EXL s then
               let s1 = set_CP0 cp0_EPC (pc s)
                          (set_CP0 cp0_Status (set_bit 1 (CP0 s cp0_Status)) s) in
               (if bd \<noteq> 0 then
                  set_CP0 cp0_Cause (CP0 s1 cp0_Cause OR 0x80000000)
                    (set_CP0 cp0_EPC (CP0 s1 cp0_EPC - 4) s1)
                else set_CP0 cp0_Cause (CP0 s1 cp0_Cause AND NOT 0x80000000) s1, offset0)
             else (s, 0x180))
          in s'\<lparr>pc := (if checkStatus then 0x80000000 else 0xBFC00200) + offset\<rparr>)"

definition cpuTlbMiss :: "u32 \<Rightarrow> u32 \<Rightarrow> u32 \<Rightarrow> cpuRegisters \<Rightarrow> cpuRegisters" where
  "cpuTlbMiss addr bd excode s0 =
     (let s1 = set_CP0 cp0_BadVAddr addr s0;
          s2 = set_CP0 cp0_Context (CP0 s1 cp0_Context AND 0xFF80000F) s1;
          s3 = set_CP0 cp0_Context (CP0 s2 cp0_Context OR (drop_bit 9 addr AND 0x007FFFF0)) s2;
          s4 = set_CP0 cp0_EntryHi ((addr AND 0xFFFFE000) OR (CP0 s3 cp0_EntryHi AND 0x1FFF)) s3
      in cpuException excode bd (s4\<lparr>pc := pc s4 - 4\<rparr>))"

abbreviation (input) EXC_CODE_TLBL :: u32 where "EXC_CODE_TLBL \<equiv> 8"
abbreviation (input) EXC_CODE_TLBS :: u32 where "EXC_CODE_TLBS \<equiv> 12"

subsection \<open>Frame facts\<close>

lemma wr_frame [simp]:
  "HI (wr r n v s) = HI s" "LO (wr r n v s) = LO s" "CP0 (wr r n v s) = CP0 s"
  "sa (wr r n v s) = sa s" "pc (wr r n v s) = pc s" "code (wr r n v s) = code s"
  "branch (wr r n v s) = branch s" "cycle (wr r n v s) = cycle s"
  "nextEventCycle (wr r n v s) = nextEventCycle s"
  by (simp_all add: wr_def)

lemma wrHI_frame [simp]:
  "GPR (wrHI n v s) = GPR s" "LO (wrHI n v s) = LO s" "CP0 (wrHI n v s) = CP0 s"
  "sa (wrHI n v s) = sa s" "pc (wrHI n v s) = pc s" "code (wrHI n v s) = code s"
  "branch (wrHI n v s) = branch s" "HI (wrHI n v s) = set_lane n v (HI s)"
  by (simp_all add: wrHI_def)

lemma wrLO_frame [simp]:
  "GPR (wrLO n v s) = GPR s" "HI (wrLO n v s) = HI s" "CP0 (wrLO n v s) = CP0 s"
  "sa (wrLO n v s) = sa s" "pc (wrLO n v s) = pc s" "code (wrLO n v s) = code s"
  "branch (wrLO n v s) = branch s" "LO (wrLO n v s) = set_lane n v (LO s)"
  by (simp_all add: wrLO_def)

lemma GPR_wr: "GPR (wr r n v s) = (GPR s)(r := set_lane n v (GPR s r))"
  by (simp add: wr_def)

lemma GPR_wr_same [simp]: "GPR (wr r n v s) r = set_lane n v (GPR s r)"
  by (simp add: wr_def)

lemma GPR_wr_other [simp]: "q \<noteq> r \<Longrightarrow> GPR (wr r n v s) q = GPR s q"
  by (simp add: wr_def)

lemma op_fields_wr [simp]:
  "opRd (wr r n v s) = opRd s" "opRt (wr r n v s) = opRt s" "opRs (wr r n v s) = opRs s"
  "opSa (wr r n v s) = opSa s" "opImm (wr r n v s) = opImm s" "opImmU (wr r n v s) = opImmU s"
  by (simp_all add: opRd_def opRt_def opRs_def opSa_def opImm_def opImmU_def)

lemma op_fields_wrHI [simp]:
  "opRd (wrHI n v s) = opRd s" "opRt (wrHI n v s) = opRt s" "opRs (wrHI n v s) = opRs s"
  "opSa (wrHI n v s) = opSa s"
  by (simp_all add: opRd_def opRt_def opRs_def opSa_def)

lemma op_fields_wrLO [simp]:
  "opRd (wrLO n v s) = opRd s" "opRt (wrLO n v s) = opRt s" "opRs (wrLO n v s) = opRs s"
  "opSa (wrLO n v s) = opSa s"
  by (simp_all add: opRd_def opRt_def opRs_def opSa_def)

lemma set_CP0_frame [simp]:
  "GPR (set_CP0 r v s) = GPR s" "HI (set_CP0 r v s) = HI s" "LO (set_CP0 r v s) = LO s"
  "sa (set_CP0 r v s) = sa s" "pc (set_CP0 r v s) = pc s" "code (set_CP0 r v s) = code s"
  "branch (set_CP0 r v s) = branch s" "CP0 (set_CP0 r v s) = (CP0 s)(r := v)"
  "cycle (set_CP0 r v s) = cycle s" "nextEventCycle (set_CP0 r v s) = nextEventCycle s"
  by (simp_all add: set_CP0_def)

lemma cpuException_frame [simp]:
  "GPR (cpuException c bd s) = GPR s" "HI (cpuException c bd s) = HI s"
  "LO (cpuException c bd s) = LO s" "sa (cpuException c bd s) = sa s"
  "code (cpuException c bd s) = code s" "cycle (cpuException c bd s) = cycle s"
  by (simp_all add: cpuException_def Let_def split: option.splits)

lemma cpuException_branch [simp]: "branch (cpuException c bd s) = 0"
  by (simp add: cpuException_def Let_def split: option.splits)

lemma cpuTlbMiss_frame [simp]:
  "GPR (cpuTlbMiss a bd c s) = GPR s" "HI (cpuTlbMiss a bd c s) = HI s"
  "LO (cpuTlbMiss a bd c s) = LO s" "sa (cpuTlbMiss a bd c s) = sa s"
  by (simp_all add: cpuTlbMiss_def Let_def)

text \<open>The hardwired zero register.\<close>

definition zero_reg :: "cpuRegisters \<Rightarrow> bool" where
  "zero_reg s \<longleftrightarrow> GPR s 0 = 0"

lemma zero_reg_wr [simp]: "r \<noteq> 0 \<Longrightarrow> zero_reg (wr r n v s) = zero_reg s"
  by (simp add: zero_reg_def)

lemma zero_reg_frame [simp]:
  "zero_reg (wrHI n v s) = zero_reg s" "zero_reg (wrLO n v s) = zero_reg s"
  "zero_reg (set_CP0 r u s) = zero_reg s" "zero_reg (cpuException c bd s) = zero_reg s"
  "zero_reg (cpuTlbMiss a bd c s) = zero_reg s"
  by (simp_all add: zero_reg_def)

end
