(* ===== verification/EE_ALU.thy ===== *)
theory EE_ALU
  imports EE_State
begin

text \<open>
  The integer instructions of src/pcsx2/R5900OpcodeImpl.cpp that touch registers only:
  immediate and register arithmetic, multiply and divide, HI/LO moves, shifts, conditional
  moves, traps and the shift-amount register. Each definition is one function of the source;
  a \<open>_op\<close> suffix marks names that Isabelle reserves.
\<close>

subsection \<open>Overflow-checked addition\<close>

text \<open>\<open>Inl\<close> is the state after the exception was raised (the C++ function returns true),
  \<open>Inr\<close> the sum.\<close>

definition add64_Overflow :: "u64 \<Rightarrow> u64 \<Rightarrow> cpuRegisters \<Rightarrow> cpuRegisters + u64" where
  "add64_Overflow x y s =
     (let result = x + y in
      if sint (NOT (x XOR y) AND (x XOR result)) < 0
      then Inl (cpuException 0x30 (branch s) s)
      else Inr result)"

definition add32_Overflow :: "u32 \<Rightarrow> u32 \<Rightarrow> cpuRegisters \<Rightarrow> cpuRegisters + u64" where
  "add32_Overflow x y s =
     (let result = (scast x + scast y :: u64) in
      if drop_bit 31 (ucast result :: u32) \<noteq> (ucast (drop_bit 32 result) :: u32) AND 1
      then Inl (cpuException 0x30 (branch s) s)
      else Inr result)"

definition finish_overflow :: "5 word \<Rightarrow> cpuRegisters + u64 \<Rightarrow> cpuRegisters \<Rightarrow> cpuRegisters" where
  "finish_overflow r res s =
     (case res of Inl s' \<Rightarrow> s' | Inr v \<Rightarrow> if r = 0 then s else wr r 0 v s)"

subsection \<open>Immediate arithmetic\<close>

definition ADDI :: "cpuRegisters \<Rightarrow> cpuRegisters" where
  "ADDI s = finish_overflow (opRt s) (add32_Overflow (ucast (UD (rs s) 0)) (imm32 s) s) s"

definition ADDIU :: "cpuRegisters \<Rightarrow> cpuRegisters" where
  "ADDIU s = (if opRt s = 0 then s
     else wr (opRt s) 0 (scast (UL (rs s) 0 + imm32 s) :: u64) s)"

definition DADDI :: "cpuRegisters \<Rightarrow> cpuRegisters" where
  "DADDI s = finish_overflow (opRt s) (add64_Overflow (UD (rs s) 0) (imm64 s) s) s"

definition DADDIU :: "cpuRegisters \<Rightarrow> cpuRegisters" where
  "DADDIU s = (if opRt s = 0 then s else wr (opRt s) 0 (UD (rs s) 0 + imm64 s) s)"

definition ANDI :: "cpuRegisters \<Rightarrow> cpuRegisters" where
  "ANDI s = (if opRt s = 0 then s else wr (opRt s) 0 (UD (rs s) 0 AND ucast (opImmU s)) s)"

definition ORI :: "cpuRegisters \<Rightarrow> cpuRegisters" where
  "ORI s = (if opRt s = 0 then s else wr (opRt s) 0 (UD (rs s) 0 OR ucast (opImmU s)) s)"

definition XORI :: "cpuRegisters \<Rightarrow> cpuRegisters" where
  "XORI s = (if opRt s = 0 then s else wr (opRt s) 0 (UD (rs s) 0 XOR ucast (opImmU s)) s)"

definition SLTI :: "cpuRegisters \<Rightarrow> cpuRegisters" where
  "SLTI s = (if opRt s = 0 then s
     else wr (opRt s) 0 (if sint (UD (rs s) 0) < sint (opImm s) then 1 else 0 :: u64) s)"

definition SLTIU :: "cpuRegisters \<Rightarrow> cpuRegisters" where
  "SLTIU s = (if opRt s = 0 then s
     else wr (opRt s) 0 (if UD (rs s) 0 < imm64 s then 1 else 0 :: u64) s)"

subsection \<open>Register arithmetic\<close>

definition ADD :: "cpuRegisters \<Rightarrow> cpuRegisters" where
  "ADD s = finish_overflow (opRd s)
     (add32_Overflow (ucast (UD (rs s) 0)) (ucast (UD (rt s) 0)) s) s"

definition DADD :: "cpuRegisters \<Rightarrow> cpuRegisters" where
  "DADD s = finish_overflow (opRd s) (add64_Overflow (UD (rs s) 0) (UD (rt s) 0) s) s"

definition SUB :: "cpuRegisters \<Rightarrow> cpuRegisters" where
  "SUB s = finish_overflow (opRd s)
     (add32_Overflow (ucast (UD (rs s) 0)) (ucast (- UD (rt s) 0)) s) s"

definition DSUB :: "cpuRegisters \<Rightarrow> cpuRegisters" where
  "DSUB s = finish_overflow (opRd s) (add64_Overflow (UD (rs s) 0) (- UD (rt s) 0) s) s"

definition ADDU :: "cpuRegisters \<Rightarrow> cpuRegisters" where
  "ADDU s = (if opRd s = 0 then s
     else wr (opRd s) 0 (scast (UL (rs s) 0 + UL (rt s) 0) :: u64) s)"

definition DADDU :: "cpuRegisters \<Rightarrow> cpuRegisters" where
  "DADDU s = (if opRd s = 0 then s else wr (opRd s) 0 (UD (rs s) 0 + UD (rt s) 0) s)"

definition SUBU :: "cpuRegisters \<Rightarrow> cpuRegisters" where
  "SUBU s = (if opRd s = 0 then s
     else wr (opRd s) 0 (scast (UL (rs s) 0 - UL (rt s) 0) :: u64) s)"

definition DSUBU :: "cpuRegisters \<Rightarrow> cpuRegisters" where
  "DSUBU s = (if opRd s = 0 then s else wr (opRd s) 0 (UD (rs s) 0 - UD (rt s) 0) s)"

definition AND_op :: "cpuRegisters \<Rightarrow> cpuRegisters" where
  "AND_op s = (if opRd s = 0 then s else wr (opRd s) 0 (UD (rs s) 0 AND UD (rt s) 0) s)"

definition OR_op :: "cpuRegisters \<Rightarrow> cpuRegisters" where
  "OR_op s = (if opRd s = 0 then s else wr (opRd s) 0 (UD (rs s) 0 OR UD (rt s) 0) s)"

definition XOR_op :: "cpuRegisters \<Rightarrow> cpuRegisters" where
  "XOR_op s = (if opRd s = 0 then s else wr (opRd s) 0 (UD (rs s) 0 XOR UD (rt s) 0) s)"

definition NOR_op :: "cpuRegisters \<Rightarrow> cpuRegisters" where
  "NOR_op s = (if opRd s = 0 then s else wr (opRd s) 0 (NOT (UD (rs s) 0 OR UD (rt s) 0)) s)"

definition SLT :: "cpuRegisters \<Rightarrow> cpuRegisters" where
  "SLT s = (if opRd s = 0 then s
     else wr (opRd s) 0 (if sint (UD (rs s) 0) < sint (UD (rt s) 0) then 1 else 0 :: u64) s)"

definition SLTU :: "cpuRegisters \<Rightarrow> cpuRegisters" where
  "SLTU s = (if opRd s = 0 then s
     else wr (opRd s) 0 (if UD (rs s) 0 < UD (rt s) 0 then 1 else 0 :: u64) s)"

subsection \<open>Multiply and divide\<close>

text \<open>\<open>DIV\<close>/\<open>DIV1\<close>, \<open>DIVU\<close>/\<open>DIVU1\<close>, \<open>MULT\<close>/\<open>MULT1\<close> and \<open>MULTU\<close>/\<open>MULTU1\<close> are the same code on
  the low or the high doubleword of HI and LO, and \<open>_PDIVW\<close> runs it on another word lane:
  \<open>p\<close> is that doubleword, \<open>a\<close> and \<open>b\<close> the operand words.\<close>

definition div_words :: "nat \<Rightarrow> u32 \<Rightarrow> u32 \<Rightarrow> cpuRegisters \<Rightarrow> cpuRegisters" where
  "div_words p a b s =
     (if a = 0x80000000 \<and> b = 0xffffffff then
        wrHI p (scast (0 :: u32) :: u64) (wrLO p (scast (0x80000000 :: u32) :: u64) s)
      else if sint b \<noteq> 0 then
        wrHI p (s64_of (smod_trunc (sint a) (sint b)))
          (wrLO p (s64_of (sdiv_trunc (sint a) (sint b))) s)
      else
        wrHI p (s64_of (sint a)) (wrLO p (if sint a < 0 then 1 else - 1 :: u64) s))"

definition divu_words :: "nat \<Rightarrow> u32 \<Rightarrow> u32 \<Rightarrow> cpuRegisters \<Rightarrow> cpuRegisters" where
  "divu_words p a b s =
     (if b \<noteq> 0 then
        wrHI p (scast (a mod b) :: u64) (wrLO p (scast (a div b) :: u64) s)
      else wrHI p (s64_of (sint a)) (wrLO p (- 1 :: u64) s))"

definition DIV :: "cpuRegisters \<Rightarrow> cpuRegisters" where
  "DIV s = div_words 0 (UL (rs s) 0) (UL (rt s) 0) s"

definition DIVU :: "cpuRegisters \<Rightarrow> cpuRegisters" where
  "DIVU s = divu_words 0 (UL (rs s) 0) (UL (rt s) 0) s"

text \<open>A 64-bit result split over LO and HI, each half sign-extended.\<close>

definition split_hilo :: "nat \<Rightarrow> u64 \<Rightarrow> cpuRegisters \<Rightarrow> cpuRegisters" where
  "split_hilo p res s =
     wrHI p (scast (ucast (drop_bit 32 res) :: u32) :: u64)
       (wrLO p (scast (ucast (res AND 0xffffffff) :: u32) :: u64) s)"

definition MULT :: "cpuRegisters \<Rightarrow> cpuRegisters" where
  "MULT s =
     (let res = (scast (UL (rs s) 0) * scast (UL (rt s) 0) :: u64); s' = split_hilo 0 res s in
      if opRd s \<noteq> 0 then wr (opRd s) 0 (UD (LO s') 0) s' else s')"

definition MULTU :: "cpuRegisters \<Rightarrow> cpuRegisters" where
  "MULTU s =
     (let res = (ucast (UL (rs s) 0) * ucast (UL (rt s) 0) :: u64); s' = split_hilo 0 res s in
      if opRd s \<noteq> 0 then wr (opRd s) 0 (UD (LO s') 0) s' else s')"

subsection \<open>Moves\<close>

definition LUI :: "cpuRegisters \<Rightarrow> cpuRegisters" where
  "LUI s = (if opRt s = 0 then s else wr (opRt s) 0 (scast (push_bit 16 (code s)) :: u64) s)"

definition MFHI :: "cpuRegisters \<Rightarrow> cpuRegisters" where
  "MFHI s = (if opRd s = 0 then s else wr (opRd s) 0 (UD (HI s) 0) s)"

definition MFLO :: "cpuRegisters \<Rightarrow> cpuRegisters" where
  "MFLO s = (if opRd s = 0 then s else wr (opRd s) 0 (UD (LO s) 0) s)"

definition MTHI :: "cpuRegisters \<Rightarrow> cpuRegisters" where
  "MTHI s = wrHI 0 (UD (rs s) 0) s"

definition MTLO :: "cpuRegisters \<Rightarrow> cpuRegisters" where
  "MTLO s = wrLO 0 (UD (rs s) 0) s"

definition MOVZ :: "cpuRegisters \<Rightarrow> cpuRegisters" where
  "MOVZ s = (if opRd s = 0 then s
     else if UD (rt s) 0 = 0 then wr (opRd s) 0 (UD (rs s) 0) s else s)"

definition MOVN :: "cpuRegisters \<Rightarrow> cpuRegisters" where
  "MOVN s = (if opRd s = 0 then s
     else if UD (rt s) 0 \<noteq> 0 then wr (opRd s) 0 (UD (rs s) 0) s else s)"

subsection \<open>Shifts\<close>

definition SRA :: "cpuRegisters \<Rightarrow> cpuRegisters" where
  "SRA s = (if opRd s = 0 then s
     else wr (opRd s) 0 (scast (signed_drop_bit (opSa s) (UL (rt s) 0)) :: u64) s)"

definition SRL :: "cpuRegisters \<Rightarrow> cpuRegisters" where
  "SRL s = (if opRd s = 0 then s
     else wr (opRd s) 0 (scast (drop_bit (opSa s) (UL (rt s) 0)) :: u64) s)"

definition SLL :: "cpuRegisters \<Rightarrow> cpuRegisters" where
  "SLL s = (if opRd s = 0 then s
     else wr (opRd s) 0 (scast (push_bit (opSa s) (UL (rt s) 0)) :: u64) s)"

definition DSLL :: "cpuRegisters \<Rightarrow> cpuRegisters" where
  "DSLL s = (if opRd s = 0 then s else wr (opRd s) 0 (push_bit (opSa s) (UD (rt s) 0)) s)"

definition DSLL32 :: "cpuRegisters \<Rightarrow> cpuRegisters" where
  "DSLL32 s = (if opRd s = 0 then s else wr (opRd s) 0 (push_bit (opSa s + 32) (UD (rt s) 0)) s)"

definition DSRA :: "cpuRegisters \<Rightarrow> cpuRegisters" where
  "DSRA s = (if opRd s = 0 then s
     else wr (opRd s) 0 (signed_drop_bit (opSa s) (UD (rt s) 0)) s)"

definition DSRA32 :: "cpuRegisters \<Rightarrow> cpuRegisters" where
  "DSRA32 s = (if opRd s = 0 then s
     else wr (opRd s) 0 (signed_drop_bit (opSa s + 32) (UD (rt s) 0)) s)"

definition DSRL :: "cpuRegisters \<Rightarrow> cpuRegisters" where
  "DSRL s = (if opRd s = 0 then s else wr (opRd s) 0 (drop_bit (opSa s) (UD (rt s) 0)) s)"

definition DSRL32 :: "cpuRegisters \<Rightarrow> cpuRegisters" where
  "DSRL32 s = (if opRd s = 0 then s else wr (opRd s) 0 (drop_bit (opSa s + 32) (UD (rt s) 0)) s)"

definition SLLV :: "cpuRegisters \<Rightarrow> cpuRegisters" where
  "SLLV s = (if opRd s = 0 then s
     else wr (opRd s) 0 (scast (push_bit (unat (UL (rs s) 0 AND 0x1f)) (UL (rt s) 0)) :: u64) s)"

definition SRAV :: "cpuRegisters \<Rightarrow> cpuRegisters" where
  "SRAV s = (if opRd s = 0 then s
     else wr (opRd s) 0
       (scast (signed_drop_bit (unat (UL (rs s) 0 AND 0x1f)) (UL (rt s) 0)) :: u64) s)"

definition SRLV :: "cpuRegisters \<Rightarrow> cpuRegisters" where
  "SRLV s = (if opRd s = 0 then s
     else wr (opRd s) 0 (scast (drop_bit (unat (UL (rs s) 0 AND 0x1f)) (UL (rt s) 0)) :: u64) s)"

definition DSLLV :: "cpuRegisters \<Rightarrow> cpuRegisters" where
  "DSLLV s = (if opRd s = 0 then s
     else wr (opRd s) 0 (push_bit (unat (UL (rs s) 0 AND 0x3f)) (UD (rt s) 0)) s)"

definition DSRAV :: "cpuRegisters \<Rightarrow> cpuRegisters" where
  "DSRAV s = (if opRd s = 0 then s
     else wr (opRd s) 0 (signed_drop_bit (unat (UL (rs s) 0 AND 0x3f)) (UD (rt s) 0)) s)"

definition DSRLV :: "cpuRegisters \<Rightarrow> cpuRegisters" where
  "DSRLV s = (if opRd s = 0 then s
     else wr (opRd s) 0 (drop_bit (unat (UL (rs s) 0 AND 0x3f)) (UD (rt s) 0)) s)"

subsection \<open>Traps, breakpoints and the shift-amount register\<close>

definition BREAK :: "cpuRegisters \<Rightarrow> cpuRegisters" where
  "BREAK s = cpuException 0x24 (branch s) (s\<lparr>pc := pc s - 4\<rparr>)"

definition trap :: "cpuRegisters \<Rightarrow> cpuRegisters" where
  "trap s = cpuException 0x34 (branch s) (s\<lparr>pc := pc s - 4\<rparr>)"

definition TGE :: "cpuRegisters \<Rightarrow> cpuRegisters" where
  "TGE s = (if sint (UD (rs s) 0) \<ge> sint (UD (rt s) 0) then trap s else s)"

definition TGEU :: "cpuRegisters \<Rightarrow> cpuRegisters" where
  "TGEU s = (if UD (rs s) 0 \<ge> UD (rt s) 0 then trap s else s)"

definition TLT :: "cpuRegisters \<Rightarrow> cpuRegisters" where
  "TLT s = (if sint (UD (rs s) 0) < sint (UD (rt s) 0) then trap s else s)"

definition TLTU :: "cpuRegisters \<Rightarrow> cpuRegisters" where
  "TLTU s = (if UD (rs s) 0 < UD (rt s) 0 then trap s else s)"

definition TEQ :: "cpuRegisters \<Rightarrow> cpuRegisters" where
  "TEQ s = (if sint (UD (rs s) 0) = sint (UD (rt s) 0) then trap s else s)"

definition TNE :: "cpuRegisters \<Rightarrow> cpuRegisters" where
  "TNE s = (if sint (UD (rs s) 0) \<noteq> sint (UD (rt s) 0) then trap s else s)"

definition TGEI :: "cpuRegisters \<Rightarrow> cpuRegisters" where
  "TGEI s = (if sint (UD (rs s) 0) \<ge> sint (opImm s) then trap s else s)"

definition TLTI :: "cpuRegisters \<Rightarrow> cpuRegisters" where
  "TLTI s = (if sint (UD (rs s) 0) < sint (opImm s) then trap s else s)"

definition TEQI :: "cpuRegisters \<Rightarrow> cpuRegisters" where
  "TEQI s = (if sint (UD (rs s) 0) = sint (opImm s) then trap s else s)"

definition TNEI :: "cpuRegisters \<Rightarrow> cpuRegisters" where
  "TNEI s = (if sint (UD (rs s) 0) \<noteq> sint (opImm s) then trap s else s)"

definition TGEIU :: "cpuRegisters \<Rightarrow> cpuRegisters" where
  "TGEIU s = (if UD (rs s) 0 \<ge> imm64 s then trap s else s)"

definition TLTIU :: "cpuRegisters \<Rightarrow> cpuRegisters" where
  "TLTIU s = (if UD (rs s) 0 < imm64 s then trap s else s)"

definition MFSA :: "cpuRegisters \<Rightarrow> cpuRegisters" where
  "MFSA s = (if opRd s = 0 then s else wr (opRd s) 0 (ucast (sa s) :: u64) s)"

definition MTSA :: "cpuRegisters \<Rightarrow> cpuRegisters" where
  "MTSA s = s\<lparr>sa := ucast (UD (rs s) 0) AND 0xf\<rparr>"

definition MTSAB :: "cpuRegisters \<Rightarrow> cpuRegisters" where
  "MTSAB s = s\<lparr>sa := (UL (rs s) 0 AND 0xF) XOR (imm32 s AND 0xF)\<rparr>"

definition MTSAH :: "cpuRegisters \<Rightarrow> cpuRegisters" where
  "MTSAH s = s\<lparr>sa := push_bit 1 ((UL (rs s) 0 AND 0x7) XOR (imm32 s AND 0x7))\<rparr>"

end
