(* ===== verification/EE_ALU_Spec.thy ===== *)
theory EE_ALU_Spec
  imports EE_ALU
begin

text \<open>
  What the integer instructions of \<open>EE_ALU\<close> compute: exact overflow detection of the trapping
  additions and subtractions, and truncating division.
\<close>

subsection \<open>Overflow\<close>

definition checked_result :: "nat \<Rightarrow> 5 word \<Rightarrow> int \<Rightarrow> cpuRegisters \<Rightarrow> cpuRegisters" where
  "checked_result w r v s =
     (if - (2 ^ (w - 1)) \<le> v \<and> v < 2 ^ (w - 1)
      then if r = 0 then s else wr r 0 (s64_of v) s
      else cpuException 0x30 (branch s) s)"

lemma carry_bits_differ:
  fixes v :: int
  assumes "- 0x100000000 \<le> v" "v < 0x100000000"
  shows "bit v 31 = bit v 32 \<longleftrightarrow> - 0x80000000 \<le> v \<and> v < 0x80000000"
proof -
  have "v div 0x80000000 \<in> {- 2, - 1, 0, 1}" using assms by auto
  moreover have "v div 0x100000000 \<in> {- 1, 0}" using assms by auto
  ultimately show ?thesis unfolding bit_iff_odd by (auto; presburger)
qed

lemma drop_bit_31_eq_AND_1:
  fixes x y :: u32
  shows "drop_bit 31 x = y AND 1 \<longleftrightarrow> bit x 31 = bit y 0"
proof -
  have "bit x (31 + n) \<longleftrightarrow> n = 0 \<and> bit x 31" for n
    using bit_imp_le_length [of x "31 + n"] by (cases n) auto
  then have "drop_bit 31 x = of_bool (bit x 31)"
    by (intro bit_word_eqI) (auto simp: bit_simps)
  moreover have "y AND 1 = of_bool (bit y 0)"
    by (simp add: and_one_eq mod2_eq_if bit_0)
  ultimately show ?thesis by simp
qed

lemma add32_Overflow_exact:
  "finish_overflow r (add32_Overflow x y s) s = checked_result 32 r (sint x + sint y) s"
proof -
  let ?v = "sint x + sint y" and ?r = "scast x + scast y :: u64"
  have r: "?r = s64_of ?v" by (simp only: scast_eq of_int_add)
  have rng: "- 0x80000000 \<le> sint x" "sint x < 0x80000000" "- 0x80000000 \<le> sint y" "sint y < 0x80000000"
    using sint_ge [of x] sint_lt [of x] sint_ge [of y] sint_lt [of y] by simp_all
  have "drop_bit 31 (ucast ?r :: u32) = (ucast (drop_bit 32 ?r) :: u32) AND 1 \<longleftrightarrow> bit ?v 31 = bit ?v 32"
    unfolding drop_bit_31_eq_AND_1 r by (simp add: bit_simps del: of_int_add)
  also have "\<dots> \<longleftrightarrow> - 0x80000000 \<le> ?v \<and> ?v < 0x80000000"
    using rng by (intro carry_bits_differ) simp_all
  finally show ?thesis
    unfolding add32_Overflow_def finish_overflow_def checked_result_def Let_def r
    by (simp del: of_int_add)
qed

lemma wrap_signed_64:
  fixes k :: int
  assumes "- (2 ^ 64) \<le> k" "k < 2 ^ 64"
  shows "(k + 2 ^ 63) mod 2 ^ 64 - 2 ^ 63 =
    (if k < - (2 ^ 63) then k + 2 ^ 64 else if 2 ^ 63 \<le> k then k - 2 ^ 64 else k)"
proof -
  consider "k < - (2 ^ 63)" | "2 ^ 63 \<le> k" | "- (2 ^ 63) \<le> k" "k < 2 ^ 63" by linarith
  then show ?thesis
  proof cases
    case 1
    then have "(k + 2 ^ 63) mod 2 ^ 64 = (k + 2 ^ 63 + 2 ^ 64) mod 2 ^ 64" by (simp only: mod_add_self2)
    also have "\<dots> = k + 2 ^ 63 + 2 ^ 64" using 1 assms by (intro mod_pos_pos_trivial) simp_all
    finally show ?thesis using 1 by simp
  next
    case 2
    then have "(k + 2 ^ 63) mod 2 ^ 64 = (k + 2 ^ 63 - 2 ^ 64) mod 2 ^ 64" by (simp only: minus_mod_self2)
    also have "\<dots> = k + 2 ^ 63 - 2 ^ 64" using 2 assms by (intro mod_pos_pos_trivial) simp_all
    finally show ?thesis using 2 by simp
  next
    case 3
    then have "(k + 2 ^ 63) mod 2 ^ 64 = k + 2 ^ 63" by (intro mod_pos_pos_trivial) simp_all
    then show ?thesis using 3 by simp
  qed
qed

lemma add64_overflow_sign:
  fixes x y :: u64
  shows "sint (NOT (x XOR y) AND (x XOR (x + y))) < 0 \<longleftrightarrow>
    \<not> (- (2 ^ 63) \<le> sint x + sint y \<and> sint x + sint y < 2 ^ 63)"
proof -
  have sgn: "sint z < 0 \<longleftrightarrow> bit z 63" for z :: u64
    using bit_last_iff [of z] by simp
  have rng: "- (2 ^ 63) \<le> sint x" "sint x < 2 ^ 63" "- (2 ^ 63) \<le> sint y" "sint y < 2 ^ 63"
    using sint_ge [of x] sint_lt [of x] sint_ge [of y] sint_lt [of y] by simp_all
  have "sint (x + y) = signed_take_bit 63 (sint x + sint y)"
    by (simp add: sint_word_add)
  also have "\<dots> = (sint x + sint y + 2 ^ 63) mod 2 ^ 64 - 2 ^ 63"
    by (simp add: signed_take_bit_eq_take_bit_shift take_bit_eq_mod)
  finally have sum: "sint (x + y) = (sint x + sint y + 2 ^ 63) mod 2 ^ 64 - 2 ^ 63" .
  have "sint (NOT (x XOR y) AND (x XOR (x + y))) < 0 \<longleftrightarrow>
      (sint x < 0 \<longleftrightarrow> sint y < 0) \<and> \<not> (sint x < 0 \<longleftrightarrow> sint (x + y) < 0)"
    unfolding sgn by (auto simp: bit_simps)
  moreover have "(sint x + sint y + 2 ^ 63) mod 2 ^ 64 - 2 ^ 63 =
      (if sint x + sint y < - (2 ^ 63) then sint x + sint y + 2 ^ 64
       else if 2 ^ 63 \<le> sint x + sint y then sint x + sint y - 2 ^ 64 else sint x + sint y)"
    using rng by (intro wrap_signed_64) simp_all
  ultimately show ?thesis unfolding sum using rng by auto
qed

lemma add64_Overflow_exact:
  "finish_overflow r (add64_Overflow x y s) s = checked_result 64 r (sint x + sint y) s"
proof -
  have "x + y = s64_of (sint x + sint y)" by simp
  then show ?thesis
    using add64_overflow_sign [of x y]
    by (auto simp: add64_Overflow_def finish_overflow_def checked_result_def Let_def)
qed

lemma sint_uminus:
  fixes b :: "'a::len word"
  shows "sint (- b) = (if sint b = - (2 ^ (LENGTH('a) - 1)) then sint b else - sint b)"
proof (cases "sint b = - (2 ^ (LENGTH('a) - 1))")
  case True
  have "signed_take_bit n (2 ^ n) = - (2 ^ n :: int)" for n
    by (simp add: signed_take_bit_eq_take_bit_shift take_bit_eq_mod flip: mult_2)
  with True show ?thesis by (simp add: sint_word_minus)
next
  case False
  with sint_ge [of b] sint_lt [of b]
  have "signed_take_bit (LENGTH('a) - 1) (- sint b) = - sint b"
    by (intro signed_take_bit_int_eq_self) auto
  with False show ?thesis by (simp add: sint_word_minus)
qed

lemma sint_minus_words:
  "sint (- b) = (if b = 0x80000000 then sint b else - sint b)"
  "sint (- c) = (if c = 0x8000000000000000 then sint c else - sint c)" for b :: u32 and c :: u64
proof -
  have "sint b = - 0x80000000 \<longleftrightarrow> b = 0x80000000"
    using sint_eq_iff [of b "0x80000000"] by simp
  then show "sint (- b) = (if b = 0x80000000 then sint b else - sint b)"
    by (simp add: sint_uminus)
  have "sint c = - 0x8000000000000000 \<longleftrightarrow> c = 0x8000000000000000"
    using sint_eq_iff [of c "0x8000000000000000"] by simp
  then show "sint (- c) = (if c = 0x8000000000000000 then sint c else - sint c)"
    by (simp add: sint_uminus)
qed

lemma ucast_uminus_UD: "(ucast (- UD w 0) :: u32) = - UL w 0"
proof -
  have "take_bit 32 (- take_bit 64 x) = take_bit 32 (- x)" for x :: int
  proof -
    have "take_bit 32 (- take_bit 64 x) = take_bit 32 (- take_bit 32 (take_bit 64 x))"
      by (simp only: take_bit_minus)
    then show ?thesis by (simp add: take_bit_minus)
  qed
  then have "(ucast (- x) :: u32) = - ucast x" for x :: u64
    by transfer simp
  then show ?thesis by (simp add: ucast_UD_UL)
qed

text \<open>C2: the trapping additions raise the overflow exception exactly when the signed sum does
  not fit the operand width, before anything is written, and otherwise store the exact sum: the
  carry comparison of \<open>_add32_Overflow\<close> and the sign trick of \<open>_add64_Overflow\<close> are both exact.\<close>

theorem trapping_add_exact:
  "ADD s = checked_result 32 (opRd s) (sint (UL (rs s) 0) + sint (UL (rt s) 0)) s \<and>
   ADDI s = checked_result 32 (opRt s) (sint (UL (rs s) 0) + sint (opImm s)) s \<and>
   DADD s = checked_result 64 (opRd s) (sint (UD (rs s) 0) + sint (UD (rt s) 0)) s \<and>
   DADDI s = checked_result 64 (opRt s) (sint (UD (rs s) 0) + sint (opImm s)) s"
  by (simp add: ADD_def ADDI_def DADD_def DADDI_def add32_Overflow_exact add64_Overflow_exact
      ucast_UD_UL sint_up_scast is_up)

text \<open>C3: the trapping subtractions negate \<open>rt\<close> and add. For every \<open>rt\<close> but the most negative
  value this is exact subtraction; for that value the negation wraps and the code adds
  \<open>rt\<close> instead of subtracting it, so it raises the exception for negative \<open>rs\<close> (where the
  difference fits) and none for non-negative \<open>rs\<close> (where it does not).\<close>

theorem trapping_sub_exact:
  "SUB s = checked_result 32 (opRd s)
     (if UL (rt s) 0 = 0x80000000 then sint (UL (rs s) 0) + sint (UL (rt s) 0)
      else sint (UL (rs s) 0) - sint (UL (rt s) 0)) s \<and>
   DSUB s = checked_result 64 (opRd s)
     (if UD (rt s) 0 = 0x8000000000000000 then sint (UD (rs s) 0) + sint (UD (rt s) 0)
      else sint (UD (rs s) 0) - sint (UD (rt s) 0)) s"
  by (simp add: SUB_def DSUB_def add32_Overflow_exact add64_Overflow_exact sint_minus_words
      ucast_uminus_UD ucast_UD_UL)

subsection \<open>Division\<close>

lemma sint_s64_of: "- (2 ^ 63) \<le> k \<Longrightarrow> k < 2 ^ 63 \<Longrightarrow> sint (s64_of k) = k"
  by (simp add: sint_sbintrunc' signed_take_bit_int_eq_self)

lemma sdiv_trunc_abs_le: "\<bar>sdiv_trunc a b\<bar> \<le> \<bar>a\<bar>"
proof -
  have "\<bar>sdiv_trunc a b\<bar> \<le> \<bar>a\<bar> div \<bar>b\<bar>"
    by (auto simp: sdiv_trunc_def abs_mult sgn_if pos_imp_zdiv_nonneg_iff)
  also have "\<dots> \<le> \<bar>a\<bar>"
    using zdiv_mono2 [of "\<bar>a\<bar>" 1 "\<bar>b\<bar>"] by (cases "b = 0") auto
  finally show ?thesis .
qed

lemma smod_trunc_abs_le: "\<bar>smod_trunc a b\<bar> \<le> \<bar>a\<bar>"
proof (cases "b = 0")
  case False
  then have "0 \<le> \<bar>a\<bar> mod \<bar>b\<bar>" by simp
  moreover have "\<bar>a\<bar> mod \<bar>b\<bar> \<le> \<bar>a\<bar>" by (simp add: zmod_le_nonneg_dividend)
  ultimately show ?thesis by (simp add: smod_trunc_def abs_mult abs_sgn_eq)
qed (simp add: smod_trunc_def abs_mult sgn_if)

lemma div_words_lanes:
  assumes "p < 2" "b \<noteq> 0" "\<not> (a = 0x80000000 \<and> b = 0xffffffff)"
  shows "sint (UD (LO (div_words p a b s)) p) = sdiv_trunc (sint a) (sint b)"
    and "sint (UD (HI (div_words p a b s)) p) = smod_trunc (sint a) (sint b)"
proof -
  have "\<bar>sint a\<bar> \<le> 2 ^ 31"
    using sint_ge [of a] sint_lt [of a] by auto
  then have "\<bar>sdiv_trunc (sint a) (sint b)\<bar> \<le> 2 ^ 31" "\<bar>smod_trunc (sint a) (sint b)\<bar> \<le> 2 ^ 31"
    using sdiv_trunc_abs_le [of "sint a" "sint b"] smod_trunc_abs_le [of "sint a" "sint b"] by linarith+
  moreover have "sint b \<noteq> 0" using assms(2) sint_eq_iff [of b 0] by simp
  ultimately show "sint (UD (LO (div_words p a b s)) p) = sdiv_trunc (sint a) (sint b)"
    "sint (UD (HI (div_words p a b s)) p) = smod_trunc (sint a) (sint b)"
    using assms(1,3) by (auto simp: div_words_def sint_s64_of)
qed

definition is_trunc_div :: "int \<Rightarrow> int \<Rightarrow> int \<Rightarrow> int \<Rightarrow> bool" where
  "is_trunc_div a b q r \<longleftrightarrow>
     q * b + r = a \<and> \<bar>r\<bar> < \<bar>b\<bar> \<and> (r = 0 \<or> sgn r = sgn a)"

lemma is_trunc_div_trunc: "b \<noteq> 0 \<Longrightarrow> is_trunc_div a b (sdiv_trunc a b) (smod_trunc a b)"
proof -
  assume b: "b \<noteq> 0"
  then have "0 \<le> \<bar>a\<bar> mod \<bar>b\<bar>" by simp
  then have "smod_trunc a b = 0 \<or> sgn (smod_trunc a b) = sgn a"
    by (cases "\<bar>a\<bar> mod \<bar>b\<bar> = 0") (auto simp: smod_trunc_def sgn_mult)
  with b show ?thesis by (simp add: is_trunc_div_def sdiv_smod_trunc smod_trunc_bound)
qed

lemma div_words_correct:
  assumes "p < 2" "b \<noteq> 0" "\<not> (a = 0x80000000 \<and> b = 0xffffffff)"
  shows "is_trunc_div (sint a) (sint b)
    (sint (UD (LO (div_words p a b s)) p)) (sint (UD (HI (div_words p a b s)) p))"
  using assms sint_eq_iff [of b 0] by (simp add: div_words_lanes is_trunc_div_trunc)

end
