(* ===== verification/EE_MMI.thy ===== *)
theory EE_MMI
  imports EE_ALU
begin

text \<open>
  src/pcsx2/MMI.cpp: the three-operand multiply-accumulate instructions and the 128-bit
  multimedia instructions. A lane helper \<open>_PADDW(n)\<close> of the source is \<open>PADDW_lane n\<close>, and the
  instruction runs it over the lanes in the source's order, each lane reading the registers as
  the earlier lanes left them.
\<close>

definition run_lanes :: "nat \<Rightarrow> (nat \<Rightarrow> cpuRegisters \<Rightarrow> cpuRegisters) \<Rightarrow> cpuRegisters \<Rightarrow> cpuRegisters" where
  "run_lanes k f s = fold f [0..<k] s"

text \<open>Successive assignments to lanes \<open>n, n + 1, \<dots>\<close> of one register.\<close>

primrec wr_lanes :: "5 word \<Rightarrow> nat \<Rightarrow> 'a::len word list \<Rightarrow> cpuRegisters \<Rightarrow> cpuRegisters" where
  "wr_lanes r n [] s = s"
| "wr_lanes r n (v # vs) s = wr_lanes r (Suc n) vs (wr r n v s)"

subsection \<open>Multiply-accumulate and the second HI/LO pair\<close>

definition hilo :: "nat \<Rightarrow> cpuRegisters \<Rightarrow> u64" where
  "hilo n s = ucast (UL (LO s) n) OR push_bit 32 (ucast (UL (HI s) n))"

definition MADD :: "cpuRegisters \<Rightarrow> cpuRegisters" where
  "MADD s =
     (let temp = hilo 0 s + scast (UL (rs s) 0) * scast (UL (rt s) 0);
          s' = split_hilo 0 temp s in
      if opRd s \<noteq> 0 then wr (opRd s) 0 (UD (LO s') 0) s' else s')"

definition MADDU :: "cpuRegisters \<Rightarrow> cpuRegisters" where
  "MADDU s =
     (let temp = hilo 0 s + ucast (UL (rs s) 0) * ucast (UL (rt s) 0);
          s' = split_hilo 0 temp s in
      if opRd s \<noteq> 0 then wr (opRd s) 0 (UD (LO s') 0) s' else s')"

definition MADD1 :: "cpuRegisters \<Rightarrow> cpuRegisters" where
  "MADD1 s =
     (let temp = hilo 2 s + scast (UL (rs s) 0) * scast (UL (rt s) 0);
          s' = split_hilo 1 temp s in
      if opRd s \<noteq> 0 then wr (opRd s) 0 (UD (LO s') 1) s' else s')"

definition MADDU1 :: "cpuRegisters \<Rightarrow> cpuRegisters" where
  "MADDU1 s =
     (let temp = hilo 2 s + ucast (UL (rs s) 0) * ucast (UL (rt s) 0);
          s' = split_hilo 1 temp s in
      if opRd s \<noteq> 0 then wr (opRd s) 0 (UD (LO s') 1) s' else s')"

definition MFHI1 :: "cpuRegisters \<Rightarrow> cpuRegisters" where
  "MFHI1 s = (if opRd s = 0 then s else wr (opRd s) 0 (UD (HI s) 1) s)"

definition MFLO1 :: "cpuRegisters \<Rightarrow> cpuRegisters" where
  "MFLO1 s = (if opRd s = 0 then s else wr (opRd s) 0 (UD (LO s) 1) s)"

definition MTHI1 :: "cpuRegisters \<Rightarrow> cpuRegisters" where
  "MTHI1 s = wrHI 1 (UD (rs s) 0) s"

definition MTLO1 :: "cpuRegisters \<Rightarrow> cpuRegisters" where
  "MTLO1 s = wrLO 1 (UD (rs s) 0) s"

definition MULT1 :: "cpuRegisters \<Rightarrow> cpuRegisters" where
  "MULT1 s =
     (let temp = (scast (UL (rs s) 0) * scast (UL (rt s) 0) :: u64); s' = split_hilo 1 temp s in
      if opRd s \<noteq> 0 then wr (opRd s) 0 (UD (LO s') 1) s' else s')"

definition MULTU1 :: "cpuRegisters \<Rightarrow> cpuRegisters" where
  "MULTU1 s =
     (let temp = (ucast (UL (rs s) 0) * ucast (UL (rt s) 0) :: u64); s' = split_hilo 1 temp s in
      if opRd s \<noteq> 0 then wr (opRd s) 0 (UD (LO s') 1) s' else s')"

definition DIV1 :: "cpuRegisters \<Rightarrow> cpuRegisters" where
  "DIV1 s = div_words 1 (UL (rs s) 0) (UL (rt s) 0) s"

definition DIVU1 :: "cpuRegisters \<Rightarrow> cpuRegisters" where
  "DIVU1 s = divu_words 1 (UL (rs s) 0) (UL (rt s) 0) s"

subsection \<open>MMI: leading sign bits, HI/LO formatting, constant shifts\<close>

text \<open>\<open>__builtin_clz\<close>, used on non-zero arguments only.\<close>

definition count_leading_zero :: "u32 \<Rightarrow> nat" where
  "count_leading_zero n = length (takeWhile (\<lambda>i. \<not> bit n i) (rev [0..<32]))"

definition count_leading_sign_bits :: "u32 \<Rightarrow> nat" where
  "count_leading_sign_bits n =
     (let m = (if sint n < 0 then NOT n else n) in if m = 0 then 32 else count_leading_zero m)"

definition PLZCW :: "cpuRegisters \<Rightarrow> cpuRegisters" where
  "PLZCW s = (if opRd s = 0 then s
     else let s1 = wr (opRd s) 0 (of_nat (count_leading_sign_bits (UL (rs s) 0)) - 1 :: u32) s
          in wr (opRd s) 1 (of_nat (count_leading_sign_bits (UL (rs s1) 1)) - 1 :: u32) s1)"

definition PMFHL_CLAMP :: "u32 \<Rightarrow> u16" where
  "PMFHL_CLAMP src =
     (if sint src > 0x7fff then 0x7fff else if sint src < - 0x8000 then 0x8000 else ucast src)"

definition PMFHL_SLW :: "nat \<Rightarrow> cpuRegisters \<Rightarrow> u64" where
  "PMFHL_SLW n s =
     (let TempS64 = sint (push_bit 32 (ucast (UL (HI s) n)) OR ucast (UL (LO s) n) :: u64) in
      if TempS64 \<ge> 0x7fffffff then 0x7fffffff
      else if TempS64 \<le> - 0x80000000 then 0xffffffff80000000
      else scast (UL (LO s) n))"

definition PMFHL :: "cpuRegisters \<Rightarrow> cpuRegisters" where
  "PMFHL s = (if opRd s = 0 then s else
     if opSa s = 0 then
       wr_lanes (opRd s) 0 [UL (LO s) 0, UL (HI s) 0, UL (LO s) 2, UL (HI s) 2] s
     else if opSa s = 1 then
       wr_lanes (opRd s) 0 [UL (LO s) 1, UL (HI s) 1, UL (LO s) 3, UL (HI s) 3] s
     else if opSa s = 2 then
       wr_lanes (opRd s) 0 [PMFHL_SLW 0 s, PMFHL_SLW 2 s] s
     else if opSa s = 3 then
       wr_lanes (opRd s) 0
         [US (LO s) 0, US (LO s) 2, US (HI s) 0, US (HI s) 2,
          US (LO s) 4, US (LO s) 6, US (HI s) 4, US (HI s) 6] s
     else if opSa s = 4 then
       wr_lanes (opRd s) 0
         (map PMFHL_CLAMP [UL (LO s) 0, UL (LO s) 1, UL (HI s) 0, UL (HI s) 1,
                           UL (LO s) 2, UL (LO s) 3, UL (HI s) 2, UL (HI s) 3]) s
     else s)"

definition PMTHL :: "cpuRegisters \<Rightarrow> cpuRegisters" where
  "PMTHL s = (if opSa s \<noteq> 0 then s else
     wrHI 2 (UL (rs s) 3) (wrLO 2 (UL (rs s) 2) (wrHI 0 (UL (rs s) 1) (wrLO 0 (UL (rs s) 0) s))))"

definition PSLLH_lane :: "nat \<Rightarrow> cpuRegisters \<Rightarrow> cpuRegisters" where
  "PSLLH_lane n s = wr (opRd s) n
     (push_bit (opSa s mod 16) (US (rt s) n) :: u16) s"

definition PSLLH :: "cpuRegisters \<Rightarrow> cpuRegisters" where
  "PSLLH s = (if opRd s = 0 then s else run_lanes 8 PSLLH_lane s)"

definition PSRLH_lane :: "nat \<Rightarrow> cpuRegisters \<Rightarrow> cpuRegisters" where
  "PSRLH_lane n s = wr (opRd s) n
     (drop_bit (opSa s mod 16) (US (rt s) n) :: u16) s"

definition PSRLH :: "cpuRegisters \<Rightarrow> cpuRegisters" where
  "PSRLH s = (if opRd s = 0 then s else run_lanes 8 PSRLH_lane s)"

definition PSRAH_lane :: "nat \<Rightarrow> cpuRegisters \<Rightarrow> cpuRegisters" where
  "PSRAH_lane n s = wr (opRd s) n
     (signed_drop_bit (opSa s mod 16) (US (rt s) n) :: u16) s"

definition PSRAH :: "cpuRegisters \<Rightarrow> cpuRegisters" where
  "PSRAH s = (if opRd s = 0 then s else run_lanes 8 PSRAH_lane s)"

definition PSLLW_lane :: "nat \<Rightarrow> cpuRegisters \<Rightarrow> cpuRegisters" where
  "PSLLW_lane n s = wr (opRd s) n
     (push_bit (opSa s) (UL (rt s) n) :: u32) s"

definition PSLLW :: "cpuRegisters \<Rightarrow> cpuRegisters" where
  "PSLLW s = (if opRd s = 0 then s else run_lanes 4 PSLLW_lane s)"

definition PSRLW_lane :: "nat \<Rightarrow> cpuRegisters \<Rightarrow> cpuRegisters" where
  "PSRLW_lane n s = wr (opRd s) n
     (drop_bit (opSa s) (UL (rt s) n) :: u32) s"

definition PSRLW :: "cpuRegisters \<Rightarrow> cpuRegisters" where
  "PSRLW s = (if opRd s = 0 then s else run_lanes 4 PSRLW_lane s)"

definition PSRAW_lane :: "nat \<Rightarrow> cpuRegisters \<Rightarrow> cpuRegisters" where
  "PSRAW_lane n s = wr (opRd s) n
     (signed_drop_bit (opSa s) (UL (rt s) n) :: u32) s"

definition PSRAW :: "cpuRegisters \<Rightarrow> cpuRegisters" where
  "PSRAW s = (if opRd s = 0 then s else run_lanes 4 PSRAW_lane s)"

subsection \<open>MMI0\<close>

definition PADDW_lane :: "nat \<Rightarrow> cpuRegisters \<Rightarrow> cpuRegisters" where
  "PADDW_lane n s = wr (opRd s) n
     (UL (rs s) n + UL (rt s) n :: u32) s"

definition PADDW :: "cpuRegisters \<Rightarrow> cpuRegisters" where
  "PADDW s = (if opRd s = 0 then s else run_lanes 4 PADDW_lane s)"

definition PSUBW_lane :: "nat \<Rightarrow> cpuRegisters \<Rightarrow> cpuRegisters" where
  "PSUBW_lane n s = wr (opRd s) n
     (UL (rs s) n - UL (rt s) n :: u32) s"

definition PSUBW :: "cpuRegisters \<Rightarrow> cpuRegisters" where
  "PSUBW s = (if opRd s = 0 then s else run_lanes 4 PSUBW_lane s)"

definition PCGTW_lane :: "nat \<Rightarrow> cpuRegisters \<Rightarrow> cpuRegisters" where
  "PCGTW_lane n s = wr (opRd s) n
     (if sint (UL (rs s) n) > sint (UL (rt s) n) then 0xFFFFFFFF else 0 :: u32) s"

definition PCGTW :: "cpuRegisters \<Rightarrow> cpuRegisters" where
  "PCGTW s = (if opRd s = 0 then s else run_lanes 4 PCGTW_lane s)"

definition PMAXW_lane :: "nat \<Rightarrow> cpuRegisters \<Rightarrow> cpuRegisters" where
  "PMAXW_lane n s = wr (opRd s) n
     (if sint (UL (rs s) n) > sint (UL (rt s) n) then UL (rs s) n else UL (rt s) n :: u32) s"

definition PMAXW :: "cpuRegisters \<Rightarrow> cpuRegisters" where
  "PMAXW s = (if opRd s = 0 then s else run_lanes 4 PMAXW_lane s)"

definition PADDH_lane :: "nat \<Rightarrow> cpuRegisters \<Rightarrow> cpuRegisters" where
  "PADDH_lane n s = wr (opRd s) n
     (US (rs s) n + US (rt s) n :: u16) s"

definition PADDH :: "cpuRegisters \<Rightarrow> cpuRegisters" where
  "PADDH s = (if opRd s = 0 then s else run_lanes 8 PADDH_lane s)"

definition PSUBH_lane :: "nat \<Rightarrow> cpuRegisters \<Rightarrow> cpuRegisters" where
  "PSUBH_lane n s = wr (opRd s) n
     (US (rs s) n - US (rt s) n :: u16) s"

definition PSUBH :: "cpuRegisters \<Rightarrow> cpuRegisters" where
  "PSUBH s = (if opRd s = 0 then s else run_lanes 8 PSUBH_lane s)"

definition PCGTH_lane :: "nat \<Rightarrow> cpuRegisters \<Rightarrow> cpuRegisters" where
  "PCGTH_lane n s = wr (opRd s) n
     (if sint (US (rs s) n) > sint (US (rt s) n) then 0xFFFF else 0 :: u16) s"

definition PCGTH :: "cpuRegisters \<Rightarrow> cpuRegisters" where
  "PCGTH s = (if opRd s = 0 then s else run_lanes 8 PCGTH_lane s)"

definition PMAXH_lane :: "nat \<Rightarrow> cpuRegisters \<Rightarrow> cpuRegisters" where
  "PMAXH_lane n s = wr (opRd s) n
     (if sint (US (rs s) n) > sint (US (rt s) n) then US (rs s) n else US (rt s) n :: u16) s"

definition PMAXH :: "cpuRegisters \<Rightarrow> cpuRegisters" where
  "PMAXH s = (if opRd s = 0 then s else run_lanes 8 PMAXH_lane s)"

definition PADDB_lane :: "nat \<Rightarrow> cpuRegisters \<Rightarrow> cpuRegisters" where
  "PADDB_lane n s = wr (opRd s) n
     (UC (rs s) n + UC (rt s) n :: u8) s"

definition PADDB :: "cpuRegisters \<Rightarrow> cpuRegisters" where
  "PADDB s = (if opRd s = 0 then s else run_lanes 16 PADDB_lane s)"

definition PSUBB_lane :: "nat \<Rightarrow> cpuRegisters \<Rightarrow> cpuRegisters" where
  "PSUBB_lane n s = wr (opRd s) n
     (UC (rs s) n - UC (rt s) n :: u8) s"

definition PSUBB :: "cpuRegisters \<Rightarrow> cpuRegisters" where
  "PSUBB s = (if opRd s = 0 then s else run_lanes 16 PSUBB_lane s)"

definition PCGTB_lane :: "nat \<Rightarrow> cpuRegisters \<Rightarrow> cpuRegisters" where
  "PCGTB_lane n s = wr (opRd s) n
     (if sint (UC (rs s) n) > sint (UC (rt s) n) then 0xFF else 0 :: u8) s"

definition PCGTB :: "cpuRegisters \<Rightarrow> cpuRegisters" where
  "PCGTB s = (if opRd s = 0 then s else run_lanes 16 PCGTB_lane s)"

definition PADDSW_lane :: "nat \<Rightarrow> cpuRegisters \<Rightarrow> cpuRegisters" where
  "PADDSW_lane n s = (let temp = sint (UL (rs s) n) + sint (UL (rt s) n) in
     wr (opRd s) n
       (if temp > 0x7FFFFFFF then 0x7FFFFFFF else if temp < - 0x80000000 then 0x80000000 else word_of_int temp :: u32) s)"

definition PADDSW :: "cpuRegisters \<Rightarrow> cpuRegisters" where
  "PADDSW s = (if opRd s = 0 then s else run_lanes 4 PADDSW_lane s)"

definition PSUBSW_lane :: "nat \<Rightarrow> cpuRegisters \<Rightarrow> cpuRegisters" where
  "PSUBSW_lane n s = (let temp = sint (UL (rs s) n) - sint (UL (rt s) n) in
     wr (opRd s) n
       (if temp \<ge> 0x7FFFFFFF then 0x7FFFFFFF else if temp < - 0x80000000 then 0x80000000 else word_of_int temp :: u32) s)"

definition PSUBSW :: "cpuRegisters \<Rightarrow> cpuRegisters" where
  "PSUBSW s = (if opRd s = 0 then s else run_lanes 4 PSUBSW_lane s)"

definition PEXTLW :: "cpuRegisters \<Rightarrow> cpuRegisters" where
  "PEXTLW s = (if opRd s = 0 then s else let a = rs s; b = rt s in
     wr_lanes (opRd s) 0
       [UL b 0, UL a 0, UL b 1, UL a 1] s)"

definition PPACW :: "cpuRegisters \<Rightarrow> cpuRegisters" where
  "PPACW s = (if opRd s = 0 then s else let a = rs s; b = rt s in
     wr_lanes (opRd s) 0
       [UL b 0, UL b 2, UL a 0, UL a 2] s)"

definition PADDSH_lane :: "nat \<Rightarrow> cpuRegisters \<Rightarrow> cpuRegisters" where
  "PADDSH_lane n s = (let temp = sint (US (rs s) n) + sint (US (rt s) n) in
     wr (opRd s) n
       (if temp > 0x7FFF then 0x7FFF else if temp < - 0x8000 then 0x8000 else word_of_int temp :: u16) s)"

definition PADDSH :: "cpuRegisters \<Rightarrow> cpuRegisters" where
  "PADDSH s = (if opRd s = 0 then s else run_lanes 8 PADDSH_lane s)"

definition PSUBSH_lane :: "nat \<Rightarrow> cpuRegisters \<Rightarrow> cpuRegisters" where
  "PSUBSH_lane n s = (let temp = sint (US (rs s) n) - sint (US (rt s) n) in
     wr (opRd s) n
       (if temp \<ge> 0x7FFF then 0x7FFF else if temp < - 0x8000 then 0x8000 else word_of_int temp :: u16) s)"

definition PSUBSH :: "cpuRegisters \<Rightarrow> cpuRegisters" where
  "PSUBSH s = (if opRd s = 0 then s else run_lanes 8 PSUBSH_lane s)"

definition PEXTLH :: "cpuRegisters \<Rightarrow> cpuRegisters" where
  "PEXTLH s = (if opRd s = 0 then s else let a = rs s; b = rt s in
     wr_lanes (opRd s) 0
       [US b 0, US a 0, US b 1, US a 1, US b 2, US a 2, US b 3, US a 3] s)"

definition PPACH :: "cpuRegisters \<Rightarrow> cpuRegisters" where
  "PPACH s = (if opRd s = 0 then s else let a = rs s; b = rt s in
     wr_lanes (opRd s) 0
       [US b 0, US b 2, US b 4, US b 6, US a 0, US a 2, US a 4, US a 6] s)"

definition PADDSB_lane :: "nat \<Rightarrow> cpuRegisters \<Rightarrow> cpuRegisters" where
  "PADDSB_lane n s = (let temp = sint (UC (rs s) n) + sint (UC (rt s) n) in
     wr (opRd s) n
       (if temp > 0x7F then 0x7F else if temp < - 0x80 then 0x80 else word_of_int temp :: u8) s)"

definition PADDSB :: "cpuRegisters \<Rightarrow> cpuRegisters" where
  "PADDSB s = (if opRd s = 0 then s else run_lanes 16 PADDSB_lane s)"

definition PSUBSB_lane :: "nat \<Rightarrow> cpuRegisters \<Rightarrow> cpuRegisters" where
  "PSUBSB_lane n s = (let temp = sint (UC (rs s) n) - sint (UC (rt s) n) in
     wr (opRd s) n
       (if temp \<ge> 0x7F then 0x7F else if temp < - 0x80 then 0x80 else word_of_int temp :: u8) s)"

definition PSUBSB :: "cpuRegisters \<Rightarrow> cpuRegisters" where
  "PSUBSB s = (if opRd s = 0 then s else run_lanes 16 PSUBSB_lane s)"

definition PEXTLB :: "cpuRegisters \<Rightarrow> cpuRegisters" where
  "PEXTLB s = (if opRd s = 0 then s else let a = rs s; b = rt s in
     wr_lanes (opRd s) 0
       [UC b 0, UC a 0, UC b 1, UC a 1, UC b 2, UC a 2, UC b 3, UC a 3,
        UC b 4, UC a 4, UC b 5, UC a 5, UC b 6, UC a 6, UC b 7, UC a 7] s)"

definition PPACB :: "cpuRegisters \<Rightarrow> cpuRegisters" where
  "PPACB s = (if opRd s = 0 then s else let a = rs s; b = rt s in
     wr_lanes (opRd s) 0
       [UC b 0, UC b 2, UC b 4, UC b 6, UC b 8, UC b 10, UC b 12, UC b 14,
        UC a 0, UC a 2, UC a 4, UC a 6, UC a 8, UC a 10, UC a 12, UC a 14] s)"

definition PEXT5_lane :: "nat \<Rightarrow> cpuRegisters \<Rightarrow> cpuRegisters" where
  "PEXT5_lane n s = wr (opRd s) n
     (push_bit 3 (UL (rt s) n AND 0x0000001F) OR push_bit 6 (UL (rt s) n AND 0x000003E0) OR
      push_bit 9 (UL (rt s) n AND 0x00007C00) OR push_bit 16 (UL (rt s) n AND 0x00008000) :: u32) s"

definition PEXT5 :: "cpuRegisters \<Rightarrow> cpuRegisters" where
  "PEXT5 s = (if opRd s = 0 then s else run_lanes 4 PEXT5_lane s)"

definition PPAC5_lane :: "nat \<Rightarrow> cpuRegisters \<Rightarrow> cpuRegisters" where
  "PPAC5_lane n s = wr (opRd s) n
     ((drop_bit 3 (UL (rt s) n) AND 0x0000001F) OR (drop_bit 6 (UL (rt s) n) AND 0x000003E0) OR
      (drop_bit 9 (UL (rt s) n) AND 0x00007C00) OR (drop_bit 16 (UL (rt s) n) AND 0x00008000) :: u32) s"

definition PPAC5 :: "cpuRegisters \<Rightarrow> cpuRegisters" where
  "PPAC5 s = (if opRd s = 0 then s else run_lanes 4 PPAC5_lane s)"

subsection \<open>MMI1\<close>

definition PABSW_lane :: "nat \<Rightarrow> cpuRegisters \<Rightarrow> cpuRegisters" where
  "PABSW_lane n s = wr (opRd s) n
     (if UL (rt s) n = 0x80000000 then 0x7fffffff else if sint (UL (rt s) n) < 0 then - (UL (rt s) n) else UL (rt s) n :: u32) s"

definition PABSW :: "cpuRegisters \<Rightarrow> cpuRegisters" where
  "PABSW s = (if opRd s = 0 then s else run_lanes 4 PABSW_lane s)"

definition PCEQW_lane :: "nat \<Rightarrow> cpuRegisters \<Rightarrow> cpuRegisters" where
  "PCEQW_lane n s = wr (opRd s) n
     (if UL (rs s) n = UL (rt s) n then 0xFFFFFFFF else 0 :: u32) s"

definition PCEQW :: "cpuRegisters \<Rightarrow> cpuRegisters" where
  "PCEQW s = (if opRd s = 0 then s else run_lanes 4 PCEQW_lane s)"

definition PMINW_lane :: "nat \<Rightarrow> cpuRegisters \<Rightarrow> cpuRegisters" where
  "PMINW_lane n s = wr (opRd s) n
     (if sint (UL (rs s) n) < sint (UL (rt s) n) then UL (rs s) n else UL (rt s) n :: u32) s"

definition PMINW :: "cpuRegisters \<Rightarrow> cpuRegisters" where
  "PMINW s = (if opRd s = 0 then s else run_lanes 4 PMINW_lane s)"

definition PADSBH :: "cpuRegisters \<Rightarrow> cpuRegisters" where
  "PADSBH s = (if opRd s = 0 then s
     else fold PADDH_lane [4, 5, 6, 7] (fold PSUBH_lane [0, 1, 2, 3] s))"

definition PABSH_lane :: "nat \<Rightarrow> cpuRegisters \<Rightarrow> cpuRegisters" where
  "PABSH_lane n s = wr (opRd s) n
     (if US (rt s) n = 0x8000 then 0x7fff else if sint (US (rt s) n) < 0 then - (US (rt s) n) else US (rt s) n :: u16) s"

definition PABSH :: "cpuRegisters \<Rightarrow> cpuRegisters" where
  "PABSH s = (if opRd s = 0 then s else run_lanes 8 PABSH_lane s)"

definition PCEQH_lane :: "nat \<Rightarrow> cpuRegisters \<Rightarrow> cpuRegisters" where
  "PCEQH_lane n s = wr (opRd s) n
     (if US (rs s) n = US (rt s) n then 0xFFFF else 0 :: u16) s"

definition PCEQH :: "cpuRegisters \<Rightarrow> cpuRegisters" where
  "PCEQH s = (if opRd s = 0 then s else run_lanes 8 PCEQH_lane s)"

definition PMINH_lane :: "nat \<Rightarrow> cpuRegisters \<Rightarrow> cpuRegisters" where
  "PMINH_lane n s = wr (opRd s) n
     (if sint (US (rs s) n) < sint (US (rt s) n) then US (rs s) n else US (rt s) n :: u16) s"

definition PMINH :: "cpuRegisters \<Rightarrow> cpuRegisters" where
  "PMINH s = (if opRd s = 0 then s else run_lanes 8 PMINH_lane s)"

definition PCEQB_lane :: "nat \<Rightarrow> cpuRegisters \<Rightarrow> cpuRegisters" where
  "PCEQB_lane n s = wr (opRd s) n
     (if UC (rs s) n = UC (rt s) n then 0xFF else 0 :: u8) s"

definition PCEQB :: "cpuRegisters \<Rightarrow> cpuRegisters" where
  "PCEQB s = (if opRd s = 0 then s else run_lanes 16 PCEQB_lane s)"

definition PADDUW_lane :: "nat \<Rightarrow> cpuRegisters \<Rightarrow> cpuRegisters" where
  "PADDUW_lane n s = (let temp = uint (UL (rs s) n) + uint (UL (rt s) n) in
     wr (opRd s) n (if temp > 0xffffffff then 0xffffffff else word_of_int temp :: u32) s)"

definition PADDUW :: "cpuRegisters \<Rightarrow> cpuRegisters" where
  "PADDUW s = (if opRd s = 0 then s else run_lanes 4 PADDUW_lane s)"

definition PSUBUW_lane :: "nat \<Rightarrow> cpuRegisters \<Rightarrow> cpuRegisters" where
  "PSUBUW_lane n s = (let temp = uint (UL (rs s) n) - uint (UL (rt s) n) in
     wr (opRd s) n (if temp \<le> 0 then 0 else word_of_int temp :: u32) s)"

definition PSUBUW :: "cpuRegisters \<Rightarrow> cpuRegisters" where
  "PSUBUW s = (if opRd s = 0 then s else run_lanes 4 PSUBUW_lane s)"

definition PEXTUW :: "cpuRegisters \<Rightarrow> cpuRegisters" where
  "PEXTUW s = (if opRd s = 0 then s else let a = rs s; b = rt s in
     wr_lanes (opRd s) 0
       [UL b 2, UL a 2, UL b 3, UL a 3] s)"

definition PADDUH_lane :: "nat \<Rightarrow> cpuRegisters \<Rightarrow> cpuRegisters" where
  "PADDUH_lane n s = (let temp = uint (US (rs s) n) + uint (US (rt s) n) in
     wr (opRd s) n (if temp > 0xFFFF then 0xFFFF else word_of_int temp :: u16) s)"

definition PADDUH :: "cpuRegisters \<Rightarrow> cpuRegisters" where
  "PADDUH s = (if opRd s = 0 then s else run_lanes 8 PADDUH_lane s)"

definition PSUBUH_lane :: "nat \<Rightarrow> cpuRegisters \<Rightarrow> cpuRegisters" where
  "PSUBUH_lane n s = (let temp = uint (US (rs s) n) - uint (US (rt s) n) in
     wr (opRd s) n (if temp \<le> 0 then 0 else word_of_int temp :: u16) s)"

definition PSUBUH :: "cpuRegisters \<Rightarrow> cpuRegisters" where
  "PSUBUH s = (if opRd s = 0 then s else run_lanes 8 PSUBUH_lane s)"

definition PEXTUH :: "cpuRegisters \<Rightarrow> cpuRegisters" where
  "PEXTUH s = (if opRd s = 0 then s else let a = rs s; b = rt s in
     wr_lanes (opRd s) 0
       [US b 4, US a 4, US b 5, US a 5, US b 6, US a 6, US b 7, US a 7] s)"

definition PADDUB_lane :: "nat \<Rightarrow> cpuRegisters \<Rightarrow> cpuRegisters" where
  "PADDUB_lane n s = (let temp = uint (UC (rs s) n) + uint (UC (rt s) n) in
     wr (opRd s) n (if temp > 0xFF then 0xFF else word_of_int temp :: u8) s)"

definition PADDUB :: "cpuRegisters \<Rightarrow> cpuRegisters" where
  "PADDUB s = (if opRd s = 0 then s else run_lanes 16 PADDUB_lane s)"

definition PSUBUB_lane :: "nat \<Rightarrow> cpuRegisters \<Rightarrow> cpuRegisters" where
  "PSUBUB_lane n s = (let temp = uint (UC (rs s) n) - uint (UC (rt s) n) in
     wr (opRd s) n (if temp \<le> 0 then 0 else word_of_int temp :: u8) s)"

definition PSUBUB :: "cpuRegisters \<Rightarrow> cpuRegisters" where
  "PSUBUB s = (if opRd s = 0 then s else run_lanes 16 PSUBUB_lane s)"

definition PEXTUB :: "cpuRegisters \<Rightarrow> cpuRegisters" where
  "PEXTUB s = (if opRd s = 0 then s else let a = rs s; b = rt s in
     wr_lanes (opRd s) 0
       [UC b 8, UC a 8, UC b 9, UC a 9, UC b 10, UC a 10, UC b 11, UC a 11,
        UC b 12, UC a 12, UC b 13, UC a 13, UC b 14, UC a 14, UC b 15, UC a 15] s)"

definition QFSRV :: "cpuRegisters \<Rightarrow> cpuRegisters" where
  "QFSRV s = (if opRd s = 0 then s else
     let sa_amt = unat (push_bit 3 (sa s)) in
     if sa_amt = 0 then
       let s1 = wr (opRd s) 0 (UD (rt s) 0) s in wr (opRd s) 1 (UD (rt s1) 1) s1
     else if sa_amt < 64 then
       wr_lanes (opRd s) 0
         [drop_bit sa_amt (UD (rt s) 0) OR push_bit (64 - sa_amt) (UD (rt s) 1),
          drop_bit sa_amt (UD (rt s) 1) OR push_bit (64 - sa_amt) (UD (rs s) 0)] s
     else
       wr_lanes (opRd s) 0
         [if sa_amt \<noteq> 64
          then drop_bit (sa_amt - 64) (UD (rt s) 1) OR push_bit (128 - sa_amt) (UD (rs s) 0)
          else drop_bit (sa_amt - 64) (UD (rt s) 1),
          if sa_amt \<noteq> 64
          then drop_bit (sa_amt - 64) (UD (rs s) 0) OR push_bit (128 - sa_amt) (UD (rs s) 1)
          else drop_bit (sa_amt - 64) (UD (rs s) 0)] s)"

subsection \<open>MMI2\<close>

definition PMADDW_lane :: "nat \<Rightarrow> nat \<Rightarrow> cpuRegisters \<Rightarrow> cpuRegisters" where
  "PMADDW_lane dd ss s =
     (let product = (scast (UL (rs s) ss) * scast (UL (rt s) ss) :: u64);
          result = hilo ss s + product;
          s1 = wrHI dd (scast (ucast (drop_bit 32 result) :: u32) :: u64)
                 (wrLO dd (scast (ucast result :: u32) :: u64) s) in
      if opRd s \<noteq> 0 then
        let s2 = wr (opRd s) (dd * 2) (UL (LO s1) (dd * 2)) s1
        in wr (opRd s) (dd * 2 + 1) (UL (HI s2) (dd * 2)) s2
      else s1)"

definition PMADDW :: "cpuRegisters \<Rightarrow> cpuRegisters" where
  "PMADDW s = PMADDW_lane 1 2 (PMADDW_lane 0 0 s)"

definition PSLLVW :: "cpuRegisters \<Rightarrow> cpuRegisters" where
  "PSLLVW s = (if opRd s = 0 then s else
     let s1 = wr (opRd s) 0
                (scast (push_bit (unat (UL (rs s) 0 AND 0x1F)) (UL (rt s) 0)) :: u64) s
     in wr (opRd s) 1
          (scast (push_bit (unat (UL (rs s1) 2 AND 0x1F)) (UL (rt s1) 2)) :: u64) s1)"

definition PSRLVW :: "cpuRegisters \<Rightarrow> cpuRegisters" where
  "PSRLVW s = (if opRd s = 0 then s else
     let s1 = wr (opRd s) 0
                (scast (drop_bit (unat (UL (rs s) 0 AND 0x1F)) (UL (rt s) 0)) :: u64) s
     in wr (opRd s) 1
          (scast (drop_bit (unat (UL (rs s1) 2 AND 0x1F)) (UL (rt s1) 2)) :: u64) s1)"

definition PMSUBW_lane :: "nat \<Rightarrow> nat \<Rightarrow> cpuRegisters \<Rightarrow> cpuRegisters" where
  "PMSUBW_lane dd ss s =
     (let product = (scast (UL (rs s) ss) * scast (UL (rt s) ss) :: u64);
          result = hilo ss s - product;
          s1 = wrHI dd (scast (ucast (drop_bit 32 result) :: u32) :: u64)
                 (wrLO dd (scast (ucast result :: u32) :: u64) s) in
      if opRd s \<noteq> 0 then
        let s2 = wr (opRd s) (dd * 2) (UL (LO s1) (dd * 2)) s1
        in wr (opRd s) (dd * 2 + 1) (UL (HI s2) (dd * 2)) s2
      else s1)"

definition PMSUBW :: "cpuRegisters \<Rightarrow> cpuRegisters" where
  "PMSUBW s = PMSUBW_lane 1 2 (PMSUBW_lane 0 0 s)"

definition PMFHI :: "cpuRegisters \<Rightarrow> cpuRegisters" where
  "PMFHI s = (if opRd s = 0 then s else wr_lanes (opRd s) 0 [UD (HI s) 0, UD (HI s) 1] s)"

definition PMFLO :: "cpuRegisters \<Rightarrow> cpuRegisters" where
  "PMFLO s = (if opRd s = 0 then s else wr_lanes (opRd s) 0 [UD (LO s) 0, UD (LO s) 1] s)"

definition PINTH :: "cpuRegisters \<Rightarrow> cpuRegisters" where
  "PINTH s = (if opRd s = 0 then s else let a = rs s; b = rt s in
     wr_lanes (opRd s) 0
       [US b 0, US a 4, US b 1, US a 5, US b 2, US a 6, US b 3, US a 7] s)"

definition PMULTW_lane :: "nat \<Rightarrow> nat \<Rightarrow> cpuRegisters \<Rightarrow> cpuRegisters" where
  "PMULTW_lane dd ss s =
     (let temp = (scast (UL (rs s) ss) * scast (UL (rt s) ss) :: u64); s1 = split_hilo dd temp s in
      if opRd s \<noteq> 0 then wr (opRd s) dd temp s1 else s1)"

definition PMULTW :: "cpuRegisters \<Rightarrow> cpuRegisters" where
  "PMULTW s = PMULTW_lane 1 2 (PMULTW_lane 0 0 s)"

definition PDIVW_lane :: "nat \<Rightarrow> nat \<Rightarrow> cpuRegisters \<Rightarrow> cpuRegisters" where
  "PDIVW_lane dd ss s = div_words dd (UL (rs s) ss) (UL (rt s) ss) s"

definition PDIVW :: "cpuRegisters \<Rightarrow> cpuRegisters" where
  "PDIVW s = PDIVW_lane 1 2 (PDIVW_lane 0 0 s)"

definition PCPYLD :: "cpuRegisters \<Rightarrow> cpuRegisters" where
  "PCPYLD s = (if opRd s = 0 then s else
     let s1 = wr (opRd s) 1 (UD (rs s) 0) s in wr (opRd s) 0 (UD (rt s1) 0) s1)"

text \<open>A 16-bit product, exact in 32 bits.\<close>

definition prodH :: "nat \<Rightarrow> cpuRegisters \<Rightarrow> u32" where
  "prodH n s = scast (US (rs s) n) * scast (US (rt s) n)"

text \<open>The closing assignments of the halfword multiplies.\<close>

definition fold_hilo_rd :: "cpuRegisters \<Rightarrow> cpuRegisters" where
  "fold_hilo_rd s = (if opRd s \<noteq> 0
     then wr_lanes (opRd s) 0 [UL (LO s) 0, UL (HI s) 0, UL (LO s) 2, UL (HI s) 2] s else s)"

definition PMADDH :: "cpuRegisters \<Rightarrow> cpuRegisters" where
  "PMADDH s =
     (let s1 = wrLO 0 (UL (LO s) 0 + prodH 0 s) s;
          s2 = wrLO 1 (UL (LO s1) 1 + prodH 1 s1) s1;
          s3 = wrHI 0 (UL (HI s2) 0 + prodH 2 s2) s2;
          s4 = wrHI 1 (UL (HI s3) 1 + prodH 3 s3) s3;
          s5 = wrLO 2 (UL (LO s4) 2 + prodH 4 s4) s4;
          s6 = wrLO 3 (UL (LO s5) 3 + prodH 5 s5) s5;
          s7 = wrHI 2 (UL (HI s6) 2 + prodH 6 s6) s6;
          s8 = wrHI 3 (UL (HI s7) 3 + prodH 7 s7) s7
      in fold_hilo_rd s8)"

definition PHMADH_LO :: "nat \<Rightarrow> nat \<Rightarrow> cpuRegisters \<Rightarrow> cpuRegisters" where
  "PHMADH_LO dd n s =
     (let firsttemp = prodH (n + 1) s; temp = firsttemp + prodH n s
      in wrLO (dd + 1) (firsttemp) (wrLO dd temp s))"

definition PHMADH_HI :: "nat \<Rightarrow> nat \<Rightarrow> cpuRegisters \<Rightarrow> cpuRegisters" where
  "PHMADH_HI dd n s =
     (let firsttemp = prodH (n + 1) s; temp = firsttemp + prodH n s
      in wrHI (dd + 1) (firsttemp) (wrHI dd temp s))"

definition PHMADH :: "cpuRegisters \<Rightarrow> cpuRegisters" where
  "PHMADH s = fold_hilo_rd (PHMADH_HI 2 6 (PHMADH_LO 2 4 (PHMADH_HI 0 2 (PHMADH_LO 0 0 s))))"

definition PAND :: "cpuRegisters \<Rightarrow> cpuRegisters" where
  "PAND s = (if opRd s = 0 then s else
     let s1 = wr (opRd s) 0 (UD (rs s) 0 AND UD (rt s) 0) s
     in wr (opRd s) 1 (UD (rs s1) 1 AND UD (rt s1) 1) s1)"

definition PXOR :: "cpuRegisters \<Rightarrow> cpuRegisters" where
  "PXOR s = (if opRd s = 0 then s else
     let s1 = wr (opRd s) 0 (UD (rs s) 0 XOR UD (rt s) 0) s
     in wr (opRd s) 1 (UD (rs s1) 1 XOR UD (rt s1) 1) s1)"

definition PMSUBH :: "cpuRegisters \<Rightarrow> cpuRegisters" where
  "PMSUBH s =
     (let s1 = wrLO 0 (UL (LO s) 0 - prodH 0 s) s;
          s2 = wrLO 1 (UL (LO s1) 1 - prodH 1 s1) s1;
          s3 = wrHI 0 (UL (HI s2) 0 - prodH 2 s2) s2;
          s4 = wrHI 1 (UL (HI s3) 1 - prodH 3 s3) s3;
          s5 = wrLO 2 (UL (LO s4) 2 - prodH 4 s4) s4;
          s6 = wrLO 3 (UL (LO s5) 3 - prodH 5 s5) s5;
          s7 = wrHI 2 (UL (HI s6) 2 - prodH 6 s6) s6;
          s8 = wrHI 3 (UL (HI s7) 3 - prodH 7 s7) s7
      in fold_hilo_rd s8)"

definition PHMSBH_LO :: "nat \<Rightarrow> nat \<Rightarrow> cpuRegisters \<Rightarrow> cpuRegisters" where
  "PHMSBH_LO dd n s =
     (let firsttemp = prodH (n + 1) s; temp = firsttemp - prodH n s
      in wrLO (dd + 1) (NOT firsttemp) (wrLO dd temp s))"

definition PHMSBH_HI :: "nat \<Rightarrow> nat \<Rightarrow> cpuRegisters \<Rightarrow> cpuRegisters" where
  "PHMSBH_HI dd n s =
     (let firsttemp = prodH (n + 1) s; temp = firsttemp - prodH n s
      in wrHI (dd + 1) (NOT firsttemp) (wrHI dd temp s))"

definition PHMSBH :: "cpuRegisters \<Rightarrow> cpuRegisters" where
  "PHMSBH s = fold_hilo_rd (PHMSBH_HI 2 6 (PHMSBH_LO 2 4 (PHMSBH_HI 0 2 (PHMSBH_LO 0 0 s))))"

definition PEXEH :: "cpuRegisters \<Rightarrow> cpuRegisters" where
  "PEXEH s = (if opRd s = 0 then s else let b = rt s in
     wr_lanes (opRd s) 0
       [US b 2, US b 1, US b 0, US b 3, US b 6, US b 5, US b 4, US b 7] s)"

definition PREVH :: "cpuRegisters \<Rightarrow> cpuRegisters" where
  "PREVH s = (if opRd s = 0 then s else let b = rt s in
     wr_lanes (opRd s) 0
       [US b 3, US b 2, US b 1, US b 0, US b 7, US b 6, US b 5, US b 4] s)"

definition PMULTH :: "cpuRegisters \<Rightarrow> cpuRegisters" where
  "PMULTH s =
     (let s1 = wrLO 0 (prodH 0 s) s;
          s2 = wrLO 1 (prodH 1 s1) s1;
          s3 = wrHI 0 (prodH 2 s2) s2;
          s4 = wrHI 1 (prodH 3 s3) s3;
          s5 = wrLO 2 (prodH 4 s4) s4;
          s6 = wrLO 3 (prodH 5 s5) s5;
          s7 = wrHI 2 (prodH 6 s6) s6;
          s8 = wrHI 3 (prodH 7 s7) s7
      in fold_hilo_rd s8)"

definition PDIVBW_lane :: "nat \<Rightarrow> cpuRegisters \<Rightarrow> cpuRegisters" where
  "PDIVBW_lane n s =
     (let a = UL (rs s) n; b = US (rt s) 0 in
      if a = 0x80000000 \<and> b = 0xffff then
        wrHI n (0 :: u32) (wrLO n (0x80000000 :: u32) s)
      else if b \<noteq> 0 then
        wrHI n (s32_of (smod_trunc (sint a) (sint b))) (wrLO n (s32_of (sdiv_trunc (sint a) (sint b))) s)
      else wrHI n a (wrLO n (if sint a < 0 then 1 else - 1 :: u32) s))"

definition PDIVBW :: "cpuRegisters \<Rightarrow> cpuRegisters" where
  "PDIVBW s = run_lanes 4 PDIVBW_lane s"

definition PEXEW :: "cpuRegisters \<Rightarrow> cpuRegisters" where
  "PEXEW s = (if opRd s = 0 then s else let b = rt s in
     wr_lanes (opRd s) 0
       [UL b 2, UL b 1, UL b 0, UL b 3] s)"

definition PROT3W :: "cpuRegisters \<Rightarrow> cpuRegisters" where
  "PROT3W s = (if opRd s = 0 then s else let b = rt s in
     wr_lanes (opRd s) 0
       [UL b 1, UL b 2, UL b 0, UL b 3] s)"

subsection \<open>MMI3\<close>

definition PMADDUW_lane :: "nat \<Rightarrow> nat \<Rightarrow> cpuRegisters \<Rightarrow> cpuRegisters" where
  "PMADDUW_lane dd ss s =
     (let tempu = hilo ss s + ucast (UL (rs s) ss) * ucast (UL (rt s) ss); s1 = split_hilo dd tempu s in
      if opRd s \<noteq> 0 then wr (opRd s) dd tempu s1 else s1)"

definition PMADDUW :: "cpuRegisters \<Rightarrow> cpuRegisters" where
  "PMADDUW s = PMADDUW_lane 1 2 (PMADDUW_lane 0 0 s)"

definition PSRAVW :: "cpuRegisters \<Rightarrow> cpuRegisters" where
  "PSRAVW s = (if opRd s = 0 then s else
     let s1 = wr (opRd s) 0
                (scast (signed_drop_bit (unat (UL (rs s) 0 AND 0x1F)) (UL (rt s) 0)) :: u64) s
     in wr (opRd s) 1
          (scast (signed_drop_bit (unat (UL (rs s1) 2 AND 0x1F)) (UL (rt s1) 2)) :: u64) s1)"

definition PMTHI :: "cpuRegisters \<Rightarrow> cpuRegisters" where
  "PMTHI s = wrHI 1 (UD (rs s) 1) (wrHI 0 (UD (rs s) 0) s)"

definition PMTLO :: "cpuRegisters \<Rightarrow> cpuRegisters" where
  "PMTLO s = wrLO 1 (UD (rs s) 1) (wrLO 0 (UD (rs s) 0) s)"

definition PINTEH :: "cpuRegisters \<Rightarrow> cpuRegisters" where
  "PINTEH s = (if opRd s = 0 then s else let a = rs s; b = rt s in
     wr_lanes (opRd s) 0
       [US b 0, US a 0, US b 2, US a 2, US b 4, US a 4, US b 6, US a 6] s)"

definition PMULTUW_lane :: "nat \<Rightarrow> nat \<Rightarrow> cpuRegisters \<Rightarrow> cpuRegisters" where
  "PMULTUW_lane dd ss s =
     (let tempu = (ucast (UL (rs s) ss) * ucast (UL (rt s) ss) :: u64); s1 = split_hilo dd tempu s in
      if opRd s \<noteq> 0 then wr (opRd s) dd tempu s1 else s1)"

definition PMULTUW :: "cpuRegisters \<Rightarrow> cpuRegisters" where
  "PMULTUW s = PMULTUW_lane 1 2 (PMULTUW_lane 0 0 s)"

definition PDIVUW_lane :: "nat \<Rightarrow> nat \<Rightarrow> cpuRegisters \<Rightarrow> cpuRegisters" where
  "PDIVUW_lane dd ss s = divu_words dd (UL (rs s) ss) (UL (rt s) ss) s"

definition PDIVUW :: "cpuRegisters \<Rightarrow> cpuRegisters" where
  "PDIVUW s = PDIVUW_lane 1 2 (PDIVUW_lane 0 0 s)"

definition PCPYUD :: "cpuRegisters \<Rightarrow> cpuRegisters" where
  "PCPYUD s = (if opRd s = 0 then s else
     let s1 = wr (opRd s) 0 (UD (rs s) 1) s in wr (opRd s) 1 (UD (rt s1) 1) s1)"

definition POR :: "cpuRegisters \<Rightarrow> cpuRegisters" where
  "POR s = (if opRd s = 0 then s else
     let s1 = wr (opRd s) 0 (UD (rs s) 0 OR UD (rt s) 0) s
     in wr (opRd s) 1 (UD (rs s1) 1 OR UD (rt s1) 1) s1)"

definition PNOR :: "cpuRegisters \<Rightarrow> cpuRegisters" where
  "PNOR s = (if opRd s = 0 then s else
     let s1 = wr (opRd s) 0 (NOT (UD (rs s) 0 OR UD (rt s) 0)) s
     in wr (opRd s) 1 (NOT (UD (rs s1) 1 OR UD (rt s1) 1)) s1)"

definition PEXCH :: "cpuRegisters \<Rightarrow> cpuRegisters" where
  "PEXCH s = (if opRd s = 0 then s else let b = rt s in
     wr_lanes (opRd s) 0
       [US b 0, US b 2, US b 1, US b 3, US b 4, US b 6, US b 5, US b 7] s)"

definition PCPYH :: "cpuRegisters \<Rightarrow> cpuRegisters" where
  "PCPYH s = (if opRd s = 0 then s else let b = rt s in
     wr_lanes (opRd s) 0
       [US b 0, US b 0, US b 0, US b 0, US b 4, US b 4, US b 4, US b 4] s)"

definition PEXCW :: "cpuRegisters \<Rightarrow> cpuRegisters" where
  "PEXCW s = (if opRd s = 0 then s else let b = rt s in
     wr_lanes (opRd s) 0
       [UL b 0, UL b 2, UL b 1, UL b 3] s)"

end
