(* ===== verification/EE_MMI_Lanes.thy ===== *)
theory EE_MMI_Lanes
  imports EE_MMI
begin

text \<open>
  What the lane-wise multimedia instructions compute. The locale \<open>lanewise_op\<close> is the
  contract of an instruction that runs one lane function over all lanes of the destination;
  its lemmas say that the sequential execution computes every lane from the operands as they
  were before the instruction, also when the destination is one of the sources. It is
  interpreted on every such instruction of MMI.cpp, and the tables at the end pair the
  instructions with the arithmetic they implement.
\<close>

subsection \<open>The contract\<close>

text \<open>A register assembled from its lanes, and the specification of a lane-wise instruction:
  it writes \<open>rd\<close> only, never register 0, and every lane of the new value is a function of the
  immediate shift amount and the lanes of \<open>rs\<close> and \<open>rt\<close> in the state before it.\<close>

definition build_lanes :: "nat \<Rightarrow> (nat \<Rightarrow> 'a::len word) \<Rightarrow> u128" where
  "build_lanes k h = fold (\<lambda>n. set_lane n (h n)) [0..<k] 0"

definition computes_lanes ::
  "nat \<Rightarrow> (cpuRegisters \<Rightarrow> cpuRegisters) \<Rightarrow> (nat \<Rightarrow> 'a::len word \<Rightarrow> 'a word \<Rightarrow> 'a word) \<Rightarrow> bool" where
  "computes_lanes k f g \<longleftrightarrow>
     (\<forall>s. f s = (if opRd s = 0 then s else
        s\<lparr>GPR := (GPR s)(opRd s :=
          build_lanes k (\<lambda>n. g (opSa s) (lane n (rs s)) (lane n (rt s))))\<rparr>))"

lemma lane_fold_set_lane:
  assumes "m * LENGTH('a::len) \<le> 128"
  shows "lane n (fold (\<lambda>n. set_lane n (h n :: 'a word)) [0..<m] w) = (if n < m then h n else lane n w)"
  using assms
proof (induction m)
  case (Suc m)
  then show ?case by (cases "n = m") (auto simp: less_Suc_eq)
qed simp

lemma lane_build_lanes [simp]:
  assumes "n < k" and "k * LENGTH('a::len) \<le> 128"
  shows "lane n (build_lanes k h) = (h n :: 'a word)"
  using assms by (simp add: build_lanes_def lane_fold_set_lane)

locale lanewise_op =
  fixes instr :: "cpuRegisters \<Rightarrow> cpuRegisters"
    and step :: "nat \<Rightarrow> cpuRegisters \<Rightarrow> cpuRegisters"
    and g :: "nat \<Rightarrow> 'a::len word \<Rightarrow> 'a word \<Rightarrow> 'a word"
    and k :: nat
  assumes instr_eq: "instr s = (if opRd s = 0 then s else run_lanes k step s)"
    and step_eq: "step n s = wr (opRd s) n (g (opSa s) (lane n (rs s)) (lane n (rt s))) s"
    and width: "k * LENGTH('a) = 128"
begin

lemma fold_shape: "m \<le> k \<Longrightarrow>
   fold step [0..<m] s = s\<lparr>GPR := (GPR s)(opRd s := GPR (fold step [0..<m] s) (opRd s))\<rparr> \<and>
   (\<forall>n. lane n (GPR (fold step [0..<m] s) (opRd s)) =
      (if n < m then g (opSa s) (lane n (rs s)) (lane n (rt s)) else (lane n (rd s) :: 'a word)))"
proof (induction m)
  case 0
  then show ?case by simp
next
  case (Suc m)
  let ?t = "fold step [0..<m] s" and ?d = "opRd s"
  note IH = Suc.IH [OF Suc_leD [OF Suc.prems]]
  have shape: "?t = s\<lparr>GPR := (GPR s)(?d := GPR ?t ?d)\<rparr>"
    and lanes: "\<And>n. lane n (GPR ?t ?d) =
      (if n < m then g (opSa s) (lane n (rs s)) (lane n (rt s)) else (lane n (rd s) :: 'a word))"
    using IH by blast+
  have op: "opRd ?t = ?d" "opRs ?t = opRs s" "opRt ?t = opRt s" "opSa ?t = opSa s"
    by (subst shape, simp add: opRd_def opRs_def opRt_def opSa_def)+
  have src: "lane m (GPR ?t q) = (lane m (GPR s q) :: 'a word)" for q
  proof (cases "q = ?d")
    case True
    with lanes [of m] show ?thesis by simp
  next
    case False
    then show ?thesis by (subst shape) simp
  qed
  have step: "fold step [0..<Suc m] s =
      wr ?d m (g (opSa s) (lane m (rs s)) (lane m (rt s))) ?t" (is "_ = wr _ _ ?v _")
    by (simp add: step_eq op src)
  have fits: "Suc m * LENGTH('a) \<le> 128"
    using Suc.prems width by (metis mult_le_mono1)
  have "wr ?d m ?v ?t = ?t\<lparr>GPR := (GPR ?t)(?d := set_lane m ?v (GPR ?t ?d))\<rparr>"
    by (simp add: wr_def)
  also have "\<dots> = s\<lparr>GPR := (GPR s)(?d := set_lane m ?v (GPR ?t ?d))\<rparr>"
    by (subst shape, subst shape) simp
  finally have "fold step [0..<Suc m] s = s\<lparr>GPR := (GPR s)(?d := set_lane m ?v (GPR ?t ?d))\<rparr>"
    by (simp only: step)
  moreover have "lane n (set_lane m ?v (GPR ?t ?d)) =
      (if n < Suc m then g (opSa s) (lane n (rs s)) (lane n (rt s)) else (lane n (rd s) :: 'a word))" for n
    using lanes [of n] fits by (cases "n = m") auto
  ultimately show ?case by (simp add: fun_upd_def)
qed

lemma lanes: "opRd s \<noteq> 0 \<Longrightarrow> n < k \<Longrightarrow>
   lane n (GPR (instr s) (opRd s)) = g (opSa s) (lane n (rs s)) (lane n (rt s) :: 'a word)"
  using fold_shape [of k s] by (simp add: instr_eq run_lanes_def)

lemma frame: "instr s = s\<lparr>GPR := (GPR s)(opRd s := GPR (instr s) (opRd s))\<rparr>"
  using fold_shape [of k s] by (cases "opRd s = 0") (simp_all add: instr_eq run_lanes_def)

lemma computes: "computes_lanes k instr g"
proof -
  have "instr s = s\<lparr>GPR := (GPR s)(opRd s :=
      build_lanes k (\<lambda>n. g (opSa s) (lane n (rs s)) (lane n (rt s))))\<rparr>" if "opRd s \<noteq> 0" for s
  proof -
    have "GPR (instr s) (opRd s) = build_lanes k (\<lambda>n. g (opSa s) (lane n (rs s)) (lane n (rt s)))"
      by (rule lane_eqI [where 'a = 'a and k = k])
        (use that width in \<open>simp_all add: lanes mult.commute\<close>)
    with frame [of s] show ?thesis by simp
  qed
  then show ?thesis by (auto simp: computes_lanes_def instr_eq)
qed

lemma zero_dest: "opRd s = 0 \<Longrightarrow> instr s = s"
  by (simp add: instr_eq)

lemma keeps_zero_reg: "zero_reg s \<Longrightarrow> zero_reg (instr s)"
  by (cases "opRd s = 0") (simp add: instr_eq, subst frame, simp add: zero_reg_def)

end

subsection \<open>Saturation\<close>

definition sat_s :: "int \<Rightarrow> 'a::len word" where
  "sat_s i = word_of_int (max (- (2 ^ (LENGTH('a) - 1))) (min (2 ^ (LENGTH('a) - 1) - 1) i))"

definition sat_u :: "int \<Rightarrow> 'a::len word" where
  "sat_u i = word_of_int (max 0 (min (2 ^ LENGTH('a) - 1) i))"

named_theorems mmi_spec \<open>code of a lane rewritten to its arithmetic meaning\<close>

lemma sat_s_u32 [mmi_spec]:
  "(if i > 0x7FFFFFFF then 0x7FFFFFFF else if i < - 0x80000000 then 0x80000000 else word_of_int i) = (sat_s i :: u32)"
  "(if i \<ge> 0x7FFFFFFF then 0x7FFFFFFF else if i < - 0x80000000 then 0x80000000 else word_of_int i) = (sat_s i :: u32)"
  by (auto simp: sat_s_def max_def min_def)

lemma sat_s_u16 [mmi_spec]:
  "(if i > 0x7FFF then 0x7FFF else if i < - 0x8000 then 0x8000 else word_of_int i) = (sat_s i :: u16)"
  "(if i \<ge> 0x7FFF then 0x7FFF else if i < - 0x8000 then 0x8000 else word_of_int i) = (sat_s i :: u16)"
  by (auto simp: sat_s_def max_def min_def)

lemma sat_s_u8 [mmi_spec]:
  "(if i > 0x7F then 0x7F else if i < - 0x80 then 0x80 else word_of_int i) = (sat_s i :: u8)"
  "(if i \<ge> 0x7F then 0x7F else if i < - 0x80 then 0x80 else word_of_int i) = (sat_s i :: u8)"
  by (auto simp: sat_s_def max_def min_def)

lemma sat_u_sub [mmi_spec]:
  fixes a b :: "'a::len word"
  shows "(if uint a - uint b \<le> 0 then 0 else word_of_int (uint a - uint b)) = (sat_u (uint a - uint b) :: 'a word)"
proof -
  have "uint a < 2 ^ LENGTH('a)" "0 \<le> uint b" by simp_all
  then have "uint a - uint b \<le> 2 ^ LENGTH('a) - 1" by linarith
  then have "min (2 ^ LENGTH('a) - 1) (uint a - uint b) = uint a - uint b" by (rule min_absorb2)
  then show ?thesis by (auto simp: sat_u_def max_def)
qed

lemma sat_u_add [mmi_spec]:
  "(if uint a + uint b > 0xffffffff then 0xffffffff else word_of_int (uint a + uint b)) = (sat_u (uint a + uint b) :: u32)"
  "(if uint c + uint d > 0xffff then 0xffff else word_of_int (uint c + uint d)) = (sat_u (uint c + uint d) :: u16)"
  "(if uint e + uint f > 0xff then 0xff else word_of_int (uint e + uint f)) = (sat_u (uint e + uint f) :: u8)"
  for a b :: u32 and c d :: u16 and e f :: u8
  using uint_ge_0 [of a] uint_ge_0 [of b] uint_ge_0 [of c] uint_ge_0 [of d] uint_ge_0 [of e] uint_ge_0 [of f]
  by (auto simp: sat_u_def max_def min_def)

lemma sat_u_sub_nf [mmi_spec]:
  fixes a b :: "'a::len word"
  shows "uint a \<le> uint b \<Longrightarrow> sat_u (uint a - uint b) = (0 :: 'a word)"
    and "\<not> uint a \<le> uint b \<Longrightarrow> sat_u (uint a - uint b) = a - b"
  by (simp_all flip: sat_u_sub)

lemma ones_word [mmi_spec]:
  "(0xFFFFFFFF :: u32) = - 1" "(0xFFFF :: u16) = - 1" "(0xFF :: u8) = - 1"
  by simp_all

lemma max_min_word [mmi_spec]:
  "(if sint a > sint b then a else b) = (word_of_int (max (sint a) (sint b)) :: 'a::len word)"
  "(if sint a < sint b then a else b) = (word_of_int (min (sint a) (sint b)) :: 'a::len word)"
  by (auto simp: max_def min_def)

lemma abs_sat:
  fixes b :: "'a::len word"
  assumes "sint b \<noteq> - (2 ^ (LENGTH('a) - 1))"
  shows "(if sint b < 0 then - b else b) = sat_s \<bar>sint b\<bar>"
proof -
  have "- (2 ^ (LENGTH('a) - 1)) \<le> sint b" "sint b < 2 ^ (LENGTH('a) - 1)"
    by (rule sint_ge, rule sint_lt)
  with assms have "\<bar>sint b\<bar> \<le> 2 ^ (LENGTH('a) - 1) - 1" by linarith
  then have "sat_s \<bar>sint b\<bar> = (word_of_int \<bar>sint b\<bar> :: 'a word)"
    by (simp add: sat_s_def min_absorb2 max_absorb2)
  then show ?thesis by (auto simp: abs_if)
qed

lemma abs_word [mmi_spec]:
  "(if b = 0x80000000 then 0x7fffffff else if sint b < 0 then - b else b) = (sat_s \<bar>sint b\<bar> :: u32)"
  "(if c = 0x8000 then 0x7fff else if sint c < 0 then - c else c) = (sat_s \<bar>sint c\<bar> :: u16)"
proof -
  have b: "b = 0x80000000" if "sint b = - 0x80000000"
    using word_eq_of_sint [OF that] by simp
  show "(if b = 0x80000000 then 0x7fffffff else if sint b < 0 then - b else b) = (sat_s \<bar>sint b\<bar> :: u32)"
  proof (cases "b = 0x80000000")
    case True
    then show ?thesis by (simp add: sat_s_def)
  next
    case False
    with b have "sint b \<noteq> - 0x80000000" by blast
    with False abs_sat [of b] show ?thesis by simp
  qed
  have c: "c = 0x8000" if "sint c = - 0x8000"
    using word_eq_of_sint [OF that] by simp
  show "(if c = 0x8000 then 0x7fff else if sint c < 0 then - c else c) = (sat_s \<bar>sint c\<bar> :: u16)"
  proof (cases "c = 0x8000")
    case True
    then show ?thesis by (simp add: sat_s_def)
  next
    case False
    with c have "sint c \<noteq> - 0x8000" by blast
    with False abs_sat [of c] show ?thesis by simp
  qed
qed

subsection \<open>Interpretations\<close>

definition ext5 :: "u32 \<Rightarrow> u32" where
  "ext5 b = push_bit 3 (b AND 0x0000001F) OR push_bit 6 (b AND 0x000003E0) OR
     push_bit 9 (b AND 0x00007C00) OR push_bit 16 (b AND 0x00008000)"

definition pac5 :: "u32 \<Rightarrow> u32" where
  "pac5 b = (drop_bit 3 b AND 0x0000001F) OR (drop_bit 6 b AND 0x000003E0) OR
     (drop_bit 9 b AND 0x00007C00) OR (drop_bit 16 b AND 0x00008000)"

lemma shift_words [mmi_spec]:
  "push_bit n b = b * 2 ^ n"
  "drop_bit n b = word_of_int (uint b div 2 ^ n)"
  "signed_drop_bit n b = word_of_int (sint b div 2 ^ n)" for b :: "'a::len word"
proof -
  show "push_bit n b = b * 2 ^ n" by (rule push_bit_eq_mult)
  have "uint (drop_bit n b) = uint b div 2 ^ n"
    using drop_bit_eq_div [of n "uint b"] by (simp add: unsigned_drop_bit_eq take_bit_int_eq_self)
  then show "drop_bit n b = word_of_int (uint b div 2 ^ n)"
    by (metis word_of_int_uint)
  have "sint (signed_drop_bit n b) = sint b div 2 ^ n"
    by (simp add: sint_signed_drop_bit_eq drop_bit_eq_div)
  then show "signed_drop_bit n b = word_of_int (sint b div 2 ^ n)"
    by (rule word_eq_of_sint)
qed

interpretation PSLLH: lanewise_op PSLLH PSLLH_lane "(\<lambda>n a b. b * 2 ^ (n mod 16)) :: nat \<Rightarrow> u16 \<Rightarrow> u16 \<Rightarrow> u16" 8
  by unfold_locales (simp_all add: PSLLH_def PSLLH_lane_def Let_def mmi_spec)

interpretation PSRLH: lanewise_op PSRLH PSRLH_lane "(\<lambda>n a b. word_of_int (uint b div 2 ^ (n mod 16))) :: nat \<Rightarrow> u16 \<Rightarrow> u16 \<Rightarrow> u16" 8
  by unfold_locales (simp_all add: PSRLH_def PSRLH_lane_def Let_def mmi_spec)

interpretation PSRAH: lanewise_op PSRAH PSRAH_lane "(\<lambda>n a b. word_of_int (sint b div 2 ^ (n mod 16))) :: nat \<Rightarrow> u16 \<Rightarrow> u16 \<Rightarrow> u16" 8
  by unfold_locales (simp_all add: PSRAH_def PSRAH_lane_def Let_def mmi_spec)

interpretation PSLLW: lanewise_op PSLLW PSLLW_lane "(\<lambda>n a b. b * 2 ^ (n)) :: nat \<Rightarrow> u32 \<Rightarrow> u32 \<Rightarrow> u32" 4
  by unfold_locales (simp_all add: PSLLW_def PSLLW_lane_def Let_def mmi_spec)

interpretation PSRLW: lanewise_op PSRLW PSRLW_lane "(\<lambda>n a b. word_of_int (uint b div 2 ^ (n))) :: nat \<Rightarrow> u32 \<Rightarrow> u32 \<Rightarrow> u32" 4
  by unfold_locales (simp_all add: PSRLW_def PSRLW_lane_def Let_def mmi_spec)

interpretation PSRAW: lanewise_op PSRAW PSRAW_lane "(\<lambda>n a b. word_of_int (sint b div 2 ^ (n))) :: nat \<Rightarrow> u32 \<Rightarrow> u32 \<Rightarrow> u32" 4
  by unfold_locales (simp_all add: PSRAW_def PSRAW_lane_def Let_def mmi_spec)

interpretation PADDW: lanewise_op PADDW PADDW_lane "(\<lambda>n a b. a + b) :: nat \<Rightarrow> u32 \<Rightarrow> u32 \<Rightarrow> u32" 4
  by unfold_locales (simp_all add: PADDW_def PADDW_lane_def Let_def mmi_spec)

interpretation PSUBW: lanewise_op PSUBW PSUBW_lane "(\<lambda>n a b. a - b) :: nat \<Rightarrow> u32 \<Rightarrow> u32 \<Rightarrow> u32" 4
  by unfold_locales (simp_all add: PSUBW_def PSUBW_lane_def Let_def mmi_spec)

interpretation PCGTW: lanewise_op PCGTW PCGTW_lane "(\<lambda>n a b. if sint a > sint b then - 1 else 0) :: nat \<Rightarrow> u32 \<Rightarrow> u32 \<Rightarrow> u32" 4
  by unfold_locales (simp_all add: PCGTW_def PCGTW_lane_def Let_def mmi_spec)

interpretation PCEQW: lanewise_op PCEQW PCEQW_lane "(\<lambda>n a b. if a = b then - 1 else 0) :: nat \<Rightarrow> u32 \<Rightarrow> u32 \<Rightarrow> u32" 4
  by unfold_locales (simp_all add: PCEQW_def PCEQW_lane_def Let_def mmi_spec)

interpretation PADDSW: lanewise_op PADDSW PADDSW_lane "(\<lambda>n a b. sat_s (sint a + sint b)) :: nat \<Rightarrow> u32 \<Rightarrow> u32 \<Rightarrow> u32" 4
  by unfold_locales (simp_all add: PADDSW_def PADDSW_lane_def Let_def mmi_spec)

interpretation PSUBSW: lanewise_op PSUBSW PSUBSW_lane "(\<lambda>n a b. sat_s (sint a - sint b)) :: nat \<Rightarrow> u32 \<Rightarrow> u32 \<Rightarrow> u32" 4
  by unfold_locales (simp_all add: PSUBSW_def PSUBSW_lane_def Let_def mmi_spec)

interpretation PADDUW: lanewise_op PADDUW PADDUW_lane "(\<lambda>n a b. sat_u (uint a + uint b)) :: nat \<Rightarrow> u32 \<Rightarrow> u32 \<Rightarrow> u32" 4
  by unfold_locales (simp_all add: PADDUW_def PADDUW_lane_def Let_def mmi_spec)

interpretation PSUBUW: lanewise_op PSUBUW PSUBUW_lane "(\<lambda>n a b. sat_u (uint a - uint b)) :: nat \<Rightarrow> u32 \<Rightarrow> u32 \<Rightarrow> u32" 4
  by unfold_locales (simp_all add: PSUBUW_def PSUBUW_lane_def Let_def mmi_spec)

interpretation PMAXW: lanewise_op PMAXW PMAXW_lane "(\<lambda>n a b. word_of_int (max (sint a) (sint b))) :: nat \<Rightarrow> u32 \<Rightarrow> u32 \<Rightarrow> u32" 4
  by unfold_locales (simp_all add: PMAXW_def PMAXW_lane_def Let_def mmi_spec)

interpretation PMINW: lanewise_op PMINW PMINW_lane "(\<lambda>n a b. word_of_int (min (sint a) (sint b))) :: nat \<Rightarrow> u32 \<Rightarrow> u32 \<Rightarrow> u32" 4
  by unfold_locales (simp_all add: PMINW_def PMINW_lane_def Let_def mmi_spec)

interpretation PABSW: lanewise_op PABSW PABSW_lane "(\<lambda>n a b. sat_s \<bar>sint b\<bar>) :: nat \<Rightarrow> u32 \<Rightarrow> u32 \<Rightarrow> u32" 4
  by unfold_locales (simp_all add: PABSW_def PABSW_lane_def Let_def mmi_spec)

interpretation PADDH: lanewise_op PADDH PADDH_lane "(\<lambda>n a b. a + b) :: nat \<Rightarrow> u16 \<Rightarrow> u16 \<Rightarrow> u16" 8
  by unfold_locales (simp_all add: PADDH_def PADDH_lane_def Let_def mmi_spec)

interpretation PSUBH: lanewise_op PSUBH PSUBH_lane "(\<lambda>n a b. a - b) :: nat \<Rightarrow> u16 \<Rightarrow> u16 \<Rightarrow> u16" 8
  by unfold_locales (simp_all add: PSUBH_def PSUBH_lane_def Let_def mmi_spec)

interpretation PCGTH: lanewise_op PCGTH PCGTH_lane "(\<lambda>n a b. if sint a > sint b then - 1 else 0) :: nat \<Rightarrow> u16 \<Rightarrow> u16 \<Rightarrow> u16" 8
  by unfold_locales (simp_all add: PCGTH_def PCGTH_lane_def Let_def mmi_spec)

interpretation PCEQH: lanewise_op PCEQH PCEQH_lane "(\<lambda>n a b. if a = b then - 1 else 0) :: nat \<Rightarrow> u16 \<Rightarrow> u16 \<Rightarrow> u16" 8
  by unfold_locales (simp_all add: PCEQH_def PCEQH_lane_def Let_def mmi_spec)

interpretation PADDSH: lanewise_op PADDSH PADDSH_lane "(\<lambda>n a b. sat_s (sint a + sint b)) :: nat \<Rightarrow> u16 \<Rightarrow> u16 \<Rightarrow> u16" 8
  by unfold_locales (simp_all add: PADDSH_def PADDSH_lane_def Let_def mmi_spec)

interpretation PSUBSH: lanewise_op PSUBSH PSUBSH_lane "(\<lambda>n a b. sat_s (sint a - sint b)) :: nat \<Rightarrow> u16 \<Rightarrow> u16 \<Rightarrow> u16" 8
  by unfold_locales (simp_all add: PSUBSH_def PSUBSH_lane_def Let_def mmi_spec)

interpretation PADDUH: lanewise_op PADDUH PADDUH_lane "(\<lambda>n a b. sat_u (uint a + uint b)) :: nat \<Rightarrow> u16 \<Rightarrow> u16 \<Rightarrow> u16" 8
  by unfold_locales (simp_all add: PADDUH_def PADDUH_lane_def Let_def mmi_spec)

interpretation PSUBUH: lanewise_op PSUBUH PSUBUH_lane "(\<lambda>n a b. sat_u (uint a - uint b)) :: nat \<Rightarrow> u16 \<Rightarrow> u16 \<Rightarrow> u16" 8
  by unfold_locales (simp_all add: PSUBUH_def PSUBUH_lane_def Let_def mmi_spec)

interpretation PMAXH: lanewise_op PMAXH PMAXH_lane "(\<lambda>n a b. word_of_int (max (sint a) (sint b))) :: nat \<Rightarrow> u16 \<Rightarrow> u16 \<Rightarrow> u16" 8
  by unfold_locales (simp_all add: PMAXH_def PMAXH_lane_def Let_def mmi_spec)

interpretation PMINH: lanewise_op PMINH PMINH_lane "(\<lambda>n a b. word_of_int (min (sint a) (sint b))) :: nat \<Rightarrow> u16 \<Rightarrow> u16 \<Rightarrow> u16" 8
  by unfold_locales (simp_all add: PMINH_def PMINH_lane_def Let_def mmi_spec)

interpretation PABSH: lanewise_op PABSH PABSH_lane "(\<lambda>n a b. sat_s \<bar>sint b\<bar>) :: nat \<Rightarrow> u16 \<Rightarrow> u16 \<Rightarrow> u16" 8
  by unfold_locales (simp_all add: PABSH_def PABSH_lane_def Let_def mmi_spec)

interpretation PADDB: lanewise_op PADDB PADDB_lane "(\<lambda>n a b. a + b) :: nat \<Rightarrow> u8 \<Rightarrow> u8 \<Rightarrow> u8" 16
  by unfold_locales (simp_all add: PADDB_def PADDB_lane_def Let_def mmi_spec)

interpretation PSUBB: lanewise_op PSUBB PSUBB_lane "(\<lambda>n a b. a - b) :: nat \<Rightarrow> u8 \<Rightarrow> u8 \<Rightarrow> u8" 16
  by unfold_locales (simp_all add: PSUBB_def PSUBB_lane_def Let_def mmi_spec)

interpretation PCGTB: lanewise_op PCGTB PCGTB_lane "(\<lambda>n a b. if sint a > sint b then - 1 else 0) :: nat \<Rightarrow> u8 \<Rightarrow> u8 \<Rightarrow> u8" 16
  by unfold_locales (simp_all add: PCGTB_def PCGTB_lane_def Let_def mmi_spec)

interpretation PCEQB: lanewise_op PCEQB PCEQB_lane "(\<lambda>n a b. if a = b then - 1 else 0) :: nat \<Rightarrow> u8 \<Rightarrow> u8 \<Rightarrow> u8" 16
  by unfold_locales (simp_all add: PCEQB_def PCEQB_lane_def Let_def mmi_spec)

interpretation PADDSB: lanewise_op PADDSB PADDSB_lane "(\<lambda>n a b. sat_s (sint a + sint b)) :: nat \<Rightarrow> u8 \<Rightarrow> u8 \<Rightarrow> u8" 16
  by unfold_locales (simp_all add: PADDSB_def PADDSB_lane_def Let_def mmi_spec)

interpretation PSUBSB: lanewise_op PSUBSB PSUBSB_lane "(\<lambda>n a b. sat_s (sint a - sint b)) :: nat \<Rightarrow> u8 \<Rightarrow> u8 \<Rightarrow> u8" 16
  by unfold_locales (simp_all add: PSUBSB_def PSUBSB_lane_def Let_def mmi_spec)

interpretation PADDUB: lanewise_op PADDUB PADDUB_lane "(\<lambda>n a b. sat_u (uint a + uint b)) :: nat \<Rightarrow> u8 \<Rightarrow> u8 \<Rightarrow> u8" 16
  by unfold_locales (simp_all add: PADDUB_def PADDUB_lane_def Let_def mmi_spec)

interpretation PSUBUB: lanewise_op PSUBUB PSUBUB_lane "(\<lambda>n a b. sat_u (uint a - uint b)) :: nat \<Rightarrow> u8 \<Rightarrow> u8 \<Rightarrow> u8" 16
  by unfold_locales (simp_all add: PSUBUB_def PSUBUB_lane_def Let_def mmi_spec)

interpretation PEXT5: lanewise_op PEXT5 PEXT5_lane "(\<lambda>n a b. ext5 b) :: nat \<Rightarrow> u32 \<Rightarrow> u32 \<Rightarrow> u32" 4
  by unfold_locales (simp_all add: PEXT5_def PEXT5_lane_def ext5_def Let_def)

interpretation PPAC5: lanewise_op PPAC5 PPAC5_lane "(\<lambda>n a b. pac5 b) :: nat \<Rightarrow> u32 \<Rightarrow> u32 \<Rightarrow> u32" 4
  by unfold_locales (simp_all add: PPAC5_def PPAC5_lane_def pac5_def Let_def)

subsection \<open>The tables\<close>

text \<open>Each lane-wise instruction of MMI.cpp with the arithmetic of its mnemonic: \<open>n\<close> is the
  shift amount, \<open>a\<close> and \<open>b\<close> are the lanes of \<open>rs\<close> and \<open>rt\<close>.\<close>

definition mmi_word_ops :: "((cpuRegisters \<Rightarrow> cpuRegisters) \<times> (nat \<Rightarrow> u32 \<Rightarrow> u32 \<Rightarrow> u32)) list" where
  "mmi_word_ops =
    [(PSLLW, \<lambda>n a b. b * 2 ^ (n)),
     (PSRLW, \<lambda>n a b. word_of_int (uint b div 2 ^ (n))),
     (PSRAW, \<lambda>n a b. word_of_int (sint b div 2 ^ (n))),
     (PADDW, \<lambda>n a b. a + b),
     (PSUBW, \<lambda>n a b. a - b),
     (PCGTW, \<lambda>n a b. if sint a > sint b then - 1 else 0),
     (PCEQW, \<lambda>n a b. if a = b then - 1 else 0),
     (PADDSW, \<lambda>n a b. sat_s (sint a + sint b)),
     (PSUBSW, \<lambda>n a b. sat_s (sint a - sint b)),
     (PADDUW, \<lambda>n a b. sat_u (uint a + uint b)),
     (PSUBUW, \<lambda>n a b. sat_u (uint a - uint b)),
     (PMAXW, \<lambda>n a b. word_of_int (max (sint a) (sint b))),
     (PMINW, \<lambda>n a b. word_of_int (min (sint a) (sint b))),
     (PABSW, \<lambda>n a b. sat_s \<bar>sint b\<bar>),
     (PEXT5, \<lambda>n a b. ext5 b),
     (PPAC5, \<lambda>n a b. pac5 b)]"

definition mmi_half_ops :: "((cpuRegisters \<Rightarrow> cpuRegisters) \<times> (nat \<Rightarrow> u16 \<Rightarrow> u16 \<Rightarrow> u16)) list" where
  "mmi_half_ops =
    [(PSLLH, \<lambda>n a b. b * 2 ^ (n mod 16)),
     (PSRLH, \<lambda>n a b. word_of_int (uint b div 2 ^ (n mod 16))),
     (PSRAH, \<lambda>n a b. word_of_int (sint b div 2 ^ (n mod 16))),
     (PADDH, \<lambda>n a b. a + b),
     (PSUBH, \<lambda>n a b. a - b),
     (PCGTH, \<lambda>n a b. if sint a > sint b then - 1 else 0),
     (PCEQH, \<lambda>n a b. if a = b then - 1 else 0),
     (PADDSH, \<lambda>n a b. sat_s (sint a + sint b)),
     (PSUBSH, \<lambda>n a b. sat_s (sint a - sint b)),
     (PADDUH, \<lambda>n a b. sat_u (uint a + uint b)),
     (PSUBUH, \<lambda>n a b. sat_u (uint a - uint b)),
     (PMAXH, \<lambda>n a b. word_of_int (max (sint a) (sint b))),
     (PMINH, \<lambda>n a b. word_of_int (min (sint a) (sint b))),
     (PABSH, \<lambda>n a b. sat_s \<bar>sint b\<bar>)]"

definition mmi_byte_ops :: "((cpuRegisters \<Rightarrow> cpuRegisters) \<times> (nat \<Rightarrow> u8 \<Rightarrow> u8 \<Rightarrow> u8)) list" where
  "mmi_byte_ops =
    [(PADDB, \<lambda>n a b. a + b),
     (PSUBB, \<lambda>n a b. a - b),
     (PCGTB, \<lambda>n a b. if sint a > sint b then - 1 else 0),
     (PCEQB, \<lambda>n a b. if a = b then - 1 else 0),
     (PADDSB, \<lambda>n a b. sat_s (sint a + sint b)),
     (PSUBSB, \<lambda>n a b. sat_s (sint a - sint b)),
     (PADDUB, \<lambda>n a b. sat_u (uint a + uint b)),
     (PSUBUB, \<lambda>n a b. sat_u (uint a - uint b))]"

lemma mmi_word_ops_computes: "list_all (\<lambda>(f, g). computes_lanes 4 f g) mmi_word_ops"
  by (simp add: mmi_word_ops_def
    PSLLW.computes PSRLW.computes PSRAW.computes PADDW.computes PSUBW.computes PCGTW.computes
    PCEQW.computes PADDSW.computes PSUBSW.computes PADDUW.computes PSUBUW.computes PMAXW.computes
    PMINW.computes PABSW.computes PEXT5.computes PPAC5.computes)

lemma mmi_half_ops_computes: "list_all (\<lambda>(f, g). computes_lanes 8 f g) mmi_half_ops"
  by (simp add: mmi_half_ops_def
    PSLLH.computes PSRLH.computes PSRAH.computes PADDH.computes PSUBH.computes PCGTH.computes
    PCEQH.computes PADDSH.computes PSUBSH.computes PADDUH.computes PSUBUH.computes PMAXH.computes
    PMINH.computes PABSH.computes)

lemma mmi_byte_ops_computes: "list_all (\<lambda>(f, g). computes_lanes 16 f g) mmi_byte_ops"
  by (simp add: mmi_byte_ops_def
    PADDB.computes PSUBB.computes PCGTB.computes PCEQB.computes PADDSB.computes PSUBSB.computes
    PADDUB.computes PSUBUB.computes)

text \<open>C1: every lane-wise instruction of the multimedia set (shifts, wrapping and saturating
  additions and subtractions, comparisons, maxima, minima, absolute values and the packed-pixel
  conversions, on words, halfwords and bytes) leaves the whole state unchanged except register
  \<open>rd\<close>, is a no-op when \<open>rd\<close> is register 0, and computes every lane from the operands as they
  were before the instruction: updating the destination lane by lane in place is correct also when
  the destination is one of the sources.\<close>

theorem mmi_lanewise_correct:
  "list_all (\<lambda>(f, g). computes_lanes 4 f g) mmi_word_ops \<and>
   list_all (\<lambda>(f, g). computes_lanes 8 f g) mmi_half_ops \<and>
   list_all (\<lambda>(f, g). computes_lanes 16 f g) mmi_byte_ops"
  by (simp add: mmi_word_ops_computes mmi_half_ops_computes mmi_byte_ops_computes)

end
