(* ===== verification/EE_MMI_Spec.thy ===== *)
theory EE_MMI_Spec
  imports EE_ALU_Spec EE_MMI_Lanes
begin

text \<open>
  What the multimedia instructions with cross-lane data flow compute: HI/LO accumulation,
  division, the funnel shift, permutations and pixel packing.
\<close>

subsection \<open>Whole-register writes\<close>

lemma wr_lanes_shape:
  "wr_lanes r m vs s = s\<lparr>GPR := (GPR s)(r := GPR (wr_lanes r m vs s) r)\<rparr>"
proof (induction vs arbitrary: m s)
  case (Cons v vs)
  have "(wr r m v s)\<lparr>GPR := (GPR (wr r m v s))(r := x)\<rparr> = s\<lparr>GPR := (GPR s)(r := x)\<rparr>" for x
    by (simp add: wr_def)
  with Cons.IH [of "Suc m" "wr r m v s"] show ?case
    by (simp only: wr_lanes.simps)
qed simp

lemma wr_lanes_lane:
  assumes "(m + length vs) * LENGTH('a::len) \<le> 128"
  shows "lane n (GPR (wr_lanes r m vs s) r) =
    (if m \<le> n \<and> n < m + length vs then vs ! (n - m) else (lane n (GPR s r) :: 'a word))"
  using assms
proof (induction vs arbitrary: m s)
  case (Cons v vs)
  from Cons.prems have "Suc m * LENGTH('a) \<le> 128"
    by (simp add: add_mult_distrib)
  moreover have "(Suc m + length vs) * LENGTH('a) \<le> 128"
    using Cons.prems by simp
  ultimately show ?case
    using Cons.IH [of "Suc m" "wr r m v s"] by (cases "n = m") (auto simp: nth_Cons')
qed auto

lemma wr_lanes_build:
  fixes vs :: "'a::len word list"
  assumes "length vs * LENGTH('a) = 128"
  shows "wr_lanes r 0 vs s = s\<lparr>GPR := (GPR s)(r := build_lanes (length vs) ((!) vs))\<rparr>"
proof -
  have "GPR (wr_lanes r 0 vs s) r = build_lanes (length vs) ((!) vs)"
    by (rule lane_eqI [where 'a = 'a and k = "length vs"])
      (use assms in \<open>simp_all add: wr_lanes_lane mult.commute\<close>)
  then show ?thesis by (subst wr_lanes_shape) simp
qed

lemmas wr_lanes_UL = wr_lanes_build [where 'a = 32, simplified]
lemmas wr_lanes_US = wr_lanes_build [where 'a = 16, simplified]
lemmas wr_lanes_UD = wr_lanes_build [where 'a = 64, simplified]

lemma op_fields_GPR [simp]:
  "opRd (s\<lparr>GPR := f\<rparr>) = opRd s" "opRt (s\<lparr>GPR := f\<rparr>) = opRt s"
  "opRs (s\<lparr>GPR := f\<rparr>) = opRs s" "opSa (s\<lparr>GPR := f\<rparr>) = opSa s"
  by (simp_all add: opRd_def opRt_def opRs_def opSa_def)

lemma build_UL_eq_iff: "build_lanes 4 h = w \<longleftrightarrow> h 0 = UL w 0 \<and> h 1 = UL w 1 \<and> h 2 = UL w 2 \<and> h 3 = UL w 3"
proof -
  have "build_lanes 4 h = w \<longleftrightarrow> (\<forall>n<4. h n = UL w n)"
    by (auto intro!: UL_eqI)
  then show ?thesis by (simp add: numeral_eq_Suc All_less_Suc2 All_less_Suc conj_ac)
qed

subsection \<open>HI/LO accumulation\<close>

lemma UL_set_UD_0:
  "UL (set_lane 0 (v :: u64) w) 0 = ucast v" "UL (set_lane 0 (v :: u64) w) 2 = UL w 2"
  "UL (set_lane 1 (v :: u64) w) 0 = UL w 0" "UL (set_lane 1 (v :: u64) w) 2 = ucast v"
  by (intro bit_word_eqI; auto simp: bit_lane_iff bit_set_lane_iff bit_ucast_iff simp del: One_nat_def)+

lemma hilo_wr [simp]: "hilo n (wr r m v s) = hilo n s"
  by (simp add: hilo_def)

lemma join_split: "(ucast (ucast v :: u32) :: u64) OR push_bit 32 (ucast (ucast (drop_bit 32 v) :: u32)) = v"
  by (intro bit_word_eqI) (auto simp: bit_simps)

lemma join_split_sext:
  "(ucast (ucast (scast (ucast v :: u32) :: u64) :: u32) :: u64) OR
     push_bit 32 (ucast (ucast (scast (ucast (drop_bit 32 v) :: u32) :: u64) :: u32)) = v" for v :: u64
  by (simp only: ucast_scast_32 join_split)

lemma low_word_mask: "(ucast (v AND 0xffffffff) :: u32) = ucast v" for v :: u64
proof -
  have "(0xffffffff :: u64) = mask 32" by (simp add: mask_eq_exp_minus_1)
  show ?thesis unfolding \<open>0xffffffff = mask 32\<close> by (intro bit_word_eqI) (auto simp: bit_simps)
qed

lemma hilo_split_hilo [simp]:
  "hilo 0 (split_hilo 0 v s) = v" "hilo 2 (split_hilo 0 v s) = hilo 2 s"
  "hilo 0 (split_hilo 1 v s) = hilo 0 s" "hilo 2 (split_hilo 1 v s) = v"
  by (simp_all add: hilo_def split_hilo_def UL_set_UD_0 low_word_mask join_split_sext del: One_nat_def)

lemma split_hilo_frame [simp]:
  "GPR (split_hilo p v s) = GPR s" "opRd (split_hilo p v s) = opRd s"
  "opRs (split_hilo p v s) = opRs s" "opRt (split_hilo p v s) = opRt s"
  by (simp_all add: split_hilo_def)


lemma prod_words: "(scast a * scast b :: u64) = s64_of (sint a * sint b)"
  "(ucast a * ucast b :: u64) = word_of_int (uint a * uint b)" for a b :: u32
  by (simp_all only: scast_eq ucast_eq of_int_mult)

lemma UL_GPR_wr_2:
  "UL (GPR (wr r 0 (v :: u64) s) q) 2 = UL (GPR s q) 2"
  "UL (GPR (wr r 0 (u :: u32) s) q) 2 = UL (GPR s q) 2"
  "UL (GPR (wr r 1 (u :: u32) s) q) 2 = UL (GPR s q) 2"
  by (cases "q = r"; simp add: UL_set_UD_0)+

text \<open>The signed and the unsigned product of word \<open>n\<close> of the operands.\<close>

definition sprod :: "nat \<Rightarrow> cpuRegisters \<Rightarrow> u64" where
  "sprod n s = s64_of (sint (UL (rs s) n) * sint (UL (rt s) n))"

definition uprod :: "nat \<Rightarrow> cpuRegisters \<Rightarrow> u64" where
  "uprod n s = word_of_int (uint (UL (rs s) n) * uint (UL (rt s) n))"

lemma scalar_hilo:
  "hilo 0 (MULT s) = sprod 0 s" "hilo 2 (MULT s) = hilo 2 s"
  "hilo 0 (MULTU s) = uprod 0 s" "hilo 2 (MULTU s) = hilo 2 s"
  "hilo 0 (MADD s) = hilo 0 s + sprod 0 s" "hilo 2 (MADD s) = hilo 2 s"
  "hilo 0 (MADDU s) = hilo 0 s + uprod 0 s" "hilo 2 (MADDU s) = hilo 2 s"
  "hilo 0 (MULT1 s) = hilo 0 s" "hilo 2 (MULT1 s) = sprod 0 s"
  "hilo 0 (MULTU1 s) = hilo 0 s" "hilo 2 (MULTU1 s) = uprod 0 s"
  "hilo 0 (MADD1 s) = hilo 0 s" "hilo 2 (MADD1 s) = hilo 2 s + sprod 0 s"
  "hilo 0 (MADDU1 s) = hilo 0 s" "hilo 2 (MADDU1 s) = hilo 2 s + uprod 0 s"
  by (simp_all only: MULT_def MULTU_def MADD_def MADDU_def MULT1_def MULTU1_def MADD1_def MADDU1_def
      Let_def sprod_def uprod_def prod_words hilo_wr hilo_split_hilo if_distrib [of "hilo _"] if_cancel)

lemma PMADDW_lane_split: "PMADDW_lane dd ss s =
   (let s1 = split_hilo dd (hilo ss s + sprod ss s) s in
    if opRd s \<noteq> 0 then
      let s2 = wr (opRd s) (dd * 2) (UL (LO s1) (dd * 2)) s1
      in wr (opRd s) (dd * 2 + 1) (UL (HI s2) (dd * 2)) s2
    else s1)"
  by (simp only: PMADDW_lane_def sprod_def split_hilo_def prod_words low_word_mask Let_def)

lemma PMSUBW_lane_split: "PMSUBW_lane dd ss s =
   (let s1 = split_hilo dd (hilo ss s - sprod ss s) s in
    if opRd s \<noteq> 0 then
      let s2 = wr (opRd s) (dd * 2) (UL (LO s1) (dd * 2)) s1
      in wr (opRd s) (dd * 2 + 1) (UL (HI s2) (dd * 2)) s2
    else s1)"
  by (simp only: PMSUBW_lane_def sprod_def split_hilo_def prod_words low_word_mask Let_def)

lemma packed_hilo:
  "hilo 0 (PMULTW s) = sprod 0 s" "hilo 2 (PMULTW s) = sprod 2 s"
  "hilo 0 (PMULTUW s) = uprod 0 s" "hilo 2 (PMULTUW s) = uprod 2 s"
  "hilo 0 (PMADDW s) = hilo 0 s + sprod 0 s" "hilo 2 (PMADDW s) = hilo 2 s + sprod 2 s"
  "hilo 0 (PMADDUW s) = hilo 0 s + uprod 0 s" "hilo 2 (PMADDUW s) = hilo 2 s + uprod 2 s"
  "hilo 0 (PMSUBW s) = hilo 0 s - sprod 0 s" "hilo 2 (PMSUBW s) = hilo 2 s - sprod 2 s"
  by (simp_all add: PMULTW_def PMULTUW_def PMADDW_def PMADDUW_def PMSUBW_def PMULTW_lane_def
      PMULTUW_lane_def PMADDW_lane_split PMADDUW_lane_def PMSUBW_lane_split Let_def prod_words
      sprod_def uprod_def UL_GPR_wr_2 del: One_nat_def of_int_mult)

text \<open>C5: HI and LO form 64-bit accumulators, one per doubleword. The multiplies leave the exact
  product there and the multiply-accumulates add it to (or subtract it from) the 64-bit value with
  the carry reaching the high word, the scalar forms touch only their own accumulator, and the
  two-lane forms multiply the even words of the operands as they were before the instruction even
  if \<open>rd\<close> is one of them.\<close>

theorem hilo_accumulators:
  "(hilo 0 (MULT s), hilo 2 (MULT s)) = (sprod 0 s, hilo 2 s) \<and>
   (hilo 0 (MULTU s), hilo 2 (MULTU s)) = (uprod 0 s, hilo 2 s) \<and>
   (hilo 0 (MULT1 s), hilo 2 (MULT1 s)) = (hilo 0 s, sprod 0 s) \<and>
   (hilo 0 (MULTU1 s), hilo 2 (MULTU1 s)) = (hilo 0 s, uprod 0 s) \<and>
   (hilo 0 (MADD s), hilo 2 (MADD s)) = (hilo 0 s + sprod 0 s, hilo 2 s) \<and>
   (hilo 0 (MADDU s), hilo 2 (MADDU s)) = (hilo 0 s + uprod 0 s, hilo 2 s) \<and>
   (hilo 0 (MADD1 s), hilo 2 (MADD1 s)) = (hilo 0 s, hilo 2 s + sprod 0 s) \<and>
   (hilo 0 (MADDU1 s), hilo 2 (MADDU1 s)) = (hilo 0 s, hilo 2 s + uprod 0 s) \<and>
   (hilo 0 (PMULTW s), hilo 2 (PMULTW s)) = (sprod 0 s, sprod 2 s) \<and>
   (hilo 0 (PMULTUW s), hilo 2 (PMULTUW s)) = (uprod 0 s, uprod 2 s) \<and>
   (hilo 0 (PMADDW s), hilo 2 (PMADDW s)) = (hilo 0 s + sprod 0 s, hilo 2 s + sprod 2 s) \<and>
   (hilo 0 (PMADDUW s), hilo 2 (PMADDUW s)) = (hilo 0 s + uprod 0 s, hilo 2 s + uprod 2 s) \<and>
   (hilo 0 (PMSUBW s), hilo 2 (PMSUBW s)) = (hilo 0 s - sprod 0 s, hilo 2 s - sprod 2 s)"
  by (simp only: scalar_hilo packed_hilo)

subsection \<open>Division\<close>

lemma div_words_other:
  "UD (LO (div_words 1 a b s)) 0 = UD (LO s) 0" "UD (HI (div_words 1 a b s)) 0 = UD (HI s) 0"
  "UD (LO (divu_words 1 a b s)) 0 = UD (LO s) 0" "UD (HI (divu_words 1 a b s)) 0 = UD (HI s) 0"
  by (simp_all add: div_words_def divu_words_def)

lemma div_words_frame [simp]:
  "GPR (div_words p a b s) = GPR s" "opRs (div_words p a b s) = opRs s" "opRt (div_words p a b s) = opRt s"
  "GPR (divu_words p a b s) = GPR s" "opRs (divu_words p a b s) = opRs s" "opRt (divu_words p a b s) = opRt s"
  by (simp_all add: div_words_def divu_words_def)

text \<open>What a signed division leaves in LO (\<open>q\<close>) and HI (\<open>r\<close>), both sign-extended.\<close>

definition div_result :: "u32 \<Rightarrow> u32 \<Rightarrow> u64 \<Rightarrow> u64 \<Rightarrow> bool" where
  "div_result a b q r \<longleftrightarrow>
     (if b = 0 then sint q = (if sint a < 0 then 1 else - 1) \<and> sint r = sint a
      else if a = 0x80000000 \<and> b = 0xffffffff then sint q = - 0x80000000 \<and> sint r = 0
      else is_trunc_div (sint a) (sint b) (sint q) (sint r))"

definition divu_result :: "u32 \<Rightarrow> u32 \<Rightarrow> u64 \<Rightarrow> u64 \<Rightarrow> bool" where
  "divu_result a b q r \<longleftrightarrow>
     (if b = 0 then sint q = - 1 \<and> sint r = sint a
      else let q' = ucast q :: u32; r' = ucast r :: u32 in
        q = scast q' \<and> r = scast r' \<and>
        uint q' * uint b + uint r' = uint a \<and> uint r' < uint b)"

lemma div_words_result:
  assumes "p < 2"
  shows "div_result a b (UD (LO (div_words p a b s)) p) (UD (HI (div_words p a b s)) p)"
  using assms div_words_correct [of p b a s]
  by (auto simp: div_result_def div_words_def sint_up_scast is_up)

lemma divu_words_result:
  assumes "p < 2"
  shows "divu_result a b (UD (LO (divu_words p a b s)) p) (UD (HI (divu_words p a b s)) p)"
proof -
  have "uint (a mod b) < uint b" if "b \<noteq> 0"
    using that by (simp add: uint_mod word_less_def word_neq_0_conv)
  then show ?thesis
    using assms by (auto simp: divu_result_def divu_words_def sint_up_scast is_up ucast_scast_32
        Let_def uint_div uint_mod)
qed

text \<open>C4: division, on every branch. \<open>DIV\<close>, \<open>DIV1\<close> and both lanes of \<open>PDIVW\<close> leave in LO and HI
  the quotient truncated towards zero and the remainder with the dividend's sign, sign-extended to
  64 bits; \<open>DIVU\<close>, \<open>DIVU1\<close> and \<open>PDIVUW\<close> the unsigned pair. A zero divisor gives \<open>-1\<close> (or 1 for a
  negative signed dividend) and the dividend, and the one quotient that does not fit wraps.\<close>

theorem division_correct:
  "div_result (UL (rs s) 0) (UL (rt s) 0) (UD (LO (DIV s)) 0) (UD (HI (DIV s)) 0) \<and>
   div_result (UL (rs s) 0) (UL (rt s) 0) (UD (LO (DIV1 s)) 1) (UD (HI (DIV1 s)) 1) \<and>
   div_result (UL (rs s) 0) (UL (rt s) 0) (UD (LO (PDIVW s)) 0) (UD (HI (PDIVW s)) 0) \<and>
   div_result (UL (rs s) 2) (UL (rt s) 2) (UD (LO (PDIVW s)) 1) (UD (HI (PDIVW s)) 1) \<and>
   divu_result (UL (rs s) 0) (UL (rt s) 0) (UD (LO (DIVU s)) 0) (UD (HI (DIVU s)) 0) \<and>
   divu_result (UL (rs s) 0) (UL (rt s) 0) (UD (LO (DIVU1 s)) 1) (UD (HI (DIVU1 s)) 1) \<and>
   divu_result (UL (rs s) 0) (UL (rt s) 0) (UD (LO (PDIVUW s)) 0) (UD (HI (PDIVUW s)) 0) \<and>
   divu_result (UL (rs s) 2) (UL (rt s) 2) (UD (LO (PDIVUW s)) 1) (UD (HI (PDIVUW s)) 1)"
  by (simp only: DIV_def DIV1_def PDIVW_def PDIVW_lane_def DIVU_def DIVU1_def PDIVUW_def PDIVUW_lane_def
      div_words_frame div_words_other div_words_result divu_words_result one_less_numeral_iff
      semiring_norm(76) zero_less_numeral simp_thms)

subsection \<open>The funnel shift\<close>

text \<open>The low quadword of \<open>a:b\<close>, a 256-bit value, shifted right by \<open>n\<close> bits.\<close>

definition funnel :: "u128 \<Rightarrow> u128 \<Rightarrow> nat \<Rightarrow> u128" where
  "funnel a b n = ucast (drop_bit n (push_bit 128 (ucast a) OR ucast b :: 256 word))"

lemma bit_funnel_iff:
  "bit (funnel a b n) i \<longleftrightarrow>
     i < 128 \<and> n + i < 256 \<and> (if n + i < 128 then bit b (n + i) else bit a (n + i - 128))"
  by (auto simp: funnel_def bit_simps dest: bit_imp_le_length)

lemma funnel_UD_low:
  assumes "n < 64" "0 < n"
  shows "UD (funnel a b n) 0 = drop_bit n (UD b 0) OR push_bit (64 - n) (UD b 1)"
    "UD (funnel a b n) 1 = drop_bit n (UD b 1) OR push_bit (64 - n) (UD a 0)"
  using assms
  by (intro bit_word_eqI; auto simp: bit_lane_iff bit_funnel_iff bit_or_iff bit_drop_bit_eq
    bit_push_bit_iff algebra_simps simp del: One_nat_def dest: bit_imp_le_length)+

lemma funnel_UD_high:
  assumes "64 < n" "n < 128"
  shows "UD (funnel a b n) 0 = drop_bit (n - 64) (UD b 1) OR push_bit (128 - n) (UD a 0)"
    "UD (funnel a b n) 1 = drop_bit (n - 64) (UD a 0) OR push_bit (128 - n) (UD a 1)"
  using assms
  by (intro bit_word_eqI; auto simp: bit_lane_iff bit_funnel_iff bit_or_iff bit_drop_bit_eq
    bit_push_bit_iff algebra_simps simp del: One_nat_def dest: bit_imp_le_length)+

lemma funnel_UD_64:
  "UD (funnel a b 64) 0 = UD b 1" "UD (funnel a b 64) 1 = UD a 0"
  "UD (funnel a b 0) 0 = UD b 0" "UD (funnel a b 0) 1 = UD b 1"
  by (intro bit_word_eqI; auto simp: bit_lane_iff bit_funnel_iff simp del: One_nat_def dest: bit_imp_le_length)+
lemma wr_two_UD:
  "wr r 1 y (wr r 0 x s) = s\<lparr>GPR := (GPR s)(r := w)\<rparr>" if "x = UD w 0" "y = UD w 1"
proof -
  have "set_lane 1 y (set_lane 0 x v) = w" for v
  proof (rule UD_eqI)
    fix n :: nat
    assume "n < 2"
    then consider "n = 0" | "n = 1" by linarith
    then show "UD (set_lane 1 y (set_lane 0 x v)) n = UD w n"
      using that by cases (simp_all del: One_nat_def)
  qed
  then show ?thesis by (simp add: wr_def)
qed

lemma sa_bits: "sa s < 16 \<Longrightarrow> unat (push_bit 3 (sa s)) = 8 * unat (sa s)"
  by (simp add: push_bit_eq_mult word_less_nat_alt unat_word_ariths)

text \<open>C6: \<open>QFSRV\<close> shifts the 256-bit value \<open>rs:rt\<close> right by \<open>sa\<close> bytes and stores the low quadword in
  \<open>rd\<close>, whichever of the source registers \<open>rd\<close> is, for every shift amount the instructions that
  write \<open>sa\<close> can produce.\<close>

theorem QFSRV_funnel:
  assumes "sa s < 16"
  shows "QFSRV s = (if opRd s = 0 then s
    else s\<lparr>GPR := (GPR s)(opRd s := funnel (rs s) (rt s) (8 * unat (sa s)))\<rparr>)"
proof -
  have n: "8 * unat (sa s) < 128"
    using assms by (simp add: word_less_nat_alt)
  have set_all: "wr_lanes (opRd s) 0 [x, y] s = s\<lparr>GPR := (GPR s)(opRd s := w)\<rparr>"
    if "x = UD w 0" "y = UD w 1" for x y w
    using wr_two_UD [OF that] by simp
  consider "unat (sa s) = 0" | "0 < unat (sa s)" "unat (sa s) < 8" | "unat (sa s) = 8"
    | "8 < unat (sa s)" "unat (sa s) < 16"
    using n by linarith
  then show ?thesis
  proof cases
    case 1
    have "UD (GPR (wr (opRd s) 0 (UD (rt s) 0) s) (opRt s)) 1 = UD (rt s) 1"
      by (cases "opRt s = opRd s") (simp_all del: One_nat_def)
    moreover have "wr (opRd s) 1 (UD (rt s) 1) (wr (opRd s) 0 (UD (rt s) 0) s) =
        s\<lparr>GPR := (GPR s)(opRd s := funnel (rs s) (rt s) 0)\<rparr>"
      by (rule wr_two_UD) (simp_all only: funnel_UD_64)
    ultimately show ?thesis
      using 1 by (simp add: QFSRV_def sa_bits [OF assms] del: One_nat_def)
  next
    case 2
    then show ?thesis
      by (simp add: QFSRV_def Let_def sa_bits [OF assms] set_all funnel_UD_low del: wr_lanes.simps One_nat_def)
  next
    case 3
    then show ?thesis
      by (simp add: QFSRV_def Let_def sa_bits [OF assms] set_all funnel_UD_64 del: wr_lanes.simps One_nat_def)
  next
    case 4
    then show ?thesis
      by (simp add: QFSRV_def Let_def sa_bits [OF assms] set_all funnel_UD_high del: wr_lanes.simps One_nat_def)
  qed
qed

theorem QFSRV_funnel_witness:
  "let s = cpuReset\<lparr>code := 0x00000800, sa := 5\<rparr> in
   sa s < 16 \<and> QFSRV s = s\<lparr>GPR := (GPR s)(1 := funnel (rs s) (rt s) 40)\<rparr>"
  using QFSRV_funnel [of "cpuReset\<lparr>code := 0x00000800, sa := 5\<rparr>"]
  by (simp add: opRd_def)

subsection \<open>Permutations and pixel packing\<close>

text \<open>The register whose lane \<open>n\<close> is lane \<open>p ! n\<close> of \<open>b\<close>.\<close>

definition permute :: "nat list \<Rightarrow> 'a::len itself \<Rightarrow> u128 \<Rightarrow> u128" where
  "permute p T b = build_lanes (length p) (\<lambda>n. lane (p ! n) b :: 'a word)"

text \<open>The contract of the instructions that permute the lanes of \<open>rt\<close>.\<close>

locale lane_permutation =
  fixes instr :: "cpuRegisters \<Rightarrow> cpuRegisters"
    and p :: "nat list"
    and T :: "'a::len itself"
  assumes instr_eq: "instr s = (if opRd s = 0 then s
      else wr_lanes (opRd s) 0 (map (\<lambda>i. lane i (rt s) :: 'a word) p) s)"
    and width: "length p * LENGTH('a) = 128"
    and range: "i \<in> set p \<Longrightarrow> i < length p"
begin

lemma instr_permute:
  assumes "opRd s \<noteq> 0"
  shows "instr s = s\<lparr>GPR := (GPR s)(opRd s := permute p T (rt s))\<rparr>"
proof -
  have "GPR (instr s) (opRd s) = permute p T (rt s)"
    by (rule lane_eqI [where 'a = 'a and k = "length p"])
      (use assms width in \<open>simp_all add: instr_eq wr_lanes_lane permute_def mult.commute\<close>)
  then show ?thesis
    using assms by (simp add: instr_eq) (subst wr_lanes_shape, simp)
qed

lemma permute_compose:
  assumes "length q = length p"
  shows "permute p T (permute q T b) = permute (map ((!) q) p) T b"
proof (rule lane_eqI [where 'a = 'a and k = "length p"])
  fix n
  assume n: "n < length p"
  then have "p ! n < length p" by (simp add: range)
  with n assms width show "(lane n (permute p T (permute q T b)) :: 'a word) =
      lane n (permute (map ((!) q) p) T b)"
    by (simp add: permute_def)
qed (use width in \<open>simp add: mult.commute\<close>)

lemma permute_id: "permute [0..<length p] T b = b"
  by (rule lane_eqI [where 'a = 'a and k = "length p"])
    (use width in \<open>simp_all add: permute_def mult.commute\<close>)

lemma involution:
  assumes "opRd s = opRt s" "map ((!) p) p = [0..<length p]"
  shows "instr (instr s) = s"
proof (cases "opRd s = 0")
  case True
  then show ?thesis by (simp add: instr_eq)
next
  case False
  with assms show ?thesis by (simp add: instr_permute permute_compose permute_id)
qed

lemma order_three:
  assumes "opRd s = opRt s" "map ((!) (map ((!) p) p)) p = [0..<length p]"
  shows "instr (instr (instr s)) = s"
proof (cases "opRd s = 0")
  case True
  then show ?thesis by (simp add: instr_eq)
next
  case False
  with assms show ?thesis by (simp add: instr_permute permute_compose permute_id)
qed

end

interpretation PEXEH: lane_permutation PEXEH "[2, 1, 0, 3, 6, 5, 4, 7]" "TYPE(16)"
  by unfold_locales (auto simp: PEXEH_def Let_def)

interpretation PREVH: lane_permutation PREVH "[3, 2, 1, 0, 7, 6, 5, 4]" "TYPE(16)"
  by unfold_locales (auto simp: PREVH_def Let_def)

interpretation PEXCH: lane_permutation PEXCH "[0, 2, 1, 3, 4, 6, 5, 7]" "TYPE(16)"
  by unfold_locales (auto simp: PEXCH_def Let_def)

interpretation PEXEW: lane_permutation PEXEW "[2, 1, 0, 3]" "TYPE(32)"
  by unfold_locales (auto simp: PEXEW_def Let_def)

interpretation PEXCW: lane_permutation PEXCW "[0, 2, 1, 3]" "TYPE(32)"
  by unfold_locales (auto simp: PEXCW_def Let_def)

interpretation PROT3W: lane_permutation PROT3W "[1, 2, 0, 3]" "TYPE(32)"
  by unfold_locales (auto simp: PROT3W_def Let_def)

interpretation PCPYH: lane_permutation PCPYH "[0, 0, 0, 0, 4, 4, 4, 4]" "TYPE(16)"
  by unfold_locales (auto simp: PCPYH_def Let_def)

text \<open>The permutation instructions move lanes without losing any: executed in place, the
  exchanges and the reversal undo themselves, and three rotations are the identity.\<close>

theorem permutations_invertible:
  assumes "opRd s = opRt s"
  shows "PEXEH (PEXEH s) = s \<and> PREVH (PREVH s) = s \<and> PEXCH (PEXCH s) = s \<and>
    PEXEW (PEXEW s) = s \<and> PEXCW (PEXCW s) = s \<and> PROT3W (PROT3W (PROT3W s)) = s"
  using assms
  by (simp add: PEXEH.involution PREVH.involution PEXCH.involution PEXEW.involution
      PEXCW.involution PROT3W.order_three upt_rec)

theorem permutations_invertible_witness:
  "let s = cpuReset\<lparr>code := 0x00010800\<rparr> in opRd s = opRt s \<and> PREVH (PREVH s) = s"
  using permutations_invertible [of "cpuReset\<lparr>code := 0x00010800\<rparr>"]
  by (simp add: opRd_def opRt_def)

lemma pac5_ext5: "pac5 (ext5 b) = b AND 0xFFFF"
  by (rule bits_32I) (simp add: upt_32 pac5_def ext5_def bit_simps)

lemma ext5_pac5: "ext5 (pac5 b) = b AND 0x80F8F8F8"
  by (rule bits_32I) (simp add: upt_32 pac5_def ext5_def bit_simps)

text \<open>\<open>PEXT5\<close> expands 1-5-5-5 pixels to 1-8-8-8 words and \<open>PPAC5\<close> packs them: packing an
  expanded register gives back the low 16 bits of each word, and expanding a packed one truncates
  every channel to its upper five bits.\<close>

theorem pixel_pack_roundtrip:
  assumes "opRd s = opRt s" "opRd s \<noteq> 0" "n < 4"
  shows "UL (GPR (PPAC5 (PEXT5 s)) (opRd s)) n = UL (rt s) n AND 0xFFFF \<and>
    UL (GPR (PEXT5 (PPAC5 s)) (opRd s)) n = UL (rt s) n AND 0x80F8F8F8"
proof -
  have op: "opRd (PEXT5 s) = opRd s" "opRt (PEXT5 s) = opRt s" "opRd (PPAC5 s) = opRd s" "opRt (PPAC5 s) = opRt s"
    by (subst PEXT5.frame PPAC5.frame, simp)+
  show ?thesis
    using assms PPAC5.lanes [of "PEXT5 s" n] PEXT5.lanes [of "PPAC5 s" n] PPAC5.lanes [of s n] PEXT5.lanes [of s n]
    by (simp add: op pac5_ext5 ext5_pac5)
qed

theorem pixel_pack_roundtrip_witness:
  "let s = cpuReset\<lparr>code := 0x00010800, GPR := (\<lambda>r. 0xFFFFFFFF)\<rparr> in
   opRd s = opRt s \<and> opRd s \<noteq> 0 \<and> UL (GPR (PPAC5 (PEXT5 s)) 1) 0 = 0xFFFF"
  using pixel_pack_roundtrip [of "cpuReset\<lparr>code := 0x00010800, GPR := (\<lambda>r. 0xFFFFFFFF)\<rparr>" 0]
  by (simp add: opRd_def opRt_def lane_def)

end
