(* ===== verification/EE_COP0.thy ===== *)
theory EE_COP0
  imports EE_ALU
begin

text \<open>
  The system control coprocessor and event scheduling of the Emotion Engine: the register-only
  part of src/pcsx2/COP0.cpp (status, configuration, performance counters, MFC0, MTC0, EI, DI and
  the register effect of ERET) and \<open>cpuTestCycle\<close>, \<open>TESTINT\<close>, \<open>cpuIntsEnabled\<close> and \<open>CPU_INT\<close> of
  src/pcsx2/R5900.cpp. Cycle counters are 64-bit and every comparison goes through the C++ cast of
  their difference to a 32-bit signed value.
\<close>

subsection \<open>Cycle comparisons\<close>

definition cycle_diff :: "u64 \<Rightarrow> u64 \<Rightarrow> int" where
  "cycle_diff a b = sint (ucast (a - b) :: u32)"

text \<open>\<open>if ((int)(nextEventCycle - cycle) > n) nextEventCycle = cycle + n\<close>.\<close>

definition event_within :: "u64 \<Rightarrow> cpuRegisters \<Rightarrow> cpuRegisters" where
  "event_within n s =
     (if cycle_diff (nextEventCycle s) (cycle s) > sint (ucast n :: u32)
      then s\<lparr>nextEventCycle := cycle s + n\<rparr> else s)"

subsection \<open>Performance counters, Status and Config\<close>

definition PERF_ShouldCountEvent :: "u32 \<Rightarrow> bool" where
  "PERF_ShouldCountEvent evt \<longleftrightarrow> (1 \<le> evt \<and> evt \<le> 3) \<or> (12 \<le> evt \<and> evt \<le> 15)"

definition perf_incr :: "u64 \<Rightarrow> u64 \<Rightarrow> u32" where
  "perf_incr now prev = (let incr = ucast (now - prev) :: u32 in if incr = 0 then 1 else incr)"

definition COP0_UpdatePCCR :: "cpuRegisters \<Rightarrow> cpuRegisters" where
  "COP0_UpdatePCCR s =
     (if st_ERL s \<or> \<not> bit (pccr s) 31
      then s\<lparr>lastPERFCycle0 := cycle s, lastPERFCycle1 := cycle s\<rparr>
      else
        let exl = (if st_EXL s then 1 else 0 :: u32);
            s1 = (if pccr s AND (push_bit (st_KSU s + 2) 1 OR push_bit 1 exl) \<noteq> 0 \<and>
                     PERF_ShouldCountEvent (drop_bit 5 (pccr s) AND 0x1F)
                  then s\<lparr>pcr0 := pcr0 s + perf_incr (cycle s) (lastPERFCycle0 s)\<rparr> else s);
            s2 = (if pccr s AND (push_bit (st_KSU s + 12) 1 OR push_bit 11 exl) \<noteq> 0 \<and>
                     PERF_ShouldCountEvent (drop_bit 15 (pccr s) AND 0x1F)
                  then s1\<lparr>pcr1 := pcr1 s1 + perf_incr (cycle s1) (lastPERFCycle1 s1)\<rparr> else s1)
        in s2\<lparr>lastPERFCycle0 := cycle s2, lastPERFCycle1 := cycle s2\<rparr>)"

definition WriteCP0Config :: "u32 \<Rightarrow> cpuRegisters \<Rightarrow> cpuRegisters" where
  "WriteCP0Config v s = set_CP0 cp0_Config ((v AND NOT 0xFC0) OR 0x440) s"

definition WriteCP0Status :: "u32 \<Rightarrow> cpuRegisters \<Rightarrow> cpuRegisters" where
  "WriteCP0Status v s = event_within 4 (set_CP0 cp0_Status v (COP0_UpdatePCCR s))"

subsection \<open>Register moves\<close>

definition MFC0 :: "cpuRegisters \<Rightarrow> cpuRegisters" where
  "MFC0 s =
     (if opRd s \<noteq> 9 \<and> opRt s = 0 then s
      else if opRd s = 12 then wr (opRt s) 0 (scast (CP0 s (opRd s) AND 0xf0c79c1f) :: u64) s
      else if opRd s = 25 then
        if \<not> bit (opImm s) 0 then wr (opRt s) 0 (scast (pccr s) :: u64) s
        else if \<not> bit (opImm s) 1 then
          let s1 = COP0_UpdatePCCR s in wr (opRt s) 0 (scast (pcr0 s1) :: u64) s1
        else let s1 = COP0_UpdatePCCR s in wr (opRt s) 0 (scast (pcr1 s1) :: u64) s1
      else if opRd s = 24 then s
      else if opRd s = 9 then
        let incr = (let d = cycle s - lastCOP0Cycle s in if d = 0 then 1 else d);
            s1 = (set_CP0 cp0_Count (CP0 s cp0_Count + ucast incr) s)\<lparr>lastCOP0Cycle := cycle s\<rparr>
        in if opRt s = 0 then s1 else wr (opRt s) 0 (scast (CP0 s1 (opRd s)) :: u64) s1
      else wr (opRt s) 0 (scast (CP0 s (opRd s)) :: u64) s)"

definition MTC0 :: "cpuRegisters \<Rightarrow> cpuRegisters" where
  "MTC0 s =
     (let v = UL (rt s) 0 in
      if opRd s = 9 then set_CP0 9 v (s\<lparr>lastCOP0Cycle := cycle s\<rparr>)
      else if opRd s = 12 then WriteCP0Status v s
      else if opRd s = 16 then WriteCP0Config v s
      else if opRd s = 24 then s
      else if opRd s = 25 then
        if \<not> bit (opImm s) 0 then
          if opImm s AND 0x3E \<noteq> 0 then s
          else (COP0_UpdatePCCR s)\<lparr>pccr := v AND 0x800ffbfe\<rparr>
        else if \<not> bit (opImm s) 1 then s\<lparr>pcr0 := v, lastPERFCycle0 := cycle s\<rparr>
        else s\<lparr>pcr1 := v, lastPERFCycle1 := cycle s\<rparr>
      else set_CP0 (opRd s) v s)"

subsection \<open>Exception return and interrupt enables\<close>

text \<open>\<open>ERET\<close> up to its call of \<open>intSetBranch\<close>, which the interpreter adds.\<close>

definition ERET_regs :: "cpuRegisters \<Rightarrow> cpuRegisters" where
  "ERET_regs s =
     event_within 4
      (if st_ERL s
       then set_CP0 cp0_Status (unset_bit 2 (CP0 s cp0_Status)) (s\<lparr>pc := CP0 s cp0_ErrorEPC\<rparr>)
       else set_CP0 cp0_Status (unset_bit 1 (CP0 s cp0_Status)) (s\<lparr>pc := CP0 s cp0_EPC\<rparr>))"

definition ie_allowed :: "cpuRegisters \<Rightarrow> bool" where
  "ie_allowed s \<longleftrightarrow> st_EDI s \<or> st_EXL s \<or> st_ERL s \<or> st_KSU s = 0"

definition DI :: "cpuRegisters \<Rightarrow> cpuRegisters" where
  "DI s = (if ie_allowed s then set_CP0 cp0_Status (unset_bit 16 (CP0 s cp0_Status)) s else s)"

definition EI :: "cpuRegisters \<Rightarrow> cpuRegisters" where
  "EI s = (if ie_allowed s
     then event_within 4 (set_CP0 cp0_Status (set_bit 16 (CP0 s cp0_Status)) s) else s)"

definition CPCOND0 :: "10 word \<Rightarrow> 10 word \<Rightarrow> bool" where
  "CPCOND0 CIS CPC \<longleftrightarrow> (CIS OR NOT CPC) AND 0x3FF = 0x3FF"

definition cpuIntsEnabled :: "u32 \<Rightarrow> cpuRegisters \<Rightarrow> bool" where
  "cpuIntsEnabled i s \<longleftrightarrow>
     CP0 s cp0_Status AND i \<noteq> 0 \<and> st_EIE s \<and> st_IE s \<and> \<not> st_EXL s \<and> \<not> st_ERL s"

subsection \<open>Scheduling events\<close>

datatype int_scan = INT_NOT_RUNNING | INT_RUNNING | INT_REQ_LOOP

text \<open>What the scheduler reads and writes beside \<open>cpuRegs\<close>: the interrupt scan flag, the two
  counters shared with the IOP and the settings.\<close>

record sched =
  regs :: cpuRegisters
  eeRunInterruptScan :: int_scan
  iopBreak :: u32
  iopCycleEE :: u32
  g_GameStarted :: bool
  CHECK_INSTANTDMAHACK :: bool
  CHECK_EETIMINGHACK :: bool

definition cpuTestCycle :: "u64 \<Rightarrow> u32 \<Rightarrow> cpuRegisters \<Rightarrow> bool" where
  "cpuTestCycle startCycle delta s \<longleftrightarrow> cycle_diff (cycle s) startCycle \<ge> sint delta"

definition TESTINT :: "5 word \<Rightarrow> (sched \<Rightarrow> sched) \<Rightarrow> sched \<Rightarrow> sched" where
  "TESTINT n callback t =
     (let s = regs t in
      if \<not> g_GameStarted t \<or> CHECK_INSTANTDMAHACK t \<or> cpuTestCycle (sCycle s n) (eCycle s n) s
      then callback (t\<lparr>regs := s\<lparr>interrupt := unset_bit (unat n) (interrupt s),
                               dmastall := unset_bit (unat n) (dmastall s)\<rparr>\<rparr>)
      else if cycle_diff (nextEventCycle s) (sCycle s n) > sint (eCycle s n)
      then t\<lparr>regs := s\<lparr>nextEventCycle := sCycle s n + ucast (eCycle s n)\<rparr>\<rparr>
      else t)"

definition CPU_INT :: "5 word \<Rightarrow> u32 \<Rightarrow> sched \<Rightarrow> sched" where
  "CPU_INT n ecycle0 t =
     (let s = regs t in
      if sint ecycle0 < 4 \<and> \<not> bit (dmastall s) (unat n) \<and> eeRunInterruptScan t \<noteq> INT_NOT_RUNNING
      then t\<lparr>eeRunInterruptScan := INT_REQ_LOOP,
             regs := s\<lparr>interrupt := set_bit (unat n) (interrupt s),
                       sCycle := (sCycle s)(n := cycle s), eCycle := (eCycle s)(n := 0)\<rparr>\<rparr>
      else
        let ecycle = (if CHECK_EETIMINGHACK t \<and> n < 17 then 8 else ecycle0);
            s1 = s\<lparr>interrupt := set_bit (unat n) (interrupt s),
                   sCycle := (sCycle s)(n := cycle s), eCycle := (eCycle s)(n := ecycle)\<rparr>;
            t1 = (if sint ecycle \<le> 28 \<and> sint (iopCycleEE t) > 0
                  then t\<lparr>iopBreak := iopBreak t + iopCycleEE t, iopCycleEE := 0\<rparr> else t)
        in t1\<lparr>regs :=
             (if cycle_diff (nextEventCycle s1) (cycle s1) > sint (eCycle s1 n)
              then s1\<lparr>nextEventCycle := cycle s1 + ucast (eCycle s1 n)\<rparr> else s1)\<rparr>)"

end
