(* ===== verification/EE_COP0_Spec.thy ===== *)
theory EE_COP0_Spec
  imports EE_COP0
begin

text \<open>
  What the coprocessor 0 and scheduling definitions guarantee: exception entry and return, nested
  exceptions, and that no pending event is missed by the next event test.
\<close>

subsection \<open>Exceptions\<close>

lemma event_within_frame [simp]:
  "GPR (event_within n s) = GPR s" "HI (event_within n s) = HI s" "LO (event_within n s) = LO s"
  "CP0 (event_within n s) = CP0 s" "pc (event_within n s) = pc s" "sa (event_within n s) = sa s"
  "branch (event_within n s) = branch s" "cycle (event_within n s) = cycle s"
  "code (event_within n s) = code s" "interrupt (event_within n s) = interrupt s"
  "sCycle (event_within n s) = sCycle s" "eCycle (event_within n s) = eCycle s"
  by (simp_all add: event_within_def)

lemma exception_vector_level1:
  assumes "\<not> st_ERL s"
  shows "exception_vector c s = Some (\<not> st_BEV s,
    if 0x8 \<le> c AND 0x7C \<and> c AND 0x7C \<le> 0xC then 0x0 else if c AND 0x7C = 0x0 then 0x200 else 0x180)"
  using assms by (simp add: exception_vector_def)

lemma cpuException_level1:
  assumes "\<not> st_ERL s" "\<not> st_EXL s"
  shows "CP0 (cpuException c bd s) cp0_EPC = (if bd \<noteq> 0 then pc s - 4 else pc s)"
    and "CP0 (cpuException c bd s) cp0_Status = set_bit 1 (CP0 s cp0_Status)"
    and "CP0 (cpuException c bd s) cp0_Cause = (c AND 0xffff) OR (if bd \<noteq> 0 then 0x80000000 else 0)"
    and "CP0 (cpuException c bd s) cp0_ErrorEPC = CP0 s cp0_ErrorEPC"
proof -
  show "CP0 (cpuException c bd s) cp0_EPC = (if bd \<noteq> 0 then pc s - 4 else pc s)"
    "CP0 (cpuException c bd s) cp0_Status = set_bit 1 (CP0 s cp0_Status)"
    "CP0 (cpuException c bd s) cp0_ErrorEPC = CP0 s cp0_ErrorEPC"
    using assms by (simp_all add: cpuException_def exception_vector_def Let_def)
  have "(c AND 0xffff) AND NOT 0x80000000 = c AND 0xffff"
    by (simp add: and.assoc)
  with assms show "CP0 (cpuException c bd s) cp0_Cause = (c AND 0xffff) OR (if bd \<noteq> 0 then 0x80000000 else 0)"
    by (simp add: cpuException_def exception_vector_def Let_def)
qed

lemma unset_set_bit: "\<not> bit w n \<Longrightarrow> unset_bit n (set_bit n w) = (w :: 'a::len word)"
  by (intro bit_word_eqI) (auto simp: bit_simps)

text \<open>C7: returning from an exception that was taken at level 0 restores the program. \<open>ERET\<close> after
  \<open>cpuException\<close> gives back the Status register and resumes at the interrupted instruction, or at the
  branch before it when the exception hit a delay slot; all general registers are unchanged.\<close>

theorem exception_return:
  assumes "\<not> st_ERL s" "\<not> st_EXL s"
  shows "let t = ERET_regs (cpuException c bd s) in
    pc t = (if bd \<noteq> 0 then pc s - 4 else pc s) \<and> CP0 t cp0_Status = CP0 s cp0_Status \<and>
    GPR t = GPR s \<and> HI t = HI s \<and> LO t = LO s \<and> sa t = sa s"
proof -
  have "\<not> st_ERL (cpuException c bd s)"
    using assms by (simp add: cpuException_level1 bit_simps)
  with assms show ?thesis
    by (simp add: ERET_regs_def Let_def cpuException_level1 unset_set_bit)
qed

theorem exception_return_witness:
  "let s = cpuReset\<lparr>CP0 := (\<lambda>r. 0), pc := 0x100000\<rparr>; t = ERET_regs (cpuException 0x20 1 s) in
   \<not> st_ERL s \<and> \<not> st_EXL s \<and> pc t = 0xFFFFC \<and> CP0 t cp0_Status = 0"
  using exception_return [where s = "cpuReset\<lparr>CP0 := (\<lambda>r. 0), pc := 0x100000\<rparr>" and c = "0x20" and bd = 1]
  by (simp add: Let_def)

text \<open>C8: an exception taken while another is being handled (EXL set) keeps the return address
  and the status of the first one and goes to the common vector, the bootstrap one when BEV is set.\<close>

theorem nested_exception:
  assumes "\<not> st_ERL s" "st_EXL s"
  shows "CP0 (cpuException c bd s) cp0_EPC = CP0 s cp0_EPC \<and>
    CP0 (cpuException c bd s) cp0_Status = CP0 s cp0_Status \<and>
    pc (cpuException c bd s) = (if st_BEV s then 0xBFC00380 else 0x80000180)"
  using assms by (simp add: cpuException_def exception_vector_def Let_def)

theorem nested_exception_witness:
  "let s = cpuReset\<lparr>CP0 := (\<lambda>r. 2)\<rparr> in
   \<not> st_ERL s \<and> st_EXL s \<and> pc (cpuException 0x20 0 s) = 0x80000180"
  using nested_exception [where s = "cpuReset\<lparr>CP0 := (\<lambda>r. 2)\<rparr>" and c = "0x20" and bd = 0]
  by (simp add: Let_def)

subsection \<open>Scheduling\<close>

lemma cycle_diff_eq:
  assumes "- (2 ^ 31) \<le> uint a - uint b" "uint a - uint b < 2 ^ 31"
  shows "cycle_diff a b = uint a - uint b"
proof -
  have "(ucast (word_of_int k :: u64) :: u32) = word_of_int k" for k
    by transfer simp
  moreover have "a - b = word_of_int (uint a - uint b)" by simp
  ultimately have "(ucast (a - b) :: u32) = word_of_int (uint a - uint b)" by metis
  then have "cycle_diff a b = signed_take_bit 31 (uint a - uint b)"
    unfolding cycle_diff_def by (simp only: sint_sbintrunc') simp
  with assms show ?thesis by (simp add: signed_take_bit_int_eq_self)
qed

text \<open>No event is due before the next event test: the counters are within the range the 32-bit
  comparisons can order, and \<open>nextEventCycle\<close> is at most the due time of every pending event.\<close>

definition sched_ok :: "cpuRegisters \<Rightarrow> bool" where
  "sched_ok s \<longleftrightarrow>
     uint (cycle s) < 2 ^ 62 \<and>
     uint (nextEventCycle s) \<le> uint (cycle s) + 2 ^ 30 \<and>
     uint (cycle s) \<le> uint (nextEventCycle s) + 2 ^ 30 \<and>
     (\<forall>n. bit (interrupt s) (unat n) \<longrightarrow>
        uint (nextEventCycle s) \<le> uint (sCycle s n) + uint (eCycle s n))"

lemma uint_cycle_plus:
  fixes c :: u64
  assumes "uint c < 2 ^ 62" "uint k < 2 ^ 62"
  shows "uint (c + k) = uint c + uint k"
  using assms by (intro uint_plus_simple) (simp add: word_le_def uint_word_ariths)

lemma sched_ok_earlier:
  assumes "sched_ok s" "uint (nextEventCycle t) \<le> uint (nextEventCycle s)"
    "uint (cycle t) \<le> uint (nextEventCycle t) + 2 ^ 30"
    "cycle t = cycle s" "interrupt t = interrupt s" "sCycle t = sCycle s" "eCycle t = eCycle s"
  shows "sched_ok t"
  using assms by (force simp: sched_ok_def)

lemma sint_small: "uint x < 2 ^ 31 \<Longrightarrow> sint x = uint x" for x :: u32
  using signed_take_bit_int_eq_self [of 31 "uint x"] uint_ge_0 [of x] by (simp add: sint_uint)

lemma sint_ucast_small: "uint n < 2 ^ 31 \<Longrightarrow> sint (ucast n :: u32) = uint n" for n :: u64
  using signed_take_bit_int_eq_self [of 31 "uint n"] uint_ge_0 [of n] by (simp add: signed_ucast_eq)

lemma sched_ok_diff:
  assumes "sched_ok s"
  shows "cycle_diff (nextEventCycle s) (cycle s) = uint (nextEventCycle s) - uint (cycle s)"
  using assms by (intro cycle_diff_eq) (auto simp: sched_ok_def)

lemma sched_ok_event_within:
  assumes "sched_ok s" "uint n < 2 ^ 30"
  shows "sched_ok (event_within n s)"
proof (cases "cycle_diff (nextEventCycle s) (cycle s) > sint (ucast n :: u32)")
  case True
  have n: "sint (ucast n :: u32) = uint n" using assms(2) by (simp add: sint_ucast_small)
  have c: "uint (cycle s + n) = uint (cycle s) + uint n"
    using assms by (intro uint_cycle_plus) (simp_all add: sched_ok_def)
  show ?thesis
    by (rule sched_ok_earlier [OF assms(1)])
      (use True in \<open>simp_all add: event_within_def sched_ok_diff [OF assms(1)] n c\<close>)
qed (use assms in \<open>simp add: event_within_def\<close>)

text \<open>The state \<open>CPU_INT\<close> leaves when no interrupt scan is running.\<close>

lemma sched_ok_pending:
  assumes "sched_ok s" "uint e < 2 ^ 30"
  shows "sched_ok (let s1 = s\<lparr>interrupt := set_bit (unat n) (interrupt s),
        sCycle := (sCycle s)(n := cycle s), eCycle := (eCycle s)(n := e)\<rparr> in
      if cycle_diff (nextEventCycle s1) (cycle s1) > sint (eCycle s1 n)
      then s1\<lparr>nextEventCycle := cycle s1 + ucast (eCycle s1 n)\<rparr> else s1)"
proof -
  have e: "sint e = uint e" using assms(2) by (simp add: sint_small)
  have c: "uint (cycle s + ucast e) = uint (cycle s) + uint e"
    using assms uint_cycle_plus [of "cycle s" "ucast e"] by (simp add: sched_ok_def uint_up_ucast is_up)
  have "bit (set_bit k w) m \<longleftrightarrow> bit w m \<or> (m = k \<and> m < 32)" for w :: u32 and k m
    by (auto simp: bit_simps)
  moreover have "unat k = unat m \<longleftrightarrow> k = m" for k m :: "5 word"
    by (simp add: word_unat_eq_iff)
  ultimately show ?thesis
    using assms by (auto simp: Let_def sched_ok_diff [OF assms(1)] e c sched_ok_def)
qed

lemma sched_ok_cong:
  "cycle t = cycle s \<Longrightarrow> nextEventCycle t = nextEventCycle s \<Longrightarrow> interrupt t = interrupt s \<Longrightarrow>
   sCycle t = sCycle s \<Longrightarrow> eCycle t = eCycle s \<Longrightarrow> sched_ok t = sched_ok s"
  by (simp add: sched_ok_def)

lemma sched_ok_set_CP0 [simp]: "sched_ok (set_CP0 r v s) = sched_ok s"
  by (rule sched_ok_cong) (simp_all add: set_CP0_def)

lemma sched_ok_pc [simp]: "sched_ok (s\<lparr>pc := v\<rparr>) = sched_ok s"
  by (rule sched_ok_cong) simp_all

lemma sched_ok_UpdatePCCR [simp]: "sched_ok (COP0_UpdatePCCR s) = sched_ok s"
  by (rule sched_ok_cong) (simp_all add: COP0_UpdatePCCR_def Let_def)

lemma sched_ok_CPU_INT:
  assumes "sched_ok (regs t)" "eeRunInterruptScan t = INT_NOT_RUNNING" "uint e < 2 ^ 30"
  shows "sched_ok (regs (CPU_INT n e t))"
proof -
  let ?e = "if CHECK_EETIMINGHACK t \<and> n < 17 then 8 else e"
  have "uint ?e < 2 ^ 30" using assms(3) by simp
  from sched_ok_pending [OF assms(1) this, of n] show ?thesis
    using assms(2) by (simp add: CPU_INT_def Let_def)
qed

text \<open>Where the next event test lies after a request for one within \<open>n\<close> cycles, and after an event is
  scheduled: at the earlier of the old and the requested time.\<close>

lemma event_within_next:
  assumes "sched_ok s" "uint n < 2 ^ 30"
  shows "uint (nextEventCycle (event_within n s)) = min (uint (nextEventCycle s)) (uint (cycle s) + uint n)"
proof -
  have n: "sint (ucast n :: u32) = uint n" using assms(2) by (simp add: sint_ucast_small)
  have c: "uint (cycle s + n) = uint (cycle s) + uint n"
    using assms by (intro uint_cycle_plus) (simp_all add: sched_ok_def)
  show ?thesis by (simp add: event_within_def sched_ok_diff [OF assms(1)] n c)
qed

lemma CPU_INT_next:
  assumes "sched_ok (regs t)" "eeRunInterruptScan t = INT_NOT_RUNNING" "uint e < 2 ^ 30"
  shows "uint (nextEventCycle (regs (CPU_INT n e t))) =
    min (uint (nextEventCycle (regs t)))
      (uint (cycle (regs t)) + uint (if CHECK_EETIMINGHACK t \<and> n < 17 then 8 else e))"
proof -
  let ?e = "if CHECK_EETIMINGHACK t \<and> n < 17 then 8 else e"
  have lt: "uint ?e < 2 ^ 30" using assms(3) by simp
  then have e: "sint ?e = uint ?e" by (intro sint_small) simp
  have c: "uint (cycle (regs t) + ucast ?e) = uint (cycle (regs t)) + uint ?e"
    using assms(1) lt uint_cycle_plus [of "cycle (regs t)" "ucast ?e"]
    by (simp add: sched_ok_def uint_up_ucast is_up del: if_split)
  show ?thesis
    using assms(2) e c by (simp add: CPU_INT_def Let_def sched_ok_diff [OF assms(1)] min_def del: if_split)
qed

lemma cycles_set_CP0 [simp]:
  "cycle (set_CP0 r v s) = cycle s" "nextEventCycle (set_CP0 r v s) = nextEventCycle s"
  by (simp_all add: set_CP0_def)

lemma cycles_UpdatePCCR [simp]:
  "cycle (COP0_UpdatePCCR s) = cycle s" "nextEventCycle (COP0_UpdatePCCR s) = nextEventCycle s"
  by (simp_all add: COP0_UpdatePCCR_def Let_def)

lemma CPU_INT_fields:
  assumes "eeRunInterruptScan t = INT_NOT_RUNNING"
  shows "interrupt (regs (CPU_INT n e t)) = set_bit (unat n) (interrupt (regs t))"
    "sCycle (regs (CPU_INT n e t)) n = cycle (regs t)"
    "eCycle (regs (CPU_INT n e t)) n = (if CHECK_EETIMINGHACK t \<and> n < 17 then 8 else e)"
  using assms by (simp_all add: CPU_INT_def Let_def)

text \<open>C9: scheduling never loses an event, and every routine moves the next event test to exactly the
  earlier of its old time and the requested one. With the counters in the range the 32-bit comparisons order
  and the next event test no later than any pending event's due time (\<open>sched_ok\<close>), and no interrupt scan
  running, \<open>CPU_INT\<close> marks the event pending from the current cycle with the given delay (8 for
  the events numbered below 17 under the timing setting) and lowers \<open>nextEventCycle\<close> to the new due time if that is earlier;
  writing Status and \<open>ERET\<close> lower it to four cycles ahead if that is earlier, and so does \<open>EI\<close> where
  it may change the interrupt enable, and otherwise it leaves it. All keep \<open>sched_ok\<close>.\<close>

theorem scheduling_keeps_events:
  assumes "sched_ok (regs t)" "eeRunInterruptScan t = INT_NOT_RUNNING" "uint e < 2 ^ 30"
  shows "let s = regs t; now = uint (cycle s); old = uint (nextEventCycle s);
      e' = (if CHECK_EETIMINGHACK t \<and> n < 17 then 8 else e); u = regs (CPU_INT n e t) in
    sched_ok u \<and> interrupt u = set_bit (unat n) (interrupt s) \<and>
    sCycle u n = cycle s \<and> eCycle u n = e' \<and> uint (nextEventCycle u) = min old (now + uint e') \<and>
    sched_ok (WriteCP0Status v s) \<and> uint (nextEventCycle (WriteCP0Status v s)) = min old (now + 4) \<and>
    sched_ok (ERET_regs s) \<and> uint (nextEventCycle (ERET_regs s)) = min old (now + 4) \<and>
    sched_ok (EI s) \<and> uint (nextEventCycle (EI s)) = (if ie_allowed s then min old (now + 4) else old)"
  using assms
  by (simp add: Let_def sched_ok_CPU_INT CPU_INT_next CPU_INT_fields WriteCP0Status_def EI_def
      ERET_regs_def sched_ok_event_within event_within_next)

definition idle_sched :: sched where
  "idle_sched = \<lparr>regs = cpuReset, eeRunInterruptScan = INT_NOT_RUNNING, iopBreak = 0, iopCycleEE = 0,
     g_GameStarted = True, CHECK_INSTANTDMAHACK = False, CHECK_EETIMINGHACK = False\<rparr>"

theorem scheduling_keeps_events_witness:
  "sched_ok (regs idle_sched) \<and> sched_ok (regs (CPU_INT 2 3 idle_sched)) \<and>
   uint (nextEventCycle (regs (CPU_INT 2 3 idle_sched))) = 3 \<and>
   uint (nextEventCycle (WriteCP0Status 0 (regs idle_sched))) = 4"
proof -
  have "sched_ok (regs idle_sched)" by (simp add: sched_ok_def idle_sched_def cpuReset_def)
  with scheduling_keeps_events [of idle_sched 3 2 0] show ?thesis
    by (simp add: idle_sched_def cpuReset_def Let_def)
qed

text \<open>C10: a pending event fires exactly when it is due. Once a game runs without the instant-DMA
  setting, \<open>TESTINT\<close> clears the pending bit and calls the handler if the event's delay has elapsed;
  otherwise the handler is not called and the next event test becomes the earlier of its old time and the
  event's due time. The event was scheduled no later than now and less than \<open>2^30\<close> cycles ago, its delay is
  below \<open>2^30\<close>, and the next event test is within \<open>2^30\<close> cycles of the present, as the event test
  leaves it before it looks at the pending events.\<close>

theorem TESTINT_fires_when_due:
  assumes "g_GameStarted t" "\<not> CHECK_INSTANTDMAHACK t"
    and "uint (sCycle (regs t) n) \<le> uint (cycle (regs t))"
    and "uint (cycle (regs t)) < uint (sCycle (regs t) n) + 2 ^ 30" "uint (eCycle (regs t) n) < 2 ^ 30"
    and "uint (nextEventCycle (regs t)) \<le> uint (cycle (regs t)) + 2 ^ 30"
    and "uint (cycle (regs t)) \<le> uint (nextEventCycle (regs t)) + 2 ^ 30"
  shows "let s = regs t; due = uint (sCycle s n) + uint (eCycle s n) in
    TESTINT n callback t =
      (if due \<le> uint (cycle s)
       then callback (t\<lparr>regs := s\<lparr>interrupt := unset_bit (unat n) (interrupt s),
                                 dmastall := unset_bit (unat n) (dmastall s)\<rparr>\<rparr>)
       else t\<lparr>regs := s\<lparr>nextEventCycle := word_of_int (min due (uint (nextEventCycle s)))\<rparr>\<rparr>)"
proof -
  let ?s = "regs t"
  let ?S = "sCycle ?s n" and ?E = "eCycle ?s n"
  have E: "sint ?E = uint ?E" using assms(5) by (simp add: sint_small)
  have now: "cycle_diff (cycle ?s) ?S = uint (cycle ?s) - uint ?S"
    using assms by (intro cycle_diff_eq) simp_all
  have nxt: "cycle_diff (nextEventCycle ?s) ?S = uint (nextEventCycle ?s) - uint ?S"
    using assms by (intro cycle_diff_eq) simp_all
  have due: "word_of_int (min (uint ?S + uint ?E) (uint (nextEventCycle ?s))) =
      (if uint ?S + uint ?E < uint (nextEventCycle ?s) then ?S + ucast ?E else nextEventCycle ?s)"
    by (simp add: min_def)
  show ?thesis
    unfolding TESTINT_def Let_def cpuTestCycle_def E now nxt due
    using assms(1,2) by auto
qed

text \<open>A state in which \<open>CPU_INT 2 100\<close> was called at cycle 1000 and the event test, at cycle \<open>c\<close>, has just put the
  next test far ahead.\<close>

definition waiting_sched :: "u64 \<Rightarrow> sched" where
  "waiting_sched c = idle_sched\<lparr>regs := cpuReset\<lparr>cycle := c, nextEventCycle := c + 3072,
     interrupt := 4, sCycle := (\<lambda>n. 1000), eCycle := (\<lambda>n. 100)\<rparr>\<rparr>"

theorem TESTINT_fires_when_due_witness:
  "TESTINT 2 (\<lambda>u. u\<lparr>iopBreak := 77\<rparr>) (waiting_sched 1200) =
     (waiting_sched 1200)\<lparr>iopBreak := 77, regs := (regs (waiting_sched 1200))\<lparr>interrupt := 0\<rparr>\<rparr> \<and>
   TESTINT 2 (\<lambda>u. u\<lparr>iopBreak := 77\<rparr>) (waiting_sched 1050) =
     (waiting_sched 1050)\<lparr>regs := (regs (waiting_sched 1050))\<lparr>nextEventCycle := 1100\<rparr>\<rparr>"
  using TESTINT_fires_when_due [of "waiting_sched 1200" 2 "\<lambda>u. u\<lparr>iopBreak := 77\<rparr>"]
    TESTINT_fires_when_due [of "waiting_sched 1050" 2 "\<lambda>u. u\<lparr>iopBreak := 77\<rparr>"]
  by (simp add: waiting_sched_def idle_sched_def cpuReset_def Let_def)

end
