(* ===== verification/Fastmem_Pool.thy ===== *)
theory Fastmem_Pool
  imports Prelude
begin

text \<open>
  The reverse map of src/pcsx2/vtlb.cpp from a page of main memory to the guest addresses mapped
  to it: a head table, a pool of chained nodes grown with \<open>realloc\<close>, and a free list threaded
  through the same nodes (\<open>fastmem_phys_insert\<close>, \<open>fastmem_phys_remove\<close>, \<open>fastmem_phys_clear\<close>,
  \<open>fastmem_phys_release\<close>). Links hold a pool index plus one, 0 ends a chain. Indices are natural
  numbers: the pool would need \<open>2 ^ 32\<close> live nodes for the 32-bit counters to wrap.
\<close>

definition FASTMEM_PHYS_PAGES :: u32 where
  "FASTMEM_PHYS_PAGES = 0x10000000 div 4096"

record fastmem_phys_node =
  nvaddr :: u32
  nnext :: nat

record phys_map =
  phys_head :: "u32 \<Rightarrow> nat"
  phys_pool :: "nat \<Rightarrow> fastmem_phys_node"
  phys_pool_count :: nat
  phys_pool_cap :: nat
  phys_free :: nat

definition phys_empty :: phys_map where
  "phys_empty = \<lparr>phys_head = (\<lambda>i. 0), phys_pool = (\<lambda>n. \<lparr>nvaddr = 0, nnext = 0\<rparr>),
     phys_pool_count = 0, phys_pool_cap = 0, phys_free = 0\<rparr>"

subsection \<open>Operations\<close>

text \<open>The node an insertion uses: the head of the free list, or the next node of the pool, which
  grows by half when it is full. \<open>realloc_ok cap\<close> says whether \<open>realloc\<close> delivers \<open>cap\<close> nodes.\<close>

definition phys_newcap :: "nat \<Rightarrow> nat" where
  "phys_newcap cap = (if cap \<noteq> 0 then cap + cap div 2 else 1024)"

definition phys_take_node :: "(nat \<Rightarrow> bool) \<Rightarrow> phys_map \<Rightarrow> (nat \<times> phys_map) option" where
  "phys_take_node realloc_ok m =
     (if phys_free m \<noteq> 0 then
        let node = phys_free m - 1 in Some (node, m\<lparr>phys_free := nnext (phys_pool m node)\<rparr>)
      else if phys_pool_count m = phys_pool_cap m then
        let newcap = phys_newcap (phys_pool_cap m) in
        if \<not> realloc_ok newcap then None
        else Some (phys_pool_count m,
               m\<lparr>phys_pool_cap := newcap, phys_pool_count := phys_pool_count m + 1\<rparr>)
      else Some (phys_pool_count m, m\<lparr>phys_pool_count := phys_pool_count m + 1\<rparr>))"

definition fastmem_phys_insert :: "(nat \<Rightarrow> bool) \<Rightarrow> u32 \<Rightarrow> u32 \<Rightarrow> phys_map \<Rightarrow> phys_map" where
  "fastmem_phys_insert realloc_ok mainmem_offset vaddr m =
     (let idx = mainmem_offset div 4096 in
      if idx \<ge> FASTMEM_PHYS_PAGES then m
      else case phys_take_node realloc_ok m of
        None \<Rightarrow> m
      | Some (node, m1) \<Rightarrow>
          m1\<lparr>phys_pool := (phys_pool m1)(node := \<lparr>nvaddr = vaddr, nnext = phys_head m1 idx\<rparr>),
             phys_head := (phys_head m1)(idx := Suc node)\<rparr>)"

text \<open>The loop of the removal walks a pointer to a link: the head of the chain or the \<open>next\<close> field
  of a node.\<close>

datatype phys_link = Head u32 | Next nat

primrec get_link :: "phys_link \<Rightarrow> phys_map \<Rightarrow> nat" where
  "get_link (Head i) m = phys_head m i"
| "get_link (Next n) m = nnext (phys_pool m n)"

primrec set_link :: "phys_link \<Rightarrow> nat \<Rightarrow> phys_map \<Rightarrow> phys_map" where
  "set_link (Head i) l m = m\<lparr>phys_head := (phys_head m)(i := l)\<rparr>"
| "set_link (Next n) l m = m\<lparr>phys_pool := (phys_pool m)(n := (phys_pool m n)\<lparr>nnext := l\<rparr>)\<rparr>"

definition phys_unlink :: "phys_link \<Rightarrow> nat \<Rightarrow> phys_map \<Rightarrow> phys_map" where
  "phys_unlink link node m =
     (let m1 = set_link link (nnext (phys_pool m node)) m;
          m2 = set_link (Next node) (phys_free m1) m1
      in m2\<lparr>phys_free := Suc node\<rparr>)"

partial_function (option) phys_remove_loop :: "phys_link \<Rightarrow> u32 \<Rightarrow> phys_map \<Rightarrow> phys_map option" where
  "phys_remove_loop link vaddr m =
     (if get_link link m = 0 then Some m
      else let node = get_link link m - 1 in
        if nvaddr (phys_pool m node) = vaddr
        then phys_remove_loop link vaddr (phys_unlink link node m)
        else phys_remove_loop (Next node) vaddr m)"

definition fastmem_phys_remove :: "u32 \<Rightarrow> u32 \<Rightarrow> phys_map \<Rightarrow> phys_map option" where
  "fastmem_phys_remove mainmem_offset vaddr m =
     (let idx = mainmem_offset div 4096 in
      if idx \<ge> FASTMEM_PHYS_PAGES then Some m else phys_remove_loop (Head idx) vaddr m)"

definition fastmem_phys_clear :: "phys_map \<Rightarrow> phys_map" where
  "fastmem_phys_clear m = m\<lparr>phys_head := (\<lambda>i. 0), phys_pool_count := 0, phys_free := 0\<rparr>"

definition fastmem_phys_release :: "phys_map \<Rightarrow> phys_map" where
  "fastmem_phys_release m = (fastmem_phys_clear m)\<lparr>phys_pool_cap := 0\<rparr>"

text \<open>The walk over one chain in \<open>vtlb_UpdateFastmemProtection\<close>: the addresses it visits, after
  those of \<open>acc\<close>.\<close>

partial_function (option) phys_walk :: "nat \<Rightarrow> u32 list \<Rightarrow> phys_map \<Rightarrow> u32 list option" where
  "phys_walk link acc m =
     (if link = 0 then Some acc
      else phys_walk (nnext (phys_pool m (link - 1))) (acc @ [nvaddr (phys_pool m (link - 1))]) m)"

subsection \<open>Representation\<close>

primrec seg :: "(nat \<Rightarrow> fastmem_phys_node) \<Rightarrow> nat \<Rightarrow> nat list \<Rightarrow> nat \<Rightarrow> bool" where
  "seg P l [] e \<longleftrightarrow> l = e"
| "seg P l (n # ns) e \<longleftrightarrow> l = Suc n \<and> seg P (nnext (P n)) ns e"

abbreviation chain :: "(nat \<Rightarrow> fastmem_phys_node) \<Rightarrow> nat \<Rightarrow> nat list \<Rightarrow> bool" where
  "chain P l ns \<equiv> seg P l ns 0"

lemma seg_append: "seg P l (xs @ n # ys) e \<longleftrightarrow> seg P l xs (Suc n) \<and> seg P (nnext (P n)) ys e"
  by (induction xs arbitrary: l) auto

lemma seg_cong: "(\<And>n. n \<in> set ns \<Longrightarrow> nnext (P n) = nnext (Q n)) \<Longrightarrow> seg P l ns e = seg Q l ns e"
  by (induction ns arbitrary: l) auto

definition phys_rep :: "phys_map \<Rightarrow> (u32 \<Rightarrow> nat list) \<Rightarrow> nat list \<Rightarrow> bool" where
  "phys_rep m c f \<longleftrightarrow>
     (\<forall>i. chain (phys_pool m) (phys_head m i) (c i) \<and> distinct (c i) \<and>
          set (c i) \<inter> set f = {} \<and> set (c i) \<subseteq> {..<phys_pool_count m}) \<and>
     (\<forall>i j. i \<noteq> j \<longrightarrow> set (c i) \<inter> set (c j) = {}) \<and>
     chain (phys_pool m) (phys_free m) f \<and> distinct f \<and> set f \<subseteq> {..<phys_pool_count m} \<and>
     phys_pool_count m \<le> phys_pool_cap m \<and> (phys_pool_cap m = 0 \<or> 2 \<le> phys_pool_cap m)"

definition phys_rel :: "phys_map \<Rightarrow> (u32 \<Rightarrow> u32 list) \<Rightarrow> bool" where
  "phys_rel m A \<longleftrightarrow> (\<exists>c f. phys_rep m c f \<and> (\<forall>i. A i = map (\<lambda>n. nvaddr (phys_pool m n)) (c i)))"

lemma phys_repD:
  assumes "phys_rep m c f"
  shows "chain (phys_pool m) (phys_head m i) (c i)" "distinct (c i)" "set (c i) \<inter> set f = {}"
    "n \<in> set (c i) \<Longrightarrow> n < phys_pool_count m" "i \<noteq> j \<Longrightarrow> set (c i) \<inter> set (c j) = {}"
    "chain (phys_pool m) (phys_free m) f" "distinct f" "n \<in> set f \<Longrightarrow> n < phys_pool_count m"
    "phys_pool_count m \<le> phys_pool_cap m" "phys_pool_cap m = 0 \<or> 2 \<le> phys_pool_cap m"
  using assms by (auto simp: phys_rep_def)

lemma phys_newcap_gt: "cap = 0 \<or> 2 \<le> cap \<Longrightarrow> cap < phys_newcap cap \<and> 2 \<le> phys_newcap cap"
  by (auto simp: phys_newcap_def)

lemma phys_take_node_rep:
  assumes "phys_take_node ok m = Some (node, m1)" "phys_rep m c f"
  shows "\<exists>f'. phys_rep m1 c f' \<and> node \<notin> set f' \<and> (\<forall>i. node \<notin> set (c i)) \<and>
    node < phys_pool_count m1 \<and> phys_pool m1 = phys_pool m \<and> phys_head m1 = phys_head m"
proof (cases "phys_free m = 0")
  case True
  from assms(1) True obtain cap where node: "node = phys_pool_count m"
    and m1: "m1 = m\<lparr>phys_pool_cap := cap, phys_pool_count := Suc (phys_pool_count m)\<rparr>"
    and cap: "cap = phys_pool_cap m \<and> phys_pool_count m \<noteq> cap \<or>
      cap = phys_newcap (phys_pool_cap m) \<and> phys_pool_count m = phys_pool_cap m"
    by (auto simp: phys_take_node_def Let_def split: if_splits)
  have "Suc (phys_pool_count m) \<le> cap" "2 \<le> cap"
    using cap phys_repD(9,10) [OF assms(2)] phys_newcap_gt [of "phys_pool_cap m"] by auto
  then have "phys_rep m1 c f"
    unfolding m1 phys_rep_def using assms(2) by (auto simp: phys_rep_def subset_iff intro!: less_SucI)
  moreover have "node \<notin> set f" "\<forall>i. node \<notin> set (c i)"
    using phys_repD(4,8) [OF assms(2)] node by auto
  ultimately show ?thesis
    using m1 node by (intro exI [of _ f]) simp
next
  case False
  with phys_repD(6) [OF assms(2)] obtain n f' where f: "f = n # f'" "phys_free m = Suc n"
    by (cases f) auto
  with assms(1) False have m1: "node = n" "m1 = m\<lparr>phys_free := nnext (phys_pool m n)\<rparr>"
    by (auto simp: phys_take_node_def Let_def)
  have "phys_rep m1 c f'"
    unfolding m1(2) phys_rep_def using assms(2) f by (auto simp: phys_rep_def)
  moreover have "n \<notin> set f'" "n < phys_pool_count m" "\<forall>i. n \<notin> set (c i)"
    using phys_repD(3,7,8) [OF assms(2)] f by (auto simp: disjoint_iff)
  ultimately show ?thesis
    using m1 by auto
qed

lemma phys_insert_rel:
  assumes "phys_rel m A" "off div 4096 < FASTMEM_PHYS_PAGES" "phys_take_node ok m \<noteq> None"
  shows "phys_rel (fastmem_phys_insert ok off v m) (A(off div 4096 := v # A (off div 4096)))"
proof -
  from assms(1) obtain c f where rep: "phys_rep m c f"
    and A: "\<And>i. A i = map (\<lambda>n. nvaddr (phys_pool m n)) (c i)"
    by (auto simp: phys_rel_def)
  from assms(3) obtain node m1 where take: "phys_take_node ok m = Some (node, m1)" by auto
  from phys_take_node_rep [OF this rep] obtain f' where m1: "phys_rep m1 c f'" "node \<notin> set f'"
    "\<And>i. node \<notin> set (c i)" "node < phys_pool_count m1" "phys_pool m1 = phys_pool m" by auto
  let ?i = "off div 4096" and ?P = "(phys_pool m1)(node := \<lparr>nvaddr = v, nnext = phys_head m1 (off div 4096)\<rparr>)"
  let ?m = "m1\<lparr>phys_pool := ?P, phys_head := (phys_head m1)(?i := Suc node)\<rparr>"
  have res: "fastmem_phys_insert ok off v m = ?m"
    using assms(2) take by (simp add: fastmem_phys_insert_def Let_def)
  have keep: "seg ?P l (c i) e = seg (phys_pool m1) l (c i) e" "seg ?P l f' e = seg (phys_pool m1) l f' e" for l i e
    using m1(2,3) by (auto intro!: seg_cong)
  have "phys_rep ?m (c(?i := node # c ?i)) f'"
    unfolding phys_rep_def using m1(1-4) keep by (auto simp: phys_rep_def)
  moreover have "\<forall>i. (A(?i := v # A ?i)) i = map (\<lambda>n. nvaddr (phys_pool ?m n)) ((c(?i := node # c ?i)) i)"
    using A m1(3,5) by (auto intro!: map_cong)
  ultimately show ?thesis unfolding res phys_rel_def by blast
qed

subsection \<open>Removal\<close>

text \<open>The link the removal loop holds when it has passed the nodes \<open>pre\<close> of chain \<open>i\<close>.\<close>

definition link_after :: "u32 \<Rightarrow> nat list \<Rightarrow> phys_link" where
  "link_after i pre = (if pre = [] then Head i else Next (last pre))"

lemma get_link_after:
  assumes "phys_rep m c f" "c i = pre @ suf"
  shows "get_link (link_after i pre) m = (case suf of [] \<Rightarrow> 0 | n # _ \<Rightarrow> Suc n)"
proof -
  have "chain (phys_pool m) (phys_head m i) (pre @ suf)"
    using phys_repD(1) [OF assms(1), of i] assms(2) by simp
  then show ?thesis
    by (cases pre rule: rev_cases; cases suf) (auto simp: link_after_def seg_append)
qed

lemma phys_unlink_rep:
  assumes rep: "phys_rep m c f" and ci: "c i = pre @ node # suf"
  defines "m' \<equiv> phys_unlink (link_after i pre) node m"
  shows "phys_rep m' (c(i := pre @ suf)) (node # f)"
    and "nvaddr (phys_pool m' n) = nvaddr (phys_pool m n)"
proof -
  show "nvaddr (phys_pool m' n) = nvaddr (phys_pool m n)"
    by (auto simp: m'_def phys_unlink_def link_after_def Let_def)
  have ch: "chain (phys_pool m) (phys_head m i) (pre @ node # suf)" and dist: "distinct (pre @ node # suf)"
    using phys_repD(1,2) [OF rep, of i] ci by simp_all
  have node: "node \<notin> set f" "node < phys_pool_count m" "\<And>j. j \<noteq> i \<Longrightarrow> node \<notin> set (c j)"
    using phys_repD(3,4,5) [OF rep, where i = i] ci by (auto simp: disjoint_iff)
  have pre: "\<And>x. x \<in> set pre \<Longrightarrow> x \<notin> set f" "\<And>x j. x \<in> set pre \<Longrightarrow> j \<noteq> i \<Longrightarrow> x \<notin> set (c j)"
    using phys_repD(3,5) [OF rep, where i = i] ci by (auto simp: disjoint_iff)
  have other: "nnext (phys_pool m' x) = nnext (phys_pool m x)" if "x \<noteq> node" "pre = [] \<or> x \<noteq> last pre" for x
    using that by (auto simp: m'_def phys_unlink_def link_after_def Let_def)
  have nodenext: "nnext (phys_pool m' node) = phys_free m"
    by (auto simp: m'_def phys_unlink_def link_after_def Let_def)
  have rest: "phys_free m' = Suc node" "phys_pool_count m' = phys_pool_count m" "phys_pool_cap m' = phys_pool_cap m"
    "\<And>j. j \<noteq> i \<Longrightarrow> phys_head m' j = phys_head m j"
    by (auto simp: m'_def phys_unlink_def link_after_def Let_def)
  have suf: "chain (phys_pool m') l suf = chain (phys_pool m) l suf" for l
    using dist by (intro seg_cong other) (auto dest: last_in_set)
  have ichain: "chain (phys_pool m') (phys_head m' i) (pre @ suf)"
  proof (cases pre rule: rev_cases)
    case Nil
    then show ?thesis
      using ch suf by (simp add: m'_def phys_unlink_def link_after_def Let_def)
  next
    case (snoc pre' x)
    have "seg (phys_pool m') l pre' e = seg (phys_pool m) l pre' e" for l e
      using dist snoc by (intro seg_cong other) auto
    moreover have "nnext (phys_pool m' x) = nnext (phys_pool m node)" "phys_head m' i = phys_head m i"
      using snoc dist by (auto simp: m'_def phys_unlink_def link_after_def Let_def)
    ultimately show ?thesis
      using ch snoc suf by (simp add: seg_append)
  qed
  have jchain: "chain (phys_pool m') (phys_head m' j) (c j)" if "j \<noteq> i" for j
  proof -
    have "seg (phys_pool m') l (c j) 0 = seg (phys_pool m) l (c j) 0" for l
      using node(3) [OF that] pre(2) [OF _ that] by (intro seg_cong other) (auto dest: last_in_set)
    then show ?thesis using phys_repD(1) [OF rep] rest(4) [OF that] by simp
  qed
  have fchain: "chain (phys_pool m') (phys_free m) f"
  proof -
    have "seg (phys_pool m') l f 0 = seg (phys_pool m) l f 0" for l
      using node(1) pre(1) by (intro seg_cong other) (auto dest: last_in_set)
    then show ?thesis using phys_repD(6) [OF rep] by simp
  qed
  have "set (pre @ node # suf) \<inter> set f = {}" "set (pre @ node # suf) \<subseteq> {..<phys_pool_count m}"
    "\<And>j. j \<noteq> i \<Longrightarrow> set (pre @ node # suf) \<inter> set (c j) = {}"
    using phys_repD(3,4,5) [OF rep, where i = i] ci by auto
  then have "chain (phys_pool m') (phys_head m' j) ((c(i := pre @ suf)) j) \<and> distinct ((c(i := pre @ suf)) j) \<and>
      set ((c(i := pre @ suf)) j) \<inter> set (node # f) = {} \<and> set ((c(i := pre @ suf)) j) \<subseteq> {..<phys_pool_count m'}" for j
    using ichain jchain dist node phys_repD(2,3,4) [OF rep] rest by (cases "j = i") auto
  moreover have "set ((c(i := pre @ suf)) j) \<inter> set ((c(i := pre @ suf)) k) = {}" if "j \<noteq> k" for j k
    using phys_repD(5) [OF rep, of j k] phys_repD(5) [OF rep, of j i] phys_repD(5) [OF rep, of i k] ci that by auto
  ultimately show "phys_rep m' (c(i := pre @ suf)) (node # f)"
    unfolding phys_rep_def using fchain nodenext rest node phys_repD(7-10) [OF rep] by auto
qed

lemma phys_remove_loop_rep:
  assumes "phys_rep m c f" "c i = pre @ suf"
  shows "\<exists>m' f'. phys_remove_loop (link_after i pre) v m = Some m' \<and>
    phys_rep m' (c(i := pre @ filter (\<lambda>n. nvaddr (phys_pool m n) \<noteq> v) suf)) f' \<and>
    (\<forall>n. nvaddr (phys_pool m' n) = nvaddr (phys_pool m n))"
  using assms
proof (induction suf arbitrary: m c f pre)
  case Nil
  have "phys_remove_loop (link_after i pre) v m = Some m"
    using get_link_after [OF Nil] by (subst phys_remove_loop.simps) simp
  moreover have "c(i := pre) = c" using Nil by auto
  ultimately show ?case using Nil by auto
next
  case (Cons n suf)
  have link: "get_link (link_after i pre) m = Suc n"
    using get_link_after [OF Cons.prems] by simp
  show ?case
  proof (cases "nvaddr (phys_pool m n) = v")
    case True
    let ?m = "phys_unlink (link_after i pre) n m"
    have rep: "phys_rep ?m (c(i := pre @ suf)) (n # f)"
      and nv: "\<And>x. nvaddr (phys_pool ?m x) = nvaddr (phys_pool m x)"
      using phys_unlink_rep [OF Cons.prems] by auto
    have "phys_remove_loop (link_after i pre) v m = phys_remove_loop (link_after i pre) v ?m"
      using link True by (subst phys_remove_loop.simps) (simp add: Let_def)
    moreover have "\<exists>m' f'. phys_remove_loop (link_after i pre) v ?m = Some m' \<and>
        phys_rep m' (c(i := pre @ filter (\<lambda>n. nvaddr (phys_pool m n) \<noteq> v) suf)) f' \<and>
        (\<forall>n. nvaddr (phys_pool m' n) = nvaddr (phys_pool m n))"
      using Cons.IH [OF rep, of pre] by (simp only: nv fun_upd_upd fun_upd_same)
    ultimately show ?thesis using True by (simp only: filter.simps simp_thms if_False)
  next
    case False
    have "phys_remove_loop (link_after i pre) v m = phys_remove_loop (link_after i (pre @ [n])) v m"
      using link False by (subst phys_remove_loop.simps) (simp add: Let_def link_after_def)
    with Cons.IH [OF Cons.prems(1), of "pre @ [n]"] Cons.prems(2) False show ?thesis by simp
  qed
qed

lemma phys_remove_rel:
  assumes "phys_rel m A"
  shows "\<exists>m'. fastmem_phys_remove off v m = Some m' \<and>
    phys_rel m' (if off div 4096 < FASTMEM_PHYS_PAGES
      then A(off div 4096 := filter (\<lambda>x. x \<noteq> v) (A (off div 4096))) else A)"
proof (cases "off div 4096 < FASTMEM_PHYS_PAGES")
  case True
  let ?i = "off div 4096"
  from assms obtain c f where rep: "phys_rep m c f"
    and A: "\<And>i. A i = map (\<lambda>n. nvaddr (phys_pool m n)) (c i)"
    by (auto simp: phys_rel_def)
  let ?c = "c(?i := filter (\<lambda>n. nvaddr (phys_pool m n) \<noteq> v) (c ?i))"
  from phys_remove_loop_rep [OF rep, of ?i "[]" "c ?i" v] obtain m' f'
    where m': "phys_remove_loop (Head ?i) v m = Some m'" "phys_rep m' ?c f'"
      "\<And>n. nvaddr (phys_pool m' n) = nvaddr (phys_pool m n)"
    by (auto simp: link_after_def)
  have "(A(?i := filter (\<lambda>x. x \<noteq> v) (A ?i))) i = map (\<lambda>n. nvaddr (phys_pool m' n)) (?c i)" for i
    by (simp add: A m'(3) filter_map comp_def)
  with m' True show ?thesis
    by (auto simp: fastmem_phys_remove_def Let_def not_le phys_rel_def intro!: exI [of _ m'])
next
  case False
  with assms show ?thesis by (simp add: fastmem_phys_remove_def Let_def not_less)
qed

lemma phys_clear_rel: "phys_rel m A \<Longrightarrow> phys_rel (fastmem_phys_clear m) (\<lambda>i. [])"
  unfolding phys_rel_def phys_rep_def by (auto simp: fastmem_phys_clear_def intro!: exI [of _ "\<lambda>i. []"] exI [of _ "[]"])

lemma phys_release_rel: "phys_rel m A \<Longrightarrow> phys_rel (fastmem_phys_release m) (\<lambda>i. [])"
  unfolding phys_rel_def phys_rep_def
  by (auto simp: fastmem_phys_clear_def fastmem_phys_release_def intro!: exI [of _ "\<lambda>i. []"] exI [of _ "[]"])

lemma phys_empty_rel: "phys_rel phys_empty (\<lambda>i. [])"
  unfolding phys_rel_def phys_rep_def by (auto simp: phys_empty_def intro!: exI [of _ "\<lambda>i. []"] exI [of _ "[]"])

subsection \<open>Refinement\<close>

datatype phys_op = Insert u32 u32 | Remove u32 u32 | Clear

primrec phys_exec :: "phys_op \<Rightarrow> phys_map \<Rightarrow> phys_map option" where
  "phys_exec (Insert off v) m = Some (fastmem_phys_insert (\<lambda>cap. True) off v m)"
| "phys_exec (Remove off v) m = fastmem_phys_remove off v m"
| "phys_exec Clear m = Some (fastmem_phys_clear m)"

primrec phys_run :: "phys_op list \<Rightarrow> phys_map \<Rightarrow> phys_map option" where
  "phys_run [] m = Some m"
| "phys_run (p # ps) m = (case phys_exec p m of None \<Rightarrow> None | Some m' \<Rightarrow> phys_run ps m')"

text \<open>The abstract multimap: the addresses of each page, newest first.\<close>

primrec multimap_exec :: "phys_op \<Rightarrow> (u32 \<Rightarrow> u32 list) \<Rightarrow> u32 \<Rightarrow> u32 list" where
  "multimap_exec (Insert off v) A =
     (if off div 4096 < FASTMEM_PHYS_PAGES then A(off div 4096 := v # A (off div 4096)) else A)"
| "multimap_exec (Remove off v) A =
     (if off div 4096 < FASTMEM_PHYS_PAGES
      then A(off div 4096 := filter (\<lambda>x. x \<noteq> v) (A (off div 4096))) else A)"
| "multimap_exec Clear A = (\<lambda>i. [])"

lemma phys_exec_rel:
  assumes "phys_rel m A"
  shows "\<exists>m'. phys_exec p m = Some m' \<and> phys_rel m' (multimap_exec p A)"
proof (cases p)
  case (Insert off v)
  show ?thesis
  proof (cases "off div 4096 < FASTMEM_PHYS_PAGES")
    case True
    moreover have "phys_take_node (\<lambda>cap. True) m \<noteq> None"
      by (simp add: phys_take_node_def Let_def)
    ultimately show ?thesis using phys_insert_rel [OF assms] Insert by simp
  next
    case False
    with assms Insert show ?thesis by (auto simp: fastmem_phys_insert_def Let_def not_le)
  qed
next
  case (Remove off v)
  with phys_remove_rel [OF assms] show ?thesis by simp
next
  case Clear
  with phys_clear_rel [OF assms] show ?thesis by simp
qed

lemma phys_run_rel:
  "phys_rel m A \<Longrightarrow> \<exists>m'. phys_run ps m = Some m' \<and> phys_rel m' (fold multimap_exec ps A)"
proof (induction ps arbitrary: m A)
  case (Cons p ps)
  from phys_exec_rel [OF Cons.prems, of p] obtain m1
    where "phys_exec p m = Some m1" "phys_rel m1 (multimap_exec p A)" by blast
  with Cons.IH [of m1] show ?case by simp
qed simp

lemma phys_walk_chain:
  "chain (phys_pool m) l ns \<Longrightarrow>
   phys_walk l acc m = Some (acc @ map (\<lambda>n. nvaddr (phys_pool m n)) ns)"
  by (induction ns arbitrary: l acc) (auto simp: phys_walk.simps)

lemma phys_walk_rel: "phys_rel m A \<Longrightarrow> phys_walk (phys_head m i) [] m = Some (A i)"
  unfolding phys_rel_def using phys_walk_chain [of m _ _ "[]"] phys_repD(1) by fastforce

text \<open>C11: the pool of chained nodes implements the reverse map. Any sequence of insertions,
  removals and clears on the empty pool terminates (removal never walks a cycle, and nodes put on
  the free list are reused without disturbing a live chain), and afterwards a walk over the chain of
  a page ends and visits exactly the addresses inserted for it and not removed since, newest first.
  The allocations of the pool are taken to succeed (the source drops an insertion when one fails), and its
  indices do not wrap.\<close>

theorem phys_pool_refines_multimap:
  "\<exists>m. phys_run ps phys_empty = Some m \<and>
     (\<forall>i. phys_walk (phys_head m i) [] m = Some (fold multimap_exec ps (\<lambda>i. []) i))"
  using phys_run_rel [OF phys_empty_rel, of ps] phys_walk_rel by blast

end
