(* ===== verification/VTLB.thy ===== *)
theory VTLB
  imports EE_COP0 Fastmem_Pool
begin

text \<open>
  The virtual memory of the Emotion Engine, src/pcsx2/vtlb.h and src/pcsx2/vtlb.cpp: the packed
  physical and virtual page entries, handler registration, the page tables, the fastmem mappings
  that mirror them, and the memory accesses of the interpreter. Host memory is a byte array indexed
  by host address; a page of the virtual space is a host pointer or a handler.
\<close>

subsection \<open>Host memory\<close>

definition load_le :: "(u64 \<Rightarrow> u8) \<Rightarrow> u64 \<Rightarrow> 'a::len word" where
  "load_le m p = fold (\<lambda>i w. w OR push_bit (8 * i) (ucast (m (p + of_nat i)))) [0..<LENGTH('a) div 8] 0"

definition store_le :: "u64 \<Rightarrow> 'a::len word \<Rightarrow> (u64 \<Rightarrow> u8) \<Rightarrow> u64 \<Rightarrow> u8" where
  "store_le p v m = (\<lambda>q. if unat (q - p) < LENGTH('a) div 8
     then ucast (drop_bit (8 * unat (q - p)) v) else m q)"

subsection \<open>Page entries\<close>

text \<open>\<open>vtlb_phys_t\<close> and \<open>vtlb_virt_t\<close> are 64-bit integers; a set sign bit marks a handler.\<close>

definition POINTER_SIGN_BIT :: u64 where
  "POINTER_SIGN_BIT = 0x8000000000000000"

definition vtlb_phys_from_handler :: "u32 \<Rightarrow> u64" where
  "vtlb_phys_from_handler h = ucast h OR POINTER_SIGN_BIT"

definition vtlb_phys_is_handler :: "u64 \<Rightarrow> bool" where
  "vtlb_phys_is_handler v \<longleftrightarrow> sint v < 0"

definition vtlb_virt_make :: "u64 \<Rightarrow> u32 \<Rightarrow> u32 \<Rightarrow> u64" where
  "vtlb_virt_make phys paddr vaddr =
     (if vtlb_phys_is_handler phys then phys + ucast paddr - ucast vaddr else phys - ucast vaddr)"

definition vtlb_virt_from_ptr :: "u64 \<Rightarrow> u32 \<Rightarrow> u64" where
  "vtlb_virt_from_ptr ptr vaddr = ptr - ucast vaddr"

definition vtlb_virt_is_handler :: "u64 \<Rightarrow> u32 \<Rightarrow> bool" where
  "vtlb_virt_is_handler v vaddr \<longleftrightarrow> sint (v + ucast vaddr) < 0"

definition vtlb_virt_ptr :: "u64 \<Rightarrow> u32 \<Rightarrow> u64" where
  "vtlb_virt_ptr v vaddr = v + ucast vaddr"

definition vtlb_virt_id :: "u64 \<Rightarrow> nat" where
  "vtlb_virt_id v = unat (ucast v :: u8)"

definition vtlb_virt_paddr :: "u64 \<Rightarrow> u32 \<Rightarrow> u32" where
  "vtlb_virt_paddr v vaddr = ucast ((v + ucast vaddr - ucast (ucast v :: u8)) AND NOT POINTER_SIGN_BIT)"

subsection \<open>Machine state\<close>

text \<open>Entries of \<open>RWFT\<close> are function pointers: the three families of vtlb.cpp, or a handler
  installed by another component, which is a parameter of the accesses below.\<close>

datatype mem_handler = vtlbUnmappedV | vtlbUnmappedP | vtlbDefaultPhy | Device nat

record tlbs =
  tPageMask :: u32
  tEntryHi :: u32
  tEntryLo0 :: u32
  tEntryLo1 :: u32
  tMask :: u32
  tnMask :: u32
  tG :: u32
  tASID :: u32
  tVPN2 :: u32
  tPFN0 :: u32
  tPFN1 :: u32
  tS :: u32

text \<open>Where the guest memories lie in host memory and in the shared main-memory file.\<close>

record mem_layout =
  eeMem_Main :: u64
  eeMem_ZeroRead :: u64
  eeMem_Scratch :: u64
  iopMem_Main :: u64
  iopMem_P :: u64
  VUMem_start :: u64
  VUMem_end :: u64

record 'd ee =
  cpu :: cpuRegisters
  tlb :: "nat \<Rightarrow> tlbs"
  RWFT :: "nat \<Rightarrow> bool \<Rightarrow> nat \<Rightarrow> mem_handler"
  vtlbHandlerCount :: nat
  UnmappedVirtHandler :: u32
  UnmappedPhyHandler :: u32
  DefaultPhyHandler :: u32
  pmap :: "17 word \<Rightarrow> u64"
  vmap :: "20 word \<Rightarrow> u64"
  ppmap :: "(20 word \<Rightarrow> u32) option"
  fastmem_virtual_mapping :: "(20 word \<Rightarrow> u32) option"
  fastmem_area :: "20 word \<Rightarrow> u32 option"
  pageshift :: nat
  fastmem_phys :: phys_map
  host :: "u64 \<Rightarrow> u8"
  layout :: mem_layout
  Cpu_is_intCpu :: bool
  CHECK_EEREC :: bool
  CHECK_CACHE :: bool
  CHECK_FASTMEM :: bool
  branch2 :: bool
  cpuBlockCycles :: u32
  intLastBranchTo :: u32
  EECycleRate :: u8
  WaitLoop :: bool
  dev :: 'd

text \<open>An access returns a value, or cancels the instruction (\<open>Cpu->CancelInstruction()\<close> jumps back
  to the execution loop).\<close>

datatype ('a, 's) result = Done 'a 's | Cancel 's

definition bindR :: "('a, 's) result \<Rightarrow> ('a \<Rightarrow> 's \<Rightarrow> ('b, 's) result) \<Rightarrow> ('b, 's) result" where
  "bindR r f = (case r of Done a s \<Rightarrow> f a s | Cancel s \<Rightarrow> Cancel s)"

primrec final_state :: "('a, 's) result \<Rightarrow> 's" where
  "final_state (Done a s) = s"
| "final_state (Cancel s) = s"

lemma bindR_simps [simp]: "bindR (Done a s) f = f a s" "bindR (Cancel s) f = Cancel s"
  by (simp_all add: bindR_def)

text \<open>Code outside this model: the handlers of the other components, by number and access width
  (row of \<open>RWFT\<close>: 0 to 4 for 8 to 128 bits), the data cache of Cache.cpp, whether the operating
  system maps a page of the fastmem area (host page, file offset), whether \<open>realloc\<close> succeeds, and
  the recompiler's \<open>Cpu->Clear\<close>.\<close>

record 'd io =
  dev_read :: "nat \<Rightarrow> nat \<Rightarrow> u32 \<Rightarrow> 'd ee \<Rightarrow> (u128, 'd ee) result"
  dev_write :: "nat \<Rightarrow> nat \<Rightarrow> u32 \<Rightarrow> u128 \<Rightarrow> 'd ee \<Rightarrow> (unit, 'd ee) result"
  readCache :: "nat \<Rightarrow> u32 \<Rightarrow> 'd ee \<Rightarrow> (u128, 'd ee) result"
  writeCache :: "nat \<Rightarrow> u32 \<Rightarrow> u128 \<Rightarrow> 'd ee \<Rightarrow> (unit, 'd ee) result"
  os_map :: "20 word \<Rightarrow> u32 \<Rightarrow> bool"
  realloc_ok :: "nat \<Rightarrow> bool"
  Cpu_Clear :: "u32 \<Rightarrow> u32 \<Rightarrow> 'd \<Rightarrow> 'd"

subsection \<open>Cacheability\<close>

function count_set_bits :: "u32 \<Rightarrow> u32 \<Rightarrow> u32" where
  "count_set_bits bits m = (if bits = 0 then m else count_set_bits (drop_bit 1 bits) (m + (bits AND 1)))"
  by pat_completeness auto
termination
proof (relation "measure (\<lambda>(bits, m). unat bits)")
  fix bits m :: u32
  assume "bits \<noteq> 0"
  then have "0 < unat bits" by (simp add: unat_gt_0)
  then have "unat (drop_bit 1 bits) < unat bits" by (simp add: drop_bit_eq_div unat_div)
  then show "((drop_bit 1 bits, m + (bits AND 1)), (bits, m)) \<in> measure (\<lambda>(bits, m). unat bits)"
    by simp
qed simp

declare count_set_bits.simps [simp del]

definition ConvertPageMask :: "u32 \<Rightarrow> u32" where
  "ConvertPageMask PageMask = push_bit (12 + unat (count_set_bits (drop_bit 13 PageMask) 0)) 1 - 1"

definition CheckCache :: "u32 \<Rightarrow> 'd ee \<Rightarrow> bool" where
  "CheckCache addr s \<longleftrightarrow>
     bit (CP0 (cpu s) cp0_Config) 16 \<and>
     list_ex (\<lambda>i. let t = tlb s i; m = ConvertPageMask (tPageMask t) in
         drop_bit 3 (tEntryLo1 t AND 0x38) = 3 \<and> tPFN1 t \<le> addr \<and> addr \<le> tPFN1 t + m \<or>
         drop_bit 3 (tEntryLo0 t AND 0x38) = 3 \<and> tPFN0 t \<le> addr \<and> addr \<le> tPFN0 t + m)
       [1..<48]"

subsection \<open>TLB misses and the built-in handlers\<close>

text \<open>\<open>vtlb_Miss\<close> raises the exception and cancels under the interpreter, and does nothing under a
  recompiler.\<close>

definition vtlb_Miss :: "u32 \<Rightarrow> bool \<Rightarrow> 'd ee \<Rightarrow> (unit, 'd ee) result" where
  "vtlb_Miss addr write s =
     (if Cpu_is_intCpu s
      then Cancel (s\<lparr>cpu := cpuTlbMiss addr (branch (cpu s)) (if write then EXC_CODE_TLBS else EXC_CODE_TLBL) (cpu s)\<rparr>)
      else Done () s)"

definition call_read :: "'d io \<Rightarrow> mem_handler \<Rightarrow> nat \<Rightarrow> u32 \<Rightarrow> 'd ee \<Rightarrow> (u128, 'd ee) result" where
  "call_read io h row paddr s =
     (case h of
        vtlbUnmappedV \<Rightarrow> bindR (vtlb_Miss paddr False s) (\<lambda>_ s. Done 0 s)
      | vtlbUnmappedP \<Rightarrow> Done 0 s
      | vtlbDefaultPhy \<Rightarrow> Done 0 s
      | Device k \<Rightarrow> dev_read io k row paddr s)"

definition call_write :: "'d io \<Rightarrow> mem_handler \<Rightarrow> nat \<Rightarrow> u32 \<Rightarrow> u128 \<Rightarrow> 'd ee \<Rightarrow> (unit, 'd ee) result" where
  "call_write io h row paddr v s =
     (case h of
        vtlbUnmappedV \<Rightarrow> vtlb_Miss paddr True s
      | vtlbUnmappedP \<Rightarrow> Done () s
      | vtlbDefaultPhy \<Rightarrow> Done () s
      | Device k \<Rightarrow> dev_write io k row paddr v s)"

subsection \<open>Memory accesses\<close>

definition page_of :: "u32 \<Rightarrow> 20 word" where
  "page_of addr = ucast (drop_bit 12 addr)"

definition vtlb_memRead :: "nat \<Rightarrow> 'd io \<Rightarrow> u32 \<Rightarrow> 'd ee \<Rightarrow> ('a::len word, 'd ee) result" where
  "vtlb_memRead row io addr s =
     (let vmv = vmap s (page_of addr); p = vmv + ucast addr in
      if sint p < 0 then
        let id8 = (ucast vmv :: u8); paddr = ucast ((p - ucast id8) AND NOT POINTER_SIGN_BIT) in
        bindR (call_read io (RWFT s row False (unat id8)) row paddr s) (\<lambda>v s. Done (ucast v) s)
      else if \<not> CHECK_EEREC s \<and> CHECK_CACHE s \<and> CheckCache addr s
      then bindR (readCache io row addr s) (\<lambda>v s. Done (ucast v) s)
      else Done (load_le (host s) p) s)"

definition vtlb_memWrite :: "nat \<Rightarrow> 'd io \<Rightarrow> u32 \<Rightarrow> 'a::len word \<Rightarrow> 'd ee \<Rightarrow> (unit, 'd ee) result" where
  "vtlb_memWrite row io addr v s =
     (let vmv = vmap s (page_of addr); p = vmv + ucast addr in
      if sint p < 0 then
        let id8 = (ucast vmv :: u8); paddr = ucast ((p - ucast id8) AND NOT POINTER_SIGN_BIT) in
        call_write io (RWFT s row True (unat id8)) row paddr (ucast v) s
      else if \<not> CHECK_EEREC s \<and> CHECK_CACHE s \<and> CheckCache addr s
      then writeCache io row addr (ucast v) s
      else Done () (s\<lparr>host := store_le p v (host s)\<rparr>))"

definition memRead8 :: "'d io \<Rightarrow> u32 \<Rightarrow> 'd ee \<Rightarrow> (u8, 'd ee) result" where
  "memRead8 = vtlb_memRead 0"
definition memRead16 :: "'d io \<Rightarrow> u32 \<Rightarrow> 'd ee \<Rightarrow> (u16, 'd ee) result" where
  "memRead16 = vtlb_memRead 1"
definition memRead32 :: "'d io \<Rightarrow> u32 \<Rightarrow> 'd ee \<Rightarrow> (u32, 'd ee) result" where
  "memRead32 = vtlb_memRead 2"
definition memRead64 :: "'d io \<Rightarrow> u32 \<Rightarrow> 'd ee \<Rightarrow> (u64, 'd ee) result" where
  "memRead64 = vtlb_memRead 3"
definition memRead128 :: "'d io \<Rightarrow> u32 \<Rightarrow> 'd ee \<Rightarrow> (u128, 'd ee) result" where
  "memRead128 = vtlb_memRead 4"

definition memWrite8 :: "'d io \<Rightarrow> u32 \<Rightarrow> u8 \<Rightarrow> 'd ee \<Rightarrow> (unit, 'd ee) result" where
  "memWrite8 = vtlb_memWrite 0"
definition memWrite16 :: "'d io \<Rightarrow> u32 \<Rightarrow> u16 \<Rightarrow> 'd ee \<Rightarrow> (unit, 'd ee) result" where
  "memWrite16 = vtlb_memWrite 1"
definition memWrite32 :: "'d io \<Rightarrow> u32 \<Rightarrow> u32 \<Rightarrow> 'd ee \<Rightarrow> (unit, 'd ee) result" where
  "memWrite32 = vtlb_memWrite 2"
definition memWrite64 :: "'d io \<Rightarrow> u32 \<Rightarrow> u64 \<Rightarrow> 'd ee \<Rightarrow> (unit, 'd ee) result" where
  "memWrite64 = vtlb_memWrite 3"
definition memWrite128 :: "'d io \<Rightarrow> u32 \<Rightarrow> u128 \<Rightarrow> 'd ee \<Rightarrow> (unit, 'd ee) result" where
  "memWrite128 = vtlb_memWrite 4"

subsection \<open>Handlers and the physical map\<close>

text \<open>A null pointer in the argument list of \<open>vtlb_ReassignHandler\<close> selects the default handler:
  \<open>fs row write\<close> is the argument for one width and direction.\<close>

definition vtlb_ReassignHandler :: "nat \<Rightarrow> (nat \<Rightarrow> bool \<Rightarrow> mem_handler option) \<Rightarrow> 'd ee \<Rightarrow> 'd ee" where
  "vtlb_ReassignHandler rv fs s =
     s\<lparr>RWFT := (\<lambda>row w h. if h = rv \<and> row < 5
        then (case fs row w of None \<Rightarrow> vtlbDefaultPhy | Some f \<Rightarrow> f) else RWFT s row w h)\<rparr>"

definition vtlb_NewHandler :: "'d ee \<Rightarrow> nat \<times> 'd ee" where
  "vtlb_NewHandler s = (vtlbHandlerCount s, s\<lparr>vtlbHandlerCount := vtlbHandlerCount s + 1\<rparr>)"

definition vtlb_RegisterHandler :: "(nat \<Rightarrow> bool \<Rightarrow> mem_handler option) \<Rightarrow> 'd ee \<Rightarrow> nat \<times> 'd ee" where
  "vtlb_RegisterHandler fs s =
     (let (rv, s1) = vtlb_NewHandler s in (rv, vtlb_ReassignHandler rv fs s1))"

text \<open>The mapping loops count whole pages, as their callers pass page-aligned addresses and sizes;
  the body gets the offset of the page from the start of the range.\<close>

definition for_pages :: "u32 \<Rightarrow> (u32 \<Rightarrow> 's \<Rightarrow> 's) \<Rightarrow> 's \<Rightarrow> 's" where
  "for_pages sz body s = fold (\<lambda>i. body (4096 * of_nat i)) [0..<unat sz div 4096] s"

definition ppage :: "u32 \<Rightarrow> 17 word" where
  "ppage paddr = ucast (drop_bit 12 paddr)"

definition vtlb_MapHandler :: "u32 \<Rightarrow> u32 \<Rightarrow> u32 \<Rightarrow> 'd ee \<Rightarrow> 'd ee" where
  "vtlb_MapHandler h start sz s =
     for_pages sz (\<lambda>off s. s\<lparr>pmap := (pmap s)(ppage (start + off) := vtlb_phys_from_handler h)\<rparr>) s"

text \<open>\<open>vtlb_MapBlock\<close> repeats a block of \<open>blocksize\<close> bytes at \<open>base\<close> until the range is full.\<close>

definition vtlb_MapBlock :: "u64 \<Rightarrow> u32 \<Rightarrow> u32 \<Rightarrow> u32 \<Rightarrow> 'd ee \<Rightarrow> 'd ee" where
  "vtlb_MapBlock base start sz blocksize0 s =
     (let blocksize = (if blocksize0 = 0 then sz else blocksize0);
          blocks = (unat sz + unat blocksize - 1) div unat blocksize
      in fold (\<lambda>b. for_pages blocksize (\<lambda>off s.
            s\<lparr>pmap := (pmap s)(ppage (start + of_nat b * blocksize + off) := base + ucast off)\<rparr>))
          [0..<blocks] s)"

definition VTLB_PMAP_SZ :: u32 where
  "VTLB_PMAP_SZ = 0x20000000"

definition vtlb_GetPhyPtr :: "u32 \<Rightarrow> 'd ee \<Rightarrow> u64" where
  "vtlb_GetPhyPtr paddr s =
     (if paddr \<ge> VTLB_PMAP_SZ \<or> vtlb_phys_is_handler (pmap s (ppage paddr)) then 0
      else pmap s (ppage paddr) + ucast (paddr AND 4095))"

definition vtlb_V2P :: "u32 \<Rightarrow> (20 word \<Rightarrow> u32) \<Rightarrow> u32" where
  "vtlb_V2P vaddr pp = pp (page_of vaddr) OR (vaddr AND 4095)"

subsection \<open>Fastmem mappings\<close>

text \<open>The host may use larger pages than the guest: \<open>pageshift\<close> is its \<open>__pageshift\<close>, and a host page
  is mapped only while all guest pages in it are mapped to consecutive memory.\<close>

definition NO_FASTMEM_MAPPING :: u32 where
  "NO_FASTMEM_MAPPING = 0xFFFFFFFF"

definition pagemask :: "'d ee \<Rightarrow> u32" where
  "pagemask s = mask (pageshift s)"

definition vtlb_HostPage :: "20 word \<Rightarrow> 'd ee \<Rightarrow> 20 word" where
  "vtlb_HostPage page s = (if pageshift s = 12 then page else drop_bit (pageshift s - 12) page)"

definition vtlb_HostAlignOffset :: "u32 \<Rightarrow> 'd ee \<Rightarrow> u32" where
  "vtlb_HostAlignOffset off s = (if pageshift s = 12 then off else off AND NOT (pagemask s))"

definition vtlb_IsHostCoalesced :: "20 word \<Rightarrow> (20 word \<Rightarrow> u32) \<Rightarrow> 'd ee \<Rightarrow> bool" where
  "vtlb_IsHostCoalesced page vm s \<longleftrightarrow> pageshift s = 12 \<or>
     (let count = 2 ^ (pageshift s - 12); base = page AND NOT (mask (pageshift s - 12));
          base_offset = vm base
      in base_offset AND pagemask s = 0 \<and>
         list_all (\<lambda>i. vm (base + of_nat i) = base_offset + of_nat i * 4096) [0..<count])"

definition vtlb_GetMainMemoryOffsetFromPtr :: "u64 \<Rightarrow> 'd ee \<Rightarrow> u32 option" where
  "vtlb_GetMainMemoryOffsetFromPtr ptr s =
     (let page_end = ptr + 4096; l = layout s in
      if ptr \<ge> eeMem_Main l \<and> page_end \<le> eeMem_ZeroRead l
      then Some (ucast (ptr - eeMem_Main l) + 0x00000000)
      else if ptr \<ge> iopMem_Main l \<and> page_end \<le> iopMem_P l
      then Some (ucast (ptr - iopMem_Main l) + 0x04000000)
      else if ptr \<ge> VUMem_start l \<and> page_end \<le> VUMem_end l
      then Some (ucast (ptr - VUMem_start l) + 0x08000000)
      else None)"

definition vtlb_GetMainMemoryOffset :: "u32 \<Rightarrow> 'd ee \<Rightarrow> u32 option" where
  "vtlb_GetMainMemoryOffset paddr s =
     (if paddr \<ge> VTLB_PMAP_SZ then None
      else if vtlb_phys_is_handler (pmap s (ppage paddr)) then None
      else vtlb_GetMainMemoryOffsetFromPtr (pmap s (ppage paddr)) s)"

text \<open>The removal from the reverse map returns on every well-formed pool; for a pool on which it
  would not, nothing is claimed and the map is left as it is.\<close>

definition phys_remove :: "u32 \<Rightarrow> u32 \<Rightarrow> phys_map \<Rightarrow> phys_map" where
  "phys_remove off v m = (case fastmem_phys_remove off v m of Some m' \<Rightarrow> m' | None \<Rightarrow> m)"

text \<open>Dropping the current mapping of a page: \<open>rem_off\<close> is the offset handed to
  \<open>fastmem_phys_remove\<close>.\<close>

definition drop_fastmem_page :: "20 word \<Rightarrow> u32 \<Rightarrow> u32 \<Rightarrow> (20 word \<Rightarrow> u32) \<Rightarrow> 'd ee \<Rightarrow> 'd ee" where
  "drop_fastmem_page page vaddr rem_off vm s =
     s\<lparr>fastmem_virtual_mapping := Some (vm(page := NO_FASTMEM_MAPPING)),
       fastmem_area := (if vtlb_IsHostCoalesced page vm s
         then (fastmem_area s)(vtlb_HostPage page s := None) else fastmem_area s),
       fastmem_phys := phys_remove rem_off vaddr (fastmem_phys s)\<rparr>"

definition vtlb_CreateFastmemMapping :: "'d io \<Rightarrow> u32 \<Rightarrow> u32 \<Rightarrow> 'd ee \<Rightarrow> 'd ee" where
  "vtlb_CreateFastmemMapping io vaddr mainmem_offset s =
     (case fastmem_virtual_mapping s of
        None \<Rightarrow> s
      | Some vm0 \<Rightarrow>
          let page = page_of vaddr in
          if vm0 page = mainmem_offset then s
          else
            let s1 = (if vm0 page \<noteq> NO_FASTMEM_MAPPING
                      then drop_fastmem_page page vaddr mainmem_offset vm0 s else s);
                vm = vm0(page := mainmem_offset);
                hp = vtlb_HostPage page s1; ho = vtlb_HostAlignOffset mainmem_offset s1
            in if vtlb_IsHostCoalesced page vm s1 then
                 if \<not> os_map io hp ho
                 then s1\<lparr>fastmem_virtual_mapping := Some (vm0(page := NO_FASTMEM_MAPPING))\<rparr>
                 else s1\<lparr>fastmem_virtual_mapping := Some vm,
                         fastmem_area := (fastmem_area s1)(hp := Some ho),
                         fastmem_phys := fastmem_phys_insert (realloc_ok io) mainmem_offset vaddr (fastmem_phys s1)\<rparr>
               else s1\<lparr>fastmem_virtual_mapping := Some vm,
                       fastmem_phys := fastmem_phys_insert (realloc_ok io) mainmem_offset vaddr (fastmem_phys s1)\<rparr>)"

definition vtlb_RemoveFastmemMapping :: "u32 \<Rightarrow> 'd ee \<Rightarrow> 'd ee" where
  "vtlb_RemoveFastmemMapping vaddr s =
     (case fastmem_virtual_mapping s of
        None \<Rightarrow> s
      | Some vm \<Rightarrow>
          let page = page_of vaddr in
          if vm page = NO_FASTMEM_MAPPING then s
          else drop_fastmem_page page vaddr (vm page) vm s)"

definition vtlb_RemoveFastmemMappings :: "u32 \<Rightarrow> u32 \<Rightarrow> 'd ee \<Rightarrow> 'd ee" where
  "vtlb_RemoveFastmemMappings vaddr sz s =
     for_pages sz (\<lambda>off. vtlb_RemoveFastmemMapping (vaddr + off)) s"

subsection \<open>Virtual mappings\<close>

definition vmap_fastmem_page :: "'d io \<Rightarrow> u32 \<Rightarrow> u32 \<Rightarrow> 'd ee \<Rightarrow> 'd ee" where
  "vmap_fastmem_page io vaddr paddr s =
     (case vtlb_GetMainMemoryOffset paddr s of
        Some hoffset \<Rightarrow> vtlb_CreateFastmemMapping io vaddr hoffset s
      | None \<Rightarrow> vtlb_RemoveFastmemMapping vaddr s)"

definition vmap_entry :: "u32 \<Rightarrow> u32 \<Rightarrow> 'd ee \<Rightarrow> u64" where
  "vmap_entry vaddr paddr s =
     (if paddr \<ge> VTLB_PMAP_SZ
      then vtlb_virt_make (vtlb_phys_from_handler (UnmappedPhyHandler s)) paddr vaddr
      else vtlb_virt_make (pmap s (ppage paddr)) paddr vaddr)"

definition vmap_page :: "u32 \<Rightarrow> u32 \<Rightarrow> 'd ee \<Rightarrow> 'd ee" where
  "vmap_page vaddr paddr s =
     s\<lparr>vmap := (vmap s)(page_of vaddr := vmap_entry vaddr paddr s),
       ppmap := (case ppmap s of
          None \<Rightarrow> None
        | Some pp \<Rightarrow> Some (if bit vaddr 31 then pp else pp(page_of vaddr := paddr AND NOT 4095)))\<rparr>"

definition vtlb_VMap :: "'d io \<Rightarrow> u32 \<Rightarrow> u32 \<Rightarrow> u32 \<Rightarrow> 'd ee \<Rightarrow> 'd ee" where
  "vtlb_VMap io vaddr paddr sz s =
     (let s1 = (if CHECK_FASTMEM s
                then for_pages sz (\<lambda>off. vmap_fastmem_page io (vaddr + off) (paddr + off)) s else s)
      in for_pages sz (\<lambda>off. vmap_page (vaddr + off) (paddr + off)) s1)"

definition vmap_buffer_page :: "u32 \<Rightarrow> u64 \<Rightarrow> 'd ee \<Rightarrow> 'd ee" where
  "vmap_buffer_page vaddr buf s = s\<lparr>vmap := (vmap s)(page_of vaddr := vtlb_virt_from_ptr buf vaddr)\<rparr>"

definition vtlb_VMapBuffer :: "'d io \<Rightarrow> u32 \<Rightarrow> u64 \<Rightarrow> u32 \<Rightarrow> 'd ee \<Rightarrow> 'd ee" where
  "vtlb_VMapBuffer io vaddr buf sz s =
     (let s1 = (if CHECK_FASTMEM s then
                  if buf = eeMem_Scratch (layout s) \<and> sz = 0x4000
                  then for_pages 0x4000 (\<lambda>off. vtlb_CreateFastmemMapping io (vaddr + off)
                         (ucast (eeMem_Scratch (layout s) - eeMem_Main (layout s)) + off)) s
                  else vtlb_RemoveFastmemMappings vaddr sz s
                else s)
      in for_pages sz (\<lambda>off. vmap_buffer_page (vaddr + off) (buf + ucast off)) s1)"

definition unmap_page :: "u32 \<Rightarrow> 'd ee \<Rightarrow> 'd ee" where
  "unmap_page vaddr s = s\<lparr>vmap := (vmap s)(page_of vaddr :=
     vtlb_virt_make (vtlb_phys_from_handler (UnmappedVirtHandler s)) vaddr vaddr)\<rparr>"

definition vtlb_VMapUnmap :: "u32 \<Rightarrow> u32 \<Rightarrow> 'd ee \<Rightarrow> 'd ee" where
  "vtlb_VMapUnmap vaddr sz s =
     for_pages sz (\<lambda>off. unmap_page (vaddr + off)) (vtlb_RemoveFastmemMappings vaddr sz s)"

text \<open>\<open>vtlb_Init\<close> without the allocation of the table of the Goemon game fix. It clears \<open>RWFT\<close> to
  null pointers; only numbers of registered handlers enter the page maps, so these entries are
  never called, and the model fills them with the default handler.\<close>

definition unmapped_family :: "mem_handler \<Rightarrow> nat \<Rightarrow> bool \<Rightarrow> mem_handler option" where
  "unmapped_family f row w = Some f"

definition vtlb_Init :: "'d ee \<Rightarrow> 'd ee" where
  "vtlb_Init s =
     (let s0 = s\<lparr>vtlbHandlerCount := 0, RWFT := (\<lambda>row w h. vtlbDefaultPhy)\<rparr>;
          (uv, s1) = vtlb_RegisterHandler (unmapped_family vtlbUnmappedV) s0;
          (up, s2) = vtlb_RegisterHandler (unmapped_family vtlbUnmappedP) s1;
          (dp, s3) = vtlb_RegisterHandler (\<lambda>row w. None) s2;
          s4 = s3\<lparr>UnmappedVirtHandler := of_nat uv, UnmappedPhyHandler := of_nat up, DefaultPhyHandler := of_nat dp\<rparr>;
          s5 = vtlb_MapHandler (of_nat dp) 0 VTLB_PMAP_SZ s4;
          s6 = vtlb_VMapUnmap 0 0xFFFFF000 s5
      in vtlb_VMapUnmap 0xFFFFF000 4096 s6)"

end
