(* ===== verification/EE_LoadStore.thy ===== *)
theory EE_LoadStore
  imports VTLB
begin

text \<open>
  The load and store instructions of src/pcsx2/R5900OpcodeImpl.cpp and the helpers for unaligned
  accesses that the arm64 recompiler calls, at the end of src/pcsx2/Interpreter.cpp. A memory access
  can call a device handler, so register operands are read where the source reads them: before the
  access for the address, after it for the destination.
\<close>

definition upd_cpu :: "(cpuRegisters \<Rightarrow> cpuRegisters) \<Rightarrow> 'd ee \<Rightarrow> 'd ee" where
  "upd_cpu f s = s\<lparr>cpu := f (cpu s)\<rparr>"

text \<open>The effective address \<open>GPR.r[_Rs_].UL[0] + _Imm_\<close>.\<close>

definition ea :: "'d ee \<Rightarrow> u32" where
  "ea s = UL (rs (cpu s)) 0 + imm32 (cpu s)"

text \<open>\<open>if (!_Rt_) return; GPR.r[_Rt_].SD[0] = v\<close>.\<close>

definition set_rt :: "u64 \<Rightarrow> 'd ee \<Rightarrow> 'd ee" where
  "set_rt v s = (if opRt (cpu s) = 0 then s else upd_cpu (wr (opRt (cpu s)) 0 v) s)"

definition misaligned :: "u32 \<Rightarrow> u32 \<Rightarrow> bool" where
  "misaligned m addr \<longleftrightarrow> addr AND m \<noteq> 0"

subsection \<open>Aligned loads and stores\<close>

definition LB :: "'d io \<Rightarrow> 'd ee \<Rightarrow> (unit, 'd ee) result" where
  "LB io s = bindR (memRead8 io (ea s) s) (\<lambda>v s. Done () (set_rt (scast v) s))"

definition LBU :: "'d io \<Rightarrow> 'd ee \<Rightarrow> (unit, 'd ee) result" where
  "LBU io s = bindR (memRead8 io (ea s) s) (\<lambda>v s. Done () (set_rt (ucast v) s))"

definition LH :: "'d io \<Rightarrow> 'd ee \<Rightarrow> (unit, 'd ee) result" where
  "LH io s = (if misaligned 1 (ea s) then Cancel s
     else bindR (memRead16 io (ea s) s) (\<lambda>v s. Done () (set_rt (scast v) s)))"

definition LHU :: "'d io \<Rightarrow> 'd ee \<Rightarrow> (unit, 'd ee) result" where
  "LHU io s = (if misaligned 1 (ea s) then Cancel s
     else bindR (memRead16 io (ea s) s) (\<lambda>v s. Done () (set_rt (ucast v) s)))"

definition LW :: "'d io \<Rightarrow> 'd ee \<Rightarrow> (unit, 'd ee) result" where
  "LW io s = (if misaligned 3 (ea s) then Cancel s
     else bindR (memRead32 io (ea s) s) (\<lambda>v s. Done () (set_rt (scast v) s)))"

definition LWU :: "'d io \<Rightarrow> 'd ee \<Rightarrow> (unit, 'd ee) result" where
  "LWU io s = (if misaligned 3 (ea s) then Cancel s
     else bindR (memRead32 io (ea s) s) (\<lambda>v s. Done () (set_rt (ucast v) s)))"

definition LD :: "'d io \<Rightarrow> 'd ee \<Rightarrow> (unit, 'd ee) result" where
  "LD io s = (if misaligned 7 (ea s) then Cancel s
     else bindR (memRead64 io (ea s) s) (\<lambda>v s. Done () (upd_cpu (wr (opRt (cpu s)) 0 v) s)))"

text \<open>\<open>gpr_GetWritePtr\<close> redirects writes to register 0 into a dummy variable; the pointer is taken
  before the access.\<close>

definition LQ :: "'d io \<Rightarrow> 'd ee \<Rightarrow> (unit, 'd ee) result" where
  "LQ io s = (let r = opRt (cpu s) in
     bindR (memRead128 io (ea s AND NOT 0xF) s) (\<lambda>v s.
       Done () (if r = 0 then s else upd_cpu (\<lambda>c. c\<lparr>GPR := (GPR c)(r := v)\<rparr>) s)))"

definition SB :: "'d io \<Rightarrow> 'd ee \<Rightarrow> (unit, 'd ee) result" where
  "SB io s = memWrite8 io (ea s) (UC (rt (cpu s)) 0) s"

definition SH :: "'d io \<Rightarrow> 'd ee \<Rightarrow> (unit, 'd ee) result" where
  "SH io s = (if misaligned 1 (ea s) then Cancel s else memWrite16 io (ea s) (US (rt (cpu s)) 0) s)"

definition SW :: "'d io \<Rightarrow> 'd ee \<Rightarrow> (unit, 'd ee) result" where
  "SW io s = (if misaligned 3 (ea s) then Cancel s else memWrite32 io (ea s) (UL (rt (cpu s)) 0) s)"

definition SD :: "'d io \<Rightarrow> 'd ee \<Rightarrow> (unit, 'd ee) result" where
  "SD io s = (if misaligned 7 (ea s) then Cancel s else memWrite64 io (ea s) (UD (rt (cpu s)) 0) s)"

definition SQ :: "'d io \<Rightarrow> 'd ee \<Rightarrow> (unit, 'd ee) result" where
  "SQ io s = memWrite128 io (ea s AND NOT 0xF) (rt (cpu s)) s"

subsection \<open>Merge tables of the unaligned accesses\<close>

definition LWL_MASK :: "u32 list" where "LWL_MASK = [0xffffff, 0x0000ffff, 0x000000ff, 0x00000000]"
definition LWL_SHIFT :: "nat list" where "LWL_SHIFT = [24, 16, 8, 0]"
definition LWR_MASK :: "u32 list" where "LWR_MASK = [0x000000, 0xff000000, 0xffff0000, 0xffffff00]"
definition LWR_SHIFT :: "nat list" where "LWR_SHIFT = [0, 8, 16, 24]"
definition SWL_MASK :: "u32 list" where "SWL_MASK = [0xffffff00, 0xffff0000, 0xff000000, 0x00000000]"
definition SWL_SHIFT :: "nat list" where "SWL_SHIFT = [24, 16, 8, 0]"
definition SWR_MASK :: "u32 list" where "SWR_MASK = [0x00000000, 0x000000ff, 0x0000ffff, 0x00ffffff]"
definition SWR_SHIFT :: "nat list" where "SWR_SHIFT = [0, 8, 16, 24]"

definition LDL_MASK :: "u64 list" where
  "LDL_MASK = [0x00ffffffffffffff, 0x0000ffffffffffff, 0x000000ffffffffff, 0x00000000ffffffff,
     0x0000000000ffffff, 0x000000000000ffff, 0x00000000000000ff, 0x0000000000000000]"
definition LDL_SHIFT :: "nat list" where "LDL_SHIFT = [56, 48, 40, 32, 24, 16, 8, 0]"
definition LDR_MASK :: "u64 list" where
  "LDR_MASK = [0x0000000000000000, 0xff00000000000000, 0xffff000000000000, 0xffffff0000000000,
     0xffffffff00000000, 0xffffffffff000000, 0xffffffffffff0000, 0xffffffffffffff00]"
definition LDR_SHIFT :: "nat list" where "LDR_SHIFT = [0, 8, 16, 24, 32, 40, 48, 56]"
definition SDL_MASK :: "u64 list" where
  "SDL_MASK = [0xffffffffffffff00, 0xffffffffffff0000, 0xffffffffff000000, 0xffffffff00000000,
     0xffffff0000000000, 0xffff000000000000, 0xff00000000000000, 0x0000000000000000]"
definition SDL_SHIFT :: "nat list" where "SDL_SHIFT = [56, 48, 40, 32, 24, 16, 8, 0]"
definition SDR_MASK :: "u64 list" where
  "SDR_MASK = [0x0000000000000000, 0x00000000000000ff, 0x000000000000ffff, 0x0000000000ffffff,
     0x00000000ffffffff, 0x000000ffffffffff, 0x0000ffffffffffff, 0x00ffffffffffffff]"
definition SDR_SHIFT :: "nat list" where "SDR_SHIFT = [0, 8, 16, 24, 32, 40, 48, 56]"

text \<open>The new register or memory word for each position, as the source combines them.\<close>

definition lwl_merge :: "nat \<Rightarrow> u32 \<Rightarrow> u32 \<Rightarrow> u32" where
  "lwl_merge k reg mem = (reg AND LWL_MASK ! k) OR push_bit (LWL_SHIFT ! k) mem"
definition lwr_merge :: "nat \<Rightarrow> u32 \<Rightarrow> u32 \<Rightarrow> u32" where
  "lwr_merge k reg mem = (reg AND LWR_MASK ! k) OR drop_bit (LWR_SHIFT ! k) mem"
definition swl_merge :: "nat \<Rightarrow> u32 \<Rightarrow> u32 \<Rightarrow> u32" where
  "swl_merge k reg mem = drop_bit (SWL_SHIFT ! k) reg OR (mem AND SWL_MASK ! k)"
definition swr_merge :: "nat \<Rightarrow> u32 \<Rightarrow> u32 \<Rightarrow> u32" where
  "swr_merge k reg mem = push_bit (SWR_SHIFT ! k) reg OR (mem AND SWR_MASK ! k)"
definition ldl_merge :: "nat \<Rightarrow> u64 \<Rightarrow> u64 \<Rightarrow> u64" where
  "ldl_merge k reg mem = (reg AND LDL_MASK ! k) OR push_bit (LDL_SHIFT ! k) mem"
definition ldr_merge :: "nat \<Rightarrow> u64 \<Rightarrow> u64 \<Rightarrow> u64" where
  "ldr_merge k reg mem = (reg AND LDR_MASK ! k) OR drop_bit (LDR_SHIFT ! k) mem"
definition sdl_merge :: "nat \<Rightarrow> u64 \<Rightarrow> u64 \<Rightarrow> u64" where
  "sdl_merge k reg mem = drop_bit (SDL_SHIFT ! k) reg OR (mem AND SDL_MASK ! k)"
definition sdr_merge :: "nat \<Rightarrow> u64 \<Rightarrow> u64 \<Rightarrow> u64" where
  "sdr_merge k reg mem = push_bit (SDR_SHIFT ! k) reg OR (mem AND SDR_MASK ! k)"

definition low2 :: "u32 \<Rightarrow> nat" where "low2 addr = unat (addr AND 3)"
definition low3 :: "u32 \<Rightarrow> nat" where "low3 addr = unat (addr AND 7)"

subsection \<open>Unaligned loads and stores\<close>

definition LWL :: "'d io \<Rightarrow> 'd ee \<Rightarrow> (unit, 'd ee) result" where
  "LWL io s = (let addr = ea s in
     bindR (memRead32 io (addr AND NOT 3) s) (\<lambda>mem s.
       Done () (set_rt (scast (lwl_merge (low2 addr) (UL (rt (cpu s)) 0) mem)) s)))"

definition LWR :: "'d io \<Rightarrow> 'd ee \<Rightarrow> (unit, 'd ee) result" where
  "LWR io s = (let addr = ea s in
     bindR (memRead32 io (addr AND NOT 3) s) (\<lambda>mem s.
       if opRt (cpu s) = 0 then Done () s
       else let v = lwr_merge (low2 addr) (UL (rt (cpu s)) 0) mem in
         Done () (upd_cpu (if low2 addr = 0 then wr (opRt (cpu s)) 0 (scast v :: u64)
                           else wr (opRt (cpu s)) 0 v) s)))"

definition LDL :: "'d io \<Rightarrow> 'd ee \<Rightarrow> (unit, 'd ee) result" where
  "LDL io s = (let addr = ea s in
     bindR (memRead64 io (addr AND NOT 7) s) (\<lambda>mem s.
       Done () (set_rt (ldl_merge (low3 addr) (UD (rt (cpu s)) 0) mem) s)))"

definition LDR :: "'d io \<Rightarrow> 'd ee \<Rightarrow> (unit, 'd ee) result" where
  "LDR io s = (let addr = ea s in
     bindR (memRead64 io (addr AND NOT 7) s) (\<lambda>mem s.
       Done () (set_rt (ldr_merge (low3 addr) (UD (rt (cpu s)) 0) mem) s)))"

definition SWL :: "'d io \<Rightarrow> 'd ee \<Rightarrow> (unit, 'd ee) result" where
  "SWL io s = (let addr = ea s in
     bindR (memRead32 io (addr AND NOT 3) s) (\<lambda>mem s.
       memWrite32 io (addr AND NOT 3) (swl_merge (low2 addr) (UL (rt (cpu s)) 0) mem) s))"

definition SWR :: "'d io \<Rightarrow> 'd ee \<Rightarrow> (unit, 'd ee) result" where
  "SWR io s = (let addr = ea s in
     bindR (memRead32 io (addr AND NOT 3) s) (\<lambda>mem s.
       memWrite32 io (addr AND NOT 3) (swr_merge (low2 addr) (UL (rt (cpu s)) 0) mem) s))"

definition SDL :: "'d io \<Rightarrow> 'd ee \<Rightarrow> (unit, 'd ee) result" where
  "SDL io s = (let addr = ea s in
     bindR (memRead64 io (addr AND NOT 7) s) (\<lambda>mem s.
       memWrite64 io (addr AND NOT 7) (sdl_merge (low3 addr) (UD (rt (cpu s)) 0) mem) s))"

definition SDR :: "'d io \<Rightarrow> 'd ee \<Rightarrow> (unit, 'd ee) result" where
  "SDR io s = (let addr = ea s in
     bindR (memRead64 io (addr AND NOT 7) s) (\<lambda>mem s.
       memWrite64 io (addr AND NOT 7) (sdr_merge (low3 addr) (UD (rt (cpu s)) 0) mem) s))"

subsection \<open>Helpers of the arm64 recompiler\<close>

definition eeLWL_arm64 :: "'d io \<Rightarrow> u32 \<Rightarrow> 5 word \<Rightarrow> 'd ee \<Rightarrow> (unit, 'd ee) result" where
  "eeLWL_arm64 io addr r s =
     bindR (memRead32 io (addr AND NOT 3) s) (\<lambda>mem s.
       if r = 0 then Done () s
       else Done () (upd_cpu (\<lambda>c. wr r 0 (scast (lwl_merge (low2 addr) (UL (GPR c r) 0) mem) :: u64) c) s))"

definition eeLWR_arm64 :: "'d io \<Rightarrow> u32 \<Rightarrow> 5 word \<Rightarrow> 'd ee \<Rightarrow> (unit, 'd ee) result" where
  "eeLWR_arm64 io addr r s =
     bindR (memRead32 io (addr AND NOT 3) s) (\<lambda>mem s.
       if r = 0 then Done () s
       else Done () (upd_cpu (\<lambda>c. let v = lwr_merge (low2 addr) (UL (GPR c r) 0) mem in
         if low2 addr = 0 then wr r 0 (scast v :: u64) c else wr r 0 v c) s))"

definition eeLDL_arm64 :: "'d io \<Rightarrow> u32 \<Rightarrow> 5 word \<Rightarrow> 'd ee \<Rightarrow> (unit, 'd ee) result" where
  "eeLDL_arm64 io addr r s =
     bindR (memRead64 io (addr AND NOT 7) s) (\<lambda>mem s.
       if r = 0 then Done () s
       else Done () (upd_cpu (\<lambda>c. wr r 0 (ldl_merge (low3 addr) (UD (GPR c r) 0) mem) c) s))"

definition eeLDR_arm64 :: "'d io \<Rightarrow> u32 \<Rightarrow> 5 word \<Rightarrow> 'd ee \<Rightarrow> (unit, 'd ee) result" where
  "eeLDR_arm64 io addr r s =
     bindR (memRead64 io (addr AND NOT 7) s) (\<lambda>mem s.
       if r = 0 then Done () s
       else Done () (upd_cpu (\<lambda>c. wr r 0 (ldr_merge (low3 addr) (UD (GPR c r) 0) mem) c) s))"

definition eeSWL_arm64 :: "'d io \<Rightarrow> u32 \<Rightarrow> 5 word \<Rightarrow> 'd ee \<Rightarrow> (unit, 'd ee) result" where
  "eeSWL_arm64 io addr r s =
     bindR (memRead32 io (addr AND NOT 3) s) (\<lambda>mem s.
       memWrite32 io (addr AND NOT 3) (swl_merge (low2 addr) (UL (GPR (cpu s) r) 0) mem) s)"

definition eeSWR_arm64 :: "'d io \<Rightarrow> u32 \<Rightarrow> 5 word \<Rightarrow> 'd ee \<Rightarrow> (unit, 'd ee) result" where
  "eeSWR_arm64 io addr r s =
     bindR (memRead32 io (addr AND NOT 3) s) (\<lambda>mem s.
       memWrite32 io (addr AND NOT 3) (swr_merge (low2 addr) (UL (GPR (cpu s) r) 0) mem) s)"

definition eeSDL_arm64 :: "'d io \<Rightarrow> u32 \<Rightarrow> 5 word \<Rightarrow> 'd ee \<Rightarrow> (unit, 'd ee) result" where
  "eeSDL_arm64 io addr r s =
     bindR (memRead64 io (addr AND NOT 7) s) (\<lambda>mem s.
       memWrite64 io (addr AND NOT 7) (sdl_merge (low3 addr) (UD (GPR (cpu s) r) 0) mem) s)"

definition eeSDR_arm64 :: "'d io \<Rightarrow> u32 \<Rightarrow> 5 word \<Rightarrow> 'd ee \<Rightarrow> (unit, 'd ee) result" where
  "eeSDR_arm64 io addr r s =
     bindR (memRead64 io (addr AND NOT 7) s) (\<lambda>mem s.
       memWrite64 io (addr AND NOT 7) (sdr_merge (low3 addr) (UD (GPR (cpu s) r) 0) mem) s)"

text \<open>The fused pairs.\<close>

definition eeReadU32_arm64 :: "'d io \<Rightarrow> u32 \<Rightarrow> 'd ee \<Rightarrow> (u32, 'd ee) result" where
  "eeReadU32_arm64 io addr s =
     (let k = low2 addr in
      bindR (memRead32 io ((addr + 3) AND NOT 3) s) (\<lambda>memL s.
      bindR (memRead32 io (addr AND NOT 3) s) (\<lambda>memR s.
        Done (if k = 0 then memR else push_bit (32 - 8 * k) memL OR drop_bit (8 * k) memR) s)))"

definition eeReadU64_arm64 :: "'d io \<Rightarrow> u32 \<Rightarrow> 'd ee \<Rightarrow> (u64, 'd ee) result" where
  "eeReadU64_arm64 io addr s =
     (let k = low3 addr in
      bindR (memRead64 io ((addr + 7) AND NOT 7) s) (\<lambda>memL s.
      bindR (memRead64 io (addr AND NOT 7) s) (\<lambda>memR s.
        Done (if k = 0 then memR else push_bit (64 - 8 * k) memL OR drop_bit (8 * k) memR) s)))"

definition eeWriteU32_arm64 :: "'d io \<Rightarrow> u32 \<Rightarrow> u32 \<Rightarrow> 'd ee \<Rightarrow> (unit, 'd ee) result" where
  "eeWriteU32_arm64 io addr val s =
     bindR (memRead32 io ((addr + 3) AND NOT 3) s) (\<lambda>mL s.
     bindR (memWrite32 io ((addr + 3) AND NOT 3) (swl_merge (low2 (addr + 3)) val mL) s) (\<lambda>_ s.
     bindR (memRead32 io (addr AND NOT 3) s) (\<lambda>mR s.
       memWrite32 io (addr AND NOT 3) (swr_merge (low2 addr) val mR) s)))"

definition eeWriteU64_arm64 :: "'d io \<Rightarrow> u32 \<Rightarrow> u64 \<Rightarrow> 'd ee \<Rightarrow> (unit, 'd ee) result" where
  "eeWriteU64_arm64 io addr val s =
     bindR (memRead64 io ((addr + 7) AND NOT 7) s) (\<lambda>mL s.
     bindR (memWrite64 io ((addr + 7) AND NOT 7) (sdl_merge (low3 (addr + 7)) val mL) s) (\<lambda>_ s.
     bindR (memRead64 io (addr AND NOT 7) s) (\<lambda>mR s.
       memWrite64 io (addr AND NOT 7) (sdr_merge (low3 addr) val mR) s)))"

end
