(* ===== verification/VTLB_Spec.thy ===== *)
theory VTLB_Spec
  imports VTLB
begin

text \<open>
  What the virtual memory guarantees: decoding a packed page entry gives back what was encoded, the
  mapping operations install exactly the linear mapping they are asked for and leave every other
  page alone, an unmapped page raises a TLB miss with the full faulting address, and RAM behaves as
  memory.
\<close>

subsection \<open>Packed page entries\<close>

definition aligned :: "u32 \<Rightarrow> bool" where
  "aligned v \<longleftrightarrow> v AND 0xFFF = 0"

lemma uint_and_masks:
  "uint (x AND 0xFFF) = uint x mod 4096" "uint (y AND NOT POINTER_SIGN_BIT) = uint y mod 2 ^ 63"
  for x :: u32 and y :: u64
proof -
  have "(0xFFF :: u32) = mask 12" by (simp add: mask_eq_exp_minus_1)
  then have "x AND 0xFFF = take_bit 12 x" by (simp only: take_bit_eq_mask)
  then show "uint (x AND 0xFFF) = uint x mod 4096" by (simp add: take_bit_eq_mod uint_mod)
  have "NOT POINTER_SIGN_BIT = mask 63" by (simp add: POINTER_SIGN_BIT_def mask_eq_exp_minus_1)
  then have "y AND NOT POINTER_SIGN_BIT = take_bit 63 y" by (simp only: take_bit_eq_mask)
  then have "uint (y AND NOT POINTER_SIGN_BIT) = take_bit 63 (uint y)" by (simp only: unsigned_take_bit_eq)
  then show "uint (y AND NOT POINTER_SIGN_BIT) = uint y mod 2 ^ 63" by (simp only: take_bit_eq_mod)
qed

lemma aligned_iff: "aligned v \<longleftrightarrow> uint v mod 4096 = 0"
  unfolding aligned_def using uint_and_masks(1) [of v] by (metis uint_0_iff)

lemma uint_page_of: "uint (page_of a) = uint a div 4096"
proof -
  have "uint a div 4096 < 2 ^ 20" "0 \<le> uint a div 4096"
    using uint_lt2p [of a] by (simp_all add: pos_imp_zdiv_nonneg_iff)
  then have "uint a div 4096 mod 2 ^ 20 = uint a div 4096" by (intro mod_pos_pos_trivial)
  then show ?thesis
    by (simp add: page_of_def unsigned_ucast_eq unsigned_drop_bit_eq drop_bit_eq_div take_bit_eq_mod uint_div)
qed

lemma uint_same_page:
  assumes "aligned v" "page_of addr = page_of v"
  shows "uint addr = uint v + uint (addr AND 0xFFF)"
proof -
  have "uint addr div 4096 = uint v div 4096" using assms(2) by (metis uint_page_of)
  then show ?thesis
    using assms(1) mult_div_mod_eq [of 4096 "uint addr"] mult_div_mod_eq [of 4096 "uint v"]
    unfolding aligned_iff uint_and_masks by linarith
qed

lemma uint_phys_from_handler: "uint (vtlb_phys_from_handler h) = 2 ^ 63 + uint h"
proof -
  have sign: "POINTER_SIGN_BIT = push_bit 63 1" by (simp add: POINTER_SIGN_BIT_def)
  have "bit POINTER_SIGN_BIT n \<longleftrightarrow> n = 63" for n
    unfolding sign bit_push_bit_iff bit_1_iff by auto
  moreover have "\<not> bit h 63" using bit_imp_le_length [of h 63] by auto
  ultimately have "(ucast h :: u64) AND POINTER_SIGN_BIT = 0"
    by (intro bit_word_eqI) (auto simp: bit_and_iff bit_unsigned_iff)
  then have "vtlb_phys_from_handler h = ucast h + POINTER_SIGN_BIT"
    by (simp add: vtlb_phys_from_handler_def disjunctive_add_eq_or)
  also have "uint \<dots> = uint h + 2 ^ 63"
    using uint_lt2p [of h] by (simp add: uint_word_ariths POINTER_SIGN_BIT_def uint_up_ucast is_up)
  finally show ?thesis by simp
qed

lemma phys_from_handler_neg: "vtlb_phys_is_handler (vtlb_phys_from_handler h)"
proof -
  have "bit (vtlb_phys_from_handler h) 63"
    by (simp add: vtlb_phys_from_handler_def POINTER_SIGN_BIT_def bit_simps)
  then show ?thesis
    using bit_last_iff [of "vtlb_phys_from_handler h"] by (simp add: vtlb_phys_is_handler_def)
qed

lemma sint_neg_iff: "sint x < 0 \<longleftrightarrow> 2 ^ 63 \<le> uint x" for x :: u64
proof -
  have "sint x < 0 \<longleftrightarrow> bit (uint x) 63"
    using bit_last_iff [of x] by (simp add: bit_uint_iff)
  also have "\<dots> \<longleftrightarrow> odd (uint x div 2 ^ 63)" by (simp add: bit_iff_odd)
  also have "uint x div 2 ^ 63 = (if 2 ^ 63 \<le> uint x then 1 else 0)"
    using uint_lt2p [of x] by (auto intro: int_div_pos_eq div_pos_pos_trivial)
  finally show ?thesis by auto
qed

lemma ucast_same_page:
  assumes "aligned v" "page_of addr = page_of v"
  shows "(ucast addr :: u64) = ucast v + ucast (addr AND 0xFFF)"
proof -
  have "uint v < 2 ^ 32" "uint addr < 2 ^ 32" "0 \<le> uint (addr AND 0xFFF)" "uint (addr AND 0xFFF) < 4096"
    using uint_lt2p [of v] uint_lt2p [of addr] by (simp_all add: uint_and_masks)
  then have "uint (ucast addr :: u64) = uint (ucast v + ucast (addr AND 0xFFF) :: u64)"
    using uint_same_page [OF assms] by (simp add: uint_word_ariths uint_up_ucast is_up)
  then show ?thesis by (rule word_uint_eqI)
qed

lemma ptr_entry:
  assumes "uint ptr \<le> 2 ^ 63 - 4096" "aligned v" "page_of addr = page_of v"
  shows "ptr - ucast v + ucast addr = ptr + ucast (addr AND 0xFFF)"
    and "\<not> sint (ptr + ucast (addr AND 0xFFF)) < 0" "\<not> vtlb_phys_is_handler ptr"
proof -
  show "ptr - ucast v + ucast addr = ptr + ucast (addr AND 0xFFF)"
    by (simp add: ucast_same_page [OF assms(2,3)])
  have "0 \<le> uint (addr AND 0xFFF)" "uint (addr AND 0xFFF) < 4096" by (simp_all add: uint_and_masks)
  with assms(1) have "uint (ptr + ucast (addr AND 0xFFF)) = uint ptr + uint (addr AND 0xFFF)"
    by (simp add: uint_word_ariths uint_up_ucast is_up)
  with assms(1) \<open>uint (addr AND 0xFFF) < 4096\<close> show "\<not> sint (ptr + ucast (addr AND 0xFFF)) < 0"
    by (simp add: sint_neg_iff)
  show "\<not> vtlb_phys_is_handler ptr"
    using assms(1) by (simp add: vtlb_phys_is_handler_def sint_neg_iff)
qed

text \<open>The arithmetic of one page: \<open>addr\<close> lies in the page \<open>v\<close> that is mapped to handler \<open>h\<close> at
  physical page \<open>p\<close>.\<close>

lemma handler_entry:
  assumes "h < 128" "aligned p" "aligned v" "page_of addr = page_of v"
  defines "vmv \<equiv> vtlb_virt_make (vtlb_phys_from_handler h) p v"
  shows "sint (vmv + ucast addr) < 0" (is ?neg)
    and "(ucast vmv :: u8) = ucast h" (is ?id)
    and "(ucast ((vmv + ucast addr - ucast (ucast vmv :: u8)) AND NOT POINTER_SIGN_BIT) :: u32) =
      p + (addr AND 0xFFF)" (is ?paddr)
proof -
  let ?off = "addr AND 0xFFF"
  have vmv: "vmv = vtlb_phys_from_handler h + ucast p - ucast v"
    by (simp add: vmv_def vtlb_virt_make_def phys_from_handler_neg)
  have off: "0 \<le> uint ?off" "uint ?off < 4096" by (simp_all add: uint_and_masks)
  have lt: "uint h < 128" "uint p < 2 ^ 32" "uint v < 2 ^ 32" "uint addr < 2 ^ 32"
    using assms(1) uint_lt2p [of p] uint_lt2p [of v] uint_lt2p [of addr] by (simp_all add: word_less_def)
  have sum: "vmv + ucast addr = vtlb_phys_from_handler h + ucast p + ucast ?off"
    by (simp add: vmv ucast_same_page [OF assms(3,4)])
  have usum: "uint (vmv + ucast addr) = 2 ^ 63 + uint h + uint p + uint ?off"
    unfolding sum using lt off
    by (simp add: uint_word_ariths uint_up_ucast is_up uint_phys_from_handler)
  then show ?neg using lt off by (simp add: sint_neg_iff)
  obtain P V where PV: "uint p = 4096 * P" "uint v = 4096 * V"
    using assms(2,3) unfolding aligned_iff by (metis dvd_def dvd_eq_mod_eq_0)
  have "uint (ucast vmv :: u8) = (2 ^ 63 + uint h + uint p - uint v) mod 2 ^ 64 mod 256"
    using lt(2,3) by (simp add: vmv unsigned_ucast_eq take_bit_eq_mod uint_word_ariths uint_up_ucast is_up
        uint_phys_from_handler mod_diff_left_eq)
  also have "\<dots> = (uint h + 256 * (2 ^ 55 + 16 * P - 16 * V)) mod 256"
    by (simp add: mod_mod_cancel PV algebra_simps)
  also have "\<dots> = uint h mod 256" by (rule mod_mult_self2)
  also have "\<dots> = uint h" using lt(1) by simp
  finally have idu: "uint (ucast vmv :: u8) = uint h" .
  then show id: ?id
    using lt(1) by (intro word_uint_eqI) (simp add: unsigned_ucast_eq take_bit_eq_mod)
  have "uint (vmv + ucast addr - ucast (ucast vmv :: u8)) = 2 ^ 63 + uint p + uint ?off"
    using lt off by (subst uint_word_ariths) (simp add: usum idu uint_up_ucast is_up)
  then have "uint ((vmv + ucast addr - ucast (ucast vmv :: u8)) AND NOT POINTER_SIGN_BIT) = uint p + uint ?off"
    using lt off mod_add_self1 [of "2 ^ 63" "uint p + uint ?off"]
    by (simp add: uint_and_masks(2) add.assoc)
  then show ?paddr
    by (intro word_uint_eqI) (simp add: unsigned_ucast_eq take_bit_eq_mod uint_word_ariths)
qed

subsection \<open>Loops over pages\<close>

lemma page_of_next: "page_of (w + 4096) = page_of w + 1"
proof -
  have "uint (page_of (w + 4096)) = (uint w + 4096) mod 2 ^ 32 div 4096"
    unfolding uint_page_of by (simp add: uint_word_ariths)
  also have "\<dots> = (uint w + 4096) div 4096 mod 2 ^ 20"
    using zmod_zmult2_eq [of "2 ^ 20" "uint w + 4096" 4096] by simp
  also have "\<dots> = uint (page_of w + 1)"
    using div_add_self2 [of 4096 "uint w"] by (simp add: uint_word_ariths uint_page_of)
  finally show ?thesis by (rule word_uint_eqI)
qed

lemma page_of_plus: "page_of (v + 4096 * of_nat k) = page_of v + of_nat k"
proof (induction k)
  case (Suc k)
  have "page_of (v + 4096 * of_nat (Suc k)) = page_of ((v + 4096 * of_nat k) + 4096)"
    by (simp add: algebra_simps)
  also have "\<dots> = page_of v + of_nat k + 1" by (simp only: page_of_next Suc.IH)
  finally show ?case by (simp add: algebra_simps)
qed simp

text \<open>A loop whose body writes the entry of its page, with entries that do not depend on the pages
  written before.\<close>

locale page_loop =
  fixes body :: "u32 \<Rightarrow> 'd ee \<Rightarrow> 'd ee"
    and entry :: "u32 \<Rightarrow> 'd ee \<Rightarrow> u64"
    and v :: u32
  assumes body_vmap: "vmap (body off s) = (vmap s)(page_of (v + off) := entry off s)"
    and entry_stable: "entry off (body off' s) = entry off s"
begin

lemma entry_fold: "entry off (fold (\<lambda>i. body (4096 * of_nat i)) is s) = entry off s"
  by (induction "is" arbitrary: s) (simp_all add: entry_stable)

lemma vmap_fold:
  assumes "n \<le> 2 ^ 20" "unat (pg - page_of v) = k"
  shows "vmap (fold (\<lambda>i. body (4096 * of_nat i)) [0..<n] s) pg =
    (if k < n then entry (4096 * of_nat k) s else vmap s pg)"
  using assms(1)
proof (induction n)
  case (Suc n)
  have "page_of v + of_nat n = pg \<longleftrightarrow> pg - page_of v = of_nat n" by (auto simp: algebra_simps)
  also have "\<dots> \<longleftrightarrow> k = n"
    using Suc.prems assms(2) by (simp add: word_unat_eq_iff unat_of_nat)
  finally show ?case
    using Suc by (auto simp: body_vmap page_of_plus entry_fold less_Suc_eq)
qed simp

lemma lookup:
  assumes "unat (pg - page_of v) = k"
  shows "vmap (for_pages sz body s) pg =
    (if k < unat sz div 4096 then entry (4096 * of_nat k) s else vmap s pg)"
proof -
  have "unat sz < 2 ^ 32" by (rule order.strict_trans2 [OF unsigned_less]) simp
  then have "unat sz div 4096 \<le> 2 ^ 20" by simp
  then show ?thesis unfolding for_pages_def using assms by (rule vmap_fold)
qed

end

interpretation VMap_loop: page_loop "\<lambda>off. vmap_page (v + off) (p + off)" "\<lambda>off. vmap_entry (v + off) (p + off)" v
  for v p
  by unfold_locales (simp_all add: vmap_page_def vmap_entry_def)

interpretation VMapBuffer_loop: page_loop "\<lambda>off. vmap_buffer_page (v + off) (b + ucast off)"
    "\<lambda>off s. vtlb_virt_from_ptr (b + ucast off) (v + off)" v
  for v b
  by unfold_locales (simp_all add: vmap_buffer_page_def)

interpretation VMapUnmap_loop: page_loop "\<lambda>off. unmap_page (v + off)"
    "\<lambda>off s. vtlb_virt_make (vtlb_phys_from_handler (UnmappedVirtHandler s)) (v + off) (v + off)" v
  for v
  by unfold_locales (simp_all add: unmap_page_def)

subsection \<open>Frames\<close>

text \<open>What the page tables, the accesses and the interpreter see of a state: everything but the
  fastmem bookkeeping.\<close>

definition slow_view :: "'d ee \<Rightarrow> 'd ee" where
  "slow_view s = s\<lparr>fastmem_virtual_mapping := None, fastmem_area := (\<lambda>_. None), fastmem_phys := phys_empty\<rparr>"

lemma slow_view_fastmem [simp]:
  "slow_view (drop_fastmem_page pg v off vm s) = slow_view s"
  "slow_view (vtlb_RemoveFastmemMapping v s) = slow_view s"
  "slow_view (vtlb_CreateFastmemMapping io v off s) = slow_view s"
  "slow_view (vmap_fastmem_page io v p s) = slow_view s"
  by (simp_all add: slow_view_def drop_fastmem_page_def vtlb_RemoveFastmemMapping_def
      vtlb_CreateFastmemMapping_def vmap_fastmem_page_def Let_def split: option.splits)

lemma slow_view_fold: "(\<And>i s. slow_view (f i s) = slow_view s) \<Longrightarrow> slow_view (fold f is s) = slow_view s"
  by (induction "is" arbitrary: s) simp_all

lemma slow_view_for_pages [simp]:
  "(\<And>off s. slow_view (f off s) = slow_view s) \<Longrightarrow> slow_view (for_pages sz f s) = slow_view s"
  unfolding for_pages_def by (rule slow_view_fold)

lemma slow_view_RemoveFastmemMappings [simp]: "slow_view (vtlb_RemoveFastmemMappings v sz s) = slow_view s"
  by (simp add: vtlb_RemoveFastmemMappings_def)

lemma slow_view_sel [simp]:
  "vmap (slow_view s) = vmap s" "pmap (slow_view s) = pmap s" "ppmap (slow_view s) = ppmap s"
  "RWFT (slow_view s) = RWFT s" "host (slow_view s) = host s" "cpu (slow_view s) = cpu s"
  "UnmappedPhyHandler (slow_view s) = UnmappedPhyHandler s"
  "UnmappedVirtHandler (slow_view s) = UnmappedVirtHandler s" "tlb (slow_view s) = tlb s"
  "layout (slow_view s) = layout s" "CHECK_EEREC (slow_view s) = CHECK_EEREC s"
  "CHECK_CACHE (slow_view s) = CHECK_CACHE s" "CHECK_FASTMEM (slow_view s) = CHECK_FASTMEM s"
  "Cpu_is_intCpu (slow_view s) = Cpu_is_intCpu s" "dev (slow_view s) = dev s"
  by (simp_all add: slow_view_def)

lemma slow_view_eqD:
  assumes "slow_view t = slow_view s"
  shows "vmap t = vmap s" "pmap t = pmap s" "ppmap t = ppmap s" "RWFT t = RWFT s"
    "host t = host s" "cpu t = cpu s" "UnmappedPhyHandler t = UnmappedPhyHandler s"
    "UnmappedVirtHandler t = UnmappedVirtHandler s" "tlb t = tlb s" "layout t = layout s"
    "CHECK_EEREC t = CHECK_EEREC s" "CHECK_CACHE t = CHECK_CACHE s"
    "CHECK_FASTMEM t = CHECK_FASTMEM s" "Cpu_is_intCpu t = Cpu_is_intCpu s" "dev t = dev s"
  using arg_cong [OF assms, of vmap] arg_cong [OF assms, of pmap] arg_cong [OF assms, of ppmap]
    arg_cong [OF assms, of RWFT] arg_cong [OF assms, of host] arg_cong [OF assms, of cpu]
    arg_cong [OF assms, of UnmappedPhyHandler] arg_cong [OF assms, of UnmappedVirtHandler]
    arg_cong [OF assms, of tlb] arg_cong [OF assms, of layout]
    arg_cong [OF assms, of CHECK_EEREC] arg_cong [OF assms, of CHECK_CACHE]
    arg_cong [OF assms, of CHECK_FASTMEM] arg_cong [OF assms, of Cpu_is_intCpu]
    arg_cong [OF assms, of dev]
  by simp_all

subsection \<open>Address translation\<close>

text \<open>What an access does with an address: the number of the handler it calls and the physical
  address it passes, or the host address it touches.\<close>

datatype target = ToHandler nat u32 | ToHost u64

definition translate :: "u32 \<Rightarrow> 'd ee \<Rightarrow> target" where
  "translate addr s =
     (let vmv = vmap s (page_of addr) in
      if vtlb_virt_is_handler vmv addr then ToHandler (vtlb_virt_id vmv) (vtlb_virt_paddr vmv addr)
      else ToHost (vtlb_virt_ptr vmv addr))"

lemma vtlb_memRead_translate:
  "vtlb_memRead row io addr s =
     (case translate addr s of
        ToHandler h paddr \<Rightarrow> bindR (call_read io (RWFT s row False h) row paddr s) (\<lambda>v s. Done (ucast v) s)
      | ToHost p \<Rightarrow>
          if \<not> CHECK_EEREC s \<and> CHECK_CACHE s \<and> CheckCache addr s
          then bindR (readCache io row addr s) (\<lambda>v s. Done (ucast v) s)
          else Done (load_le (host s) p) s)"
  by (simp add: vtlb_memRead_def translate_def vtlb_virt_is_handler_def vtlb_virt_id_def
      vtlb_virt_paddr_def vtlb_virt_ptr_def Let_def)

lemma vtlb_memWrite_translate:
  "vtlb_memWrite row io addr v s =
     (case translate addr s of
        ToHandler h paddr \<Rightarrow> call_write io (RWFT s row True h) row paddr (ucast v) s
      | ToHost p \<Rightarrow>
          if \<not> CHECK_EEREC s \<and> CHECK_CACHE s \<and> CheckCache addr s
          then writeCache io row addr (ucast v) s
          else Done () (s\<lparr>host := store_le p v (host s)\<rparr>))"
  by (simp add: vtlb_memWrite_def translate_def vtlb_virt_is_handler_def vtlb_virt_id_def
      vtlb_virt_paddr_def vtlb_virt_ptr_def Let_def)

text \<open>The meaning of a physical address, and the well-formed physical maps: every page is one of the
  128 handlers or a host pointer in the lower half of the address space.\<close>

definition phys_target :: "u32 \<Rightarrow> 'd ee \<Rightarrow> target" where
  "phys_target paddr s =
     (let e = pmap s (ppage paddr) in
      if paddr \<ge> VTLB_PMAP_SZ then ToHandler (unat (UnmappedPhyHandler s)) paddr
      else if vtlb_phys_is_handler e then ToHandler (unat (ucast e :: u8)) paddr
      else ToHost (e + ucast (paddr AND 0xFFF)))"

definition pmap_ok :: "'d ee \<Rightarrow> bool" where
  "pmap_ok s \<longleftrightarrow> UnmappedPhyHandler s < 128 \<and> UnmappedVirtHandler s < 128 \<and>
     (\<forall>pg. (\<exists>h<128. pmap s pg = vtlb_phys_from_handler h) \<or> uint (pmap s pg) \<le> 2 ^ 63 - 4096)"

lemma translate_entry:
  assumes "aligned v" "page_of addr = page_of v"
  shows "h < 128 \<Longrightarrow> aligned p \<Longrightarrow> vmap s (page_of v) = vtlb_virt_make (vtlb_phys_from_handler h) p v \<Longrightarrow>
      translate addr s = ToHandler (unat h) (p + (addr AND 0xFFF))"
    and "uint ptr \<le> 2 ^ 63 - 4096 \<Longrightarrow> vmap s (page_of v) = ptr - ucast v \<Longrightarrow>
      translate addr s = ToHost (ptr + ucast (addr AND 0xFFF))"
proof -
  show "translate addr s = ToHandler (unat h) (p + (addr AND 0xFFF))"
    if "h < 128" "aligned p" "vmap s (page_of v) = vtlb_virt_make (vtlb_phys_from_handler h) p v"
  proof -
    have "unat (ucast h :: u8) = unat h"
      using that(1) by (simp add: unsigned_ucast_eq word_less_nat_alt take_bit_nat_eq_self)
    then show ?thesis
      using handler_entry [OF that(1,2) assms] that(3) assms(2)
      by (simp add: translate_def vtlb_virt_is_handler_def vtlb_virt_id_def vtlb_virt_paddr_def Let_def)
  qed
  show "translate addr s = ToHost (ptr + ucast (addr AND 0xFFF))"
    if "uint ptr \<le> 2 ^ 63 - 4096" "vmap s (page_of v) = ptr - ucast v"
    using ptr_entry(2) [OF that(1) assms]
    by (simp only: translate_def vtlb_virt_is_handler_def vtlb_virt_ptr_def Let_def assms(2) that(2)
        ptr_entry(1) [OF that(1) assms] if_False)
qed

lemma aligned_plus: "aligned p \<Longrightarrow> aligned (p + 4096 * of_nat k)"
proof (induction k)
  case (Suc k)
  have "aligned (q + 4096)" if "aligned q" for q
    using that unfolding aligned_iff by (simp add: uint_word_ariths mod_mod_cancel)
  from this [of "p + 4096 * of_nat k"] Suc show ?case by (simp add: algebra_simps)
qed simp

lemma uint_aligned_offset:
  assumes "aligned p"
  shows "uint (p + (x AND 0xFFF)) = uint p + uint (x AND 0xFFF)"
proof -
  obtain P where P: "uint p = 4096 * P"
    using assms unfolding aligned_iff by (metis dvd_def dvd_eq_mod_eq_0)
  have "uint p < 2 ^ 32" by (rule uint_lt2p [of p, simplified, THEN order.strict_trans2]) simp
  with P have "P \<le> 2 ^ 20 - 1" by simp
  then have "uint p \<le> 2 ^ 32 - 4096" using P by simp
  moreover have "0 \<le> uint (x AND 0xFFF)" "uint (x AND 0xFFF) < 4096" by (simp_all add: uint_and_masks)
  ultimately show ?thesis by (simp add: uint_word_ariths)
qed

lemma page_of_offset:
  assumes "aligned p"
  shows "page_of (p + (x AND 0xFFF)) = page_of p" "(p + (x AND 0xFFF)) AND 0xFFF = x AND 0xFFF"
    "VTLB_PMAP_SZ \<le> p + (x AND 0xFFF) \<longleftrightarrow> VTLB_PMAP_SZ \<le> p"
proof -
  obtain P where P: "uint p = 4096 * P"
    using assms unfolding aligned_iff by (metis dvd_def dvd_eq_mod_eq_0)
  have off: "0 \<le> uint (x AND 0xFFF)" "uint (x AND 0xFFF) < 4096" by (simp_all add: uint_and_masks)
  have "uint (page_of (p + (x AND 0xFFF))) = uint (page_of p)"
    unfolding uint_page_of uint_aligned_offset [OF assms] P using off by simp
  then show "page_of (p + (x AND 0xFFF)) = page_of p" by (rule word_uint_eqI)
  have "uint ((p + (x AND 0xFFF)) AND 0xFFF) = uint (x AND 0xFFF)"
    unfolding uint_and_masks(1) [of "p + _"] uint_aligned_offset [OF assms] P using off by simp
  then show "(p + (x AND 0xFFF)) AND 0xFFF = x AND 0xFFF" by (rule word_uint_eqI)
  show "VTLB_PMAP_SZ \<le> p + (x AND 0xFFF) \<longleftrightarrow> VTLB_PMAP_SZ \<le> p"
    unfolding word_le_def uint_aligned_offset [OF assms] P VTLB_PMAP_SZ_def
    by (cases "0x20000 \<le> P"; use off in simp; use off in linarith)
qed

lemma ppage_offset: "aligned p \<Longrightarrow> ppage (p + (x AND 0xFFF)) = ppage p"
proof -
  have "ppage a = ucast (page_of a)" for a
    by (intro bit_word_eqI) (auto simp: ppage_def page_of_def bit_simps)
  then show "aligned p \<Longrightarrow> ?thesis" by (simp add: page_of_offset)
qed

lemma translate_vmap_entry:
  assumes "pmap_ok s" "aligned v" "aligned p" "page_of addr = page_of v"
    and "vmap t (page_of v) = vmap_entry v p s"
  shows "translate addr t = phys_target (p + (addr AND 0xFFF)) s"
proof -
  have ppage: "ppage (p + (addr AND 0xFFF)) = ppage p"
    using assms(3) by (rule ppage_offset)
  note tr = translate_entry [OF assms(2,4)]
  note off = page_of_offset [OF assms(3), of addr]
  consider (big) "VTLB_PMAP_SZ \<le> p" | (handler) h where "\<not> VTLB_PMAP_SZ \<le> p" "h < 128" "pmap s (ppage p) = vtlb_phys_from_handler h"
    | (ptr) "\<not> VTLB_PMAP_SZ \<le> p" "uint (pmap s (ppage p)) \<le> 2 ^ 63 - 4096"
    using assms(1) unfolding pmap_ok_def by blast
  then show ?thesis
  proof cases
    case big
    then show ?thesis
      using tr(1) [of "UnmappedPhyHandler s" p t] assms(1,3,5) off
      by (simp add: vmap_entry_def phys_target_def pmap_ok_def)
  next
    case handler
    have "uint (ucast (vtlb_phys_from_handler h) :: u8) = (uint h + 256 * 2 ^ 55) mod 256"
      by (simp add: unsigned_ucast_eq take_bit_eq_mod uint_phys_from_handler add.commute)
    also have "\<dots> = uint h" using handler(2) by (simp only: mod_mult_self2) (simp add: word_less_def)
    finally have "unat (ucast (vtlb_phys_from_handler h) :: u8) = unat h"
      by (simp flip: nat_uint_eq)
    with handler show ?thesis
      using tr(1) [of h p t] assms(3,5) off ppage
      by (simp add: vmap_entry_def phys_target_def Let_def phys_from_handler_neg)
  next
    case ptr
    then show ?thesis
      using tr(2) [of "pmap s (ppage p)" t] assms(5) off ppage ptr_entry(3) [OF ptr(2) assms(2,4)]
      by (simp add: vmap_entry_def phys_target_def Let_def vtlb_virt_make_def)
  qed
qed

text \<open>The page of a mapped range an address falls into, counted from its start.\<close>

definition page_index :: "u32 \<Rightarrow> u32 \<Rightarrow> nat" where
  "page_index addr v = unat (page_of addr - page_of v)"

lemma page_of_index: "page_of (v + 4096 * of_nat (page_index addr v)) = page_of addr"
  unfolding page_of_plus page_index_def by simp

lemma translate_cong: "vmap t (page_of addr) = vmap s (page_of addr) \<Longrightarrow> translate addr t = translate addr s"
  by (simp add: translate_def)

lemma phys_target_cong:
  assumes "slow_view t = slow_view s"
  shows "phys_target a t = phys_target a s" "pmap_ok t = pmap_ok s"
  unfolding phys_target_def pmap_ok_def slow_view_eqD [OF assms] by (rule refl)+

lemma VMap_translate:
  assumes "pmap_ok s" "aligned v" "aligned p"
  shows "translate addr (vtlb_VMap io v p sz s) =
      (if page_index addr v < unat sz div 4096
       then phys_target (p + 4096 * of_nat (page_index addr v) + (addr AND 0xFFF)) s
       else translate addr s)"
proof -
  let ?k = "page_index addr v"
  let ?v = "v + 4096 * of_nat ?k" and ?p = "p + 4096 * of_nat ?k"
  have pg: "page_of addr = page_of ?v" by (simp only: page_of_index)
  have al: "aligned ?v" "aligned ?p" using assms(2,3) by (simp_all add: aligned_plus)
  let ?s1 = "if CHECK_FASTMEM s then for_pages sz (\<lambda>off. vmap_fastmem_page io (v + off) (p + off)) s else s"
  have s1: "slow_view ?s1 = slow_view s" by simp
  have look: "vmap (vtlb_VMap io v p sz s) (page_of addr) =
      (if ?k < unat sz div 4096 then vmap_entry ?v ?p ?s1 else vmap ?s1 (page_of addr))"
    unfolding vtlb_VMap_def Let_def by (rule VMap_loop.lookup) (simp add: page_index_def)
  show ?thesis
  proof (cases "?k < unat sz div 4096")
    case True
    have "translate addr (vtlb_VMap io v p sz s) = phys_target (?p + (addr AND 0xFFF)) ?s1"
      by (rule translate_vmap_entry [OF _ al pg])
        (use look True assms(1) phys_target_cong(2) [OF s1] pg in simp_all)
    with True phys_target_cong(1) [OF s1] show ?thesis by simp
  next
    case False
    with look slow_view_eqD(1) [OF s1] show ?thesis by (simp add: translate_def)
  qed
qed

lemma VMapUnmap_translate:
  assumes "pmap_ok s" "aligned v"
  shows "translate addr (vtlb_VMapUnmap v sz s) =
      (if page_index addr v < unat sz div 4096
       then ToHandler (unat (UnmappedVirtHandler s)) addr
       else translate addr s)"
proof -
  let ?k = "page_index addr v"
  let ?v = "v + 4096 * of_nat ?k"
  have pg: "page_of addr = page_of ?v" by (simp only: page_of_index)
  have al: "aligned ?v" using assms(2) by (simp add: aligned_plus)
  let ?s2 = "vtlb_RemoveFastmemMappings v sz s"
  have look2: "vmap (vtlb_VMapUnmap v sz s) (page_of addr) =
      (if ?k < unat sz div 4096
       then vtlb_virt_make (vtlb_phys_from_handler (UnmappedVirtHandler ?s2)) ?v ?v else vmap ?s2 (page_of addr))"
    unfolding vtlb_VMapUnmap_def by (rule VMapUnmap_loop.lookup) (simp add: page_index_def)
  have s2: "vmap ?s2 = vmap s" "UnmappedVirtHandler ?s2 = UnmappedVirtHandler s"
    by (simp_all add: slow_view_eqD [OF slow_view_RemoveFastmemMappings])
  have addr: "?v + (addr AND 0xFFF) = addr"
    by (rule word_uint_eqI) (use uint_same_page [OF al pg] uint_aligned_offset [OF al] in simp)
  show ?thesis
  proof (cases "?k < unat sz div 4096")
    case True
    have "translate addr (vtlb_VMapUnmap v sz s) = ToHandler (unat (UnmappedVirtHandler s)) (?v + (addr AND 0xFFF))"
      by (rule translate_entry(1) [OF al pg _ al])
        (use look2 True s2 assms(1) pg in \<open>simp_all add: pmap_ok_def\<close>)
    with True addr show ?thesis by simp
  next
    case False
    with look2 s2 show ?thesis by (simp add: translate_def)
  qed
qed

subsection \<open>Initialisation\<close>

lemma ppage_plus: "ppage (v + 4096 * of_nat k) = ppage v + of_nat k"
proof -
  have pp: "ppage a = ucast (page_of a)" for a
    by (intro bit_word_eqI) (auto simp: ppage_def page_of_def bit_simps)
  have "(ucast (a + b) :: 17 word) = ucast a + ucast b" for a b :: "20 word"
    by (intro word_uint_eqI)
      (simp add: uint_word_ariths unsigned_ucast_eq take_bit_eq_mod mod_mod_cancel mod_simps)
  moreover have "(ucast (of_nat k :: 20 word) :: 17 word) = of_nat k"
    by (intro word_uint_eqI) (simp add: unsigned_ucast_eq unsigned_of_nat take_bit_eq_mod mod_mod_cancel zmod_int)
  ultimately show ?thesis by (simp add: pp page_of_plus)
qed

lemma pmap_MapHandler:
  "pmap (vtlb_MapHandler h start sz s) pg =
     (if unat (pg - ppage start) < unat sz div 4096 then vtlb_phys_from_handler h else pmap s pg)"
  if "unat sz div 4096 \<le> 2 ^ 17"
proof -
  have "pmap (fold (\<lambda>i s. s\<lparr>pmap := (pmap s)(ppage (start + 4096 * of_nat i) := vtlb_phys_from_handler h)\<rparr>) [0..<n] s) pg =
     (if unat (pg - ppage start) < n then vtlb_phys_from_handler h else pmap s pg)" if "n \<le> 2 ^ 17" for n
    using that
  proof (induction n)
    case (Suc n)
    have "ppage start + of_nat n = pg \<longleftrightarrow> pg - ppage start = of_nat n" by (auto simp: algebra_simps)
    also have "\<dots> \<longleftrightarrow> unat (pg - ppage start) = n"
      using Suc.prems by (simp add: word_unat_eq_iff unat_of_nat)
    finally show ?case using Suc by (auto simp: ppage_plus less_Suc_eq)
  qed simp
  from this [OF that] show ?thesis by (simp add: vtlb_MapHandler_def for_pages_def)
qed

lemma for_pages_inv:
  "(\<And>off s. f (body off s) = f s) \<Longrightarrow> f (for_pages sz body s) = f s"
proof -
  assume *: "\<And>off s. f (body off s) = f s"
  have "f (fold (\<lambda>i. body (4096 * of_nat i)) is s) = f s" for "is"
    by (induction "is" arbitrary: s) (simp_all add: *)
  then show ?thesis by (simp add: for_pages_def)
qed

lemma MapHandler_frame:
  "vmap (vtlb_MapHandler h start sz s) = vmap s" "RWFT (vtlb_MapHandler h start sz s) = RWFT s"
  "UnmappedVirtHandler (vtlb_MapHandler h start sz s) = UnmappedVirtHandler s"
  "UnmappedPhyHandler (vtlb_MapHandler h start sz s) = UnmappedPhyHandler s"
  "cpu (vtlb_MapHandler h start sz s) = cpu s" "Cpu_is_intCpu (vtlb_MapHandler h start sz s) = Cpu_is_intCpu s"
  unfolding vtlb_MapHandler_def by (subst for_pages_inv; simp)+

lemma VMapUnmap_frame:
  "pmap (vtlb_VMapUnmap v sz s) = pmap s" "RWFT (vtlb_VMapUnmap v sz s) = RWFT s"
  "UnmappedVirtHandler (vtlb_VMapUnmap v sz s) = UnmappedVirtHandler s"
  "UnmappedPhyHandler (vtlb_VMapUnmap v sz s) = UnmappedPhyHandler s"
  "cpu (vtlb_VMapUnmap v sz s) = cpu s" "Cpu_is_intCpu (vtlb_VMapUnmap v sz s) = Cpu_is_intCpu s"
  unfolding vtlb_VMapUnmap_def
  by (subst for_pages_inv; simp add: unmap_page_def slow_view_eqD [OF slow_view_RemoveFastmemMappings])+

lemma page_index_0: "page_index addr 0 = unat (page_of addr)"
  by (simp add: page_index_def page_of_def)

lemma vtlb_Init_maps:
  shows "pmap_ok (vtlb_Init s)" "translate addr (vtlb_Init s) = ToHandler 0 addr"
    "row < 5 \<Longrightarrow> RWFT (vtlb_Init s) row w 0 = vtlbUnmappedV"
    "cpu (vtlb_Init s) = cpu s" "Cpu_is_intCpu (vtlb_Init s) = Cpu_is_intCpu s"
    "pmap (vtlb_Init s) pg = vtlb_phys_from_handler 2" "UnmappedVirtHandler (vtlb_Init s) = 0"
proof -
  obtain s4 where s4: "vtlb_Init s = vtlb_VMapUnmap 0xFFFFF000 4096 (vtlb_VMapUnmap 0 0xFFFFF000 (vtlb_MapHandler 2 0 VTLB_PMAP_SZ s4))"
    "UnmappedVirtHandler s4 = 0" "UnmappedPhyHandler s4 = 1" "cpu s4 = cpu s" "Cpu_is_intCpu s4 = Cpu_is_intCpu s"
    "row < 5 \<Longrightarrow> RWFT s4 row w 0 = vtlbUnmappedV"
    by (simp add: vtlb_Init_def vtlb_RegisterHandler_def vtlb_NewHandler_def vtlb_ReassignHandler_def
        unmapped_family_def Let_def)
  let ?s5 = "vtlb_MapHandler 2 0 VTLB_PMAP_SZ s4"
  have "unat (pg :: 17 word) < 2 ^ 17" for pg using unsigned_less [of pg] by simp
  then have pm: "pmap ?s5 pg = vtlb_phys_from_handler 2" for pg
    by (subst pmap_MapHandler) (simp_all add: VTLB_PMAP_SZ_def ppage_def)
  then have ok5: "pmap_ok ?s5"
    unfolding pmap_ok_def MapHandler_frame s4 by (auto intro!: exI [of _ 2])
  then have ok6: "pmap_ok (vtlb_VMapUnmap 0 0xFFFFF000 ?s5)"
    and ok: "pmap_ok (vtlb_VMapUnmap 0xFFFFF000 4096 (vtlb_VMapUnmap 0 0xFFFFF000 ?s5))"
    unfolding pmap_ok_def VMapUnmap_frame by simp_all
  from ok show "pmap_ok (vtlb_Init s)" by (simp only: s4)
  have last: "unat (page_of addr) < 0xFFFFF \<or> page_index addr 0xFFFFF000 = 0"
  proof (cases "unat (page_of addr) < 0xFFFFF")
    case False
    have "unat (page_of addr) < 2 ^ 20" using unsigned_less [of "page_of addr"] by simp
    with False have "page_of addr = 0xFFFFF" by (simp add: word_unat_eq_iff)
    then show ?thesis by (simp add: page_index_def page_of_def)
  qed simp
  show "translate addr (vtlb_Init s) = ToHandler 0 addr"
    unfolding s4(1) using last
    by (auto simp: VMapUnmap_translate ok5 ok6 aligned_def VMapUnmap_frame MapHandler_frame s4 page_index_0)
  show "row < 5 \<Longrightarrow> RWFT (vtlb_Init s) row w 0 = vtlbUnmappedV"
    by (simp add: s4 VMapUnmap_frame MapHandler_frame)
  show "cpu (vtlb_Init s) = cpu s" "Cpu_is_intCpu (vtlb_Init s) = Cpu_is_intCpu s"
    "pmap (vtlb_Init s) pg = vtlb_phys_from_handler 2" "UnmappedVirtHandler (vtlb_Init s) = 0"
    by (simp_all add: pm s4(1,2,4,5) VMapUnmap_frame MapHandler_frame)
qed

text \<open>C12: the mapping operations of the virtual memory. After \<open>vtlb_VMap\<close> every address of the mapped
  range translates to what its physical address means in the physical map (the same handler with the
  full physical address, or the same host byte), after \<open>vtlb_VMapUnmap\<close> every address of the range
  goes to the unmapped-page handler with its own virtual address, and every address outside the
  range keeps its translation. The packed 64-bit entries lose nothing, and fastmem settings play no
  role. The addresses are page aligned and the size is a multiple of the page size: the loops of the
  source step the size down by a page until it is zero and do not end on any other size.\<close>

theorem mapping_translation:
  assumes "pmap_ok s" "aligned v" "aligned p" "4096 dvd unat sz"
  shows "translate addr (vtlb_VMap io v p sz s) =
      (if page_index addr v < unat sz div 4096
       then phys_target (p + 4096 * of_nat (page_index addr v) + (addr AND 0xFFF)) s
       else translate addr s) \<and>
    translate addr (vtlb_VMapUnmap v sz s) =
      (if page_index addr v < unat sz div 4096
       then ToHandler (unat (UnmappedVirtHandler s)) addr
       else translate addr s)"
  using VMap_translate [OF assms(1-3)] VMapUnmap_translate [OF assms(1,2)] by blast

text \<open>A machine after power-on, before any device is attached, and handlers that answer nothing.\<close>

definition blank_tlb :: tlbs where
  "blank_tlb = \<lparr>tPageMask = 0, tEntryHi = 0, tEntryLo0 = 0, tEntryLo1 = 0, tMask = 0, tnMask = 0, tG = 0,
     tASID = 0, tVPN2 = 0, tPFN0 = 0, tPFN1 = 0, tS = 0\<rparr>"

definition blank_ee :: "unit ee" where
  "blank_ee = vtlb_Init \<lparr>cpu = cpuReset, tlb = (\<lambda>i. blank_tlb), RWFT = (\<lambda>row w h. vtlbDefaultPhy), vtlbHandlerCount = 0,
     UnmappedVirtHandler = 0, UnmappedPhyHandler = 0, DefaultPhyHandler = 0, pmap = (\<lambda>pg. 0), vmap = (\<lambda>pg. 0),
     ppmap = None, fastmem_virtual_mapping = None, fastmem_area = (\<lambda>pg. None), pageshift = 12,
     fastmem_phys = phys_empty, host = (\<lambda>p. 0),
     layout = \<lparr>eeMem_Main = 0x10000000, eeMem_ZeroRead = 0x12000000, eeMem_Scratch = 0x12400000,
       iopMem_Main = 0x14000000, iopMem_P = 0x14200000, VUMem_start = 0x18000000, VUMem_end = 0x1800A000\<rparr>,
     Cpu_is_intCpu = True, CHECK_EEREC = False, CHECK_CACHE = False, CHECK_FASTMEM = False,
     branch2 = False, cpuBlockCycles = 0, intLastBranchTo = 0, EECycleRate = 0, WaitLoop = False, dev = ()\<rparr>"

definition blank_io :: "'d io" where
  "blank_io = \<lparr>dev_read = (\<lambda>k row a s. Done 0 s), dev_write = (\<lambda>k row a v s. Done () s),
     readCache = (\<lambda>row a s. Done 0 s), writeCache = (\<lambda>row a v s. Done () s), os_map = (\<lambda>hp off. True),
     realloc_ok = (\<lambda>n. True), Cpu_Clear = (\<lambda>a n d. d)\<rparr>"

theorem mapping_translation_witness:
  "pmap_ok blank_ee \<and> aligned 0x80002000 \<and> aligned 0x5000 \<and> 4096 dvd unat (0x1000 :: u32) \<and>
   translate 0x80002004 (vtlb_VMap blank_io 0x80002000 0x5000 0x1000 blank_ee) = ToHandler 2 0x5004 \<and>
   translate 0x80002004 (vtlb_VMapUnmap 0x80002000 0x1000 blank_ee) = ToHandler 0 0x80002004"
proof -
  have ok: "pmap_ok blank_ee" "aligned 0x80002000" "aligned 0x5000"
    and sel: "UnmappedVirtHandler blank_ee = 0" "\<And>pg. pmap blank_ee pg = vtlb_phys_from_handler 2"
    by (simp_all add: blank_ee_def vtlb_Init_maps aligned_def)
  have "phys_target 0x5004 blank_ee = ToHandler 2 0x5004"
    unfolding phys_target_def sel using phys_from_handler_neg [of 2]
    by (simp add: VTLB_PMAP_SZ_def vtlb_phys_from_handler_def POINTER_SIGN_BIT_def)
  with ok sel(1) mapping_translation [OF ok, where addr = "0x80002004" and sz = "0x1000" and io = blank_io] show ?thesis
    by (simp add: page_index_def page_of_def)
qed

text \<open>C14: after \<open>vtlb_Init\<close> the physical map is well-formed and every access misses: under the
  interpreter a load or store of any width (8, 16, 32, 64 or 128 bits) at any address cancels the
  instruction with the TLB exception of its direction and the full faulting address, and under a
  recompiler it reads zero or is dropped.\<close>

theorem vtlb_Init_all_miss:
  "pmap_ok (vtlb_Init s) \<and> translate addr (vtlb_Init s) = ToHandler 0 addr \<and>
   (let missed = (\<lambda>code. (vtlb_Init s)\<lparr>cpu := cpuTlbMiss addr (branch (cpu s)) code (cpu s)\<rparr>) in
   memRead8 io addr (vtlb_Init s) =
     (if Cpu_is_intCpu s then Cancel (missed EXC_CODE_TLBL) else Done 0 (vtlb_Init s)) \<and>
   memRead16 io addr (vtlb_Init s) =
     (if Cpu_is_intCpu s then Cancel (missed EXC_CODE_TLBL) else Done 0 (vtlb_Init s)) \<and>
   memRead32 io addr (vtlb_Init s) =
     (if Cpu_is_intCpu s then Cancel (missed EXC_CODE_TLBL) else Done 0 (vtlb_Init s)) \<and>
   memRead64 io addr (vtlb_Init s) =
     (if Cpu_is_intCpu s then Cancel (missed EXC_CODE_TLBL) else Done 0 (vtlb_Init s)) \<and>
   memRead128 io addr (vtlb_Init s) =
     (if Cpu_is_intCpu s then Cancel (missed EXC_CODE_TLBL) else Done 0 (vtlb_Init s)) \<and>
   memWrite8 io addr b (vtlb_Init s) =
     (if Cpu_is_intCpu s then Cancel (missed EXC_CODE_TLBS) else Done () (vtlb_Init s)) \<and>
   memWrite16 io addr h (vtlb_Init s) =
     (if Cpu_is_intCpu s then Cancel (missed EXC_CODE_TLBS) else Done () (vtlb_Init s)) \<and>
   memWrite32 io addr x (vtlb_Init s) =
     (if Cpu_is_intCpu s then Cancel (missed EXC_CODE_TLBS) else Done () (vtlb_Init s)) \<and>
   memWrite64 io addr d (vtlb_Init s) =
     (if Cpu_is_intCpu s then Cancel (missed EXC_CODE_TLBS) else Done () (vtlb_Init s)) \<and>
   memWrite128 io addr q (vtlb_Init s) =
     (if Cpu_is_intCpu s then Cancel (missed EXC_CODE_TLBS) else Done () (vtlb_Init s)))"
  unfolding Let_def
  by (intro conjI)
    (simp_all add: vtlb_Init_maps memRead8_def memRead16_def memRead32_def memRead64_def memRead128_def
      memWrite8_def memWrite16_def memWrite32_def memWrite64_def memWrite128_def
      vtlb_memRead_translate vtlb_memWrite_translate call_read_def call_write_def vtlb_Miss_def)

end
