(* ===== verification/EE_LoadStore_Spec.thy ===== *)
theory EE_LoadStore_Spec
  imports EE_LoadStore VTLB_Spec
begin

text \<open>
  What the loads and stores guarantee: the fused unaligned accesses of the arm64 recompiler behave
  as the instruction pairs they replace, and on RAM an unaligned store is read back exactly.
\<close>

subsection \<open>Merging\<close>

lemma and3: "unat (a AND 3) = unat a mod 4" "unat (a AND 7) = unat a mod 8" for a :: u32
proof -
  have "(3 :: u32) = mask 2" "(7 :: u32) = mask 3" by (simp_all add: mask_eq_exp_minus_1)
  then have "a AND 3 = take_bit 2 a" "a AND 7 = take_bit 3 a" by (simp_all only: take_bit_eq_mask)
  then have "unat (a AND 3) = take_bit 2 (unat a)" "unat (a AND 7) = take_bit 3 (unat a)"
    by (simp_all only: unsigned_take_bit_eq)
  then show "unat (a AND 3) = unat a mod 4" "unat (a AND 7) = unat a mod 8" by (simp_all add: take_bit_eq_mod)
qed

lemma low2_add: "low2 (a + 3) = (low2 a + 3) mod 4"
  by (simp add: low2_def and3 unat_word_ariths mod_mod_cancel mod_add_left_eq)

lemma low3_add: "low3 (a + 7) = (low3 a + 7) mod 8"
  by (simp add: low3_def and3 unat_word_ariths mod_mod_cancel mod_add_left_eq)

lemma low2_lt: "low2 a < 4" and low3_lt: "low3 a < 8"
  by (simp_all add: low2_def low3_def and3)

lemma lw_merge:
  assumes "k < 4"
  shows "lwr_merge k (lwl_merge ((k + 3) mod 4) reg memL) memR =
    (if k = 0 then memR else push_bit (32 - 8 * k) memL OR drop_bit (8 * k) memR)"
proof -
  from assms consider "k = 0" | "k = 1" | "k = 2" | "k = 3" by linarith
  then show ?thesis
    by cases (rule bits_32I; simp add: upt_32 lwr_merge_def lwl_merge_def LWL_MASK_def LWL_SHIFT_def
      LWR_MASK_def LWR_SHIFT_def bit_simps)+
qed

lemma ld_merge:
  assumes "k < 8"
  shows "ldr_merge k (ldl_merge ((k + 7) mod 8) reg memL) memR =
    (if k = 0 then memR else push_bit (64 - 8 * k) memL OR drop_bit (8 * k) memR)"
proof -
  from assms consider "k = 0" | "k = 1" | "k = 2" | "k = 3" | "k = 4" | "k = 5" | "k = 6" | "k = 7" by linarith
  then show ?thesis
    by cases (rule bits_64I; simp add: upt_64 ldr_merge_def ldl_merge_def LDL_MASK_def LDL_SHIFT_def
      LDR_MASK_def LDR_SHIFT_def bit_simps)+
qed

subsection \<open>Accesses and the general registers\<close>

text \<open>Device handlers and the cache work on hardware state, never on the general registers of the
  main processor: they give the same result whatever the registers hold, and leave them alone.\<close>

definition set_GPR :: "(5 word \<Rightarrow> u128) \<Rightarrow> 'd ee \<Rightarrow> 'd ee" where
  "set_GPR g s = s\<lparr>cpu := (cpu s)\<lparr>GPR := g\<rparr>\<rparr>"

primrec map_state :: "('s \<Rightarrow> 's) \<Rightarrow> ('a, 's) result \<Rightarrow> ('a, 's) result" where
  "map_state f (Done a s) = Done a (f s)"
| "map_state f (Cancel s) = Cancel (f s)"

definition io_ignores_GPR :: "'d io \<Rightarrow> bool" where
  "io_ignores_GPR io \<longleftrightarrow>
     (\<forall>k row a v g s.
        dev_read io k row a (set_GPR g s) = map_state (set_GPR g) (dev_read io k row a s) \<and>
        dev_write io k row a v (set_GPR g s) = map_state (set_GPR g) (dev_write io k row a v s) \<and>
        readCache io row a (set_GPR g s) = map_state (set_GPR g) (readCache io row a s) \<and>
        writeCache io row a v (set_GPR g s) = map_state (set_GPR g) (writeCache io row a v s))"

lemma cpuException_GPR: "cpuException c bd (s\<lparr>GPR := g\<rparr>) = (cpuException c bd s)\<lparr>GPR := g\<rparr>"
  by (simp add: cpuException_def exception_vector_def set_CP0_def Let_def split: option.splits)

lemma set_CP0_GPR: "set_CP0 r v (s\<lparr>GPR := g\<rparr>) = (set_CP0 r v s)\<lparr>GPR := g\<rparr>"
  by (rule cpuRegisters.equality) (simp_all add: set_CP0_def)

lemma pc_GPR: "s\<lparr>GPR := g, pc := p\<rparr> = s\<lparr>pc := p, GPR := g\<rparr>" for s :: cpuRegisters
  by (rule cpuRegisters.equality) simp_all

lemma GPR_upd_sel: "CP0 (s\<lparr>GPR := g\<rparr>) = CP0 s" "pc (s\<lparr>GPR := g\<rparr>) = pc s"
  by simp_all

lemma cpuTlbMiss_GPR: "cpuTlbMiss a bd c (s\<lparr>GPR := g\<rparr>) = (cpuTlbMiss a bd c s)\<lparr>GPR := g\<rparr>"
  unfolding cpuTlbMiss_def Let_def
  by (simp only: set_CP0_GPR pc_GPR cpuException_GPR GPR_upd_sel)

lemma set_GPR_sel [simp]:
  "vmap (set_GPR g s) = vmap s" "RWFT (set_GPR g s) = RWFT s" "host (set_GPR g s) = host s"
  "CHECK_EEREC (set_GPR g s) = CHECK_EEREC s" "CHECK_CACHE (set_GPR g s) = CHECK_CACHE s"
  "tlb (set_GPR g s) = tlb s" "Cpu_is_intCpu (set_GPR g s) = Cpu_is_intCpu s"
  "CP0 (cpu (set_GPR g s)) = CP0 (cpu s)" "branch (cpu (set_GPR g s)) = branch (cpu s)"
  "GPR (cpu (set_GPR g s)) = g" "code (cpu (set_GPR g s)) = code (cpu s)"
  by (simp_all add: set_GPR_def)

lemma set_GPR_set_GPR [simp]: "set_GPR g (set_GPR h s) = set_GPR g s" "set_GPR (GPR (cpu s)) s = s"
  by (simp_all add: set_GPR_def)

lemma bindR_map_state:
  "bindR (map_state f r) h = (case r of Done a s \<Rightarrow> h a (f s) | Cancel s \<Rightarrow> Cancel (f s))"
  by (cases r) simp_all

lemma memRead_set_GPR:
  assumes "io_ignores_GPR io"
  shows "vtlb_memRead row io a (set_GPR g s) = map_state (set_GPR g) (vtlb_memRead row io a s)"
proof -
  have tr: "translate a (set_GPR g s) = translate a s" by (simp add: translate_def)
  have cc: "CheckCache a (set_GPR g s) = CheckCache a s" by (simp add: CheckCache_def)
  have miss: "vtlb_Miss p w (set_GPR g s) = map_state (set_GPR g) (vtlb_Miss p w s)" for p w
    by (simp add: vtlb_Miss_def set_GPR_def cpuTlbMiss_GPR)
  have call: "call_read io h row p (set_GPR g s) = map_state (set_GPR g) (call_read io h row p s)" for h p
    using assms by (cases h; cases "vtlb_Miss p False s") (simp_all add: call_read_def miss io_ignores_GPR_def)
  have cast: "bindR (map_state (set_GPR g) r) (\<lambda>v s. Done (ucast v) s) =
      map_state (set_GPR g) (bindR r (\<lambda>v s. Done (ucast v) s))" for r :: "(u128, 'd ee) result"
    by (cases r) simp_all
  show ?thesis
    unfolding vtlb_memRead_translate tr cc set_GPR_sel
    using assms by (auto simp: call cast io_ignores_GPR_def split: target.splits)
qed

lemma memRead_keeps_GPR:
  assumes "io_ignores_GPR io" "vtlb_memRead row io a s = Done v s'"
  shows "GPR (cpu s') = GPR (cpu s)"
  using memRead_set_GPR [OF assms(1), of row a "GPR (cpu s)" s] assms(2) by (metis map_state.simps(1) result.inject(1) set_GPR_sel(10) set_GPR_set_GPR(2))

subsection \<open>The fused pairs of the recompiler\<close>

lemma upd_GPR: "upd_cpu (wr r n v) s = set_GPR ((GPR (cpu s))(r := set_lane n v (GPR (cpu s) r))) s"
  by (simp add: upd_cpu_def set_GPR_def wr_def)

text \<open>A word written into the low half of a register that holds a sign-extended word with the same
  sign.\<close>

lemma set_low_word_sext:
  fixes v w :: u32
  assumes "bit v 31 = bit w 31"
  shows "set_lane 0 v (set_lane 0 (scast w :: u64) x) = set_lane 0 (scast v :: u64) x"
proof (rule bit_word_eqI)
  fix i
  assume "i < LENGTH(128)"
  then show "bit (set_lane 0 v (set_lane 0 (scast w :: u64) x)) i = bit (set_lane 0 (scast v :: u64) x) i"
    using assms by (cases "i < 31"; cases "i = 31"; cases "i < 64")
      (auto simp: bit_set_lane_iff bit_simps min_def)
qed

lemma fused_word_sign:
  assumes "0 < k" "k < 4"
  shows "bit (lwr_merge k (lwl_merge ((k + 3) mod 4) reg memL) memR) 31 = bit (lwl_merge ((k + 3) mod 4) reg memL) 31"
proof -
  from assms consider "k = 1" | "k = 2" | "k = 3" by linarith
  then show ?thesis
    using bit_imp_le_length [of memR 39] bit_imp_le_length [of memR 47] bit_imp_le_length [of memR 55]
    by cases (auto simp: lwr_merge_def lwl_merge_def LWL_MASK_def LWL_SHIFT_def LWR_MASK_def LWR_SHIFT_def bit_simps)
qed

lemma fused_load32:
  assumes io: "io_ignores_GPR io" and r: "r \<noteq> 0" and fused: "eeReadU32_arm64 io addr s = Done v s'"
  shows "bindR (eeLWL_arm64 io (addr + 3) r s) (\<lambda>_. eeLWR_arm64 io addr r) =
    Done () (upd_cpu (wr r 0 (scast v :: u64)) s')"
proof -
  let ?k = "low2 addr" and ?g = "GPR (cpu s)"
  from fused obtain memL s1 memR where L: "memRead32 io ((addr + 3) AND NOT 3) s = Done memL s1"
    and R: "memRead32 io (addr AND NOT 3) s1 = Done memR s'"
    and v: "v = (if ?k = 0 then memR else push_bit (32 - 8 * ?k) memL OR drop_bit (8 * ?k) memR)"
    by (auto simp: eeReadU32_arm64_def Let_def bindR_def split: result.splits)
  have g1: "GPR (cpu s1) = ?g" and g2: "GPR (cpu s') = ?g"
    using memRead_keeps_GPR [OF io L [unfolded memRead32_def]] memRead_keeps_GPR [OF io R [unfolded memRead32_def]]
    by simp_all
  define l where "l = lwl_merge ((?k + 3) mod 4) (UL (?g r) 0) memL"
  define h where "h = ?g(r := set_lane 0 (scast l :: u64) (?g r))"
  have LWL: "eeLWL_arm64 io (addr + 3) r s = Done () (set_GPR h s1)"
    unfolding eeLWL_arm64_def L bindR_simps low2_add
    using r g1 by (simp add: upd_cpu_def set_GPR_def wr_def l_def h_def)
  have R': "memRead32 io (addr AND NOT 3) (set_GPR h s1) = Done memR (set_GPR h s')"
    unfolding memRead32_def memRead_set_GPR [OF io] R [unfolded memRead32_def] by simp
  have low: "UL (h r) 0 = l" 
    by (simp add: h_def UL_set_UD_low ucast_scast_32)
  have v': "lwr_merge ?k l memR = v"
    using lw_merge [OF low2_lt [of addr]] v by (simp add: l_def)
  have "set_lane 0 v (h r) = set_lane 0 (scast v :: u64) (?g r)" if "?k \<noteq> 0"
    using fused_word_sign [of ?k "UL (?g r) 0" memL memR] that low2_lt [of addr]
    by (simp add: h_def set_low_word_sext v' flip: l_def)
  then have "eeLWR_arm64 io addr r (set_GPR h s1) = Done () (set_GPR (h(r := set_lane 0 (scast v :: u64) (?g r))) s')"
    unfolding eeLWR_arm64_def R' bindR_simps
    using r v' by (auto simp: upd_cpu_def Let_def UL_set_UD_low ucast_scast_32 set_GPR_def wr_def h_def)
  then show ?thesis
    using g2 by (simp add: LWL upd_GPR h_def)
qed

lemma fused_load64:
  assumes io: "io_ignores_GPR io" and r: "r \<noteq> 0" and fused: "eeReadU64_arm64 io addr s = Done v s'"
  shows "bindR (eeLDL_arm64 io (addr + 7) r s) (\<lambda>_. eeLDR_arm64 io addr r) =
    Done () (upd_cpu (wr r 0 v) s')"
proof -
  let ?k = "low3 addr" and ?g = "GPR (cpu s)"
  from fused obtain memL s1 memR where L: "memRead64 io ((addr + 7) AND NOT 7) s = Done memL s1"
    and R: "memRead64 io (addr AND NOT 7) s1 = Done memR s'"
    and v: "v = (if ?k = 0 then memR else push_bit (64 - 8 * ?k) memL OR drop_bit (8 * ?k) memR)"
    by (auto simp: eeReadU64_arm64_def Let_def bindR_def split: result.splits)
  have g1: "GPR (cpu s1) = ?g" and g2: "GPR (cpu s') = ?g"
    using memRead_keeps_GPR [OF io L [unfolded memRead64_def]] memRead_keeps_GPR [OF io R [unfolded memRead64_def]]
    by simp_all
  define l where "l = ldl_merge ((?k + 7) mod 8) (UD (?g r) 0) memL"
  define h where "h = ?g(r := set_lane 0 l (?g r))"
  have LDL: "eeLDL_arm64 io (addr + 7) r s = Done () (set_GPR h s1)"
    unfolding eeLDL_arm64_def L bindR_simps low3_add
    using r g1 by (simp add: upd_cpu_def set_GPR_def wr_def l_def h_def)
  have R': "memRead64 io (addr AND NOT 7) (set_GPR h s1) = Done memR (set_GPR h s')"
    unfolding memRead64_def memRead_set_GPR [OF io] R [unfolded memRead64_def] by simp
  have low: "UD (h r) 0 = l"
    by (simp add: h_def)
  have v': "ldr_merge ?k l memR = v"
    using ld_merge [OF low3_lt [of addr]] v by (simp add: l_def)
  have "eeLDR_arm64 io addr r (set_GPR h s1) = Done () (set_GPR (h(r := set_lane 0 v (?g r))) s')"
    unfolding eeLDR_arm64_def R' bindR_simps
    using r v' by (auto simp: upd_cpu_def Let_def low set_GPR_def wr_def h_def)
  then show ?thesis
    using g2 by (simp add: LDL upd_GPR h_def)
qed

lemma memWrite_keeps_GPR:
  assumes "io_ignores_GPR io" "vtlb_memWrite row io a v s = Done u s'"
  shows "GPR (cpu s') = GPR (cpu s)"
proof -
  have "dev_write io k row p x s = map_state (set_GPR (GPR (cpu s))) (dev_write io k row p x s)"
    "writeCache io row p x s = map_state (set_GPR (GPR (cpu s))) (writeCache io row p x s)" for k p x
    using assms(1) unfolding io_ignores_GPR_def by (metis set_GPR_set_GPR(2))+
  then have dev: "dev_write io k row p x s = Done u s' \<Longrightarrow> GPR (cpu s') = GPR (cpu s)"
    "writeCache io row p x s = Done u s' \<Longrightarrow> GPR (cpu s') = GPR (cpu s)" for k p x
    by (metis map_state.simps(1) result.inject(1) set_GPR_sel(10))+
  from assms(2) show ?thesis
    unfolding vtlb_memWrite_translate
    by (auto simp: call_write_def vtlb_Miss_def dev split: target.splits if_splits mem_handler.splits)
qed

text \<open>Two read-modify-writes of words merged with a value \<open>G\<close> of the state that the accesses keep.\<close>

lemma fused_rmw:
  assumes "\<And>s v s'. rdL s = Done v s' \<Longrightarrow> G s' = G s" "\<And>s v s'. rdR s = Done v s' \<Longrightarrow> G s' = G s"
    and "\<And>x s u s'. wrL x s = Done u s' \<Longrightarrow> G s' = G s"
  shows "bindR (bindR (rdL s) (\<lambda>m s. wrL (f (G s) m) s)) (\<lambda>_ s. bindR (rdR s) (\<lambda>m s. wrR (g (G s) m) s)) =
    bindR (rdL s) (\<lambda>m s1. bindR (wrL (f (G s) m) s1) (\<lambda>_ s2. bindR (rdR s2) (\<lambda>m s3. wrR (g (G s) m) s3)))"
proof (cases "rdL s")
  case L: (Done mL s1)
  with assms(1) have g1: "G s1 = G s" by blast
  show ?thesis
  proof (cases "wrL (f (G s) mL) s1")
    case W: (Done u s2)
    with assms(3) g1 have g2: "G s2 = G s" by metis
    show ?thesis
    proof (cases "rdR s2")
      case R: (Done mR s3)
      with assms(2) g2 have "G s3 = G s" by metis
      with L W R g1 show ?thesis by simp
    qed (use L W g1 in simp)
  qed (use L g1 in simp)
qed simp

lemma fused_store32:
  assumes io: "io_ignores_GPR io"
  shows "bindR (eeSWL_arm64 io (addr + 3) r s) (\<lambda>_. eeSWR_arm64 io addr r) =
    eeWriteU32_arm64 io addr (UL (GPR (cpu s) r) 0) s"
  unfolding eeSWL_arm64_def eeSWR_arm64_def eeWriteU32_arm64_def memRead32_def memWrite32_def
  by (rule fused_rmw [where G = "\<lambda>s. UL (GPR (cpu s) r) 0"])
    (auto dest: memRead_keeps_GPR [OF io] memWrite_keeps_GPR [OF io])

lemma fused_store64:
  assumes io: "io_ignores_GPR io"
  shows "bindR (eeSDL_arm64 io (addr + 7) r s) (\<lambda>_. eeSDR_arm64 io addr r) =
    eeWriteU64_arm64 io addr (UD (GPR (cpu s) r) 0) s"
  unfolding eeSDL_arm64_def eeSDR_arm64_def eeWriteU64_arm64_def memRead64_def memWrite64_def
  by (rule fused_rmw [where G = "\<lambda>s. UD (GPR (cpu s) r) 0"])
    (auto dest: memRead_keeps_GPR [OF io] memWrite_keeps_GPR [OF io])

text \<open>C13: the fused unaligned accesses that the arm64 recompiler emits behave as the instruction
  pairs they replace. Whenever the fused load returns, the pair LWL/LWR (LDL/LDR) returns with the same
  memory and device effects and leaves the same value in \<open>rt\<close>, sign-extended for words; the fused
  stores equal the pairs SWL/SWR and SDL/SDR in every outcome, TLB misses included. Device handlers
  must not touch the general registers.\<close>

theorem fused_pairs_equivalent:
  assumes "io_ignores_GPR io" "r \<noteq> 0"
  shows "(eeReadU32_arm64 io addr s = Done v s' \<longrightarrow>
      bindR (eeLWL_arm64 io (addr + 3) r s) (\<lambda>_. eeLWR_arm64 io addr r) =
        Done () (upd_cpu (wr r 0 (scast v :: u64)) s')) \<and>
    (eeReadU64_arm64 io addr s = Done w s' \<longrightarrow>
      bindR (eeLDL_arm64 io (addr + 7) r s) (\<lambda>_. eeLDR_arm64 io addr r) =
        Done () (upd_cpu (wr r 0 w) s')) \<and>
    bindR (eeSWL_arm64 io (addr + 3) r s) (\<lambda>_. eeSWR_arm64 io addr r) =
      eeWriteU32_arm64 io addr (UL (GPR (cpu s) r) 0) s \<and>
    bindR (eeSDL_arm64 io (addr + 7) r s) (\<lambda>_. eeSDR_arm64 io addr r) =
      eeWriteU64_arm64 io addr (UD (GPR (cpu s) r) 0) s"
  using fused_load32 [OF assms] fused_load64 [OF assms] fused_store32 [OF assms(1)] fused_store64 [OF assms(1)]
  by blast

theorem fused_pairs_equivalent_witness:
  "io_ignores_GPR (blank_io :: unit io) \<and>
   bindR (eeSWL_arm64 blank_io (0x1001 + 3) 5 blank_ee) (\<lambda>_. eeSWR_arm64 blank_io 0x1001 5) =
     eeWriteU32_arm64 blank_io 0x1001 (UL (GPR (cpu blank_ee) 5) 0) blank_ee"
proof -
  have io: "io_ignores_GPR (blank_io :: unit io)" by (simp add: io_ignores_GPR_def blank_io_def)
  with fused_pairs_equivalent [OF io, where r = 5 and addr = "0x1001" and s = blank_ee] show ?thesis by auto
qed

subsection \<open>RAM\<close>

lemma bit_load_fold:
  "bit (fold (\<lambda>i w. w OR push_bit (8 * i) (ucast (m (p + of_nat i :: u64) :: u8))) [0..<n] (0 :: 'a::len word)) j \<longleftrightarrow>
     j < LENGTH('a) \<and> j div 8 < n \<and> bit (m (p + of_nat (j div 8))) (j mod 8)"
proof (induction n)
  case (Suc n)
  have *: "8 * n \<le> j \<and> j - 8 * n < 8 \<longleftrightarrow> j div 8 = n" by auto
  have "bit (push_bit (8 * n) (ucast (m (p + of_nat n)) :: 'a word)) j \<longleftrightarrow>
      j < LENGTH('a) \<and> j div 8 = n \<and> bit (m (p + of_nat (j div 8))) (j mod 8)"
  proof (cases "j div 8 = n")
    case True
    then have "j - 8 * n = j mod 8" "8 * n \<le> j" by (auto simp: minus_mult_div_eq_mod)
    with True show ?thesis by (auto simp: bit_simps)
  next
    case False
    with * have "\<not> (8 * n \<le> j \<and> j - 8 * n < 8)" by blast
    with False show ?thesis by (auto simp: bit_simps dest: bit_imp_le_length)
  qed
  with Suc show ?case by (auto simp: bit_or_iff less_Suc_eq)
qed simp

lemma bit_load_le:
  "LENGTH('a::len) mod 8 = 0 \<Longrightarrow> bit (load_le m p :: 'a word) j \<longleftrightarrow>
     j < LENGTH('a) \<and> bit (m (p + of_nat (j div 8))) (j mod 8)"
proof -
  assume "LENGTH('a) mod 8 = 0"
  then have "j div 8 < LENGTH('a) div 8" if "j < LENGTH('a)"
    using that by (metis div_less_mono mod_0_imp_dvd dvd_mult_div_cancel less_mult_imp_div_less mult.commute)
  then show ?thesis by (auto simp: load_le_def bit_load_fold)
qed


text \<open>Byte \<open>i\<close> of a word, and words as their bytes.\<close>

definition byte :: "'a::len word \<Rightarrow> nat \<Rightarrow> u8" where
  "byte w i = ucast (drop_bit (8 * i) w)"

lemma bit_byte: "bit (byte w i) j \<longleftrightarrow> j < 8 \<and> bit w (8 * i + j)"
  by (auto simp: byte_def bit_simps add.commute)

lemma word_byte_eqI:
  fixes v w :: "'a::len word"
  assumes "LENGTH('a) = 8 * n" "\<And>i. i < n \<Longrightarrow> byte v i = byte w i"
  shows "v = w"
proof (rule bit_word_eqI)
  fix j
  assume "j < LENGTH('a)"
  then have "j div 8 < n" using assms(1) by simp
  from assms(2) [OF this] have "bit (byte v (j div 8)) (j mod 8) = bit (byte w (j div 8)) (j mod 8)" by simp
  then show "bit v j = bit w j" by (simp add: bit_byte)
qed

lemma byte_load_le:
  assumes "LENGTH('a::len) = 8 * n" "i < n"
  shows "byte (load_le m p :: 'a word) i = m (p + of_nat i)"
proof (rule bit_word_eqI)
  fix j
  assume j: "j < LENGTH(8)"
  then have "8 * i + j < 8 * n" "(8 * i + j) div 8 = i" "(8 * i + j) mod 8 = j" using assms(2) by auto
  then show "bit (byte (load_le m p :: 'a word) i) j = bit (m (p + of_nat i)) j"
    using j assms(1) by (simp add: bit_byte bit_load_le)
qed

lemma store_le_byte:
  assumes "LENGTH('a::len) = 8 * n"
  shows "store_le p (w :: 'a word) m q = (if unat (q - p) < n then byte w (unat (q - p)) else m q)"
  using assms by (simp add: store_le_def byte_def)

lemma host_access:
  assumes "translate a s = ToHost p" "CHECK_EEREC s \<or> \<not> CHECK_CACHE s"
  shows "vtlb_memRead row io a s = Done (load_le (host s) p) s"
    and "vtlb_memWrite row io a v s = Done () (s\<lparr>host := store_le p v (host s)\<rparr>)"
  using assms by (auto simp: vtlb_memRead_translate vtlb_memWrite_translate)

lemma translate_host_upd: "translate a (s\<lparr>host := h\<rparr>) = translate a s"
  by (simp add: translate_def)

lemma store_le_again:
  fixes v w :: "'a::len word"
  shows "store_le p v (store_le p w m) = store_le p v m"
  by (auto simp: store_le_def)

text \<open>The merge tables of the two access widths promise, byte by byte, where a merged word comes
  from; with that a pair of read-modify-writes is one unaligned store.\<close>

locale unaligned_merge =
  fixes n :: nat
    and left right :: "nat \<Rightarrow> 'a::len word \<Rightarrow> 'a word \<Rightarrow> 'a word"
  assumes width: "LENGTH('a) = 8 * n" "0 < n" "n \<le> 16"
    and left_byte: "\<lbrakk>k < n; i < n\<rbrakk> \<Longrightarrow> byte (left k v mem) i = (if i \<le> k then byte v (i + (n - 1 - k)) else byte mem i)"
    and right_byte: "\<lbrakk>k < n; i < n\<rbrakk> \<Longrightarrow> byte (right k v mem) i = (if i < k then byte mem i else byte v (i - k))"
begin

lemma left_last: "left (n - 1) v mem = v"
  using width(2) by (intro word_byte_eqI [OF width(1)]) (auto simp: left_byte)

lemma right_zero: "right 0 v mem = v"
  using width(2) by (intro word_byte_eqI [OF width(1)]) (simp add: right_byte)

lemma offset_unat:
  fixes q x :: u64
  assumes "j \<le> 16"
  shows "unat (x - (q + of_nat j)) = (if j \<le> unat (x - q) then unat (x - q) - j else unat (x - q) + 2 ^ 64 - j)"
proof -
  have eq: "x - (q + of_nat j) = (x - q) - of_nat j" by simp
  have j: "unat (of_nat j :: u64) = j" using assms by (simp add: unat_of_nat take_bit_nat_eq_self)
  show ?thesis unfolding eq unat_sub_if' [of "x - q"] j by simp
qed

lemma pair_is_store:
  fixes q :: u64 and v :: "'a word" and m :: "u64 \<Rightarrow> u8"
  assumes "0 < k" "k < n"
  defines "m' \<equiv> store_le (q + of_nat n) (left (k - 1) v (load_le m (q + of_nat n))) m"
  shows "store_le q (right k v (load_le m' q)) m' = store_le (q + of_nat k) v m"
proof
  fix x
  have off: "unat (x - (q + of_nat j)) = (if j \<le> unat (x - q) then unat (x - q) - j else unat (x - q) + 2 ^ 64 - j)"
    if "j \<le> n" for x j
    using width(3) that by (simp add: offset_unat)
  have small: "n + unat (x - q) < n + 2 ^ 64" for x using unsigned_less [of "x - q"] by simp
  have m': "m' x = (if n \<le> unat (x - q) \<and> unat (x - q) < k + n then byte v (unat (x - q) - k) else m x)" for x
  proof (cases "n \<le> unat (x - q) \<and> unat (x - q) < 2 * n")
    case True
    then have "q + of_nat n + of_nat (unat (x - q) - n) = x" by (simp add: of_nat_diff)
    with True show ?thesis
      using assms(1,2) by (auto simp: m'_def store_le_byte [OF width(1)] off left_byte byte_load_le [OF width(1)])
  next
    case False
    with small [of x] width assms(1,2) show ?thesis
      by (auto simp: m'_def store_le_byte [OF width(1)] off)
  qed
  show "store_le q (right k v (load_le m' q)) m' x = store_le (q + of_nat k) v m x"
  proof (cases "unat (x - q) < n")
    case True
    have "q + of_nat (unat (x - q)) = x" by simp
    with True small [of x] width assms(1,2) show ?thesis
      by (auto simp: store_le_byte [OF width(1)] off right_byte byte_load_le [OF width(1)] m')
  next
    case False
    with small [of x] width assms(1,2) show ?thesis
      by (auto simp: store_le_byte [OF width(1)] off m')
  qed
qed

lemma write_pair:
  assumes ram: "translate aL s = ToHost (if k = 0 then q else q + of_nat n)" "translate aR s = ToHost q"
    "CHECK_EEREC s \<or> \<not> CHECK_CACHE s" and k: "k < n"
  shows "bindR (vtlb_memRead row io aL s) (\<lambda>mL s.
    bindR (vtlb_memWrite row io aL (left ((k + (n - 1)) mod n) v mL) s) (\<lambda>_ s.
    bindR (vtlb_memRead row io aR s) (\<lambda>mR s. vtlb_memWrite row io aR (right k v mR) s))) =
    Done () (s\<lparr>host := store_le (q + of_nat k) v (host s)\<rparr>)"
proof (cases "k = 0")
  case True
  with ram width(2) show ?thesis
    by (simp add: host_access translate_host_upd left_last [simplified] right_zero store_le_again)
next
  case False
  then have "(k + (n - 1)) mod n = (n + (k - 1)) mod n" using k by (simp add: add.commute)
  then have "(k + (n - 1)) mod n = k - 1" using k by simp
  with False ram k show ?thesis by (simp add: host_access translate_host_upd pair_is_store [simplified])
qed

end

lemma byte_merge_right:
  fixes v mem :: "'a::len word"
  assumes "LENGTH('a) = 8 * n" "k < n" "i < n"
  shows "byte (push_bit (8 * k) v OR (mem AND mask (8 * k))) i = (if i < k then byte mem i else byte v (i - k))"
proof (rule bit_word_eqI)
  fix j
  assume j: "j < LENGTH(8)"
  then have "8 * i + j < 8 * n" "8 * k \<le> 8 * i + j \<longleftrightarrow> k \<le> i" "8 * i + j < 8 * k \<longleftrightarrow> i < k"
    "k \<le> i \<Longrightarrow> 8 * i + j - 8 * k = 8 * (i - k) + j"
    using assms by auto
  with j assms(1) show "bit (byte (push_bit (8 * k) v OR (mem AND mask (8 * k))) i) j =
      bit (if i < k then byte mem i else byte v (i - k)) j"
    by (auto simp: bit_byte bit_simps)
qed

lemma byte_merge_left:
  fixes v mem :: "'a::len word"
  assumes "LENGTH('a) = 8 * n" "k < n" "i < n"
  shows "byte (drop_bit (8 * (n - 1 - k)) v OR (mem AND NOT (mask (8 * Suc k)))) i =
    (if i \<le> k then byte v (i + (n - 1 - k)) else byte mem i)"
proof (rule bit_word_eqI)
  fix j
  assume j: "j < LENGTH(8)"
  then have "8 * i + j < 8 * n" "8 * i + j < 8 * Suc k \<longleftrightarrow> i \<le> k"
    "8 * (n - 1 - k) + (8 * i + j) = 8 * (i + (n - 1 - k)) + j"
    "i \<le> k \<or> 8 * n \<le> 8 * (i + (n - 1 - k)) + j"
    using assms by auto
  with j assms(1) show "bit (byte (drop_bit (8 * (n - 1 - k)) v OR (mem AND NOT (mask (8 * Suc k)))) i) j =
      bit (if i \<le> k then byte v (i + (n - 1 - k)) else byte mem i) j"
    using bit_imp_le_length [of v "8 * (i + (n - 1 - k)) + j"]
    by (auto simp: bit_byte bit_simps ac_simps)
qed

lemma store_tables:
  "SWR_MASK = map (\<lambda>k. mask (8 * k)) [0..<4]" "SWR_SHIFT = map (\<lambda>k. 8 * k) [0..<4]"
  "SWL_MASK = map (\<lambda>k. NOT (mask (8 * Suc k))) [0..<4]" "SWL_SHIFT = map (\<lambda>k. 8 * (4 - 1 - k)) [0..<4]"
  "SDR_MASK = map (\<lambda>k. mask (8 * k)) [0..<8]" "SDR_SHIFT = map (\<lambda>k. 8 * k) [0..<8]"
  "SDL_MASK = map (\<lambda>k. NOT (mask (8 * Suc k))) [0..<8]" "SDL_SHIFT = map (\<lambda>k. 8 * (8 - 1 - k)) [0..<8]"
  by (simp_all add: SWR_MASK_def SWR_SHIFT_def SWL_MASK_def SWL_SHIFT_def SDR_MASK_def SDR_SHIFT_def
      SDL_MASK_def SDL_SHIFT_def upt_rec mask_eq_exp_minus_1)

lemma store_merges:
  "k < 4 \<Longrightarrow> swr_merge k v mem = push_bit (8 * k) v OR (mem AND mask (8 * k))"
  "k < 4 \<Longrightarrow> swl_merge k v mem = drop_bit (8 * (4 - 1 - k)) v OR (mem AND NOT (mask (8 * Suc k)))"
  "k < 8 \<Longrightarrow> sdr_merge k v' mem' = push_bit (8 * k) v' OR (mem' AND mask (8 * k))"
  "k < 8 \<Longrightarrow> sdl_merge k v' mem' = drop_bit (8 * (8 - 1 - k)) v' OR (mem' AND NOT (mask (8 * Suc k)))"
  by (simp_all add: swr_merge_def swl_merge_def sdr_merge_def sdl_merge_def store_tables del: mult_Suc_right)

interpretation sw: unaligned_merge 4 swl_merge swr_merge
proof unfold_locales
  show "LENGTH(32) = 8 * 4" "(0 :: nat) < 4" "(4 :: nat) \<le> 16" by simp_all
  then show "byte (swl_merge k v mem) i = (if i \<le> k then byte v (i + (4 - 1 - k)) else byte mem i)"
    "byte (swr_merge k v mem) i = (if i < k then byte mem i else byte v (i - k))"
    if "k < 4" "i < 4" for k i v mem
    using that by (simp_all only: store_merges byte_merge_left byte_merge_right [where n = 4])
qed

interpretation sd: unaligned_merge 8 sdl_merge sdr_merge
proof unfold_locales
  show "LENGTH(64) = 8 * 8" "(0 :: nat) < 8" "(8 :: nat) \<le> 16" by simp_all
  then show "byte (sdl_merge k v mem) i = (if i \<le> k then byte v (i + (8 - 1 - k)) else byte mem i)"
    "byte (sdr_merge k v mem) i = (if i < k then byte mem i else byte v (i - k))"
    if "k < 8" "i < 8" for k i v mem
    using that by (simp_all only: store_merges byte_merge_left byte_merge_right [where n = 8])
qed

text \<open>The fused loads put together the bytes of the two aligned words.\<close>

lemma fused_load_bytes:
  fixes memL memR :: "'a::len word"
  assumes "LENGTH('a) = 8 * n" "0 < k" "k < n"
  shows "push_bit (8 * n - 8 * k) (load_le m (q + of_nat n)) OR drop_bit (8 * k) (load_le m q) =
    (load_le m (q + of_nat k) :: 'a word)"
proof (rule bit_word_eqI)
  fix j
  assume j: "j < LENGTH('a)"
  have n8: "LENGTH('a) mod 8 = 0" using assms(1) by simp
  show "bit (push_bit (8 * n - 8 * k) (load_le m (q + of_nat n)) OR drop_bit (8 * k) (load_le m q) :: 'a word) j =
    bit (load_le m (q + of_nat k) :: 'a word) j"
  proof (cases "8 * n - 8 * k \<le> j")
    case True
    define e where "e = j - (8 * n - 8 * k)"
    have "8 * n - 8 * k = 8 * (n - k)" by simp
    then have je: "j = 8 * (n - k) + e" using True e_def by simp
    then have "j div 8 = n - k + e div 8" "j mod 8 = e mod 8" "\<not> 8 * k + j < 8 * n" by auto
    moreover have "(of_nat n :: u64) = of_nat k + of_nat (n - k)"
      using assms(3) by (simp flip: of_nat_add)
    moreover have "e < 8 * n" using j assms(1) by (simp add: e_def)
    ultimately show ?thesis using True j assms(1) n8
      by (simp add: bit_or_iff bit_push_bit_iff bit_drop_bit_eq bit_load_le add.assoc flip: e_def)
  next
    case False
    then have "(8 * k + j) div 8 = k + j div 8" "8 * k + j < 8 * n" by auto
    then show ?thesis using False j assms(1) n8
      by (auto simp: bit_or_iff bit_push_bit_iff bit_drop_bit_eq bit_load_le algebra_simps)
  qed
qed


subsection \<open>Unaligned accesses to RAM\<close>

text \<open>RAM mapped linearly around an unaligned access, with \<open>c\<close> one less than the width: the aligned words
  the access touches lie at host address \<open>b\<close> plus the guest address, and the data cache is out of the
  way.\<close>

definition ram_window :: "u64 \<Rightarrow> u32 \<Rightarrow> u32 \<Rightarrow> 'd ee \<Rightarrow> bool" where
  "ram_window b c addr s \<longleftrightarrow>
     translate (addr AND NOT c) s = ToHost (b + ucast (addr AND NOT c)) \<and>
     translate ((addr + c) AND NOT c) s = ToHost (b + ucast ((addr + c) AND NOT c)) \<and>
     addr \<le> NOT c \<and> (CHECK_EEREC s \<or> \<not> CHECK_CACHE s)"

lemma align_down: "a AND NOT c = a - (a AND c)" for a c :: "'a::len word"
proof -
  have "(a AND NOT c) AND (a AND c) = 0" "(a AND NOT c) OR (a AND c) = a"
    by (intro bit_word_eqI; auto simp: bit_simps)+
  then have "(a AND NOT c) + (a AND c) = a" by (simp add: disjunctive_add_eq_or)
  then show ?thesis by (simp add: eq_diff_eq)
qed

lemma window_addresses:
  fixes addr c :: u32 and b :: u64
  assumes c: "\<And>a. unat (a AND c) = unat a mod n" "unat c = n - 1" "0 < n" and fits: "unat addr + n \<le> 2 ^ 32"
  defines "k \<equiv> unat addr mod n" and "q \<equiv> b + ucast (addr AND NOT c)"
  shows "b + ucast addr = q + of_nat k"
    and "b + ucast ((addr + c) AND NOT c) = (if k = 0 then q else q + of_nat n)"
    and "k = 0 \<Longrightarrow> (addr + c) AND NOT c = addr AND NOT c"
proof -
  have align: "unat (a AND NOT c) = unat a - unat a mod n" for a
    by (simp add: align_down unat_sub_if' c(1))
  have u64: "(ucast a :: u64) = of_nat (unat a)" for a :: u32 by simp
  obtain Q where Q: "unat addr = Q * n + k" "k < n"
    using c(3) k_def by (metis div_mult_mod_eq mod_less_divisor)
  then have low: "unat (addr AND NOT c) = Q * n" by (simp add: align)
  have "unat (addr + c) = Q * n + k + (n - 1)"
    using fits c(2,3) Q by (subst unat_plus_if') auto
  moreover have "(Q * n + k + (n - 1)) mod n = (if k = 0 then n - 1 else k - 1)"
  proof (cases "k = 0")
    case False
    then have "Q * n + k + (n - 1) = (k - 1) + n * Suc Q" using c(3) by (simp add: algebra_simps)
    then have "(Q * n + k + (n - 1)) mod n = (k - 1) mod n" by (simp only: mod_mult_self2)
    with Q(2) False show ?thesis by simp
  next
    case True
    then have "Q * n + k + (n - 1) = (n - 1) + n * Q" by simp
    then have "(Q * n + k + (n - 1)) mod n = (n - 1) mod n" by (simp only: mod_mult_self2)
    with c(3) True show ?thesis by simp
  qed
  ultimately have high: "unat ((addr + c) AND NOT c) = (if k = 0 then Q * n else Q * n + n)"
    using c(3) by (simp add: align)
  show "b + ucast addr = q + of_nat k" by (simp only: q_def u64 low Q(1) of_nat_add add.assoc)
  show "b + ucast ((addr + c) AND NOT c) = (if k = 0 then q else q + of_nat n)"
    by (simp only: q_def u64 low high of_nat_add add.assoc split: if_splits) simp
  show "k = 0 \<Longrightarrow> (addr + c) AND NOT c = addr AND NOT c"
    by (rule word_unat_eq_iff [THEN iffD2]) (simp add: low high)
qed

lemma ram_window_translate:
  assumes win: "ram_window b c addr s" and c: "\<And>a. unat (a AND c) = unat a mod n" "unat c = n - 1" "0 < n"
  defines "k \<equiv> unat addr mod n" and "q \<equiv> b + ucast (addr AND NOT c)"
  shows "translate ((addr + c) AND NOT c) s = ToHost (if k = 0 then q else q + of_nat n)"
    "translate (addr AND NOT c) s = ToHost q" "CHECK_EEREC s \<or> \<not> CHECK_CACHE s"
    "b + ucast addr = q + of_nat k"
proof -
  have "NOT c = - 1 - c" by (simp add: not_eq_complement)
  moreover have "unat (- 1 :: u32) = 2 ^ 32 - 1" by (simp add: unsigned_minus_1_eq_mask mask_eq_exp_minus_1)
  ultimately have "unat (NOT c) = 2 ^ 32 - n"
    using c(2,3) unat_sub [of c "- 1"] by simp
  moreover have "unat addr \<le> unat (NOT c)" using win by (simp add: ram_window_def word_le_nat_alt)
  moreover have "n \<le> 2 ^ 32" using c(2,3) unsigned_less [of c, where ?'a = nat] by simp
  ultimately have "unat addr + n \<le> 2 ^ 32" by simp
  from window_addresses [OF c this] win
  show "translate ((addr + c) AND NOT c) s = ToHost (if k = 0 then q else q + of_nat n)"
    "translate (addr AND NOT c) s = ToHost q" "CHECK_EEREC s \<or> \<not> CHECK_CACHE s"
    "b + ucast addr = q + of_nat k"
    by (simp_all add: ram_window_def k_def q_def)
qed

text \<open>C15: on RAM the fused unaligned accesses are plain little-endian accesses at the unaligned
  address: a load returns the bytes there and changes nothing, and a store replaces exactly these
  bytes of host memory, although it is carried out as two aligned read-modify-writes.\<close>

theorem unaligned_ram_access:
  "(ram_window b 3 addr s \<longrightarrow>
      eeReadU32_arm64 io addr s = Done (load_le (host s) (b + ucast addr)) s \<and>
      eeWriteU32_arm64 io addr v s = Done () (s\<lparr>host := store_le (b + ucast addr) v (host s)\<rparr>)) \<and>
   (ram_window b 7 addr s \<longrightarrow>
      eeReadU64_arm64 io addr s = Done (load_le (host s) (b + ucast addr)) s \<and>
      eeWriteU64_arm64 io addr w s = Done () (s\<lparr>host := store_le (b + ucast addr) w (host s)\<rparr>))"
proof (intro conjI impI)
  assume win: "ram_window b 3 addr s"
  have u: "unat (3 :: u32) = 4 - 1" "(0 :: nat) < 4" "unat addr mod 4 = low2 addr" "LENGTH(32) = 8 * 4"
    by (simp_all add: low2_def and3)
  note ram = ram_window_translate [OF win and3(1) u(1,2), unfolded u(3)]
  show "eeReadU32_arm64 io addr s = Done (load_le (host s) (b + ucast addr)) s"
    unfolding eeReadU32_arm64_def memRead32_def host_access(1) [OF ram(1,3)] host_access(1) [OF ram(2,3)]
      bindR_simps Let_def ram(4)
    using fused_load_bytes [OF u(4) _ low2_lt [of addr]] by auto
  show "eeWriteU32_arm64 io addr v s = Done () (s\<lparr>host := store_le (b + ucast addr) v (host s)\<rparr>)"
    unfolding eeWriteU32_arm64_def memRead32_def memWrite32_def ram(4) low2_add
    using sw.write_pair [OF ram(1-3) low2_lt] by simp
next
  assume win: "ram_window b 7 addr s"
  have u: "unat (7 :: u32) = 8 - 1" "(0 :: nat) < 8" "unat addr mod 8 = low3 addr" "LENGTH(64) = 8 * 8"
    by (simp_all add: low3_def and3)
  note ram = ram_window_translate [OF win and3(2) u(1,2), unfolded u(3)]
  show "eeReadU64_arm64 io addr s = Done (load_le (host s) (b + ucast addr)) s"
    unfolding eeReadU64_arm64_def memRead64_def host_access(1) [OF ram(1,3)] host_access(1) [OF ram(2,3)]
      bindR_simps Let_def ram(4)
    using fused_load_bytes [OF u(4) _ low3_lt [of addr]] by auto
  show "eeWriteU64_arm64 io addr w s = Done () (s\<lparr>host := store_le (b + ucast addr) w (host s)\<rparr>)"
    unfolding eeWriteU64_arm64_def memRead64_def memWrite64_def ram(4) low3_add
    using sd.write_pair [OF ram(1-3) low3_lt] by simp
qed

text \<open>A machine with all of its address space mapped to consecutive host memory.\<close>

definition ram_ee :: "unit ee" where
  "ram_ee = blank_ee\<lparr>vmap := (\<lambda>pg. 0x10000000), CHECK_EEREC := True\<rparr>"

theorem unaligned_ram_access_witness:
  "ram_window 0x10000000 3 0x2FFE ram_ee \<and>
   eeWriteU32_arm64 blank_io 0x2FFE 0xAABBCCDD ram_ee =
     Done () (ram_ee\<lparr>host := store_le 0x10002FFE (0xAABBCCDD :: u32) (host ram_ee)\<rparr>)"
proof -
  have "ram_window 0x10000000 3 0x2FFE ram_ee"
    by (simp add: ram_window_def ram_ee_def translate_def page_of_def vtlb_virt_is_handler_def vtlb_virt_ptr_def)
  with unaligned_ram_access [where b = "0x10000000" and addr = "0x2FFE" and s = ram_ee and io = blank_io and v = "0xAABBCCDD"]
  show ?thesis by simp
qed

end
