(* ===== verification/EE_TLB.thy ===== *)
theory EE_TLB
  imports VTLB
begin

text \<open>
  The translation lookaside buffer of the Emotion Engine, src/pcsx2/COP0.cpp: installing and removing
  the mappings of an entry, and the instructions TLBR, TLBWI, TLBWR and TLBP. The buffer has 48
  entries, and an index register selects one of 64: the instructions return None where the source
  would index past the end of the array.
\<close>

definition tlb_match :: "tlbs \<Rightarrow> u32 \<Rightarrow> bool" where
  "tlb_match t addr \<longleftrightarrow>
     (let m = push_bit 1 (NOT (tMask t)) AND 0xfffff in addr AND m = drop_bit 12 (tVPN2 t) AND m)"

text \<open>The loop over the pages of one half of an entry, \<open>for (addr = saddr; addr < eaddr; addr++)\<close>.\<close>

definition tlb_loop :: "tlbs \<Rightarrow> u32 \<Rightarrow> (u32 \<Rightarrow> 's \<Rightarrow> 's) \<Rightarrow> 's \<Rightarrow> 's" where
  "tlb_loop t saddr f s =
     fold (\<lambda>i s. if tlb_match t (of_nat i) then f (of_nat i) s else s)
       [unat saddr..<unat (saddr + tMask t + 1)] s"

definition tlb_even :: "tlbs \<Rightarrow> u32" where
  "tlb_even t = drop_bit 12 (tVPN2 t)"

definition tlb_odd :: "tlbs \<Rightarrow> u32" where
  "tlb_odd t = drop_bit 12 (tVPN2 t) + tMask t + 1"

definition clear_page :: "'d io \<Rightarrow> u32 \<Rightarrow> 'd ee \<Rightarrow> 'd ee" where
  "clear_page io addr s = s\<lparr>dev := Cpu_Clear io (push_bit 12 addr) 0x400 (dev s)\<rparr>"

definition map_half :: "'d io \<Rightarrow> tlbs \<Rightarrow> u32 \<Rightarrow> u32 \<Rightarrow> 'd ee \<Rightarrow> 'd ee" where
  "map_half io t saddr pfn s =
     tlb_loop t saddr (\<lambda>addr s.
       clear_page io addr (vtlb_VMap io (push_bit 12 addr) (pfn + push_bit 12 (addr - saddr)) 0x1000 s)) s"

definition unmap_half :: "'d io \<Rightarrow> tlbs \<Rightarrow> u32 \<Rightarrow> 'd ee \<Rightarrow> 'd ee" where
  "unmap_half io t saddr s =
     tlb_loop t saddr (\<lambda>addr s. clear_page io addr (vtlb_VMapUnmap (push_bit 12 addr) 0x1000 s)) s"

definition MapTLB :: "'d io \<Rightarrow> tlbs \<Rightarrow> 'd ee \<Rightarrow> 'd ee" where
  "MapTLB io t s =
     (if tS t \<noteq> 0 then vtlb_VMapBuffer io (tVPN2 t) (eeMem_Scratch (layout s)) 0x4000 s
      else
        let s1 = (if tEntryLo0 t AND 2 \<noteq> 0 then map_half io t (tlb_even t) (tPFN0 t) s else s)
        in if tEntryLo1 t AND 2 \<noteq> 0 then map_half io t (tlb_odd t) (tPFN1 t) s1 else s1)"

definition UnmapTLB :: "'d io \<Rightarrow> tlbs \<Rightarrow> 'd ee \<Rightarrow> 'd ee" where
  "UnmapTLB io t s =
     (if tS t \<noteq> 0 then vtlb_VMapUnmap (tVPN2 t) 0x4000 s
      else
        let s1 = (if tEntryLo0 t AND 2 \<noteq> 0 then unmap_half io t (tlb_even t) s else s)
        in if tEntryLo1 t AND 2 \<noteq> 0 then unmap_half io t (tlb_odd t) s1 else s1)"

text \<open>The fields \<open>WriteTLB\<close> derives from the coprocessor registers.\<close>

definition tlb_entry :: "cpuRegisters \<Rightarrow> tlbs" where
  "tlb_entry c =
     (let m = drop_bit 13 (CP0 c cp0_PageMask) AND 0xfff in
      \<lparr>tPageMask = CP0 c cp0_PageMask, tEntryHi = CP0 c cp0_EntryHi,
       tEntryLo0 = CP0 c cp0_EntryLo0, tEntryLo1 = CP0 c cp0_EntryLo1,
       tMask = m, tnMask = NOT m AND 0xfff,
       tG = CP0 c cp0_EntryLo0 AND CP0 c cp0_EntryLo1 AND 1,
       tASID = CP0 c cp0_EntryHi AND 0xfff,
       tVPN2 = push_bit 13 (drop_bit 13 (CP0 c cp0_EntryHi) AND NOT m),
       tPFN0 = push_bit 12 ((drop_bit 6 (CP0 c cp0_EntryLo0) AND 0xFFFFF) AND NOT m),
       tPFN1 = push_bit 12 ((drop_bit 6 (CP0 c cp0_EntryLo1) AND 0xFFFFF) AND NOT m),
       tS = CP0 c cp0_EntryLo0 AND 0x80000000\<rparr>)"

definition WriteTLB :: "'d io \<Rightarrow> nat \<Rightarrow> 'd ee \<Rightarrow> 'd ee" where
  "WriteTLB io i s =
     MapTLB io (tlb_entry (cpu s)) (s\<lparr>tlb := (tlb s)(i := tlb_entry (cpu s))\<rparr>)"

text \<open>\<open>TLBWI\<close> and \<open>TLBWR\<close> differ in the register that holds the index.\<close>

definition tlb_write :: "'d io \<Rightarrow> u32 \<Rightarrow> 'd ee \<Rightarrow> 'd ee option" where
  "tlb_write io ireg s =
     (let j = unat (ireg AND 0x3f) in
      if j \<ge> 48 then None
      else
        let s1 = UnmapTLB io (tlb s j) s; c = cpu s1
        in Some (WriteTLB io j (s1\<lparr>tlb := (tlb s1)(j := (tlb s1 j)
             \<lparr>tPageMask := CP0 c cp0_PageMask, tEntryHi := CP0 c cp0_EntryHi,
              tEntryLo0 := CP0 c cp0_EntryLo0, tEntryLo1 := CP0 c cp0_EntryLo1\<rparr>)\<rparr>)))"

definition TLBWI :: "'d io \<Rightarrow> 'd ee \<Rightarrow> 'd ee option" where
  "TLBWI io s = tlb_write io (CP0 (cpu s) cp0_Index) s"

definition TLBWR :: "'d io \<Rightarrow> 'd ee \<Rightarrow> 'd ee option" where
  "TLBWR io s = tlb_write io (CP0 (cpu s) cp0_Random) s"

definition TLBR :: "'d ee \<Rightarrow> 'd ee option" where
  "TLBR s =
     (let i = unat (CP0 (cpu s) cp0_Index AND 0x3f); t = tlb s i;
          g = drop_bit 12 (tEntryHi t) AND 1
      in if i \<ge> 48 then None
         else Some (s\<lparr>cpu :=
           set_CP0 cp0_EntryLo1 ((tEntryLo1 t AND NOT 1) OR g)
            (set_CP0 cp0_EntryLo0 ((tEntryLo0 t AND NOT 1) OR g)
              (set_CP0 cp0_EntryHi (tEntryHi t AND NOT (tPageMask t OR 0x1f00))
                (set_CP0 cp0_PageMask (tPageMask t) (cpu s))))\<rparr>))"

text \<open>The bit-field view of \<open>TLBP\<close>: \<open>VPN2\<close> is the low 19 bits of EntryHi and \<open>ASID\<close> the top 8.\<close>

definition tlbp_hit :: "u32 \<Rightarrow> tlbs \<Rightarrow> bool" where
  "tlbp_hit hi t \<longleftrightarrow>
     tVPN2 t = NOT (tMask t) AND (hi AND 0x7FFFF) \<and>
     (tG t AND 1 \<noteq> 0 \<or> tASID t AND 0xff = drop_bit 24 hi)"

definition TLBP :: "'d ee \<Rightarrow> 'd ee" where
  "TLBP s = s\<lparr>cpu := set_CP0 cp0_Index
     (case find (\<lambda>i. tlbp_hit (CP0 (cpu s) cp0_EntryHi) (tlb s i)) [0..<48] of
        Some i \<Rightarrow> of_nat i
      | None \<Rightarrow> 0x80000000) (cpu s)\<rparr>"

end
