(* ===== verification/EE_Interp.thy ===== *)
theory EE_Interp
  imports EE_LoadStore EE_TLB "HOL-Library.Log_Nat"
begin

text \<open>
  The instruction loop of the Emotion Engine's interpreter, src/pcsx2/Interpreter.cpp: cycle
  accounting, branches with their delay slots, and the branch instructions of COP0. A branch executes
  its delay slot by calling the instruction loop again, and a delay slot may hold another branch, so
  every operation here takes the executor of the delay slot as an argument.
\<close>

subsection \<open>Running instructions\<close>

text \<open>None is an execution that was cut off: the depth of nested delay slots given to it was too small.\<close>

type_synonym 'd exec = "'d ee \<Rightarrow> (unit, 'd ee) result option"

definition bindX :: "(unit, 's) result option \<Rightarrow> ('s \<Rightarrow> (unit, 's) result option) \<Rightarrow> (unit, 's) result option" where
  "bindX r f = (case r of None \<Rightarrow> None | Some (Done _ s) \<Rightarrow> f s | Some (Cancel s) \<Rightarrow> Some (Cancel s))"

lemma bindX_simps [simp]:
  "bindX None f = None" "bindX (Some (Done u s)) f = f s" "bindX (Some (Cancel s)) f = Some (Cancel s)"
  by (simp_all add: bindX_def)

text \<open>Code outside this model, beside the memory handlers: the event test of the main loop, the
  high-level emulation of system calls (true when the call was answered without an exception), the
  floating point unit, the vector unit and the cache instruction, the CIS and CPC fields of the DMA
  controller, and the hooks of the Goemon game fix.\<close>

record 'd env = "'d io" +
  EventTest :: "'d ee \<Rightarrow> (unit, 'd ee) result"
  syscall_hle :: "u8 \<Rightarrow> 'd ee \<Rightarrow> (bool, 'd ee) result"
  cop_op :: "string \<Rightarrow> 'd exec \<Rightarrow> 'd exec"
  dmac_CIS :: "'d \<Rightarrow> 10 word"
  dmac_CPC :: "'d \<Rightarrow> 10 word"
  GoemonTlbHack :: bool
  GoemonUnloadTlb :: "u32 \<Rightarrow> 'd ee \<Rightarrow> 'd ee"
  GoemonPreloadTlb :: "'d ee \<Rightarrow> 'd ee"

definition io_of :: "'d env \<Rightarrow> 'd io" where
  "io_of e = io.truncate e"

subsection \<open>Cycle accounting\<close>

text \<open>\<open>n / d\<close> rounded to the 24-bit significand of a float, to nearest with ties to even, then truncated
  to an integer; \<open>1.3f\<close> is 10905190 / 2^23. Quotients below one are truncated to zero.\<close>

definition round_even :: "nat \<Rightarrow> nat \<Rightarrow> nat" where
  "round_even n d = (let q = n div d; r = n mod d in if 2 * r < d \<or> 2 * r = d \<and> even q then q else q + 1)"

definition float_quotient :: "nat \<Rightarrow> nat \<Rightarrow> nat" where
  "float_quotient n d =
     (let b = floorlog 2 (n div d) in
      if b = 0 then 0
      else if b \<le> 24 then round_even (n * 2 ^ (24 - b)) d div 2 ^ (24 - b)
      else round_even n (d * 2 ^ (b - 24)) * 2 ^ (b - 24))"

definition div_1_3f :: "u32 \<Rightarrow> u32" where
  "div_1_3f x = of_nat (float_quotient (float_quotient (unat x) 1 * 2 ^ 23) 10905190)"

definition scale_cycles :: "int \<Rightarrow> u32 \<Rightarrow> u32" where
  "scale_cycles rate c =
     (if rate = 0 \<or> c \<le> 40 \<or> rate < - 99 \<or> rate > 3 then drop_bit 3 c
      else if rate > 1 then drop_bit (nat (2 + rate)) c
      else if rate = 1 then div_1_3f (drop_bit 3 c)
      else if rate = - 1 then (if c \<le> 80 \<or> c > 168 then 5 else 7) * c div 32
      else drop_bit 5 (word_of_int (5 + - 2 * (rate + 1)) * c))"

definition intUpdateCPUCycles :: "'d ee \<Rightarrow> 'd ee" where
  "intUpdateCPUCycles s =
     (let rate = sint (EECycleRate s); n = scale_cycles rate (cpuBlockCycles s)
      in s\<lparr>cpu := (cpu s)\<lparr>cycle := cycle (cpu s) + (if n < 1 then 1 else ucast n)\<rparr>,
           cpuBlockCycles := cpuBlockCycles s AND
             (if rate > 1 then mask (nat (rate + 2)) else 7)\<rparr>)"

subsection \<open>Branches\<close>

text \<open>\<open>PSM(i)\<close> is the host pointer of a physical address, null where no memory is mapped.\<close>

definition PSM :: "u32 \<Rightarrow> 'd ee \<Rightarrow> u64" where
  "PSM a s = vtlb_GetPhyPtr (a AND 0x1fffffff) s"

text \<open>The wait-loop test looks at the pointers of the at most ten instructions of the loop,
  \<open>for (i = tar; i < pc; i += 4)\<close>; the model is for program counters up to 0xFFFFFFFC, where the index
  cannot wrap.\<close>

definition can_skip :: "u32 \<Rightarrow> 'd ee \<Rightarrow> bool" where
  "can_skip tar s \<longleftrightarrow> tar = 0x81fc0 \<or>
     (pc (cpu s) - tar < 40 \<and>
      (tar < pc (cpu s) \<longrightarrow>
        list_all (\<lambda>k. PSM (tar + 4 * of_nat k) s = 0) [0..<(unat (pc (cpu s) - tar) + 3) div 4]))"

definition wait_loop :: "u32 \<Rightarrow> 'd ee \<Rightarrow> 'd ee" where
  "wait_loop tar s0 =
     (if Cpu_is_intCpu s0 \<and> intLastBranchTo s0 = tar \<and> WaitLoop s0 then
        let s = intUpdateCPUCycles s0; c = cpu s in
        if can_skip tar s then
          if sint (nextEventCycle c - cycle c) > 0
          then s\<lparr>cpu := c\<lparr>cycle := nextEventCycle c\<rparr>\<rparr>
          else s\<lparr>cpu := c\<lparr>nextEventCycle := cycle c\<rparr>\<rparr>
        else s
      else s0)"

definition doBranch_shared :: "'d exec \<Rightarrow> u32 \<Rightarrow> 'd exec" where
  "doBranch_shared ex tar s =
     bindX (ex (s\<lparr>branch2 := True, cpu := (cpu s)\<lparr>branch := 1\<rparr>\<rparr>)) (\<lambda>s.
       if branch (cpu s) \<noteq> 0 then
         let s1 = wait_loop tar s in
         Some (Done () (s1\<lparr>intLastBranchTo := tar, cpu := (cpu s1)\<lparr>pc := tar, branch := 0\<rparr>\<rparr>))
       else Some (Done () s))"

definition intEventTest :: "'d env \<Rightarrow> 'd exec" where
  "intEventTest e s = Some (EventTest e s)"

definition doBranch :: "'d env \<Rightarrow> 'd exec \<Rightarrow> u32 \<Rightarrow> 'd exec" where
  "doBranch e ex target s =
     bindX (doBranch_shared ex target s) (\<lambda>s. intEventTest e (intUpdateCPUCycles s))"

definition intDoBranch :: "'d env \<Rightarrow> 'd exec \<Rightarrow> u32 \<Rightarrow> 'd exec" where
  "intDoBranch e ex target s =
     bindX (doBranch_shared ex target s) (\<lambda>s.
       if Cpu_is_intCpu s then intEventTest e (intUpdateCPUCycles s) else Some (Done () s))"

definition intSetBranch :: "'d ee \<Rightarrow> 'd ee" where
  "intSetBranch s = s\<lparr>branch2 := True\<rparr>"

text \<open>The three shapes of a conditional branch: with and without an event test when it is not taken,
  and the likely form that also skips its delay slot.\<close>

definition branch_if :: "bool \<Rightarrow> 'd env \<Rightarrow> 'd exec \<Rightarrow> 'd exec" where
  "branch_if c e ex s = (if c then doBranch e ex (opBranchTarget (cpu s)) s else Some (Done () s))"

definition branch_test_if :: "bool \<Rightarrow> 'd env \<Rightarrow> 'd exec \<Rightarrow> 'd exec" where
  "branch_test_if c e ex s = (if c then doBranch e ex (opBranchTarget (cpu s)) s else intEventTest e s)"

definition skip_slot :: "'d ee \<Rightarrow> 'd ee" where
  "skip_slot s = upd_cpu (\<lambda>c. c\<lparr>pc := pc c + 4\<rparr>) s"

definition branch_likely_if :: "bool \<Rightarrow> 'd env \<Rightarrow> 'd exec \<Rightarrow> 'd exec" where
  "branch_likely_if c e ex s =
     (if c then doBranch e ex (opBranchTarget (cpu s)) s else intEventTest e (skip_slot s))"

definition link :: "5 word \<Rightarrow> 'd ee \<Rightarrow> 'd ee" where
  "link r s = upd_cpu (SetLink r) s"

abbreviation (input) rsD :: "'d ee \<Rightarrow> int" where "rsD s \<equiv> sint (UD (rs (cpu s)) 0)"
abbreviation (input) rtD :: "'d ee \<Rightarrow> int" where "rtD s \<equiv> sint (UD (rt (cpu s)) 0)"

definition J :: "'d env \<Rightarrow> 'd exec \<Rightarrow> 'd exec" where
  "J e ex s = doBranch e ex (opJumpTarget (cpu s)) s"

definition JAL :: "'d env \<Rightarrow> 'd exec \<Rightarrow> 'd exec" where
  "JAL e ex s0 =
     (let t = opJumpTarget (cpu s0);
          s = (if GoemonTlbHack e \<and> (t = 0x3563b8 \<or> t = 0x35d628 \<or> t = 0x35c118)
               then GoemonUnloadTlb e (UL (GPR (cpu s0) 4) 0) s0 else s0);
          s1 = link 31 s
      in doBranch e ex (opJumpTarget (cpu s1)) s1)"

definition BEQ :: "'d env \<Rightarrow> 'd exec \<Rightarrow> 'd exec" where "BEQ e ex s = branch_test_if (rsD s = rtD s) e ex s"
definition BNE :: "'d env \<Rightarrow> 'd exec \<Rightarrow> 'd exec" where "BNE e ex s = branch_test_if (rsD s \<noteq> rtD s) e ex s"
definition BGEZ :: "'d env \<Rightarrow> 'd exec \<Rightarrow> 'd exec" where "BGEZ e ex s = branch_if (rsD s \<ge> 0) e ex s"
definition BGEZAL :: "'d env \<Rightarrow> 'd exec \<Rightarrow> 'd exec" where
  "BGEZAL e ex s = (let s1 = link 31 s in branch_if (rsD s1 \<ge> 0) e ex s1)"
definition BGTZ :: "'d env \<Rightarrow> 'd exec \<Rightarrow> 'd exec" where "BGTZ e ex s = branch_if (rsD s > 0) e ex s"
definition BLEZ :: "'d env \<Rightarrow> 'd exec \<Rightarrow> 'd exec" where "BLEZ e ex s = branch_if (rsD s \<le> 0) e ex s"
definition BLTZ :: "'d env \<Rightarrow> 'd exec \<Rightarrow> 'd exec" where "BLTZ e ex s = branch_if (rsD s < 0) e ex s"
definition BLTZAL :: "'d env \<Rightarrow> 'd exec \<Rightarrow> 'd exec" where
  "BLTZAL e ex s = (let s1 = link 31 s in branch_if (rsD s1 < 0) e ex s1)"

definition BEQL :: "'d env \<Rightarrow> 'd exec \<Rightarrow> 'd exec" where "BEQL e ex s = branch_likely_if (rsD s = rtD s) e ex s"
definition BNEL :: "'d env \<Rightarrow> 'd exec \<Rightarrow> 'd exec" where "BNEL e ex s = branch_likely_if (rsD s \<noteq> rtD s) e ex s"
definition BLEZL :: "'d env \<Rightarrow> 'd exec \<Rightarrow> 'd exec" where "BLEZL e ex s = branch_likely_if (rsD s \<le> 0) e ex s"
definition BGTZL :: "'d env \<Rightarrow> 'd exec \<Rightarrow> 'd exec" where "BGTZL e ex s = branch_likely_if (rsD s > 0) e ex s"
definition BLTZL :: "'d env \<Rightarrow> 'd exec \<Rightarrow> 'd exec" where "BLTZL e ex s = branch_likely_if (rsD s < 0) e ex s"
definition BGEZL :: "'d env \<Rightarrow> 'd exec \<Rightarrow> 'd exec" where "BGEZL e ex s = branch_likely_if (rsD s \<ge> 0) e ex s"
definition BLTZALL :: "'d env \<Rightarrow> 'd exec \<Rightarrow> 'd exec" where
  "BLTZALL e ex s = (let s1 = link 31 s in branch_likely_if (rsD s1 < 0) e ex s1)"
definition BGEZALL :: "'d env \<Rightarrow> 'd exec \<Rightarrow> 'd exec" where
  "BGEZALL e ex s = (let s1 = link 31 s in branch_likely_if (rsD s1 \<ge> 0) e ex s1)"

definition JR :: "'d env \<Rightarrow> 'd exec \<Rightarrow> 'd exec" where
  "JR e ex s =
     (let a = UL (rs (cpu s)) 0;
          s1 = (if GoemonTlbHack e \<and> (a = 0x33ad48 \<or> a = 0x35060c \<or> a = 0x341ad0 \<or> a = 0x357844 \<or> a = 0x356334)
                then GoemonPreloadTlb e s else s)
      in doBranch e ex (UL (rs (cpu s1)) 0) s1)"

definition JALR :: "'d env \<Rightarrow> 'd exec \<Rightarrow> 'd exec" where
  "JALR e ex s =
     (let temp = UL (rs (cpu s)) 0;
          s1 = (if opRd (cpu s) \<noteq> 0 then link (opRd (cpu s)) s else s)
      in doBranch e ex temp s1)"

subsection \<open>Branches and exception return of COP0\<close>

definition CPCOND0_of :: "'d env \<Rightarrow> 'd ee \<Rightarrow> bool" where
  "CPCOND0_of e s = CPCOND0 (dmac_CIS e (dev s)) (dmac_CPC e (dev s))"

definition BC0F :: "'d env \<Rightarrow> 'd exec \<Rightarrow> 'd exec" where
  "BC0F e ex s = (if \<not> CPCOND0_of e s then intDoBranch e ex (opBranchTarget (cpu s)) s else Some (Done () s))"
definition BC0T :: "'d env \<Rightarrow> 'd exec \<Rightarrow> 'd exec" where
  "BC0T e ex s = (if CPCOND0_of e s then intDoBranch e ex (opBranchTarget (cpu s)) s else Some (Done () s))"
definition BC0FL :: "'d env \<Rightarrow> 'd exec \<Rightarrow> 'd exec" where
  "BC0FL e ex s = (if \<not> CPCOND0_of e s then intDoBranch e ex (opBranchTarget (cpu s)) s else Some (Done () (skip_slot s)))"
definition BC0TL :: "'d env \<Rightarrow> 'd exec \<Rightarrow> 'd exec" where
  "BC0TL e ex s = (if CPCOND0_of e s then intDoBranch e ex (opBranchTarget (cpu s)) s else Some (Done () (skip_slot s)))"

definition ERET :: "'d ee \<Rightarrow> 'd ee" where
  "ERET s = intSetBranch (upd_cpu ERET_regs s)"

definition intReset :: "'d ee \<Rightarrow> 'd ee" where
  "intReset s = s\<lparr>cpu := (cpu s)\<lparr>branch := 0\<rparr>, branch2 := False\<rparr>"

subsection \<open>System calls\<close>

text \<open>The call number is the low byte of \<open>v1\<close>, or of its negation when \<open>v1\<close> is negative.\<close>

definition syscall_number :: "cpuRegisters \<Rightarrow> u8" where
  "syscall_number c =
     (let v1 = UL (GPR c 3) 0 in if sint v1 < 0 then ucast (- v1) else UC (GPR c 3) 0)"

definition SYSCALL :: "'d env \<Rightarrow> 'd ee \<Rightarrow> (unit, 'd ee) result" where
  "SYSCALL e s =
     bindR (syscall_hle e (syscall_number (cpu s)) s) (\<lambda>answered s.
       if answered then Done () s
       else Done () (upd_cpu (\<lambda>c. cpuException 0x20 (branch c) (c\<lparr>pc := pc c - 4\<rparr>)) s))"

end
