(* ===== verification/EE_Opcodes.thy ===== *)
theory EE_Opcodes
  imports EE_Interp EE_MMI
begin

text \<open>
  The opcode tables of src/pcsx2/R5900OpcodeTables.cpp, the decoder of src/pcsx2/R5900OpcodeImpl.cpp and
  the function that executes one instruction. An opcode has a name, a cycle count and its interpreter
  function; a class refers to a further table, as the \<open>getsubclass\<close> pointer does.
\<close>

named_theorems opcode_defs \<open>definitions of the opcodes\<close>
named_theorems table_defs \<open>definitions of the opcode tables\<close>

subsection \<open>Opcodes\<close>

datatype 'd opcode =
    OPCODE string nat "'d env \<Rightarrow> 'd exec \<Rightarrow> 'd exec"
  | CLASS string "u32 \<Rightarrow> 'd opcode"

text \<open>The kinds of interpreter functions: nothing to do, registers only, memory accesses, branches,
  the coprocessors that are parameters, TLB instructions, and system calls. A TLB index outside the
  buffer is undefined behaviour of the source; such an instruction is cancelled here.\<close>

definition nop_op :: "'d env \<Rightarrow> 'd exec \<Rightarrow> 'd exec" where "nop_op e ex s = Some (Done () s)"
definition reg_op :: "(cpuRegisters \<Rightarrow> cpuRegisters) \<Rightarrow> 'd env \<Rightarrow> 'd exec \<Rightarrow> 'd exec" where
  "reg_op f e ex s = Some (Done () (upd_cpu f s))"
definition mem_op :: "('d io \<Rightarrow> 'd ee \<Rightarrow> (unit, 'd ee) result) \<Rightarrow> 'd env \<Rightarrow> 'd exec \<Rightarrow> 'd exec" where
  "mem_op f e ex s = Some (f (io_of e) s)"
definition flow_op :: "('d env \<Rightarrow> 'd exec \<Rightarrow> 'd exec) \<Rightarrow> 'd env \<Rightarrow> 'd exec \<Rightarrow> 'd exec" where
  "flow_op f e ex s = f e ex s"
definition ee_op :: "('d ee \<Rightarrow> 'd ee) \<Rightarrow> 'd env \<Rightarrow> 'd exec \<Rightarrow> 'd exec" where
  "ee_op f e ex s = Some (Done () (f s))"
definition tlb_op :: "('d io \<Rightarrow> 'd ee \<Rightarrow> 'd ee option) \<Rightarrow> 'd env \<Rightarrow> 'd exec \<Rightarrow> 'd exec" where
  "tlb_op f e ex s = Some (case f (io_of e) s of Some s' \<Rightarrow> Done () s' | None \<Rightarrow> Cancel s)"
definition sys_op :: "'d env \<Rightarrow> 'd exec \<Rightarrow> 'd exec" where "sys_op e ex s = Some (SYSCALL e s)"
definition cop :: "string \<Rightarrow> 'd env \<Rightarrow> 'd exec \<Rightarrow> 'd exec" where "cop n e ex s = cop_op e n ex s"

text \<open>Cycle counts, in eighths.\<close>

definition cyc_Default :: nat where "cyc_Default = 9"
definition cyc_Branch :: nat where "cyc_Branch = 11"
definition cyc_CopDefault :: nat where "cyc_CopDefault = 7"
definition cyc_Mult :: nat where "cyc_Mult = 2 * 8"
definition cyc_Div :: nat where "cyc_Div = 14 * 8"
definition cyc_MMI_Mult :: nat where "cyc_MMI_Mult = 3 * 8"
definition cyc_MMI_Div :: nat where "cyc_MMI_Div = 22 * 8"
definition cyc_MMI_Default :: nat where "cyc_MMI_Default = 14"
definition cyc_FPU_Mult :: nat where "cyc_FPU_Mult = 4 * 8"
definition cyc_Store :: nat where "cyc_Store = 14"
definition cyc_Load :: nat where "cyc_Load = 14"

definition op_Unknown :: "'d opcode" where [opcode_defs]: "op_Unknown = OPCODE ''Unknown'' cyc_Default nop_op"
definition op_MMI_Unknown :: "'d opcode" where [opcode_defs]: "op_MMI_Unknown = OPCODE ''MMI_Unknown'' cyc_Default nop_op"
definition op_COP0_Unknown :: "'d opcode" where [opcode_defs]: "op_COP0_Unknown = OPCODE ''COP0_Unknown'' cyc_Default nop_op"
definition op_COP1_Unknown :: "'d opcode" where [opcode_defs]: "op_COP1_Unknown = OPCODE ''COP1_Unknown'' cyc_Default nop_op"
definition op_COP2 :: "'d opcode" where [opcode_defs]: "op_COP2 = OPCODE ''COP2'' cyc_Default (cop ''COP2'')"
definition op_CACHE :: "'d opcode" where [opcode_defs]: "op_CACHE = OPCODE ''CACHE'' cyc_Default (cop ''CACHE'')"
definition op_PREF :: "'d opcode" where [opcode_defs]: "op_PREF = OPCODE ''PREF'' cyc_Default nop_op"
definition op_SYSCALL :: "'d opcode" where [opcode_defs]: "op_SYSCALL = OPCODE ''SYSCALL'' cyc_Default sys_op"
definition op_BREAK :: "'d opcode" where [opcode_defs]: "op_BREAK = OPCODE ''BREAK'' cyc_Default (reg_op BREAK)"
definition op_SYNC :: "'d opcode" where [opcode_defs]: "op_SYNC = OPCODE ''SYNC'' cyc_Default nop_op"
definition op_J :: "'d opcode" where [opcode_defs]: "op_J = OPCODE ''J'' cyc_Default (flow_op J)"
definition op_JAL :: "'d opcode" where [opcode_defs]: "op_JAL = OPCODE ''JAL'' cyc_Default (flow_op JAL)"
definition op_JR :: "'d opcode" where [opcode_defs]: "op_JR = OPCODE ''JR'' cyc_Default (flow_op JR)"
definition op_JALR :: "'d opcode" where [opcode_defs]: "op_JALR = OPCODE ''JALR'' cyc_Default (flow_op JALR)"
definition op_BEQ :: "'d opcode" where [opcode_defs]: "op_BEQ = OPCODE ''BEQ'' cyc_Branch (flow_op BEQ)"
definition op_BNE :: "'d opcode" where [opcode_defs]: "op_BNE = OPCODE ''BNE'' cyc_Branch (flow_op BNE)"
definition op_BLEZ :: "'d opcode" where [opcode_defs]: "op_BLEZ = OPCODE ''BLEZ'' cyc_Branch (flow_op BLEZ)"
definition op_BGTZ :: "'d opcode" where [opcode_defs]: "op_BGTZ = OPCODE ''BGTZ'' cyc_Branch (flow_op BGTZ)"
definition op_BEQL :: "'d opcode" where [opcode_defs]: "op_BEQL = OPCODE ''BEQL'' cyc_Branch (flow_op BEQL)"
definition op_BNEL :: "'d opcode" where [opcode_defs]: "op_BNEL = OPCODE ''BNEL'' cyc_Branch (flow_op BNEL)"
definition op_BLEZL :: "'d opcode" where [opcode_defs]: "op_BLEZL = OPCODE ''BLEZL'' cyc_Branch (flow_op BLEZL)"
definition op_BGTZL :: "'d opcode" where [opcode_defs]: "op_BGTZL = OPCODE ''BGTZL'' cyc_Branch (flow_op BGTZL)"
definition op_BLTZ :: "'d opcode" where [opcode_defs]: "op_BLTZ = OPCODE ''BLTZ'' cyc_Branch (flow_op BLTZ)"
definition op_BGEZ :: "'d opcode" where [opcode_defs]: "op_BGEZ = OPCODE ''BGEZ'' cyc_Branch (flow_op BGEZ)"
definition op_BLTZL :: "'d opcode" where [opcode_defs]: "op_BLTZL = OPCODE ''BLTZL'' cyc_Branch (flow_op BLTZL)"
definition op_BGEZL :: "'d opcode" where [opcode_defs]: "op_BGEZL = OPCODE ''BGEZL'' cyc_Branch (flow_op BGEZL)"
definition op_BLTZAL :: "'d opcode" where [opcode_defs]: "op_BLTZAL = OPCODE ''BLTZAL'' cyc_Branch (flow_op BLTZAL)"
definition op_BGEZAL :: "'d opcode" where [opcode_defs]: "op_BGEZAL = OPCODE ''BGEZAL'' cyc_Branch (flow_op BGEZAL)"
definition op_BLTZALL :: "'d opcode" where [opcode_defs]: "op_BLTZALL = OPCODE ''BLTZALL'' cyc_Branch (flow_op BLTZALL)"
definition op_BGEZALL :: "'d opcode" where [opcode_defs]: "op_BGEZALL = OPCODE ''BGEZALL'' cyc_Branch (flow_op BGEZALL)"
definition op_TGEI :: "'d opcode" where [opcode_defs]: "op_TGEI = OPCODE ''TGEI'' cyc_Branch (reg_op TGEI)"
definition op_TGEIU :: "'d opcode" where [opcode_defs]: "op_TGEIU = OPCODE ''TGEIU'' cyc_Branch (reg_op TGEIU)"
definition op_TLTI :: "'d opcode" where [opcode_defs]: "op_TLTI = OPCODE ''TLTI'' cyc_Branch (reg_op TLTI)"
definition op_TLTIU :: "'d opcode" where [opcode_defs]: "op_TLTIU = OPCODE ''TLTIU'' cyc_Branch (reg_op TLTIU)"
definition op_TEQI :: "'d opcode" where [opcode_defs]: "op_TEQI = OPCODE ''TEQI'' cyc_Branch (reg_op TEQI)"
definition op_TNEI :: "'d opcode" where [opcode_defs]: "op_TNEI = OPCODE ''TNEI'' cyc_Branch (reg_op TNEI)"
definition op_TGE :: "'d opcode" where [opcode_defs]: "op_TGE = OPCODE ''TGE'' cyc_Branch (reg_op TGE)"
definition op_TGEU :: "'d opcode" where [opcode_defs]: "op_TGEU = OPCODE ''TGEU'' cyc_Branch (reg_op TGEU)"
definition op_TLT :: "'d opcode" where [opcode_defs]: "op_TLT = OPCODE ''TLT'' cyc_Branch (reg_op TLT)"
definition op_TLTU :: "'d opcode" where [opcode_defs]: "op_TLTU = OPCODE ''TLTU'' cyc_Branch (reg_op TLTU)"
definition op_TEQ :: "'d opcode" where [opcode_defs]: "op_TEQ = OPCODE ''TEQ'' cyc_Branch (reg_op TEQ)"
definition op_TNE :: "'d opcode" where [opcode_defs]: "op_TNE = OPCODE ''TNE'' cyc_Branch (reg_op TNE)"
definition op_MULT :: "'d opcode" where [opcode_defs]: "op_MULT = OPCODE ''MULT'' cyc_Mult (reg_op MULT)"
definition op_MULTU :: "'d opcode" where [opcode_defs]: "op_MULTU = OPCODE ''MULTU'' cyc_Mult (reg_op MULTU)"
definition op_MULT1 :: "'d opcode" where [opcode_defs]: "op_MULT1 = OPCODE ''MULT1'' cyc_Mult (reg_op MULT1)"
definition op_MULTU1 :: "'d opcode" where [opcode_defs]: "op_MULTU1 = OPCODE ''MULTU1'' cyc_Mult (reg_op MULTU1)"
definition op_MADD :: "'d opcode" where [opcode_defs]: "op_MADD = OPCODE ''MADD'' cyc_Mult (reg_op MADD)"
definition op_MADDU :: "'d opcode" where [opcode_defs]: "op_MADDU = OPCODE ''MADDU'' cyc_Mult (reg_op MADDU)"
definition op_MADD1 :: "'d opcode" where [opcode_defs]: "op_MADD1 = OPCODE ''MADD1'' cyc_Mult (reg_op MADD1)"
definition op_MADDU1 :: "'d opcode" where [opcode_defs]: "op_MADDU1 = OPCODE ''MADDU1'' cyc_Mult (reg_op MADDU1)"
definition op_DIV :: "'d opcode" where [opcode_defs]: "op_DIV = OPCODE ''DIV'' cyc_Div (reg_op DIV)"
definition op_DIVU :: "'d opcode" where [opcode_defs]: "op_DIVU = OPCODE ''DIVU'' cyc_Div (reg_op DIVU)"
definition op_DIV1 :: "'d opcode" where [opcode_defs]: "op_DIV1 = OPCODE ''DIV1'' cyc_Div (reg_op DIV1)"
definition op_DIVU1 :: "'d opcode" where [opcode_defs]: "op_DIVU1 = OPCODE ''DIVU1'' cyc_Div (reg_op DIVU1)"
definition op_ADDI :: "'d opcode" where [opcode_defs]: "op_ADDI = OPCODE ''ADDI'' cyc_Default (reg_op ADDI)"
definition op_ADDIU :: "'d opcode" where [opcode_defs]: "op_ADDIU = OPCODE ''ADDIU'' cyc_Default (reg_op ADDIU)"
definition op_DADDI :: "'d opcode" where [opcode_defs]: "op_DADDI = OPCODE ''DADDI'' cyc_Default (reg_op DADDI)"
definition op_DADDIU :: "'d opcode" where [opcode_defs]: "op_DADDIU = OPCODE ''DADDIU'' cyc_Default (reg_op DADDIU)"
definition op_DADD :: "'d opcode" where [opcode_defs]: "op_DADD = OPCODE ''DADD'' cyc_Default (reg_op DADD)"
definition op_DADDU :: "'d opcode" where [opcode_defs]: "op_DADDU = OPCODE ''DADDU'' cyc_Default (reg_op DADDU)"
definition op_DSUB :: "'d opcode" where [opcode_defs]: "op_DSUB = OPCODE ''DSUB'' cyc_Default (reg_op DSUB)"
definition op_DSUBU :: "'d opcode" where [opcode_defs]: "op_DSUBU = OPCODE ''DSUBU'' cyc_Default (reg_op DSUBU)"
definition op_ADD :: "'d opcode" where [opcode_defs]: "op_ADD = OPCODE ''ADD'' cyc_Default (reg_op ADD)"
definition op_ADDU :: "'d opcode" where [opcode_defs]: "op_ADDU = OPCODE ''ADDU'' cyc_Default (reg_op ADDU)"
definition op_SUB :: "'d opcode" where [opcode_defs]: "op_SUB = OPCODE ''SUB'' cyc_Default (reg_op SUB)"
definition op_SUBU :: "'d opcode" where [opcode_defs]: "op_SUBU = OPCODE ''SUBU'' cyc_Default (reg_op SUBU)"
definition op_ANDI :: "'d opcode" where [opcode_defs]: "op_ANDI = OPCODE ''ANDI'' cyc_Default (reg_op ANDI)"
definition op_ORI :: "'d opcode" where [opcode_defs]: "op_ORI = OPCODE ''ORI'' cyc_Default (reg_op ORI)"
definition op_XORI :: "'d opcode" where [opcode_defs]: "op_XORI = OPCODE ''XORI'' cyc_Default (reg_op XORI)"
definition op_AND :: "'d opcode" where [opcode_defs]: "op_AND = OPCODE ''AND'' cyc_Default (reg_op AND_op)"
definition op_OR :: "'d opcode" where [opcode_defs]: "op_OR = OPCODE ''OR'' cyc_Default (reg_op OR_op)"
definition op_XOR :: "'d opcode" where [opcode_defs]: "op_XOR = OPCODE ''XOR'' cyc_Default (reg_op XOR_op)"
definition op_NOR :: "'d opcode" where [opcode_defs]: "op_NOR = OPCODE ''NOR'' cyc_Default (reg_op NOR_op)"
definition op_SLTI :: "'d opcode" where [opcode_defs]: "op_SLTI = OPCODE ''SLTI'' cyc_Default (reg_op SLTI)"
definition op_SLTIU :: "'d opcode" where [opcode_defs]: "op_SLTIU = OPCODE ''SLTIU'' cyc_Default (reg_op SLTIU)"
definition op_SLT :: "'d opcode" where [opcode_defs]: "op_SLT = OPCODE ''SLT'' cyc_Default (reg_op SLT)"
definition op_SLTU :: "'d opcode" where [opcode_defs]: "op_SLTU = OPCODE ''SLTU'' cyc_Default (reg_op SLTU)"
definition op_LUI :: "'d opcode" where [opcode_defs]: "op_LUI = OPCODE ''LUI'' cyc_Default (reg_op LUI)"
definition op_SLL :: "'d opcode" where [opcode_defs]: "op_SLL = OPCODE ''SLL'' cyc_Default (reg_op SLL)"
definition op_SRL :: "'d opcode" where [opcode_defs]: "op_SRL = OPCODE ''SRL'' cyc_Default (reg_op SRL)"
definition op_SRA :: "'d opcode" where [opcode_defs]: "op_SRA = OPCODE ''SRA'' cyc_Default (reg_op SRA)"
definition op_SLLV :: "'d opcode" where [opcode_defs]: "op_SLLV = OPCODE ''SLLV'' cyc_Default (reg_op SLLV)"
definition op_SRLV :: "'d opcode" where [opcode_defs]: "op_SRLV = OPCODE ''SRLV'' cyc_Default (reg_op SRLV)"
definition op_SRAV :: "'d opcode" where [opcode_defs]: "op_SRAV = OPCODE ''SRAV'' cyc_Default (reg_op SRAV)"
definition op_MOVZ :: "'d opcode" where [opcode_defs]: "op_MOVZ = OPCODE ''MOVZ'' cyc_Default (reg_op MOVZ)"
definition op_MOVN :: "'d opcode" where [opcode_defs]: "op_MOVN = OPCODE ''MOVN'' cyc_Default (reg_op MOVN)"
definition op_DSLLV :: "'d opcode" where [opcode_defs]: "op_DSLLV = OPCODE ''DSLLV'' cyc_Default (reg_op DSLLV)"
definition op_DSRLV :: "'d opcode" where [opcode_defs]: "op_DSRLV = OPCODE ''DSRLV'' cyc_Default (reg_op DSRLV)"
definition op_DSRAV :: "'d opcode" where [opcode_defs]: "op_DSRAV = OPCODE ''DSRAV'' cyc_Default (reg_op DSRAV)"
definition op_DSLL :: "'d opcode" where [opcode_defs]: "op_DSLL = OPCODE ''DSLL'' cyc_Default (reg_op DSLL)"
definition op_DSRL :: "'d opcode" where [opcode_defs]: "op_DSRL = OPCODE ''DSRL'' cyc_Default (reg_op DSRL)"
definition op_DSRA :: "'d opcode" where [opcode_defs]: "op_DSRA = OPCODE ''DSRA'' cyc_Default (reg_op DSRA)"
definition op_DSLL32 :: "'d opcode" where [opcode_defs]: "op_DSLL32 = OPCODE ''DSLL32'' cyc_Default (reg_op DSLL32)"
definition op_DSRL32 :: "'d opcode" where [opcode_defs]: "op_DSRL32 = OPCODE ''DSRL32'' cyc_Default (reg_op DSRL32)"
definition op_DSRA32 :: "'d opcode" where [opcode_defs]: "op_DSRA32 = OPCODE ''DSRA32'' cyc_Default (reg_op DSRA32)"
definition op_MFHI :: "'d opcode" where [opcode_defs]: "op_MFHI = OPCODE ''MFHI'' cyc_Default (reg_op MFHI)"
definition op_MTHI :: "'d opcode" where [opcode_defs]: "op_MTHI = OPCODE ''MTHI'' cyc_Default (reg_op MTHI)"
definition op_MFLO :: "'d opcode" where [opcode_defs]: "op_MFLO = OPCODE ''MFLO'' cyc_Default (reg_op MFLO)"
definition op_MTLO :: "'d opcode" where [opcode_defs]: "op_MTLO = OPCODE ''MTLO'' cyc_Default (reg_op MTLO)"
definition op_MFSA :: "'d opcode" where [opcode_defs]: "op_MFSA = OPCODE ''MFSA'' cyc_Default (reg_op MFSA)"
definition op_MTSA :: "'d opcode" where [opcode_defs]: "op_MTSA = OPCODE ''MTSA'' cyc_Default (reg_op MTSA)"
definition op_MTSAB :: "'d opcode" where [opcode_defs]: "op_MTSAB = OPCODE ''MTSAB'' cyc_Default (reg_op MTSAB)"
definition op_MTSAH :: "'d opcode" where [opcode_defs]: "op_MTSAH = OPCODE ''MTSAH'' cyc_Default (reg_op MTSAH)"
definition op_MFHI1 :: "'d opcode" where [opcode_defs]: "op_MFHI1 = OPCODE ''MFHI1'' cyc_Default (reg_op MFHI1)"
definition op_MTHI1 :: "'d opcode" where [opcode_defs]: "op_MTHI1 = OPCODE ''MTHI1'' cyc_Default (reg_op MTHI1)"
definition op_MFLO1 :: "'d opcode" where [opcode_defs]: "op_MFLO1 = OPCODE ''MFLO1'' cyc_Default (reg_op MFLO1)"
definition op_MTLO1 :: "'d opcode" where [opcode_defs]: "op_MTLO1 = OPCODE ''MTLO1'' cyc_Default (reg_op MTLO1)"
definition op_LDL :: "'d opcode" where [opcode_defs]: "op_LDL = OPCODE ''LDL'' cyc_Load (mem_op LDL)"
definition op_LDR :: "'d opcode" where [opcode_defs]: "op_LDR = OPCODE ''LDR'' cyc_Load (mem_op LDR)"
definition op_LQ :: "'d opcode" where [opcode_defs]: "op_LQ = OPCODE ''LQ'' cyc_Load (mem_op LQ)"
definition op_LB :: "'d opcode" where [opcode_defs]: "op_LB = OPCODE ''LB'' cyc_Load (mem_op LB)"
definition op_LH :: "'d opcode" where [opcode_defs]: "op_LH = OPCODE ''LH'' cyc_Load (mem_op LH)"
definition op_LWL :: "'d opcode" where [opcode_defs]: "op_LWL = OPCODE ''LWL'' cyc_Load (mem_op LWL)"
definition op_LW :: "'d opcode" where [opcode_defs]: "op_LW = OPCODE ''LW'' cyc_Load (mem_op LW)"
definition op_LBU :: "'d opcode" where [opcode_defs]: "op_LBU = OPCODE ''LBU'' cyc_Load (mem_op LBU)"
definition op_LHU :: "'d opcode" where [opcode_defs]: "op_LHU = OPCODE ''LHU'' cyc_Load (mem_op LHU)"
definition op_LWR :: "'d opcode" where [opcode_defs]: "op_LWR = OPCODE ''LWR'' cyc_Load (mem_op LWR)"
definition op_LWU :: "'d opcode" where [opcode_defs]: "op_LWU = OPCODE ''LWU'' cyc_Load (mem_op LWU)"
definition op_LWC1 :: "'d opcode" where [opcode_defs]: "op_LWC1 = OPCODE ''LWC1'' cyc_Load (cop ''LWC1'')"
definition op_LQC2 :: "'d opcode" where [opcode_defs]: "op_LQC2 = OPCODE ''LQC2'' cyc_Load (cop ''LQC2'')"
definition op_LD :: "'d opcode" where [opcode_defs]: "op_LD = OPCODE ''LD'' cyc_Load (mem_op LD)"
definition op_SQ :: "'d opcode" where [opcode_defs]: "op_SQ = OPCODE ''SQ'' cyc_Store (mem_op SQ)"
definition op_SB :: "'d opcode" where [opcode_defs]: "op_SB = OPCODE ''SB'' cyc_Store (mem_op SB)"
definition op_SH :: "'d opcode" where [opcode_defs]: "op_SH = OPCODE ''SH'' cyc_Store (mem_op SH)"
definition op_SWL :: "'d opcode" where [opcode_defs]: "op_SWL = OPCODE ''SWL'' cyc_Store (mem_op SWL)"
definition op_SW :: "'d opcode" where [opcode_defs]: "op_SW = OPCODE ''SW'' cyc_Store (mem_op SW)"
definition op_SDL :: "'d opcode" where [opcode_defs]: "op_SDL = OPCODE ''SDL'' cyc_Store (mem_op SDL)"
definition op_SDR :: "'d opcode" where [opcode_defs]: "op_SDR = OPCODE ''SDR'' cyc_Store (mem_op SDR)"
definition op_SWR :: "'d opcode" where [opcode_defs]: "op_SWR = OPCODE ''SWR'' cyc_Store (mem_op SWR)"
definition op_SWC1 :: "'d opcode" where [opcode_defs]: "op_SWC1 = OPCODE ''SWC1'' cyc_Store (cop ''SWC1'')"
definition op_SQC2 :: "'d opcode" where [opcode_defs]: "op_SQC2 = OPCODE ''SQC2'' cyc_Store (cop ''SQC2'')"
definition op_SD :: "'d opcode" where [opcode_defs]: "op_SD = OPCODE ''SD'' cyc_Store (mem_op SD)"
definition op_PLZCW :: "'d opcode" where [opcode_defs]: "op_PLZCW = OPCODE ''PLZCW'' cyc_MMI_Default (reg_op PLZCW)"
definition op_PMFHL :: "'d opcode" where [opcode_defs]: "op_PMFHL = OPCODE ''PMFHL'' cyc_MMI_Default (reg_op PMFHL)"
definition op_PMTHL :: "'d opcode" where [opcode_defs]: "op_PMTHL = OPCODE ''PMTHL'' cyc_MMI_Default (reg_op PMTHL)"
definition op_PSLLH :: "'d opcode" where [opcode_defs]: "op_PSLLH = OPCODE ''PSLLH'' cyc_MMI_Default (reg_op PSLLH)"
definition op_PSRLH :: "'d opcode" where [opcode_defs]: "op_PSRLH = OPCODE ''PSRLH'' cyc_MMI_Default (reg_op PSRLH)"
definition op_PSRAH :: "'d opcode" where [opcode_defs]: "op_PSRAH = OPCODE ''PSRAH'' cyc_MMI_Default (reg_op PSRAH)"
definition op_PSLLW :: "'d opcode" where [opcode_defs]: "op_PSLLW = OPCODE ''PSLLW'' cyc_MMI_Default (reg_op PSLLW)"
definition op_PSRLW :: "'d opcode" where [opcode_defs]: "op_PSRLW = OPCODE ''PSRLW'' cyc_MMI_Default (reg_op PSRLW)"
definition op_PSRAW :: "'d opcode" where [opcode_defs]: "op_PSRAW = OPCODE ''PSRAW'' cyc_MMI_Default (reg_op PSRAW)"
definition op_PADDW :: "'d opcode" where [opcode_defs]: "op_PADDW = OPCODE ''PADDW'' cyc_MMI_Default (reg_op PADDW)"
definition op_PADDH :: "'d opcode" where [opcode_defs]: "op_PADDH = OPCODE ''PADDH'' cyc_MMI_Default (reg_op PADDH)"
definition op_PADDB :: "'d opcode" where [opcode_defs]: "op_PADDB = OPCODE ''PADDB'' cyc_MMI_Default (reg_op PADDB)"
definition op_PADDSW :: "'d opcode" where [opcode_defs]: "op_PADDSW = OPCODE ''PADDSW'' cyc_MMI_Default (reg_op PADDSW)"
definition op_PADDSH :: "'d opcode" where [opcode_defs]: "op_PADDSH = OPCODE ''PADDSH'' cyc_MMI_Default (reg_op PADDSH)"
definition op_PADDSB :: "'d opcode" where [opcode_defs]: "op_PADDSB = OPCODE ''PADDSB'' cyc_MMI_Default (reg_op PADDSB)"
definition op_PADDUW :: "'d opcode" where [opcode_defs]: "op_PADDUW = OPCODE ''PADDUW'' cyc_MMI_Default (reg_op PADDUW)"
definition op_PADDUH :: "'d opcode" where [opcode_defs]: "op_PADDUH = OPCODE ''PADDUH'' cyc_MMI_Default (reg_op PADDUH)"
definition op_PADDUB :: "'d opcode" where [opcode_defs]: "op_PADDUB = OPCODE ''PADDUB'' cyc_MMI_Default (reg_op PADDUB)"
definition op_PSUBW :: "'d opcode" where [opcode_defs]: "op_PSUBW = OPCODE ''PSUBW'' cyc_MMI_Default (reg_op PSUBW)"
definition op_PSUBH :: "'d opcode" where [opcode_defs]: "op_PSUBH = OPCODE ''PSUBH'' cyc_MMI_Default (reg_op PSUBH)"
definition op_PSUBB :: "'d opcode" where [opcode_defs]: "op_PSUBB = OPCODE ''PSUBB'' cyc_MMI_Default (reg_op PSUBB)"
definition op_PSUBSW :: "'d opcode" where [opcode_defs]: "op_PSUBSW = OPCODE ''PSUBSW'' cyc_MMI_Default (reg_op PSUBSW)"
definition op_PSUBSH :: "'d opcode" where [opcode_defs]: "op_PSUBSH = OPCODE ''PSUBSH'' cyc_MMI_Default (reg_op PSUBSH)"
definition op_PSUBSB :: "'d opcode" where [opcode_defs]: "op_PSUBSB = OPCODE ''PSUBSB'' cyc_MMI_Default (reg_op PSUBSB)"
definition op_PSUBUW :: "'d opcode" where [opcode_defs]: "op_PSUBUW = OPCODE ''PSUBUW'' cyc_MMI_Default (reg_op PSUBUW)"
definition op_PSUBUH :: "'d opcode" where [opcode_defs]: "op_PSUBUH = OPCODE ''PSUBUH'' cyc_MMI_Default (reg_op PSUBUH)"
definition op_PSUBUB :: "'d opcode" where [opcode_defs]: "op_PSUBUB = OPCODE ''PSUBUB'' cyc_MMI_Default (reg_op PSUBUB)"
definition op_PCGTW :: "'d opcode" where [opcode_defs]: "op_PCGTW = OPCODE ''PCGTW'' cyc_MMI_Default (reg_op PCGTW)"
definition op_PMAXW :: "'d opcode" where [opcode_defs]: "op_PMAXW = OPCODE ''PMAXW'' cyc_MMI_Default (reg_op PMAXW)"
definition op_PMAXH :: "'d opcode" where [opcode_defs]: "op_PMAXH = OPCODE ''PMAXH'' cyc_MMI_Default (reg_op PMAXH)"
definition op_PCGTH :: "'d opcode" where [opcode_defs]: "op_PCGTH = OPCODE ''PCGTH'' cyc_MMI_Default (reg_op PCGTH)"
definition op_PCGTB :: "'d opcode" where [opcode_defs]: "op_PCGTB = OPCODE ''PCGTB'' cyc_MMI_Default (reg_op PCGTB)"
definition op_PEXTLW :: "'d opcode" where [opcode_defs]: "op_PEXTLW = OPCODE ''PEXTLW'' cyc_MMI_Default (reg_op PEXTLW)"
definition op_PEXTLH :: "'d opcode" where [opcode_defs]: "op_PEXTLH = OPCODE ''PEXTLH'' cyc_MMI_Default (reg_op PEXTLH)"
definition op_PEXTLB :: "'d opcode" where [opcode_defs]: "op_PEXTLB = OPCODE ''PEXTLB'' cyc_MMI_Default (reg_op PEXTLB)"
definition op_PEXT5 :: "'d opcode" where [opcode_defs]: "op_PEXT5 = OPCODE ''PEXT5'' cyc_MMI_Default (reg_op PEXT5)"
definition op_PPACW :: "'d opcode" where [opcode_defs]: "op_PPACW = OPCODE ''PPACW'' cyc_MMI_Default (reg_op PPACW)"
definition op_PPACH :: "'d opcode" where [opcode_defs]: "op_PPACH = OPCODE ''PPACH'' cyc_MMI_Default (reg_op PPACH)"
definition op_PPACB :: "'d opcode" where [opcode_defs]: "op_PPACB = OPCODE ''PPACB'' cyc_MMI_Default (reg_op PPACB)"
definition op_PPAC5 :: "'d opcode" where [opcode_defs]: "op_PPAC5 = OPCODE ''PPAC5'' cyc_MMI_Default (reg_op PPAC5)"
definition op_PABSW :: "'d opcode" where [opcode_defs]: "op_PABSW = OPCODE ''PABSW'' cyc_MMI_Default (reg_op PABSW)"
definition op_PABSH :: "'d opcode" where [opcode_defs]: "op_PABSH = OPCODE ''PABSH'' cyc_MMI_Default (reg_op PABSH)"
definition op_PCEQW :: "'d opcode" where [opcode_defs]: "op_PCEQW = OPCODE ''PCEQW'' cyc_MMI_Default (reg_op PCEQW)"
definition op_PMINW :: "'d opcode" where [opcode_defs]: "op_PMINW = OPCODE ''PMINW'' cyc_MMI_Default (reg_op PMINW)"
definition op_PMINH :: "'d opcode" where [opcode_defs]: "op_PMINH = OPCODE ''PMINH'' cyc_MMI_Default (reg_op PMINH)"
definition op_PADSBH :: "'d opcode" where [opcode_defs]: "op_PADSBH = OPCODE ''PADSBH'' cyc_MMI_Default (reg_op PADSBH)"
definition op_PCEQH :: "'d opcode" where [opcode_defs]: "op_PCEQH = OPCODE ''PCEQH'' cyc_MMI_Default (reg_op PCEQH)"
definition op_PCEQB :: "'d opcode" where [opcode_defs]: "op_PCEQB = OPCODE ''PCEQB'' cyc_MMI_Default (reg_op PCEQB)"
definition op_PEXTUW :: "'d opcode" where [opcode_defs]: "op_PEXTUW = OPCODE ''PEXTUW'' cyc_MMI_Default (reg_op PEXTUW)"
definition op_PEXTUH :: "'d opcode" where [opcode_defs]: "op_PEXTUH = OPCODE ''PEXTUH'' cyc_MMI_Default (reg_op PEXTUH)"
definition op_PEXTUB :: "'d opcode" where [opcode_defs]: "op_PEXTUB = OPCODE ''PEXTUB'' cyc_MMI_Default (reg_op PEXTUB)"
definition op_PSLLVW :: "'d opcode" where [opcode_defs]: "op_PSLLVW = OPCODE ''PSLLVW'' cyc_MMI_Default (reg_op PSLLVW)"
definition op_PSRLVW :: "'d opcode" where [opcode_defs]: "op_PSRLVW = OPCODE ''PSRLVW'' cyc_MMI_Default (reg_op PSRLVW)"
definition op_QFSRV :: "'d opcode" where [opcode_defs]: "op_QFSRV = OPCODE ''QFSRV'' cyc_MMI_Default (reg_op QFSRV)"
definition op_PMADDH :: "'d opcode" where [opcode_defs]: "op_PMADDH = OPCODE ''PMADDH'' cyc_MMI_Mult (reg_op PMADDH)"
definition op_PHMADH :: "'d opcode" where [opcode_defs]: "op_PHMADH = OPCODE ''PHMADH'' cyc_MMI_Mult (reg_op PHMADH)"
definition op_PMSUBH :: "'d opcode" where [opcode_defs]: "op_PMSUBH = OPCODE ''PMSUBH'' cyc_MMI_Mult (reg_op PMSUBH)"
definition op_PHMSBH :: "'d opcode" where [opcode_defs]: "op_PHMSBH = OPCODE ''PHMSBH'' cyc_MMI_Mult (reg_op PHMSBH)"
definition op_PMULTH :: "'d opcode" where [opcode_defs]: "op_PMULTH = OPCODE ''PMULTH'' cyc_MMI_Mult (reg_op PMULTH)"
definition op_PMADDW :: "'d opcode" where [opcode_defs]: "op_PMADDW = OPCODE ''PMADDW'' cyc_MMI_Mult (reg_op PMADDW)"
definition op_PMSUBW :: "'d opcode" where [opcode_defs]: "op_PMSUBW = OPCODE ''PMSUBW'' cyc_MMI_Mult (reg_op PMSUBW)"
definition op_PMFHI :: "'d opcode" where [opcode_defs]: "op_PMFHI = OPCODE ''PMFHI'' cyc_MMI_Mult (reg_op PMFHI)"
definition op_PMFLO :: "'d opcode" where [opcode_defs]: "op_PMFLO = OPCODE ''PMFLO'' cyc_MMI_Mult (reg_op PMFLO)"
definition op_PMULTW :: "'d opcode" where [opcode_defs]: "op_PMULTW = OPCODE ''PMULTW'' cyc_MMI_Mult (reg_op PMULTW)"
definition op_PMADDUW :: "'d opcode" where [opcode_defs]: "op_PMADDUW = OPCODE ''PMADDUW'' cyc_MMI_Mult (reg_op PMADDUW)"
definition op_PMULTUW :: "'d opcode" where [opcode_defs]: "op_PMULTUW = OPCODE ''PMULTUW'' cyc_MMI_Mult (reg_op PMULTUW)"
definition op_PDIVUW :: "'d opcode" where [opcode_defs]: "op_PDIVUW = OPCODE ''PDIVUW'' cyc_MMI_Div (reg_op PDIVUW)"
definition op_PDIVW :: "'d opcode" where [opcode_defs]: "op_PDIVW = OPCODE ''PDIVW'' cyc_MMI_Div (reg_op PDIVW)"
definition op_PDIVBW :: "'d opcode" where [opcode_defs]: "op_PDIVBW = OPCODE ''PDIVBW'' cyc_MMI_Div (reg_op PDIVBW)"
definition op_PINTH :: "'d opcode" where [opcode_defs]: "op_PINTH = OPCODE ''PINTH'' cyc_MMI_Default (reg_op PINTH)"
definition op_PCPYLD :: "'d opcode" where [opcode_defs]: "op_PCPYLD = OPCODE ''PCPYLD'' cyc_MMI_Default (reg_op PCPYLD)"
definition op_PAND :: "'d opcode" where [opcode_defs]: "op_PAND = OPCODE ''PAND'' cyc_MMI_Default (reg_op PAND)"
definition op_PXOR :: "'d opcode" where [opcode_defs]: "op_PXOR = OPCODE ''PXOR'' cyc_MMI_Default (reg_op PXOR)"
definition op_PEXEH :: "'d opcode" where [opcode_defs]: "op_PEXEH = OPCODE ''PEXEH'' cyc_MMI_Default (reg_op PEXEH)"
definition op_PREVH :: "'d opcode" where [opcode_defs]: "op_PREVH = OPCODE ''PREVH'' cyc_MMI_Default (reg_op PREVH)"
definition op_PEXEW :: "'d opcode" where [opcode_defs]: "op_PEXEW = OPCODE ''PEXEW'' cyc_MMI_Default (reg_op PEXEW)"
definition op_PROT3W :: "'d opcode" where [opcode_defs]: "op_PROT3W = OPCODE ''PROT3W'' cyc_MMI_Default (reg_op PROT3W)"
definition op_PSRAVW :: "'d opcode" where [opcode_defs]: "op_PSRAVW = OPCODE ''PSRAVW'' cyc_MMI_Default (reg_op PSRAVW)"
definition op_PMTHI :: "'d opcode" where [opcode_defs]: "op_PMTHI = OPCODE ''PMTHI'' cyc_MMI_Default (reg_op PMTHI)"
definition op_PMTLO :: "'d opcode" where [opcode_defs]: "op_PMTLO = OPCODE ''PMTLO'' cyc_MMI_Default (reg_op PMTLO)"
definition op_PINTEH :: "'d opcode" where [opcode_defs]: "op_PINTEH = OPCODE ''PINTEH'' cyc_MMI_Default (reg_op PINTEH)"
definition op_PCPYUD :: "'d opcode" where [opcode_defs]: "op_PCPYUD = OPCODE ''PCPYUD'' cyc_MMI_Default (reg_op PCPYUD)"
definition op_POR :: "'d opcode" where [opcode_defs]: "op_POR = OPCODE ''POR'' cyc_MMI_Default (reg_op POR)"
definition op_PNOR :: "'d opcode" where [opcode_defs]: "op_PNOR = OPCODE ''PNOR'' cyc_MMI_Default (reg_op PNOR)"
definition op_PEXCH :: "'d opcode" where [opcode_defs]: "op_PEXCH = OPCODE ''PEXCH'' cyc_MMI_Default (reg_op PEXCH)"
definition op_PCPYH :: "'d opcode" where [opcode_defs]: "op_PCPYH = OPCODE ''PCPYH'' cyc_MMI_Default (reg_op PCPYH)"
definition op_PEXCW :: "'d opcode" where [opcode_defs]: "op_PEXCW = OPCODE ''PEXCW'' cyc_MMI_Default (reg_op PEXCW)"
definition op_MFC0 :: "'d opcode" where [opcode_defs]: "op_MFC0 = OPCODE ''MFC0'' cyc_CopDefault (reg_op MFC0)"
definition op_MTC0 :: "'d opcode" where [opcode_defs]: "op_MTC0 = OPCODE ''MTC0'' cyc_CopDefault (reg_op MTC0)"
definition op_BC0F :: "'d opcode" where [opcode_defs]: "op_BC0F = OPCODE ''BC0F'' cyc_Branch (flow_op BC0F)"
definition op_BC0T :: "'d opcode" where [opcode_defs]: "op_BC0T = OPCODE ''BC0T'' cyc_Branch (flow_op BC0T)"
definition op_BC0FL :: "'d opcode" where [opcode_defs]: "op_BC0FL = OPCODE ''BC0FL'' cyc_Branch (flow_op BC0FL)"
definition op_BC0TL :: "'d opcode" where [opcode_defs]: "op_BC0TL = OPCODE ''BC0TL'' cyc_Branch (flow_op BC0TL)"
definition op_TLBR :: "'d opcode" where [opcode_defs]: "op_TLBR = OPCODE ''TLBR'' cyc_CopDefault (tlb_op (\<lambda>io. TLBR))"
definition op_TLBWI :: "'d opcode" where [opcode_defs]: "op_TLBWI = OPCODE ''TLBWI'' cyc_CopDefault (tlb_op TLBWI)"
definition op_TLBWR :: "'d opcode" where [opcode_defs]: "op_TLBWR = OPCODE ''TLBWR'' cyc_CopDefault (tlb_op TLBWR)"
definition op_TLBP :: "'d opcode" where [opcode_defs]: "op_TLBP = OPCODE ''TLBP'' cyc_CopDefault (ee_op TLBP)"
definition op_ERET :: "'d opcode" where [opcode_defs]: "op_ERET = OPCODE ''ERET'' cyc_CopDefault (ee_op ERET)"
definition op_EI :: "'d opcode" where [opcode_defs]: "op_EI = OPCODE ''EI'' cyc_CopDefault (reg_op EI)"
definition op_DI :: "'d opcode" where [opcode_defs]: "op_DI = OPCODE ''DI'' cyc_CopDefault (reg_op DI)"
definition op_MFC1 :: "'d opcode" where [opcode_defs]: "op_MFC1 = OPCODE ''MFC1'' cyc_CopDefault (cop ''MFC1'')"
definition op_CFC1 :: "'d opcode" where [opcode_defs]: "op_CFC1 = OPCODE ''CFC1'' cyc_CopDefault (cop ''CFC1'')"
definition op_MTC1 :: "'d opcode" where [opcode_defs]: "op_MTC1 = OPCODE ''MTC1'' cyc_CopDefault (cop ''MTC1'')"
definition op_CTC1 :: "'d opcode" where [opcode_defs]: "op_CTC1 = OPCODE ''CTC1'' cyc_CopDefault (cop ''CTC1'')"
definition op_BC1F :: "'d opcode" where [opcode_defs]: "op_BC1F = OPCODE ''BC1F'' cyc_Branch (cop ''BC1F'')"
definition op_BC1T :: "'d opcode" where [opcode_defs]: "op_BC1T = OPCODE ''BC1T'' cyc_Branch (cop ''BC1T'')"
definition op_BC1FL :: "'d opcode" where [opcode_defs]: "op_BC1FL = OPCODE ''BC1FL'' cyc_Branch (cop ''BC1FL'')"
definition op_BC1TL :: "'d opcode" where [opcode_defs]: "op_BC1TL = OPCODE ''BC1TL'' cyc_Branch (cop ''BC1TL'')"
definition op_ADD_S :: "'d opcode" where [opcode_defs]: "op_ADD_S = OPCODE ''ADD_S'' cyc_CopDefault (cop ''ADD_S'')"
definition op_ADDA_S :: "'d opcode" where [opcode_defs]: "op_ADDA_S = OPCODE ''ADDA_S'' cyc_CopDefault (cop ''ADDA_S'')"
definition op_SUB_S :: "'d opcode" where [opcode_defs]: "op_SUB_S = OPCODE ''SUB_S'' cyc_CopDefault (cop ''SUB_S'')"
definition op_SUBA_S :: "'d opcode" where [opcode_defs]: "op_SUBA_S = OPCODE ''SUBA_S'' cyc_CopDefault (cop ''SUBA_S'')"
definition op_ABS_S :: "'d opcode" where [opcode_defs]: "op_ABS_S = OPCODE ''ABS_S'' cyc_CopDefault (cop ''ABS_S'')"
definition op_MOV_S :: "'d opcode" where [opcode_defs]: "op_MOV_S = OPCODE ''MOV_S'' cyc_CopDefault (cop ''MOV_S'')"
definition op_NEG_S :: "'d opcode" where [opcode_defs]: "op_NEG_S = OPCODE ''NEG_S'' cyc_CopDefault (cop ''NEG_S'')"
definition op_MAX_S :: "'d opcode" where [opcode_defs]: "op_MAX_S = OPCODE ''MAX_S'' cyc_CopDefault (cop ''MAX_S'')"
definition op_MIN_S :: "'d opcode" where [opcode_defs]: "op_MIN_S = OPCODE ''MIN_S'' cyc_CopDefault (cop ''MIN_S'')"
definition op_MUL_S :: "'d opcode" where [opcode_defs]: "op_MUL_S = OPCODE ''MUL_S'' cyc_FPU_Mult (cop ''MUL_S'')"
definition op_DIV_S :: "'d opcode" where [opcode_defs]: "op_DIV_S = OPCODE ''DIV_S'' (6 * 8) (cop ''DIV_S'')"
definition op_SQRT_S :: "'d opcode" where [opcode_defs]: "op_SQRT_S = OPCODE ''SQRT_S'' (6 * 8) (cop ''SQRT_S'')"
definition op_RSQRT_S :: "'d opcode" where [opcode_defs]: "op_RSQRT_S = OPCODE ''RSQRT_S'' (8 * 8) (cop ''RSQRT_S'')"
definition op_MULA_S :: "'d opcode" where [opcode_defs]: "op_MULA_S = OPCODE ''MULA_S'' cyc_FPU_Mult (cop ''MULA_S'')"
definition op_MADD_S :: "'d opcode" where [opcode_defs]: "op_MADD_S = OPCODE ''MADD_S'' cyc_FPU_Mult (cop ''MADD_S'')"
definition op_MSUB_S :: "'d opcode" where [opcode_defs]: "op_MSUB_S = OPCODE ''MSUB_S'' cyc_FPU_Mult (cop ''MSUB_S'')"
definition op_MADDA_S :: "'d opcode" where [opcode_defs]: "op_MADDA_S = OPCODE ''MADDA_S'' cyc_FPU_Mult (cop ''MADDA_S'')"
definition op_MSUBA_S :: "'d opcode" where [opcode_defs]: "op_MSUBA_S = OPCODE ''MSUBA_S'' cyc_FPU_Mult (cop ''MSUBA_S'')"
definition op_C_F :: "'d opcode" where [opcode_defs]: "op_C_F = OPCODE ''C_F'' cyc_CopDefault (cop ''C_F'')"
definition op_C_EQ :: "'d opcode" where [opcode_defs]: "op_C_EQ = OPCODE ''C_EQ'' cyc_CopDefault (cop ''C_EQ'')"
definition op_C_LT :: "'d opcode" where [opcode_defs]: "op_C_LT = OPCODE ''C_LT'' cyc_CopDefault (cop ''C_LT'')"
definition op_C_LE :: "'d opcode" where [opcode_defs]: "op_C_LE = OPCODE ''C_LE'' cyc_CopDefault (cop ''C_LE'')"
definition op_CVT_S :: "'d opcode" where [opcode_defs]: "op_CVT_S = OPCODE ''CVT_S'' cyc_CopDefault (cop ''CVT_S'')"
definition op_CVT_W :: "'d opcode" where [opcode_defs]: "op_CVT_W = OPCODE ''CVT_W'' cyc_CopDefault (cop ''CVT_W'')"

subsection \<open>Tables\<close>

definition tbl_COP1_BC1 :: "'d opcode list" where [table_defs]:
  "tbl_COP1_BC1 = [
    op_BC1F, op_BC1T, op_BC1FL, op_BC1TL,
    op_COP1_Unknown, op_COP1_Unknown, op_COP1_Unknown, op_COP1_Unknown,
    op_COP1_Unknown, op_COP1_Unknown, op_COP1_Unknown, op_COP1_Unknown,
    op_COP1_Unknown, op_COP1_Unknown, op_COP1_Unknown, op_COP1_Unknown,
    op_COP1_Unknown, op_COP1_Unknown, op_COP1_Unknown, op_COP1_Unknown,
    op_COP1_Unknown, op_COP1_Unknown, op_COP1_Unknown, op_COP1_Unknown,
    op_COP1_Unknown, op_COP1_Unknown, op_COP1_Unknown, op_COP1_Unknown,
    op_COP1_Unknown, op_COP1_Unknown, op_COP1_Unknown, op_COP1_Unknown]"

definition Class_COP1_BC1 :: "u32 \<Rightarrow> 'd opcode" where
  "Class_COP1_BC1 op = tbl_COP1_BC1 ! unat (drop_bit 16 op AND 0x1F)"

definition op_COP1_BC1 :: "'d opcode" where [opcode_defs]: "op_COP1_BC1 = CLASS ''COP1_BC1'' Class_COP1_BC1"

definition tbl_COP1_S :: "'d opcode list" where [table_defs]:
  "tbl_COP1_S = [
    op_ADD_S, op_SUB_S, op_MUL_S, op_DIV_S, op_SQRT_S, op_ABS_S, op_MOV_S, op_NEG_S,
    op_COP1_Unknown, op_COP1_Unknown, op_COP1_Unknown, op_COP1_Unknown, op_COP1_Unknown, op_COP1_Unknown, op_COP1_Unknown, op_COP1_Unknown,
    op_COP1_Unknown, op_COP1_Unknown, op_COP1_Unknown, op_COP1_Unknown, op_COP1_Unknown, op_COP1_Unknown, op_RSQRT_S, op_COP1_Unknown,
    op_ADDA_S, op_SUBA_S, op_MULA_S, op_COP1_Unknown, op_MADD_S, op_MSUB_S, op_MADDA_S, op_MSUBA_S,
    op_COP1_Unknown, op_COP1_Unknown, op_COP1_Unknown, op_COP1_Unknown, op_CVT_W, op_COP1_Unknown, op_COP1_Unknown, op_COP1_Unknown,
    op_MAX_S, op_MIN_S, op_COP1_Unknown, op_COP1_Unknown, op_COP1_Unknown, op_COP1_Unknown, op_COP1_Unknown, op_COP1_Unknown,
    op_C_F, op_COP1_Unknown, op_C_EQ, op_COP1_Unknown, op_C_LT, op_COP1_Unknown, op_C_LE, op_COP1_Unknown,
    op_COP1_Unknown, op_COP1_Unknown, op_COP1_Unknown, op_COP1_Unknown, op_COP1_Unknown, op_COP1_Unknown, op_COP1_Unknown, op_COP1_Unknown]"

definition Class_COP1_S :: "u32 \<Rightarrow> 'd opcode" where
  "Class_COP1_S op = tbl_COP1_S ! unat (op AND 0x3F)"

definition op_COP1_S :: "'d opcode" where [opcode_defs]: "op_COP1_S = CLASS ''COP1_S'' Class_COP1_S"

definition tbl_COP1_W :: "'d opcode list" where [table_defs]:
  "tbl_COP1_W = [
    op_COP1_Unknown, op_COP1_Unknown, op_COP1_Unknown, op_COP1_Unknown, op_COP1_Unknown, op_COP1_Unknown, op_COP1_Unknown, op_COP1_Unknown,
    op_COP1_Unknown, op_COP1_Unknown, op_COP1_Unknown, op_COP1_Unknown, op_COP1_Unknown, op_COP1_Unknown, op_COP1_Unknown, op_COP1_Unknown,
    op_COP1_Unknown, op_COP1_Unknown, op_COP1_Unknown, op_COP1_Unknown, op_COP1_Unknown, op_COP1_Unknown, op_COP1_Unknown, op_COP1_Unknown,
    op_COP1_Unknown, op_COP1_Unknown, op_COP1_Unknown, op_COP1_Unknown, op_COP1_Unknown, op_COP1_Unknown, op_COP1_Unknown, op_COP1_Unknown,
    op_CVT_S, op_COP1_Unknown, op_COP1_Unknown, op_COP1_Unknown, op_COP1_Unknown, op_COP1_Unknown, op_COP1_Unknown, op_COP1_Unknown,
    op_COP1_Unknown, op_COP1_Unknown, op_COP1_Unknown, op_COP1_Unknown, op_COP1_Unknown, op_COP1_Unknown, op_COP1_Unknown, op_COP1_Unknown,
    op_COP1_Unknown, op_COP1_Unknown, op_COP1_Unknown, op_COP1_Unknown, op_COP1_Unknown, op_COP1_Unknown, op_COP1_Unknown, op_COP1_Unknown,
    op_COP1_Unknown, op_COP1_Unknown, op_COP1_Unknown, op_COP1_Unknown, op_COP1_Unknown, op_COP1_Unknown, op_COP1_Unknown, op_COP1_Unknown]"

definition Class_COP1_W :: "u32 \<Rightarrow> 'd opcode" where
  "Class_COP1_W op = tbl_COP1_W ! unat (op AND 0x3F)"

definition op_COP1_W :: "'d opcode" where [opcode_defs]: "op_COP1_W = CLASS ''COP1_W'' Class_COP1_W"

definition tbl_COP1 :: "'d opcode list" where [table_defs]:
  "tbl_COP1 = [
    op_MFC1, op_COP1_Unknown, op_CFC1, op_COP1_Unknown,
    op_MTC1, op_COP1_Unknown, op_CTC1, op_COP1_Unknown,
    op_COP1_BC1, op_COP1_Unknown, op_COP1_Unknown, op_COP1_Unknown,
    op_COP1_Unknown, op_COP1_Unknown, op_COP1_Unknown, op_COP1_Unknown,
    op_COP1_S, op_COP1_Unknown, op_COP1_Unknown, op_COP1_Unknown,
    op_COP1_W, op_COP1_Unknown, op_COP1_Unknown, op_COP1_Unknown,
    op_COP1_Unknown, op_COP1_Unknown, op_COP1_Unknown, op_COP1_Unknown,
    op_COP1_Unknown, op_COP1_Unknown, op_COP1_Unknown, op_COP1_Unknown]"

definition Class_COP1 :: "u32 \<Rightarrow> 'd opcode" where
  "Class_COP1 op = tbl_COP1 ! unat (drop_bit 21 op AND 0x1F)"

definition op_COP1 :: "'d opcode" where [opcode_defs]: "op_COP1 = CLASS ''COP1'' Class_COP1"

definition tbl_COP0_BC0 :: "'d opcode list" where [table_defs]:
  "tbl_COP0_BC0 = [
    op_BC0F, op_BC0T, op_BC0FL, op_BC0TL,
    op_COP0_Unknown, op_COP0_Unknown, op_COP0_Unknown, op_COP0_Unknown,
    op_COP0_Unknown, op_COP0_Unknown, op_COP0_Unknown, op_COP0_Unknown,
    op_COP0_Unknown, op_COP0_Unknown, op_COP0_Unknown, op_COP0_Unknown,
    op_COP0_Unknown, op_COP0_Unknown, op_COP0_Unknown, op_COP0_Unknown,
    op_COP0_Unknown, op_COP0_Unknown, op_COP0_Unknown, op_COP0_Unknown,
    op_COP0_Unknown, op_COP0_Unknown, op_COP0_Unknown, op_COP0_Unknown,
    op_COP0_Unknown, op_COP0_Unknown, op_COP0_Unknown, op_COP0_Unknown]"

definition Class_COP0_BC0 :: "u32 \<Rightarrow> 'd opcode" where
  "Class_COP0_BC0 op = tbl_COP0_BC0 ! unat (drop_bit 16 op AND 0x03)"

definition op_COP0_BC0 :: "'d opcode" where [opcode_defs]: "op_COP0_BC0 = CLASS ''COP0_BC0'' Class_COP0_BC0"

definition tbl_COP0_C0 :: "'d opcode list" where [table_defs]:
  "tbl_COP0_C0 = [
    op_COP0_Unknown, op_TLBR, op_TLBWI, op_COP0_Unknown, op_COP0_Unknown, op_COP0_Unknown, op_TLBWR, op_COP0_Unknown,
    op_TLBP, op_COP0_Unknown, op_COP0_Unknown, op_COP0_Unknown, op_COP0_Unknown, op_COP0_Unknown, op_COP0_Unknown, op_COP0_Unknown,
    op_COP0_Unknown, op_COP0_Unknown, op_COP0_Unknown, op_COP0_Unknown, op_COP0_Unknown, op_COP0_Unknown, op_COP0_Unknown, op_COP0_Unknown,
    op_ERET, op_COP0_Unknown, op_COP0_Unknown, op_COP0_Unknown, op_COP0_Unknown, op_COP0_Unknown, op_COP0_Unknown, op_COP0_Unknown,
    op_COP0_Unknown, op_COP0_Unknown, op_COP0_Unknown, op_COP0_Unknown, op_COP0_Unknown, op_COP0_Unknown, op_COP0_Unknown, op_COP0_Unknown,
    op_COP0_Unknown, op_COP0_Unknown, op_COP0_Unknown, op_COP0_Unknown, op_COP0_Unknown, op_COP0_Unknown, op_COP0_Unknown, op_COP0_Unknown,
    op_COP0_Unknown, op_COP0_Unknown, op_COP0_Unknown, op_COP0_Unknown, op_COP0_Unknown, op_COP0_Unknown, op_COP0_Unknown, op_COP0_Unknown,
    op_EI, op_DI, op_COP0_Unknown, op_COP0_Unknown, op_COP0_Unknown, op_COP0_Unknown, op_COP0_Unknown, op_COP0_Unknown]"

definition Class_COP0_C0 :: "u32 \<Rightarrow> 'd opcode" where
  "Class_COP0_C0 op = tbl_COP0_C0 ! unat (op AND 0x3F)"

definition op_COP0_C0 :: "'d opcode" where [opcode_defs]: "op_COP0_C0 = CLASS ''COP0_C0'' Class_COP0_C0"

definition tbl_COP0 :: "'d opcode list" where [table_defs]:
  "tbl_COP0 = [
    op_MFC0, op_COP0_Unknown, op_COP0_Unknown, op_COP0_Unknown,
    op_MTC0, op_COP0_Unknown, op_COP0_Unknown, op_COP0_Unknown,
    op_COP0_BC0, op_COP0_Unknown, op_COP0_Unknown, op_COP0_Unknown,
    op_COP0_Unknown, op_COP0_Unknown, op_COP0_Unknown, op_COP0_Unknown,
    op_COP0_C0, op_COP0_Unknown, op_COP0_Unknown, op_COP0_Unknown,
    op_COP0_Unknown, op_COP0_Unknown, op_COP0_Unknown, op_COP0_Unknown,
    op_COP0_Unknown, op_COP0_Unknown, op_COP0_Unknown, op_COP0_Unknown,
    op_COP0_Unknown, op_COP0_Unknown, op_COP0_Unknown, op_COP0_Unknown]"

definition Class_COP0 :: "u32 \<Rightarrow> 'd opcode" where
  "Class_COP0 op = tbl_COP0 ! unat (drop_bit 21 op AND 0x1F)"

definition op_COP0 :: "'d opcode" where [opcode_defs]: "op_COP0 = CLASS ''COP0'' Class_COP0"

definition tbl_MMI0 :: "'d opcode list" where [table_defs]:
  "tbl_MMI0 = [
    op_PADDW, op_PSUBW, op_PCGTW, op_PMAXW,
    op_PADDH, op_PSUBH, op_PCGTH, op_PMAXH,
    op_PADDB, op_PSUBB, op_PCGTB, op_MMI_Unknown,
    op_MMI_Unknown, op_MMI_Unknown, op_MMI_Unknown, op_MMI_Unknown,
    op_PADDSW, op_PSUBSW, op_PEXTLW, op_PPACW,
    op_PADDSH, op_PSUBSH, op_PEXTLH, op_PPACH,
    op_PADDSB, op_PSUBSB, op_PEXTLB, op_PPACB,
    op_MMI_Unknown, op_MMI_Unknown, op_PEXT5, op_PPAC5]"

definition Class_MMI0 :: "u32 \<Rightarrow> 'd opcode" where
  "Class_MMI0 op = tbl_MMI0 ! unat (drop_bit 6 op AND 0x1F)"

definition op_MMI0 :: "'d opcode" where [opcode_defs]: "op_MMI0 = CLASS ''MMI0'' Class_MMI0"

definition tbl_MMI1 :: "'d opcode list" where [table_defs]:
  "tbl_MMI1 = [
    op_MMI_Unknown, op_PABSW, op_PCEQW, op_PMINW,
    op_PADSBH, op_PABSH, op_PCEQH, op_PMINH,
    op_MMI_Unknown, op_MMI_Unknown, op_PCEQB, op_MMI_Unknown,
    op_MMI_Unknown, op_MMI_Unknown, op_MMI_Unknown, op_MMI_Unknown,
    op_PADDUW, op_PSUBUW, op_PEXTUW, op_MMI_Unknown,
    op_PADDUH, op_PSUBUH, op_PEXTUH, op_MMI_Unknown,
    op_PADDUB, op_PSUBUB, op_PEXTUB, op_QFSRV,
    op_MMI_Unknown, op_MMI_Unknown, op_MMI_Unknown, op_MMI_Unknown]"

definition Class_MMI1 :: "u32 \<Rightarrow> 'd opcode" where
  "Class_MMI1 op = tbl_MMI1 ! unat (drop_bit 6 op AND 0x1F)"

definition op_MMI1 :: "'d opcode" where [opcode_defs]: "op_MMI1 = CLASS ''MMI1'' Class_MMI1"

definition tbl_MMI2 :: "'d opcode list" where [table_defs]:
  "tbl_MMI2 = [
    op_PMADDW, op_MMI_Unknown, op_PSLLVW, op_PSRLVW,
    op_PMSUBW, op_MMI_Unknown, op_MMI_Unknown, op_MMI_Unknown,
    op_PMFHI, op_PMFLO, op_PINTH, op_MMI_Unknown,
    op_PMULTW, op_PDIVW, op_PCPYLD, op_MMI_Unknown,
    op_PMADDH, op_PHMADH, op_PAND, op_PXOR,
    op_PMSUBH, op_PHMSBH, op_MMI_Unknown, op_MMI_Unknown,
    op_MMI_Unknown, op_MMI_Unknown, op_PEXEH, op_PREVH,
    op_PMULTH, op_PDIVBW, op_PEXEW, op_PROT3W]"

definition Class_MMI2 :: "u32 \<Rightarrow> 'd opcode" where
  "Class_MMI2 op = tbl_MMI2 ! unat (drop_bit 6 op AND 0x1F)"

definition op_MMI2 :: "'d opcode" where [opcode_defs]: "op_MMI2 = CLASS ''MMI2'' Class_MMI2"

definition tbl_MMI3 :: "'d opcode list" where [table_defs]:
  "tbl_MMI3 = [
    op_PMADDUW, op_MMI_Unknown, op_MMI_Unknown, op_PSRAVW,
    op_MMI_Unknown, op_MMI_Unknown, op_MMI_Unknown, op_MMI_Unknown,
    op_PMTHI, op_PMTLO, op_PINTEH, op_MMI_Unknown,
    op_PMULTUW, op_PDIVUW, op_PCPYUD, op_MMI_Unknown,
    op_MMI_Unknown, op_MMI_Unknown, op_POR, op_PNOR,
    op_MMI_Unknown, op_MMI_Unknown, op_MMI_Unknown, op_MMI_Unknown,
    op_MMI_Unknown, op_MMI_Unknown, op_PEXCH, op_PCPYH,
    op_MMI_Unknown, op_MMI_Unknown, op_PEXCW, op_MMI_Unknown]"

definition Class_MMI3 :: "u32 \<Rightarrow> 'd opcode" where
  "Class_MMI3 op = tbl_MMI3 ! unat (drop_bit 6 op AND 0x1F)"

definition op_MMI3 :: "'d opcode" where [opcode_defs]: "op_MMI3 = CLASS ''MMI3'' Class_MMI3"

definition tbl_MMI :: "'d opcode list" where [table_defs]:
  "tbl_MMI = [
    op_MADD, op_MADDU, op_MMI_Unknown, op_MMI_Unknown, op_PLZCW, op_MMI_Unknown, op_MMI_Unknown, op_MMI_Unknown,
    op_MMI0, op_MMI2, op_MMI_Unknown, op_MMI_Unknown, op_MMI_Unknown, op_MMI_Unknown, op_MMI_Unknown, op_MMI_Unknown,
    op_MFHI1, op_MTHI1, op_MFLO1, op_MTLO1, op_MMI_Unknown, op_MMI_Unknown, op_MMI_Unknown, op_MMI_Unknown,
    op_MULT1, op_MULTU1, op_DIV1, op_DIVU1, op_MMI_Unknown, op_MMI_Unknown, op_MMI_Unknown, op_MMI_Unknown,
    op_MADD1, op_MADDU1, op_MMI_Unknown, op_MMI_Unknown, op_MMI_Unknown, op_MMI_Unknown, op_MMI_Unknown, op_MMI_Unknown,
    op_MMI1, op_MMI3, op_MMI_Unknown, op_MMI_Unknown, op_MMI_Unknown, op_MMI_Unknown, op_MMI_Unknown, op_MMI_Unknown,
    op_PMFHL, op_PMTHL, op_MMI_Unknown, op_MMI_Unknown, op_PSLLH, op_MMI_Unknown, op_PSRLH, op_PSRAH,
    op_MMI_Unknown, op_MMI_Unknown, op_MMI_Unknown, op_MMI_Unknown, op_PSLLW, op_MMI_Unknown, op_PSRLW, op_PSRAW]"

definition Class_MMI :: "u32 \<Rightarrow> 'd opcode" where
  "Class_MMI op = tbl_MMI ! unat (op AND 0x3F)"

definition op_MMI :: "'d opcode" where [opcode_defs]: "op_MMI = CLASS ''MMI'' Class_MMI"

definition tbl_RegImm :: "'d opcode list" where [table_defs]:
  "tbl_RegImm = [
    op_BLTZ, op_BGEZ, op_BLTZL, op_BGEZL,
    op_Unknown, op_Unknown, op_Unknown, op_Unknown,
    op_TGEI, op_TGEIU, op_TLTI, op_TLTIU,
    op_TEQI, op_Unknown, op_TNEI, op_Unknown,
    op_BLTZAL, op_BGEZAL, op_BLTZALL, op_BGEZALL,
    op_Unknown, op_Unknown, op_Unknown, op_Unknown,
    op_MTSAB, op_MTSAH, op_Unknown, op_Unknown,
    op_Unknown, op_Unknown, op_Unknown, op_Unknown]"

definition Class_REGIMM :: "u32 \<Rightarrow> 'd opcode" where
  "Class_REGIMM op = tbl_RegImm ! unat (drop_bit 16 op AND 0x1F)"

definition op_REGIMM :: "'d opcode" where [opcode_defs]: "op_REGIMM = CLASS ''REGIMM'' Class_REGIMM"

definition tbl_Special :: "'d opcode list" where [table_defs]:
  "tbl_Special = [
    op_SLL, op_Unknown, op_SRL, op_SRA, op_SLLV, op_Unknown, op_SRLV, op_SRAV,
    op_JR, op_JALR, op_MOVZ, op_MOVN, op_SYSCALL, op_BREAK, op_Unknown, op_SYNC,
    op_MFHI, op_MTHI, op_MFLO, op_MTLO, op_DSLLV, op_Unknown, op_DSRLV, op_DSRAV,
    op_MULT, op_MULTU, op_DIV, op_DIVU, op_Unknown, op_Unknown, op_Unknown, op_Unknown,
    op_ADD, op_ADDU, op_SUB, op_SUBU, op_AND, op_OR, op_XOR, op_NOR,
    op_MFSA, op_MTSA, op_SLT, op_SLTU, op_DADD, op_DADDU, op_DSUB, op_DSUBU,
    op_TGE, op_TGEU, op_TLT, op_TLTU, op_TEQ, op_Unknown, op_TNE, op_Unknown,
    op_DSLL, op_Unknown, op_DSRL, op_DSRA, op_DSLL32, op_Unknown, op_DSRL32, op_DSRA32]"

definition Class_SPECIAL :: "u32 \<Rightarrow> 'd opcode" where
  "Class_SPECIAL op = tbl_Special ! unat (op AND 0x3F)"

definition op_SPECIAL :: "'d opcode" where [opcode_defs]: "op_SPECIAL = CLASS ''SPECIAL'' Class_SPECIAL"

definition tbl_Standard :: "'d opcode list" where [table_defs]:
  "tbl_Standard = [
    op_SPECIAL, op_REGIMM, op_J, op_JAL, op_BEQ, op_BNE, op_BLEZ, op_BGTZ,
    op_ADDI, op_ADDIU, op_SLTI, op_SLTIU, op_ANDI, op_ORI, op_XORI, op_LUI,
    op_COP0, op_COP1, op_COP2, op_Unknown, op_BEQL, op_BNEL, op_BLEZL, op_BGTZL,
    op_DADDI, op_DADDIU, op_LDL, op_LDR, op_MMI, op_Unknown, op_LQ, op_SQ,
    op_LB, op_LH, op_LWL, op_LW, op_LBU, op_LHU, op_LWR, op_LWU,
    op_SB, op_SH, op_SWL, op_SW, op_SDL, op_SDR, op_SWR, op_CACHE,
    op_Unknown, op_LWC1, op_Unknown, op_PREF, op_Unknown, op_Unknown, op_LQC2, op_LD,
    op_Unknown, op_SWC1, op_Unknown, op_Unknown, op_Unknown, op_Unknown, op_SQC2, op_SD]"

subsection \<open>Decoding and executing\<close>

primrec resolve :: "'d opcode \<Rightarrow> u32 \<Rightarrow> 'd opcode" where
  "resolve (OPCODE n c f) op = OPCODE n c f"
| "resolve (CLASS n sub) op = resolve (sub op) op"

definition GetInstruction :: "u32 \<Rightarrow> 'd opcode" where
  "GetInstruction op = resolve (tbl_Standard ! unat (drop_bit 26 op)) op"

definition GetCurrentInstruction :: "cpuRegisters \<Rightarrow> 'd opcode" where
  "GetCurrentInstruction c = GetInstruction (code c)"

primrec op_name :: "'d opcode \<Rightarrow> string" where
  "op_name (OPCODE n c f) = n"
| "op_name (CLASS n sub) = n"

primrec op_cycles :: "'d opcode \<Rightarrow> nat" where
  "op_cycles (OPCODE n c f) = c"
| "op_cycles (CLASS n sub) = 0"

primrec op_interpret :: "'d opcode \<Rightarrow> 'd env \<Rightarrow> 'd exec \<Rightarrow> 'd exec" where
  "op_interpret (OPCODE n c f) = f"
| "op_interpret (CLASS n sub) = nop_op"

text \<open>\<open>execI\<close> with the number of nested delay slots it may enter: the program counter moves on before
  the fetch, since an exception of the fetch expects it so.\<close>

primrec execI :: "nat \<Rightarrow> 'd env \<Rightarrow> 'd exec" where
  "execI 0 e s = None"
| "execI (Suc n) e s =
     (let a = pc (cpu s); s1 = upd_cpu (\<lambda>c. c\<lparr>pc := a + 4\<rparr>) s in
      case memRead32 (io_of e) a s1 of
        Cancel s2 \<Rightarrow> Some (Cancel s2)
      | Done w s2 \<Rightarrow>
          let s3 = upd_cpu (\<lambda>c. c\<lparr>code := w\<rparr>) s2;
              op = GetCurrentInstruction (cpu s3);
              s4 = s3\<lparr>cpuBlockCycles := cpuBlockCycles s3 +
                of_nat (op_cycles op) * (2 - (drop_bit 18 (CP0 (cpu s3) cp0_Config) AND 1))\<rparr>
          in op_interpret op e (execI n e) s4)"

text \<open>Running \<open>k\<close> instructions of the \<open>GAME_RUNNING\<close> loop: a cancelled instruction jumps back to the
  loop, which goes on with the next one.\<close>

primrec run :: "nat \<Rightarrow> nat \<Rightarrow> 'd env \<Rightarrow> 'd ee \<Rightarrow> 'd ee option" where
  "run 0 n e s = Some s"
| "run (Suc k) n e s = (case execI n e s of None \<Rightarrow> None | Some r \<Rightarrow> run k n e (final_state r))"

end
