(* ===== verification/EE_Decode_Spec.thy ===== *)
theory EE_Decode_Spec
  imports EE_Opcodes
begin

text \<open>
  Decoding: the tables of src/pcsx2/R5900OpcodeTables.cpp against the encodings of the instruction set, and no
  instruction word indexes past the end of a table.
\<close>

primrec is_opcode :: "'d opcode \<Rightarrow> bool" where
  "is_opcode (OPCODE n c f) = True"
| "is_opcode (CLASS n sub) = False"

definition opcode_tables :: "'d opcode list list" where
  "opcode_tables = [tbl_Standard, tbl_Special, tbl_RegImm, tbl_MMI, tbl_MMI0, tbl_MMI1, tbl_MMI2, tbl_MMI3,
     tbl_COP0, tbl_COP0_BC0, tbl_COP0_C0, tbl_COP1, tbl_COP1_BC1, tbl_COP1_S, tbl_COP1_W]"

definition opcodes :: "'d opcode list" where
  "opcodes = filter is_opcode (concat opcode_tables)"

lemma resolve_opcode: "is_opcode x \<Longrightarrow> resolve x op = x"
  by (cases x) simp_all

lemma table_lengths:
  "length tbl_Standard = 64" "length tbl_Special = 64" "length tbl_RegImm = 32" "length tbl_MMI = 64"
  "length tbl_MMI0 = 32" "length tbl_MMI1 = 32" "length tbl_MMI2 = 32" "length tbl_MMI3 = 32"
  "length tbl_COP0 = 32" "length tbl_COP0_BC0 = 32" "length tbl_COP0_C0 = 64" "length tbl_COP1 = 32"
  "length tbl_COP1_BC1 = 32" "length tbl_COP1_S = 64" "length tbl_COP1_W = 64"
  by (simp_all add: table_defs)

lemma masked_index:
  "unat ((x :: u32) AND 0x3F) < 64" "unat (x AND 0x1F) < 32" "unat (x AND 3) < 32" "unat (drop_bit 26 x) < 64"
proof -
  have "unat (take_bit n x) = take_bit n (unat x)" for n by (simp only: unsigned_take_bit_eq)
  then have "unat (x AND mask n) < 2 ^ n" for n by (simp add: take_bit_nat_less_exp flip: take_bit_eq_mask)
  from this [of 6] this [of 5] this [of 2]
  show "unat (x AND 0x3F) < 64" "unat (x AND 0x1F) < 32" "unat (x AND 3) < 32"
    by (simp_all add: mask_eq_exp_minus_1)
  have "unat x < 2 ^ 32" using unsigned_less [of x] by simp
  then show "unat (drop_bit 26 x) < 64" by (simp add: drop_bit_eq_div unat_div)
qed

text \<open>A property of all opcodes holds of the decoded one if it holds entry by entry: classes through
  their tables.\<close>

definition table_all :: "('d opcode \<Rightarrow> bool) \<Rightarrow> 'd opcode list \<Rightarrow> bool" where
  "table_all P tbl \<longleftrightarrow> (\<forall>x\<in>set tbl. is_opcode x \<longrightarrow> P x)"

lemma resolve_table:
  assumes "i < length tbl" "\<forall>x\<in>set tbl. P (resolve x op)"
  shows "P (resolve (tbl ! i) op)"
  using assms by simp

lemma leaf_table: "list_all is_opcode tbl \<Longrightarrow> table_all P tbl \<Longrightarrow> \<forall>x\<in>set tbl. P (resolve x op)"
  by (auto simp: table_all_def list_all_iff resolve_opcode)

lemma leaf_tables:
  "list_all is_opcode tbl_COP1_BC1" "list_all is_opcode tbl_COP1_S" "list_all is_opcode tbl_COP1_W"
  "list_all is_opcode tbl_COP0_BC0" "list_all is_opcode tbl_COP0_C0" "list_all is_opcode tbl_MMI0"
  "list_all is_opcode tbl_MMI1" "list_all is_opcode tbl_MMI2" "list_all is_opcode tbl_MMI3"
  "list_all is_opcode tbl_RegImm" "list_all is_opcode tbl_Special"
  by (simp_all add: table_defs opcode_defs)


lemma class_entries:
  "\<forall>x\<in>set tbl_COP1. is_opcode x \<or> x = op_COP1_BC1 \<or> x = op_COP1_S \<or> x = op_COP1_W"
  "\<forall>x\<in>set tbl_COP0. is_opcode x \<or> x = op_COP0_BC0 \<or> x = op_COP0_C0"
  "\<forall>x\<in>set tbl_MMI. is_opcode x \<or> x = op_MMI0 \<or> x = op_MMI1 \<or> x = op_MMI2 \<or> x = op_MMI3"
  "\<forall>x\<in>set tbl_Standard. is_opcode x \<or> x = op_SPECIAL \<or> x = op_REGIMM \<or> x = op_COP0 \<or> x = op_COP1 \<or> x = op_MMI"
  by (simp_all add: table_defs opcode_defs)

lemma GetInstruction_all:
  assumes "\<forall>tbl\<in>set opcode_tables. table_all P tbl"
  shows "P (GetInstruction op)"
proof -
  have all: "table_all P tbl" if "tbl \<in> set opcode_tables" for tbl using assms that by blast
  have leaf: "P (resolve (tbl ! i) op)" if "list_all is_opcode tbl" "tbl \<in> set opcode_tables" "i < length tbl" for tbl i
    by (rule resolve_table [OF that(3) leaf_table [OF that(1) all [OF that(2)]]])
  have mixed: "P (resolve (tbl ! i) op)"
    if "i < length tbl" "tbl \<in> set opcode_tables" "\<forall>x\<in>set tbl. is_opcode x \<or> P (resolve x op)" for tbl i
    using that all [OF that(2)] by (intro resolve_table) (auto simp: table_all_def resolve_opcode)
  note class_ops = op_COP1_BC1_def op_COP1_S_def op_COP1_W_def op_COP0_BC0_def op_COP0_C0_def op_MMI0_def op_MMI1_def
    op_MMI2_def op_MMI3_def Class_COP1_BC1_def Class_COP1_S_def Class_COP1_W_def Class_COP0_BC0_def Class_COP0_C0_def
    Class_MMI0_def Class_MMI1_def Class_MMI2_def Class_MMI3_def op_SPECIAL_def op_REGIMM_def Class_SPECIAL_def Class_REGIMM_def
  have sub: "P (resolve op_COP1_BC1 op)" "P (resolve op_COP1_S op)" "P (resolve op_COP1_W op)"
    "P (resolve op_COP0_BC0 op)" "P (resolve op_COP0_C0 op)" "P (resolve op_MMI0 op)" "P (resolve op_MMI1 op)"
    "P (resolve op_MMI2 op)" "P (resolve op_MMI3 op)" "P (resolve op_SPECIAL op)" "P (resolve op_REGIMM op)"
    by (simp_all add: class_ops leaf leaf_tables opcode_tables_def table_lengths masked_index)
  have "P (resolve op_COP1 op)" "P (resolve op_COP0 op)" "P (resolve op_MMI op)"
    unfolding op_COP1_def op_COP0_def op_MMI_def Class_COP1_def Class_COP0_def Class_MMI_def resolve.simps
    by (rule mixed; use class_entries sub in \<open>auto simp: opcode_tables_def table_lengths masked_index\<close>)+
  with sub show ?thesis
    unfolding GetInstruction_def
    by (intro mixed) (use class_entries in \<open>auto simp: opcode_tables_def table_lengths masked_index\<close>)
qed

subsection \<open>The encodings of the instruction set\<close>

text \<open>The encodings of the instructions as the manual of the processor lists them: by the primary opcode (bits 31
  to 26), and inside the classes by the function field (bits 5 to 0), the \<open>rt\<close> field (bits 20 to 16), the \<open>rs\<close>
  field (bits 25 to 21) or, for the classes \<open>MMI0\<close> to \<open>MMI3\<close>, bits 10 to 6. Codes that are not listed are
  reserved.\<close>

named_theorems encodings \<open>the encodings of the instruction set\<close>

definition enc_primary :: "(nat \<times> string) list" where [encodings]:
  "enc_primary = [
    (2, ''J''), (3, ''JAL''), (4, ''BEQ''), (5, ''BNE''), (6, ''BLEZ''), (7, ''BGTZ''), (8, ''ADDI''), (9,
    ''ADDIU''), (10, ''SLTI''), (11, ''SLTIU''), (12, ''ANDI''), (13, ''ORI''), (14, ''XORI''), (15, ''LUI''),
    (18, ''COP2''), (20, ''BEQL''), (21, ''BNEL''), (22, ''BLEZL''), (23, ''BGTZL''), (24, ''DADDI''), (25,
    ''DADDIU''), (26, ''LDL''), (27, ''LDR''), (30, ''LQ''), (31, ''SQ''), (32, ''LB''), (33, ''LH''), (34,
    ''LWL''), (35, ''LW''), (36, ''LBU''), (37, ''LHU''), (38, ''LWR''), (39, ''LWU''), (40, ''SB''), (41,
    ''SH''), (42, ''SWL''), (43, ''SW''), (44, ''SDL''), (45, ''SDR''), (46, ''SWR''), (47, ''CACHE''), (49,
    ''LWC1''), (51, ''PREF''), (54, ''LQC2''), (55, ''LD''), (57, ''SWC1''), (62, ''SQC2''), (63, ''SD'')]"

definition enc_SPECIAL :: "(nat \<times> string) list" where [encodings]:
  "enc_SPECIAL = [
    (0, ''SLL''), (2, ''SRL''), (3, ''SRA''), (4, ''SLLV''), (6, ''SRLV''), (7, ''SRAV''), (8, ''JR''), (9,
    ''JALR''), (10, ''MOVZ''), (11, ''MOVN''), (12, ''SYSCALL''), (13, ''BREAK''), (15, ''SYNC''), (16,
    ''MFHI''), (17, ''MTHI''), (18, ''MFLO''), (19, ''MTLO''), (20, ''DSLLV''), (22, ''DSRLV''), (23,
    ''DSRAV''), (24, ''MULT''), (25, ''MULTU''), (26, ''DIV''), (27, ''DIVU''), (32, ''ADD''), (33, ''ADDU''),
    (34, ''SUB''), (35, ''SUBU''), (36, ''AND''), (37, ''OR''), (38, ''XOR''), (39, ''NOR''), (40, ''MFSA''),
    (41, ''MTSA''), (42, ''SLT''), (43, ''SLTU''), (44, ''DADD''), (45, ''DADDU''), (46, ''DSUB''), (47,
    ''DSUBU''), (48, ''TGE''), (49, ''TGEU''), (50, ''TLT''), (51, ''TLTU''), (52, ''TEQ''), (54, ''TNE''), (56,
    ''DSLL''), (58, ''DSRL''), (59, ''DSRA''), (60, ''DSLL32''), (62, ''DSRL32''), (63, ''DSRA32'')]"

definition enc_REGIMM :: "(nat \<times> string) list" where [encodings]:
  "enc_REGIMM = [
    (0, ''BLTZ''), (1, ''BGEZ''), (2, ''BLTZL''), (3, ''BGEZL''), (8, ''TGEI''), (9, ''TGEIU''), (10, ''TLTI''),
    (11, ''TLTIU''), (12, ''TEQI''), (14, ''TNEI''), (16, ''BLTZAL''), (17, ''BGEZAL''), (18, ''BLTZALL''), (19,
    ''BGEZALL''), (24, ''MTSAB''), (25, ''MTSAH'')]"

definition enc_MMI :: "(nat \<times> string) list" where [encodings]:
  "enc_MMI = [
    (0, ''MADD''), (1, ''MADDU''), (4, ''PLZCW''), (16, ''MFHI1''), (17, ''MTHI1''), (18, ''MFLO1''), (19,
    ''MTLO1''), (24, ''MULT1''), (25, ''MULTU1''), (26, ''DIV1''), (27, ''DIVU1''), (32, ''MADD1''), (33,
    ''MADDU1''), (48, ''PMFHL''), (49, ''PMTHL''), (52, ''PSLLH''), (54, ''PSRLH''), (55, ''PSRAH''), (60,
    ''PSLLW''), (62, ''PSRLW''), (63, ''PSRAW'')]"

definition enc_MMI0 :: "(nat \<times> string) list" where [encodings]:
  "enc_MMI0 = [
    (0, ''PADDW''), (1, ''PSUBW''), (2, ''PCGTW''), (3, ''PMAXW''), (4, ''PADDH''), (5, ''PSUBH''), (6,
    ''PCGTH''), (7, ''PMAXH''), (8, ''PADDB''), (9, ''PSUBB''), (10, ''PCGTB''), (16, ''PADDSW''), (17,
    ''PSUBSW''), (18, ''PEXTLW''), (19, ''PPACW''), (20, ''PADDSH''), (21, ''PSUBSH''), (22, ''PEXTLH''), (23,
    ''PPACH''), (24, ''PADDSB''), (25, ''PSUBSB''), (26, ''PEXTLB''), (27, ''PPACB''), (30, ''PEXT5''), (31,
    ''PPAC5'')]"

definition enc_MMI1 :: "(nat \<times> string) list" where [encodings]:
  "enc_MMI1 = [
    (1, ''PABSW''), (2, ''PCEQW''), (3, ''PMINW''), (4, ''PADSBH''), (5, ''PABSH''), (6, ''PCEQH''), (7,
    ''PMINH''), (10, ''PCEQB''), (16, ''PADDUW''), (17, ''PSUBUW''), (18, ''PEXTUW''), (20, ''PADDUH''), (21,
    ''PSUBUH''), (22, ''PEXTUH''), (24, ''PADDUB''), (25, ''PSUBUB''), (26, ''PEXTUB''), (27, ''QFSRV'')]"

definition enc_MMI2 :: "(nat \<times> string) list" where [encodings]:
  "enc_MMI2 = [
    (0, ''PMADDW''), (2, ''PSLLVW''), (3, ''PSRLVW''), (4, ''PMSUBW''), (8, ''PMFHI''), (9, ''PMFLO''), (10,
    ''PINTH''), (12, ''PMULTW''), (13, ''PDIVW''), (14, ''PCPYLD''), (16, ''PMADDH''), (17, ''PHMADH''), (18,
    ''PAND''), (19, ''PXOR''), (20, ''PMSUBH''), (21, ''PHMSBH''), (26, ''PEXEH''), (27, ''PREVH''), (28,
    ''PMULTH''), (29, ''PDIVBW''), (30, ''PEXEW''), (31, ''PROT3W'')]"

definition enc_MMI3 :: "(nat \<times> string) list" where [encodings]:
  "enc_MMI3 = [
    (0, ''PMADDUW''), (3, ''PSRAVW''), (8, ''PMTHI''), (9, ''PMTLO''), (10, ''PINTEH''), (12, ''PMULTUW''), (13,
    ''PDIVUW''), (14, ''PCPYUD''), (18, ''POR''), (19, ''PNOR''), (26, ''PEXCH''), (27, ''PCPYH''), (30,
    ''PEXCW'')]"

definition enc_COP0 :: "(nat \<times> string) list" where [encodings]:
  "enc_COP0 = [
    (0, ''MFC0''), (4, ''MTC0'')]"

definition enc_BC0 :: "(nat \<times> string) list" where [encodings]:
  "enc_BC0 = [
    (0, ''BC0F''), (1, ''BC0T''), (2, ''BC0FL''), (3, ''BC0TL'')]"

definition enc_C0 :: "(nat \<times> string) list" where [encodings]:
  "enc_C0 = [
    (1, ''TLBR''), (2, ''TLBWI''), (6, ''TLBWR''), (8, ''TLBP''), (24, ''ERET''), (56, ''EI''), (57, ''DI'')]"

definition enc_COP1 :: "(nat \<times> string) list" where [encodings]:
  "enc_COP1 = [
    (0, ''MFC1''), (2, ''CFC1''), (4, ''MTC1''), (6, ''CTC1'')]"

definition enc_BC1 :: "(nat \<times> string) list" where [encodings]:
  "enc_BC1 = [
    (0, ''BC1F''), (1, ''BC1T''), (2, ''BC1FL''), (3, ''BC1TL'')]"

definition enc_S :: "(nat \<times> string) list" where [encodings]:
  "enc_S = [
    (0, ''ADD_S''), (1, ''SUB_S''), (2, ''MUL_S''), (3, ''DIV_S''), (4, ''SQRT_S''), (5, ''ABS_S''), (6,
    ''MOV_S''), (7, ''NEG_S''), (22, ''RSQRT_S''), (24, ''ADDA_S''), (25, ''SUBA_S''), (26, ''MULA_S''), (28,
    ''MADD_S''), (29, ''MSUB_S''), (30, ''MADDA_S''), (31, ''MSUBA_S''), (36, ''CVT_W''), (40, ''MAX_S''), (41,
    ''MIN_S''), (48, ''C_F''), (50, ''C_EQ''), (52, ''C_LT''), (54, ''C_LE'')]"

definition enc_W :: "(nat \<times> string) list" where [encodings]:
  "enc_W = [
    (32, ''CVT_S'')]"

definition listed :: "string \<Rightarrow> (nat \<times> string) list \<Rightarrow> nat \<Rightarrow> string" where
  "listed reserved enc i = (case map_of enc i of Some n \<Rightarrow> n | None \<Rightarrow> reserved)"

definition mnemonic :: "nat \<Rightarrow> string" where
  "mnemonic w =
     (let primary = w div 2 ^ 26; rs = w div 2 ^ 21 mod 32; rt = w div 2 ^ 16 mod 32; sa = w div 2 ^ 6 mod 32; funct = w mod 64 in
      if primary = 0 then listed ''Unknown'' enc_SPECIAL funct
      else if primary = 1 then listed ''Unknown'' enc_REGIMM rt
      else if primary = 16 then
        if rs = 8 then listed ''COP0_Unknown'' enc_BC0 rt
        else if rs = 16 then listed ''COP0_Unknown'' enc_C0 funct
        else listed ''COP0_Unknown'' enc_COP0 rs
      else if primary = 17 then
        if rs = 8 then listed ''COP1_Unknown'' enc_BC1 rt
        else if rs = 16 then listed ''COP1_Unknown'' enc_S funct
        else if rs = 20 then listed ''COP1_Unknown'' enc_W funct
        else listed ''COP1_Unknown'' enc_COP1 rs
      else if primary = 28 then
        if funct = 8 then listed ''MMI_Unknown'' enc_MMI0 sa
        else if funct = 9 then listed ''MMI_Unknown'' enc_MMI2 sa
        else if funct = 40 then listed ''MMI_Unknown'' enc_MMI1 sa
        else if funct = 41 then listed ''MMI_Unknown'' enc_MMI3 sa
        else listed ''MMI_Unknown'' enc_MMI funct
      else listed ''Unknown'' enc_primary primary)"

text \<open>The tables against the encodings, entry by entry.\<close>

definition table_lists :: "string \<Rightarrow> (nat \<times> string) list \<Rightarrow> 'd opcode list \<Rightarrow> bool" where
  "table_lists reserved enc tbl \<longleftrightarrow>
     (\<forall>i<length tbl. is_opcode (tbl ! i) \<longrightarrow> op_name (tbl ! i) = listed reserved enc i)"

lemma table_lists_map:
  "table_lists reserved enc tbl \<longleftrightarrow>
     list_all2 (\<lambda>x i. is_opcode x \<longrightarrow> op_name x = listed reserved enc i) tbl [0..<length tbl]"
  by (simp add: table_lists_def list_all2_conv_all_nth)

lemma tables_list_encodings:
  "table_lists ''Unknown'' enc_SPECIAL tbl_Special" "table_lists ''Unknown'' enc_REGIMM tbl_RegImm"
  "table_lists ''COP0_Unknown'' enc_BC0 tbl_COP0_BC0" "table_lists ''COP0_Unknown'' enc_C0 tbl_COP0_C0"
  "table_lists ''COP0_Unknown'' enc_COP0 tbl_COP0" "table_lists ''COP1_Unknown'' enc_BC1 tbl_COP1_BC1"
  "table_lists ''COP1_Unknown'' enc_S tbl_COP1_S" "table_lists ''COP1_Unknown'' enc_W tbl_COP1_W"
  "table_lists ''COP1_Unknown'' enc_COP1 tbl_COP1" "table_lists ''MMI_Unknown'' enc_MMI0 tbl_MMI0"
  "table_lists ''MMI_Unknown'' enc_MMI1 tbl_MMI1" "table_lists ''MMI_Unknown'' enc_MMI2 tbl_MMI2"
  "table_lists ''MMI_Unknown'' enc_MMI3 tbl_MMI3" "table_lists ''MMI_Unknown'' enc_MMI tbl_MMI"
  "table_lists ''Unknown'' enc_primary tbl_Standard"
  unfolding table_lists_map table_lengths
  by (simp_all add: upt_rec table_defs opcode_defs listed_def encodings)

text \<open>Where the tables have a class in place of an instruction.\<close>

definition classes_at :: "nat set \<Rightarrow> 'd opcode list \<Rightarrow> bool" where
  "classes_at cs tbl \<longleftrightarrow> (\<forall>i<length tbl. is_opcode (tbl ! i) \<longleftrightarrow> i \<notin> cs)"

lemma classes_at_map: "classes_at cs tbl \<longleftrightarrow> list_all2 (\<lambda>x i. is_opcode x \<longleftrightarrow> i \<notin> cs) tbl [0..<length tbl]"
  by (simp add: classes_at_def list_all2_conv_all_nth)

lemma tables_classes_at:
  "classes_at {8, 16} tbl_COP0" "classes_at {8, 16, 20} tbl_COP1" "classes_at {8, 9, 40, 41} tbl_MMI"
  "classes_at {0, 1, 16, 17, 28} tbl_Standard"
  unfolding classes_at_map table_lengths
  by (simp_all add: upt_rec table_defs opcode_defs)

lemma class_slots:
  "tbl_COP0 ! 8 = op_COP0_BC0" "tbl_COP0 ! 16 = op_COP0_C0" "tbl_COP1 ! 8 = op_COP1_BC1" "tbl_COP1 ! 16 = op_COP1_S"
  "tbl_COP1 ! 20 = op_COP1_W" "tbl_MMI ! 8 = op_MMI0" "tbl_MMI ! 9 = op_MMI2" "tbl_MMI ! 40 = op_MMI1" "tbl_MMI ! 41 = op_MMI3"
  "tbl_Standard ! 0 = op_SPECIAL" "tbl_Standard ! 1 = op_REGIMM" "tbl_Standard ! 16 = op_COP0" "tbl_Standard ! 17 = op_COP1"
  "tbl_Standard ! 28 = op_MMI"
  by (simp_all add: table_defs)

text \<open>The fields the classes select by, as numbers.\<close>

lemma opcode_fields:
  fixes w :: u32
  shows "unat (drop_bit 26 w) = unat w div 2 ^ 26" "unat (w AND 0x3F) = unat w mod 64"
    "unat (drop_bit k w AND 0x1F) = unat w div 2 ^ k mod 32" "unat (drop_bit k w AND 0x3) = unat w div 2 ^ k mod 4"
proof -
  have m: "unat (x AND mask n) = unat x mod 2 ^ n" for x :: u32 and n 
    by (simp only: take_bit_eq_mask [symmetric] unsigned_take_bit_eq) (simp only: take_bit_eq_mod)
  have d: "unat (drop_bit n w) = unat w div 2 ^ n" for n 
    using take_bit_nat_eq_self [of "unat w" 32] unsigned_less [of w, where 'a = nat]
    by (simp only: unsigned_drop_bit_eq) (simp add: drop_bit_eq_div)
  from d show "unat (drop_bit 26 w) = unat w div 2 ^ 26" .
  show "unat (w AND 0x3F) = unat w mod 64" using m [of w 6] by (simp add: mask_eq_exp_minus_1)
  show "unat (drop_bit k w AND 0x1F) = unat w div 2 ^ k mod 32" using m [of "drop_bit k w" 5] by (simp add: d mask_eq_exp_minus_1)
  show "unat (drop_bit k w AND 0x3) = unat w div 2 ^ k mod 4" using m [of "drop_bit k w" 2] by (simp add: d mask_eq_exp_minus_1)
qed

lemma leaf_name:
  assumes "table_lists r enc tbl" "list_all is_opcode tbl" "i < length tbl"
  shows "op_name (resolve (tbl ! i) w) = listed r enc i"
  using assms by (simp add: table_lists_def list_all_length resolve_opcode)

lemma mixed_name:
  assumes "table_lists r enc tbl" "classes_at cs tbl" "i < length tbl" "i \<notin> cs"
  shows "op_name (resolve (tbl ! i) w) = listed r enc i"
  using assms by (simp add: table_lists_def classes_at_def resolve_opcode)

lemmas class_op_defs = op_COP1_BC1_def op_COP1_S_def op_COP1_W_def op_COP0_BC0_def op_COP0_C0_def op_MMI0_def op_MMI1_def
    op_MMI2_def op_MMI3_def op_SPECIAL_def op_REGIMM_def op_COP0_def op_COP1_def op_MMI_def
    Class_COP1_BC1_def Class_COP1_S_def Class_COP1_W_def Class_COP0_BC0_def Class_COP0_C0_def
    Class_MMI0_def Class_MMI1_def Class_MMI2_def Class_MMI3_def Class_SPECIAL_def Class_REGIMM_def
    Class_COP0_def Class_COP1_def Class_MMI_def

lemma leaf_class_names:
  "op_name (resolve op_SPECIAL w) = listed ''Unknown'' enc_SPECIAL (unat w mod 64)"
  "op_name (resolve op_REGIMM w) = listed ''Unknown'' enc_REGIMM (unat w div 2 ^ 16 mod 32)"
  "op_name (resolve op_COP0_BC0 w) = listed ''COP0_Unknown'' enc_BC0 (unat w div 2 ^ 16 mod 4)"
  "op_name (resolve op_COP0_C0 w) = listed ''COP0_Unknown'' enc_C0 (unat w mod 64)"
  "op_name (resolve op_COP1_BC1 w) = listed ''COP1_Unknown'' enc_BC1 (unat w div 2 ^ 16 mod 32)"
  "op_name (resolve op_COP1_S w) = listed ''COP1_Unknown'' enc_S (unat w mod 64)"
  "op_name (resolve op_COP1_W w) = listed ''COP1_Unknown'' enc_W (unat w mod 64)"
  "op_name (resolve op_MMI0 w) = listed ''MMI_Unknown'' enc_MMI0 (unat w div 2 ^ 6 mod 32)"
  "op_name (resolve op_MMI1 w) = listed ''MMI_Unknown'' enc_MMI1 (unat w div 2 ^ 6 mod 32)"
  "op_name (resolve op_MMI2 w) = listed ''MMI_Unknown'' enc_MMI2 (unat w div 2 ^ 6 mod 32)"
  "op_name (resolve op_MMI3 w) = listed ''MMI_Unknown'' enc_MMI3 (unat w div 2 ^ 6 mod 32)"
  unfolding class_op_defs resolve.simps opcode_fields
  by (rule tables_list_encodings [THEN leaf_name]; simp add: leaf_tables table_lengths; rule less_trans [OF mod_less_divisor]; simp)+

lemma class_names:
  "op_name (resolve op_COP0 w) =
     (let rs = unat w div 2 ^ 21 mod 32 in
      if rs = 8 then listed ''COP0_Unknown'' enc_BC0 (unat w div 2 ^ 16 mod 4)
      else if rs = 16 then listed ''COP0_Unknown'' enc_C0 (unat w mod 64) else listed ''COP0_Unknown'' enc_COP0 rs)"
  "op_name (resolve op_COP1 w) =
     (let rs = unat w div 2 ^ 21 mod 32 in
      if rs = 8 then listed ''COP1_Unknown'' enc_BC1 (unat w div 2 ^ 16 mod 32)
      else if rs = 16 then listed ''COP1_Unknown'' enc_S (unat w mod 64)
      else if rs = 20 then listed ''COP1_Unknown'' enc_W (unat w mod 64) else listed ''COP1_Unknown'' enc_COP1 rs)"
  "op_name (resolve op_MMI w) =
     (let funct = unat w mod 64; sa = unat w div 2 ^ 6 mod 32 in
      if funct = 8 then listed ''MMI_Unknown'' enc_MMI0 sa
      else if funct = 9 then listed ''MMI_Unknown'' enc_MMI2 sa
      else if funct = 40 then listed ''MMI_Unknown'' enc_MMI1 sa
      else if funct = 41 then listed ''MMI_Unknown'' enc_MMI3 sa else listed ''MMI_Unknown'' enc_MMI funct)"
proof -
  have top: "resolve op_COP0 w = resolve (tbl_COP0 ! (unat w div 2 ^ 21 mod 32)) w"
    "resolve op_COP1 w = resolve (tbl_COP1 ! (unat w div 2 ^ 21 mod 32)) w"
    "resolve op_MMI w = resolve (tbl_MMI ! (unat w mod 64)) w"
    unfolding op_COP0_def op_COP1_def op_MMI_def Class_COP0_def Class_COP1_def Class_MMI_def resolve.simps opcode_fields by (rule refl)+
  note mixed = mixed_name [OF tables_list_encodings(5) tables_classes_at(1)]
    mixed_name [OF tables_list_encodings(9) tables_classes_at(2)] mixed_name [OF tables_list_encodings(14) tables_classes_at(3)]
  show "op_name (resolve op_COP0 w) =
     (let rs = unat w div 2 ^ 21 mod 32 in
      if rs = 8 then listed ''COP0_Unknown'' enc_BC0 (unat w div 2 ^ 16 mod 4)
      else if rs = 16 then listed ''COP0_Unknown'' enc_C0 (unat w mod 64) else listed ''COP0_Unknown'' enc_COP0 rs)"
    unfolding top Let_def using mixed(1) [of "unat w div 2 ^ 21 mod 32" w]
    by (auto simp: class_slots leaf_class_names table_lengths)
  show "op_name (resolve op_COP1 w) =
     (let rs = unat w div 2 ^ 21 mod 32 in
      if rs = 8 then listed ''COP1_Unknown'' enc_BC1 (unat w div 2 ^ 16 mod 32)
      else if rs = 16 then listed ''COP1_Unknown'' enc_S (unat w mod 64)
      else if rs = 20 then listed ''COP1_Unknown'' enc_W (unat w mod 64) else listed ''COP1_Unknown'' enc_COP1 rs)"
    unfolding top Let_def using mixed(2) [of "unat w div 2 ^ 21 mod 32" w]
    by (auto simp: class_slots leaf_class_names table_lengths)
  show "op_name (resolve op_MMI w) =
     (let funct = unat w mod 64; sa = unat w div 2 ^ 6 mod 32 in
      if funct = 8 then listed ''MMI_Unknown'' enc_MMI0 sa
      else if funct = 9 then listed ''MMI_Unknown'' enc_MMI2 sa
      else if funct = 40 then listed ''MMI_Unknown'' enc_MMI1 sa
      else if funct = 41 then listed ''MMI_Unknown'' enc_MMI3 sa else listed ''MMI_Unknown'' enc_MMI funct)"
    unfolding top Let_def using mixed(3) [of "unat w mod 64" w]
    by (auto simp: class_slots leaf_class_names table_lengths)
qed

definition bc0_reserved :: "nat \<Rightarrow> bool" where
  "bc0_reserved w \<longleftrightarrow> w div 2 ^ 26 = 16 \<and> w div 2 ^ 21 mod 32 = 8 \<and> 4 \<le> w div 2 ^ 16 mod 32"

lemma GetInstruction_name:
  "op_name (GetInstruction w) =
     (if bc0_reserved (unat w) then listed ''COP0_Unknown'' enc_BC0 (unat w div 2 ^ 16 mod 4) else mnemonic (unat w))"
proof -
  have top: "GetInstruction w = resolve (tbl_Standard ! (unat w div 2 ^ 26)) w"
    unfolding GetInstruction_def opcode_fields by (rule refl)
  have p: "unat w div 2 ^ 26 < 64" using masked_index(4) [of w] unfolding opcode_fields .
  have four: "unat w div 2 ^ 16 mod 4 = unat w div 2 ^ 16 mod 32" if "\<not> 4 \<le> unat w div 2 ^ 16 mod 32"
    using that mod_mod_cancel [of 4 32 "unat w div 2 ^ 16"] by simp
  note cases = mixed_name [OF tables_list_encodings(15) tables_classes_at(4), of "unat w div 2 ^ 26" w, unfolded table_lengths, OF p]
  show ?thesis
    unfolding top mnemonic_def Let_def bc0_reserved_def
    using cases four by (auto simp: class_slots leaf_class_names class_names Let_def simp del: One_nat_def)
qed

text \<open>The number of classes a word passes through.\<close>

primrec class_depth :: "'d opcode \<Rightarrow> u32 \<Rightarrow> nat" where
  "class_depth (OPCODE n c f) w = 0"
| "class_depth (CLASS n sub) w = Suc (class_depth (sub w) w)"

lemma class_depth_opcode: "is_opcode x \<Longrightarrow> class_depth x w = 0"
  by (cases x) simp_all

lemma class_depth_tables:
  "class_depth (tbl_Standard ! unat (drop_bit 26 w)) w \<le> 2"
proof -
  have leaf: "class_depth (tbl ! i) w = 0" if "list_all is_opcode tbl" "i < length tbl" for tbl i
    using that by (simp add: list_all_length class_depth_opcode)
  have sub: "class_depth op_COP1_BC1 w = 1" "class_depth op_COP1_S w = 1" "class_depth op_COP1_W w = 1" "class_depth op_COP0_BC0 w = 1"
    "class_depth op_COP0_C0 w = 1" "class_depth op_MMI0 w = 1" "class_depth op_MMI1 w = 1" "class_depth op_MMI2 w = 1"
    "class_depth op_MMI3 w = 1" "class_depth op_SPECIAL w = 1" "class_depth op_REGIMM w = 1"
    by (simp_all add: class_op_defs leaf leaf_tables table_lengths masked_index)
  have mixed: "class_depth (tbl ! i) w \<le> b" if "i < length tbl" "\<forall>x\<in>set tbl. is_opcode x \<or> class_depth x w \<le> b" for tbl i b
    using that class_depth_opcode [of "tbl ! i" w] nth_mem [OF that(1)] by force
  have "class_depth (tbl_COP1 ! unat (drop_bit 21 w AND 0x1F)) w \<le> 1" "class_depth (tbl_COP0 ! unat (drop_bit 21 w AND 0x1F)) w \<le> 1"
    "class_depth (tbl_MMI ! unat (w AND 0x3F)) w \<le> 1"
    by (rule mixed, simp add: table_lengths masked_index, rule ballI,
        drule class_entries(1-3) [THEN bspec], elim disjE, simp_all add: sub)+
  then have top: "class_depth op_COP1 w \<le> 2" "class_depth op_COP0 w \<le> 2" "class_depth op_MMI w \<le> 2"
    by (simp_all add: op_COP1_def op_COP0_def op_MMI_def Class_COP1_def Class_COP0_def Class_MMI_def)
  show ?thesis
    by (rule mixed, simp add: table_lengths masked_index, rule ballI,
        drule class_entries(4) [THEN bspec], elim disjE, simp_all add: sub top)
qed

text \<open>C18: decoding is correct and total. Every 32-bit word leads, through at most three tables (the first and two
  classes), to an opcode of one of the tables, and the name of that opcode is the one the encodings of the
  instruction set give the word by its fields, or the unknown instruction of its class where the code is reserved. The one
  exception are branches of coprocessor 0 whose \<open>rt\<close> field is reserved (4 or more): the code looks at two bits
  of it only and takes them for the branch with the same two bits. The cycle count of an instruction lies
  between 7 and 176 eighths.\<close>

theorem decode_correct:
  "op_name (GetInstruction w :: 'd opcode) =
     (if bc0_reserved (unat w) then listed ''COP0_Unknown'' enc_BC0 (unat w div 2 ^ 16 mod 4) else mnemonic (unat w)) \<and>
   class_depth (tbl_Standard ! unat (drop_bit 26 w) :: 'd opcode) w \<le> 2 \<and>
   GetInstruction w \<in> set (opcodes :: 'd opcode list) \<and>
   7 \<le> op_cycles (GetInstruction w :: 'd opcode) \<and> op_cycles (GetInstruction w :: 'd opcode) \<le> 176"
proof -
  have "\<forall>tbl\<in>set (opcode_tables :: 'd opcode list list). table_all (\<lambda>x. x \<in> set opcodes) tbl"
    by (auto simp: table_all_def opcodes_def)
  then have "GetInstruction w \<in> set (opcodes :: 'd opcode list)" by (rule GetInstruction_all)
  moreover have "\<forall>tbl\<in>set (opcode_tables :: 'd opcode list list). table_all (\<lambda>x. 7 \<le> op_cycles x \<and> op_cycles x \<le> 176) tbl"
    by (simp add: opcode_tables_def table_all_def table_defs opcode_defs cyc_Default_def cyc_Branch_def cyc_CopDefault_def
        cyc_Mult_def cyc_Div_def cyc_MMI_Mult_def cyc_MMI_Div_def cyc_MMI_Default_def cyc_FPU_Mult_def cyc_Store_def cyc_Load_def)
  then have "7 \<le> op_cycles (GetInstruction w :: 'd opcode) \<and> op_cycles (GetInstruction w :: 'd opcode) \<le> 176"
    by (rule GetInstruction_all)
  ultimately show ?thesis using GetInstruction_name class_depth_tables by blast
qed

end
