(* ===== verification/EE_TLB_Spec.thy ===== *)
theory EE_TLB_Spec
  imports VTLB_Spec EE_TLB
begin

text \<open>
  What a write of a TLB entry does to address translation.
\<close>

subsection \<open>Mapping single pages\<close>

text \<open>The part of the state that the mapping operations keep and that gives physical addresses their
  meaning.\<close>

definition phys_view :: "'d ee \<Rightarrow> (17 word \<Rightarrow> u64) \<times> u32 \<times> u32 \<times> cpuRegisters \<times> (nat \<Rightarrow> tlbs) \<times> mem_layout" where
  "phys_view s = (pmap s, UnmappedPhyHandler s, UnmappedVirtHandler s, cpu s, tlb s, layout s)"

lemma phys_viewD:
  assumes "phys_view t = phys_view s"
  shows "phys_target a t = phys_target a s" "pmap_ok t = pmap_ok s" "cpu t = cpu s" "tlb t = tlb s"
    "layout t = layout s" "UnmappedVirtHandler t = UnmappedVirtHandler s"
proof -
  from assms have eqs: "pmap t = pmap s" "UnmappedPhyHandler t = UnmappedPhyHandler s"
    "UnmappedVirtHandler t = UnmappedVirtHandler s" "cpu t = cpu s" "tlb t = tlb s" "layout t = layout s"
    by (simp_all add: phys_view_def)
  show "phys_target a t = phys_target a s" "pmap_ok t = pmap_ok s" "cpu t = cpu s" "tlb t = tlb s"
    "layout t = layout s" "UnmappedVirtHandler t = UnmappedVirtHandler s"
    unfolding phys_target_def pmap_ok_def eqs by (rule refl)+
qed

lemma phys_view_slow: "slow_view t = slow_view s \<Longrightarrow> phys_view t = phys_view s"
proof -
  assume "slow_view t = slow_view s"
  note eqs = slow_view_eqD [OF this]
  show ?thesis unfolding phys_view_def eqs by (rule refl)
qed

lemma phys_view_page [simp]:
  "phys_view (vmap_page v p s) = phys_view s" "phys_view (vmap_buffer_page v b s) = phys_view s"
  "phys_view (unmap_page v s) = phys_view s"
  by (simp_all add: phys_view_def vmap_page_def vmap_buffer_page_def unmap_page_def)

lemma phys_view_mapping [simp]:
  "phys_view (vtlb_VMap io v p sz s) = phys_view s"
  "phys_view (vtlb_VMapUnmap v sz s) = phys_view s"
  "phys_view (vtlb_VMapBuffer io v b sz s) = phys_view s"
  unfolding vtlb_VMap_def vtlb_VMapUnmap_def vtlb_VMapBuffer_def Let_def
  by (subst for_pages_inv [where f = phys_view], simp, rule phys_view_slow, simp)+

lemma is_up_ucast_u64: "is_up (ucast :: u32 \<Rightarrow> u64)" by (simp add: is_up)

lemma VMapBuffer_translate:
  assumes "aligned v" "uint b + uint sz \<le> 2 ^ 63 - 4096" "uint sz mod 4096 = 0"
  shows "translate addr (vtlb_VMapBuffer io v b sz s) =
      (if page_index addr v < unat sz div 4096
       then ToHost (b + of_nat (4096 * page_index addr v) + ucast (addr AND 0xFFF))
       else translate addr s)"
proof -
  let ?k = "page_index addr v"
  let ?v = "v + 4096 * of_nat ?k" and ?b = "b + ucast (4096 * of_nat ?k :: u32)"
  have pg: "page_of addr = page_of ?v" by (simp only: page_of_index)
  have al: "aligned ?v" using assms(1) by (simp add: aligned_plus)
  obtain s1 where s1: "slow_view s1 = slow_view s"
    "vtlb_VMapBuffer io v b sz s = for_pages sz (\<lambda>off. vmap_buffer_page (v + off) (b + ucast off)) s1"
    by (rule that [OF _ vtlb_VMapBuffer_def [unfolded Let_def]]) simp
  have look: "vmap (vtlb_VMapBuffer io v b sz s) (page_of addr) =
      (if ?k < unat sz div 4096 then vtlb_virt_from_ptr ?b ?v else vmap s1 (page_of addr))"
    unfolding s1(2) by (rule VMapBuffer_loop.lookup) (simp add: page_index_def)
  show ?thesis
  proof (cases "?k < unat sz div 4096")
    case True
    then have lt: "4096 * ?k < unat sz" by simp
    then have "4096 * ?k < 2 ^ 32" using unsigned_less [of sz, where ?'a = nat] by simp
    then have u: "unat (4096 * of_nat ?k :: u32) = 4096 * ?k"
      by (simp add: unat_word_ariths unat_of_nat mod_simps)
    then have off: "(ucast (4096 * of_nat ?k :: u32) :: u64) = of_nat (4096 * ?k)"
      by (metis of_nat_unat)
    have "int (4096 * ?k) \<le> uint sz" using lt by (metis less_imp_le of_nat_le_iff uint_nat)
    moreover have "uint (ucast (4096 * of_nat ?k :: u32) :: u64) = int (4096 * ?k)"
      by (metis u uint_nat uint_up_ucast is_up_ucast_u64)
    ultimately have "uint ?b \<le> 2 ^ 63 - 4096"
      using assms(2) by (simp add: uint_word_ariths)
    then show ?thesis
      using True look pg translate_entry(2) [OF al pg, of ?b "vtlb_VMapBuffer io v b sz s"]
      by (simp add: vtlb_virt_from_ptr_def off)
  next
    case False
    with look slow_view_eqD(1) [OF s1(1)] show ?thesis by (simp add: translate_def)
  qed
qed


subsection \<open>The loops over the pages of an entry\<close>

lemma page_of_push: "page_of (push_bit 12 (of_nat i)) = of_nat i"
  by (intro bit_word_eqI) (auto simp: page_of_def bit_simps)

lemma aligned_push: "aligned (push_bit 12 w)"
proof -
  have m: "(0xFFF :: u32) = mask 12" by (simp add: mask_eq_exp_minus_1)
  show ?thesis unfolding aligned_def m by (intro bit_word_eqI) (auto simp: bit_simps)
qed

lemma page_index_lt1: "page_index addr v < 1 \<longleftrightarrow> page_of addr = page_of v"
  by (auto simp: page_index_def unat_eq_0)

text \<open>A loop whose body redirects the addresses of one page and keeps the physical view: what it does
  to every address.\<close>

locale tlb_page_body =
  fixes body :: "u32 \<Rightarrow> 'd ee \<Rightarrow> 'd ee"
    and dest :: "u32 \<Rightarrow> u32 \<Rightarrow> 'd ee \<Rightarrow> target"
  assumes view: "phys_view (body a s) = phys_view s"
    and dest_view: "phys_view t = phys_view s \<Longrightarrow> dest a addr t = dest a addr s"
    and page: "pmap_ok s \<Longrightarrow> translate addr (body (of_nat i) s) =
      (if page_of addr = of_nat i then dest (of_nat i) addr s else translate addr s)"
begin

lemma fold_view:
  "phys_view (fold (\<lambda>i s. if tlb_match t (of_nat i) then body (of_nat i) s else s) is s) = phys_view s"
  by (induction "is" arbitrary: s) (simp_all add: view)

lemma loop_view: "phys_view (tlb_loop t saddr body s) = phys_view s"
  by (simp add: tlb_loop_def fold_view)

lemma fold_translate:
  fixes saddr :: u32
  assumes "pmap_ok s" "n \<le> 2 ^ 20" and k: "k = unat (page_of addr - of_nat (unat saddr))"
  shows "translate addr (fold (\<lambda>i s. if tlb_match t (of_nat i) then body (of_nat i) s else s) [unat saddr..<unat saddr + n] s) =
    (if k < n \<and> tlb_match t (saddr + of_nat k) then dest (saddr + of_nat k) addr s else translate addr s)"
  using assms(2)
proof (induction n)
  case (Suc n)
  let ?s' = "fold (\<lambda>i s. if tlb_match t (of_nat i) then body (of_nat i) s else s) [unat saddr..<unat saddr + n] s"
  have ok: "pmap_ok ?s'" using assms(1) phys_viewD(2) [OF fold_view] by blast
  have "page_of addr = of_nat (unat saddr + n) \<longleftrightarrow> page_of addr - of_nat (unat saddr) = of_nat n"
    by (auto simp: algebra_simps)
  also have "\<dots> \<longleftrightarrow> k = n"
    using Suc.prems k by (simp add: word_unat_eq_iff unat_of_nat)
  finally have eq: "page_of addr = of_nat (unat saddr + n) \<longleftrightarrow> k = n" .
  have d: "dest (saddr + of_nat n) addr ?s' = dest (saddr + of_nat n) addr s"
    by (rule dest_view) (rule fold_view)
  have idx: "(of_nat (unat saddr + n) :: u32) = saddr + of_nat n" by simp
  have "translate addr (fold (\<lambda>i s. if tlb_match t (of_nat i) then body (of_nat i) s else s) [unat saddr..<unat saddr + Suc n] s) =
      (if tlb_match t (of_nat (unat saddr + n)) then translate addr (body (of_nat (unat saddr + n)) ?s') else translate addr ?s')"
    by simp
  also have "\<dots> = (if tlb_match t (saddr + of_nat n) \<and> k = n then dest (saddr + of_nat n) addr s else translate addr ?s')"
    using page [OF ok, of addr "unat saddr + n", unfolded eq idx d] by (simp add: idx del: of_nat_add)
  finally show ?case using Suc by (auto simp: less_Suc_eq)
qed simp

lemma loop_translate:
  fixes addr saddr :: u32 and t :: tlbs
  assumes "pmap_ok s" "unat saddr + unat (tMask t) + 1 < 2 ^ 32" "unat (tMask t) < 2 ^ 20"
  defines "k \<equiv> unat (page_of addr - of_nat (unat saddr))"
  shows "translate addr (tlb_loop t saddr body s) =
    (if k \<le> unat (tMask t) \<and> tlb_match t (saddr + of_nat k) then dest (saddr + of_nat k) addr s else translate addr s)"
proof -
  have "unat (saddr + tMask t + 1) = unat saddr + Suc (unat (tMask t))"
    using assms(2) by (simp add: unat_word_ariths)
  then show ?thesis
    unfolding tlb_loop_def using fold_translate [OF assms(1), of "Suc (unat (tMask t))" k addr saddr t] assms(3)
    by (simp add: k_def less_Suc_eq_le)
qed

end

lemma phys_view_clear_page [simp]: "phys_view (clear_page io a s) = phys_view s"
  by (simp add: clear_page_def phys_view_def)

lemma translate_clear_page [simp]: "translate addr (clear_page io a s) = translate addr s"
  by (simp add: clear_page_def translate_def)

lemma VMap_page:
  assumes "pmap_ok s" "aligned p"
  shows "translate addr (vtlb_VMap io (push_bit 12 (of_nat i)) p 0x1000 s) =
    (if page_of addr = of_nat i then phys_target (p + (addr AND 0xFFF)) s else translate addr s)"
proof -
  have "page_index addr (push_bit 12 (of_nat i)) < 1 \<longleftrightarrow> page_of addr = of_nat i"
    by (simp only: page_index_lt1 page_of_push)
  then show ?thesis
    using VMap_translate [OF assms(1) aligned_push assms(2), of addr io "of_nat i" "0x1000"]
    by (cases "page_of addr = of_nat i") simp_all
qed

lemma VMapUnmap_page:
  assumes "pmap_ok s"
  shows "translate addr (vtlb_VMapUnmap (push_bit 12 (of_nat i)) 0x1000 s) =
    (if page_of addr = of_nat i then ToHandler (unat (UnmappedVirtHandler s)) addr else translate addr s)"
proof -
  have "page_index addr (push_bit 12 (of_nat i)) < 1 \<longleftrightarrow> page_of addr = of_nat i"
    by (simp only: page_index_lt1 page_of_push)
  then show ?thesis
    using VMapUnmap_translate [OF assms(1) aligned_push, of addr "of_nat i" "0x1000"]
    by (cases "page_of addr = of_nat i") simp_all
qed

interpretation map_pages: tlb_page_body
  "\<lambda>addr s. clear_page io addr (vtlb_VMap io (push_bit 12 addr) (push_bit 12 x + push_bit 12 (addr - saddr)) 0x1000 s)"
  "\<lambda>a addr s. phys_target (push_bit 12 x + push_bit 12 (a - saddr) + (addr AND 0xFFF)) s"
  for io x saddr
proof unfold_locales
  have "aligned (push_bit 12 x + push_bit 12 (a - saddr))" for a
    using aligned_push [of "x + (a - saddr)"] by (simp add: push_bit_add)
  then show "translate addr (clear_page io (of_nat i) (vtlb_VMap io (push_bit 12 (of_nat i))
        (push_bit 12 x + push_bit 12 (of_nat i - saddr)) 0x1000 s)) =
      (if page_of addr = of_nat i then phys_target (push_bit 12 x + push_bit 12 (of_nat i - saddr) + (addr AND 0xFFF)) s
       else translate addr s)" if "pmap_ok s" for addr i s
    using that by (simp only: translate_clear_page VMap_page)
qed (simp, erule phys_viewD(1))

interpretation unmap_pages: tlb_page_body
  "\<lambda>addr s. clear_page io addr (vtlb_VMapUnmap (push_bit 12 addr) 0x1000 s)"
  "\<lambda>a addr s. ToHandler (unat (UnmappedVirtHandler s)) addr"
  for io
proof unfold_locales
  show "translate addr (clear_page io (of_nat i) (vtlb_VMapUnmap (push_bit 12 (of_nat i)) 0x1000 s)) =
      (if page_of addr = of_nat i then ToHandler (unat (UnmappedVirtHandler s)) addr else translate addr s)"
    if "pmap_ok s" for addr i s
    using that by (simp only: translate_clear_page VMapUnmap_page)
qed (simp, drule phys_viewD(6), simp)

subsection \<open>The architecture's view of an entry\<close>

text \<open>An entry matches an address whose virtual page pair agrees outside the page mask; the bit above
  the page offset selects the half.\<close>

definition tlb_hit :: "tlbs \<Rightarrow> u32 \<Rightarrow> bool" where
  "tlb_hit t addr \<longleftrightarrow> drop_bit 13 addr AND NOT (tMask t) = drop_bit 13 (tVPN2 t)"

definition tlb_sel_odd :: "tlbs \<Rightarrow> u32 \<Rightarrow> bool" where
  "tlb_sel_odd t addr \<longleftrightarrow> drop_bit 12 addr AND (tMask t + 1) \<noteq> 0"

definition tlb_offset :: "tlbs \<Rightarrow> u32 \<Rightarrow> u32" where
  "tlb_offset t addr = addr AND (push_bit 12 (tMask t) OR 0xFFF)"

definition entry_ok :: "tlbs \<Rightarrow> bool" where
  "entry_ok t \<longleftrightarrow> (\<exists>n\<le>12. tMask t = mask n \<and> (\<exists>q. tVPN2 t = push_bit (13 + n) q)) \<and>
     (\<exists>x. tPFN0 t = push_bit 12 x) \<and> (\<exists>x. tPFN1 t = push_bit 12 x)"

text \<open>The pages an address is away from the start of a half.\<close>

definition half_index :: "u32 \<Rightarrow> u32 \<Rightarrow> nat" where
  "half_index saddr addr = unat (page_of addr - of_nat (unat saddr))"

lemma unat_drop_bit: "unat (drop_bit k w) = unat w div 2 ^ k" for w :: "'a::len word"
  using unsigned_less [of w, where ?'a = nat]
  by (simp add: unsigned_drop_bit_eq take_bit_nat_eq_self flip: drop_bit_eq_div)

lemma drop_bit_eqI_match:
  assumes "tMask t = mask n" "drop_bit (Suc n) w = drop_bit (Suc n) (drop_bit 12 (tVPN2 t))"
  shows "tlb_match t w"
proof -
  have "bit w i = bit (drop_bit 12 (tVPN2 t)) i" if "n < i" for i
    using arg_cong [OF assms(2), of "\<lambda>x. bit x (i - Suc n)"] that by (simp add: bit_drop_bit_eq)
  moreover have "\<not> bit (push_bit 1 (NOT (mask n)) :: u32) i" if "\<not> n < i" for i
    using that by (simp only: bit_push_bit_iff bit_not_iff bit_mask_iff) auto
  ultimately show ?thesis
    unfolding tlb_match_def Let_def assms(1) by (intro bit_word_eqI) (metis bit_and_iff)
qed

lemma tlb_hit_iff:
  assumes "tMask t = mask n" "tVPN2 t = push_bit (13 + n) q"
  shows "tlb_hit t addr \<longleftrightarrow> unat addr div 2 ^ (13 + n) = unat (tVPN2 t) div 2 ^ (13 + n)"
proof -
  have "tlb_hit t addr \<longleftrightarrow> drop_bit (13 + n) addr = drop_bit (13 + n) (tVPN2 t)"
  proof
    assume "tlb_hit t addr"
    then have "bit (drop_bit 13 addr AND NOT (mask n)) (i + n) = bit (drop_bit 13 (tVPN2 t)) (i + n)" for i
      by (simp add: tlb_hit_def assms(1))
    moreover have "i + n < LENGTH(32)" if "bit addr (13 + (i + n))" for i
      using bit_imp_le_length [OF that] by simp
    ultimately have "bit addr (13 + (i + n)) = bit (tVPN2 t) (13 + (i + n))" for i
      by (auto simp: bit_simps)
    then show "drop_bit (13 + n) addr = drop_bit (13 + n) (tVPN2 t)"
      by (intro bit_word_eqI) (simp add: bit_drop_bit_eq ac_simps)
  next
    assume eq: "drop_bit (13 + n) addr = drop_bit (13 + n) (tVPN2 t)"
    have "bit addr (13 + i) = bit (tVPN2 t) (13 + i)" if "n \<le> i" for i
      using arg_cong [OF eq, of "\<lambda>x. bit x (i - n)"] that by (simp add: bit_drop_bit_eq)
    moreover have "\<not> bit (tVPN2 t) (13 + i)" if "i < n" for i
      using that by (simp add: assms(2) bit_push_bit_iff)
    ultimately have "bit (drop_bit 13 addr AND NOT (mask n)) i = bit (drop_bit 13 (tVPN2 t)) i" if "i < LENGTH(32)" for i
      using that by (cases "n \<le> i") (simp_all add: bit_simps)
    then show "tlb_hit t addr"
      unfolding tlb_hit_def assms(1) by (intro bit_word_eqI)
  qed
  also have "\<dots> \<longleftrightarrow> unat addr div 2 ^ (13 + n) = unat (tVPN2 t) div 2 ^ (13 + n)"
    by (simp only: word_unat_eq_iff unat_drop_bit)
  finally show ?thesis .
qed

lemma tlb_sel_odd_iff:
  assumes "tMask t = mask n" "n \<le> 12"
  shows "tlb_sel_odd t addr \<longleftrightarrow> odd (unat addr div 2 ^ (12 + n))"
proof -
  have m: "tMask t + 1 = push_bit n 1" using assms by (simp add: mask_eq_exp_minus_1)
  have "tlb_sel_odd t addr \<longleftrightarrow> bit (drop_bit 12 addr) n"
    unfolding tlb_sel_odd_def m by (rule bit_iff_and_push_bit_not_eq_0 [symmetric])
  also have "\<dots> \<longleftrightarrow> bit (unat addr) (12 + n)" by (simp add: bit_drop_bit_eq bit_unsigned_iff)
  finally show ?thesis by (simp add: bit_iff_odd)
qed

lemma unat_page_of: "unat (page_of addr) = unat addr div 4096"
proof -
  have "int (unat (page_of addr)) = int (unat addr div 4096)" by (simp add: uint_page_of zdiv_int)
  then show ?thesis by (simp only: of_nat_eq_iff)
qed

lemma half_index_iff:
  assumes "unat saddr + N \<le> 2 ^ 20" "0 < N"
  shows "half_index saddr addr < N \<longleftrightarrow> unat saddr \<le> unat addr div 4096 \<and> unat addr div 4096 < unat saddr + N"
    and "unat saddr \<le> unat addr div 4096 \<Longrightarrow> half_index saddr addr = unat addr div 4096 - unat saddr"
proof -
  have "unat (of_nat (unat saddr) :: 20 word) = unat saddr"
    using assms by (subst unat_of_nat) simp
  then have "half_index saddr addr =
      (if unat saddr \<le> unat addr div 4096 then unat addr div 4096 - unat saddr else unat addr div 4096 + 2 ^ 20 - unat saddr)"
    unfolding half_index_def by (simp add: unat_sub_if' unat_page_of)
  with assms show "half_index saddr addr < N \<longleftrightarrow> unat saddr \<le> unat addr div 4096 \<and> unat addr div 4096 < unat saddr + N"
    "unat saddr \<le> unat addr div 4096 \<Longrightarrow> half_index saddr addr = unat addr div 4096 - unat saddr"
    by auto
qed

lemma div_eq_iff_range: "0 < N \<Longrightarrow> a div N = c \<longleftrightarrow> c * N \<le> a \<and> a < c * N + N" for a c N :: nat
proof
  assume "0 < N" "a div N = c"
  then show "c * N \<le> a \<and> a < c * N + N"
    by (metis div_mult_mod_eq le_add1 mod_less_divisor nat_add_left_cancel_less)
qed (auto intro: div_nat_eqI simp: mult.commute)

text \<open>For a page mask of the architecture, the two loops of an entry visit exactly the pages that
  match it, each half its own, and the offset into the half is the offset the mask selects.\<close>

lemma half_iff:
  fixes addr saddr :: u32
  assumes n: "n \<le> 12" "tMask t = mask n" "tVPN2 t = push_bit (13 + n) q"
    and saddr: "saddr = (if od then tlb_odd t else tlb_even t)"
  defines "k \<equiv> half_index saddr addr"
  shows "k \<le> unat (tMask t) \<and> tlb_match t (saddr + of_nat k) \<longleftrightarrow> tlb_hit t addr \<and> tlb_sel_odd t addr = od"
    and "tlb_hit t addr \<and> tlb_sel_odd t addr = od \<Longrightarrow> push_bit 12 (of_nat k) + (addr AND 0xFFF) = tlb_offset t addr"
    and "unat saddr + unat (tMask t) + 1 < 2 ^ 32" "unat (tMask t) < 2 ^ 20"
proof -
  let ?A = "unat addr div 4096" and ?N = "2 ^ n :: nat"
  define Q where "Q = unat (tVPN2 t) div 2 ^ (13 + n)"
  have N: "0 < ?N" "?N \<le> 2 ^ 12" using n(1) power_increasing [of n 12 "2::nat"] by simp_all
  have mask: "unat (tMask t) = ?N - 1"
  proof -
    have "unat (of_nat (mask n) :: u32) = mask n"
      using N by (subst unat_of_nat) (simp add: mask_eq_exp_minus_1)
    then show ?thesis unfolding n(2) of_nat_mask_eq by (simp only: mask_eq_exp_minus_1 [of n, where ?'a = nat])
  qed
  have pow: "(2 :: nat) ^ (13 + n) = 4096 * (2 * ?N)" by (simp add: power_add)
  have "tVPN2 t AND mask (13 + n) = 0" by (intro bit_word_eqI) (auto simp: n(3) bit_simps)
  then have "take_bit (13 + n) (unat (tVPN2 t)) = 0"
    by (metis take_bit_eq_mask unsigned_0 unsigned_take_bit_eq)
  then have V: "unat (tVPN2 t) = Q * (4096 * (2 * ?N))"
    using div_mult_mod_eq [of "unat (tVPN2 t)" "2 ^ (13 + n)"] unfolding Q_def pow [symmetric] by (simp add: take_bit_eq_mod)
  have even: "unat (tlb_even t) = 2 * Q * ?N"
    unfolding tlb_even_def unat_drop_bit V by simp
  have "(2 :: nat) ^ 20 = 2 * ?N * 2 ^ (19 - n)" using n(1) by (simp flip: power_Suc power_add)
  moreover have "Q * (2 * ?N) < 2 ^ 20" using unsigned_less [of "tVPN2 t", where ?'a = nat] V by simp
  ultimately have "Q < 2 ^ (19 - n)" using N(1) by (metis mult.commute nat_mult_less_cancel1 nat_mult_less_cancel_disj)
  then have "(Q + 1) * (2 * ?N) \<le> 2 ^ (19 - n) * (2 * ?N)" by (intro mult_right_mono) simp_all
  then have Q: "(2 * Q + 2) * ?N \<le> 2 ^ 20"
    using \<open>2 ^ 20 = 2 * ?N * 2 ^ (19 - n)\<close> by (simp add: algebra_simps)
  have "unat (tlb_odd t) = (2 * Q + 1) * ?N"
    unfolding tlb_odd_def using Q mask even N unfolding tlb_even_def by (simp add: unat_word_ariths)
  with even saddr have S: "unat saddr = (if od then 2 * Q + 1 else 2 * Q) * ?N" by simp
  have hit: "tlb_hit t addr \<longleftrightarrow> ?A div ?N div 2 = Q"
    unfolding tlb_hit_iff [OF n(2,3)] Q_def [symmetric] unfolding pow by (metis div_mult2_eq mult.commute)
  have sel: "tlb_sel_odd t addr \<longleftrightarrow> odd (?A div ?N)"
    unfolding tlb_sel_odd_iff [OF n(2,1)] by (simp add: power_add flip: div_mult2_eq)
  have both: "tlb_hit t addr \<and> tlb_sel_odd t addr = od \<longleftrightarrow> ?A div ?N = (if od then 2 * Q + 1 else 2 * Q)"
    unfolding hit sel by auto
  have fits: "unat saddr + ?N \<le> 2 ^ 20" using S Q by (simp add: algebra_simps split: if_splits)
  then show "unat saddr + unat (tMask t) + 1 < 2 ^ 32" "unat (tMask t) < 2 ^ 20" using mask N by simp_all
  have "k \<le> unat (tMask t) \<longleftrightarrow> k < ?N" using mask N(1) by linarith
  then have range: "k \<le> unat (tMask t) \<longleftrightarrow> tlb_hit t addr \<and> tlb_sel_odd t addr = od"
    unfolding both div_eq_iff_range [OF N(1)] k_def S [symmetric] half_index_iff(1) [OF fits N(1)] .
  have kA: "k = ?A - unat saddr" "unat saddr \<le> ?A" if "tlb_hit t addr \<and> tlb_sel_odd t addr = od"
  proof -
    show "unat saddr \<le> ?A" using that unfolding both div_eq_iff_range [OF N(1)] S [symmetric] by simp
    then show "k = ?A - unat saddr" unfolding k_def using half_index_iff(2) [OF fits N(1)] by simp
  qed
  have "tlb_match t (saddr + of_nat k)" if hit': "tlb_hit t addr \<and> tlb_sel_odd t addr = od"
  proof (rule drop_bit_eqI_match [OF n(2)])
    have "saddr + of_nat k = of_nat (unat saddr + k)" by simp
    also have "\<dots> = of_nat (unat (drop_bit 12 addr))" using kA [OF hit'] by (simp add: unat_drop_bit)
    finally have page: "saddr + of_nat k = drop_bit 12 addr" by simp
    have "unat (drop_bit (Suc n) (drop_bit 12 addr)) = unat (drop_bit (Suc n) (drop_bit 12 (tVPN2 t)))"
      using hit' unfolding tlb_hit_iff [OF n(2,3)] unat_drop_bit
      by (simp add: power_add flip: div_mult2_eq)
    then show "drop_bit (Suc n) (saddr + of_nat k) = drop_bit (Suc n) (drop_bit 12 (tVPN2 t))"
      unfolding page by (rule word_unat_eq_iff [THEN iffD2])
  qed
  with range show "k \<le> unat (tMask t) \<and> tlb_match t (saddr + of_nat k) \<longleftrightarrow> tlb_hit t addr \<and> tlb_sel_odd t addr = od"
    by blast
  show "push_bit 12 (of_nat k) + (addr AND 0xFFF) = tlb_offset t addr" if hit': "tlb_hit t addr \<and> tlb_sel_odd t addr = od"
  proof -
    have m12: "(0xFFF :: u32) = mask 12" by (simp add: mask_eq_exp_minus_1)
    have "push_bit 12 (tMask t) OR 0xFFF = mask (12 + n)"
      unfolding n(2) m12 using n(1) by (intro bit_word_eqI) (auto simp: bit_simps)
    then have "tlb_offset t addr = take_bit (12 + n) addr" by (simp add: tlb_offset_def take_bit_eq_mask)
    then have "unat (tlb_offset t addr) = unat addr mod (4096 * ?N)"
      by (simp add: unsigned_take_bit_eq take_bit_eq_mod [of _ "unat addr"] power_add)
    also have "\<dots> = 4096 * (?A mod ?N) + unat addr mod 4096" by (rule mod_mult2_eq)
    also have "?A mod ?N = k"
    proof -
      have "unat saddr = ?A div ?N * ?N" using hit' both S by simp
      then show ?thesis using kA(1) [OF hit'] by (simp only: minus_div_mult_eq_mod)
    qed
    finally have off: "unat (tlb_offset t addr) = 4096 * k + unat addr mod 4096" .
    have "(addr AND 0xFFF) = take_bit 12 addr" unfolding m12 by (rule take_bit_eq_mask [symmetric])
    then have low: "unat (addr AND 0xFFF) = unat addr mod 4096"
      by (simp add: unsigned_take_bit_eq take_bit_eq_mod [of _ "unat addr"])
    have "push_bit 12 (of_nat k) + (addr AND 0xFFF) = of_nat (4096 * k + unat (addr AND 0xFFF))"
      by (simp add: push_bit_eq_mult)
    also have "\<dots> = tlb_offset t addr"
      unfolding low off [symmetric] by simp
    finally show ?thesis .
  qed
qed

subsection \<open>Writing an entry\<close>

text \<open>The addresses an entry maps and where it maps them: a scratchpad entry maps 16 KB of scratchpad
  memory, any other entry the valid halves of its page pair.\<close>

definition tlb_covers :: "tlbs \<Rightarrow> u32 \<Rightarrow> bool" where
  "tlb_covers t addr \<longleftrightarrow>
     (if tS t \<noteq> 0 then page_index addr (tVPN2 t) < 4
      else tlb_hit t addr \<and> (if tlb_sel_odd t addr then tEntryLo1 t AND 2 \<noteq> 0 else tEntryLo0 t AND 2 \<noteq> 0))"

definition tlb_dest :: "tlbs \<Rightarrow> u32 \<Rightarrow> 'd ee \<Rightarrow> target" where
  "tlb_dest t addr s =
     (if tS t \<noteq> 0
      then ToHost (eeMem_Scratch (layout s) + of_nat (4096 * page_index addr (tVPN2 t)) + ucast (addr AND 0xFFF))
      else phys_target ((if tlb_sel_odd t addr then tPFN1 t else tPFN0 t) + tlb_offset t addr) s)"

lemma map_half_translate:
  assumes "pmap_ok s" "n \<le> 12" "tMask t = mask n" "tVPN2 t = push_bit (13 + n) q" "pfn = push_bit 12 x"
  shows "translate addr (map_half io t (if od then tlb_odd t else tlb_even t) pfn s) =
      (if tlb_hit t addr \<and> tlb_sel_odd t addr = od then phys_target (pfn + tlb_offset t addr) s else translate addr s)"
    and "phys_view (map_half io t saddr pfn s) = phys_view s"
proof -
  let ?saddr = "if od then tlb_odd t else tlb_even t"
  note half = half_iff(1,2) [OF assms(2-4) refl, where addr = addr and od = od, unfolded half_index_def]
    half_iff(3) [OF assms(2-4) refl, where od = od] half_iff(4) [OF assms(2-4) refl]
  have "translate addr (map_half io t ?saddr pfn s) =
      (if tlb_hit t addr \<and> tlb_sel_odd t addr = od
       then phys_target (pfn + push_bit 12 (of_nat (half_index ?saddr addr)) + (addr AND 0xFFF)) s else translate addr s)"
    unfolding map_half_def assms(5) map_pages.loop_translate [OF assms(1) half(3,4)] half(1)
    by (simp add: half_index_def)
  then show "translate addr (map_half io t ?saddr pfn s) =
      (if tlb_hit t addr \<and> tlb_sel_odd t addr = od then phys_target (pfn + tlb_offset t addr) s else translate addr s)"
    using half(2) by (simp add: half_index_def add.assoc)
  show "phys_view (map_half io t saddr pfn s) = phys_view s"
    unfolding map_half_def assms(5) by (rule map_pages.loop_view)
qed

lemma unmap_half_translate:
  assumes "pmap_ok s" "n \<le> 12" "tMask t = mask n" "tVPN2 t = push_bit (13 + n) q"
  shows "translate addr (unmap_half io t (if od then tlb_odd t else tlb_even t) s) =
      (if tlb_hit t addr \<and> tlb_sel_odd t addr = od then ToHandler (unat (UnmappedVirtHandler s)) addr else translate addr s)"
    and "phys_view (unmap_half io t saddr s) = phys_view s"
proof -
  note half = half_iff(1,2) [OF assms(2-4) refl, where addr = addr and od = od, unfolded half_index_def]
    half_iff(3) [OF assms(2-4) refl, where od = od] half_iff(4) [OF assms(2-4) refl]
  show "translate addr (unmap_half io t (if od then tlb_odd t else tlb_even t) s) =
      (if tlb_hit t addr \<and> tlb_sel_odd t addr = od then ToHandler (unat (UnmappedVirtHandler s)) addr else translate addr s)"
    unfolding unmap_half_def unmap_pages.loop_translate [OF assms(1) half(3,4)] half(1) by simp
  show "phys_view (unmap_half io t saddr s) = phys_view s"
    unfolding unmap_half_def by (rule unmap_pages.loop_view)
qed

text \<open>The scratchpad lies low enough in the host's address space for its pointer to stay positive.\<close>

definition scratch_ok :: "'d ee \<Rightarrow> bool" where
  "scratch_ok s \<longleftrightarrow> uint (eeMem_Scratch (layout s)) + 0x4000 \<le> 2 ^ 63 - 4096"

lemma aligned_VPN2: "tVPN2 t = push_bit (13 + n) q \<Longrightarrow> aligned (tVPN2 t)"
proof -
  assume "tVPN2 t = push_bit (13 + n) q"
  moreover have "13 + n = 12 + Suc n" by simp
  ultimately have "tVPN2 t = push_bit 12 (push_bit (Suc n) q)" by (simp only: push_bit_push_bit)
  then show ?thesis by (simp only: aligned_push)
qed

lemma MapTLB_translate:
  assumes "pmap_ok s" "scratch_ok s" "entry_ok t"
  shows "translate addr (MapTLB io t s) = (if tlb_covers t addr then tlb_dest t addr s else translate addr s)"
    and "phys_view (MapTLB io t s) = phys_view s"
proof -
  obtain n q x y where t: "n \<le> 12" "tMask t = mask n" "tVPN2 t = push_bit (13 + n) q"
    "tPFN0 t = push_bit 12 x" "tPFN1 t = push_bit 12 y"
    using assms(3) unfolding entry_ok_def by blast
  define s1 where "s1 = (if tEntryLo0 t AND 2 \<noteq> 0 then map_half io t (tlb_even t) (tPFN0 t) s else s)"
  note even = map_half_translate(1) [OF assms(1) t(1-4), where od = False and addr = addr and io = io, simplified]
  have v1: "phys_view s1 = phys_view s" using map_half_translate(2) [OF assms(1) t(1-4)] by (simp add: s1_def)
  then have ok1: "pmap_ok s1" using phys_viewD(2) assms(1) by blast
  note odd = map_half_translate(1) [OF ok1 t(1-3,5), where od = True and addr = addr and io = io, simplified]
  show "phys_view (MapTLB io t s) = phys_view s"
    unfolding MapTLB_def Let_def s1_def [symmetric] using v1 map_half_translate(2) [OF ok1 t(1-3,5)] by simp
  show "translate addr (MapTLB io t s) = (if tlb_covers t addr then tlb_dest t addr s else translate addr s)"
  proof (cases "tS t = 0")
    case True
    have MapTLB_eq: "MapTLB io t s = (if tEntryLo1 t AND 2 \<noteq> 0 then map_half io t (tlb_odd t) (tPFN1 t) s1 else s1)"
      using True by (simp add: MapTLB_def s1_def Let_def)
    have tr1: "translate addr s1 = (if tEntryLo0 t AND 2 \<noteq> 0 \<and> tlb_hit t addr \<and> \<not> tlb_sel_odd t addr
        then phys_target (tPFN0 t + tlb_offset t addr) s else translate addr s)"
      by (simp add: even s1_def)
    have "translate addr (MapTLB io t s) = (if tEntryLo1 t AND 2 \<noteq> 0 \<and> tlb_hit t addr \<and> tlb_sel_odd t addr
        then phys_target (tPFN1 t + tlb_offset t addr) s else translate addr s1)"
      by (simp add: MapTLB_eq odd phys_viewD(1) [OF v1])
    with True tr1 show ?thesis by (auto simp: tlb_covers_def tlb_dest_def)
  next
    case False
    then show ?thesis
      using VMapBuffer_translate [OF aligned_VPN2 [OF t(3)], of "eeMem_Scratch (layout s)" "0x4000" addr io s] assms(2)
      by (simp add: MapTLB_def scratch_ok_def tlb_covers_def tlb_dest_def)
  qed
qed

lemma UnmapTLB_translate:
  assumes "pmap_ok s" "entry_ok t"
  shows "translate addr (UnmapTLB io t s) =
      (if tlb_covers t addr then ToHandler (unat (UnmappedVirtHandler s)) addr else translate addr s)"
    and "phys_view (UnmapTLB io t s) = phys_view s"
proof -
  obtain n q where t: "n \<le> 12" "tMask t = mask n" "tVPN2 t = push_bit (13 + n) q"
    using assms(2) unfolding entry_ok_def by blast
  define s1 where "s1 = (if tEntryLo0 t AND 2 \<noteq> 0 then unmap_half io t (tlb_even t) s else s)"
  note even = unmap_half_translate(1) [OF assms(1) t, where od = False and addr = addr and io = io, simplified]
  have v1: "phys_view s1 = phys_view s" using unmap_half_translate(2) [OF assms(1) t] by (simp add: s1_def)
  then have ok1: "pmap_ok s1" using phys_viewD(2) assms(1) by blast
  note odd = unmap_half_translate(1) [OF ok1 t, where od = True and addr = addr and io = io, simplified]
  show "phys_view (UnmapTLB io t s) = phys_view s"
    unfolding UnmapTLB_def Let_def s1_def [symmetric] using v1 unmap_half_translate(2) [OF ok1 t] by simp
  show "translate addr (UnmapTLB io t s) =
      (if tlb_covers t addr then ToHandler (unat (UnmappedVirtHandler s)) addr else translate addr s)"
  proof (cases "tS t = 0")
    case True
    have UnmapTLB_eq: "UnmapTLB io t s = (if tEntryLo1 t AND 2 \<noteq> 0 then unmap_half io t (tlb_odd t) s1 else s1)"
      using True by (simp add: UnmapTLB_def s1_def Let_def)
    have tr1: "translate addr s1 = (if tEntryLo0 t AND 2 \<noteq> 0 \<and> tlb_hit t addr \<and> \<not> tlb_sel_odd t addr
        then ToHandler (unat (UnmappedVirtHandler s)) addr else translate addr s)"
      by (simp add: even s1_def)
    have "translate addr (UnmapTLB io t s) = (if tEntryLo1 t AND 2 \<noteq> 0 \<and> tlb_hit t addr \<and> tlb_sel_odd t addr
        then ToHandler (unat (UnmappedVirtHandler s)) addr else translate addr s1)"
      by (simp add: UnmapTLB_eq odd phys_viewD(6) [OF v1])
    with True tr1 show ?thesis by (auto simp: tlb_covers_def)
  next
    case False
    then show ?thesis
      using VMapUnmap_translate [OF assms(1) aligned_VPN2 [OF t(3)], of addr "0x4000"]
      by (simp add: UnmapTLB_def tlb_covers_def)
  qed
qed

definition tlb_ok :: "'d ee \<Rightarrow> bool" where
  "tlb_ok s \<longleftrightarrow> (\<forall>j<48. entry_ok (tlb s j))"

definition page_mask_ok :: "cpuRegisters \<Rightarrow> bool" where
  "page_mask_ok c \<longleftrightarrow> (\<exists>n\<le>12. drop_bit 13 (CP0 c cp0_PageMask) AND 0xfff = mask n)"

lemma entry_ok_tlb_entry: "page_mask_ok c \<Longrightarrow> entry_ok (tlb_entry c)"
proof -
  assume "page_mask_ok c"
  then obtain n where n: "n \<le> 12" "drop_bit 13 (CP0 c cp0_PageMask) AND 0xfff = mask n"
    unfolding page_mask_ok_def by blast
  have "push_bit 13 (x AND NOT (mask n)) = push_bit (13 + n) (drop_bit n x)" for x :: u32
    by (intro bit_word_eqI) (auto simp: bit_simps)
  then have "\<exists>q. tVPN2 (tlb_entry c) = push_bit (13 + n) q"
    unfolding tlb_entry_def Let_def n(2) by (simp only: tlbs.simps) blast
  moreover have "tMask (tlb_entry c) = mask n" by (simp add: tlb_entry_def n(2) Let_def)
  moreover have "\<exists>x. tPFN0 (tlb_entry c) = push_bit 12 x" "\<exists>x. tPFN1 (tlb_entry c) = push_bit 12 x"
    unfolding tlb_entry_def Let_def tlbs.simps by blast+
  ultimately show ?thesis using n(1) by (auto simp: entry_ok_def)
qed

lemma phys_view_tlb: "phys_target a (s\<lparr>tlb := f\<rparr>) = phys_target a s" "pmap_ok (s\<lparr>tlb := f\<rparr>) = pmap_ok s"
  "scratch_ok (s\<lparr>tlb := f\<rparr>) = scratch_ok s" "translate a (s\<lparr>tlb := f\<rparr>) = translate a s"
  "tlb_dest t a (s\<lparr>tlb := f\<rparr>) = tlb_dest t a s"
  by (simp_all add: phys_target_def pmap_ok_def scratch_ok_def translate_def tlb_dest_def Let_def)

lemma tlb_write_translate:
  assumes "pmap_ok s" "scratch_ok s" "tlb_ok s" "page_mask_ok (cpu s)" and j: "j = unat (ireg AND 0x3f)" "j < 48"
  shows "\<exists>s'. tlb_write io ireg s = Some s' \<and> pmap_ok s' \<and> tlb_ok s' \<and> cpu s' = cpu s \<and>
    tlb s' = (tlb s)(j := tlb_entry (cpu s)) \<and>
    (\<forall>addr. translate addr s' =
       (if tlb_covers (tlb_entry (cpu s)) addr then tlb_dest (tlb_entry (cpu s)) addr s
        else if tlb_covers (tlb s j) addr then ToHandler (unat (UnmappedVirtHandler s)) addr
        else translate addr s))"
proof -
  let ?t = "tlb_entry (cpu s)"
  define s1 where "s1 = UnmapTLB io (tlb s j) s"
  define f where "f = (tlb s)(j := tlb_entry (cpu s))"
  define s2 where "s2 = s1\<lparr>tlb := f\<rparr>"
  have ok: "entry_ok (tlb s j)" "entry_ok ?t" using assms(3,4) j(2) by (auto simp: tlb_ok_def entry_ok_tlb_entry)
  have v1: "phys_view s1 = phys_view s" unfolding s1_def by (rule UnmapTLB_translate(2) [OF assms(1) ok(1)])
  note s1 = phys_viewD [OF v1]
  have "tlb_write io ireg s = Some (MapTLB io ?t s2)"
    unfolding tlb_write_def WriteTLB_def Let_def j(1) [symmetric] s1_def [symmetric]
    using j(2) by (simp add: s1 s2_def f_def)
  moreover have ok2: "pmap_ok s2" "scratch_ok s2"
    using assms(1,2) s1 by (simp_all add: s2_def phys_view_tlb scratch_ok_def)
  note map = MapTLB_translate [OF ok2 ok(2), where io = io]
  note s3 = phys_viewD [OF map(2)]
  have "tlb_ok (MapTLB io ?t s2)"
    using assms(3) ok(2) s3(4) by (simp add: tlb_ok_def s2_def f_def)
  moreover have "tlb_dest ?t addr s2 = tlb_dest ?t addr s" for addr
    using s1 by (simp add: s2_def phys_view_tlb) (simp add: tlb_dest_def)
  then have "translate addr (MapTLB io ?t s2) =
       (if tlb_covers ?t addr then tlb_dest ?t addr s
        else if tlb_covers (tlb s j) addr then ToHandler (unat (UnmappedVirtHandler s)) addr
        else translate addr s)" for addr
    unfolding map(1) using UnmapTLB_translate(1) [OF assms(1) ok(1), of addr io]
    by (simp add: s2_def phys_view_tlb s1_def)
  moreover have "cpu (MapTLB io ?t s2) = cpu s" "tlb (MapTLB io ?t s2) = f" "pmap_ok (MapTLB io ?t s2)"
    using s3 ok2 s1 by (simp_all add: s2_def)
  ultimately show ?thesis by (auto simp: f_def)
qed

text \<open>C16: writing a TLB entry. With the page masks of the architecture, \<open>TLBWI\<close> and \<open>TLBWR\<close> return for
  every index below 48, keep the TLB and the physical map well-formed, change no register, and
  redirect exactly the right addresses: an address the new entry matches with a valid half goes to
  that half's physical page (scratchpad entries to the scratchpad), an address only the replaced entry
  mapped misses from then on, and every other address keeps its translation.\<close>

theorem TLB_write_translation:
  assumes "pmap_ok s" "scratch_ok s" "tlb_ok s" "page_mask_ok (cpu s)"
    and "unat (CP0 (cpu s) cp0_Index AND 0x3f) < 48" "unat (CP0 (cpu s) cp0_Random AND 0x3f) < 48"
  shows "\<forall>(r, instr) \<in> {(cp0_Index, TLBWI), (cp0_Random, TLBWR)}.
    let j = unat (CP0 (cpu s) r AND 0x3f); t = tlb_entry (cpu s) in
    \<exists>s'. instr io s = Some s' \<and> pmap_ok s' \<and> tlb_ok s' \<and> cpu s' = cpu s \<and> tlb s' = (tlb s)(j := t) \<and>
      (\<forall>addr. translate addr s' =
         (if tlb_covers t addr then tlb_dest t addr s
          else if tlb_covers (tlb s j) addr then ToHandler (unat (UnmappedVirtHandler s)) addr
          else translate addr s))"
  using tlb_write_translate [OF assms(1-4) refl assms(5), of io] tlb_write_translate [OF assms(1-4) refl assms(6), of io]
  by (simp add: TLBWI_def TLBWR_def Let_def)

lemma MapHandler_frame2:
  "tlb (vtlb_MapHandler h start sz s) = tlb s" "layout (vtlb_MapHandler h start sz s) = layout s"
  unfolding vtlb_MapHandler_def by (subst for_pages_inv; simp)+

lemma vtlb_Init_frame: "tlb (vtlb_Init s) = tlb s" "layout (vtlb_Init s) = layout s"
  by (simp_all add: vtlb_Init_def vtlb_RegisterHandler_def vtlb_NewHandler_def vtlb_ReassignHandler_def Let_def
      phys_viewD(4,5) [OF phys_view_mapping(2)] MapHandler_frame2)

text \<open>A machine about to map the page pair at 0x40000000 with a valid first half at physical 0x5000.\<close>

definition tlbwi_ee :: "unit ee" where
  "tlbwi_ee = blank_ee\<lparr>cpu := cpuReset\<lparr>CP0 :=
     (\<lambda>r. 0)(cp0_EntryHi := 0x40000000, cp0_EntryLo0 := 0x142, cp0_Index := 1)\<rparr>\<rparr>"

lemma cpu_upd_maps: "translate a (s\<lparr>cpu := c\<rparr>) = translate a s" "pmap_ok (s\<lparr>cpu := c\<rparr>) = pmap_ok s"
  by (simp_all add: translate_def pmap_ok_def)

lemma tlbwi_ee_sel:
  "cpu tlbwi_ee = cpuReset\<lparr>CP0 := (\<lambda>r. 0)(cp0_EntryHi := 0x40000000, cp0_EntryLo0 := 0x142, cp0_Index := 1)\<rparr>"
  "tlb tlbwi_ee = (\<lambda>i. blank_tlb)" "UnmappedVirtHandler tlbwi_ee = 0" "pmap tlbwi_ee pg = vtlb_phys_from_handler 2"
  "translate addr tlbwi_ee = ToHandler 0 addr" "pmap_ok tlbwi_ee" "scratch_ok tlbwi_ee"
  by (simp_all add: tlbwi_ee_def blank_ee_def cpu_upd_maps vtlb_Init_maps vtlb_Init_frame scratch_ok_def)

theorem TLB_write_translation_witness:
  "\<exists>s'. TLBWI blank_io tlbwi_ee = Some s' \<and> translate 0x40000004 s' = ToHandler 2 0x5004 \<and>
     translate 0x40001004 s' = ToHandler 0 0x40001004"
proof -
  let ?t = "tlb_entry (cpu tlbwi_ee)"
  have ok: "tlb_ok tlbwi_ee" "page_mask_ok (cpu tlbwi_ee)"
    by (auto simp: tlb_ok_def entry_ok_def page_mask_ok_def tlbwi_ee_sel blank_tlb_def intro: exI [of _ 0])
  have idx: "unat (CP0 (cpu tlbwi_ee) cp0_Index AND 0x3f) < 48" "unat (CP0 (cpu tlbwi_ee) cp0_Random AND 0x3f) < 48"
    by (simp_all add: tlbwi_ee_sel cpuReset_def)
  have "phys_target 0x5004 tlbwi_ee = ToHandler 2 0x5004"
    unfolding phys_target_def tlbwi_ee_sel using phys_from_handler_neg [of 2]
    by (simp add: VTLB_PMAP_SZ_def vtlb_phys_from_handler_def POINTER_SIGN_BIT_def)
  moreover have "?t = \<lparr>tPageMask = 0, tEntryHi = 0x40000000, tEntryLo0 = 0x142, tEntryLo1 = 0, tMask = 0, tnMask = 0xFFF, tG = 0,
      tASID = 0, tVPN2 = 0x40000000, tPFN0 = 0x5000, tPFN1 = 0, tS = 0\<rparr>"
    by (simp add: tlb_entry_def tlbwi_ee_sel cpuReset_def Let_def mask_eq_exp_minus_1)
  ultimately have "tlb_covers ?t 0x40000004" "tlb_dest ?t 0x40000004 tlbwi_ee = ToHandler 2 0x5004"
    "\<not> tlb_covers ?t 0x40001004" "\<not> tlb_covers blank_tlb 0x40001004"
    by (simp_all add: tlb_covers_def tlb_dest_def blank_tlb_def tlb_hit_def tlb_sel_odd_def tlb_offset_def)
  then show ?thesis
    using TLB_write_translation [OF tlbwi_ee_sel(6,7) ok idx, of blank_io]
    by (auto simp: Let_def tlbwi_ee_sel(2,3,5))
qed

subsection \<open>Reading an entry back\<close>

lemma tlbp_hit_own:
  assumes "CP0 c cp0_PageMask = 0"
  shows "tlbp_hit (CP0 c cp0_EntryHi) (tlb_entry c) \<longleftrightarrow>
    CP0 c cp0_EntryHi < 0x80000 \<and> CP0 c cp0_EntryHi AND 0x1FFF = 0"
proof -
  let ?hi = "CP0 c cp0_EntryHi"
  have m: "(0x1FFF :: u32) = mask 13" "(0x7FFFF :: u32) = mask 19" "(0xff :: u32) = mask 8" "(0xfff :: u32) = mask 12"
    by (simp_all add: mask_eq_exp_minus_1)
  have vpn: "tVPN2 (tlb_entry c) = ?hi AND NOT (mask 13)" "tMask (tlb_entry c) = 0"
    unfolding tlb_entry_def Let_def assms by (simp_all, intro bit_word_eqI, auto simp: bit_simps)
  have "?hi < 0x80000 \<longleftrightarrow> drop_bit 19 ?hi = 0"
    by (simp add: word_less_nat_alt word_unat_eq_iff unat_drop_bit div_eq_0_iff)
  also have "\<dots> \<longleftrightarrow> (\<forall>i\<ge>19. \<not> bit ?hi i)"
  proof
    assume "drop_bit 19 ?hi = 0"
    then have "\<not> bit (drop_bit 19 ?hi) i" for i by simp
    then show "\<forall>i\<ge>19. \<not> bit ?hi i" by (auto simp: bit_drop_bit_eq le_iff_add)
  qed (intro bit_word_eqI, simp add: bit_drop_bit_eq)
  finally have big: "?hi < 0x80000 \<longleftrightarrow> (\<forall>i\<ge>19. \<not> bit ?hi i)" .
  have low: "?hi AND 0x1FFF = 0 \<longleftrightarrow> (\<forall>i<13. \<not> bit ?hi i)"
  proof
    assume "?hi AND 0x1FFF = 0"
    then have z: "?hi AND mask 13 = 0" unfolding m .
    have "\<not> bit ?hi i" if "i < 13" for i using arg_cong [OF z, of "\<lambda>w. bit w i"] that by (simp add: bit_simps)
    then show "\<forall>i<13. \<not> bit ?hi i" by blast
  qed (unfold m, intro bit_word_eqI, auto simp: bit_simps)
  have "tVPN2 (tlb_entry c) = NOT (tMask (tlb_entry c)) AND (?hi AND 0x7FFFF) \<longleftrightarrow>
      (\<forall>i\<ge>19. \<not> bit ?hi i) \<and> (\<forall>i<13. \<not> bit ?hi i)" (is "?L = ?R \<longleftrightarrow> _")
  proof
    assume eq: "?L = ?R"
    have "bit ?L i \<longleftrightarrow> bit ?hi i \<and> 13 \<le> i" "bit ?R i \<longleftrightarrow> bit ?hi i \<and> i < 19" for i
      unfolding vpn m using bit_imp_le_length [of ?hi i] by (auto simp: bit_simps)
    with eq have iff: "bit ?hi i \<and> 13 \<le> i \<longleftrightarrow> bit ?hi i \<and> i < 19" for i by simp
    have "\<not> bit ?hi i" if "19 \<le> i \<or> i < 13" for i using iff [of i] that by linarith
    then show "(\<forall>i\<ge>19. \<not> bit ?hi i) \<and> (\<forall>i<13. \<not> bit ?hi i)" by blast
  qed (unfold vpn m, intro bit_word_eqI, auto simp: bit_simps not_le)
  moreover have "tASID (tlb_entry c) AND 0xff = drop_bit 24 ?hi" if "\<forall>i\<ge>19. \<not> bit ?hi i" "\<forall>i<13. \<not> bit ?hi i"
    unfolding tlb_entry_def Let_def using that by (simp only: tlbs.simps m, intro bit_word_eqI) (auto simp: bit_simps)
  ultimately show ?thesis unfolding tlbp_hit_def big low by blast
qed

text \<open>C17: reading entries back. \<open>TLBR\<close> returns the page mask, the page pair and the page frames of a
  written 4 KB entry, but the global bits come from bit 12 of the written EntryHi instead of the written
  EntryLo registers. A probe with the very EntryHi an entry was written with matches it only if the
  virtual address is below 512 KB and the address space identifier is zero: \<open>TLBP\<close> reads EntryHi with
  its fields in reverse order.\<close>

theorem TLB_read_back:
  assumes "CP0 c cp0_PageMask = 0" "tlb s (unat (CP0 (cpu s) cp0_Index AND 0x3f)) = tlb_entry c"
    and "unat (CP0 (cpu s) cp0_Index AND 0x3f) < 48"
  shows "(\<exists>s'. TLBR s = Some s' \<and> CP0 (cpu s') cp0_PageMask = 0 \<and>
      CP0 (cpu s') cp0_EntryHi = CP0 c cp0_EntryHi AND NOT 0x1f00 \<and>
      CP0 (cpu s') cp0_EntryLo0 = (CP0 c cp0_EntryLo0 AND NOT 1) OR (drop_bit 12 (CP0 c cp0_EntryHi) AND 1) \<and>
      CP0 (cpu s') cp0_EntryLo1 = (CP0 c cp0_EntryLo1 AND NOT 1) OR (drop_bit 12 (CP0 c cp0_EntryHi) AND 1)) \<and>
    (tlbp_hit (CP0 c cp0_EntryHi) (tlb_entry c) \<longleftrightarrow>
      CP0 c cp0_EntryHi < 0x80000 \<and> CP0 c cp0_EntryHi AND 0x1FFF = 0)"
proof
  show "tlbp_hit (CP0 c cp0_EntryHi) (tlb_entry c) \<longleftrightarrow>
      CP0 c cp0_EntryHi < 0x80000 \<and> CP0 c cp0_EntryHi AND 0x1FFF = 0"
    using assms(1) by (rule tlbp_hit_own)
qed (use assms in \<open>simp add: TLBR_def Let_def tlb_entry_def\<close>)

theorem TLB_read_back_witness:
  "tlb (tlbwi_ee\<lparr>tlb := (\<lambda>i. tlb_entry (cpu tlbwi_ee))\<rparr>) 1 = tlb_entry (cpu tlbwi_ee) \<and>
   \<not> tlbp_hit 0x40000000 (tlb_entry (cpu tlbwi_ee))"
  using TLB_read_back [of "cpu tlbwi_ee" "tlbwi_ee\<lparr>tlb := (\<lambda>i. tlb_entry (cpu tlbwi_ee))\<rparr>"]
  by (simp add: tlbwi_ee_sel cpuReset_def)

end
