(* ===== verification/EE_Zero_Reg.thy ===== *)
theory EE_Zero_Reg
  imports EE_Decode_Spec EE_TLB_Spec
begin

text \<open>
  Register 0 of the Emotion Engine reads as zero. The interpreter keeps it so by testing the destination
  of each instruction; this theory checks the test for all opcodes of the tables.
\<close>

definition keeps_r0 :: "(cpuRegisters \<Rightarrow> cpuRegisters) \<Rightarrow> bool" where
  "keeps_r0 f \<longleftrightarrow> (\<forall>c. zero_reg c \<longrightarrow> zero_reg (f c))"

lemma zero_reg_upd [simp]:
  "zero_reg (c\<lparr>HI := a\<rparr>) = zero_reg c" "zero_reg (c\<lparr>LO := a\<rparr>) = zero_reg c" "zero_reg (c\<lparr>sa := i\<rparr>) = zero_reg c"
  "zero_reg (c\<lparr>pc := i\<rparr>) = zero_reg c" "zero_reg (c\<lparr>code := i\<rparr>) = zero_reg c" "zero_reg (c\<lparr>branch := i\<rparr>) = zero_reg c"
  "zero_reg (c\<lparr>cycle := n\<rparr>) = zero_reg c" "zero_reg (c\<lparr>nextEventCycle := n\<rparr>) = zero_reg c"
  "zero_reg (c\<lparr>pccr := i\<rparr>) = zero_reg c" "zero_reg (c\<lparr>pcr0 := i\<rparr>) = zero_reg c" "zero_reg (c\<lparr>pcr1 := i\<rparr>) = zero_reg c"
  "zero_reg (c\<lparr>lastCOP0Cycle := n\<rparr>) = zero_reg c" "zero_reg (c\<lparr>lastPERFCycle0 := n\<rparr>) = zero_reg c"
  "zero_reg (c\<lparr>lastPERFCycle1 := n\<rparr>) = zero_reg c"
  "r \<noteq> 0 \<Longrightarrow> zero_reg (c\<lparr>GPR := g(r := a)\<rparr>) = zero_reg (c\<lparr>GPR := g\<rparr>)" "zero_reg (c\<lparr>GPR := GPR c\<rparr>) = zero_reg c"
  by (simp_all add: zero_reg_def)

lemma zero_reg_wr_lanes [simp]: "r \<noteq> 0 \<Longrightarrow> zero_reg (wr_lanes r n vs c) = zero_reg c"
  by (induction vs arbitrary: n c) simp_all

lemma zero_reg_fold:
  assumes "\<And>i c. opRd c \<noteq> 0 \<Longrightarrow> opRd (f i c) = opRd c \<and> zero_reg (f i c) = zero_reg c"
  shows "opRd c \<noteq> 0 \<Longrightarrow> zero_reg (fold f is c) = zero_reg c"
  using assms by (induction "is" arbitrary: c) simp_all

lemma zero_reg_run_lanes [simp]:
  assumes "\<And>i c. opRd c \<noteq> 0 \<Longrightarrow> opRd (f i c) = opRd c \<and> zero_reg (f i c) = zero_reg c" "opRd c \<noteq> 0"
  shows "zero_reg (run_lanes n f c) = zero_reg c"
  using assms by (simp add: run_lanes_def zero_reg_fold)

lemma zero_reg_run_lanes_all [simp]:
  assumes "\<And>i c. zero_reg (f i c) = zero_reg c"
  shows "zero_reg (run_lanes n f c) = zero_reg c"
proof -
  have "zero_reg (fold f is c) = zero_reg c" for "is" using assms by (induction "is" arbitrary: c) simp_all
  then show ?thesis by (simp add: run_lanes_def)
qed

lemmas lane_defs =
  PSLLH_lane_def PSRLH_lane_def PSRAH_lane_def PSLLW_lane_def PSRLW_lane_def PSRAW_lane_def PADDW_lane_def
  PSUBW_lane_def PCGTW_lane_def PMAXW_lane_def PADDH_lane_def PSUBH_lane_def PCGTH_lane_def PMAXH_lane_def
  PADDB_lane_def PSUBB_lane_def PCGTB_lane_def PADDSW_lane_def PSUBSW_lane_def PADDSH_lane_def PSUBSH_lane_def
  PADDSB_lane_def PSUBSB_lane_def PEXT5_lane_def PPAC5_lane_def PABSW_lane_def PCEQW_lane_def PMINW_lane_def
  PABSH_lane_def PCEQH_lane_def PMINH_lane_def PCEQB_lane_def PADDUW_lane_def PSUBUW_lane_def PADDUH_lane_def
  PSUBUH_lane_def PADDUB_lane_def PSUBUB_lane_def PMADDW_lane_def PMSUBW_lane_def PMULTW_lane_def
  PDIVW_lane_def PDIVBW_lane_def PMADDUW_lane_def PMULTUW_lane_def PDIVUW_lane_def

lemmas helper_defs = finish_overflow_def div_words_def divu_words_def split_hilo_def trap_def add64_Overflow_def
  add32_Overflow_def PMFHL_CLAMP_def fold_hilo_rd_def PHMADH_LO_def PHMADH_HI_def PHMSBH_LO_def PHMSBH_HI_def

lemma zero_reg_COP0 [simp]:
  "zero_reg (COP0_UpdatePCCR c) = zero_reg c" "zero_reg (event_within n c) = zero_reg c"
  "zero_reg (WriteCP0Status v c) = zero_reg c" "zero_reg (WriteCP0Config v c) = zero_reg c"
  by (simp_all add: COP0_UpdatePCCR_def event_within_def WriteCP0Status_def WriteCP0Config_def Let_def)

lemma alu_keep_r0:
  "list_all keeps_r0
    [ADDI, ADDIU, DADDI, DADDIU, ANDI, ORI, XORI, SLTI, SLTIU, ADD, DADD, SUB, DSUB, ADDU, DADDU, SUBU, DSUBU,
    AND_op, OR_op, XOR_op, NOR_op, SLT, SLTU, DIV, DIVU, MULT, MULTU, LUI, MFHI, MFLO, MTHI, MTLO, MOVZ]"
  by (simp add: keeps_r0_def helper_defs lane_defs Let_def zero_reg_fold
      ADDI_def ADDIU_def DADDI_def DADDIU_def ANDI_def ORI_def XORI_def SLTI_def SLTIU_def ADD_def DADD_def
      SUB_def DSUB_def ADDU_def DADDU_def SUBU_def DSUBU_def AND_op_def OR_op_def XOR_op_def NOR_op_def SLT_def
      SLTU_def DIV_def DIVU_def MULT_def MULTU_def LUI_def MFHI_def MFLO_def MTHI_def MTLO_def MOVZ_def)

lemma move_trap_keep_r0:
  "list_all keeps_r0
    [MOVN, SRA, SRL, SLL, DSLL, DSLL32, DSRA, DSRA32, DSRL, DSRL32, SLLV, SRAV, SRLV, DSLLV, DSRAV, DSRLV,
    BREAK, TGE, TGEU, TLT, TLTU, TEQ, TNE, TGEI, TLTI, TEQI, TNEI, TGEIU, TLTIU, MFSA, MTSA, MTSAB, MTSAH]"
  by (simp add: keeps_r0_def helper_defs lane_defs Let_def zero_reg_fold
      MOVN_def SRA_def SRL_def SLL_def DSLL_def DSLL32_def DSRA_def DSRA32_def DSRL_def DSRL32_def SLLV_def
      SRAV_def SRLV_def DSLLV_def DSRAV_def DSRLV_def BREAK_def TGE_def TGEU_def TLT_def TLTU_def TEQ_def
      TNE_def TGEI_def TLTI_def TEQI_def TNEI_def TGEIU_def TLTIU_def MFSA_def MTSA_def MTSAB_def MTSAH_def)

lemma cop0_keep_r0:
  "list_all keeps_r0
    [MFC0, MTC0, DI, EI]"
  by (simp add: keeps_r0_def helper_defs lane_defs Let_def zero_reg_fold
      MFC0_def MTC0_def DI_def EI_def)

lemma mmi0_keep_r0:
  "list_all keeps_r0
    [MADD, MADDU, MADD1, MADDU1, MFHI1, MFLO1, MTHI1, MTLO1, MULT1, MULTU1, DIV1, DIVU1, PLZCW, PMFHL, PMTHL,
    PSLLH, PSRLH, PSRAH, PSLLW, PSRLW, PSRAW, PADDW, PSUBW, PCGTW, PMAXW]"
  by (simp add: keeps_r0_def helper_defs lane_defs Let_def zero_reg_fold
      MADD_def MADDU_def MADD1_def MADDU1_def MFHI1_def MFLO1_def MTHI1_def MTLO1_def MULT1_def MULTU1_def
      DIV1_def DIVU1_def PLZCW_def PMFHL_def PMTHL_def PSLLH_def PSRLH_def PSRAH_def PSLLW_def PSRLW_def
      PSRAW_def PADDW_def PSUBW_def PCGTW_def PMAXW_def)

lemma mmi1_keep_r0:
  "list_all keeps_r0
    [PADDH, PSUBH, PCGTH, PMAXH, PADDB, PSUBB, PCGTB, PADDSW, PSUBSW, PEXTLW, PPACW, PADDSH, PSUBSH, PEXTLH,
    PPACH, PADDSB, PSUBSB, PEXTLB, PPACB, PEXT5, PPAC5, PABSW, PCEQW, PMINW, PADSBH]"
  by (simp add: keeps_r0_def helper_defs lane_defs Let_def zero_reg_fold
      PADDH_def PSUBH_def PCGTH_def PMAXH_def PADDB_def PSUBB_def PCGTB_def PADDSW_def PSUBSW_def PEXTLW_def
      PPACW_def PADDSH_def PSUBSH_def PEXTLH_def PPACH_def PADDSB_def PSUBSB_def PEXTLB_def PPACB_def PEXT5_def
      PPAC5_def PABSW_def PCEQW_def PMINW_def PADSBH_def)

lemma mmi2_keep_r0:
  "list_all keeps_r0
    [PABSH, PCEQH, PMINH, PCEQB, PADDUW, PSUBUW, PEXTUW, PADDUH, PSUBUH, PEXTUH, PADDUB, PSUBUB, PEXTUB, QFSRV,
    PMADDW, PSLLVW, PSRLVW, PMSUBW, PMFHI, PMFLO, PINTH, PMULTW, PDIVW, PCPYLD, PMADDH]"
  by (simp add: keeps_r0_def helper_defs lane_defs Let_def zero_reg_fold
      PABSH_def PCEQH_def PMINH_def PCEQB_def PADDUW_def PSUBUW_def PEXTUW_def PADDUH_def PSUBUH_def PEXTUH_def
      PADDUB_def PSUBUB_def PEXTUB_def QFSRV_def PMADDW_def PSLLVW_def PSRLVW_def PMSUBW_def PMFHI_def
      PMFLO_def PINTH_def PMULTW_def PDIVW_def PCPYLD_def PMADDH_def)

lemma mmi3_keep_r0:
  "list_all keeps_r0
    [PHMADH, PAND, PXOR, PMSUBH, PHMSBH, PEXEH, PREVH, PMULTH, PDIVBW, PEXEW, PROT3W, PMADDUW, PSRAVW, PMTHI,
    PMTLO, PINTEH, PMULTUW, PDIVUW, PCPYUD, POR, PNOR, PEXCH, PCPYH, PEXCW]"
  by (simp add: keeps_r0_def helper_defs lane_defs Let_def zero_reg_fold
      PHMADH_def PAND_def PXOR_def PMSUBH_def PHMSBH_def PEXEH_def PREVH_def PMULTH_def PDIVBW_def PEXEW_def
      PROT3W_def PMADDUW_def PSRAVW_def PMTHI_def PMTLO_def PINTEH_def PMULTUW_def PDIVUW_def PCPYUD_def
      POR_def PNOR_def PEXCH_def PCPYH_def PEXCW_def)

subsection \<open>Memory accesses, branches and coprocessors\<close>

abbreviation r0 :: "'d ee \<Rightarrow> bool" where "r0 s \<equiv> zero_reg (cpu s)"

text \<open>The parameters of the model keep register 0: device handlers, the data cache, the event test, the
  high-level system calls, the hooks of the game fix, and the coprocessor instructions that are not
  modelled, given that executing a delay slot does.\<close>

definition slot_keeps_r0 :: "'d exec \<Rightarrow> bool" where
  "slot_keeps_r0 ex \<longleftrightarrow> (\<forall>s r. r0 s \<longrightarrow> ex s = Some r \<longrightarrow> r0 (final_state r))"

definition env_keeps_r0 :: "'d env \<Rightarrow> bool" where
  "env_keeps_r0 e \<longleftrightarrow>
     (\<forall>s. r0 s \<longrightarrow>
       (\<forall>k row a. r0 (final_state (dev_read e k row a s))) \<and>
       (\<forall>k row a v. r0 (final_state (dev_write e k row a v s))) \<and>
       (\<forall>row a. r0 (final_state (readCache e row a s))) \<and>
       (\<forall>row a v. r0 (final_state (writeCache e row a v s))) \<and>
       r0 (final_state (EventTest e s)) \<and> (\<forall>n. r0 (final_state (syscall_hle e n s))) \<and>
       (\<forall>a. r0 (GoemonUnloadTlb e a s)) \<and> r0 (GoemonPreloadTlb e s)) \<and>
     (\<forall>n ex. slot_keeps_r0 ex \<longrightarrow> slot_keeps_r0 (cop_op e n ex))"

definition opcode_keeps_r0 :: "'d env \<Rightarrow> 'd opcode \<Rightarrow> bool" where
  "opcode_keeps_r0 e x \<longleftrightarrow> (\<forall>ex. slot_keeps_r0 ex \<longrightarrow> slot_keeps_r0 (op_interpret x e ex))"

lemma env_keeps_r0D:
  assumes "env_keeps_r0 e" "r0 s"
  shows "r0 (final_state (dev_read e k row a s))" "r0 (final_state (dev_write e k row a v s))"
    "r0 (final_state (readCache e row a s))" "r0 (final_state (writeCache e row a v s))"
    "r0 (final_state (EventTest e s))" "r0 (final_state (syscall_hle e n s))"
    "r0 (GoemonUnloadTlb e b s)" "r0 (GoemonPreloadTlb e s)"
  using assms by (simp_all add: env_keeps_r0_def)

lemma io_of_sel [simp]:
  "dev_read (io_of e) = dev_read e" "dev_write (io_of e) = dev_write e" "readCache (io_of e) = readCache e"
  "writeCache (io_of e) = writeCache e" "os_map (io_of e) = os_map e" "realloc_ok (io_of e) = realloc_ok e"
  "Cpu_Clear (io_of e) = Cpu_Clear e"
  by (simp_all add: io_of_def io.defs)

lemma r0_bindR:
  assumes "r0 (final_state r)" "\<And>a s. r0 s \<Longrightarrow> r0 (final_state (f a s))"
  shows "r0 (final_state (bindR r f))"
  using assms by (cases r) simp_all

lemma r0_Miss [simp]: "r0 (final_state (vtlb_Miss a w s)) = r0 s"
  by (simp add: vtlb_Miss_def)

lemma r0_memRead:
  "env_keeps_r0 e \<Longrightarrow> r0 s \<Longrightarrow> r0 (final_state (vtlb_memRead row (io_of e) a s :: ('a::len word, 'd ee) result))"
  by (auto simp: vtlb_memRead_def Let_def call_read_def env_keeps_r0D split: mem_handler.split intro!: r0_bindR)

lemma r0_memWrite: "env_keeps_r0 e \<Longrightarrow> r0 s \<Longrightarrow> r0 (final_state (vtlb_memWrite row (io_of e) a v s))"
  by (auto simp: vtlb_memWrite_def Let_def call_write_def env_keeps_r0D split: mem_handler.split)

lemmas access_defs = memRead8_def memRead16_def memRead32_def memRead64_def memRead128_def
  memWrite8_def memWrite16_def memWrite32_def memWrite64_def memWrite128_def

lemma r0_upd_cpu: "keeps_r0 f \<Longrightarrow> r0 s \<Longrightarrow> r0 (upd_cpu f s)"
  by (simp add: keeps_r0_def upd_cpu_def)

lemma r0_set_rt: "r0 s \<Longrightarrow> r0 (set_rt v s)"
  by (simp add: set_rt_def upd_cpu_def)

lemma mem_ops_keep_r0:
  assumes "env_keeps_r0 e" "r0 s"
  shows "list_all (\<lambda>f. r0 (final_state (f (io_of e) s)))
    [LB, LBU, LH, LHU, LW, LWU, LQ, LWL, LWR, LDL, LDR, SB, SH, SW, SD, SQ, SWL, SWR, SDL, SDR]"
  using assms
  by (simp add: LB_def LBU_def LH_def LHU_def LW_def LWU_def LQ_def LWL_def LWR_def LDL_def LDR_def SB_def SH_def
      SW_def SD_def SQ_def SWL_def SWR_def SDL_def SDR_def Let_def access_defs r0_memRead r0_memWrite r0_set_rt
      upd_cpu_def r0_bindR)

lemma slot_keeps_r0D: "slot_keeps_r0 ex \<Longrightarrow> r0 s \<Longrightarrow> ex s = Some r \<Longrightarrow> r0 (final_state r)"
  by (simp add: slot_keeps_r0_def)

text \<open>An instruction that ends normally, by cancellation or not at all.\<close>

definition ends_r0 :: "(unit, 'd ee) result option \<Rightarrow> bool" where
  "ends_r0 x \<longleftrightarrow> (\<forall>r. x = Some r \<longrightarrow> r0 (final_state r))"

lemma ends_r0_simps [simp]: "ends_r0 None" "ends_r0 (Some r) = r0 (final_state r)"
  by (simp_all add: ends_r0_def)

lemma ends_r0_slot: "slot_keeps_r0 ex \<Longrightarrow> r0 s \<Longrightarrow> ends_r0 (ex s)"
  by (simp add: ends_r0_def slot_keeps_r0_def)

lemma slot_keeps_r0I: "(\<And>s. r0 s \<Longrightarrow> ends_r0 (ex s)) \<Longrightarrow> slot_keeps_r0 ex"
  by (simp add: ends_r0_def slot_keeps_r0_def)

lemma ends_r0_bindX:
  assumes "ends_r0 x" "\<And>s. r0 s \<Longrightarrow> ends_r0 (f s)"
  shows "ends_r0 (bindX x f)"
proof (cases x)
  case (Some r)
  then show ?thesis using assms by (cases r) simp_all
qed simp

lemma r0_cycles [simp]: "r0 (intUpdateCPUCycles s) = r0 s" "r0 (wait_loop t s) = r0 s" "r0 (skip_slot s) = r0 s"
  by (simp_all add: intUpdateCPUCycles_def wait_loop_def skip_slot_def upd_cpu_def Let_def)

lemma r0_link: "r \<noteq> 0 \<Longrightarrow> r0 (link r s) = r0 s"
  by (simp add: link_def upd_cpu_def SetLink_def)

lemma r0_doBranch:
  assumes "env_keeps_r0 e" "slot_keeps_r0 ex" "r0 s"
  shows "ends_r0 (doBranch_shared ex t s)" "ends_r0 (doBranch e ex t s)" "ends_r0 (intDoBranch e ex t s)"
proof -
  show *: "ends_r0 (doBranch_shared ex t s)"
    unfolding doBranch_shared_def by (rule ends_r0_bindX) (simp_all add: Let_def ends_r0_slot assms)
  show "ends_r0 (doBranch e ex t s)" "ends_r0 (intDoBranch e ex t s)"
    unfolding doBranch_def intDoBranch_def
    using assms by (auto intro!: ends_r0_bindX [OF *] simp: intEventTest_def env_keeps_r0D)
qed

lemma r0_branch_if:
  assumes "env_keeps_r0 e" "slot_keeps_r0 ex" "r0 s"
  shows "ends_r0 (branch_if c e ex s)" "ends_r0 (branch_test_if c e ex s)" "ends_r0 (branch_likely_if c e ex s)"
  using assms
  by (simp_all add: branch_if_def branch_test_if_def branch_likely_if_def intEventTest_def r0_doBranch env_keeps_r0D)

lemma flow_ops_keep_r0:
  assumes "env_keeps_r0 e" "slot_keeps_r0 ex" "r0 s"
  shows "list_all (\<lambda>f. ends_r0 (f e ex s))
    [J, JAL, JR, JALR, BEQ, BNE, BLEZ, BGTZ, BEQL, BNEL, BLEZL, BGTZL, BLTZ, BGEZ, BLTZL, BGEZL, BLTZAL, BGEZAL,
     BLTZALL, BGEZALL, BC0F, BC0T, BC0FL, BC0TL]"
  using assms
  by (simp add: J_def JAL_def JR_def JALR_def BEQ_def BNE_def BLEZ_def BGTZ_def BEQL_def BNEL_def BLEZL_def BGTZL_def
      BLTZ_def BGEZ_def BLTZL_def BGEZL_def BLTZAL_def BGEZAL_def BLTZALL_def BGEZALL_def BC0F_def BC0T_def BC0FL_def
      BC0TL_def Let_def r0_doBranch r0_branch_if r0_link env_keeps_r0D)


lemma cpu_tlb_loop: "(\<And>a s. phys_view (f a s) = phys_view s) \<Longrightarrow> phys_view (tlb_loop t a f s) = phys_view s"
  unfolding tlb_loop_def by (rule fold_invariant [where Q = "\<lambda>x. True"]) (simp_all split: if_split)

lemma cpu_tlb_mapping: "cpu (MapTLB io t s) = cpu s" "cpu (UnmapTLB io t s) = cpu s"
proof -
  have half: "phys_view (map_half io t a p s) = phys_view s" "phys_view (unmap_half io t a s) = phys_view s" for a p s
    unfolding map_half_def unmap_half_def by (rule cpu_tlb_loop, simp)+
  have "phys_view (MapTLB io t s) = phys_view s" "phys_view (UnmapTLB io t s) = phys_view s"
    by (simp_all add: MapTLB_def UnmapTLB_def half Let_def)
  then show "cpu (MapTLB io t s) = cpu s" "cpu (UnmapTLB io t s) = cpu s" by (auto dest: phys_viewD(3))
qed

lemma tlb_ops_keep_r0:
  "r0 s \<Longrightarrow> TLBWI io s = Some t \<Longrightarrow> r0 t" "r0 s \<Longrightarrow> TLBWR io s = Some t \<Longrightarrow> r0 t"
  "r0 s \<Longrightarrow> TLBR s = Some t \<Longrightarrow> r0 t" "r0 s \<Longrightarrow> r0 (TLBP s)" "r0 s \<Longrightarrow> r0 (ERET s)"
  by (auto simp: TLBWI_def TLBWR_def tlb_write_def WriteTLB_def TLBR_def TLBP_def ERET_def ERET_regs_def upd_cpu_def
      intSetBranch_def cpu_tlb_mapping Let_def split: if_splits)

lemma sys_op_keeps_r0: "env_keeps_r0 e \<Longrightarrow> r0 s \<Longrightarrow> r0 (final_state (SYSCALL e s))"
  unfolding SYSCALL_def by (rule r0_bindR) (simp_all add: env_keeps_r0D upd_cpu_def)

subsection \<open>All opcodes\<close>

text \<open>The kinds of opcodes, each with what its interpreter function has to satisfy.\<close>

lemma opcode_keeps_r0_kinds:
  assumes e: "env_keeps_r0 e"
  shows "opcode_keeps_r0 e (OPCODE n c nop_op)" "opcode_keeps_r0 e (OPCODE n c sys_op)"
    "opcode_keeps_r0 e (OPCODE n c (cop m))"
    "keeps_r0 f \<Longrightarrow> opcode_keeps_r0 e (OPCODE n c (reg_op f))"
    "(\<And>s. r0 s \<Longrightarrow> r0 (final_state (g (io_of e) s))) \<Longrightarrow> opcode_keeps_r0 e (OPCODE n c (mem_op g))"
    "(\<And>ex s. slot_keeps_r0 ex \<Longrightarrow> r0 s \<Longrightarrow> ends_r0 (h e ex s)) \<Longrightarrow> opcode_keeps_r0 e (OPCODE n c (flow_op h))"
    "(\<And>s. r0 s \<Longrightarrow> r0 (i s)) \<Longrightarrow> opcode_keeps_r0 e (OPCODE n c (ee_op i))"
    "(\<And>s t. r0 s \<Longrightarrow> j (io_of e) s = Some t \<Longrightarrow> r0 t) \<Longrightarrow> opcode_keeps_r0 e (OPCODE n c (tlb_op j))"
proof -
  note kind_defs = opcode_keeps_r0_def op_interpret.simps nop_op_def sys_op_def cop_def reg_op_def mem_op_def flow_op_def
    ee_op_def tlb_op_def
  show "opcode_keeps_r0 e (OPCODE n c nop_op)" by (simp add: kind_defs slot_keeps_r0_def)
  show "opcode_keeps_r0 e (OPCODE n c sys_op)" by (simp add: kind_defs slot_keeps_r0_def sys_op_keeps_r0 [OF e])
  show "opcode_keeps_r0 e (OPCODE n c (cop m))"
    using e unfolding kind_defs env_keeps_r0_def slot_keeps_r0_def by blast
  show "keeps_r0 f \<Longrightarrow> opcode_keeps_r0 e (OPCODE n c (reg_op f))" by (simp add: kind_defs slot_keeps_r0_def r0_upd_cpu)
  show "(\<And>s. r0 s \<Longrightarrow> r0 (final_state (g (io_of e) s))) \<Longrightarrow> opcode_keeps_r0 e (OPCODE n c (mem_op g))"
    by (simp add: kind_defs slot_keeps_r0_def)
  show "opcode_keeps_r0 e (OPCODE n c (flow_op h))"
    if "\<And>ex s. slot_keeps_r0 ex \<Longrightarrow> r0 s \<Longrightarrow> ends_r0 (h e ex s)"
    using that unfolding kind_defs by (blast intro: slot_keeps_r0I)
  show "(\<And>s. r0 s \<Longrightarrow> r0 (i s)) \<Longrightarrow> opcode_keeps_r0 e (OPCODE n c (ee_op i))" by (simp add: kind_defs slot_keeps_r0_def)
  show "opcode_keeps_r0 e (OPCODE n c (tlb_op j))" if "\<And>s t. r0 s \<Longrightarrow> j (io_of e) s = Some t \<Longrightarrow> r0 t"
    using that by (simp add: kind_defs slot_keeps_r0_def split: option.split)
qed

lemma keeps_r0_tables:
  assumes "env_keeps_r0 e"
  shows "\<forall>tbl\<in>set opcode_tables. table_all (\<lambda>x. op_name x \<noteq> ''LD'' \<longrightarrow> opcode_keeps_r0 e x) tbl"
proof -
  note kinds = opcode_keeps_r0_kinds [OF assms]
  have tlb: "opcode_keeps_r0 e op_TLBR" "opcode_keeps_r0 e op_TLBWI" "opcode_keeps_r0 e op_TLBWR"
    "opcode_keeps_r0 e op_TLBP" "opcode_keeps_r0 e op_ERET"
    unfolding op_TLBR_def op_TLBWI_def op_TLBWR_def op_TLBP_def op_ERET_def
    by (rule kinds; erule tlb_ops_keep_r0; assumption)+
  note regs = alu_keep_r0 move_trap_keep_r0 cop0_keep_r0 mmi0_keep_r0 mmi1_keep_r0 mmi2_keep_r0 mmi3_keep_r0
  note ops = regs mem_ops_keep_r0 [OF assms] flow_ops_keep_r0 [OF assms]
  show ?thesis
    by (simp add: opcode_tables_def table_all_def table_defs opcode_defs tlb [unfolded opcode_defs]
        ops [unfolded list.pred_inject] kinds(1-7))
qed

text \<open>A state in which all memory is host memory and holds ones.\<close>

definition ones_ee :: "'d ee \<Rightarrow> 'd ee" where
  "ones_ee s = s\<lparr>cpu := cpuReset, vmap := (\<lambda>pg. 0), host := (\<lambda>p. 1), CHECK_CACHE := False\<rparr>"

lemma LD_breaks_r0: "\<not> opcode_keeps_r0 (e :: 'd env) op_LD"
proof
  fix s :: "'d ee"
  let ?s = "ones_ee s" and ?ex = "\<lambda>s. None :: (unit, 'd ee) result option"
  assume "opcode_keeps_r0 e (op_LD :: 'd opcode)"
  moreover have "slot_keeps_r0 ?ex" by (simp add: slot_keeps_r0_def)
  ultimately have keep: "slot_keeps_r0 (op_interpret op_LD e ?ex)" by (simp add: opcode_keeps_r0_def)
  have "ea ?s = 0" "opRt (cpu ?s) = 0"
    by (simp_all add: ones_ee_def ea_def cpuReset_def opRt_def opImm_def lane_def)
  moreover have "load_le (host ?s) 0 = (0x0101010101010101 :: u64)" by (simp add: ones_ee_def load_le_def upt_rec)
  ultimately have "op_interpret op_LD e ?ex ?s = Some (Done () (upd_cpu (wr 0 0 (0x0101010101010101 :: u64)) ?s))"
    by (simp add: op_LD_def mem_op_def LD_def misaligned_def memRead64_def vtlb_memRead_def ones_ee_def)
  moreover have "r0 ?s" by (simp add: ones_ee_def zero_reg_def cpuReset_def)
  ultimately have "r0 (upd_cpu (wr 0 0 (0x0101010101010101 :: u64)) ?s)" using keep by (auto simp: slot_keeps_r0_def)
  then show False by (simp add: upd_cpu_def zero_reg_def ones_ee_def cpuReset_def set_lane_def)
qed

text \<open>C19: register 0. For every opcode of the tables but one, executing it from a state in which
  register 0 is zero leaves register 0 zero, whatever the registers and memory hold, whether the
  instruction completes, raises an exception, is cancelled or runs a delay slot; the devices, the
  coprocessor operations outside the model and the execution of the delay slot's own instruction are assumed to
  leave register 0 zero. The one exception is LD, which lacks
  the test for destination 0 of the other loads.\<close>

theorem register_0_kept:
  assumes "env_keeps_r0 e"
  shows "\<forall>x\<in>set opcodes. opcode_keeps_r0 e x \<longleftrightarrow> op_name x \<noteq> ''LD''"
proof -
  have "\<forall>tbl\<in>set opcode_tables. table_all (\<lambda>x. op_name x = ''LD'' \<longrightarrow> x = op_LD) tbl"
    by (simp add: opcode_tables_def table_all_def table_defs opcode_defs)
  then have LD: "\<forall>x\<in>set opcodes. op_name x = ''LD'' \<longrightarrow> x = op_LD" by (auto simp: opcodes_def table_all_def)
  have "\<forall>x\<in>set opcodes. op_name x \<noteq> ''LD'' \<longrightarrow> opcode_keeps_r0 e x"
    using keeps_r0_tables [OF assms] by (auto simp: opcodes_def table_all_def)
  with LD LD_breaks_r0 show ?thesis by blast
qed

definition blank_env :: "unit env" where
  "blank_env = \<lparr>dev_read = (\<lambda>k row a s. Done 0 s), dev_write = (\<lambda>k row a v s. Done () s),
     readCache = (\<lambda>row a s. Done 0 s), writeCache = (\<lambda>row a v s. Done () s), os_map = (\<lambda>hp off. True),
     realloc_ok = (\<lambda>n. True), Cpu_Clear = (\<lambda>a n d. d), EventTest = (\<lambda>s. Done () s),
     syscall_hle = (\<lambda>n s. Done False s), cop_op = (\<lambda>n ex s. Some (Done () s)), dmac_CIS = (\<lambda>d. 0), dmac_CPC = (\<lambda>d. 0),
     GoemonTlbHack = False, GoemonUnloadTlb = (\<lambda>a s. s), GoemonPreloadTlb = (\<lambda>s. s)\<rparr>"

theorem register_0_kept_witness:
  "env_keeps_r0 blank_env \<and> opcode_keeps_r0 blank_env op_LW \<and> \<not> opcode_keeps_r0 blank_env op_LD"
proof -
  have ok: "env_keeps_r0 blank_env" by (simp add: env_keeps_r0_def blank_env_def slot_keeps_r0_def)
  have "\<forall>x\<in>set (tbl_Standard :: unit opcode list). is_opcode x \<longrightarrow> x \<in> set opcodes"
    by (auto simp: opcodes_def opcode_tables_def)
  moreover have "op_LW \<in> set (tbl_Standard :: unit opcode list)" "op_LD \<in> set (tbl_Standard :: unit opcode list)"
    unfolding tbl_Standard_def list.set by blast+
  ultimately have "op_LW \<in> set (opcodes :: unit opcode list)" "op_LD \<in> set (opcodes :: unit opcode list)"
    by (simp_all add: op_LW_def op_LD_def)
  then have "opcode_keeps_r0 blank_env op_LW \<longleftrightarrow> op_name (op_LW :: unit opcode) \<noteq> ''LD''"
    "opcode_keeps_r0 blank_env op_LD \<longleftrightarrow> op_name (op_LD :: unit opcode) \<noteq> ''LD''"
    using register_0_kept [OF ok] by blast+
  with ok show ?thesis by (simp add: op_LW_def op_LD_def)
qed

end
