(* ===== verification/EE_Interp_Spec.thy ===== *)
theory EE_Interp_Spec
  imports EE_Zero_Reg EE_LoadStore_Spec
begin

text \<open>
  What the instruction loop promises: no cycle is lost between event tests, an exception in a delay slot
  returns to its branch, and what the wait-loop test can skip.
\<close>

subsection \<open>Cycle accounting\<close>

text \<open>Executing blocks of the given costs, in eighths of a cycle, with an update after each.\<close>

definition charge :: "nat \<Rightarrow> 'd ee \<Rightarrow> 'd ee" where
  "charge k s = intUpdateCPUCycles (s\<lparr>cpuBlockCycles := cpuBlockCycles s + of_nat k\<rparr>)"

lemma div_8_carry: "(x + y) div 8 = x div 8 + (x mod 8 + y) div 8" for x y :: nat
proof -
  have "(x + y) div 8 = ((x mod 8 + y) + 8 * (x div 8)) div 8" by simp
  also have "\<dots> = x div 8 + (x mod 8 + y) div 8" by (simp only: div_mult_self2)
  finally show ?thesis .
qed

lemma charge_rate_0:
  assumes "EECycleRate s = 0" "8 \<le> k" "unat (cpuBlockCycles s) + k < 2 ^ 32"
  shows "cycle (cpu (charge k s)) = cycle (cpu s) + of_nat ((unat (cpuBlockCycles s) + k) div 8)"
    and "unat (cpuBlockCycles (charge k s)) = (unat (cpuBlockCycles s) + k) mod 8"
    and "EECycleRate (charge k s) = 0"
proof -
  let ?b = "cpuBlockCycles s + of_nat k"
  have b: "unat ?b = unat (cpuBlockCycles s) + k"
    using assms(3) by (simp add: unat_word_ariths unat_of_nat)
  have d: "unat (drop_bit 3 ?b) = (unat (cpuBlockCycles s) + k) div 8" by (simp add: drop_bit_eq_div unat_div b)
  have "\<not> drop_bit 3 ?b < 1" using assms(2) d by (simp add: word_less_nat_alt)
  moreover have "ucast (drop_bit 3 ?b) = (of_nat ((unat (cpuBlockCycles s) + k) div 8) :: u64)"
    by (simp flip: d)
  ultimately show "cycle (cpu (charge k s)) = cycle (cpu s) + of_nat ((unat (cpuBlockCycles s) + k) div 8)"
    by (simp add: charge_def intUpdateCPUCycles_def scale_cycles_def Let_def assms(1))
  show "unat (cpuBlockCycles (charge k s)) = (unat (cpuBlockCycles s) + k) mod 8"
    by (simp add: charge_def intUpdateCPUCycles_def Let_def assms(1) and3 b)
  show "EECycleRate (charge k s) = 0" by (simp add: charge_def intUpdateCPUCycles_def Let_def assms(1))
qed

lemma charge_all_rate_0:
  assumes "EECycleRate s = 0" "unat (cpuBlockCycles s) < 8" "\<forall>k\<in>set ks. 8 \<le> k \<and> k < 2 ^ 31"
  shows "cycle (cpu (fold charge ks s)) = cycle (cpu s) + of_nat ((unat (cpuBlockCycles s) + sum_list ks) div 8) \<and>
    unat (cpuBlockCycles (fold charge ks s)) = (unat (cpuBlockCycles s) + sum_list ks) mod 8"
  using assms
proof (induction ks arbitrary: s)
  case (Cons k ks)
  let ?b = "unat (cpuBlockCycles s)"
  have "?b + k < 2 ^ 32" using Cons.prems by simp
  note c = charge_rate_0 [OF Cons.prems(1) _ this]
  have 8: "8 \<le> k" using Cons.prems by simp
  note IH = Cons.IH [of "charge k s", unfolded c [OF 8]]
  have split: "(?b + (k + sum_list ks)) div 8 = (?b + k) div 8 + ((?b + k) mod 8 + sum_list ks) div 8"
    using div_8_carry [of "?b + k" "sum_list ks"] by (simp only: add.assoc)
  have m: "(?b + (k + sum_list ks)) mod 8 = ((?b + k) mod 8 + sum_list ks) mod 8" by (simp add: mod_simps add.assoc)
  from IH Cons.prems show ?case unfolding sum_list.Cons fold_simps split m by (simp add: add.assoc)
qed simp

text \<open>C20: no cycle is lost. At the default cycle rate, after any sequence of blocks that cost at least one
  cycle each, the cycle counter has advanced by exactly the whole cycles of the total and the remainder
  is carried in \<open>cpuBlockCycles\<close>, whatever the blocks are. At cycle rate 3, which is meant to charge a
  quarter of the cycles, blocks of up to five cycles are charged at the default rate while the
  remainder keeps five bits, so four blocks of one cycle are charged ten cycles.\<close>

theorem cycles_conserved:
  assumes "EECycleRate s = 0" "unat (cpuBlockCycles s) < 8" "\<forall>k\<in>set ks. 8 \<le> k \<and> k < 2 ^ 31"
    and "EECycleRate t = 3" "cpuBlockCycles t = 0"
  shows "cycle (cpu (fold charge ks s)) = cycle (cpu s) + of_nat ((unat (cpuBlockCycles s) + sum_list ks) div 8) \<and>
    unat (cpuBlockCycles (fold charge ks s)) = (unat (cpuBlockCycles s) + sum_list ks) mod 8 \<and>
    cycle (cpu (fold charge [8, 8, 8, 8] t)) = cycle (cpu t) + 10 \<and>
    cpuBlockCycles (fold charge [8, 8, 8, 8] t) = 0"
  using charge_all_rate_0 [OF assms(1-3)]
  by (simp add: charge_def intUpdateCPUCycles_def scale_cycles_def Let_def assms(4,5) mask_eq_exp_minus_1)

definition rate_ee :: "u8 \<Rightarrow> unit ee" where
  "rate_ee r = blank_ee\<lparr>EECycleRate := r, cpuBlockCycles := 0\<rparr>"

theorem cycles_conserved_witness:
  "cycle (cpu (fold charge [20, 25, 300] (rate_ee 0))) = cycle (cpu (rate_ee 0)) + 43 \<and>
   unat (cpuBlockCycles (fold charge [20, 25, 300] (rate_ee 0))) = 1 \<and>
   cycle (cpu (fold charge [8, 8, 8, 8] (rate_ee 3))) = cycle (cpu (rate_ee 3)) + 10"
  using cycles_conserved [of "rate_ee 0" "[20, 25, 300]" "rate_ee 3"] by (simp add: rate_ee_def)

subsection \<open>Exceptions in delay slots\<close>

text \<open>An address without a mapping: accesses of every width go to the handler for unmapped virtual
  memory.\<close>

definition missing :: "u32 \<Rightarrow> 'd ee \<Rightarrow> bool" where
  "missing a s \<longleftrightarrow> (\<exists>h. translate a s = ToHandler h a \<and> (\<forall>row<5. \<forall>w. RWFT s row w h = vtlbUnmappedV))"

lemma access_missing:
  assumes "missing a s" "Cpu_is_intCpu s" "row < 5"
  shows "vtlb_memRead row io a s = Cancel (s\<lparr>cpu := cpuTlbMiss a (branch (cpu s)) EXC_CODE_TLBL (cpu s)\<rparr>)"
    and "vtlb_memWrite row io a v s = Cancel (s\<lparr>cpu := cpuTlbMiss a (branch (cpu s)) EXC_CODE_TLBS (cpu s)\<rparr>)"
  using assms
  by (auto simp: missing_def vtlb_memRead_translate vtlb_memWrite_translate call_read_def call_write_def vtlb_Miss_def)

text \<open>The instructions that access memory: the address bits that must be zero, those the access ignores,
  and whether a miss is reported as one of a store. The unaligned stores read the word they merge into, so
  theirs are reported as those of a load.\<close>

definition accesses :: "('d opcode \<times> u32 \<times> u32 \<times> bool) list" where
  "accesses =
     [(op_LB, 0, 0, False), (op_LBU, 0, 0, False), (op_LH, 1, 0, False), (op_LHU, 1, 0, False),
      (op_LW, 3, 0, False), (op_LWU, 3, 0, False), (op_LD, 7, 0, False), (op_LQ, 0, 0xF, False),
      (op_LWL, 0, 3, False), (op_LWR, 0, 3, False), (op_LDL, 0, 7, False), (op_LDR, 0, 7, False),
      (op_SB, 0, 0, True), (op_SH, 1, 0, True), (op_SW, 3, 0, True), (op_SD, 7, 0, True), (op_SQ, 0, 0xF, True),
      (op_SWL, 0, 3, False), (op_SWR, 0, 3, False), (op_SDL, 0, 7, False), (op_SDR, 0, 7, False)]"

lemma access_opcode_missing:
  assumes "(x, am, fm, w) \<in> set accesses" "Cpu_is_intCpu s" "ea s AND am = 0" "missing (ea s AND NOT fm) s"
  shows "op_interpret x e ex s =
    Some (Cancel (s\<lparr>cpu := cpuTlbMiss (ea s AND NOT fm) (branch (cpu s)) (if w then EXC_CODE_TLBS else EXC_CODE_TLBL) (cpu s)\<rparr>))"
proof -
  note ops = op_LB_def op_LBU_def op_LH_def op_LHU_def op_LW_def op_LWU_def op_LD_def op_LQ_def op_LWL_def op_LWR_def
    op_LDL_def op_LDR_def op_SB_def op_SH_def op_SW_def op_SD_def op_SQ_def op_SWL_def op_SWR_def op_SDL_def op_SDR_def
  note defs = LB_def LBU_def LH_def LHU_def LW_def LWU_def LD_def LQ_def LWL_def LWR_def LDL_def LDR_def SB_def SH_def
      SW_def SD_def SQ_def SWL_def SWR_def SDL_def SDR_def
  have "\<forall>(x, am, fm, w)\<in>set accesses. ea s AND am = 0 \<longrightarrow> missing (ea s AND NOT fm) s \<longrightarrow> op_interpret x e ex s =
    Some (Cancel (s\<lparr>cpu := cpuTlbMiss (ea s AND NOT fm) (branch (cpu s)) (if w then EXC_CODE_TLBS else EXC_CODE_TLBL) (cpu s)\<rparr>))"
    unfolding accesses_def
    by (simp add: ops mem_op_def defs misaligned_def access_defs access_missing assms(2))
  with assms show ?thesis by auto
qed

text \<open>The state in which the delay slot of a branch at \<open>a\<close> runs, with the instruction \<open>w\<close>.\<close>

definition slot_state :: "u32 \<Rightarrow> u32 \<Rightarrow> 'd ee \<Rightarrow> 'd ee" where
  "slot_state a w s = s\<lparr>branch2 := True, cpu := (cpu s)\<lparr>branch := 1, pc := a + 8, code := w\<rparr>\<rparr>"

lemma slot_missing:
  assumes "pc (cpu s) = a + 4" "Cpu_is_intCpu s"
    and "memRead32 (io_of e) (a + 4) (slot_state a (code (cpu s)) s) = Done w (slot_state a (code (cpu s)) s)"
    and "(GetInstruction w :: 'd opcode, am, fm, st) \<in> set accesses"
    and "ea (slot_state a w s) AND am = 0" "missing (ea (slot_state a w s) AND NOT fm) s"
  shows "\<exists>k. doBranch e (execI (Suc n) (e :: 'd env)) t s =
    Some (Cancel ((slot_state a w s)\<lparr>cpuBlockCycles := k, cpu := cpuTlbMiss (ea (slot_state a w s) AND NOT fm) 1
      (if st then EXC_CODE_TLBS else EXC_CODE_TLBL) (cpu (slot_state a w s))\<rparr>))"
proof -
  define s1 where "s1 = slot_state a (code (cpu s)) s"
  define k where "k = cpuBlockCycles s1 + of_nat (op_cycles (GetInstruction w :: 'd opcode)) *
    (2 - (drop_bit 18 (CP0 (cpu s) cp0_Config) AND 1))"
  define s4 where "s4 = (slot_state a w s)\<lparr>cpuBlockCycles := k\<rparr>"
  have start: "upd_cpu (\<lambda>c. c\<lparr>pc := pc (cpu s) + 4\<rparr>) (s\<lparr>branch2 := True, cpu := (cpu s)\<lparr>branch := 1\<rparr>\<rparr>) = s1"
    using assms(1) by (simp add: upd_cpu_def s1_def slot_state_def)
  have s4: "ea s4 = ea (slot_state a w s)" "Cpu_is_intCpu s4" "missing x s4 = missing x s" "branch (cpu s4) = 1" for x
    using assms(2) by (simp_all add: s4_def slot_state_def ea_def missing_def translate_def)
  have miss: "op_interpret (GetInstruction w) e (execI n e) s4 =
    Some (Cancel (s4\<lparr>cpu := cpuTlbMiss (ea s4 AND NOT fm) 1 (if st then EXC_CODE_TLBS else EXC_CODE_TLBL) (cpu s4)\<rparr>))"
    using access_opcode_missing [OF assms(4) s4(2), of e "execI n e"] assms(5,6) unfolding s4 by simp
  have "execI (Suc n) e (s\<lparr>branch2 := True, cpu := (cpu s)\<lparr>branch := 1\<rparr>\<rparr>) =
      op_interpret (GetInstruction w) e (execI n e) s4"
    unfolding execI.simps Let_def using start assms(3) assms(1)
    by (simp add: s1_def [symmetric] GetCurrentInstruction_def)
      (simp add: s4_def k_def s1_def slot_state_def upd_cpu_def)
  then have "doBranch e (execI (Suc n) e) t s = Some (Cancel
      (s4\<lparr>cpu := cpuTlbMiss (ea s4 AND NOT fm) 1 (if st then EXC_CODE_TLBS else EXC_CODE_TLBL) (cpu s4)\<rparr>))"
    unfolding doBranch_def doBranch_shared_def miss by simp
  moreover have "cpu s4 = cpu (slot_state a w s)" by (simp add: s4_def)
  ultimately show ?thesis unfolding s4(1) by (simp only: s4_def) blast
qed

lemma cpuTlbMiss_entry:
  assumes "\<not> st_EXL c" "\<not> st_ERL c" "x = 8 \<or> x = 12"
  shows "CP0 (cpuTlbMiss a 1 x c) cp0_EPC = pc c - 8" "CP0 (cpuTlbMiss a 1 x c) cp0_Cause = 0x80000000 OR x"
    "CP0 (cpuTlbMiss a 1 x c) cp0_BadVAddr = a" "st_EXL (cpuTlbMiss a 1 x c)" "branch (cpuTlbMiss a 1 x c) = 0"
    "pc (cpuTlbMiss a 1 x c) = (if st_BEV c then 0xBFC00200 else 0x80000000)"
    "pc (ERET_regs (cpuTlbMiss a 1 x c)) = pc c - 8"
  using assms
  by (auto simp: cpuTlbMiss_def cpuException_def exception_vector_def ERET_regs_def event_within_def Let_def bit_simps)

text \<open>C21: precise exceptions in delay slots. When the instruction in the delay slot of a taken branch at
  address \<open>a\<close> accesses unmapped memory at an aligned address, whichever of the integer loads and stores it is
  (those of coprocessors 1 and 2 are not covered), and the processor is at neither the exception nor the
  error level, the interpreter
  abandons the branch: no register or memory is written, the exception program counter is the
  address of the branch with the BD bit set, BadVAddr holds the address, the processor is at exception level at the
  refill vector, and ERET resumes at the branch. The unaligned stores report the miss of a load.\<close>

theorem delay_slot_exception:
  assumes "pc (cpu s) = a + 4" "Cpu_is_intCpu s" "\<not> st_EXL (cpu s)" "\<not> st_ERL (cpu s)"
    and "memRead32 (io_of e) (a + 4) (slot_state a (code (cpu s)) s) = Done w (slot_state a (code (cpu s)) s)"
    and "(GetInstruction w :: 'd opcode, am, fm, st) \<in> set accesses"
    and "ea (slot_state a w s) AND am = 0" "missing (ea (slot_state a w s) AND NOT fm) s"
  shows "\<exists>s'. doBranch (e :: 'd env) (execI (Suc n) e) t s = Some (Cancel s') \<and>
    GPR (cpu s') = GPR (cpu s) \<and> HI (cpu s') = HI (cpu s) \<and> LO (cpu s') = LO (cpu s) \<and> host s' = host s \<and>
    CP0 (cpu s') cp0_EPC = a \<and> CP0 (cpu s') cp0_Cause = 0x80000000 OR (if st then 12 else 8) \<and>
    CP0 (cpu s') cp0_BadVAddr = ea (slot_state a w s) AND NOT fm \<and> st_EXL (cpu s') \<and> branch (cpu s') = 0 \<and>
    pc (cpu s') = (if st_BEV (cpu s) then 0xBFC00200 else 0x80000000) \<and> pc (cpu (ERET s')) = a"
proof -
  let ?c = "cpu (slot_state a w s)" and ?x = "ea (slot_state a w s) AND NOT fm"
  obtain k where *: "doBranch e (execI (Suc n) e) t s = Some (Cancel ((slot_state a w s)
      \<lparr>cpuBlockCycles := k, cpu := cpuTlbMiss ?x 1 (if st then EXC_CODE_TLBS else EXC_CODE_TLBL) ?c\<rparr>))"
    using slot_missing [OF assms(1,2,5-8)] by blast
  have c: "CP0 ?c = CP0 (cpu s)" "pc ?c = a + 8" "GPR ?c = GPR (cpu s)" "HI ?c = HI (cpu s)" "LO ?c = LO (cpu s)"
    by (simp_all add: slot_state_def)
  have "cpu (ERET s') = ERET_regs (cpu s')" for s' :: "'d ee" by (simp add: ERET_def intSetBranch_def upd_cpu_def)
  with cpuTlbMiss_entry [of ?c "if st then 12 else 8" ?x, unfolded c] assms(3,4) show ?thesis
    unfolding * by (simp add: c slot_state_def)
qed

text \<open>A program with a load from address 0 in the delay slot of a branch at 0x100000; only its own page is mapped.\<close>

definition slot_ee :: "unit ee" where
  "slot_ee = blank_ee\<lparr>cpu := (set_CP0 cp0_Status 0 cpuReset)\<lparr>pc := 0x100004\<rparr>, vmap := (vmap blank_ee)(0x100 := 0),
     host := store_le 0x100004 (0x8C020000 :: u32) (\<lambda>p. 0), CHECK_CACHE := False\<rparr>"

lemma slot_ee_sel:
  "Cpu_is_intCpu slot_ee" "pc (cpu slot_ee) = 0x100004" "code (cpu slot_ee) = 0" "GPR (cpu slot_ee) r = 0"
  "CP0 (cpu slot_ee) cp0_Status = 0" "vmap slot_ee 0x100 = 0" "vmap slot_ee 0 = vmap blank_ee 0"
  "CHECK_CACHE slot_ee = False" "RWFT slot_ee = RWFT blank_ee"
  by (simp_all add: slot_ee_def blank_ee_def vtlb_Init_maps cpuReset_def)

theorem delay_slot_exception_witness:
  "\<exists>s'. doBranch blank_env (execI 1 blank_env) 0x200000 slot_ee = Some (Cancel s') \<and>
    CP0 (cpu s') cp0_EPC = 0x100000 \<and> CP0 (cpu s') cp0_Cause = 0x80000008 \<and> pc (cpu s') = 0x80000000"
proof -
  have "translate 0 slot_ee = translate 0 blank_ee" by (simp add: translate_def page_of_def slot_ee_sel)
  then have "missing 0 slot_ee"
    by (simp add: missing_def slot_ee_sel blank_ee_def vtlb_Init_maps)
  moreover have "memRead32 (io_of blank_env) (0x100000 + 4) (slot_state 0x100000 0 slot_ee) =
      Done 0x8C020000 (slot_state 0x100000 0 slot_ee)"
    by (simp add: memRead32_def vtlb_memRead_def page_of_def slot_state_def slot_ee_sel)
      (simp add: slot_ee_def load_le_def store_le_def upt_rec)
  moreover have "(GetInstruction 0x8C020000 :: unit opcode, 3, 0, False) \<in> set accesses"
    by (simp add: GetInstruction_def tbl_Standard_def accesses_def) (simp add: op_LW_def)
  moreover have "ea (slot_state 0x100000 0x8C020000 slot_ee) = 0"
    by (simp add: ea_def slot_state_def opRs_def opImm_def slot_ee_sel lane_def)
  ultimately show ?thesis
    using delay_slot_exception [where s = slot_ee and a = "0x100000" and e = blank_env and w = "0x8C020000" and am = 3 and
      fm = 0 and st = False and n = 0 and t = "0x200000"] slot_ee_sel
    by auto
qed

subsection \<open>Wait loops\<close>

lemma wait_loop_runs:
  assumes "Cpu_is_intCpu s" "intLastBranchTo s = tar" "WaitLoop s"
  shows "\<not> can_skip tar s \<Longrightarrow> wait_loop tar s = intUpdateCPUCycles s"
    and "can_skip tar s \<Longrightarrow> cycle (cpu (wait_loop tar s)) = nextEventCycle (cpu (wait_loop tar s))"
proof -
  have "can_skip tar (intUpdateCPUCycles s) = can_skip tar s"
    by (simp add: can_skip_def intUpdateCPUCycles_def PSM_def vtlb_GetPhyPtr_def Let_def)
  then show "\<not> can_skip tar s \<Longrightarrow> wait_loop tar s = intUpdateCPUCycles s"
    "can_skip tar s \<Longrightarrow> cycle (cpu (wait_loop tar s)) = nextEventCycle (cpu (wait_loop tar s))"
    using assms by (simp_all add: wait_loop_def Let_def)
qed

lemma can_skip_RAM:
  assumes "tar \<noteq> 0x81fc0" "tar < pc (cpu s)" "PSM tar s \<noteq> 0"
  shows "\<not> can_skip tar s"
proof -
  have "0 < unat (pc (cpu s) - tar)"
    using assms(2) by (simp add: word_less_nat_alt unat_sub word_le_nat_alt)
  then have "0 < (unat (pc (cpu s) - tar) + 3) div 4" by simp
  then have "0 \<in> set [0..<(unat (pc (cpu s) - tar) + 3) div 4]" by simp
  with assms show ?thesis unfolding can_skip_def list_all_iff by fastforce
qed

text \<open>C22: the wait-loop speedup. The test is meant to recognise short loops of no-ops, but it looks at the
  address of the instruction's memory, not at the instruction: a backward branch into mapped memory is
  never sped up, whatever the loop holds, except at the one address of the exempted game; and a
  branch to the instruction after its delay slot, which loops nowhere, moves time to the next event.\<close>

theorem wait_loop_mapped:
  assumes "Cpu_is_intCpu s" "WaitLoop s" "intLastBranchTo s = tar"
  shows "(tar \<noteq> 0x81fc0 \<and> tar < pc (cpu s) \<and> PSM tar s \<noteq> 0 \<longrightarrow> wait_loop tar s = intUpdateCPUCycles s) \<and>
    (tar = 0x81fc0 \<or> tar = pc (cpu s) \<longrightarrow> cycle (cpu (wait_loop tar s)) = nextEventCycle (cpu (wait_loop tar s)))"
  using wait_loop_runs [OF assms(1,3,2)] can_skip_RAM [of tar s] by (auto simp: can_skip_def)

definition loop_ee :: "u32 \<Rightarrow> unit ee" where
  "loop_ee tar = blank_ee\<lparr>cpu := cpuReset\<lparr>pc := 0x100008, nextEventCycle := 500\<rparr>, WaitLoop := True, intLastBranchTo := tar,
     pmap := (\<lambda>pg. 0x10000000)\<rparr>"

theorem wait_loop_mapped_witness:
  "wait_loop 0x100000 (loop_ee 0x100000) = intUpdateCPUCycles (loop_ee 0x100000) \<and>
   cycle (cpu (wait_loop 0x100008 (loop_ee 0x100008))) = nextEventCycle (cpu (wait_loop 0x100008 (loop_ee 0x100008)))"
proof -
  have sel: "Cpu_is_intCpu (loop_ee t)" "WaitLoop (loop_ee t)" "intLastBranchTo (loop_ee t) = t" "pc (cpu (loop_ee t)) = 0x100008" for t
    by (simp_all add: loop_ee_def blank_ee_def vtlb_Init_maps)
  have "PSM 0x100000 (loop_ee 0x100000) \<noteq> 0"
    by (simp add: PSM_def vtlb_GetPhyPtr_def VTLB_PMAP_SZ_def vtlb_phys_is_handler_def loop_ee_def)
  then show ?thesis
    using wait_loop_mapped [OF sel(1-3), of "0x100000"] wait_loop_mapped [OF sel(1-3), of "0x100008"] by (simp add: sel)
qed

end
