(* ===== verification/IOP_State.thy ===== *)
theory IOP_State
  imports EE_COP0
begin

text \<open>
  The I/O processor of src/pcsx2/R3000A.h and src/pcsx2/R3000A.cpp: its register file, instruction
  fields, exceptions, the scheduling of its events and the interrupt test. Field names carry a \<open>p\<close>
  where the Emotion Engine has a register of the same name. Signed 32-bit counters are words read with
  \<open>sint\<close>.
\<close>

subsection \<open>State\<close>

record psxRegisters =
  pGPR :: "5 word \<Rightarrow> u32"
  pHi :: u32
  pLo :: u32
  pCP0 :: "5 word \<Rightarrow> u32"
  pCP2D :: "5 word \<Rightarrow> u32"
  pCP2C :: "5 word \<Rightarrow> u32"
  ppc :: u32
  pcode :: u32
  pcycle :: u32
  pinterrupt :: u32
  ppcWriteback :: u32
  iopNextEventCycle :: u32
  piopBreak :: u32
  piopCycleEE :: u32
  psCycle :: "5 word \<Rightarrow> u32"
  peCycle :: "5 word \<Rightarrow> u32"

abbreviation (input) psx_Status :: "5 word" where "psx_Status \<equiv> 12"
abbreviation (input) psx_Cause :: "5 word" where "psx_Cause \<equiv> 13"
abbreviation (input) psx_EPC :: "5 word" where "psx_EPC \<equiv> 14"
abbreviation (input) psx_PRid :: "5 word" where "psx_PRid \<equiv> 15"

definition set_pCP0 :: "5 word \<Rightarrow> u32 \<Rightarrow> psxRegisters \<Rightarrow> psxRegisters" where
  "set_pCP0 r v s = s\<lparr>pCP0 := (pCP0 s)(r := v)\<rparr>"

text \<open>The register part of \<open>psxReset\<close>.\<close>

definition psxReset :: psxRegisters where
  "psxReset =
     \<lparr>pGPR = (\<lambda>r. 0), pHi = 0, pLo = 0,
      pCP0 = (\<lambda>r. 0)(psx_Status := 0x00400000, psx_PRid := 0x0000001f),
      pCP2D = (\<lambda>r. 0), pCP2C = (\<lambda>r. 0), ppc = 0xbfc00000, pcode = 0, pcycle = 0, pinterrupt = 0,
      ppcWriteback = 0, iopNextEventCycle = 4, piopBreak = 0, piopCycleEE = - 1,
      psCycle = (\<lambda>r. 0), peCycle = (\<lambda>r. 0)\<rparr>"

subsection \<open>Instruction fields\<close>

definition psxRd :: "psxRegisters \<Rightarrow> 5 word" where "psxRd s = ucast (drop_bit 11 (pcode s) AND 0x1F)"
definition psxRt :: "psxRegisters \<Rightarrow> 5 word" where "psxRt s = ucast (drop_bit 16 (pcode s) AND 0x1F)"
definition psxRs :: "psxRegisters \<Rightarrow> 5 word" where "psxRs s = ucast (drop_bit 21 (pcode s) AND 0x1F)"
definition psxSa :: "psxRegisters \<Rightarrow> nat" where "psxSa s = unat (drop_bit 6 (pcode s) AND 0x1F)"
definition psxFunct :: "psxRegisters \<Rightarrow> nat" where "psxFunct s = unat (pcode s AND 0x3F)"
definition psxImm :: "psxRegisters \<Rightarrow> u32" where "psxImm s = scast (ucast (pcode s) :: u16)"
definition psxImmU :: "psxRegisters \<Rightarrow> u32" where "psxImmU s = pcode s AND 0xffff"
definition psxInstrucTarget :: "psxRegisters \<Rightarrow> u32" where "psxInstrucTarget s = pcode s AND 0x03ffffff"
definition psxJumpTarget :: "psxRegisters \<Rightarrow> u32" where
  "psxJumpTarget s = push_bit 2 (psxInstrucTarget s) + (ppc s AND 0xf0000000)"
definition psxBranchTarget :: "psxRegisters \<Rightarrow> u32" where
  "psxBranchTarget s = psxImm s * 4 + ppc s"

abbreviation rRs :: "psxRegisters \<Rightarrow> u32" where "rRs s \<equiv> pGPR s (psxRs s)"
abbreviation rRt :: "psxRegisters \<Rightarrow> u32" where "rRt s \<equiv> pGPR s (psxRt s)"

definition set_GPR_psx :: "5 word \<Rightarrow> u32 \<Rightarrow> psxRegisters \<Rightarrow> psxRegisters" where
  "set_GPR_psx r v s = s\<lparr>pGPR := (pGPR s)(r := v)\<rparr>"

text \<open>\<open>_SetLink(x)\<close>.\<close>

definition psxSetLink :: "5 word \<Rightarrow> psxRegisters \<Rightarrow> psxRegisters" where
  "psxSetLink x s = set_GPR_psx x (ppc s + 4) s"

subsection \<open>Exceptions\<close>

definition psxException :: "u32 \<Rightarrow> bool \<Rightarrow> psxRegisters \<Rightarrow> psxRegisters" where
  "psxException excode bd s =
     (let s1 = set_pCP0 psx_Cause ((pCP0 s psx_Cause AND NOT 0x7f) OR excode) s;
          s2 = (if bd
                then set_pCP0 psx_EPC (ppc s1 - 4) (set_pCP0 psx_Cause (pCP0 s1 psx_Cause OR 0x80000000) s1)
                else set_pCP0 psx_EPC (ppc s1) s1);
          s3 = s2\<lparr>ppc := (if pCP0 s2 psx_Status AND 0x400000 \<noteq> 0 then 0xbfc00180 else 0x80000080)\<rparr>
      in set_pCP0 psx_Status
           ((pCP0 s3 psx_Status AND NOT 0x3f) OR push_bit 2 (pCP0 s3 psx_Status AND 0xf)) s3)"

definition psxRFE :: "psxRegisters \<Rightarrow> psxRegisters" where
  "psxRFE s = set_pCP0 psx_Status
     ((pCP0 s psx_Status AND 0xfffffff0) OR drop_bit 2 (pCP0 s psx_Status AND 0x3c)) s"

subsection \<open>Event scheduling\<close>

definition psxSetNextBranch :: "u32 \<Rightarrow> u32 \<Rightarrow> psxRegisters \<Rightarrow> psxRegisters" where
  "psxSetNextBranch startCycle delta s =
     (if sint (iopNextEventCycle s - startCycle) > sint delta
      then s\<lparr>iopNextEventCycle := startCycle + delta\<rparr> else s)"

definition psxSetNextBranchDelta :: "u32 \<Rightarrow> psxRegisters \<Rightarrow> psxRegisters" where
  "psxSetNextBranchDelta delta s = psxSetNextBranch (pcycle s) delta s"

definition psxTestCycle :: "u32 \<Rightarrow> u32 \<Rightarrow> psxRegisters \<Rightarrow> bool" where
  "psxTestCycle startCycle delta s \<longleftrightarrow> sint (pcycle s - startCycle) \<ge> sint delta"

definition psxRemainingCycles :: "5 word \<Rightarrow> psxRegisters \<Rightarrow> u32" where
  "psxRemainingCycles n s =
     (if bit (pinterrupt s) (unat n) then (pcycle s - psCycle s n) + peCycle s n else 0)"

text \<open>\<open>PSX_INT\<close> schedules an event of the IOP and, when the IOP would not reach it in its current time
  slice, brings the next event test of the Emotion Engine forward. The product with 8 is that of
  unsigned values.\<close>

definition PSX_INT :: "5 word \<Rightarrow> u32 \<Rightarrow> psxRegisters \<times> cpuRegisters \<Rightarrow> psxRegisters \<times> cpuRegisters" where
  "PSX_INT n ecycle = (\<lambda>(s0, c).
     let s1 = s0\<lparr>pinterrupt := set_bit (unat n) (pinterrupt s0),
                psCycle := (psCycle s0)(n := pcycle s0), peCycle := (peCycle s0)(n := ecycle)\<rparr>;
         s = psxSetNextBranchDelta ecycle s1;
         iopDelta = (iopNextEventCycle s - pcycle s) * 8;
         delta = iopDelta - piopCycleEE s
     in (s, if sint (piopCycleEE s) < sint iopDelta \<and> cycle_diff (nextEventCycle c) (cycle c) > sint delta
            then c\<lparr>nextEventCycle := cycle c + scast delta\<rparr> else c))"

subsection \<open>Frame facts\<close>

lemma set_pCP0_frame [simp]:
  "pGPR (set_pCP0 r v s) = pGPR s" "ppc (set_pCP0 r v s) = ppc s" "pcode (set_pCP0 r v s) = pcode s"
  "pHi (set_pCP0 r v s) = pHi s" "pLo (set_pCP0 r v s) = pLo s" "pCP0 (set_pCP0 r v s) = (pCP0 s)(r := v)"
  "pcycle (set_pCP0 r v s) = pcycle s" "piopCycleEE (set_pCP0 r v s) = piopCycleEE s"
  by (simp_all add: set_pCP0_def)

lemma set_GPR_psx_frame [simp]:
  "pGPR (set_GPR_psx r v s) = (pGPR s)(r := v)" "ppc (set_GPR_psx r v s) = ppc s" "pcode (set_GPR_psx r v s) = pcode s"
  "pHi (set_GPR_psx r v s) = pHi s" "pLo (set_GPR_psx r v s) = pLo s" "pCP0 (set_GPR_psx r v s) = pCP0 s"
  "pcycle (set_GPR_psx r v s) = pcycle s" "piopCycleEE (set_GPR_psx r v s) = piopCycleEE s"
  by (simp_all add: set_GPR_psx_def)

lemma psxException_frame [simp]:
  "pGPR (psxException x bd s) = pGPR s" "pcode (psxException x bd s) = pcode s" "pHi (psxException x bd s) = pHi s"
  "pLo (psxException x bd s) = pLo s" "pcycle (psxException x bd s) = pcycle s"
  "piopCycleEE (psxException x bd s) = piopCycleEE s"
  by (simp_all add: psxException_def Let_def)

end
