(* ===== verification/IOP_Mem.thy ===== *)
theory IOP_Mem
  imports IOP_State VTLB
begin

text \<open>
  The address space of the I/O processor, src/pcsx2/IopMem.cpp and the inline fast paths of
  src/pcsx2/IopMem.h: two tables of 64 KB pages for reads and writes, the SBUS registers shared with the
  Emotion Engine, and the hardware pages, whose handlers belong to other components. Pointers are
  host addresses and a null entry is 0, as in the code.
\<close>

subsection \<open>State\<close>

text \<open>The host addresses of the memories: \<open>iopMem\<close>, \<open>iopHw\<close>, the ROMs of \<open>eeMem\<close> and \<open>eeHw\<close>.\<close>

record iop_layout =
  iMain :: u64
  iP :: u64
  iSif :: u64
  iHw :: u64
  iROM :: u64
  iROM1 :: u64
  iROM2 :: u64
  eeHw :: u64

record 'd iop =
  psx :: psxRegisters
  ee_regs :: cpuRegisters
  psxMemWLUT :: "13 word \<Rightarrow> u64"
  psxMemRLUT :: "13 word \<Rightarrow> u64"
  ihost :: "u64 \<Rightarrow> u8"
  ilayout :: iop_layout
  iopIsDelaySlot :: bool
  ibranch2 :: bool
  branchPC :: u32
  iopEventAction :: bool
  iopEventTestIsActive :: bool
  eeEventTestIsActive :: bool
  psxNextStartCounter :: u32
  psxNextDeltaCounter :: u32
  CurrentIRX_length :: nat
  idev :: 'd

text \<open>Code outside this model, by access width in bytes: the hardware pages 1, 3 and 8 at 0x1f800000, the
  pages of the CDVD (\<open>psxHw4\<close>), DEV9 and the SPU2, and the recompiler's \<open>psxCpu->Clear\<close>.\<close>

record 'd iop_io =
  hw_read :: "nat \<Rightarrow> u32 \<Rightarrow> 'd iop \<Rightarrow> u32 \<times> 'd iop"
  hw_write :: "nat \<Rightarrow> u32 \<Rightarrow> u32 \<Rightarrow> 'd iop \<Rightarrow> 'd iop"
  psxHw4Read8 :: "u32 \<Rightarrow> 'd iop \<Rightarrow> u8 \<times> 'd iop"
  psxHw4Write8 :: "u32 \<Rightarrow> u8 \<Rightarrow> 'd iop \<Rightarrow> 'd iop"
  DEV9read :: "nat \<Rightarrow> u32 \<Rightarrow> 'd iop \<Rightarrow> u32 \<times> 'd iop"
  DEV9write :: "nat \<Rightarrow> u32 \<Rightarrow> u32 \<Rightarrow> 'd iop \<Rightarrow> 'd iop"
  SPU2read :: "u32 \<Rightarrow> 'd iop \<Rightarrow> u16 \<times> 'd iop"
  SPU2write :: "u32 \<Rightarrow> u16 \<Rightarrow> 'd iop \<Rightarrow> 'd iop"
  psxCpu_Clear :: "u32 \<Rightarrow> u32 \<Rightarrow> 'd \<Rightarrow> 'd"

definition ret_cast :: "'a::len word \<times> 's \<Rightarrow> 'b::len word \<times> 's" where
  "ret_cast = (\<lambda>(v, s). (ucast v, s))"

subsection \<open>Direct accesses\<close>

definition peek :: "u64 \<Rightarrow> 'd iop \<Rightarrow> 'a::len word" where "peek p s = load_le (ihost s) p"
definition poke :: "u64 \<Rightarrow> 'a::len word \<Rightarrow> 'd iop \<Rightarrow> 'd iop" where "poke p v s = s\<lparr>ihost := store_le p v (ihost s)\<rparr>"

text \<open>\<open>psxHu8/16/32(mem)\<close>, \<open>psxSu8/16/32(mem)\<close> and \<open>psHu16/32(mem)\<close> are array elements.\<close>

definition psxHu :: "u32 \<Rightarrow> 'd iop \<Rightarrow> u64" where "psxHu mem s = iHw (ilayout s) + ucast (mem AND 0xffff)"
definition psxSu :: "u32 \<Rightarrow> 'd iop \<Rightarrow> u64" where "psxSu mem s = iSif (ilayout s) + ucast (mem AND 0x00ff)"
definition psHu :: "u32 \<Rightarrow> 'd iop \<Rightarrow> u64" where "psHu mem s = eeHw (ilayout s) + ucast (mem AND 0xffff)"

abbreviation (input) SBUS_F200 :: u32 where "SBUS_F200 \<equiv> 0x1000F200"
abbreviation (input) SBUS_F210 :: u32 where "SBUS_F210 \<equiv> 0x1000F210"
abbreviation (input) SBUS_F220 :: u32 where "SBUS_F220 \<equiv> 0x1000F220"
abbreviation (input) SBUS_F230 :: u32 where "SBUS_F230 \<equiv> 0x1000F230"
abbreviation (input) SBUS_F240 :: u32 where "SBUS_F240 \<equiv> 0x1000F240"
abbreviation (input) SBUS_F260 :: u32 where "SBUS_F260 \<equiv> 0x1000F260"
abbreviation (input) HW_ICFG :: u32 where "HW_ICFG \<equiv> 0x1f801450"

definition iop_page :: "u32 \<Rightarrow> 13 word" where "iop_page mem = ucast (drop_bit 16 mem)"

subsection \<open>Reset\<close>

text \<open>Main memory is mapped four times into the first 8 MB; the ROMs are read-only.\<close>

definition reset_WLUT :: "iop_layout \<Rightarrow> 13 word \<Rightarrow> u64" where
  "reset_WLUT l pg =
     (if pg < 0x80 then iMain l + push_bit 16 (ucast (pg AND 0x1f))
      else if pg = 0x1f00 then iP l else if pg = 0x1f80 then iHw l else 0)"

definition reset_RLUT :: "iop_layout \<Rightarrow> 13 word \<Rightarrow> u64" where
  "reset_RLUT l pg =
     (if pg < 0x80 then iMain l + push_bit 16 (ucast (pg AND 0x1f))
      else if pg = 0x1d00 then iSif l
      else if 0x1e40 \<le> pg \<and> pg < 0x1e48 then iROM2 l + push_bit 16 (ucast (pg - 0x1e40))
      else if 0x1e00 \<le> pg \<and> pg < 0x1e40 then iROM1 l + push_bit 16 (ucast (pg - 0x1e00))
      else if pg = 0x1f00 then iP l else if pg = 0x1f80 then iHw l
      else if 0x1fc0 \<le> pg then iROM l + push_bit 16 (ucast (pg - 0x1fc0))
      else 0)"

definition iopMemoryReserve_Reset :: "'d iop \<Rightarrow> 'd iop" where
  "iopMemoryReserve_Reset s = s\<lparr>psxMemWLUT := reset_WLUT (ilayout s), psxMemRLUT := reset_RLUT (ilayout s)\<rparr>"

subsection \<open>Reads\<close>

definition iopMemRead8_slow :: "'d iop_io \<Rightarrow> u32 \<Rightarrow> 'd iop \<Rightarrow> u8 \<times> 'd iop" where
  "iopMemRead8_slow io mem0 s =
     (let mem = mem0 AND 0x1fffffff; t = drop_bit 16 mem in
      if t = 0x1f80 then
        if mem AND 0xf000 \<in> {0x1000, 0x3000, 0x8000} then ret_cast (hw_read io 1 mem s)
        else (peek (psxHu mem s) s, s)
      else if t = 0x1f40 then psxHw4Read8 io mem s
      else
        let p = psxMemRLUT s (iop_page mem) in
        if p \<noteq> 0 then (peek (p + ucast (mem AND 0xffff)) s, s)
        else if t = 0x1000 then ret_cast (DEV9read io 1 mem s)
        else (0, s))"

text \<open>The SBUS window at 0x1d000000 of the 16 and 32 bit reads.\<close>

definition sbus_read16 :: "u32 \<Rightarrow> 'd iop \<Rightarrow> u16" where
  "sbus_read16 mem s =
     (let r = mem AND 0xF0 in
      if r = 0x00 then peek (psHu SBUS_F200 s) s
      else if r = 0x10 then peek (psHu SBUS_F210 s) s
      else if r = 0x40 then peek (psHu SBUS_F240 s) s OR 0x0002
      else if r = 0x60 then 0
      else peek (psxHu mem s) s)"

definition iopMemRead16_slow :: "'d iop_io \<Rightarrow> u32 \<Rightarrow> 'd iop \<Rightarrow> u16 \<times> 'd iop" where
  "iopMemRead16_slow io mem0 s =
     (let mem = mem0 AND 0x1fffffff; t = drop_bit 16 mem in
      if t = 0x1f80 then
        if mem AND 0xf000 \<in> {0x1000, 0x3000, 0x8000} then ret_cast (hw_read io 2 mem s)
        else (peek (psxHu mem s) s, s)
      else
        let p = psxMemRLUT s (iop_page mem) in
        if p \<noteq> 0 then
          if t = 0x1d00 then (sbus_read16 mem s, s) else (peek (p + ucast (mem AND 0xffff)) s, s)
        else if t = 0x1F90 then SPU2read io mem s
        else if t = 0x1000 then ret_cast (DEV9read io 2 mem s)
        else (0, s))"

definition sbus_read32 :: "u32 \<Rightarrow> 'd iop \<Rightarrow> u32" where
  "sbus_read32 mem s =
     (let r = mem AND 0x8F0 in
      if r = 0x00 then peek (psHu SBUS_F200 s) s
      else if r = 0x10 then peek (psHu SBUS_F210 s) s
      else if r = 0x20 then peek (psHu SBUS_F220 s) s
      else if r = 0x30 then peek (psHu SBUS_F230 s) s
      else if r = 0x40 then peek (psHu SBUS_F240 s) s OR 0xF0000002
      else if r = 0x60 then 0
      else peek (psxHu mem s) s)"

definition iopMemRead32_slow :: "'d iop_io \<Rightarrow> u32 \<Rightarrow> 'd iop \<Rightarrow> u32 \<times> 'd iop" where
  "iopMemRead32_slow io mem0 s =
     (let mem = mem0 AND 0x1fffffff; t = drop_bit 16 mem in
      if t = 0x1f80 then
        if mem AND 0xf000 \<in> {0x1000, 0x3000, 0x8000} then hw_read io 4 mem s
        else (peek (psxHu mem s) s, s)
      else
        let p = psxMemRLUT s (iop_page mem) in
        if p \<noteq> 0 then
          if t = 0x1d00 then (sbus_read32 mem s, s) else (peek (p + ucast (mem AND 0xffff)) s, s)
        else if t = 0x1000 then DEV9read io 4 mem s
        else (0, s))"

definition iopMemRead8 :: "'d iop_io \<Rightarrow> u32 \<Rightarrow> 'd iop \<Rightarrow> u8 \<times> 'd iop" where
  "iopMemRead8 io mem0 s =
     (let mem = mem0 AND 0x1fffffff; t = drop_bit 16 mem; p = psxMemRLUT s (ucast t) in
      if t \<noteq> 0x1f80 \<and> t \<noteq> 0x1f40 \<and> p \<noteq> 0 then (peek (p + ucast (mem AND 0xffff)) s, s)
      else iopMemRead8_slow io mem s)"

definition iopMemRead16 :: "'d iop_io \<Rightarrow> u32 \<Rightarrow> 'd iop \<Rightarrow> u16 \<times> 'd iop" where
  "iopMemRead16 io mem0 s =
     (let mem = mem0 AND 0x1fffffff; t = drop_bit 16 mem; p = psxMemRLUT s (ucast t) in
      if t \<noteq> 0x1f80 \<and> t \<noteq> 0x1d00 \<and> p \<noteq> 0 then (peek (p + ucast (mem AND 0xffff)) s, s)
      else iopMemRead16_slow io mem s)"

definition iopMemRead32 :: "'d iop_io \<Rightarrow> u32 \<Rightarrow> 'd iop \<Rightarrow> u32 \<times> 'd iop" where
  "iopMemRead32 io mem0 s =
     (let mem = mem0 AND 0x1fffffff; t = drop_bit 16 mem; p = psxMemRLUT s (ucast t) in
      if t \<noteq> 0x1f80 \<and> t \<noteq> 0x1d00 \<and> p \<noteq> 0 then (peek (p + ucast (mem AND 0xffff)) s, s)
      else iopMemRead32_slow io mem s)"

subsection \<open>Writes\<close>

text \<open>Stores reach memory only while the cache is not isolated (bit 16 of Status), and invalidate recompiled
  code.\<close>

definition isolated :: "'d iop \<Rightarrow> bool" where "isolated s \<longleftrightarrow> pCP0 (psx s) psx_Status AND 0x10000 \<noteq> 0"

definition ram_store :: "'d iop_io \<Rightarrow> u64 \<Rightarrow> u32 \<Rightarrow> 'a::len word \<Rightarrow> 'd iop \<Rightarrow> 'd iop" where
  "ram_store io p mem v s =
     (let s1 = poke (p + ucast (mem AND 0xffff)) v s
      in s1\<lparr>idev := psxCpu_Clear io (mem AND NOT 3) 1 (idev s1)\<rparr>)"

definition iopMemWrite8 :: "'d iop_io \<Rightarrow> u32 \<Rightarrow> u8 \<Rightarrow> 'd iop \<Rightarrow> 'd iop" where
  "iopMemWrite8 io mem0 v s =
     (let mem = mem0 AND 0x1fffffff; t = drop_bit 16 mem in
      if t = 0x1f80 then
        if mem AND 0xf000 \<in> {0x1000, 0x3000, 0x8000} then hw_write io 1 mem (ucast v) s
        else poke (psxHu mem s) v s
      else if t = 0x1f40 then psxHw4Write8 io mem v s
      else
        let p = psxMemWLUT s (iop_page mem) in
        if p \<noteq> 0 \<and> \<not> isolated s then ram_store io p mem v s
        else if t = 0x1d00 then poke (psxSu mem s) v s
        else if t = 0x1000 then DEV9write io 1 mem (ucast v) s
        else s)"

text \<open>The control register F240: writing bit 5 or 7 selects mode 2, and the bits 4 to 7 written toggle, all
  together, by whether any of them is set.\<close>

definition sbus_control :: "'a::len word \<Rightarrow> 'a word \<Rightarrow> 'a word" where
  "sbus_control v f =
     (let temp = v AND 0xF0;
          f1 = (if v AND 0x20 \<noteq> 0 \<or> v AND 0x80 \<noteq> 0 then (f AND NOT 0xF000) OR 0x2000 else f)
      in if f1 AND temp \<noteq> 0 then f1 AND NOT temp else f1 OR temp)"

definition sbus_write16 :: "u32 \<Rightarrow> u16 \<Rightarrow> 'd iop \<Rightarrow> 'd iop" where
  "sbus_write16 mem v s =
     (let r = mem AND 0x8f0 in
      if r = 0x10 then poke (psHu SBUS_F210 s) v s
      else if r = 0x40 then poke (psHu SBUS_F240 s) (sbus_control v (peek (psHu SBUS_F240 s) s)) s
      else if r = 0x60 then poke (psHu SBUS_F260 s) (0 :: u32) s
      else poke (psxSu mem s) v s)"

definition iopMemWrite16 :: "'d iop_io \<Rightarrow> u32 \<Rightarrow> u16 \<Rightarrow> 'd iop \<Rightarrow> 'd iop" where
  "iopMemWrite16 io mem0 v s =
     (let mem = mem0 AND 0x1fffffff; t = drop_bit 16 mem in
      if t = 0x1f80 then
        if mem AND 0xf000 \<in> {0x1000, 0x3000, 0x8000} then hw_write io 2 mem (ucast v) s
        else poke (psxHu mem s) v s
      else
        let p = psxMemWLUT s (iop_page mem) in
        if p \<noteq> 0 \<and> \<not> isolated s then ram_store io p mem v s
        else if t = 0x1d00 then sbus_write16 mem v s
        else if t = 0x1F90 then SPU2write io mem v s
        else if t = 0x1000 then DEV9write io 2 mem (ucast v) s
        else s)"

definition sbus_write32 :: "u32 \<Rightarrow> u32 \<Rightarrow> 'd iop \<Rightarrow> 'd iop" where
  "sbus_write32 mem v s =
     (let r = mem AND 0x8f0 in
      if r = 0x00 then s
      else if r = 0x10 then poke (psHu SBUS_F210 s) v s
      else if r = 0x20 then poke (psHu SBUS_F220 s) (peek (psHu SBUS_F220 s) s AND NOT v) s
      else if r = 0x30 then poke (psHu SBUS_F230 s) (peek (psHu SBUS_F230 s) s OR v) s
      else if r = 0x40 then poke (psHu SBUS_F240 s) (sbus_control v (peek (psHu SBUS_F240 s) s)) s
      else if r = 0x60 then poke (psHu SBUS_F260 s) (0 :: u32) s
      else poke (psxSu mem s) v s)"

definition iopMemWrite32 :: "'d iop_io \<Rightarrow> u32 \<Rightarrow> u32 \<Rightarrow> 'd iop \<Rightarrow> 'd iop" where
  "iopMemWrite32 io mem0 v s =
     (let mem = mem0 AND 0x1fffffff; t = drop_bit 16 mem in
      if t = 0x1f80 then
        if mem AND 0xf000 \<in> {0x1000, 0x3000, 0x8000} then hw_write io 4 mem v s
        else poke (psxHu mem s) v s
      else
        let p = psxMemWLUT s (iop_page mem) in
        if p \<noteq> 0 \<and> \<not> isolated s then ram_store io p mem v s
        else if t = 0x1d00 then sbus_write32 mem v s
        else if t = 0x1000 then DEV9write io 4 mem v s
        else s)"

subsection \<open>Strings\<close>

text \<open>\<open>while ((c = iopMemRead8(mem++)) && maxlen--)\<close>: at most \<open>maxlen\<close> characters, and the character after
  them is still read.\<close>

fun iopMemReadString :: "'d iop_io \<Rightarrow> u32 \<Rightarrow> nat \<Rightarrow> 'd iop \<Rightarrow> u8 list \<times> 'd iop" where
  "iopMemReadString io mem maxlen s =
     (let (c, s1) = iopMemRead8 io mem s in
      if c = 0 then ([], s1)
      else case maxlen of
        0 \<Rightarrow> ([], s1)
      | Suc n \<Rightarrow> let (cs, s2) = iopMemReadString io (mem + 1) n s1 in (c # cs, s2))"

declare iopMemReadString.simps [simp del]

text \<open>The buffer variant returns what it stores at \<open>dst\<close>, the terminating zero included; a buffer without
  space is left alone.\<close>

fun read_string_buf :: "'d iop_io \<Rightarrow> u32 \<Rightarrow> nat \<Rightarrow> 'd iop \<Rightarrow> u8 list \<times> 'd iop" where
  "read_string_buf io mem 0 s = ([], s)"
| "read_string_buf io mem (Suc left) s =
     (let (c, s1) = iopMemRead8 io mem s in
      if c = 0 then ([], s1)
      else let (cs, s2) = read_string_buf io (mem + 1) left s1 in (c # cs, s2))"

definition iopMemReadStringBuf :: "'d iop_io \<Rightarrow> nat \<Rightarrow> u32 \<Rightarrow> nat \<Rightarrow> 'd iop \<Rightarrow> u8 list \<times> 'd iop" where
  "iopMemReadStringBuf io cap mem maxlen s =
     (if cap = 0 then ([], s)
      else let (cs, s1) = read_string_buf io mem (min (cap - 1) maxlen) s in (cs @ [0], s1))"

end
