(* ===== verification/IOP_Interp.thy ===== *)
theory IOP_Interp
  imports IOP_Mem EE_ALU
begin

text \<open>
  The interpreter of the I/O processor: the instructions of src/pcsx2/R3000AOpcodeTables.cpp, the branches
  and the execution loop of src/pcsx2/R3000AInterpreter.cpp, the event test of src/pcsx2/R3000A.cpp and the
  interrupt requests of src/pcsx2/IopIrq.cpp. A branch runs its delay slot by calling the
  instruction step again, so every instruction takes that step as an argument; None is an execution
  cut off because the nesting depth given to it was too small.
\<close>

named_theorems psx_ops \<open>definitions of IOP instructions\<close>
named_theorems psx_tables \<open>definitions of IOP opcode tables\<close>
named_theorems psx_classes \<open>dispatch through IOP opcode tables\<close>

type_synonym 'd psx_exec = "'d iop \<Rightarrow> 'd iop option"

text \<open>Code outside this model, beside the memory handlers: the import hook of the module loader, the BIOS
  calls of PS1 mode, the counters, the event callbacks by number, and the geometry engine.\<close>

record 'd iop_env = "'d iop_io" +
  irxImportExecCached :: "u32 \<Rightarrow> u32 \<Rightarrow> 'd iop \<Rightarrow> bool \<times> 'd iop"
  psxBiosCall :: "'d iop \<Rightarrow> 'd iop"
  psxRcntUpdate :: "'d iop \<Rightarrow> 'd iop"
  iop_callback :: "5 word \<Rightarrow> 'd iop \<Rightarrow> 'd iop"
  gte_op :: "string \<Rightarrow> 'd iop \<Rightarrow> 'd iop"
  DEV9irqHandler :: "'d iop \<Rightarrow> int \<times> 'd iop"

type_synonym 'd psx_op = "'d iop_env \<Rightarrow> 'd psx_exec \<Rightarrow> 'd psx_exec"

definition iop_io_of :: "'d iop_env \<Rightarrow> 'd iop_io" where "iop_io_of e = iop_io.truncate e"

definition upd_psx :: "(psxRegisters \<Rightarrow> psxRegisters) \<Rightarrow> 'd iop \<Rightarrow> 'd iop" where
  "upd_psx f s = s\<lparr>psx := f (psx s)\<rparr>"

definition psx_reg_op :: "(psxRegisters \<Rightarrow> psxRegisters) \<Rightarrow> 'd psx_op" where
  "psx_reg_op f e ex s = Some (upd_psx f s)"

definition psx_mem_op :: "('d iop_io \<Rightarrow> 'd iop \<Rightarrow> 'd iop) \<Rightarrow> 'd psx_op" where
  "psx_mem_op f e ex s = Some (f (iop_io_of e) s)"

definition gte :: "string \<Rightarrow> 'd psx_op" where "gte n e ex s = Some (gte_op e n s)"

subsection \<open>Arithmetic\<close>

definition setRt :: "u32 \<Rightarrow> psxRegisters \<Rightarrow> psxRegisters" where
  "setRt v s = (if psxRt s = 0 then s else set_GPR_psx (psxRt s) v s)"
definition setRd :: "u32 \<Rightarrow> psxRegisters \<Rightarrow> psxRegisters" where
  "setRd v s = (if psxRd s = 0 then s else set_GPR_psx (psxRd s) v s)"

definition psxADDI :: "psxRegisters \<Rightarrow> psxRegisters" where [psx_ops]:
  "psxADDI s = setRt (rRs s + psxImm s) s"
definition psxADDIU :: "psxRegisters \<Rightarrow> psxRegisters" where [psx_ops]:
  "psxADDIU s = setRt (rRs s + psxImm s) s"
definition psxANDI :: "psxRegisters \<Rightarrow> psxRegisters" where [psx_ops]:
  "psxANDI s = setRt (rRs s AND psxImmU s) s"
definition psxORI :: "psxRegisters \<Rightarrow> psxRegisters" where [psx_ops]:
  "psxORI s = setRt (rRs s OR psxImmU s) s"
definition psxXORI :: "psxRegisters \<Rightarrow> psxRegisters" where [psx_ops]:
  "psxXORI s = setRt (rRs s XOR psxImmU s) s"
definition psxSLTI :: "psxRegisters \<Rightarrow> psxRegisters" where [psx_ops]:
  "psxSLTI s = setRt (if sint (rRs s) < sint (psxImm s) then 1 else 0) s"
definition psxSLTIU :: "psxRegisters \<Rightarrow> psxRegisters" where [psx_ops]:
  "psxSLTIU s = setRt (if rRs s < psxImm s then 1 else 0) s"
definition psxADD :: "psxRegisters \<Rightarrow> psxRegisters" where [psx_ops]:
  "psxADD s = setRd (rRs s + rRt s) s"
definition psxADDU :: "psxRegisters \<Rightarrow> psxRegisters" where [psx_ops]:
  "psxADDU s = setRd (rRs s + rRt s) s"
definition psxSUB :: "psxRegisters \<Rightarrow> psxRegisters" where [psx_ops]:
  "psxSUB s = setRd (rRs s - rRt s) s"
definition psxSUBU :: "psxRegisters \<Rightarrow> psxRegisters" where [psx_ops]:
  "psxSUBU s = setRd (rRs s - rRt s) s"
definition psxAND :: "psxRegisters \<Rightarrow> psxRegisters" where [psx_ops]:
  "psxAND s = setRd (rRs s AND rRt s) s"
definition psxOR :: "psxRegisters \<Rightarrow> psxRegisters" where [psx_ops]:
  "psxOR s = setRd (rRs s OR rRt s) s"
definition psxXOR :: "psxRegisters \<Rightarrow> psxRegisters" where [psx_ops]:
  "psxXOR s = setRd (rRs s XOR rRt s) s"
definition psxNOR :: "psxRegisters \<Rightarrow> psxRegisters" where [psx_ops]:
  "psxNOR s = setRd (NOT (rRs s OR rRt s)) s"
definition psxSLT :: "psxRegisters \<Rightarrow> psxRegisters" where [psx_ops]:
  "psxSLT s = setRd (if sint (rRs s) < sint (rRt s) then 1 else 0) s"
definition psxSLTU :: "psxRegisters \<Rightarrow> psxRegisters" where [psx_ops]:
  "psxSLTU s = setRd (if rRs s < rRt s then 1 else 0) s"
definition psxDIV :: "psxRegisters \<Rightarrow> psxRegisters" where [psx_ops]:
  "psxDIV s = (if rRt s = 0 then s\<lparr>pLo := (if sint (rRs s) < 0 then 1 else 0xFFFFFFFF), pHi := rRs s\<rparr>
     else if rRs s = 0x80000000 \<and> rRt s = 0xFFFFFFFF then s\<lparr>pLo := 0x80000000, pHi := 0\<rparr>
     else s\<lparr>pLo := word_of_int (sdiv_trunc (sint (rRs s)) (sint (rRt s))),
            pHi := word_of_int (smod_trunc (sint (rRs s)) (sint (rRt s)))\<rparr>)"
definition psxDIVU :: "psxRegisters \<Rightarrow> psxRegisters" where [psx_ops]:
  "psxDIVU s = (if rRt s = 0 then s\<lparr>pLo := 0xFFFFFFFF, pHi := rRs s\<rparr>
     else s\<lparr>pLo := rRs s div rRt s, pHi := rRs s mod rRt s\<rparr>)"
definition psxMULT :: "psxRegisters \<Rightarrow> psxRegisters" where [psx_ops]:
  "psxMULT s = (let res = (scast (rRs s) * scast (rRt s) :: u64) in s\<lparr>pLo := ucast res, pHi := ucast (drop_bit 32 res)\<rparr>)"
definition psxMULTU :: "psxRegisters \<Rightarrow> psxRegisters" where [psx_ops]:
  "psxMULTU s = (let res = (ucast (rRs s) * ucast (rRt s) :: u64) in s\<lparr>pLo := ucast res, pHi := ucast (drop_bit 32 res)\<rparr>)"
definition psxSLL :: "psxRegisters \<Rightarrow> psxRegisters" where [psx_ops]:
  "psxSLL s = setRd (push_bit (psxSa s) (rRt s)) s"
definition psxSRA :: "psxRegisters \<Rightarrow> psxRegisters" where [psx_ops]:
  "psxSRA s = setRd (signed_drop_bit (psxSa s) (rRt s)) s"
definition psxSRL :: "psxRegisters \<Rightarrow> psxRegisters" where [psx_ops]:
  "psxSRL s = setRd (drop_bit (psxSa s) (rRt s)) s"
definition psxSLLV :: "psxRegisters \<Rightarrow> psxRegisters" where [psx_ops]:
  "psxSLLV s = setRd (push_bit (unat (rRs s AND 0x1f)) (rRt s)) s"
definition psxSRAV :: "psxRegisters \<Rightarrow> psxRegisters" where [psx_ops]:
  "psxSRAV s = setRd (signed_drop_bit (unat (rRs s AND 0x1f)) (rRt s)) s"
definition psxSRLV :: "psxRegisters \<Rightarrow> psxRegisters" where [psx_ops]:
  "psxSRLV s = setRd (drop_bit (unat (rRs s AND 0x1f)) (rRt s)) s"
definition psxLUI :: "psxRegisters \<Rightarrow> psxRegisters" where [psx_ops]:
  "psxLUI s = setRt (push_bit 16 (pcode s)) s"
definition psxMFHI :: "psxRegisters \<Rightarrow> psxRegisters" where [psx_ops]:
  "psxMFHI s = setRd (pHi s) s"
definition psxMFLO :: "psxRegisters \<Rightarrow> psxRegisters" where [psx_ops]:
  "psxMFLO s = setRd (pLo s) s"
definition psxMTHI :: "psxRegisters \<Rightarrow> psxRegisters" where [psx_ops]:
  "psxMTHI s = s\<lparr>pHi := rRs s\<rparr>"
definition psxMTLO :: "psxRegisters \<Rightarrow> psxRegisters" where [psx_ops]:
  "psxMTLO s = s\<lparr>pLo := rRs s\<rparr>"
definition psxMFC0 :: "psxRegisters \<Rightarrow> psxRegisters" where [psx_ops]:
  "psxMFC0 s = setRt (pCP0 s (psxRd s)) s"
definition psxCFC0 :: "psxRegisters \<Rightarrow> psxRegisters" where [psx_ops]:
  "psxCFC0 s = setRt (pCP0 s (psxRd s)) s"
definition psxMTC0 :: "psxRegisters \<Rightarrow> psxRegisters" where [psx_ops]:
  "psxMTC0 s = set_pCP0 (psxRd s) (rRt s) s"
definition psxCTC0 :: "psxRegisters \<Rightarrow> psxRegisters" where [psx_ops]:
  "psxCTC0 s = set_pCP0 (psxRd s) (rRt s) s"

subsection \<open>Exceptions\<close>

definition psxBREAK :: "'d iop \<Rightarrow> 'd iop" where
  "psxBREAK s = upd_psx (\<lambda>r. psxException 0x24 (iopIsDelaySlot s) (r\<lparr>ppc := ppc r - 4\<rparr>)) s"

definition psxSYSCALL :: "'d iop \<Rightarrow> 'd iop" where
  "psxSYSCALL s = upd_psx (\<lambda>r. psxException 0x20 (iopIsDelaySlot s) (r\<lparr>ppc := ppc r - 4\<rparr>)) s"

subsection \<open>Loads and stores\<close>

definition oB :: "'d iop \<Rightarrow> u32" where "oB s = rRs (psx s) + psxImm (psx s)"

definition psxLB :: "'d iop_io \<Rightarrow> 'd iop \<Rightarrow> 'd iop" where
  "psxLB io s = (let (v, s1) = iopMemRead8 io (oB s) s in upd_psx (setRt (scast v)) s1)"
definition psxLBU :: "'d iop_io \<Rightarrow> 'd iop \<Rightarrow> 'd iop" where
  "psxLBU io s = (let (v, s1) = iopMemRead8 io (oB s) s in upd_psx (setRt (ucast v)) s1)"
definition psxLH :: "'d iop_io \<Rightarrow> 'd iop \<Rightarrow> 'd iop" where
  "psxLH io s = (let (v, s1) = iopMemRead16 io (oB s) s in upd_psx (setRt (scast v)) s1)"
definition psxLHU :: "'d iop_io \<Rightarrow> 'd iop \<Rightarrow> 'd iop" where
  "psxLHU io s = (let (v, s1) = iopMemRead16 io (oB s) s in upd_psx (setRt (ucast v)) s1)"
definition psxLW :: "'d iop_io \<Rightarrow> 'd iop \<Rightarrow> 'd iop" where
  "psxLW io s = (let (v, s1) = iopMemRead32 io (oB s) s in upd_psx (setRt v) s1)"

text \<open>The unaligned accesses merge by computed shifts, where the Emotion Engine uses tables.\<close>

definition byte_shift :: "u32 \<Rightarrow> nat" where "byte_shift a = unat (push_bit 3 (a AND 3))"

definition psx_lwl :: "nat \<Rightarrow> u32 \<Rightarrow> u32 \<Rightarrow> u32" where
  "psx_lwl sh reg mem = (reg AND drop_bit sh 0x00ffffff) OR push_bit (24 - sh) mem"
definition psx_lwr :: "nat \<Rightarrow> u32 \<Rightarrow> u32 \<Rightarrow> u32" where
  "psx_lwr sh reg mem = (reg AND push_bit (24 - sh) 0xffffff00) OR drop_bit sh mem"
definition psx_swl :: "nat \<Rightarrow> u32 \<Rightarrow> u32 \<Rightarrow> u32" where
  "psx_swl sh reg mem = drop_bit (24 - sh) reg OR (mem AND push_bit sh 0xffffff00)"
definition psx_swr :: "nat \<Rightarrow> u32 \<Rightarrow> u32 \<Rightarrow> u32" where
  "psx_swr sh reg mem = push_bit sh reg OR (mem AND drop_bit (24 - sh) 0x00ffffff)"

definition psxLWL :: "'d iop_io \<Rightarrow> 'd iop \<Rightarrow> 'd iop" where
  "psxLWL io s = (let sh = byte_shift (oB s); (mem, s1) = iopMemRead32 io (oB s AND 0xfffffffc) s
     in upd_psx (\<lambda>r. setRt (psx_lwl sh (rRt r) mem) r) s1)"
definition psxLWR :: "'d iop_io \<Rightarrow> 'd iop \<Rightarrow> 'd iop" where
  "psxLWR io s = (let sh = byte_shift (oB s); (mem, s1) = iopMemRead32 io (oB s AND 0xfffffffc) s
     in upd_psx (\<lambda>r. setRt (psx_lwr sh (rRt r) mem) r) s1)"

definition psxSB :: "'d iop_io \<Rightarrow> 'd iop \<Rightarrow> 'd iop" where
  "psxSB io s = iopMemWrite8 io (oB s) (ucast (rRt (psx s))) s"
definition psxSH :: "'d iop_io \<Rightarrow> 'd iop \<Rightarrow> 'd iop" where
  "psxSH io s = iopMemWrite16 io (oB s) (ucast (rRt (psx s))) s"
definition psxSW :: "'d iop_io \<Rightarrow> 'd iop \<Rightarrow> 'd iop" where
  "psxSW io s = iopMemWrite32 io (oB s) (rRt (psx s)) s"
definition psxSWL :: "'d iop_io \<Rightarrow> 'd iop \<Rightarrow> 'd iop" where
  "psxSWL io s = (let sh = byte_shift (oB s); (mem, s1) = iopMemRead32 io (oB s AND 0xfffffffc) s
     in iopMemWrite32 io (oB s1 AND 0xfffffffc) (psx_swl sh (rRt (psx s1)) mem) s1)"
definition psxSWR :: "'d iop_io \<Rightarrow> 'd iop \<Rightarrow> 'd iop" where
  "psxSWR io s = (let sh = byte_shift (oB s); (mem, s1) = iopMemRead32 io (oB s AND 0xfffffffc) s
     in iopMemWrite32 io (oB s1 AND 0xfffffffc) (psx_swr sh (rRt (psx s1)) mem) s1)"

subsection \<open>Events\<close>

abbreviation (input) IopEvt_SIF2 :: "5 word" where "IopEvt_SIF2 \<equiv> 0"
abbreviation (input) IopEvt_Cdvd :: "5 word" where "IopEvt_Cdvd \<equiv> 1"
abbreviation (input) IopEvt_SIF0 :: "5 word" where "IopEvt_SIF0 \<equiv> 2"
abbreviation (input) IopEvt_SIF1 :: "5 word" where "IopEvt_SIF1 \<equiv> 3"
abbreviation (input) IopEvt_Dma11 :: "5 word" where "IopEvt_Dma11 \<equiv> 4"
abbreviation (input) IopEvt_Dma12 :: "5 word" where "IopEvt_Dma12 \<equiv> 5"
abbreviation (input) IopEvt_SIO :: "5 word" where "IopEvt_SIO \<equiv> 6"
abbreviation (input) IopEvt_Cdrom :: "5 word" where "IopEvt_Cdrom \<equiv> 7"
abbreviation (input) IopEvt_CdromRead :: "5 word" where "IopEvt_CdromRead \<equiv> 8"
abbreviation (input) IopEvt_CdvdRead :: "5 word" where "IopEvt_CdvdRead \<equiv> 9"
abbreviation (input) IopEvt_CdvdSectorReady :: "5 word" where "IopEvt_CdvdSectorReady \<equiv> 10"
abbreviation (input) IopEvt_DEV9 :: "5 word" where "IopEvt_DEV9 \<equiv> 11"
abbreviation (input) IopEvt_USB :: "5 word" where "IopEvt_USB \<equiv> 12"

text \<open>The test of one event; that of the SIO differs in its callback only.\<close>

definition IopTestEvent :: "'d iop_env \<Rightarrow> 5 word \<Rightarrow> 'd iop \<Rightarrow> 'd iop" where
  "IopTestEvent e n s =
     (let r = psx s in
      if \<not> bit (pinterrupt r) (unat n) then s
      else if psxTestCycle (psCycle r n) (peCycle r n) r
      then iop_callback e n (s\<lparr>psx := r\<lparr>pinterrupt := unset_bit (unat n) (pinterrupt r)\<rparr>\<rparr>)
      else s\<lparr>psx := psxSetNextBranch (psCycle r n) (peCycle r n) r\<rparr>)"

definition common_events :: "5 word list" where
  "common_events = [IopEvt_SIF0, IopEvt_SIF1, IopEvt_SIF2, IopEvt_SIO, IopEvt_CdvdSectorReady, IopEvt_CdvdRead]"

definition rare_events :: "5 word list" where
  "rare_events = [IopEvt_Cdvd, IopEvt_Dma11, IopEvt_Dma12, IopEvt_Cdrom, IopEvt_CdromRead, IopEvt_DEV9, IopEvt_USB]"

definition psxTestInterrupts :: "'d iop_env \<Rightarrow> 'd iop \<Rightarrow> 'd iop" where
  "psxTestInterrupts e s =
     (let s1 = fold (IopTestEvent e) common_events s in
      if list_ex (\<lambda>n. bit (pinterrupt (psx s1)) (unat n)) rare_events
      then fold (IopTestEvent e) rare_events s1 else s1)"

definition iopWaitCycles :: u32 where "iopWaitCycles = 384"

definition iop_irq_pending :: "'d iop \<Rightarrow> bool" where
  "iop_irq_pending s \<longleftrightarrow>
     peek (psxHu 0x1078 s) s \<noteq> (0 :: u32) \<and> peek (psxHu 0x1070 s) s AND peek (psxHu 0x1074 s) s \<noteq> (0 :: u32)"

definition iopEventTest :: "'d iop_env \<Rightarrow> 'd iop \<Rightarrow> 'd iop" where
  "iopEventTest e s0 =
     (let s = upd_psx (\<lambda>r. r\<lparr>iopNextEventCycle := pcycle r + iopWaitCycles\<rparr>) s0;
          s1 = (if psxTestCycle (psxNextStartCounter s) (psxNextDeltaCounter s) (psx s)
                then (psxRcntUpdate e s)\<lparr>iopEventAction := True\<rparr>
                else if sint (psxNextDeltaCounter s) < sint (iopNextEventCycle (psx s) - psxNextStartCounter s)
                then upd_psx (\<lambda>r. r\<lparr>iopNextEventCycle := psxNextStartCounter s + psxNextDeltaCounter s\<rparr>) s
                else s);
          s2 = (if pinterrupt (psx s1) \<noteq> 0
                then (psxTestInterrupts e (s1\<lparr>iopEventTestIsActive := True\<rparr>))\<lparr>iopEventTestIsActive := False\<rparr>
                else s1)
      in if iop_irq_pending s2 \<and> pCP0 (psx s2) psx_Status AND 0xFE01 \<ge> 0x401
         then (upd_psx (psxException 0 False) s2)\<lparr>iopEventAction := True\<rparr>
         else s2)"

definition iopTestIntc :: "'d iop \<Rightarrow> 'd iop" where
  "iopTestIntc s =
     (if \<not> iop_irq_pending s then s
      else if \<not> eeEventTestIsActive s
      then s\<lparr>ee_regs := event_within 16 (ee_regs s), iopEventAction := True\<rparr>
      else if \<not> iopEventTestIsActive s then upd_psx (psxSetNextBranchDelta 2) s
      else s)"

definition iopIntcIrq :: "nat \<Rightarrow> 'd iop \<Rightarrow> 'd iop" where
  "iopIntcIrq irqType s =
     iopTestIntc (poke (psxHu 0x1070 s) (peek (psxHu 0x1070 s) s OR push_bit irqType 1 :: u32) s)"

definition schedule_iop :: "5 word \<Rightarrow> u32 \<Rightarrow> 'd iop \<Rightarrow> 'd iop" where
  "schedule_iop n cycles s = (let (r, c) = PSX_INT n cycles (psx s, ee_regs s) in s\<lparr>psx := r, ee_regs := c\<rparr>)"

definition dev9Interrupt :: "'d iop_env \<Rightarrow> 'd iop \<Rightarrow> 'd iop" where
  "dev9Interrupt e s = (let (r, s1) = DEV9irqHandler e s in if r \<noteq> 1 then s1 else iopIntcIrq 13 s1)"
definition dev9Irq :: "u32 \<Rightarrow> 'd iop \<Rightarrow> 'd iop" where "dev9Irq cycles = schedule_iop IopEvt_DEV9 cycles"
definition usbInterrupt :: "'d iop \<Rightarrow> 'd iop" where "usbInterrupt = iopIntcIrq 22"
definition usbIrq :: "u32 \<Rightarrow> 'd iop \<Rightarrow> 'd iop" where "usbIrq cycles = schedule_iop IopEvt_USB cycles"
definition fwIrq :: "'d iop \<Rightarrow> 'd iop" where "fwIrq = iopIntcIrq 24"
definition spu2Irq :: "'d iop \<Rightarrow> 'd iop" where "spu2Irq = iopIntcIrq 9"

subsection \<open>Branches\<close>

definition psx_doBranch :: "u32 \<Rightarrow> 'd psx_op" where
  "psx_doBranch tar e ex s =
     (case ex (s\<lparr>ibranch2 := True, iopIsDelaySlot := True, branchPC := tar\<rparr>) of
        None \<Rightarrow> None
      | Some s1 \<Rightarrow>
          let s2 = s1\<lparr>iopIsDelaySlot := False\<rparr>
          in Some (iopEventTest e (upd_psx (\<lambda>r. r\<lparr>ppc := branchPC s2\<rparr>) s2)))"

definition psx_branch_if :: "bool \<Rightarrow> 'd psx_op" where
  "psx_branch_if c e ex s = (if c then psx_doBranch (psxBranchTarget (psx s)) e ex s else Some s)"

definition psx_link :: "5 word \<Rightarrow> 'd iop \<Rightarrow> 'd iop" where "psx_link r s = upd_psx (psxSetLink r) s"

definition psxBGEZ :: "'d psx_op" where "psxBGEZ e ex s = psx_branch_if (sint (rRs (psx s)) \<ge> 0) e ex s"
definition psxBGEZAL :: "'d psx_op" where
  "psxBGEZAL e ex s = (let s1 = psx_link 31 s in psx_branch_if (sint (rRs (psx s1)) \<ge> 0) e ex s1)"
definition psxBGTZ :: "'d psx_op" where "psxBGTZ e ex s = psx_branch_if (sint (rRs (psx s)) > 0) e ex s"
definition psxBLEZ :: "'d psx_op" where "psxBLEZ e ex s = psx_branch_if (sint (rRs (psx s)) \<le> 0) e ex s"
definition psxBLTZ :: "'d psx_op" where "psxBLTZ e ex s = psx_branch_if (sint (rRs (psx s)) < 0) e ex s"
definition psxBLTZAL :: "'d psx_op" where
  "psxBLTZAL e ex s = (let s1 = psx_link 31 s in psx_branch_if (sint (rRs (psx s1)) < 0) e ex s1)"
definition psxBEQ :: "'d psx_op" where "psxBEQ e ex s = psx_branch_if (rRs (psx s) = rRt (psx s)) e ex s"
definition psxBNE :: "'d psx_op" where "psxBNE e ex s = psx_branch_if (rRs (psx s) \<noteq> rRt (psx s)) e ex s"

definition psxJ :: "'d psx_op" where
  "psxJ e ex s =
     (let (delayslot, s1) = iopMemRead32 (iop_io_of e) (ppc (psx s)) s;
          (taken, s2) = (if drop_bit 16 delayslot = 0x2400
            then irxImportExecCached e (ppc (psx s1)) (delayslot AND 0xffff) s1 else (False, s1))
      in if taken then Some s2 else psx_doBranch (psxJumpTarget (psx s2)) e ex s2)"

definition psxJAL :: "'d psx_op" where
  "psxJAL e ex s = (let s1 = psx_link 31 s in psx_doBranch (psxJumpTarget (psx s1)) e ex s1)"

definition psxJR :: "'d psx_op" where "psxJR e ex s = psx_doBranch (rRs (psx s)) e ex s"

definition psxJALR :: "'d psx_op" where
  "psxJALR e ex s =
     (let target = rRs (psx s); s1 = (if psxRd (psx s) \<noteq> 0 then psx_link (psxRd (psx s)) s else s)
      in psx_doBranch target e ex s1)"

subsection \<open>Tables\<close>

definition psxNULL :: "'d psx_op" where "psxNULL e ex s = Some s"
definition psx_iop_op :: "('d iop \<Rightarrow> 'd iop) \<Rightarrow> 'd psx_op" where "psx_iop_op f e ex s = Some (f s)"

definition psxCP2BSC :: "'d psx_op list" where [psx_tables]:
  "psxCP2BSC = [
    gte ''gteMFC2'', psxNULL, gte ''gteCFC2'', psxNULL,
    gte ''gteMTC2'', psxNULL, gte ''gteCTC2'', psxNULL,
    psxNULL, psxNULL, psxNULL, psxNULL,
    psxNULL, psxNULL, psxNULL, psxNULL,
    psxNULL, psxNULL, psxNULL, psxNULL,
    psxNULL, psxNULL, psxNULL, psxNULL,
    psxNULL, psxNULL, psxNULL, psxNULL,
    psxNULL, psxNULL, psxNULL, psxNULL]"

definition psxBASIC :: "'d psx_op" where [psx_classes]:
  "psxBASIC e ex s = (psxCP2BSC ! unat (psxRs (psx s))) e ex s"

definition psxCP2 :: "'d psx_op list" where [psx_tables]:
  "psxCP2 = [
    psxBASIC, gte ''gteRTPS'', psxNULL, psxNULL,
    psxNULL, psxNULL, gte ''gteNCLIP'', psxNULL,
    psxNULL, psxNULL, psxNULL, psxNULL,
    gte ''gteOP'', psxNULL, psxNULL, psxNULL,
    gte ''gteDPCS'', gte ''gteINTPL'', gte ''gteMVMVA'', gte ''gteNCDS'',
    gte ''gteCDP'', psxNULL, gte ''gteNCDT'', psxNULL,
    psxNULL, psxNULL, psxNULL, gte ''gteNCCS'',
    gte ''gteCC'', psxNULL, gte ''gteNCS'', psxNULL,
    gte ''gteNCT'', psxNULL, psxNULL, psxNULL,
    psxNULL, psxNULL, psxNULL, psxNULL,
    gte ''gteSQR'', gte ''gteDCPL'', gte ''gteDPCT'', psxNULL,
    psxNULL, gte ''gteAVSZ3'', gte ''gteAVSZ4'', psxNULL,
    gte ''gteRTPT'', psxNULL, psxNULL, psxNULL,
    psxNULL, psxNULL, psxNULL, psxNULL,
    psxNULL, psxNULL, psxNULL, psxNULL,
    psxNULL, gte ''gteGPF'', gte ''gteGPL'', gte ''gteNCCT'']"

definition psxCOP2 :: "'d psx_op" where [psx_classes]:
  "psxCOP2 e ex s = (psxCP2 ! psxFunct (psx s)) e ex s"

definition psxCP0 :: "'d psx_op list" where [psx_tables]:
  "psxCP0 = [
    psx_reg_op psxMFC0, psxNULL, psx_reg_op psxCFC0, psxNULL,
    psx_reg_op psxMTC0, psxNULL, psx_reg_op psxCTC0, psxNULL,
    psxNULL, psxNULL, psxNULL, psxNULL,
    psxNULL, psxNULL, psxNULL, psxNULL,
    psx_reg_op psxRFE, psxNULL, psxNULL, psxNULL,
    psxNULL, psxNULL, psxNULL, psxNULL,
    psxNULL, psxNULL, psxNULL, psxNULL,
    psxNULL, psxNULL, psxNULL, psxNULL]"

definition psxCOP0 :: "'d psx_op" where [psx_classes]:
  "psxCOP0 e ex s = (psxCP0 ! unat (psxRs (psx s))) e ex s"

definition psxREG :: "'d psx_op list" where [psx_tables]:
  "psxREG = [
    psxBLTZ, psxBGEZ, psxNULL, psxNULL,
    psxNULL, psxNULL, psxNULL, psxNULL,
    psxNULL, psxNULL, psxNULL, psxNULL,
    psxNULL, psxNULL, psxNULL, psxNULL,
    psxBLTZAL, psxBGEZAL, psxNULL, psxNULL,
    psxNULL, psxNULL, psxNULL, psxNULL,
    psxNULL, psxNULL, psxNULL, psxNULL,
    psxNULL, psxNULL, psxNULL, psxNULL]"

definition psxREGIMM :: "'d psx_op" where [psx_classes]:
  "psxREGIMM e ex s = (psxREG ! unat (psxRt (psx s))) e ex s"

definition psxSPC :: "'d psx_op list" where [psx_tables]:
  "psxSPC = [
    psx_reg_op psxSLL, psxNULL, psx_reg_op psxSRL, psx_reg_op psxSRA,
    psx_reg_op psxSLLV, psxNULL, psx_reg_op psxSRLV, psx_reg_op psxSRAV,
    psxJR, psxJALR, psxNULL, psxNULL,
    psx_iop_op psxSYSCALL, psx_iop_op psxBREAK, psxNULL, psxNULL,
    psx_reg_op psxMFHI, psx_reg_op psxMTHI, psx_reg_op psxMFLO, psx_reg_op psxMTLO,
    psxNULL, psxNULL, psxNULL, psxNULL,
    psx_reg_op psxMULT, psx_reg_op psxMULTU, psx_reg_op psxDIV, psx_reg_op psxDIVU,
    psxNULL, psxNULL, psxNULL, psxNULL,
    psx_reg_op psxADD, psx_reg_op psxADDU, psx_reg_op psxSUB, psx_reg_op psxSUBU,
    psx_reg_op psxAND, psx_reg_op psxOR, psx_reg_op psxXOR, psx_reg_op psxNOR,
    psxNULL, psxNULL, psx_reg_op psxSLT, psx_reg_op psxSLTU,
    psxNULL, psxNULL, psxNULL, psxNULL,
    psxNULL, psxNULL, psxNULL, psxNULL,
    psxNULL, psxNULL, psxNULL, psxNULL,
    psxNULL, psxNULL, psxNULL, psxNULL,
    psxNULL, psxNULL, psxNULL, psxNULL]"

definition psxSPECIAL :: "'d psx_op" where [psx_classes]:
  "psxSPECIAL e ex s = (psxSPC ! psxFunct (psx s)) e ex s"

definition psxBSC :: "'d psx_op list" where [psx_tables]:
  "psxBSC = [
    psxSPECIAL, psxREGIMM, psxJ, psxJAL,
    psxBEQ, psxBNE, psxBLEZ, psxBGTZ,
    psx_reg_op psxADDI, psx_reg_op psxADDIU, psx_reg_op psxSLTI, psx_reg_op psxSLTIU,
    psx_reg_op psxANDI, psx_reg_op psxORI, psx_reg_op psxXORI, psx_reg_op psxLUI,
    psxCOP0, psxNULL, psxCOP2, psxNULL,
    psxNULL, psxNULL, psxNULL, psxNULL,
    psxNULL, psxNULL, psxNULL, psxNULL,
    psxNULL, psxNULL, psxNULL, psxNULL,
    psx_mem_op psxLB, psx_mem_op psxLH, psx_mem_op psxLWL, psx_mem_op psxLW,
    psx_mem_op psxLBU, psx_mem_op psxLHU, psx_mem_op psxLWR, psxNULL,
    psx_mem_op psxSB, psx_mem_op psxSH, psx_mem_op psxSWL, psx_mem_op psxSW,
    psxNULL, psxNULL, psx_mem_op psxSWR, psxNULL,
    psxNULL, psxNULL, gte ''gteLWC2'', psxNULL,
    psxNULL, psxNULL, psxNULL, psxNULL,
    psxNULL, psxNULL, gte ''gteSWC2'', psxNULL,
    psxNULL, psxNULL, psxNULL, psxNULL]"

subsection \<open>Execution\<close>

text \<open>The module injection hook of \<open>execI\<close>.\<close>

definition inject_IRX :: "'d iop_env \<Rightarrow> 'd iop \<Rightarrow> 'd iop" where
  "inject_IRX e s =
     (if ppc (psx s) = 0x1630 \<and> CurrentIRX_length s > 3 then
        let (v, s1) = iopMemRead32 (iop_io_of e) 0x20018 s
        in if v = 0x1F then iopMemWrite32 (iop_io_of e) 0x20094 0xbffc0000 s1 else s1
      else s)"

primrec psx_execI :: "nat \<Rightarrow> 'd iop_env \<Rightarrow> 'd psx_exec" where
  "psx_execI 0 e s = None"
| "psx_execI (Suc n) e s0 =
     (let s = inject_IRX e s0;
          (w, s1) = iopMemRead32 (iop_io_of e) (ppc (psx s)) s;
          s2 = upd_psx (\<lambda>r. r\<lparr>pcode := w\<rparr>) s1;
          s3 = upd_psx (\<lambda>r. r\<lparr>ppc := ppc r + 4, pcycle := pcycle r + 1,
                 piopCycleEE := piopCycleEE r - (if peek (psxHu HW_ICFG s2) s2 AND (8 :: u32) \<noteq> 0 then 9 else 8)\<rparr>) s2
      in (psxBSC ! unat (drop_bit 26 (pcode (psx s3)))) e (psx_execI n e) s3)"

text \<open>The loops, with bounds on the depth of delay slots, on the instructions of a block and on the blocks.\<close>

definition bios_entry :: "'d iop_env \<Rightarrow> 'd iop \<Rightarrow> 'd iop" where
  "bios_entry e s =
     (let a = ppc (psx s) AND 0x1fffffff in
      if peek (psxHu HW_ICFG s) s AND (8 :: u32) \<noteq> 0 \<and> (a = 0xa0 \<or> a = 0xb0 \<or> a = 0xc0)
      then psxBiosCall e s else s)"

primrec until_branch :: "nat \<Rightarrow> nat \<Rightarrow> 'd iop_env \<Rightarrow> 'd psx_exec" where
  "until_branch 0 n e s = None"
| "until_branch (Suc k) n e s =
     (if ibranch2 s then Some s
      else case psx_execI n e s of None \<Rightarrow> None | Some s1 \<Rightarrow> until_branch k n e s1)"

definition iopRunBasicBlock :: "nat \<Rightarrow> nat \<Rightarrow> 'd iop_env \<Rightarrow> 'd psx_exec" where
  "iopRunBasicBlock k n e s = until_branch k n e ((bios_entry e s)\<lparr>ibranch2 := False\<rparr>)"

primrec run_blocks :: "nat \<Rightarrow> nat \<Rightarrow> nat \<Rightarrow> 'd iop_env \<Rightarrow> 'd psx_exec" where
  "run_blocks 0 k n e s = None"
| "run_blocks (Suc b) k n e s =
     (if sint (piopCycleEE (psx s)) > 0
      then case iopRunBasicBlock k n e s of None \<Rightarrow> None | Some s1 \<Rightarrow> run_blocks b k n e s1
      else Some s)"

definition intExecuteBlock :: "nat \<Rightarrow> nat \<Rightarrow> nat \<Rightarrow> 'd iop_env \<Rightarrow> u32 \<Rightarrow> 'd iop \<Rightarrow> (u32 \<times> 'd iop) option" where
  "intExecuteBlock b k n e eeCycles s =
     map_option (\<lambda>s. (piopBreak (psx s) + piopCycleEE (psx s), s))
       (run_blocks b k n e (upd_psx (\<lambda>r. r\<lparr>piopBreak := 0, piopCycleEE := eeCycles\<rparr>) s))"

end
