(* ===== verification/IOP_Spec.thy ===== *)
theory IOP_Spec
  imports IOP_Interp EE_LoadStore_Spec
begin

text \<open>
  What the I/O processor's model promises: its inline memory paths and mirrors, its merges of unaligned
  accesses against those of the Emotion Engine, its exceptions and its events.
\<close>

subsection \<open>Memory\<close>

lemma phys_mask_idem: "((a :: u32) AND 0x1fffffff) AND 0x1fffffff = a AND 0x1fffffff"
  by (simp add: and.assoc)

lemma fast_paths:
  "iopMemRead8 io a s = iopMemRead8_slow io a s"
  "iopMemRead16 io a s = iopMemRead16_slow io a s"
  "iopMemRead32 io a s = iopMemRead32_slow io a s"
  unfolding iopMemRead8_def iopMemRead16_def iopMemRead32_def iopMemRead8_slow_def iopMemRead16_slow_def
    iopMemRead32_slow_def Let_def phys_mask_idem iop_page_def
  by auto

definition reset_luts :: "'d iop \<Rightarrow> bool" where
  "reset_luts s \<longleftrightarrow> psxMemWLUT s = reset_WLUT (ilayout s) \<and> psxMemRLUT s = reset_RLUT (ilayout s) \<and>
     0 < unat (iMain (ilayout s)) \<and> unat (iMain (ilayout s)) \<le> 2 ^ 63"

text \<open>The first 8 MB of each segment are main memory; \<open>ram_offset\<close> is the place in its 2 MB.\<close>

definition ram_address :: "u32 \<Rightarrow> bool" where "ram_address a \<longleftrightarrow> a AND 0x1fffffff < 0x800000"
definition ram_offset :: "u32 \<Rightarrow> u32" where "ram_offset a = a AND 0x1fffff"

lemma unat_and_mask: "unat (w AND mask n) = unat w mod 2 ^ n" for w :: "'a::len word"
  by (simp only: take_bit_eq_mask [symmetric] unsigned_take_bit_eq take_bit_nat_def)

lemma iop_masks: "(0x1fffffff :: u32) = mask 29" "(0x1fffff :: u32) = mask 21" "(0xffff :: u32) = mask 16" "(0x1f :: 13 word) = mask 5"
  by (simp_all add: mask_eq_exp_minus_1)

lemma ram_page:
  assumes "ram_address a"
  shows "iop_page (a AND 0x1fffffff) < 0x80" "drop_bit 16 (a AND 0x1fffffff) < 0x80"
    "push_bit 16 (ucast (iop_page (a AND 0x1fffffff) AND 0x1f)) + ucast ((a AND 0x1fffffff) AND 0xffff) = (ucast (ram_offset a) :: u64)"
proof -
  define x where "x = a AND 0x1fffffff"
  have x: "unat x < 2 ^ 23" using assms by (simp add: ram_address_def word_less_nat_alt x_def)
  have d: "unat (drop_bit 16 x) = unat x div 65536" by (simp add: drop_bit_eq_div unat_div)
  with x show "drop_bit 16 (a AND 0x1fffffff) < 0x80" unfolding x_def [symmetric] by (simp add: word_less_nat_alt less_mult_imp_div_less)
  have pg: "unat (iop_page x) = unat x div 65536"
    unfolding iop_page_def unat_ucast d using x by simp
  with x show "iop_page (a AND 0x1fffffff) < 0x80" unfolding x_def [symmetric] by (simp add: word_less_nat_alt less_mult_imp_div_less)
  have off: "unat (ram_offset a) = unat x mod 2 ^ 21"
    by (simp add: ram_offset_def iop_masks unat_and_mask mod_mod_cancel x_def)
  have "unat (push_bit 16 (ucast (iop_page x AND 0x1f) :: u64)) = 65536 * (unat x div 65536 mod 32)"
    by (simp add: push_bit_eq_mult iop_masks unat_word_ariths unat_ucast unat_and_mask pg)
  moreover have "unat (ucast (x AND 0xffff) :: u64) = unat x mod 65536"
    by (simp add: unat_ucast iop_masks unat_and_mask)
  ultimately have "unat (push_bit 16 (ucast (iop_page x AND 0x1f)) + ucast (x AND 0xffff) :: u64) =
      65536 * (unat x div 65536 mod 32) + unat x mod 65536"
    by (simp add: unat_word_ariths)
  also have "\<dots> = unat x mod (65536 * 32)" by (simp only: mod_mult2_eq)
  finally have "unat (push_bit 16 (ucast (iop_page x AND 0x1f)) + ucast (x AND 0xffff) :: u64) = unat (ucast (ram_offset a) :: u64)"
    using off by (simp add: unat_ucast)
  then show "push_bit 16 (ucast (iop_page (a AND 0x1fffffff) AND 0x1f)) + ucast ((a AND 0x1fffffff) AND 0xffff) = (ucast (ram_offset a) :: u64)"
    unfolding x_def [symmetric] by (rule unsigned_word_eqI)
qed


lemma ram_lut:
  assumes "reset_luts s" "ram_address a"
  shows "psxMemWLUT s (iop_page (a AND 0x1fffffff)) \<noteq> 0" "psxMemRLUT s (iop_page (a AND 0x1fffffff)) \<noteq> 0"
    "psxMemWLUT s (iop_page (a AND 0x1fffffff)) + ucast ((a AND 0x1fffffff) AND 0xffff) = iMain (ilayout s) + ucast (ram_offset a)"
    "psxMemRLUT s (iop_page (a AND 0x1fffffff)) + ucast ((a AND 0x1fffffff) AND 0xffff) = iMain (ilayout s) + ucast (ram_offset a)"
proof -
  define q where "q = (push_bit 16 (ucast (iop_page (a AND 0x1fffffff) AND 0x1f)) :: u64)"
  have "psxMemWLUT s (iop_page (a AND 0x1fffffff)) = iMain (ilayout s) + q"
    "psxMemRLUT s (iop_page (a AND 0x1fffffff)) = iMain (ilayout s) + q"
    using assms(1) ram_page(1) [OF assms(2)] by (simp_all add: reset_luts_def reset_WLUT_def reset_RLUT_def q_def)
  moreover have "iMain (ilayout s) + q \<noteq> 0"
  proof -
    have "unat q < 2 ^ 21"
      by (simp add: q_def push_bit_eq_mult iop_masks unat_word_ariths unat_ucast unat_and_mask)
    moreover have "0 < unat (iMain (ilayout s))" "unat (iMain (ilayout s)) \<le> 2 ^ 63"
      using assms(1) unfolding reset_luts_def by blast+
    ultimately have "0 < unat (iMain (ilayout s) + q)" by (simp add: unat_word_ariths)
    then show ?thesis by auto
  qed
  ultimately show "psxMemWLUT s (iop_page (a AND 0x1fffffff)) \<noteq> 0" "psxMemRLUT s (iop_page (a AND 0x1fffffff)) \<noteq> 0"
    "psxMemWLUT s (iop_page (a AND 0x1fffffff)) + ucast ((a AND 0x1fffffff) AND 0xffff) = iMain (ilayout s) + ucast (ram_offset a)"
    "psxMemRLUT s (iop_page (a AND 0x1fffffff)) + ucast ((a AND 0x1fffffff) AND 0xffff) = iMain (ilayout s) + ucast (ram_offset a)"
    using ram_page(3) [OF assms(2)] by (simp_all add: q_def add.assoc)
qed

lemma ram_not_special:
  assumes "ram_address a"
  shows "drop_bit 16 (a AND 0x1fffffff) \<noteq> 0x1f80" "drop_bit 16 (a AND 0x1fffffff) \<noteq> 0x1d00"
    "drop_bit 16 (a AND 0x1fffffff) \<noteq> 0x1f40" "drop_bit 16 (a AND 0x1fffffff) \<noteq> 0x1000" "drop_bit 16 (a AND 0x1fffffff) \<noteq> 0x1F90"
  using ram_page(2) [OF assms] by auto

text \<open>In main memory, all widths are plain accesses at the offset.\<close>

lemma ram_reads:
  assumes "reset_luts s" "ram_address a"
  shows "iopMemRead8 io a s = (peek (iMain (ilayout s) + ucast (ram_offset a)) s, s)"
    "iopMemRead16 io a s = (peek (iMain (ilayout s) + ucast (ram_offset a)) s, s)"
    "iopMemRead32 io a s = (peek (iMain (ilayout s) + ucast (ram_offset a)) s, s)"
proof -
  define x where "x = a AND 0x1fffffff"
  note facts = ram_lut [OF assms, folded x_def] ram_not_special [OF assms(2), folded x_def]
  show "iopMemRead8 io a s = (peek (iMain (ilayout s) + ucast (ram_offset a)) s, s)"
    "iopMemRead16 io a s = (peek (iMain (ilayout s) + ucast (ram_offset a)) s, s)"
    "iopMemRead32 io a s = (peek (iMain (ilayout s) + ucast (ram_offset a)) s, s)"
    unfolding fast_paths iopMemRead8_slow_def iopMemRead16_slow_def iopMemRead32_slow_def Let_def x_def [symmetric]
    by (simp_all add: facts)
qed

definition mem_cleared :: "'d iop_io \<Rightarrow> u32 \<Rightarrow> 'd iop \<Rightarrow> 'd iop" where
  "mem_cleared io a s = s\<lparr>idev := psxCpu_Clear io ((a AND 0x1fffffff) AND NOT 3) 1 (idev s)\<rparr>"

lemma ram_writes:
  assumes "reset_luts s" "ram_address a"
  shows "iopMemWrite8 io a v s = (if isolated s then s
      else mem_cleared io a (poke (iMain (ilayout s) + ucast (ram_offset a)) v s))"
    "iopMemWrite16 io a w s = (if isolated s then s
      else mem_cleared io a (poke (iMain (ilayout s) + ucast (ram_offset a)) w s))"
    "iopMemWrite32 io a y s = (if isolated s then s
      else mem_cleared io a (poke (iMain (ilayout s) + ucast (ram_offset a)) y s))"
proof -
  define x where "x = a AND 0x1fffffff"
  note facts = ram_lut [OF assms, folded x_def] ram_not_special [OF assms(2), folded x_def]
  show "iopMemWrite8 io a v s = (if isolated s then s
      else mem_cleared io a (poke (iMain (ilayout s) + ucast (ram_offset a)) v s))"
    "iopMemWrite16 io a w s = (if isolated s then s
      else mem_cleared io a (poke (iMain (ilayout s) + ucast (ram_offset a)) w s))"
    "iopMemWrite32 io a y s = (if isolated s then s
      else mem_cleared io a (poke (iMain (ilayout s) + ucast (ram_offset a)) y s))"
    unfolding iopMemWrite8_def iopMemWrite16_def iopMemWrite32_def Let_def ram_store_def mem_cleared_def x_def [symmetric]
    by (simp_all add: facts)
qed

lemma load_store_same:
  fixes v :: "'a::len word"
  assumes "LENGTH('a) = 8 * n" "n \<le> 2 ^ 32"
  shows "load_le (store_le p v m) p = v"
proof (rule word_byte_eqI [OF assms(1)])
  fix i
  assume i: "i < n"
  then have "unat (of_nat i :: u64) = i" using assms(2) by (simp add: unat_of_nat)
  then show "byte (load_le (store_le p v m) p :: 'a word) i = byte v i"
    using i by (simp add: byte_load_le [OF assms(1)] store_le_byte [OF assms(1)])
qed

lemma load_store_other:
  fixes v x y :: u32
  assumes "x AND 3 = 0" "y AND 3 = 0" "x \<noteq> y"
  shows "load_le (store_le (b + ucast x) v m) (b + ucast y) = (load_le m (b + ucast y) :: u32)"
proof (rule word_byte_eqI [where n = 4])
  fix i :: nat
  assume i: "i < 4"
  let ?d = "ucast y + of_nat i - ucast x :: u64"
  have xy: "unat x mod 4 = 0" "unat y mod 4 = 0" using assms and3(1) [of x] and3(1) [of y] by simp_all
  moreover have "unat x \<noteq> unat y" using assms(3) unsigned_word_eqI by blast
  ultimately have apart: "unat x < unat y \<Longrightarrow> unat x + 4 \<le> unat y" "\<not> unat x < unat y \<Longrightarrow> unat y + 4 \<le> unat x"
    by presburger+
  have bounds: "unat x < 2 ^ 32" "unat y < 2 ^ 32" using unsigned_less [of x] unsigned_less [of y] by simp_all
  have "\<not> unat ?d < 4"
  proof (cases "unat x < unat y")
    case True
    then have "unat x + 4 \<le> unat y" by (rule apart)
    then have "unat ?d = unat y + i - unat x"
      using bounds i by (simp add: unat_sub_if' unat_word_ariths unat_of_nat unat_ucast)
    with \<open>unat x + 4 \<le> unat y\<close> show ?thesis by simp
  next
    case False
    then have "unat y + 4 \<le> unat x" by (rule apart)
    then have "unat ?d = 2 ^ 64 + unat y + i - unat x"
      using bounds i by (simp add: unat_sub_if' unat_word_ariths unat_of_nat unat_ucast)
    with bounds show ?thesis by simp
  qed
  then show "byte (load_le (store_le (b + ucast x) v m) (b + ucast y) :: u32) i = byte (load_le m (b + ucast y) :: u32) i"
    using i by (simp add: byte_load_le [where n = 4] store_le_byte [where n = 4] algebra_simps)
qed simp

lemma mem_cleared_sel [simp]:
  "ihost (mem_cleared io a s) = ihost s" "ilayout (mem_cleared io a s) = ilayout s" "reset_luts (mem_cleared io a s) = reset_luts s"
  by (simp_all add: mem_cleared_def reset_luts_def)

lemma poke_sel [simp]: "ihost (poke p v s) = store_le p v (ihost s)" "ilayout (poke p v s) = ilayout s"
  "reset_luts (poke p v s) = reset_luts s"
  by (simp_all add: poke_def reset_luts_def)

text \<open>C23: the memory of the I/O processor. The inline read paths agree with the out-of-line functions for all
  widths, addresses and page tables. After the reset of the page tables, a word stored at an address of
  main memory is read back at every mirror of that address, in the four copies of the 2 MB
  and the three segments; aligned words at other offsets keep their value; while the
  cache is isolated a store has no effect.\<close>

theorem iop_memory_map:
  assumes "reset_luts s" "ram_address a" "ram_address b" "a AND 3 = 0" "b AND 3 = 0"
  shows "iopMemRead8 io c t = iopMemRead8_slow io c t \<and> iopMemRead16 io c t = iopMemRead16_slow io c t \<and>
    iopMemRead32 io c t = iopMemRead32_slow io c t \<and>
    (if isolated s then iopMemWrite32 io a v s = s
     else fst (iopMemRead32 io b (iopMemWrite32 io a v s)) =
       (if ram_offset b = ram_offset a then v else fst (iopMemRead32 io b s)))"
proof -
  define s' where "s' = iopMemWrite32 io a v s"
  have off: "ram_offset a AND 3 = 0" "ram_offset b AND 3 = 0"
    using assms(4,5) unfolding ram_offset_def and.assoc and.commute [of "0x1fffff" 3]
    by (simp_all flip: and.assoc)
  have "fst (iopMemRead32 io b s') = (if ram_offset b = ram_offset a then v else fst (iopMemRead32 io b s))"
    if "\<not> isolated s"
  proof -
    have s': "reset_luts s'" "ilayout s' = ilayout s" "ihost s' = store_le (iMain (ilayout s) + ucast (ram_offset a)) v (ihost s)"
      unfolding s'_def ram_writes(3) [OF assms(1,2)] using that assms(1) by simp_all
    show ?thesis
      unfolding ram_reads(3) [OF s'(1) assms(3)] ram_reads(3) [OF assms(1,3)] fst_conv peek_def s'(2,3)
      using load_store_same [where n = 4 and v = v] load_store_other [OF off] by simp
  qed
  then show ?thesis using ram_writes(3) [OF assms(1,2)] by (simp add: fast_paths s'_def)
qed

definition blank_iop :: "unit iop" where
  "blank_iop = iopMemoryReserve_Reset \<lparr>psx = psxReset, ee_regs = cpuReset, psxMemWLUT = (\<lambda>pg. 0), psxMemRLUT = (\<lambda>pg. 0),
     ihost = (\<lambda>p. 0),
     ilayout = \<lparr>iMain = 0x1000000, iP = 0x1200000, iSif = 0x1210000, iHw = 0x1220000, iROM = 0x1400000, iROM1 = 0x1800000,
       iROM2 = 0x1C00000, eeHw = 0x1D00000\<rparr>,
     iopIsDelaySlot = False, ibranch2 = False, branchPC = 0, iopEventAction = False, iopEventTestIsActive = False,
     eeEventTestIsActive = False, psxNextStartCounter = 0, psxNextDeltaCounter = 1000, CurrentIRX_length = 0, idev = ()\<rparr>"

definition blank_iop_env :: "unit iop_env" where
  "blank_iop_env = \<lparr>hw_read = (\<lambda>n a s. (0, s)), hw_write = (\<lambda>n a v s. s), psxHw4Read8 = (\<lambda>a s. (0, s)),
     psxHw4Write8 = (\<lambda>a v s. s), DEV9read = (\<lambda>n a s. (0, s)), DEV9write = (\<lambda>n a v s. s), SPU2read = (\<lambda>a s. (0, s)),
     SPU2write = (\<lambda>a v s. s), psxCpu_Clear = (\<lambda>a n d. d), irxImportExecCached = (\<lambda>a i s. (False, s)),
     psxBiosCall = (\<lambda>s. s), psxRcntUpdate = (\<lambda>s. s), iop_callback = (\<lambda>n s. s), gte_op = (\<lambda>n s. s),
     DEV9irqHandler = (\<lambda>s. (0, s))\<rparr>"

lemma blank_iop_ok: "reset_luts blank_iop" "\<not> isolated blank_iop"
  by (simp_all add: blank_iop_def iopMemoryReserve_Reset_def reset_luts_def isolated_def psxReset_def)

theorem iop_memory_map_witness:
  "fst (iopMemRead32 (iop_io_of blank_iop_env) 0xA0601230
     (iopMemWrite32 (iop_io_of blank_iop_env) 0x80001230 0xCAFEBABE blank_iop)) = 0xCAFEBABE"
  using iop_memory_map [OF blank_iop_ok(1), where a = "0x80001230" and b = "0xA0601230" and v = "0xCAFEBABE" and
      io = "iop_io_of blank_iop_env" and c = 0 and t = blank_iop] blank_iop_ok(2)
  by (simp add: ram_address_def ram_offset_def)

subsection \<open>Unaligned accesses\<close>

lemma byte_shift_low2: "byte_shift a = 8 * low2 a"
proof -
  have "unat (a AND 3) < 4" by (simp add: and3)
  then show ?thesis by (simp add: byte_shift_def low2_def push_bit_eq_mult unat_word_ariths)
qed

lemma psx_merges:
  assumes "k < 4"
  shows "psx_lwl (8 * k) reg mem = lwl_merge k reg mem" "psx_lwr (8 * k) reg mem = lwr_merge k reg mem"
    "psx_swl (8 * k) reg mem = swl_merge k reg mem" "psx_swr (8 * k) reg mem = swr_merge k reg mem"
proof -
  from assms consider "k = 0" | "k = 1" | "k = 2" | "k = 3" by linarith
  note cases = this
  show "psx_lwl (8 * k) reg mem = lwl_merge k reg mem"
    using cases by cases (simp_all add: psx_lwl_def lwl_merge_def LWL_MASK_def LWL_SHIFT_def)
  show "psx_lwr (8 * k) reg mem = lwr_merge k reg mem"
    using cases by cases (rule bits_32I; simp add: upt_32 psx_lwr_def lwr_merge_def LWR_MASK_def LWR_SHIFT_def bit_simps)+
  show "psx_swl (8 * k) reg mem = swl_merge k reg mem"
    using cases by cases (rule bits_32I; simp add: upt_32 psx_swl_def swl_merge_def SWL_MASK_def SWL_SHIFT_def bit_simps)+
  show "psx_swr (8 * k) reg mem = swr_merge k reg mem"
    using cases by cases (simp_all add: psx_swr_def swr_merge_def SWR_MASK_def SWR_SHIFT_def)
qed

text \<open>C24: the two processors agree on unaligned accesses. The shifts by which the I/O processor merges a
  partial word into a register or into memory give, at each of the four positions, the words the
  Emotion Engine's mask and shift tables give; and a left and a right load of the two halves
  assemble the unaligned word, whatever the register held.\<close>

theorem unaligned_processors_agree:
  "psx_lwl (byte_shift a) reg mem = lwl_merge (low2 a) reg mem \<and>
   psx_lwr (byte_shift a) reg mem = lwr_merge (low2 a) reg mem \<and>
   psx_swl (byte_shift a) reg mem = swl_merge (low2 a) reg mem \<and>
   psx_swr (byte_shift a) reg mem = swr_merge (low2 a) reg mem \<and>
   psx_lwr (byte_shift a) (psx_lwl (byte_shift (a + 3)) reg memL) memR =
     (if low2 a = 0 then memR else push_bit (32 - byte_shift a) memL OR drop_bit (byte_shift a) memR)"
proof -
  have "low2 a < 4" "low2 (a + 3) < 4" by (simp_all add: low2_lt)
  then show ?thesis
    using lw_merge [of "low2 a" reg memL memR] by (simp add: byte_shift_low2 psx_merges low2_add)
qed

subsection \<open>Exceptions\<close>

lemma psxException_RFE:
  assumes "excode AND 0x7f = excode"
  shows "let t = psxException excode bd r; u = psxRFE t in
    pCP0 t psx_EPC = (if bd then ppc r - 4 else ppc r) \<and> pCP0 t psx_Cause AND 0x7f = excode \<and>
    bit (pCP0 t psx_Cause) 31 = (bd \<or> bit (pCP0 r psx_Cause) 31) \<and>
    ppc t = (if bit (pCP0 r psx_Status) 22 then 0xbfc00180 else 0x80000080) \<and>
    \<not> bit (pCP0 t psx_Status) 0 \<and> \<not> bit (pCP0 t psx_Status) 1 \<and>
    pCP0 u psx_Status AND NOT 0x30 = pCP0 r psx_Status AND NOT 0x30 \<and> pGPR u = pGPR r"
proof -
  note x = assms [symmetric]
  have cause: "((w AND NOT 0x7f) OR excode) AND 0x7f = excode" "((w AND NOT 0x7f) OR excode OR 0x80000000) AND 0x7f = excode"
    "bit ((w AND NOT 0x7f) OR excode) 31 = bit w 31" for w :: u32
    by (subst x, subst (2) x, rule bits_32I, simp add: upt_32 bit_simps)+ (subst x, simp add: bit_simps)
  have status: "(((w AND NOT 0x3f) OR push_bit 2 (w AND 0xf)) AND 0xfffffff0 OR
      drop_bit 2 (((w AND NOT 0x3f) OR push_bit 2 (w AND 0xf)) AND 0x3c)) AND NOT 0x30 = w AND NOT 0x30" for w :: u32
    by (rule bits_32I, simp add: upt_32 bit_simps)
  have bev: "w AND 0x400000 \<noteq> 0 \<longleftrightarrow> bit w 22" for w :: u32
    using bit_iff_and_push_bit_not_eq_0 [of w 22] by simp
  show ?thesis
    using cause [of "pCP0 r psx_Cause"] status [of "pCP0 r psx_Status"]
    by (simp add: psxException_def psxRFE_def Let_def bev bit_simps or.assoc)
qed

text \<open>C25: exception entry and return of the I/O processor. The entry saves the address of the faulting
  instruction, or of the branch before it, pushes the interrupt-enable and mode bits and goes to the
  vector that BEV selects; RFE pops them, restoring the current and previous pairs and all
  bits above. The BD bit of Cause is set for a delay slot and never cleared, so it stays set in all later
  exceptions until software writes Cause.\<close>

theorem iop_exception_return:
  assumes "excode AND 0x7f = excode"
  shows "let t = psxException excode bd r; u = psxRFE t in
    pCP0 t psx_EPC = (if bd then ppc r - 4 else ppc r) \<and> pCP0 t psx_Cause AND 0x7f = excode \<and>
    bit (pCP0 t psx_Cause) 31 = (bd \<or> bit (pCP0 r psx_Cause) 31) \<and>
    ppc t = (if bit (pCP0 r psx_Status) 22 then 0xbfc00180 else 0x80000080) \<and>
    \<not> bit (pCP0 t psx_Status) 0 \<and> \<not> bit (pCP0 t psx_Status) 1 \<and>
    pCP0 u psx_Status AND NOT 0x30 = pCP0 r psx_Status AND NOT 0x30 \<and> pGPR u = pGPR r"
  by (rule psxException_RFE [OF assms])

theorem iop_exception_return_witness:
  "pCP0 (psxException 0x20 True (psxReset\<lparr>ppc := 0x1000\<rparr>)) psx_EPC = 0xffc \<and>
   ppc (psxException 0x20 True (psxReset\<lparr>ppc := 0x1000\<rparr>)) = 0xbfc00180 \<and>
   bit (pCP0 (psxException 0x20 False (psxException 0x20 True psxReset)) psx_Cause) 31"
  using iop_exception_return [of "0x20" True "psxReset\<lparr>ppc := 0x1000\<rparr>"]
    iop_exception_return [of "0x20" False "psxException 0x20 True psxReset"] iop_exception_return [of "0x20" True psxReset]
  by (simp add: Let_def psxReset_def)

text \<open>The delay slot of a branch at \<open>a\<close>, holding a system call.\<close>

definition in_slot :: "u32 \<Rightarrow> 'd iop \<Rightarrow> 'd iop" where
  "in_slot tar s = s\<lparr>ibranch2 := True, iopIsDelaySlot := True, branchPC := tar\<rparr>"

lemma psxBSC_SYSCALL: "psxBSC ! 0 = psxSPECIAL" "psxSPC ! 12 = psx_iop_op psxSYSCALL"
  by (simp_all add: psxBSC_def psxSPC_def)

text \<open>C26: an exception in a delay slot of the I/O processor is lost. The interpreter runs the delay slot and
  then sets the program counter to the branch target, whether or not the slot raised an exception.
  For a system call in the slot of a taken branch, the exception registers are written, with the
  address of the branch, and interrupts are disabled, but execution goes on at the branch target
  instead of the exception vector.\<close>

theorem iop_slot_exception_lost:
  assumes "ppc (psx s) = a + 4" "a + 4 \<noteq> 0x1630"
    and "iopMemRead32 (iop_io_of e) (a + 4) (in_slot tar s) = (0xC, in_slot tar s)"
  shows "\<exists>t. psx_doBranch tar e (psx_execI (Suc n) e) s = Some (iopEventTest e t) \<and> ppc (psx t) = tar \<and>
    pCP0 (psx t) psx_EPC = a \<and> pCP0 (psx t) psx_Cause AND 0x7f = 0x20 \<and> bit (pCP0 (psx t) psx_Cause) 31 \<and>
    \<not> bit (pCP0 (psx t) psx_Status) 0"
proof -
  define t0 where "t0 = in_slot tar s"
  have t0: "ppc (psx t0) = a + 4" "branchPC t0 = tar" "iopIsDelaySlot t0" "inject_IRX e t0 = t0"
    using assms(1,2) by (simp_all add: t0_def in_slot_def inject_IRX_def)
  define k :: u32 where "k = (if peek (psxHu HW_ICFG (upd_psx (\<lambda>r. r\<lparr>pcode := 0xC\<rparr>) t0)) (upd_psx (\<lambda>r. r\<lparr>pcode := 0xC\<rparr>) t0)
    AND (8 :: u32) \<noteq> 0 then 9 else 8)"
  define t3 where "t3 = upd_psx (\<lambda>r. r\<lparr>pcode := 0xC, ppc := 8 + a, pcycle := pcycle r + 1, piopCycleEE := piopCycleEE r - k\<rparr>) t0"
  have "psx_execI (Suc n) e t0 = psxSPECIAL e (psx_execI n e) t3"
    using assms(3) t0(1)
    by (simp add: t0(4) t0_def [symmetric] upd_psx_def t3_def k_def psxBSC_SYSCALL)
  also have "\<dots> = Some (psxSYSCALL t3)"
    by (simp add: psxSPECIAL_def psxFunct_def t3_def upd_psx_def psxBSC_SYSCALL psx_iop_op_def)
  finally have ex: "psx_execI (Suc n) e t0 = Some (psxSYSCALL t3)" .
  define t where "t = upd_psx (\<lambda>r. r\<lparr>ppc := tar\<rparr>) ((psxSYSCALL t3)\<lparr>iopIsDelaySlot := False\<rparr>)"
  have "branchPC (psxSYSCALL t3) = tar" using t0(2) by (simp add: psxSYSCALL_def upd_psx_def t3_def)
  then have "psx_doBranch tar e (psx_execI (Suc n) e) s = Some (iopEventTest e t)"
    unfolding psx_doBranch_def in_slot_def [symmetric] t0_def [symmetric] ex t_def by (simp add: Let_def)
  moreover have "iopIsDelaySlot t3" "ppc (psx t3) = 8 + a" using t0(3) by (simp_all add: t3_def upd_psx_def)
  ultimately show ?thesis
    using psxException_RFE [of "0x20" True "(psx t3)\<lparr>ppc := ppc (psx t3) - 4\<rparr>"]
    by (intro exI [of _ t]) (simp add: Let_def t_def psxSYSCALL_def upd_psx_def)
qed

definition syscall_iop :: "unit iop" where
  "syscall_iop = blank_iop\<lparr>psx := psxReset\<lparr>ppc := 0x1004\<rparr>, ihost := store_le 0x1001004 (0xC :: u32) (\<lambda>p. 0)\<rparr>"

theorem iop_slot_exception_lost_witness:
  "\<exists>t. psx_doBranch 0x2000 blank_iop_env (psx_execI 1 blank_iop_env) syscall_iop = Some (iopEventTest blank_iop_env t) \<and>
    ppc (psx t) = 0x2000 \<and> pCP0 (psx t) psx_EPC = 0x1000"
proof -
  have "reset_luts (in_slot 0x2000 syscall_iop)"
    using blank_iop_ok(1) by (simp add: in_slot_def syscall_iop_def reset_luts_def)
  moreover have "iMain (ilayout (in_slot 0x2000 syscall_iop)) + ucast (ram_offset 0x1004) = 0x1001004"
    by (simp add: in_slot_def syscall_iop_def blank_iop_def iopMemoryReserve_Reset_def ram_offset_def)
  moreover have "peek 0x1001004 (in_slot 0x2000 syscall_iop) = (0xC :: u32)"
    using load_store_same [where n = 4 and v = "0xC :: u32"] by (simp add: peek_def in_slot_def syscall_iop_def)
  ultimately have "iopMemRead32 (iop_io_of blank_iop_env) (0x1000 + 4) (in_slot 0x2000 syscall_iop) = (0xC, in_slot 0x2000 syscall_iop)"
    using ram_reads(3) [of "in_slot 0x2000 syscall_iop" "0x1004"] by (simp add: ram_address_def)
  then show ?thesis
    using iop_slot_exception_lost [of syscall_iop "0x1000" blank_iop_env "0x2000" 0] by (auto simp: syscall_iop_def)
qed

subsection \<open>Scheduling\<close>

lemma psxSetNextBranchDelta_le:
  "sint (iopNextEventCycle (psxSetNextBranchDelta d r) - pcycle (psxSetNextBranchDelta d r)) \<le> sint d"
  "iopNextEventCycle (psxSetNextBranchDelta d r) = iopNextEventCycle r \<or>
   sint (iopNextEventCycle (psxSetNextBranchDelta d r) - pcycle r) < sint (iopNextEventCycle r - pcycle r)"
  by (simp_all add: psxSetNextBranchDelta_def psxSetNextBranch_def)

text \<open>C27: scheduling an event of the I/O processor. The event is marked pending; the I/O processor tests for
  events no later than when it is due and no later than before; and when its time slice ends before
  that, the Emotion Engine's next event test comes within the missing cycles. The remaining cycles
  reported for a pending event are its delay plus the elapsed time, where the time left would be the
  difference: they grow as the event comes nearer.\<close>

theorem iop_event_schedule:
  "let (t, d) = PSX_INT n ecycle (s, c); delta = (iopNextEventCycle t - pcycle t) * 8 - piopCycleEE t in
   bit (pinterrupt t) (unat n) \<and> pcycle t = pcycle s \<and> sint (iopNextEventCycle t - pcycle t) \<le> sint ecycle \<and>
   sint (iopNextEventCycle t - pcycle t) \<le> sint (iopNextEventCycle s - pcycle s) \<and>
   (sint (piopCycleEE t) < sint ((iopNextEventCycle t - pcycle t) * 8) \<longrightarrow>
      cycle_diff (nextEventCycle d) (cycle d) \<le> sint delta) \<and>
   cycle_diff (nextEventCycle d) (cycle d) \<le> cycle_diff (nextEventCycle c) (cycle c) \<and>
   psxRemainingCycles n (t\<lparr>pcycle := pcycle t + k\<rparr>) = ecycle + k"
proof -
  define s1 where "s1 = s\<lparr>pinterrupt := set_bit (unat n) (pinterrupt s), psCycle := (psCycle s)(n := pcycle s),
    peCycle := (peCycle s)(n := ecycle)\<rparr>"
  define t where "t = psxSetNextBranchDelta ecycle s1"
  have s1: "pcycle s1 = pcycle s" "iopNextEventCycle s1 = iopNextEventCycle s" by (simp_all add: s1_def)
  have n: "unat n < 32" using unsigned_less [of n] by simp
  have t: "bit (pinterrupt t) (unat n)" "pcycle t = pcycle s" "psCycle t n = pcycle s" "peCycle t n = ecycle"
    using n by (simp_all add: t_def psxSetNextBranchDelta_def psxSetNextBranch_def s1_def bit_simps)
  have le: "sint (iopNextEventCycle t - pcycle t) \<le> sint ecycle" using psxSetNextBranchDelta_le(1) by (simp add: t_def)
  have le': "sint (iopNextEventCycle t - pcycle t) \<le> sint (iopNextEventCycle s - pcycle s)"
    using psxSetNextBranchDelta_le(2) [of ecycle s1] unfolding t_def [symmetric] t(2) s1 by auto
  have PSX: "PSX_INT n ecycle (s, c) = (t, if sint (piopCycleEE t) < sint ((iopNextEventCycle t - pcycle t) * 8) \<and>
      cycle_diff (nextEventCycle c) (cycle c) > sint ((iopNextEventCycle t - pcycle t) * 8 - piopCycleEE t)
     then c\<lparr>nextEventCycle := cycle c + scast ((iopNextEventCycle t - pcycle t) * 8 - piopCycleEE t)\<rparr> else c)"
    by (simp add: PSX_INT_def Let_def t_def s1_def)
  have diff: "cycle_diff (x + scast d) x = sint d" for x and d :: u32 by (simp add: cycle_diff_def ucast_scast_32)
  show ?thesis
    unfolding PSX prod.case Let_def using le le' t by (simp add: diff psxRemainingCycles_def not_less)
qed

theorem iop_event_schedule_witness:
  "let (t, d) = PSX_INT 3 100 (psxReset, cpuReset) in
   bit (pinterrupt t) 3 \<and> sint (iopNextEventCycle t - pcycle t) \<le> 4 \<and>
   cycle_diff (nextEventCycle d) (cycle d) \<le> sint ((iopNextEventCycle t - pcycle t) * 8 - piopCycleEE t) \<and>
   psxRemainingCycles 3 (t\<lparr>pcycle := pcycle t + 40\<rparr>) = 140"
proof -
  obtain t d where td: "PSX_INT 3 100 (psxReset, cpuReset) = (t, d)" by fastforce
  have "sint (piopCycleEE t) < sint ((iopNextEventCycle t - pcycle t) * 8)"
    using td by (auto simp: PSX_INT_def psxSetNextBranchDelta_def psxSetNextBranch_def psxReset_def Let_def)
  moreover have "iopNextEventCycle psxReset = 4" "pcycle psxReset = 0" by (simp_all add: psxReset_def)
  ultimately show ?thesis
    using iop_event_schedule [of 3 100 psxReset cpuReset 40] by (auto simp: td)
qed

end
