(* ===== verification/IOP_Slice.thy ===== *)
theory IOP_Slice
  imports IOP_Spec
begin

text \<open>
  Time slices of the I/O processor: the loop of \<open>intExecuteBlock\<close> (src/pcsx2/R3000AInterpreter.cpp) ends, with
  register 0 still zero. Every instruction takes eight or nine cycles of the slice and everything else takes none
  or breaks the slice off; the bounds are carried through every operation of the opcode tables.
\<close>

definition psx_r0 :: "psxRegisters \<Rightarrow> bool" where "psx_r0 r \<longleftrightarrow> pGPR r 0 = 0"

abbreviation iop_r0 :: "'d iop \<Rightarrow> bool" where "iop_r0 s \<equiv> psx_r0 (psx s)"

abbreviation slice_left :: "'d iop \<Rightarrow> int" where "slice_left s \<equiv> sint (piopCycleEE (psx s))"

text \<open>The code outside the model does not write register 0, and leaves the cycles of the slice alone or breaks
  the slice off, as \<open>CPU_INT\<close> and the interrupt tests of the Emotion Engine do.\<close>

definition iop_kept :: "'d iop \<Rightarrow> 'd iop \<Rightarrow> bool" where
  "iop_kept s t \<longleftrightarrow> iop_r0 t \<and> (slice_left t = slice_left s \<or> slice_left s > 0 \<and> slice_left t = 0)"

definition iop_env_ok :: "'d iop_env \<Rightarrow> bool" where
  "iop_env_ok e \<longleftrightarrow>
     (\<forall>s. iop_r0 s \<longrightarrow>
       (\<forall>n a. iop_kept s (snd (hw_read e n a s)) \<and> iop_kept s (snd (DEV9read e n a s)) \<and> iop_kept s (snd (psxHw4Read8 e a s)) \<and>
          iop_kept s (snd (SPU2read e a s))) \<and>
       (\<forall>n a v. iop_kept s (hw_write e n a v s) \<and> iop_kept s (DEV9write e n a v s)) \<and>
       (\<forall>a v. iop_kept s (psxHw4Write8 e a v s)) \<and> (\<forall>a v. iop_kept s (SPU2write e a v s)) \<and>
       (\<forall>a i. iop_kept s (snd (irxImportExecCached e a i s))) \<and> iop_kept s (psxBiosCall e s) \<and> iop_kept s (psxRcntUpdate e s) \<and>
       (\<forall>n. iop_kept s (iop_callback e n s)) \<and> (\<forall>n. iop_kept s (gte_op e n s)))"

text \<open>Register 0 is zero and the cycles left lie between \<open>l\<close>, at most zero, and \<open>c\<close>.\<close>

definition psx_in :: "int \<Rightarrow> int \<Rightarrow> psxRegisters \<Rightarrow> bool" where
  "psx_in l c r \<longleftrightarrow> psx_r0 r \<and> l \<le> 0 \<and> l \<le> sint (piopCycleEE r) \<and> sint (piopCycleEE r) \<le> c"

abbreviation iop_in :: "int \<Rightarrow> int \<Rightarrow> 'd iop \<Rightarrow> bool" where "iop_in l c s \<equiv> psx_in l c (psx s)"

lemma psx_in_mono: "psx_in l c r \<Longrightarrow> l' \<le> l \<Longrightarrow> c \<le> c' \<Longrightarrow> psx_in l' c' r"
  by (simp add: psx_in_def)

lemma iop_in_kept: "iop_in l c s \<Longrightarrow> iop_kept s t \<Longrightarrow> iop_in l c t"
  by (auto simp: psx_in_def iop_kept_def)

lemma iop_env_okD:
  assumes "iop_env_ok e" "iop_in l c s"
  shows "iop_in l c (snd (hw_read e n a s))" "iop_in l c (snd (DEV9read e n a s))" "iop_in l c (snd (psxHw4Read8 e a s))"
    "iop_in l c (snd (SPU2read e a s))" "iop_in l c (hw_write e n a v s)" "iop_in l c (DEV9write e n a v s)"
    "iop_in l c (psxHw4Write8 e a b s)" "iop_in l c (SPU2write e a h s)" "iop_in l c (snd (irxImportExecCached e a i s))"
    "iop_in l c (psxBiosCall e s)" "iop_in l c (psxRcntUpdate e s)" "iop_in l c (iop_callback e k s)" "iop_in l c (gte_op e x s)"
  using assms(2)
  by (rule iop_in_kept; use assms in \<open>simp add: iop_env_ok_def psx_in_def\<close>)+

lemma iop_io_of_sel [simp]:
  "hw_read (iop_io_of e) = hw_read e" "hw_write (iop_io_of e) = hw_write e" "psxHw4Read8 (iop_io_of e) = psxHw4Read8 e"
  "psxHw4Write8 (iop_io_of e) = psxHw4Write8 e" "DEV9read (iop_io_of e) = DEV9read e" "DEV9write (iop_io_of e) = DEV9write e"
  "SPU2read (iop_io_of e) = SPU2read e" "SPU2write (iop_io_of e) = SPU2write e" "psxCpu_Clear (iop_io_of e) = psxCpu_Clear e"
  by (simp_all add: iop_io_of_def iop_io.defs)

lemma psx_in_upd [simp]:
  "psx_in l c (r\<lparr>pHi := w\<rparr>) = psx_in l c r" "psx_in l c (r\<lparr>pLo := w\<rparr>) = psx_in l c r" "psx_in l c (r\<lparr>ppc := w\<rparr>) = psx_in l c r"
  "psx_in l c (r\<lparr>pcode := w\<rparr>) = psx_in l c r" "psx_in l c (r\<lparr>pcycle := w\<rparr>) = psx_in l c r" "psx_in l c (r\<lparr>pinterrupt := w\<rparr>) = psx_in l c r"
  "psx_in l c (r\<lparr>iopNextEventCycle := w\<rparr>) = psx_in l c r" "psx_in l c (r\<lparr>piopBreak := w\<rparr>) = psx_in l c r"
  "psx_in l c (set_pCP0 k w r) = psx_in l c r" "psx_in l c (setRt w r) = psx_in l c r"
  "psx_in l c (setRd w r) = psx_in l c r" "psx_in l c (psxException w bd r) = psx_in l c r" "psx_in l c (psxSetNextBranch w v r) = psx_in l c r"
  by (simp_all add: psx_in_def psx_r0_def setRt_def setRd_def psxSetNextBranch_def)

lemma snd_ret_cast [simp]: "snd (ret_cast x) = snd x"
  by (simp add: ret_cast_def case_prod_beta)

lemma iop_in_mem:
  assumes "iop_env_ok e" "iop_in l c s"
  shows "iop_in l c (snd (iopMemRead8 (iop_io_of e) a s))" "iop_in l c (snd (iopMemRead16 (iop_io_of e) a s))"
    "iop_in l c (snd (iopMemRead32 (iop_io_of e) a s))" "iop_in l c (iopMemWrite8 (iop_io_of e) a v s)"
    "iop_in l c (iopMemWrite16 (iop_io_of e) a h s)" "iop_in l c (iopMemWrite32 (iop_io_of e) a w s)"
  using assms
  by (simp_all add: fast_paths iopMemRead8_slow_def iopMemRead16_slow_def iopMemRead32_slow_def iopMemWrite8_def
      iopMemWrite16_def iopMemWrite32_def ram_store_def poke_def sbus_write16_def sbus_write32_def
      iop_env_okD Let_def)

lemma iop_in_mem_ops:
  assumes "iop_env_ok e" "iop_in l c s"
  shows "list_all (\<lambda>f. iop_in l c (f (iop_io_of e) s))
    [psxLB, psxLBU, psxLH, psxLHU, psxLW, psxLWL, psxLWR, psxSB, psxSH, psxSW, psxSWL, psxSWR]"
  using assms
  by (simp add: psxLB_def psxLBU_def psxLH_def psxLHU_def psxLW_def psxLWL_def psxLWR_def psxSB_def psxSH_def psxSW_def
      psxSWL_def psxSWR_def Let_def case_prod_beta upd_psx_def iop_in_mem)

lemma iop_in_reg_ops:
  "list_all (\<lambda>f. \<forall>r. psx_in l c r \<longrightarrow> psx_in l c (f r))
    [psxADDI, psxADDIU, psxSLTI, psxSLTIU, psxANDI, psxORI, psxXORI, psxLUI, psxSLL, psxSRL, psxSRA, psxSLLV, psxSRLV,
     psxSRAV, psxMFHI, psxMTHI, psxMFLO, psxMTLO, psxMULT, psxMULTU, psxDIV, psxDIVU, psxADD, psxADDU, psxSUB, psxSUBU,
     psxAND, psxOR, psxXOR, psxNOR, psxSLT, psxSLTU, psxMFC0, psxCFC0, psxMTC0, psxCTC0, psxRFE]"
  by (simp add: psx_ops psxRFE_def Let_def)

lemma iop_in_events:
  assumes "iop_env_ok e" "iop_in l c s"
  shows "iop_in l c (IopTestEvent e n s)" "iop_in l c (psxTestInterrupts e s)" "iop_in l c (iopEventTest e s)"
proof -
  have one: "iop_in l c (IopTestEvent e n s)" if "iop_in l c s" for n s
    using assms(1) that by (simp add: IopTestEvent_def Let_def iop_env_okD)
  then show "iop_in l c (IopTestEvent e n s)" using assms(2) by blast
  have all: "iop_in l c (fold (IopTestEvent e) ns s)" if "iop_in l c s" for ns s
    using that by (induction ns arbitrary: s) (simp_all add: one)
  have ints: "iop_in l c (psxTestInterrupts e s)" if "iop_in l c s" for s
    using that by (simp add: psxTestInterrupts_def Let_def all)
  then show "iop_in l c (psxTestInterrupts e s)" using assms(2) by blast
  show "iop_in l c (iopEventTest e s)"
    using assms by (simp add: iopEventTest_def Let_def upd_psx_def ints iop_env_okD)
qed

definition iop_ends :: "int \<Rightarrow> int \<Rightarrow> 'd iop option \<Rightarrow> bool" where
  "iop_ends l c x \<longleftrightarrow> (\<forall>t. x = Some t \<longrightarrow> iop_in l c t)"

text \<open>From states between \<open>l\<close> and \<open>c\<close>, execution ends between \<open>l'\<close> and \<open>c\<close>, if it ends.\<close>

definition iop_runs :: "int \<Rightarrow> int \<Rightarrow> int \<Rightarrow> 'd psx_exec \<Rightarrow> bool" where
  "iop_runs l c l' ex \<longleftrightarrow> (\<forall>s t. iop_in l c s \<longrightarrow> ex s = Some t \<longrightarrow> iop_in l' c t)"

lemma iop_ends_simps [simp]: "iop_ends l c None" "iop_ends l c (Some t) = iop_in l c t"
  by (simp_all add: iop_ends_def)

lemma iop_runs_iff: "iop_runs l c l' ex \<longleftrightarrow> (\<forall>s. iop_in l c s \<longrightarrow> iop_ends l' c (ex s))"
  by (auto simp: iop_runs_def iop_ends_def)

lemma iop_runs_doBranch:
  assumes "iop_env_ok e" "iop_runs l c l' ex" "iop_in l c s" "l' \<le> l"
  shows "iop_ends l' c (psx_doBranch t e ex s)" "iop_ends l' c (psx_branch_if b e ex s)"
proof -
  show *: "iop_ends l' c (psx_doBranch t e ex s)" for t
  proof (cases "ex (s\<lparr>ibranch2 := True, iopIsDelaySlot := True, branchPC := t\<rparr>)")
    case (Some u)
    moreover have "iop_in l c (s\<lparr>ibranch2 := True, iopIsDelaySlot := True, branchPC := t\<rparr>)" using assms(3) by simp
    ultimately have "iop_in l' c u" using assms(2) unfolding iop_runs_def by blast
    with Some show ?thesis
      using assms(1) by (simp add: psx_doBranch_def Let_def upd_psx_def iop_in_events)
  qed (simp add: psx_doBranch_def)
  then show "iop_ends l' c (psx_branch_if b e ex s)" using psx_in_mono [OF assms(3,4) order_refl] by (simp add: psx_branch_if_def)
qed

lemma iop_in_link: "r \<noteq> 0 \<Longrightarrow> iop_in l c (psx_link r s) = iop_in l c s"
  by (simp add: psx_link_def upd_psx_def psxSetLink_def psx_in_def psx_r0_def)

lemma iop_runs_flow_ops:
  assumes "iop_env_ok e" "iop_runs l c l' ex" "iop_in l c s" "l' \<le> l"
  shows "list_all (\<lambda>f. iop_ends l' c (f e ex s))
    [psxBGEZ, psxBGEZAL, psxBGTZ, psxBLEZ, psxBLTZ, psxBLTZAL, psxBEQ, psxBNE, psxJ, psxJAL, psxJR, psxJALR]"
  using assms
  by (simp add: psxBGEZ_def psxBGEZAL_def psxBGTZ_def psxBLEZ_def psxBLTZ_def psxBLTZAL_def psxBEQ_def psxBNE_def
      psxJ_def psxJAL_def psxJR_def psxJALR_def Let_def case_prod_beta iop_in_link iop_in_mem
      iop_env_okD iop_runs_doBranch psx_in_mono [OF _ assms(4) order_refl])

lemma iop_runs_kinds:
  assumes e: "iop_env_ok e" and l: "l' \<le> l"
  shows "iop_runs l c l' (psxNULL e ex)" "iop_runs l c l' (gte n e ex)"
    "(\<forall>r. psx_in l c r \<longrightarrow> psx_in l c (f r)) \<Longrightarrow> iop_runs l c l' (psx_reg_op f e ex)"
    "(\<And>s. iop_in l c s \<Longrightarrow> iop_in l c (g (iop_io_of e) s)) \<Longrightarrow> iop_runs l c l' (psx_mem_op g e ex)"
    "iop_runs l c l' (psx_iop_op psxSYSCALL e ex)" "iop_runs l c l' (psx_iop_op psxBREAK e ex)"
  by (auto simp: iop_runs_def psxNULL_def gte_def psx_reg_op_def psx_mem_op_def psx_iop_op_def upd_psx_def
      psxSYSCALL_def psxBREAK_def iop_env_okD [OF e] psx_in_mono [OF _ l order_refl])

lemma iop_runs_flow_kinds:
  assumes "iop_env_ok e" "iop_runs l c l' ex" "l' \<le> l"
  shows "list_all (\<lambda>f. iop_runs l c l' (f e ex))
    [psxBGEZ, psxBGEZAL, psxBGTZ, psxBLEZ, psxBLTZ, psxBLTZAL, psxBEQ, psxBNE, psxJ, psxJAL, psxJR, psxJALR]"
  using iop_runs_flow_ops [OF assms(1,2) _ assms(3)] by (simp add: iop_runs_iff)

lemma psx_table_nth:
  assumes "\<forall>f\<in>set tbl. iop_runs l c l' (f e ex)" "i < length tbl"
  shows "iop_runs l c l' ((tbl ! i) e ex)"
  using assms by simp

lemma psx_index:
  "unat (drop_bit 26 (w :: u32)) < 64" "psxFunct r < 64" "unat (psxRs r) < 32" "unat (psxRt r) < 32"
proof -
  have "unat w < 2 ^ 32" using unsigned_less [of w] by simp
  then show "unat (drop_bit 26 w) < 64" by (simp add: drop_bit_eq_div unat_div)
  have "unat (pcode r AND mask 6) < 64" by (simp only: unat_and_mask) simp
  then show "psxFunct r < 64" by (simp add: psxFunct_def mask_eq_exp_minus_1)
  show "unat (psxRs r) < 32" "unat (psxRt r) < 32" using unsigned_less [of "psxRs r"] unsigned_less [of "psxRt r"] by simp_all
qed

lemma psx_table_lengths:
  "length psxCP2BSC = 32" "length psxCP2 = 64" "length psxCP0 = 32" "length psxREG = 32" "length psxSPC = 64" "length psxBSC = 64"
  by (simp_all add: psx_tables)

lemma psxBSC_runs:
  assumes "iop_env_ok e" "iop_runs l c l' ex" "l' \<le> l"
  shows "\<forall>f\<in>set psxBSC. iop_runs l c l' (f e ex)"
proof -
  note ops = iop_runs_kinds [OF assms(1,3)] iop_in_reg_ops [unfolded list.pred_inject] iop_in_mem_ops [OF assms(1), unfolded list.pred_inject]
    iop_runs_flow_kinds [OF assms, unfolded list.pred_inject]
  have at: "iop_runs l c l' (\<lambda>s. (tbl ! i s) e ex s)" if "\<forall>f\<in>set tbl. iop_runs l c l' (f e ex)" "\<And>s. i s < length tbl" for tbl i
    using that unfolding iop_runs_def by (metis nth_mem)
  have leaf: "\<forall>f\<in>set psxCP2BSC. iop_runs l c l' (f e ex)" "\<forall>f\<in>set psxCP0. iop_runs l c l' (f e ex)"
    "\<forall>f\<in>set psxREG. iop_runs l c l' (f e ex)" "\<forall>f\<in>set psxSPC. iop_runs l c l' (f e ex)"
    by (simp_all add: psxCP2BSC_def psxCP0_def psxREG_def psxSPC_def ops)
  have "iop_runs l c l' (psxBASIC e ex)" "iop_runs l c l' (psxCOP0 e ex)" "iop_runs l c l' (psxREGIMM e ex)" "iop_runs l c l' (psxSPECIAL e ex)"
    unfolding psx_classes [abs_def] by (rule at [OF leaf(1)] at [OF leaf(2)] at [OF leaf(3)] at [OF leaf(4)]; simp add: psx_table_lengths psx_index)+
  then have classes: "iop_runs l c l' (psxBASIC e ex)" "iop_runs l c l' (psxCOP0 e ex)" "iop_runs l c l' (psxREGIMM e ex)" "iop_runs l c l' (psxSPECIAL e ex)" .
  have "\<forall>f\<in>set psxCP2. iop_runs l c l' (f e ex)" by (simp add: psxCP2_def ops classes)
  then have "iop_runs l c l' (psxCOP2 e ex)"
    unfolding psxCOP2_def [abs_def] by (rule at) (simp add: psx_table_lengths psx_index)
  with classes show ?thesis by (simp add: psxBSC_def ops)
qed

lemma sint_minus_small:
  fixes x d :: u32
  assumes "- (2 ^ 31) \<le> sint x - sint d" "sint x - sint d < 2 ^ 31"
  shows "sint (x - d) = sint x - sint d"
  using assms by (simp add: sint_word_ariths signed_take_bit_int_eq_self)

text \<open>One instruction, with the instructions of its delay slots, takes at least eight cycles of the slice and at
  most nine for each of the at most \<open>n\<close> of them.\<close>

lemma psx_execI_ends:
  assumes "iop_env_ok e" "iop_in l c s" "- (2 ^ 31) \<le> l - 9 * int n"
  shows "iop_ends (l - 9 * int n) (c - 8) (psx_execI n e s)"
  using assms(2,3)
proof (induction n arbitrary: l c s)
  case (Suc n)
  let ?s = "inject_IRX e s"
  obtain w s1 where s1: "iopMemRead32 (iop_io_of e) (ppc (psx ?s)) ?s = (w, s1)" by fastforce
  let ?s2 = "upd_psx (\<lambda>r. r\<lparr>pcode := w\<rparr>) s1"
  define d :: u32 where "d = (if peek (psxHu HW_ICFG ?s2) ?s2 AND (8 :: u32) \<noteq> 0 then 9 else 8)"
  let ?s3 = "upd_psx (\<lambda>r. r\<lparr>ppc := ppc r + 4, pcycle := pcycle r + 1, piopCycleEE := piopCycleEE r - d\<rparr>) ?s2"
  have "iop_in l c ?s"
    using assms(1) Suc.prems(1) by (simp add: inject_IRX_def Let_def case_prod_beta iop_in_mem)
  then have "iop_in l c s1" using iop_in_mem(3) [OF assms(1), of l c ?s "ppc (psx ?s)"] s1 by simp
  moreover have "sint (piopCycleEE (psx s1) - d) = slice_left s1 - sint d"
    using calculation Suc.prems(2) sint_lt [of "piopCycleEE (psx s1)"]
    by (intro sint_minus_small) (auto simp: psx_in_def d_def)
  ultimately have s3: "iop_in (l - 9) (c - 8) ?s3" by (auto simp: psx_in_def psx_r0_def upd_psx_def d_def)
  have "iop_ends (l - 9 - 9 * int n) (c - 8) (psx_execI n e u)" if "iop_in (l - 9) (c - 8) u" for u
    using Suc.IH [OF that] Suc.prems(2) by (auto simp: iop_ends_def intro: psx_in_mono)
  then have "iop_runs (l - 9) (c - 8) (l - 9 - 9 * int n) (psx_execI n e)" by (simp add: iop_runs_iff)
  then have "iop_runs (l - 9) (c - 8) (l - 9 - 9 * int n) ((psxBSC ! unat (drop_bit 26 x)) e (psx_execI n e))" for x :: u32
    by (intro psx_table_nth psxBSC_runs [OF assms(1)]) (simp_all add: psx_table_lengths psx_index)
  with s3 show ?case by (simp add: s1 d_def [symmetric] Let_def iop_runs_iff algebra_simps)
qed (simp add: iop_ends_def)

lemma iop_ends_mono: "iop_ends l c x \<Longrightarrow> l' \<le> l \<Longrightarrow> c \<le> c' \<Longrightarrow> iop_ends l' c' x"
  by (auto simp: iop_ends_def intro: psx_in_mono)

lemma until_branch_ends:
  assumes "iop_env_ok e" "iop_in l c s" "- (2 ^ 31) \<le> l - 9 * int n * int k"
  shows "iop_ends (l - 9 * int n * int k) (if ibranch2 s then c else c - 8) (until_branch k n e s)"
  using assms(2,3)
proof (induction k arbitrary: l c s)
  case (Suc k)
  have le: "l - 9 * int n * int (Suc k) \<le> l - 9 * int n" "l - 9 * int n * int (Suc k) \<le> l"
    by (simp_all add: algebra_simps)
  show ?case
  proof (cases "ibranch2 s")
    case True
    then show ?thesis using psx_in_mono [OF Suc.prems(1) le(2) order_refl] by simp
  next
    case False
    have one: "iop_ends (l - 9 * int n) (c - 8) (psx_execI n e s)"
      using psx_execI_ends [OF assms(1) Suc.prems(1), of n] le(1) Suc.prems(2) by linarith
    show ?thesis
    proof (cases "psx_execI n e s")
      case (Some u)
      have "iop_ends (l - 9 * int n - 9 * int n * int k) (if ibranch2 u then c - 8 else c - 8 - 8) (until_branch k n e u)"
        using one Some Suc.prems(2) by (intro Suc.IH) (simp_all add: algebra_simps)
      then have "iop_ends (l - 9 * int n * int (Suc k)) (c - 8) (until_branch k n e u)"
        by (rule iop_ends_mono) (simp_all add: algebra_simps)
      then show ?thesis using False Some by simp
    qed (use False in simp)
  qed
qed simp

lemma iopRunBasicBlock_ends:
  assumes "iop_env_ok e" "iop_in l c s" "- (2 ^ 31) \<le> l - 9 * int n * int k"
  shows "iop_ends (l - 9 * int n * int k) (c - 8) (iopRunBasicBlock k n e s)"
proof -
  have "iop_in l c ((bios_entry e s)\<lparr>ibranch2 := False\<rparr>)"
    using assms(1,2) by (simp add: bios_entry_def Let_def iop_env_okD)
  from until_branch_ends [OF assms(1) this assms(3)] show ?thesis by (simp add: iopRunBasicBlock_def)
qed

text \<open>Every block takes at least eight cycles, so a slice of \<open>c\<close> cycles has at most \<open>c / 8 + 1\<close> blocks.\<close>

lemma run_blocks_end:
  assumes e: "iop_env_ok e" and nk: "9 * int n * int k \<le> 2 ^ 31"
    and blocks: "\<And>u. J u \<Longrightarrow> 0 < slice_left u \<Longrightarrow> \<exists>t. iopRunBasicBlock k n e u = Some t \<and> J t"
    and s: "J s" "iop_in (- (9 * int n * int k)) c s" "c \<le> 8 * int b"
  shows "\<exists>t. run_blocks (Suc b) k n e s = Some t \<and> J t \<and> iop_in (- (9 * int n * int k)) 0 t"
  using s
proof (induction b arbitrary: s c)
  case 0
  then show ?case by (auto simp: psx_in_def)
next
  case (Suc b)
  show ?case
  proof (cases "0 < slice_left s")
    case True
    obtain t where t: "iopRunBasicBlock k n e s = Some t" "J t" using blocks [OF Suc.prems(1) True] by blast
    have "iop_in 0 c s" using True Suc.prems(2) by (simp add: psx_in_def)
    from iopRunBasicBlock_ends [OF e this, of n k] nk t(1) have "iop_in (- (9 * int n * int k)) (c - 8) t" by simp
    from Suc.IH [OF t(2) this] Suc.prems(3) obtain u where
      "run_blocks (Suc b) k n e t = Some u" "J u" "iop_in (- (9 * int n * int k)) 0 u" by auto
    then show ?thesis using True t(1) by (subst run_blocks.simps(2)) (simp del: run_blocks.simps)
  next
    case False
    then show ?thesis using Suc.prems(1,2) by (auto simp: psx_in_def)
  qed
qed

text \<open>C28: a time slice of the I/O processor ends. The code outside the model keeps register 0 and either leaves
  the cycles of the slice alone or breaks the slice off; the blocks of the guest end (the source runs a block until
  the first branch) within \<open>k\<close> instructions and delay slots of depth \<open>n\<close>, in every state the guest
  reaches (an invariant \<open>J\<close>). Then \<open>intExecuteBlock\<close> returns: eeCycles / 8 + 2 rounds of its loop are
  enough, since every block takes at least eight cycles. Register 0 still reads as zero, the slice is
  overrun by at most the last block, nine cycles for each of its instructions, and the result is the overrun
  plus the cycles put aside when the slice was broken off.\<close>

theorem iop_time_slice:
  assumes "iop_env_ok e" "iop_r0 s" "0 \<le> sint eeCycles" "9 * int n * int k \<le> 2 ^ 31"
    and "\<And>u. J u \<Longrightarrow> 0 < slice_left u \<Longrightarrow> \<exists>t. iopRunBasicBlock k n e u = Some t \<and> J t"
    and "J (upd_psx (\<lambda>r. r\<lparr>piopBreak := 0, piopCycleEE := eeCycles\<rparr>) s)"
  shows "\<exists>t. intExecuteBlock (nat (sint eeCycles) div 8 + 2) k n e eeCycles s =
      Some (piopBreak (psx t) + piopCycleEE (psx t), t) \<and> J t \<and>
    iop_r0 t \<and> - (9 * int n * int k) \<le> slice_left t \<and> slice_left t \<le> 0"
proof -
  let ?s = "upd_psx (\<lambda>r. r\<lparr>piopBreak := 0, piopCycleEE := eeCycles\<rparr>) s" and ?b = "nat (sint eeCycles) div 8 + 1"
  have "iop_in (- (9 * int n * int k)) (sint eeCycles) ?s"
  proof -
    have "0 \<le> 9 * int n * int k" by simp
    then have "- (9 * int n * int k) \<le> sint eeCycles" using assms(3) by linarith
    then show ?thesis using assms(2) by (simp add: psx_in_def psx_r0_def upd_psx_def)
  qed
  moreover have "sint eeCycles \<le> 8 * int ?b" using assms(3) by (simp add: zdiv_int)
  ultimately obtain t where "run_blocks (Suc ?b) k n e ?s = Some t" "J t" "iop_in (- (9 * int n * int k)) 0 t"
    using run_blocks_end [OF assms(1,4,5,6)] by blast
  then show ?thesis by (auto simp: intExecuteBlock_def psx_in_def)
qed

text \<open>A jump to itself, with a no-op in its delay slot.\<close>

definition loop_iop :: "unit iop" where
  "loop_iop = blank_iop\<lparr>psx := psxReset\<lparr>ppc := 0x1000\<rparr>, ihost := store_le 0x1001000 (0x08000400 :: u32) (\<lambda>p. 0)\<rparr>"

definition like_loop :: "unit iop \<Rightarrow> bool" where
  "like_loop s \<longleftrightarrow> ihost s = ihost loop_iop \<and> ilayout s = ilayout loop_iop \<and> reset_luts s \<and>
     psxNextStartCounter s = 0 \<and> psxNextDeltaCounter s = 1000 \<and> CurrentIRX_length s = 0"

lemma like_loop_upd [simp]:
  "like_loop (s\<lparr>psx := r\<rparr>) = like_loop s" "like_loop (s\<lparr>ibranch2 := b\<rparr>) = like_loop s" "like_loop (s\<lparr>branchPC := p\<rparr>) = like_loop s"
  "like_loop (s\<lparr>iopIsDelaySlot := b\<rparr>) = like_loop s" "like_loop (s\<lparr>iopEventAction := b\<rparr>) = like_loop s"
  "like_loop loop_iop"
  using blank_iop_ok(1)
  by (simp_all add: like_loop_def reset_luts_def loop_iop_def blank_iop_def iopMemoryReserve_Reset_def)

lemma loop_memory:
  assumes "like_loop s"
  shows "iopMemRead32 io 0x1000 s = (0x08000400, s)" "iopMemRead32 io 0x1004 s = (0, s)"
    "peek (psxHu 0x1f801450 s) s = (0 :: u32)" "iop_irq_pending s = False"
    "psxNextStartCounter s = 0" "psxNextDeltaCounter s = 1000" "inject_IRX e s = s"
proof -
  have l: "ihost s = store_le 0x1001000 (0x08000400 :: u32) (\<lambda>p. 0)" "iMain (ilayout s) = 0x1000000" "iHw (ilayout s) = 0x1220000" "reset_luts s"
    using assms by (simp_all add: like_loop_def loop_iop_def blank_iop_def iopMemoryReserve_Reset_def)
  note reads = ram_reads(3) [OF l(4), where io = io]
  show "iopMemRead32 io 0x1000 s = (0x08000400, s)" "iopMemRead32 io 0x1004 s = (0, s)"
    using load_store_same [where n = 4 and v = "0x08000400 :: u32" and p = "0x1001000"]
      load_store_other [where x = 0 and y = 4 and b = "0x1001000" and v = "0x08000400" and m = "\<lambda>p. 0"]
    by (simp_all add: reads ram_address_def ram_offset_def peek_def l) (simp add: load_le_def upt_rec)
  show "peek (psxHu 0x1f801450 s) s = (0 :: u32)" "iop_irq_pending s = False"
    by (simp_all add: peek_def psxHu_def l iop_irq_pending_def load_le_def store_le_def upt_rec)
  show "psxNextStartCounter s = 0" "psxNextDeltaCounter s = 1000" "inject_IRX e s = s"
    using assms by (simp_all add: like_loop_def inject_IRX_def)
qed

text \<open>From the jump, a block ends at the jump again.\<close>

definition at_loop :: "unit iop \<Rightarrow> bool" where
  "at_loop s \<longleftrightarrow> like_loop s \<and> ppc (psx s) = 0x1000 \<and> pinterrupt (psx s) = 0"

lemma at_loop_block:
  assumes "at_loop s"
  shows "\<exists>t. iopRunBasicBlock (Suc (Suc 0)) (Suc (Suc 0)) blank_iop_env s = Some t \<and> at_loop t"
proof -
  have j: "psxBSC ! 2 = psxJ" "psxBSC ! 0 = psxSPECIAL" "psxSPC ! 0 = psx_reg_op psxSLL"
    by (simp_all add: psxBSC_def psxSPC_def)
  have env: "psxRcntUpdate blank_iop_env u = u" for u by (simp add: blank_iop_env_def)
  have s: "like_loop s" "ppc (psx s) = 0x1000" "pinterrupt (psx s) = 0" using assms by (simp_all add: at_loop_def)
  then show ?thesis
    by (simp add: iopRunBasicBlock_def bios_entry_def Let_def loop_memory upd_psx_def
      j psxJ_def psx_doBranch_def psxSPECIAL_def psxFunct_def psx_reg_op_def psxSLL_def setRd_def psxRd_def
      psxJumpTarget_def psxInstrucTarget_def iopEventTest_def env at_loop_def)
qed

theorem iop_time_slice_witness:
  "\<exists>t. intExecuteBlock 14 (Suc (Suc 0)) (Suc (Suc 0)) blank_iop_env 100 loop_iop = Some (piopBreak (psx t) + piopCycleEE (psx t), t) \<and>
     at_loop t \<and> iop_r0 t \<and> - 36 \<le> slice_left t \<and> slice_left t \<le> 0"
proof -
  have "iop_env_ok blank_iop_env" by (simp add: iop_env_ok_def blank_iop_env_def iop_kept_def)
  moreover have "iop_r0 loop_iop" by (simp add: psx_r0_def loop_iop_def psxReset_def)
  moreover have "at_loop (upd_psx (\<lambda>r. r\<lparr>piopBreak := 0, piopCycleEE := 100\<rparr>) loop_iop)"
    by (simp add: at_loop_def upd_psx_def) (simp add: loop_iop_def psxReset_def)
  ultimately show ?thesis
    using iop_time_slice [of blank_iop_env loop_iop 100 "Suc (Suc 0)" "Suc (Suc 0)" at_loop] at_loop_block by simp
qed

end
