(* ===== verification/Sif_Fifo.thy ===== *)
theory Sif_Fifo
  imports Prelude
begin

text \<open>
  The word FIFO between the two processors, \<open>sifFifo\<close> of src/pcsx2/Sif.h: a ring of 128 words with
  read and write positions and a fill count. \<open>bounded_queue\<close> is what its clients rely on, and the ring
  is an interpretation of it.
\<close>

subsection \<open>The ring\<close>

definition FIFO_SIF_W :: nat where "FIFO_SIF_W = 128"

record sifFifo =
  fdata :: "u32 list"
  junk :: "u32 list"
  readPos :: nat
  writePos :: nat
  fsize :: int

text \<open>\<open>memcpy\<close> of whole words into an array, starting at element \<open>i\<close>.\<close>

definition memcpy_words :: "nat \<Rightarrow> 'a list \<Rightarrow> 'a list \<Rightarrow> 'a list" where
  "memcpy_words i ws d = take i d @ ws @ drop (i + length ws) d"

definition fifo_write :: "u32 list \<Rightarrow> sifFifo \<Rightarrow> sifFifo" where
  "fifo_write from f =
     (let words = length from;
          wP0 = min (FIFO_SIF_W - writePos f) words;
          d = memcpy_words (writePos f) (take wP0 from) (fdata f)
      in f\<lparr>fdata := memcpy_words 0 (drop wP0 from) d,
           writePos := (writePos f + words) mod FIFO_SIF_W, fsize := fsize f + int words\<rparr>)"

definition fifo_read :: "nat \<Rightarrow> sifFifo \<Rightarrow> u32 list \<times> sifFifo" where
  "fifo_read words f =
     (let wP0 = min (FIFO_SIF_W - readPos f) words; wP1 = words - wP0
      in (take wP0 (drop (readPos f) (fdata f)) @ take wP1 (fdata f),
          f\<lparr>readPos := (readPos f + words) mod FIFO_SIF_W, fsize := fsize f - int words\<rparr>))"

definition fifo_writeJunk :: "nat \<Rightarrow> sifFifo \<Rightarrow> sifFifo" where
  "fifo_writeJunk words f =
     (let transferredWords = 4 - words;
          prevQWPos = nat ((int (writePos f) - int (4 + transferredWords)) mod int FIFO_SIF_W);
          rP0 = min (FIFO_SIF_W - prevQWPos) 4; rP1 = 4 - rP0;
          j = memcpy_words rP0 (take rP1 (fdata f))
                (memcpy_words 0 (take rP0 (drop prevQWPos (fdata f))) (junk f));
          wP0 = min (FIFO_SIF_W - writePos f) words; wP1 = words - wP0;
          d = memcpy_words (writePos f) (take wP0 (drop (4 - wP0) j)) (fdata f)
      in f\<lparr>junk := j, fdata := memcpy_words 0 (take wP1 (drop wP0 j)) d,
           writePos := (writePos f + words) mod FIFO_SIF_W, fsize := fsize f + int words\<rparr>)"

definition fifo_clear :: "sifFifo \<Rightarrow> sifFifo" where
  "fifo_clear f = f\<lparr>fdata := replicate FIFO_SIF_W 0, readPos := 0, writePos := 0, fsize := 0\<rparr>"

subsection \<open>Contents\<close>

definition fifo_ok :: "sifFifo \<Rightarrow> bool" where
  "fifo_ok f \<longleftrightarrow> length (fdata f) = 128 \<and> length (junk f) = 4 \<and> readPos f < 128 \<and> 0 \<le> fsize f \<and> fsize f \<le> 128 \<and>
     writePos f = (readPos f + nat (fsize f)) mod 128"

definition contents :: "sifFifo \<Rightarrow> u32 list" where
  "contents f = map (\<lambda>i. fdata f ! ((readPos f + i) mod 128)) [0..<nat (fsize f)]"

lemma length_contents [simp]: "length (contents f) = nat (fsize f)"
  by (simp add: contents_def)

lemma fifo_ok_writePos: "fifo_ok f \<Longrightarrow> writePos f < 128"
  by (simp add: fifo_ok_def)

lemma length_memcpy_words [simp]:
  "i + length ws \<le> length d \<Longrightarrow> length (memcpy_words i ws d) = length d"
  by (simp add: memcpy_words_def)

lemma memcpy_words_nth:
  "i + length ws \<le> length d \<Longrightarrow> j < length d \<Longrightarrow>
   memcpy_words i ws d ! j = (if i \<le> j \<and> j < i + length ws then ws ! (j - i) else d ! j)"
  by (auto simp: memcpy_words_def nth_append min_def)

text \<open>Distances around the ring.\<close>

definition ring_dist :: "nat \<Rightarrow> nat \<Rightarrow> nat" where "ring_dist p j = (j + 128 - p) mod 128"

lemma ring_dist_less [simp]: "ring_dist p j < 128"
  by (simp add: ring_dist_def)

lemma ring_dist_cases: "p < 128 \<Longrightarrow> j < 128 \<Longrightarrow> ring_dist p j = (if p \<le> j then j - p else j + 128 - p)"
  by (auto simp: ring_dist_def mod_if)

lemma ring_add: "p < 128 \<Longrightarrow> i \<le> 128 \<Longrightarrow> (p + i) mod 128 = (if p + i < 128 then p + i else p + i - 128)" for p :: nat
  by (auto simp: mod_if)

text \<open>What a write of \<open>ws\<close> at the write position leaves in each cell.\<close>

lemma fifo_write_data:
  assumes "length (fdata f) = 128" "writePos f < 128" "length ws \<le> 128" "j < 128"
  shows "fdata (fifo_write ws f) ! j =
    (if ring_dist (writePos f) j < length ws then ws ! ring_dist (writePos f) j else fdata f ! j)"
  using assms
  by (auto simp: fifo_write_def Let_def FIFO_SIF_W_def memcpy_words_nth ring_dist_cases min_def nth_append add.commute)

lemma fifo_write_frame [simp]:
  "readPos (fifo_write ws f) = readPos f" "junk (fifo_write ws f) = junk f"
  "fsize (fifo_write ws f) = fsize f + int (length ws)"
  "writePos (fifo_write ws f) = (writePos f + length ws) mod 128"
  by (simp_all add: fifo_write_def Let_def FIFO_SIF_W_def)

lemma length_fifo_write [simp]:
  assumes "length (fdata f) = 128" "writePos f < 128" "length ws \<le> 128"
  shows "length (fdata (fifo_write ws f)) = 128"
  using assms by (simp add: fifo_write_def Let_def FIFO_SIF_W_def min_def)

lemma fifo_write_ok:
  assumes "fifo_ok f" "fsize f + int (length ws) \<le> 128"
  shows "fifo_ok (fifo_write ws f)"
proof -
  have "nat (fsize f + int (length ws)) = nat (fsize f) + length ws"
    using assms by (simp add: fifo_ok_def nat_add_distrib)
  with assms show ?thesis
    using fifo_ok_writePos [OF assms(1)]
    by (auto simp: fifo_ok_def mod_simps add.assoc)
qed

lemma fifo_write_contents:
  assumes ok: "fifo_ok f" and fit: "fsize f + int (length ws) \<le> 128"
  shows "contents (fifo_write ws f) = contents f @ ws"
proof (rule nth_equalityI)
  define n where "n = nat (fsize f)"
  have n: "fsize f = int n" "n + length ws \<le> 128" and rp: "readPos f < 128"
    and wp: "writePos f = (readPos f + n) mod 128" and len: "length (fdata f) = 128"
    using ok fit by (auto simp: fifo_ok_def n_def)
  have eq: "nat (fsize f + int (length ws)) = n + length ws" using n by simp
  show "length (contents (fifo_write ws f)) = length (contents f @ ws)"
    by (simp add: eq n_def)
  fix i
  assume "i < length (contents (fifo_write ws f))"
  then have i: "i < n + length ws" by (simp add: eq)
  have d: "ring_dist (writePos f) ((readPos f + i) mod 128) = (if i < n then i + 128 - n else i - n)"
    using i n rp by (simp add: wp ring_add ring_dist_cases) arith
  have "fdata (fifo_write ws f) ! ((readPos f + i) mod 128) = (contents f @ ws) ! i"
    using i n rp by (auto simp: fifo_write_data len wp [symmetric] d fifo_ok_writePos [OF ok] contents_def nth_append)
  then show "contents (fifo_write ws f) ! i = (contents f @ ws) ! i"
    using i by (simp add: contents_def eq)
qed

lemma fifo_read_frame [simp]:
  "fdata (snd (fifo_read n f)) = fdata f" "junk (snd (fifo_read n f)) = junk f"
  "writePos (snd (fifo_read n f)) = writePos f" "fsize (snd (fifo_read n f)) = fsize f - int n"
  "readPos (snd (fifo_read n f)) = (readPos f + n) mod 128"
  by (simp_all add: fifo_read_def Let_def FIFO_SIF_W_def)

lemma length_fifo_read [simp]:
  "length (fdata f) = 128 \<Longrightarrow> readPos f < 128 \<Longrightarrow> n \<le> 128 \<Longrightarrow> length (fst (fifo_read n f)) = n"
  by (auto simp: fifo_read_def Let_def FIFO_SIF_W_def min_def)

lemma fifo_read_ok:
  assumes "fifo_ok f" "int n \<le> fsize f"
  shows "fifo_ok (snd (fifo_read n f))"
proof -
  have "nat (fsize f) = n + nat (fsize f - int n)" using assms by simp
  then have "(readPos f + nat (fsize f)) mod 128 = ((readPos f + n) mod 128 + nat (fsize f - int n)) mod 128"
    by (simp add: mod_simps add.assoc)
  with assms show ?thesis by (auto simp: fifo_ok_def)
qed

lemma fifo_read_contents:
  assumes ok: "fifo_ok f" and le: "int n \<le> fsize f"
  shows "fst (fifo_read n f) = take n (contents f)" "contents (snd (fifo_read n f)) = drop n (contents f)"
proof -
  have len: "length (fdata f) = 128" and rp: "readPos f < 128" and n: "n \<le> 128"
    using assms by (auto simp: fifo_ok_def)
  show "fst (fifo_read n f) = take n (contents f)"
  proof (rule nth_equalityI)
    show "length (fst (fifo_read n f)) = length (take n (contents f))"
      using len rp n le by simp
    fix i
    assume "i < length (fst (fifo_read n f))"
    then have i: "i < n" using len rp n by simp
    have "i < nat (fsize f)" using i le by simp
    then have "take n (contents f) ! i = fdata f ! ((readPos f + i) mod 128)"
      using i by (simp add: contents_def)
    also have "\<dots> = fst (fifo_read n f) ! i"
      using i rp n len by (auto simp: ring_add fifo_read_def Let_def FIFO_SIF_W_def nth_append min_def add.commute)
    finally show "fst (fifo_read n f) ! i = take n (contents f) ! i" by simp
  qed
  show "contents (snd (fifo_read n f)) = drop n (contents f)"
    using le by (intro nth_equalityI) (auto simp: contents_def mod_simps add.assoc add.left_commute)
qed

lemma fifo_clear_ok: "length (junk f) = 4 \<Longrightarrow> fifo_ok (fifo_clear f)"
  by (simp add: fifo_ok_def fifo_clear_def FIFO_SIF_W_def)

lemma fifo_clear_contents: "contents (fifo_clear f) = []"
  by (simp add: contents_def fifo_clear_def)

text \<open>Filling up a quadword: with the write position inside a quadword of the ring, \<open>writeJunk\<close> appends
  the missing words, taken from the same places of the quadword before it.\<close>

lemma fifo_writeJunk_as_write:
  assumes ok: "fifo_ok f" and w: "0 < words" "words < 4" and al: "writePos f mod 4 = 4 - words"
  shows "fifo_writeJunk words f =
    (fifo_write (map (\<lambda>i. fdata f ! ((writePos f + 124 + i) mod 128)) [0..<words]) f)
      \<lparr>junk := junk (fifo_writeJunk words f)\<rparr>"
proof -
  define p where "p = writePos f div 4"
  have wp: "writePos f = 4 * p + (4 - words)" and p: "p < 32"
    using al fifo_ok_writePos [OF ok] by (simp_all add: p_def less_mult_imp_div_less flip: al)
  have len: "length (fdata f) = 128" "length (junk f) = 4" using ok by (simp_all add: fifo_ok_def)
  define q where "q = (if p = 0 then 124 else 4 * p - 4)"
  have prev: "nat ((int (writePos f) - int (4 + (4 - words))) mod int FIFO_SIF_W) = q"
    using w p by (auto simp: wp q_def FIFO_SIF_W_def)
  have q: "q + 4 \<le> 128" using p by (auto simp: q_def)
  have m: "min (FIFO_SIF_W - q) 4 = 4" "min (FIFO_SIF_W - writePos f) words = words"
    using q w p by (simp_all add: wp FIFO_SIF_W_def)
  have j: "memcpy_words 4 (take (4 - 4) (fdata f)) (memcpy_words 0 (take 4 (drop q (fdata f))) (junk f)) =
      take 4 (drop q (fdata f))"
    using len q by (simp add: memcpy_words_def)
  have src: "take words (drop (4 - words) (take 4 (drop q (fdata f)))) =
      map (\<lambda>i. fdata f ! ((writePos f + 124 + i) mod 128)) [0..<words]"
    using len p w by (intro nth_equalityI) (auto simp: wp q_def mod_if)
  show ?thesis
    unfolding fifo_writeJunk_def fifo_write_def Let_def prev m j src
    by (simp add: m memcpy_words_def)
qed

lemma length_junk_writeJunk:
  assumes "fifo_ok f"
  shows "length (junk (fifo_writeJunk words f)) = 4"
proof -
  define q where "q = nat ((int (writePos f) - int (4 + (4 - words))) mod int FIFO_SIF_W)"
  define r where "r = min (FIFO_SIF_W - q) 4"
  have r: "r \<le> 4" by (simp add: r_def)
  have len: "length (fdata f) = 128" "length (junk f) = 4" using assms by (simp_all add: fifo_ok_def)
  define a where "a = take r (drop q (fdata f))"
  have "length a \<le> 4" using r by (simp add: a_def min_def)
  then have b: "length (memcpy_words 0 a (junk f)) = 4" by (simp add: len)
  have "length (memcpy_words r (take (4 - r) (fdata f)) (memcpy_words 0 a (junk f))) = 4"
    using r by (subst length_memcpy_words) (simp_all add: len b)
  then show ?thesis
    by (cases f) (simp only: fifo_writeJunk_def Let_def a_def r_def q_def sifFifo.simps)
qed

lemma fifo_writeJunk_write:
  assumes "fifo_ok f" "0 < words" "words < 4" "writePos f mod 4 = 4 - words"
  obtains j where "length j = 4" "fifo_writeJunk words f =
    (fifo_write (map (\<lambda>i. fdata f ! ((writePos f + 124 + i) mod 128)) [0..<words]) f)\<lparr>junk := j\<rparr>"
  using fifo_writeJunk_as_write [OF assms] length_junk_writeJunk [OF assms(1)] by blast

subsection \<open>Bounded queues\<close>

datatype 'a queue_op = Put "'a list" | Get nat

text \<open>A run of operations, with the words it takes out, and the condition that no operation finds the
  queue too full or too empty.\<close>

fun queue_run :: "('a list \<Rightarrow> 'q \<Rightarrow> 'q) \<Rightarrow> (nat \<Rightarrow> 'q \<Rightarrow> 'a list \<times> 'q) \<Rightarrow> 'a queue_op list \<Rightarrow> 'q \<Rightarrow> 'a list \<times> 'q" where
  "queue_run put get [] q = ([], q)"
| "queue_run put get (Put xs # ops) q = queue_run put get ops (put xs q)"
| "queue_run put get (Get n # ops) q =
     (let (ys, q1) = get n q; (zs, q2) = queue_run put get ops q1 in (ys @ zs, q2))"

fun queue_fits :: "nat \<Rightarrow> 'a queue_op list \<Rightarrow> nat \<Rightarrow> bool" where
  "queue_fits cap [] k \<longleftrightarrow> True"
| "queue_fits cap (Put xs # ops) k \<longleftrightarrow> k + length xs \<le> cap \<and> queue_fits cap ops (k + length xs)"
| "queue_fits cap (Get n # ops) k \<longleftrightarrow> n \<le> k \<and> queue_fits cap ops (k - n)"

fun queue_input :: "'a queue_op list \<Rightarrow> 'a list" where
  "queue_input [] = []"
| "queue_input (Put xs # ops) = xs @ queue_input ops"
| "queue_input (Get n # ops) = queue_input ops"

locale bounded_queue =
  fixes inv :: "'q \<Rightarrow> bool" and abs :: "'q \<Rightarrow> 'a list" and cap :: nat
    and put :: "'a list \<Rightarrow> 'q \<Rightarrow> 'q" and get :: "nat \<Rightarrow> 'q \<Rightarrow> 'a list \<times> 'q"
  assumes put_inv: "inv q \<Longrightarrow> length (abs q) + length xs \<le> cap \<Longrightarrow> inv (put xs q)"
    and put_abs: "inv q \<Longrightarrow> length (abs q) + length xs \<le> cap \<Longrightarrow> abs (put xs q) = abs q @ xs"
    and get_inv: "inv q \<Longrightarrow> n \<le> length (abs q) \<Longrightarrow> inv (snd (get n q))"
    and get_out: "inv q \<Longrightarrow> n \<le> length (abs q) \<Longrightarrow> fst (get n q) = take n (abs q)"
    and get_abs: "inv q \<Longrightarrow> n \<le> length (abs q) \<Longrightarrow> abs (snd (get n q)) = drop n (abs q)"
begin

lemma run_in_order:
  assumes "inv q" "queue_fits cap ops (length (abs q))"
  shows "inv (snd (queue_run put get ops q)) \<and>
    abs q @ queue_input ops = fst (queue_run put get ops q) @ abs (snd (queue_run put get ops q))"
  using assms
proof (induction ops arbitrary: q rule: queue_input.induct)
  case (2 xs ops)
  then show ?case using "2.IH" [of "put xs q"] by (auto simp: put_inv put_abs)
next
  case (3 n ops)
  then have "inv (snd (get n q))" "length (abs (snd (get n q))) = length (abs q) - n"
    by (simp_all add: get_inv get_abs)
  with 3 have "inv (snd (queue_run put get ops (snd (get n q)))) \<and>
      drop n (abs q) @ queue_input ops =
        fst (queue_run put get ops (snd (get n q))) @ abs (snd (queue_run put get ops (snd (get n q))))"
    by (metis get_abs queue_fits.simps(3))
  with 3 show ?case
    by (auto simp: case_prod_beta Let_def get_out append_assoc)
      (metis append_assoc append_take_drop_id)
qed simp

end

lemma fifo_room: "fifo_ok f \<Longrightarrow> nat (fsize f) + k \<le> 128 \<Longrightarrow> fsize f + int k \<le> 128"
  by (simp add: fifo_ok_def)

lemma fifo_avail: "fifo_ok f \<Longrightarrow> n \<le> nat (fsize f) \<Longrightarrow> int n \<le> fsize f"
  by (simp add: fifo_ok_def le_nat_iff)

interpretation sif: bounded_queue fifo_ok contents 128 fifo_write fifo_read
  by unfold_locales
    (simp_all add: fifo_room fifo_avail fifo_write_ok fifo_write_contents fifo_read_ok fifo_read_contents)

text \<open>C29: the SIF FIFO is a queue of up to 128 words: as long as no operation finds it too full or too
  empty, any run of writes and reads from any ring position keeps its representation consistent, and
  the words read followed by the words still held are the words held before followed by the words
  written, in order, however often the two positions wrap around the ring.\<close>
theorem sif_fifo_in_order:
  assumes "fifo_ok f" "queue_fits 128 ops (length (contents f))"
  shows "fifo_ok (snd (queue_run fifo_write fifo_read ops f)) \<and>
    contents f @ queue_input ops =
      fst (queue_run fifo_write fifo_read ops f) @ contents (snd (queue_run fifo_write fifo_read ops f))"
  using sif.run_in_order [OF assms] .

theorem sif_fifo_in_order_witness:
  "fifo_ok (snd (queue_run fifo_write fifo_read [Put [7, 8, 9], Get 2]
      \<lparr>fdata = replicate 128 0, junk = [0, 0, 0, 0], readPos = 126, writePos = 127, fsize = 1\<rparr>))"
  using sif_fifo_in_order [of "\<lparr>fdata = replicate 128 0, junk = [0, 0, 0, 0], readPos = 126, writePos = 127, fsize = 1\<rparr>"
      "[Put [7, 8, 9], Get 2]"]
  by (simp add: fifo_ok_def)

end
