(* ===== verification/Dmac.thy ===== *)
theory Dmac
  imports IOP_Interp
begin

text \<open>
  The DMA controller of the Emotion Engine: the channel registers and their operations
  (src/pcsx2/Dmac.h, src/pcsx2/Dmac.cpp), tag chains and interrupts (src/pcsx2/Hw.cpp), the interrupt
  tests of src/pcsx2/R5900.cpp and the DMA interrupt flags of the IOP (src/pcsx2/IopHw.cpp). The
  structures laid over the register file (\<open>DMACh\<close>, \<open>DMACregisters\<close>, \<open>dma_mbct\<close>) are records; the machine
  is an IOP state whose device part holds them, so the two processors share one host memory.
\<close>

named_theorems dmac_frame \<open>what the DMA controller leaves alone\<close>

subsection \<open>Channel registers\<close>

record DMACh =
  chcr :: u32
  madr :: u32
  qwc :: u32
  tadr :: u32
  asr0 :: u32
  asr1 :: u32
  sadr :: u32

definition chcr_MOD :: "u32 \<Rightarrow> nat" where "chcr_MOD c = unat (drop_bit 2 c AND 3)"
definition chcr_ASP :: "u32 \<Rightarrow> nat" where "chcr_ASP c = unat (drop_bit 4 c AND 3)"
definition chcr_TTE :: "u32 \<Rightarrow> bool" where "chcr_TTE c = bit c 6"
definition chcr_TIE :: "u32 \<Rightarrow> bool" where "chcr_TIE c = bit c 7"
definition chcr_STR :: "u32 \<Rightarrow> bool" where "chcr_STR c = bit c 8"
definition chcr_TAG :: "u32 \<Rightarrow> u32" where "chcr_TAG c = drop_bit 16 c"
definition set_MOD :: "nat \<Rightarrow> u32 \<Rightarrow> u32" where
  "set_MOD v c = (c AND NOT 0xc) OR push_bit 2 (of_nat v AND 3)"
definition set_ASP :: "nat \<Rightarrow> u32 \<Rightarrow> u32" where
  "set_ASP v c = (c AND NOT 0x30) OR push_bit 4 (of_nat v AND 3)"
definition set_TAG :: "u32 \<Rightarrow> u32 \<Rightarrow> u32" where
  "set_TAG v c = (c AND 0xffff) OR push_bit 16 v"

text \<open>The first word of a DMA tag.\<close>

definition tag_QWC :: "u32 \<Rightarrow> u32" where "tag_QWC t = t AND 0xffff"
definition tag_ID :: "u32 \<Rightarrow> nat" where "tag_ID t = unat (drop_bit 28 t AND 7)"
definition tag_IRQ :: "u32 \<Rightarrow> bool" where "tag_IRQ t = bit t 31"
definition tag_SPR :: "u32 \<Rightarrow> bool" where "tag_SPR t = bit t 31"

abbreviation (input) "TAG_CNTS \<equiv> 0 :: nat"
abbreviation (input) "TAG_REFE \<equiv> 0 :: nat"
abbreviation (input) "TAG_CNT \<equiv> 1 :: nat"
abbreviation (input) "TAG_NEXT \<equiv> 2 :: nat"
abbreviation (input) "TAG_REF \<equiv> 3 :: nat"
abbreviation (input) "TAG_REFS \<equiv> 4 :: nat"
abbreviation (input) "TAG_CALL \<equiv> 5 :: nat"
abbreviation (input) "TAG_RET \<equiv> 6 :: nat"
abbreviation (input) "TAG_END \<equiv> 7 :: nat"

abbreviation (input) "NORMAL_MODE \<equiv> 0 :: nat"
abbreviation (input) "CHAIN_MODE \<equiv> 1 :: nat"

abbreviation (input) "DMAC_VIF1 \<equiv> 1 :: nat"
abbreviation (input) "DMAC_SIF0 \<equiv> 5 :: nat"
abbreviation (input) "DMAC_SIF1 \<equiv> 6 :: nat"
abbreviation (input) "DMAC_SIF2 \<equiv> 7 :: nat"
abbreviation (input) "DMAC_STALL_SIS \<equiv> 13 :: nat"

text \<open>\<open>DMACregisters\<close> with the interrupt controller's and the DMA enable registers.\<close>

record DMACregisters =
  ctrl :: u32
  stat :: u32
  pcr :: u32
  sqwc :: u32
  rbsr :: u32
  rbor :: u32
  stadr :: u32
  enabler :: u32
  enablew :: u32
  intc_stat :: u32
  intc_mask :: u32

definition ctrl_DMAE :: "DMACregisters \<Rightarrow> bool" where "ctrl_DMAE d = bit (ctrl d) 0"
definition ctrl_STS :: "DMACregisters \<Rightarrow> nat" where "ctrl_STS d = unat (drop_bit 4 (ctrl d) AND 3)"
definition ctrl_STD :: "DMACregisters \<Rightarrow> nat" where "ctrl_STD d = unat (drop_bit 6 (ctrl d) AND 3)"
definition stadr_ADDR :: "DMACregisters \<Rightarrow> u32" where "stadr_ADDR d = stadr d AND 0x7fffffff"
definition set_stadr_ADDR :: "u32 \<Rightarrow> DMACregisters \<Rightarrow> DMACregisters" where
  "set_stadr_ADDR v d = d\<lparr>stadr := (stadr d AND 0x80000000) OR (v AND 0x7fffffff)\<rparr>"

abbreviation (input) "STS_SIF0 \<equiv> 1 :: nat"
abbreviation (input) "STD_SIF1 \<equiv> 3 :: nat"

text \<open>\<open>!psHu8(DMAC_ENABLER+2)\<close>: the transfers are not suspended.\<close>

definition dma_enabled :: "DMACregisters \<Rightarrow> bool" where
  "dma_enabled d \<longleftrightarrow> ctrl_DMAE d \<and> (ucast (drop_bit 16 (enabler d)) :: u8) = 0"

text \<open>\<open>dma_mbct\<close>: a DMA channel of the IOP.\<close>

record dma_mbct =
  imadr :: u32
  ibcr :: u32
  ichcr :: u32
  itadr :: u32

subsection \<open>The machine\<close>

text \<open>The DMA part of the machine: the channels by number, the controller's registers, the channels waiting
  for the controller to be enabled, the IOP's channels by number, what the event scheduler keeps outside the
  processors, the addresses of the Emotion Engine's memories, and the state of the devices.\<close>

record 'd dma =
  chan :: "nat \<Rightarrow> DMACh"
  dmacRegs :: DMACregisters
  QueuedDMA :: u16
  hw_dma :: "nat \<Rightarrow> dma_mbct"
  scan :: int_scan
  GameStarted :: bool
  INSTANTDMAHACK :: bool
  EETIMINGHACK :: bool
  eelayout :: mem_layout
  ZeroWrite :: u64
  other :: 'd

type_synonym 'd machine = "'d dma iop"

definition upd_dma :: "('d dma \<Rightarrow> 'd dma) \<Rightarrow> 'd machine \<Rightarrow> 'd machine" where
  "upd_dma f s = s\<lparr>idev := f (idev s)\<rparr>"

definition upd_chan :: "nat \<Rightarrow> (DMACh \<Rightarrow> DMACh) \<Rightarrow> 'd machine \<Rightarrow> 'd machine" where
  "upd_chan n f = upd_dma (\<lambda>d. d\<lparr>chan := (chan d)(n := f (chan d n))\<rparr>)"

definition upd_regs :: "(DMACregisters \<Rightarrow> DMACregisters) \<Rightarrow> 'd machine \<Rightarrow> 'd machine" where
  "upd_regs f = upd_dma (\<lambda>d. d\<lparr>dmacRegs := f (dmacRegs d)\<rparr>)"

definition upd_iopdma :: "nat \<Rightarrow> (dma_mbct \<Rightarrow> dma_mbct) \<Rightarrow> 'd machine \<Rightarrow> 'd machine" where
  "upd_iopdma n f = upd_dma (\<lambda>d. d\<lparr>hw_dma := (hw_dma d)(n := f (hw_dma d n))\<rparr>)"

definition upd_other :: "('d \<Rightarrow> 'd) \<Rightarrow> 'd machine \<Rightarrow> 'd machine" where
  "upd_other f = upd_dma (\<lambda>d. d\<lparr>other := f (other d)\<rparr>)"

abbreviation ch :: "nat \<Rightarrow> 'd machine \<Rightarrow> DMACh" where "ch n s \<equiv> chan (idev s) n"
abbreviation dregs :: "'d machine \<Rightarrow> DMACregisters" where "dregs s \<equiv> dmacRegs (idev s)"

text \<open>\<open>CPU_INT\<close> on the machine: the two counters the scheduler shares with the IOP are those of its
  registers.\<close>

definition cpu_int :: "nat \<Rightarrow> u32 \<Rightarrow> 'd machine \<Rightarrow> 'd machine" where
  "cpu_int n ecycle s =
     (let d = idev s;
          t = CPU_INT (of_nat n) ecycle
                \<lparr>regs = ee_regs s, eeRunInterruptScan = scan d, iopBreak = piopBreak (psx s),
                 iopCycleEE = piopCycleEE (psx s), g_GameStarted = GameStarted d,
                 CHECK_INSTANTDMAHACK = INSTANTDMAHACK d, CHECK_EETIMINGHACK = EETIMINGHACK d\<rparr>
      in s\<lparr>ee_regs := regs t, idev := d\<lparr>scan := eeRunInterruptScan t\<rparr>,
           psx := (psx s)\<lparr>piopBreak := iopBreak t, piopCycleEE := iopCycleEE t\<rparr>\<rparr>)"

definition set_stall :: "nat \<Rightarrow> bool \<Rightarrow> 'd machine \<Rightarrow> 'd machine" where
  "set_stall n b s = s\<lparr>ee_regs := (ee_regs s)
     \<lparr>dmastall := (if b then set_bit n else unset_bit n) (dmastall (ee_regs s))\<rparr>\<rparr>"

subsection \<open>Interrupts\<close>

definition break_iop :: "'d machine \<Rightarrow> 'd machine" where
  "break_iop s =
     (if eeEventTestIsActive s \<and> sint (piopCycleEE (psx s)) > 0
      then s\<lparr>psx := (psx s)\<lparr>piopBreak := piopBreak (psx s) + piopCycleEE (psx s), piopCycleEE := 0\<rparr>\<rparr>
      else s)"

definition dmac_pending :: "DMACregisters \<Rightarrow> bool" where
  "dmac_pending d \<longleftrightarrow> (drop_bit 16 (stat d) AND stat d) \<noteq> 0 \<or> bit (stat d) 15"

definition cpuTestINTCInts :: "'d machine \<Rightarrow> 'd machine" where
  "cpuTestINTCInts s =
     (if \<not> cpuIntsEnabled 0x400 (ee_regs s) \<or> (intc_stat (dregs s) AND intc_mask (dregs s)) = 0 then s
      else break_iop (s\<lparr>ee_regs := event_within 4 (ee_regs s)\<rparr>))"

definition cpuTestDMACInts :: "'d machine \<Rightarrow> 'd machine" where
  "cpuTestDMACInts s =
     (if \<not> cpuIntsEnabled 0x800 (ee_regs s) \<or> \<not> dmac_pending (dregs s) then s
      else break_iop (s\<lparr>ee_regs := event_within 4 (ee_regs s)\<rparr>))"

definition dmacInterrupt :: "'d machine \<Rightarrow> u32" where
  "dmacInterrupt s =
     (if \<not> dmac_pending (dregs s) then 0
      else if \<not> ctrl_DMAE (dregs s) \<or> (ucast (drop_bit 16 (enabler (dregs s))) :: u8) = 1 then 0 else 0x800)"

definition hwIntcIrq :: "nat \<Rightarrow> 'd machine \<Rightarrow> 'd machine" where
  "hwIntcIrq n s0 =
     (let s = upd_regs (\<lambda>d. d\<lparr>intc_stat := set_bit n (intc_stat d)\<rparr>) s0
      in if bit (intc_mask (dregs s)) n then cpuTestINTCInts s else s)"

definition hwDmacIrq :: "nat \<Rightarrow> 'd machine \<Rightarrow> 'd machine" where
  "hwDmacIrq n s0 =
     (let s = upd_regs (\<lambda>d. d\<lparr>stat := set_bit n (stat d)\<rparr>) s0
      in if bit (stat (dregs s)) (16 + n) then cpuTestDMACInts s else s)"

text \<open>\<open>psxDmaInterrupt2\<close>: the channels 9 and 10 of the IOP (\<open>n\<close> = 2 and 3) always interrupt; 33 asks to test
  again.\<close>

definition icr2_fires :: "nat \<Rightarrow> u32 \<Rightarrow> bool" where
  "icr2_fires n icr \<longleftrightarrow> n = 2 \<or> n = 3 \<or>
     (if n = 33 then (\<exists>i\<in>set [0..<6]. bit icr (24 + i) \<and> (bit icr (16 + i) \<or> i = 2 \<or> i = 3))
      else bit icr (16 + n))"

definition psxDmaInterrupt2 :: "nat \<Rightarrow> 'd iop \<Rightarrow> 'd iop" where
  "psxDmaInterrupt2 n s =
     (let icr = peek (psxHu 0x1574 s) s :: u32 in
      if \<not> icr2_fires n icr then s
      else
        let icr1 = (if n \<noteq> 33 then set_bit (24 + n) icr else icr);
            icr2 = (if bit icr1 23 then icr1 OR 0x80000000 else icr1)
        in iopIntcIrq 3 (poke (psxHu 0x1574 s) icr2 s))"

subsection \<open>Addresses\<close>

definition dmaGetAddr :: "u32 \<Rightarrow> bool \<Rightarrow> 'd machine \<Rightarrow> u64 option" where
  "dmaGetAddr addr0 wrt s =
     (let l = eelayout (idev s); addr = addr0 AND 0x1ffffff0 in
      if tag_SPR addr0 then Some (eeMem_Scratch l + ucast (addr0 AND 0x3ff0))
      else if addr < 0x2000000 then Some (eeMem_Main l + ucast addr)
      else if addr < 0x10000000 then Some (if wrt then ZeroWrite (idev s) else eeMem_ZeroRead l)
      else if addr < 0x10004000 then Some (eeMem_Scratch l + ucast (addr AND 0x3ff0))
      else None)"

text \<open>A failed lookup raises the bus error, flags the channel and stops it.\<close>

definition getAddr :: "nat \<Rightarrow> u32 \<Rightarrow> bool \<Rightarrow> 'd machine \<Rightarrow> u64 option \<times> 'd machine" where
  "getAddr n addr wrt s =
     (case dmaGetAddr addr wrt s of
        Some p \<Rightarrow> (Some p, s)
      | None \<Rightarrow> (None, upd_chan n (\<lambda>c. c\<lparr>chcr := unset_bit 8 (chcr c)\<rparr>)
                        (upd_regs (\<lambda>d. d\<lparr>stat := set_bit n (set_bit 15 (stat d))\<rparr>) s)))"

definition unsafeTransfer :: "u32 \<Rightarrow> DMACh \<Rightarrow> DMACh" where
  "unsafeTransfer tag c = c\<lparr>chcr := set_TAG (drop_bit 16 tag) (chcr c), qwc := tag_QWC tag\<rparr>"

definition DMAtransfer :: "nat \<Rightarrow> u32 \<Rightarrow> 'd machine \<Rightarrow> u64 option \<times> 'd machine" where
  "DMAtransfer n addr s =
     (case getAddr n addr False s of
        (None, s1) \<Rightarrow> (None, s1)
      | (Some p, s1) \<Rightarrow> (Some p, upd_chan n (unsafeTransfer (peek p s1)) s1))"

subsection \<open>Source chains\<close>

definition hwDmacSrcTadrInc :: "DMACh \<Rightarrow> DMACh" where
  "hwDmacSrcTadrInc c =
     (if \<not> chcr_STR (chcr c) \<or> chcr_MOD (chcr c) \<noteq> 1 then c
      else if unat (drop_bit 12 (chcr_TAG (chcr c)) AND 7) = TAG_CNT then c\<lparr>tadr := madr c\<rparr> else c)"

definition hwDmacSrcChain :: "nat \<Rightarrow> DMACh \<Rightarrow> bool \<times> DMACh" where
  "hwDmacSrcChain tid c =
     (if tid = TAG_REFE then (True, c\<lparr>tadr := tadr c + 16\<rparr>)
      else if tid = TAG_CNT then (False, c\<lparr>madr := tadr c + 16, tadr := tadr c + 16\<rparr>)
      else if tid = TAG_NEXT then (False, c\<lparr>madr := tadr c + 16, tadr := madr c\<rparr>)
      else if tid = TAG_REF \<or> tid = TAG_REFS then (False, c\<lparr>tadr := tadr c + 16\<rparr>)
      else if tid = TAG_END then (True, c\<lparr>madr := tadr c + 16\<rparr>)
      else (True, c))"

definition hwDmacSrcChainWithStack :: "nat \<Rightarrow> DMACh \<Rightarrow> bool \<times> DMACh" where
  "hwDmacSrcChainWithStack tid c =
     (if tid = TAG_REFE then (True, c\<lparr>tadr := tadr c + 16\<rparr>)
      else if tid = TAG_CNT then (False, c\<lparr>tadr := tadr c + 16, madr := tadr c + 16\<rparr>)
      else if tid = TAG_NEXT then (False, c\<lparr>madr := tadr c + 16, tadr := madr c\<rparr>)
      else if tid = TAG_REF \<or> tid = TAG_REFS then (False, c\<lparr>tadr := tadr c + 16\<rparr>)
      else if tid = TAG_CALL then
        let temp = madr c; c1 = c\<lparr>madr := tadr c + 16\<rparr>; back = madr c1 + push_bit 4 (qwc c) in
        if chcr_ASP (chcr c) = 0
        then (False, c1\<lparr>asr0 := back, chcr := set_ASP 1 (chcr c), tadr := temp\<rparr>)
        else if chcr_ASP (chcr c) = 1
        then (False, c1\<lparr>asr1 := back, chcr := set_ASP 2 (chcr c), tadr := temp\<rparr>)
        else (True, c1)
      else if tid = TAG_RET then
        let c1 = c\<lparr>madr := tadr c + 16\<rparr> in
        if chcr_ASP (chcr c) = 2 then (False, c1\<lparr>tadr := asr1 c, asr1 := 0, chcr := set_ASP 1 (chcr c)\<rparr>)
        else if chcr_ASP (chcr c) = 1 then (False, c1\<lparr>tadr := asr0 c, asr0 := 0, chcr := set_ASP 0 (chcr c)\<rparr>)
        else (True, c1)
      else if tid = TAG_END then (True, c\<lparr>madr := tadr c + 16\<rparr>)
      else (False, c))"

subsection \<open>Starting channels\<close>

definition D_CHCR :: "u32 list" where
  "D_CHCR = [0x10008000, 0x10009000, 0x1000A000, 0x1000B000, 0x1000B400,
             0x1000C000, 0x1000C400, 0x1000C800, 0x1000D000, 0x1000D400]"

fun index_of :: "'a \<Rightarrow> 'a list \<Rightarrow> nat option" where
  "index_of x [] = None"
| "index_of x (y # ys) = (if x = y then Some 0 else map_option Suc (index_of x ys))"

definition ChannelNumber :: "u32 \<Rightarrow> nat" where
  "ChannelNumber addr = (case index_of addr D_CHCR of Some n \<Rightarrow> n | None \<Rightarrow> 51)"

text \<open>The transfer functions of the channels by number: \<open>dmaVIF0\<close>, \<open>dmaVIF1\<close>, \<open>dmaGIF\<close>, \<open>dmaIPU0\<close>, \<open>dmaIPU1\<close>,
  \<open>dmaSIF0\<close>, \<open>dmaSIF1\<close>, \<open>dmaSIF2\<close>, \<open>dmaSPR0\<close>, \<open>dmaSPR1\<close>.\<close>

type_synonym 'd dma_funcs = "nat \<Rightarrow> 'd machine \<Rightarrow> 'd machine"

definition set_queued :: "nat \<Rightarrow> bool \<Rightarrow> 'd machine \<Rightarrow> 'd machine" where
  "set_queued n b = upd_dma (\<lambda>d. d\<lparr>QueuedDMA := (if b then set_bit n else unset_bit n) (QueuedDMA d)\<rparr>)"

definition QuickDmaExec :: "('d machine \<Rightarrow> 'd machine) \<Rightarrow> nat \<Rightarrow> 'd machine \<Rightarrow> bool \<times> 'd machine" where
  "QuickDmaExec func n s =
     (if chcr_STR (chcr (ch n s)) \<and> dma_enabled (dregs s) then (True, func s) else (False, s))"

definition start_queued :: "'d dma_funcs \<Rightarrow> nat \<Rightarrow> 'd machine \<Rightarrow> 'd machine" where
  "start_queued fs n s =
     (if bit (QueuedDMA (idev s)) n
      then let (ok, s1) = QuickDmaExec (fs n) n s in set_queued n (\<not> ok) s1
      else s)"

definition StartQueuedDMA :: "'d dma_funcs \<Rightarrow> 'd machine \<Rightarrow> 'd machine" where
  "StartQueuedDMA fs s = fold (start_queued fs) [0..<10] s"

definition clear_requests :: "nat \<Rightarrow> 'd machine \<Rightarrow> 'd machine" where
  "clear_requests n s =
     set_queued n False (s\<lparr>ee_regs := (ee_regs s)
       \<lparr>interrupt := unset_bit n (interrupt (ee_regs s)), dmastall := unset_bit n (dmastall (ee_regs s))\<rparr>\<rparr>)"

definition DmaExec :: "('d machine \<Rightarrow> 'd machine) \<Rightarrow> u32 \<Rightarrow> u32 \<Rightarrow> 'd machine \<Rightarrow> 'd machine" where
  "DmaExec func mem value s =
     (let n = ChannelNumber mem in
      if chcr_STR (chcr (ch n s)) then
        if chcr_STR value then s
        else
          let s1 = upd_chan n (\<lambda>c. c\<lparr>chcr := unset_bit 8 (chcr c)\<rparr>) s;
              s2 = (if n = 1 then clear_requests 10 s1 else if n = 2 then clear_requests 11 s1 else s1)
          in clear_requests n s2
      else
        let v = (if chcr_MOD value = 3 then set_MOD 1 value else value);
            s1 = upd_chan n (\<lambda>c. c\<lparr>chcr := v\<rparr>) s;
            s2 = (if chcr_STR v \<and> chcr_MOD v = 0 \<and> qwc (ch n s1) = 0
                  then upd_chan n (\<lambda>c. c\<lparr>qwc := 0x10000\<rparr>) s1 else s1)
        in if chcr_STR v \<and> dma_enabled (dregs s2) then func s2
           else if chcr_STR v then set_queued n True s2
           else s2)"

subsection \<open>Register writes\<close>

text \<open>\<open>dmacWrite32\<close> after its busy test, which belongs to a game fix: the result says whether the caller
  stores the value itself, as \<open>hwWrite32\<close> below does.\<close>

definition dmac_write_stat :: "u32 \<Rightarrow> 'd machine \<Rightarrow> 'd machine" where
  "dmac_write_stat value s =
     cpuTestDMACInts (upd_regs (\<lambda>d. d\<lparr>stat := (stat d AND 0xffff AND NOT value)
        OR ((stat d XOR value) AND 0xffff0000)\<rparr>) s)"

definition dmac_write_ctrl :: "'d dma_funcs \<Rightarrow> u32 \<Rightarrow> 'd machine \<Rightarrow> 'd machine" where
  "dmac_write_ctrl fs value s =
     (let s1 = upd_regs (\<lambda>d. d\<lparr>ctrl := value\<rparr>) s in
      if \<not> bit (ctrl (dregs s)) 0 \<and> bit value 0 \<and> QueuedDMA (idev s1) \<noteq> 0 then StartQueuedDMA fs s1 else s1)"

definition dmac_write_enablew :: "'d dma_funcs \<Rightarrow> u32 \<Rightarrow> 'd machine \<Rightarrow> 'd machine" where
  "dmac_write_enablew fs value s =
     (let s1 = upd_regs (\<lambda>d. d\<lparr>enablew := value, enabler := value\<rparr>) s in
      if bit (enablew (dregs s)) 16 \<and> \<not> bit value 16 \<and> QueuedDMA (idev s1) \<noteq> 0
      then StartQueuedDMA fs s1 else s1)"

definition dmacWrite32 :: "'d dma_funcs \<Rightarrow> u32 \<Rightarrow> u32 \<Rightarrow> 'd machine \<Rightarrow> bool \<times> 'd machine" where
  "dmacWrite32 fs mem value s =
     (case index_of (mem - 0x20) D_CHCR of
        Some n \<Rightarrow> (False, upd_chan n (\<lambda>c. c\<lparr>qwc := value AND 0xffff\<rparr>) s)
      | None \<Rightarrow>
     (case index_of mem D_CHCR of
        Some n \<Rightarrow> (False, DmaExec (fs n) mem value s)
      | None \<Rightarrow>
        if mem = 0x1000D010 then (False, upd_chan 8 (\<lambda>c. c\<lparr>madr := value AND 0x7FFFFFFF\<rparr>) s)
        else if mem = 0x1000D410 then (False, upd_chan 9 (\<lambda>c. c\<lparr>madr := value AND 0x7FFFFFFF\<rparr>) s)
        else if mem = 0x1000D080 then (False, upd_chan 8 (\<lambda>c. c\<lparr>sadr := value AND 0x3FF0\<rparr>) s)
        else if mem = 0x1000D480 then (False, upd_chan 9 (\<lambda>c. c\<lparr>sadr := value AND 0x3FF0\<rparr>) s)
        else if mem = 0x1000E000 then (False, dmac_write_ctrl fs value s)
        else if mem = 0x1000E100 \<or> mem = 0x1000E010 then (False, dmac_write_stat value s)
        else if mem = 0x1000F590 then (False, dmac_write_enablew fs value s)
        else (True, s)))"

text \<open>\<open>psHu32(mem) = value\<close>, the store of a caller of \<open>dmacWrite32\<close>, on the registers of the model; the other
  words of the pages belong to no register.\<close>

definition hw_store :: "u32 \<Rightarrow> u32 \<Rightarrow> 'd machine \<Rightarrow> 'd machine" where
  "hw_store mem value s =
     (case index_of (mem - 0x10) D_CHCR of Some n \<Rightarrow> upd_chan n (\<lambda>c. c\<lparr>madr := value\<rparr>) s | None \<Rightarrow>
     (case index_of (mem - 0x30) D_CHCR of Some n \<Rightarrow> upd_chan n (\<lambda>c. c\<lparr>tadr := value\<rparr>) s | None \<Rightarrow>
     (case index_of (mem - 0x40) D_CHCR of Some n \<Rightarrow> upd_chan n (\<lambda>c. c\<lparr>asr0 := value\<rparr>) s | None \<Rightarrow>
     (case index_of (mem - 0x50) D_CHCR of Some n \<Rightarrow> upd_chan n (\<lambda>c. c\<lparr>asr1 := value\<rparr>) s | None \<Rightarrow>
     (case index_of (mem - 0x80) D_CHCR of Some n \<Rightarrow> upd_chan n (\<lambda>c. c\<lparr>sadr := value\<rparr>) s | None \<Rightarrow>
        if mem = 0x1000E020 then upd_regs (\<lambda>d. d\<lparr>pcr := value\<rparr>) s
        else if mem = 0x1000E030 then upd_regs (\<lambda>d. d\<lparr>sqwc := value\<rparr>) s
        else if mem = 0x1000E040 then upd_regs (\<lambda>d. d\<lparr>rbsr := value\<rparr>) s
        else if mem = 0x1000E050 then upd_regs (\<lambda>d. d\<lparr>rbor := value\<rparr>) s
        else if mem = 0x1000E060 then upd_regs (\<lambda>d. d\<lparr>stadr := value\<rparr>) s
        else if mem = 0x1000F520 then upd_regs (\<lambda>d. d\<lparr>enabler := value\<rparr>) s
        else s)))))"

text \<open>\<open>hwWrite32\<close> on the registers of the DMA controller (pages 0x08 to 0x0e) and, in page 0x0f, on \<open>INTC_STAT\<close>,
  \<open>INTC_MASK\<close>, \<open>DMAC_ENABLER\<close> and \<open>DMAC_ENABLEW\<close>, which the source tells apart by \<open>HELPSWITCH\<close>.
  The other registers of page 0x0f belong to devices outside the model.\<close>

definition hw_page :: "u32 \<Rightarrow> nat" where "hw_page mem = unat (drop_bit 12 mem AND 0xf)"

definition HELPSWITCH :: "u32 \<Rightarrow> nat" where "HELPSWITCH mem = unat (drop_bit 4 mem AND 0xff)"

definition hwWrite32 :: "'d dma_funcs \<Rightarrow> u32 \<Rightarrow> u32 \<Rightarrow> 'd machine \<Rightarrow> 'd machine" where
  "hwWrite32 fs mem value s =
     (if hw_page mem = 0x0f then
        if HELPSWITCH mem = 0x00 then upd_regs (\<lambda>d. d\<lparr>intc_stat := intc_stat d AND NOT value\<rparr>) s
        else if HELPSWITCH mem = 0x01
        then cpuTestINTCInts (upd_regs (\<lambda>d. d\<lparr>intc_mask := intc_mask d XOR (value AND 0xffff)\<rparr>) s)
        else if HELPSWITCH mem = 0x59
        then (case dmacWrite32 fs 0x1000F590 value s of (wb, s1) \<Rightarrow> if wb then hw_store mem value s1 else s1)
        else hw_store mem value s
      else (case dmacWrite32 fs mem value s of (wb, s1) \<Rightarrow> if wb then hw_store mem value s1 else s1))"

end
