(* ===== verification/Sif.thy ===== *)
theory Sif
  imports Sif_Fifo Dmac
begin

text \<open>
  The SIF channels between the processors: src/pcsx2/Sif0.cpp (IOP to Emotion Engine) and
  src/pcsx2/Sif1.cpp (Emotion Engine to IOP), with the two FIFOs of src/pcsx2/Sif.h as their only
  buffer, \<open>sifReset\<close> of src/pcsx2/Sif.cpp and the IOP's side of their start in src/pcsx2/IopDma.cpp. The loops of
  \<open>SIF0Dma\<close> and \<open>SIF1Dma\<close> follow chains in memory that need not end, so they are partial: None is a loop
  that never ends.
\<close>

named_theorems sif0_defs \<open>handlers of SIF0\<close>
named_theorems sif1_defs \<open>handlers of SIF1\<close>

subsection \<open>State\<close>

record sifData =
  sdata :: u32
  swords :: u32
  tag_lo :: u32
  tag_hi :: u32

record sif_ee =
  ee_end :: bool
  ee_busy :: bool
  ee_cycles :: int

record sif_iop =
  iop_end :: bool
  iop_busy :: bool
  iop_cycles :: int
  writeJunk :: int
  counter :: int
  iop_data :: sifData

record sif =
  fifo :: sifFifo
  ee_part :: sif_ee
  iop_part :: sif_iop

record sifs =
  sif0 :: sif
  sif1 :: sif
  sif1_dma_stall :: bool

type_synonym smachine = "sifs machine"

definition zero_sif :: sif where
  "zero_sif =
     \<lparr>fifo = \<lparr>fdata = replicate 128 0, junk = replicate 4 0, readPos = 0, writePos = 0, fsize = 0\<rparr>,
      ee_part = \<lparr>ee_end = False, ee_busy = False, ee_cycles = 0\<rparr>,
      iop_part = \<lparr>iop_end = False, iop_busy = False, iop_cycles = 0, writeJunk = 0, counter = 0,
        iop_data = \<lparr>sdata = 0, swords = 0, tag_lo = 0, tag_hi = 0\<rparr>\<rparr>\<rparr>"

definition sifReset :: "smachine \<Rightarrow> smachine" where
  "sifReset = upd_other (\<lambda>x. x\<lparr>sif0 := zero_sif, sif1 := zero_sif\<rparr>)"

abbreviation sf0 :: "smachine \<Rightarrow> sif" where "sf0 s \<equiv> sif0 (other (idev s))"
abbreviation sf1 :: "smachine \<Rightarrow> sif" where "sf1 s \<equiv> sif1 (other (idev s))"

definition upd_sif0 :: "(sif \<Rightarrow> sif) \<Rightarrow> smachine \<Rightarrow> smachine" where
  "upd_sif0 f = upd_other (\<lambda>x. x\<lparr>sif0 := f (sif0 x)\<rparr>)"
definition upd_sif1 :: "(sif \<Rightarrow> sif) \<Rightarrow> smachine \<Rightarrow> smachine" where
  "upd_sif1 f = upd_other (\<lambda>x. x\<lparr>sif1 := f (sif1 x)\<rparr>)"

definition upd_ee :: "(sif_ee \<Rightarrow> sif_ee) \<Rightarrow> sif \<Rightarrow> sif" where "upd_ee f x = x\<lparr>ee_part := f (ee_part x)\<rparr>"
definition upd_iop :: "(sif_iop \<Rightarrow> sif_iop) \<Rightarrow> sif \<Rightarrow> sif" where "upd_iop f x = x\<lparr>iop_part := f (iop_part x)\<rparr>"
definition upd_fifo :: "(sifFifo \<Rightarrow> sifFifo) \<Rightarrow> sif \<Rightarrow> sif" where "upd_fifo f x = x\<lparr>fifo := f (fifo x)\<rparr>"

text \<open>Words of host memory.\<close>

definition load_words :: "u64 \<Rightarrow> nat \<Rightarrow> 'd iop \<Rightarrow> u32 list" where
  "load_words p n s = map (\<lambda>i. peek (p + of_nat (4 * i)) s) [0..<n]"

fun store_words :: "u64 \<Rightarrow> u32 list \<Rightarrow> 'd iop \<Rightarrow> 'd iop" where
  "store_words p [] s = s"
| "store_words p (w # ws) s = store_words (p + 4) ws (poke p w s)"

definition iop_ptr :: "u32 \<Rightarrow> 'd iop \<Rightarrow> u64" where
  "iop_ptr a s = iMain (ilayout s) + ucast (a AND 0x1fffff)"

abbreviation (input) dma9 :: "smachine \<Rightarrow> dma_mbct" where "dma9 s \<equiv> hw_dma (idev s) 9"
abbreviation (input) dma10 :: "smachine \<Rightarrow> dma_mbct" where "dma10 s \<equiv> hw_dma (idev s) 10"

text \<open>Words to quadwords: \<open>readSize << 4\<close> and the like, for counts that may be negative.\<close>

definition space :: "sifFifo \<Rightarrow> int" where "space f = int FIFO_SIF_W - fsize f"
definition sbus_and :: "u32 \<Rightarrow> smachine \<Rightarrow> smachine" where
  "sbus_and m s = poke (psHu SBUS_F240 s) (peek (psHu SBUS_F240 s) s AND m) s"
definition sbus_or :: "u32 \<Rightarrow> smachine \<Rightarrow> smachine" where
  "sbus_or m s = poke (psHu SBUS_F240 s) (peek (psHu SBUS_F240 s) s OR m) s"

subsection \<open>SIF0: IOP to Emotion Engine\<close>

definition Sif0Init :: "smachine \<Rightarrow> smachine" where
  "Sif0Init = upd_sif0 (\<lambda>x. upd_ee (\<lambda>e. e\<lparr>ee_cycles := 0\<rparr>) (upd_iop (\<lambda>i. i\<lparr>iop_cycles := 0\<rparr>) x))"

text \<open>The test of the chain mode reads \<open>chcr.TAG >> 28\<close> of a 16-bit field.\<close>

definition sif0_stadr :: "smachine \<Rightarrow> smachine" where
  "sif0_stadr s =
     (if qwc (ch DMAC_SIF0 s) = 0 \<and> ctrl_STS (dregs s) = STS_SIF0 \<and>
         (chcr_MOD (chcr (ch DMAC_SIF0 s)) = NORMAL_MODE \<or>
          unat (drop_bit 28 (chcr_TAG (chcr (ch DMAC_SIF0 s))) AND 7) = TAG_CNTS)
      then upd_regs (set_stadr_ADDR (madr (ch DMAC_SIF0 s))) s else s)"

definition sif0_WriteFifoToEE :: "smachine \<Rightarrow> smachine" where
  "sif0_WriteFifoToEE s =
     (let readSize = min (sint (qwc (ch DMAC_SIF0 s))) (fsize (fifo (sf0 s)) div 4) in
      case getAddr DMAC_SIF0 (madr (ch DMAC_SIF0 s)) True s of
        (None, s1) \<Rightarrow> s1
      | (Some ptag, s1) \<Rightarrow>
          let s2 = (if readSize > 0
                    then let (ws, f) = fifo_read (nat (4 * readSize)) (fifo (sf0 s1))
                         in store_words ptag ws (upd_sif0 (upd_fifo (\<lambda>_. f)) s1)
                    else s1);
              s3 = upd_chan DMAC_SIF0 (\<lambda>c. c\<lparr>madr := madr c + word_of_int (16 * readSize)\<rparr>) s2;
              s4 = upd_sif0 (upd_ee (\<lambda>e. e\<lparr>ee_cycles := ee_cycles e + readSize\<rparr>)) s3
          in sif0_stadr (upd_chan DMAC_SIF0 (\<lambda>c. c\<lparr>qwc := qwc c - word_of_int readSize\<rparr>) s4))"

definition sif0_WriteIOPtoFifo :: "smachine \<Rightarrow> smachine" where
  "sif0_WriteIOPtoFifo s =
     (let writeSize = min (counter (iop_part (sf0 s))) (space (fifo (sf0 s)));
          s1 = (if writeSize > 0
                then upd_sif0 (upd_fifo (fifo_write (load_words (iop_ptr (imadr (dma9 s)) s) (nat writeSize) s))) s
                else s)
      in upd_sif0 (upd_iop (\<lambda>i. i\<lparr>iop_cycles := iop_cycles i + writeSize, counter := counter i - writeSize\<rparr>))
           (upd_iopdma 9 (\<lambda>d. d\<lparr>imadr := imadr d + word_of_int (4 * writeSize)\<rparr>) s1))"

definition sif0_ProcessEETag :: "smachine \<Rightarrow> smachine" where
  "sif0_ProcessEETag s =
     (let (tag, f) = fifo_read 4 (fifo (sf0 s));
          s1 = upd_sif0 (upd_fifo (\<lambda>_. f)) s;
          ptag = tag ! 0;
          s2 = upd_chan DMAC_SIF0 (\<lambda>c. (unsafeTransfer ptag c)\<lparr>madr := tag ! 1\<rparr>) s1;
          s3 = (if chcr_TIE (chcr (ch DMAC_SIF0 s2)) \<and> tag_IRQ ptag
                then upd_sif0 (upd_ee (\<lambda>e. e\<lparr>ee_end := True\<rparr>)) s2 else s2)
      in if tag_ID ptag = TAG_CNTS
         then if ctrl_STS (dregs s3) = STS_SIF0 then upd_regs (set_stadr_ADDR (madr (ch DMAC_SIF0 s3))) s3 else s3
         else if tag_ID ptag = TAG_END then upd_sif0 (upd_ee (\<lambda>e. e\<lparr>ee_end := True\<rparr>)) s3
         else s3)"

definition load_sifData :: "u64 \<Rightarrow> 'd iop \<Rightarrow> sifData" where
  "load_sifData p s = \<lparr>sdata = peek p s, swords = peek (p + 4) s, tag_lo = peek (p + 8) s, tag_hi = peek (p + 12) s\<rparr>"

text \<open>The Emotion Engine's side of the tag is sent with the next IOP tag behind it, a whole quadword.\<close>

definition sif0_ProcessIOPTag :: "smachine \<Rightarrow> smachine" where
  "sif0_ProcessIOPTag s =
     (let d = load_sifData (iop_ptr (itadr (dma9 s)) s) s;
          s1 = upd_sif0 (upd_iop (\<lambda>i. i\<lparr>iop_data := d\<rparr>)) s;
          s2 = upd_sif0 (upd_fifo (fifo_write (load_words (iop_ptr (itadr (dma9 s) + 8) s) 4 s))) s1;
          s3 = upd_iopdma 9 (\<lambda>m. m\<lparr>itadr := itadr m + 16, imadr := sdata d AND 0xFFFFFF\<rparr>) s2;
          c = uint (swords d AND 0xFFFFF)
      in upd_sif0 (upd_iop (\<lambda>i. i\<lparr>counter := c, writeJunk := (if c mod 4 \<noteq> 0 then (4 - c) mod 4 else 0),
             iop_end := iop_end i \<or> tag_IRQ (sdata d) \<or> tag_ID (sdata d) AND 4 \<noteq> 0\<rparr>)) s3)"

definition sif0_EndEE :: "smachine \<Rightarrow> smachine" where
  "sif0_EndEE s =
     (let s1 = upd_sif0 (upd_ee (\<lambda>e. e\<lparr>ee_end := False, ee_busy := False,
                 ee_cycles := (if ee_cycles e = 0 then 1 else ee_cycles e)\<rparr>)) s
      in cpu_int DMAC_SIF0 (word_of_int (ee_cycles (ee_part (sf0 s1)) * 2)) (set_stall DMAC_SIF0 False s1))"

definition sif0_EndIOP :: "smachine \<Rightarrow> smachine" where
  "sif0_EndIOP s =
     (let s1 = upd_sif0 (upd_iop (\<lambda>i.
                 let c = (if iop_cycles i = 0 then 1 else iop_cycles i)
                 in i\<lparr>iop_data := (iop_data i)\<lparr>sdata := 0\<rparr>, iop_end := False, iop_busy := False,
                      iop_cycles := (if c > 1000 then c div 2 else c)\<rparr>)) s
      in schedule_iop IopEvt_SIF0 (word_of_int (iop_cycles (iop_part (sf0 s1)))) s1)"

definition sif0_HandleEETransfer :: "smachine \<Rightarrow> smachine" where
  "sif0_HandleEETransfer s =
     (if \<not> chcr_STR (chcr (ch DMAC_SIF0 s))
      then upd_sif0 (upd_ee (\<lambda>e. e\<lparr>ee_end := False, ee_busy := False\<rparr>)) s
      else
        let s1 = (if qwc (ch DMAC_SIF0 s) = 0 then
                    if chcr_MOD (chcr (ch DMAC_SIF0 s)) = NORMAL_MODE \<or> ee_end (ee_part (sf0 s)) then sif0_EndEE s
                    else if fsize (fifo (sf0 s)) \<ge> 4 then sif0_ProcessEETag s
                    else s
                  else s)
        in if qwc (ch DMAC_SIF0 s1) > 0 \<and> fsize (fifo (sf0 s1)) \<ge> 4 then sif0_WriteFifoToEE s1 else s1)"

definition sif0_HandleIOPTransfer :: "smachine \<Rightarrow> smachine" where
  "sif0_HandleIOPTransfer s =
     (if counter (iop_part (sf0 s)) \<le> 0 then
        if iop_end (iop_part (sf0 s)) then sif0_EndIOP s else sif0_ProcessIOPTag s
      else if space (fifo (sf0 s)) > 0 then sif0_WriteIOPtoFifo s
      else s)"

text \<open>One pass of the loop, with \<open>BusyCheck > 0\<close>.\<close>

definition sif0_junk :: "smachine \<Rightarrow> smachine" where
  "sif0_junk s =
     (let i = iop_part (sf0 s) in
      if counter i = 0 \<and> writeJunk i \<noteq> 0 \<and> space (fifo (sf0 s)) \<ge> writeJunk i
      then upd_sif0 (upd_iop (\<lambda>i. i\<lparr>writeJunk := 0\<rparr>))
             (if writeJunk i > 0 then upd_sif0 (upd_fifo (fifo_writeJunk (nat (writeJunk i)))) s else s)
      else s)"

definition sif0_pass :: "smachine \<Rightarrow> bool \<times> smachine" where
  "sif0_pass s =
     (let a = sif0_junk s;
          ai = iop_part (sf0 a);
          iop_work = (iop_busy ai \<and> (space (fifo (sf0 a)) > 0 \<or> iop_end ai \<and> counter ai = 0));
          b = (if iop_work then sif0_HandleIOPTransfer a else a);
          be = ee_part (sf0 b);
          ee_work = (ee_busy be \<and> (fsize (fifo (sf0 b)) \<ge> 4 \<or> ee_end be \<and> qwc (ch DMAC_SIF0 b) = 0))
      in (iop_work \<or> ee_work, if ee_work then sif0_HandleEETransfer b else b))"

partial_function (option) sif0_loop :: "smachine \<Rightarrow> smachine option" where
  "sif0_loop s = (let (busy, t) = sif0_pass s in if busy then sif0_loop t else Some t)"

definition Sif0End :: "smachine \<Rightarrow> smachine" where
  "Sif0End s = sbus_and (NOT 0x2000) (sbus_and (NOT 0x20) s)"

definition SIF0Dma :: "smachine \<Rightarrow> smachine option" where
  "SIF0Dma s = map_option Sif0End (sif0_loop (Sif0Init s))"

definition sif0Interrupt :: "smachine \<Rightarrow> smachine" where
  "sif0Interrupt s = psxDmaInterrupt2 2 (upd_iopdma 9 (\<lambda>d. d\<lparr>ichcr := ichcr d AND NOT 0x01000000\<rparr>) s)"

definition EEsif0Interrupt :: "smachine \<Rightarrow> smachine" where
  "EEsif0Interrupt s = upd_chan DMAC_SIF0 (\<lambda>c. c\<lparr>chcr := unset_bit 8 (chcr c)\<rparr>) (hwDmacIrq DMAC_SIF0 s)"

definition dmaSIF0 :: "smachine \<Rightarrow> smachine option" where
  "dmaSIF0 s = SIF0Dma (set_stall DMAC_SIF0 False
     (upd_sif0 (upd_ee (\<lambda>e. e\<lparr>ee_busy := True, ee_end := False\<rparr>)) (sbus_or 0x2000 s)))"

definition psxDma9 :: "smachine \<Rightarrow> smachine option" where
  "psxDma9 s = SIF0Dma (upd_sif0 (upd_iop (\<lambda>i. i\<lparr>iop_busy := True, iop_end := False\<rparr>)) s)"

subsection \<open>SIF1: Emotion Engine to IOP\<close>

definition Sif1Init :: "smachine \<Rightarrow> smachine" where
  "Sif1Init = upd_sif1 (\<lambda>x. upd_ee (\<lambda>e. e\<lparr>ee_cycles := 0\<rparr>) (upd_iop (\<lambda>i. i\<lparr>iop_cycles := 0\<rparr>) x))"

definition set_sif1_stall :: "bool \<Rightarrow> smachine \<Rightarrow> smachine" where
  "set_sif1_stall b = upd_other (\<lambda>x. x\<lparr>sif1_dma_stall := b\<rparr>)"

text \<open>The quadwords the next transfer into the FIFO would take.\<close>

definition sif1_writeSize :: "smachine \<Rightarrow> int" where
  "sif1_writeSize s = min (sint (qwc (ch DMAC_SIF1 s))) (space (fifo (sf1 s)) div 4)"

definition sif1_WriteEEtoFifo :: "smachine \<Rightarrow> smachine" where
  "sif1_WriteEEtoFifo s =
     (let writeSize = sif1_writeSize s in
      case getAddr DMAC_SIF1 (madr (ch DMAC_SIF1 s)) False s of
        (None, s1) \<Rightarrow> s1
      | (Some ptag, s1) \<Rightarrow>
          let s2 = (if writeSize > 0
                    then upd_sif1 (upd_fifo (fifo_write (load_words ptag (nat (4 * writeSize)) s1))) s1 else s1);
              s3 = upd_chan DMAC_SIF1
                     (\<lambda>c. hwDmacSrcTadrInc (c\<lparr>madr := madr c + word_of_int (16 * writeSize)\<rparr>)) s2;
              s4 = upd_sif1 (upd_ee (\<lambda>e. e\<lparr>ee_cycles := ee_cycles e + writeSize\<rparr>)) s3
          in upd_chan DMAC_SIF1 (\<lambda>c. c\<lparr>qwc := qwc c - word_of_int writeSize\<rparr>) s4)"

text \<open>The recompiler's \<open>psxCpu->Clear\<close> is that of the IOP's memory interface.\<close>

definition sif1_WriteFifoToIOP :: "sifs dma iop_io \<Rightarrow> smachine \<Rightarrow> smachine" where
  "sif1_WriteFifoToIOP io s =
     (let readSize = min (counter (iop_part (sf1 s))) (fsize (fifo (sf1 s)));
          t = (if readSize > 0
               then let (ws, f) = fifo_read (nat readSize) (fifo (sf1 s))
                    in store_words (iop_ptr (imadr (dma10 s)) s) ws (upd_sif1 (upd_fifo (\<lambda>_. f)) s)
               else s);
          u = t\<lparr>idev := psxCpu_Clear io (imadr (dma10 t)) (word_of_int readSize) (idev t)\<rparr>
      in upd_sif1 (upd_iop (\<lambda>i. i\<lparr>iop_cycles := iop_cycles i + readSize div 4, counter := counter i - readSize\<rparr>))
           (upd_iopdma 10 (\<lambda>d. d\<lparr>imadr := imadr d + word_of_int (4 * readSize)\<rparr>) u))"

definition sif1_ProcessEETag :: "smachine \<Rightarrow> smachine" where
  "sif1_ProcessEETag s =
     (case DMAtransfer DMAC_SIF1 (tadr (ch DMAC_SIF1 s)) s of
        (None, s1) \<Rightarrow> s1
      | (Some p, s1) \<Rightarrow>
          let tag = peek p s1;
              s2 = (if chcr_TTE (chcr (ch DMAC_SIF1 s1))
                    then upd_sif1 (upd_fifo (fifo_write (load_words (p + 8) 2 s1))) s1 else s1);
              (fin, c) = hwDmacSrcChain (tag_ID tag) ((ch DMAC_SIF1 s2)\<lparr>madr := peek (p + 4) s2\<rparr>);
              s3 = upd_chan DMAC_SIF1 (\<lambda>_. c) s2
          in upd_sif1 (upd_ee (\<lambda>e. e\<lparr>ee_end := fin \<or> chcr_TIE (chcr c) \<and> tag_IRQ tag\<rparr>)) s3)"

definition sif1_SIFIOPReadTag :: "smachine \<Rightarrow> smachine" where
  "sif1_SIFIOPReadTag s =
     (let (ws, f) = fifo_read 4 (fifo (sf1 s));
          d = \<lparr>sdata = ws ! 0, swords = ws ! 1, tag_lo = ws ! 2, tag_hi = ws ! 3\<rparr>;
          s1 = upd_sif1 (upd_fifo (\<lambda>_. f)) s
      in upd_sif1 (upd_iop (\<lambda>i. i\<lparr>iop_data := d, counter := uint (swords d AND 0xFFFFC),
             iop_end := iop_end i \<or> tag_IRQ (sdata d) \<or> tag_ID (sdata d) AND 4 \<noteq> 0\<rparr>))
           (upd_iopdma 10 (\<lambda>m. m\<lparr>imadr := sdata d AND 0xffffff\<rparr>) s1))"

definition sif1_EndEE :: "smachine \<Rightarrow> smachine" where
  "sif1_EndEE s =
     (let s1 = upd_sif1 (upd_ee (\<lambda>e. e\<lparr>ee_end := False, ee_busy := False,
                 ee_cycles := (if ee_cycles e = 0 then 1 else ee_cycles e)\<rparr>)) s
      in cpu_int DMAC_SIF1 (word_of_int (ee_cycles (ee_part (sf1 s1)) * 2)) (set_stall DMAC_SIF1 False s1))"

definition sif1_EndIOP :: "smachine \<Rightarrow> smachine" where
  "sif1_EndIOP s =
     (let s1 = upd_sif1 (upd_iop (\<lambda>i. i\<lparr>iop_data := (iop_data i)\<lparr>sdata := 0\<rparr>, iop_end := False, iop_busy := False,
                 iop_cycles := (if iop_cycles i = 0 then 1 else iop_cycles i)\<rparr>)) s
      in schedule_iop IopEvt_SIF1 (word_of_int (iop_cycles (iop_part (sf1 s1)))) s1)"

text \<open>Stall control: the source must not overtake the address in the stall register.\<close>

definition sif1_overtakes :: "smachine \<Rightarrow> bool" where
  "sif1_overtakes s \<longleftrightarrow>
     madr (ch DMAC_SIF1 s) + word_of_int (sif1_writeSize s * 16) > stadr_ADDR (dregs s)"

definition sif1_stalls :: "smachine \<Rightarrow> bool" where
  "sif1_stalls s \<longleftrightarrow> ctrl_STD (dregs s) = STD_SIF1 \<and>
     (chcr_MOD (chcr (ch DMAC_SIF1 s)) = NORMAL_MODE \<or>
      unat (drop_bit 28 (chcr_TAG (chcr (ch DMAC_SIF1 s))) AND 7) = TAG_REFS) \<and> sif1_overtakes s"

definition sif1_HandleEETransfer :: "smachine \<Rightarrow> smachine" where
  "sif1_HandleEETransfer s =
     (if \<not> chcr_STR (chcr (ch DMAC_SIF1 s))
      then upd_sif1 (upd_ee (\<lambda>e. e\<lparr>ee_end := False, ee_busy := False\<rparr>)) s
      else if qwc (ch DMAC_SIF1 s) = 0 then
        if chcr_MOD (chcr (ch DMAC_SIF1 s)) = NORMAL_MODE \<or> ee_end (ee_part (sf1 s)) then sif1_EndEE s
        else sif1_ProcessEETag s
      else if sif1_stalls s
      then set_stall DMAC_SIF1 True (set_sif1_stall True (hwDmacIrq DMAC_STALL_SIS s))
      else if space (fifo (sf1 s)) > 0 then sif1_WriteEEtoFifo s
      else s)"

definition sif1_HandleIOPTransfer :: "sifs dma iop_io \<Rightarrow> smachine \<Rightarrow> smachine" where
  "sif1_HandleIOPTransfer io s =
     (let t = (if counter (iop_part (sf1 s)) > 0 \<and> fsize (fifo (sf1 s)) > 0 then sif1_WriteFifoToIOP io s else s)
      in if counter (iop_part (sf1 t)) \<le> 0
         then if iop_end (iop_part (sf1 t)) then sif1_EndIOP t
              else if fsize (fifo (sf1 t)) \<ge> 4 then sif1_SIFIOPReadTag t
              else t
         else t)"

definition sif1_pass :: "sifs dma iop_io \<Rightarrow> smachine \<Rightarrow> bool \<times> smachine" where
  "sif1_pass io s =
     (let e = ee_part (sf1 s);
          ee_work = (ee_busy e \<and> \<not> sif1_dma_stall (other (idev s)) \<and>
            (space (fifo (sf1 s)) > 0 \<or> ee_end e \<and> qwc (ch DMAC_SIF1 s) = 0));
          a = (if ee_work then sif1_HandleEETransfer s else s);
          ai = iop_part (sf1 a);
          iop_work = (iop_busy ai \<and> (fsize (fifo (sf1 a)) \<ge> 4 \<or> iop_end ai \<and> counter ai = 0))
      in (ee_work \<or> iop_work, if iop_work then sif1_HandleIOPTransfer io a else a))"

partial_function (option) sif1_loop :: "sifs dma iop_io \<Rightarrow> smachine \<Rightarrow> smachine option" where
  "sif1_loop io s = (let (busy, t) = sif1_pass io s in if busy then sif1_loop io t else Some t)"

definition Sif1End :: "smachine \<Rightarrow> smachine" where
  "Sif1End s = sbus_and (NOT 0x4000) (sbus_and (NOT 0x40) s)"

definition SIF1Dma :: "sifs dma iop_io \<Rightarrow> smachine \<Rightarrow> smachine option" where
  "SIF1Dma io s =
     (if sif1_dma_stall (other (idev s)) \<and> sif1_overtakes s then Some s
      else map_option Sif1End (sif1_loop io (Sif1Init (set_sif1_stall False s))))"

definition sif1Interrupt :: "smachine \<Rightarrow> smachine" where
  "sif1Interrupt s = psxDmaInterrupt2 3 (upd_iopdma 10 (\<lambda>d. d\<lparr>ichcr := ichcr d AND NOT 0x01000000\<rparr>) s)"

definition EEsif1Interrupt :: "smachine \<Rightarrow> smachine" where
  "EEsif1Interrupt s = upd_chan DMAC_SIF1 (\<lambda>c. c\<lparr>chcr := unset_bit 8 (chcr c)\<rparr>) (hwDmacIrq DMAC_SIF1 s)"

definition dmaSIF1 :: "sifs dma iop_io \<Rightarrow> smachine \<Rightarrow> smachine option" where
  "dmaSIF1 io s =
     (let s1 = set_stall DMAC_SIF1 False (upd_sif1 (upd_ee (\<lambda>e. e\<lparr>ee_busy := True, ee_end := False\<rparr>)) (sbus_or 0x4000 s));
          c = chcr (ch DMAC_SIF1 s1);
          s2 = (if chcr_MOD c = CHAIN_MODE \<and> qwc (ch DMAC_SIF1 s1) > 0 \<and>
                   (tag_ID c = TAG_REFE \<or> tag_ID c = TAG_END \<or>
                    tag_IRQ c \<and> chcr_TIE (chcr (ch DMAC_VIF1 s1)))
                then upd_sif1 (upd_ee (\<lambda>e. e\<lparr>ee_end := True\<rparr>)) s1 else s1)
      in SIF1Dma io s2)"

definition psxDma10 :: "sifs dma iop_io \<Rightarrow> smachine \<Rightarrow> smachine option" where
  "psxDma10 io s = SIF1Dma io (upd_sif1 (upd_iop (\<lambda>i. i\<lparr>iop_busy := True, iop_end := False\<rparr>)) s)"

end
