(* ===== verification/Dmac_Spec.thy ===== *)
theory Dmac_Spec
  imports Dmac
begin

text \<open>
  Properties of the DMA controller: the address stack of source chains, and that the register writes
  implement a specification of starting and waiting channels, so that no start is lost while the controller is
  disabled or suspended.
\<close>

subsection \<open>The address stack of a chain\<close>

definition addr_stack :: "DMACh \<Rightarrow> u32 list" where
  "addr_stack c = (if chcr_ASP (chcr c) = 0 then [] else if chcr_ASP (chcr c) = 1 then [asr0 c] else [asr1 c, asr0 c])"

lemma ASP_set_ASP [simp]: "v < 4 \<Longrightarrow> chcr_ASP (set_ASP v c) = v"
proof -
  assume "v < 4"
  then consider "v = 0" | "v = 1" | "v = 2" | "v = 3" by linarith
  then have "drop_bit 4 (set_ASP v c) AND 3 = (of_nat v :: u32)"
    by cases (simp_all add: set_ASP_def, (rule bits_32I, simp add: upt_32 bit_simps)+)
  with \<open>v < 4\<close> show ?thesis by (simp add: chcr_ASP_def unat_of_nat)
qed

lemma ASP_less: "chcr_ASP c < 4"
proof -
  have "drop_bit 4 c AND 3 \<le> 3" by (simp add: word_and_le1)
  then have "unat (drop_bit 4 c AND 3) \<le> unat (3 :: u32)" by (simp add: word_le_nat_alt)
  then show ?thesis by (simp add: chcr_ASP_def)
qed

text \<open>C33: source chains keep a stack of at most two return addresses in \<open>ASR0\<close> and \<open>ASR1\<close>. With \<open>ASP\<close> at most 2,
  a \<open>CALL\<close> pushes the address behind its packet and continues at the tag it names, or ends the
  transfer when two addresses are stored; a \<open>RET\<close> continues at the address on top and pops it, or
  ends the transfer when there is none; both transfer the packet behind the tag; every other tag
  leaves the stack alone, \<open>ASP\<close> stays at most 2, and on those tags the chain without a stack
  does exactly the same.\<close>
theorem chain_address_stack:
  assumes "chcr_ASP (chcr c) \<le> 2"
  shows "(case hwDmacSrcChainWithStack 5 c of (fin, d) \<Rightarrow> madr d = tadr c + 16 \<and> chcr_ASP (chcr d) \<le> 2 \<and>
      (if length (addr_stack c) < 2
       then \<not> fin \<and> tadr d = madr c \<and> addr_stack d = (tadr c + 16 + 16 * qwc c) # addr_stack c
       else fin \<and> addr_stack d = addr_stack c)) \<and>
    (case hwDmacSrcChainWithStack 6 c of (fin, d) \<Rightarrow> madr d = tadr c + 16 \<and> chcr_ASP (chcr d) \<le> 2 \<and>
      (case addr_stack c of [] \<Rightarrow> fin \<and> addr_stack d = []
       | a # as \<Rightarrow> \<not> fin \<and> tadr d = a \<and> addr_stack d = as)) \<and>
    (\<forall>tid < 8. tid \<noteq> 5 \<and> tid \<noteq> 6 \<longrightarrow>
      hwDmacSrcChainWithStack tid c = hwDmacSrcChain tid c \<and> addr_stack (snd (hwDmacSrcChainWithStack tid c)) = addr_stack c)"
proof -
  have "push_bit 4 (qwc c) = 16 * qwc c" by (simp add: push_bit_eq_mult)
  with assms show ?thesis
    by (simp add: hwDmacSrcChainWithStack_def hwDmacSrcChain_def addr_stack_def Let_def)
qed

theorem chain_address_stack_witness:
  "hwDmacSrcChainWithStack 0 \<lparr>chcr = 0x104, madr = 0, qwc = 2, tadr = 0x100, asr0 = 0, asr1 = 0, sadr = 0\<rparr> =
   hwDmacSrcChain 0 \<lparr>chcr = 0x104, madr = 0, qwc = 2, tadr = 0x100, asr0 = 0, asr1 = 0, sadr = 0\<rparr>"
  using chain_address_stack [of "\<lparr>chcr = 0x104, madr = 0, qwc = 2, tadr = 0x100, asr0 = 0, asr1 = 0, sadr = 0\<rparr>"]
  by (simp add: chcr_ASP_def)

subsection \<open>Starting channels\<close>

lemma upd_dma_frame [simp]: "idev (upd_dma f s) = f (idev s)" "ee_regs (upd_dma f s) = ee_regs s" "psx (upd_dma f s) = psx s"
  by (simp_all add: upd_dma_def)

lemma upd_other_frame [simp]:
  "other (idev (upd_other f s)) = f (other (idev s))" "chan (idev (upd_other f s)) = chan (idev s)"
  "dmacRegs (idev (upd_other f s)) = dmacRegs (idev s)" "hw_dma (idev (upd_other f s)) = hw_dma (idev s)"
  "QueuedDMA (idev (upd_other f s)) = QueuedDMA (idev s)"
  by (simp_all add: upd_other_def)

lemma upd_chan_frame [simp]:
  "other (idev (upd_chan n f s)) = other (idev s)" "chan (idev (upd_chan n f s)) = (chan (idev s))(n := f (chan (idev s) n))"
  "dmacRegs (idev (upd_chan n f s)) = dmacRegs (idev s)" "hw_dma (idev (upd_chan n f s)) = hw_dma (idev s)"
  "QueuedDMA (idev (upd_chan n f s)) = QueuedDMA (idev s)"
  by (simp_all add: upd_chan_def)

lemma upd_regs_frame [simp]:
  "other (idev (upd_regs f s)) = other (idev s)" "chan (idev (upd_regs f s)) = chan (idev s)"
  "dmacRegs (idev (upd_regs f s)) = f (dmacRegs (idev s))" "hw_dma (idev (upd_regs f s)) = hw_dma (idev s)"
  "QueuedDMA (idev (upd_regs f s)) = QueuedDMA (idev s)"
  by (simp_all add: upd_regs_def)

lemma set_queued_frame [simp]:
  "other (idev (set_queued n b s)) = other (idev s)" "chan (idev (set_queued n b s)) = chan (idev s)"
  "dmacRegs (idev (set_queued n b s)) = dmacRegs (idev s)"
  "QueuedDMA (idev (set_queued n b s)) = (if b then set_bit n else unset_bit n) (QueuedDMA (idev s))"
  by (simp_all add: set_queued_def)

lemma clear_requests_frame [simp]:
  "other (idev (clear_requests n s)) = other (idev s)" "chan (idev (clear_requests n s)) = chan (idev s)"
  "dmacRegs (idev (clear_requests n s)) = dmacRegs (idev s)"
  "QueuedDMA (idev (clear_requests n s)) = unset_bit n (QueuedDMA (idev s))"
  by (simp_all add: clear_requests_def)

lemma cpuTestDMACInts_frame [simp]: "idev (cpuTestDMACInts s) = idev s"
  by (simp add: cpuTestDMACInts_def break_iop_def)

text \<open>Transfer functions that log their calls.\<close>

definition log_funcs :: "nat list dma_funcs" where
  "log_funcs n = upd_other (\<lambda>l. l @ [n])"

definition running :: "nat \<Rightarrow> 'd machine \<Rightarrow> bool" where
  "running n s = chcr_STR (chcr (ch n s))"

text \<open>What the writes to the controller mean: the channels that run, those of them that wait for the
  controller, the two switches, and the transfers started so far, in order. A channel starts at once when
  the controller is enabled and not suspended and waits otherwise; stopping a channel withdraws its wait;
  once the controller works again, every waiting channel is started, in the order of the channels.\<close>

record dma_spec =
  sp_running :: "nat set"
  sp_waiting :: "nat set"
  sp_enabled :: bool
  sp_suspended :: bool
  sp_started :: "nat list"

definition spec_resume :: "dma_spec \<Rightarrow> dma_spec" where
  "spec_resume a =
     (if sp_enabled a \<and> \<not> sp_suspended a
      then a\<lparr>sp_started := sp_started a @ filter (\<lambda>n. n \<in> sp_waiting a) [0..<10], sp_waiting := {}\<rparr> else a)"

definition spec_chcr :: "nat \<Rightarrow> bool \<Rightarrow> dma_spec \<Rightarrow> dma_spec" where
  "spec_chcr n str a =
     (if n \<in> sp_running a
      then if str then a else a\<lparr>sp_running := sp_running a - {n}, sp_waiting := sp_waiting a - {n}\<rparr>
      else if \<not> str then a
      else if sp_enabled a \<and> \<not> sp_suspended a
      then a\<lparr>sp_running := insert n (sp_running a), sp_started := sp_started a @ [n]\<rparr>
      else a\<lparr>sp_running := insert n (sp_running a), sp_waiting := insert n (sp_waiting a)\<rparr>)"

definition is_ENABLEW :: "u32 \<Rightarrow> bool" where
  "is_ENABLEW mem \<longleftrightarrow> hw_page mem = 0x0f \<and> HELPSWITCH mem = 0x59"

definition spec_write :: "u32 \<Rightarrow> u32 \<Rightarrow> dma_spec \<Rightarrow> dma_spec" where
  "spec_write mem value a =
     (case index_of mem D_CHCR of
        Some n \<Rightarrow> spec_chcr n (bit value 8) a
      | None \<Rightarrow>
        if mem = 0x1000E000 then spec_resume (a\<lparr>sp_enabled := bit value 0\<rparr>)
        else if is_ENABLEW mem then spec_resume (a\<lparr>sp_suspended := bit value 16\<rparr>)
        else a)"

text \<open>The state of the specification that a machine stands for, and what the registers of a machine satisfy.\<close>

definition dma_abs :: "nat list machine \<Rightarrow> dma_spec" where
  "dma_abs s =
     \<lparr>sp_running = {n. n < 10 \<and> running n s}, sp_waiting = {n. n < 10 \<and> bit (QueuedDMA (idev s)) n},
      sp_enabled = ctrl_DMAE (dregs s), sp_suspended = bit (enabler (dregs s)) 16, sp_started = other (idev s)\<rparr>"

definition suspend_byte :: "u32 \<Rightarrow> u8" where "suspend_byte v = ucast (drop_bit 16 v)"

definition dma_inv :: "nat list machine \<Rightarrow> bool" where
  "dma_inv s \<longleftrightarrow> enabler (dregs s) = enablew (dregs s) \<and> suspend_byte (enablew (dregs s)) \<in> {0, 1} \<and>
     (\<forall>n<10. bit (QueuedDMA (idev s)) n \<longrightarrow> running n s \<and> \<not> dma_enabled (dregs s))"

definition dma_register :: "u32 \<Rightarrow> bool" where
  "dma_register mem \<longleftrightarrow> drop_bit 16 mem = 0x1000 \<and>
     (hw_page mem \<in> set [0x08..<0x0f] \<or> hw_page mem = 0x0f \<and> HELPSWITCH mem \<in> {0x00, 0x01, 0x52, 0x59})"

definition dma_write_ok :: "u32 \<times> u32 \<Rightarrow> bool" where
  "dma_write_ok = (\<lambda>(mem, value). dma_register mem \<and> mem \<noteq> 0x1000F520 \<and>
     (is_ENABLEW mem \<longrightarrow> suspend_byte value \<in> {0, 1}))"

text \<open>A functional simulation: every allowed step of the code keeps an invariant and does, on the abstract
  state, what the specification does; then so do sequences of steps.\<close>

locale functional_simulation =
  fixes cstep :: "'c \<Rightarrow> 's \<Rightarrow> 's"
    and astep :: "'c \<Rightarrow> 'a \<Rightarrow> 'a"
    and abstr :: "'s \<Rightarrow> 'a"
    and invar :: "'s \<Rightarrow> bool"
    and allowed :: "'c \<Rightarrow> bool"
  assumes invar_step: "\<lbrakk>invar s; allowed c\<rbrakk> \<Longrightarrow> invar (cstep c s)"
    and abstr_step: "\<lbrakk>invar s; allowed c\<rbrakk> \<Longrightarrow> abstr (cstep c s) = astep c (abstr s)"
begin

lemma simulation_fold:
  "\<lbrakk>invar s; \<forall>c\<in>set cs. allowed c\<rbrakk> \<Longrightarrow>
     invar (fold cstep cs s) \<and> abstr (fold cstep cs s) = fold astep cs (abstr s)"
  by (induction cs arbitrary: s) (simp_all add: invar_step abstr_step)

end

lemma suspend_bit: "suspend_byte v \<in> {0, 1} \<Longrightarrow> suspend_byte v = 0 \<longleftrightarrow> \<not> bit v 16"
proof -
  assume "suspend_byte v \<in> {0, 1}"
  moreover have "bit v 16 = bit (suspend_byte v) 0" by (simp add: suspend_byte_def bit_simps)
  ultimately show ?thesis by auto
qed

lemma dma_enabled_abs:
  assumes "suspend_byte (enabler d) \<in> {0, 1}"
  shows "dma_enabled d \<longleftrightarrow> ctrl_DMAE d \<and> \<not> bit (enabler d) 16"
  using suspend_bit [OF assms] by (simp add: dma_enabled_def suspend_byte_def)

lemma start_queued_fold:
  assumes "dma_enabled (dregs s)" "distinct ns"
  shows "let t = fold (start_queued log_funcs) ns s in
    dregs t = dregs s \<and> chan (idev t) = chan (idev s) \<and>
    (\<forall>n<10. bit (QueuedDMA (idev t)) n \<longleftrightarrow> bit (QueuedDMA (idev s)) n \<and> (n \<in> set ns \<longrightarrow> \<not> running n s)) \<and>
    other (idev t) = other (idev s) @ filter (\<lambda>n. bit (QueuedDMA (idev s)) n \<and> running n s) ns"
  using assms
proof (induction ns arbitrary: s)
  case (Cons n ns)
  let ?u = "start_queued log_funcs n s"
  have u: "dregs ?u = dregs s" "chan (idev ?u) = chan (idev s)"
    "\<And>m. m < 10 \<Longrightarrow> bit (QueuedDMA (idev ?u)) m \<longleftrightarrow> bit (QueuedDMA (idev s)) m \<and> (m = n \<longrightarrow> \<not> running n s)"
    "\<And>m. m \<noteq> n \<Longrightarrow> bit (QueuedDMA (idev ?u)) m \<longleftrightarrow> bit (QueuedDMA (idev s)) m"
    "other (idev ?u) = other (idev s) @ (if bit (QueuedDMA (idev s)) n \<and> running n s then [n] else [])"
    using Cons.prems
    by (auto simp: start_queued_def QuickDmaExec_def log_funcs_def running_def bit_simps)
  have r: "running m ?u = running m s" for m by (simp add: running_def u(2))
  have f: "filter (\<lambda>m. bit (QueuedDMA (idev ?u)) m \<and> running m s) ns =
      filter (\<lambda>m. bit (QueuedDMA (idev s)) m \<and> running m s) ns"
    using Cons.prems(2) u(4) by (intro filter_cong) fastforce+
  show ?case
    using Cons.IH [of ?u] Cons.prems by (auto simp: Let_def u(1,2,3,5) r f)
qed simp

lemma start_queued_disabled:
  assumes "\<not> dma_enabled (dregs s)"
  shows "idev (start_queued fs n s) = idev s"
  using assms
  by (simp add: start_queued_def QuickDmaExec_def set_queued_def set_bit_eq_idem_iff)

lemma StartQueuedDMA_disabled:
  assumes "\<not> dma_enabled (dregs s)"
  shows "idev (StartQueuedDMA fs s) = idev s"
proof -
  have "idev (fold (start_queued fs) ns s) = idev s" for ns
    using assms
  proof (induction ns arbitrary: s)
    case (Cons n ns)
    then show ?case using start_queued_disabled [of s fs n] by simp
  qed simp
  then show ?thesis by (simp add: StartQueuedDMA_def)
qed

text \<open>The specification and the invariant look at the DMA part of the machine only.\<close>

lemma dma_view_cong:
  assumes "\<And>n. n < 10 \<Longrightarrow> running n t = running n s" "QueuedDMA (idev t) = QueuedDMA (idev s)"
    "other (idev t) = other (idev s)" "ctrl (dregs t) = ctrl (dregs s)" "enabler (dregs t) = enabler (dregs s)"
    "enablew (dregs t) = enablew (dregs s)"
  shows "dma_abs t = dma_abs s" "dma_inv t = dma_inv s"
  using assms by (auto simp: dma_abs_def dma_inv_def dma_enabled_def ctrl_DMAE_def)

lemma StartQueuedDMA_refines:
  assumes "enabler (dregs s) = enablew (dregs s)" "suspend_byte (enablew (dregs s)) \<in> {0, 1}"
    "\<forall>n<10. bit (QueuedDMA (idev s)) n \<longrightarrow> running n s"
  shows "dma_inv (StartQueuedDMA log_funcs s)" "dma_abs (StartQueuedDMA log_funcs s) = spec_resume (dma_abs s)"
proof -
  let ?t = "StartQueuedDMA log_funcs s"
  have en: "dma_enabled (dregs s) \<longleftrightarrow> ctrl_DMAE (dregs s) \<and> \<not> bit (enabler (dregs s)) 16"
    using assms(1,2) by (simp add: dma_enabled_abs)
  have "dma_inv ?t \<and> dma_abs ?t = spec_resume (dma_abs s)"
  proof (cases "dma_enabled (dregs s)")
    case True
    have t: "dregs ?t = dregs s" "chan (idev ?t) = chan (idev s)"
      "\<And>n. n < 10 \<Longrightarrow> \<not> bit (QueuedDMA (idev ?t)) n"
      "other (idev ?t) = other (idev s) @ filter (\<lambda>n. bit (QueuedDMA (idev s)) n \<and> running n s) [0..<10]"
      using start_queued_fold [OF True, of "[0..<10]"] assms(3)
      by (auto simp: StartQueuedDMA_def Let_def simp del: upt_Suc)
    have "filter (\<lambda>n. bit (QueuedDMA (idev s)) n \<and> running n s) [0..<10] =
        filter (\<lambda>n. n < 10 \<and> bit (QueuedDMA (idev s)) n) [0..<10]"
      using assms(3) by (intro filter_cong) auto
    then show ?thesis
      using True en t assms(1,2) by (auto simp: dma_inv_def dma_abs_def spec_resume_def running_def simp del: upt_Suc)
  next
    case False
    have i: "idev ?t = idev s" by (rule StartQueuedDMA_disabled [OF False])
    have "dma_abs ?t = dma_abs s" "dma_inv ?t = dma_inv s"
      by (rule dma_view_cong; simp add: running_def i)+
    then show ?thesis
      using False en assms by (auto simp: dma_inv_def spec_resume_def dma_abs_def)
  qed
  then show "dma_inv ?t" "dma_abs ?t = spec_resume (dma_abs s)" by simp_all
qed

text \<open>A change of the two switches: the code resumes only when it sees a switch flip with a channel queued;
  by the invariant there is nothing to resume otherwise.\<close>

lemma switch_refines:
  assumes "dma_inv s" "idev t = (idev s)\<lparr>dmacRegs := d\<rparr>" "enabler d = enablew d" "suspend_byte (enablew d) \<in> {0, 1}"
    and "u = (if flip \<and> QueuedDMA (idev t) \<noteq> 0 then StartQueuedDMA log_funcs t else t)"
    and "\<not> flip \<Longrightarrow> dma_enabled d \<Longrightarrow> dma_enabled (dregs s)"
  shows "dma_inv u \<and> dma_abs u =
    spec_resume ((dma_abs s)\<lparr>sp_enabled := ctrl_DMAE d, sp_suspended := bit (enabler d) 16\<rparr>)"
proof -
  have a: "dma_abs t = (dma_abs s)\<lparr>sp_enabled := ctrl_DMAE d, sp_suspended := bit (enabler d) 16\<rparr>"
    using assms(2) by (simp add: dma_abs_def running_def)
  have w: "\<forall>n<10. bit (QueuedDMA (idev t)) n \<longrightarrow> running n t"
    using assms(1,2) by (auto simp: dma_inv_def running_def)
  show ?thesis
  proof (cases "flip \<and> QueuedDMA (idev t) \<noteq> 0")
    case True
    then show ?thesis using StartQueuedDMA_refines [of t] assms(2-5) w by (simp add: a)
  next
    case False
    have none: "\<forall>n<10. \<not> bit (QueuedDMA (idev t)) n" if "dma_enabled d"
      using False that assms(1,2,6) by (auto simp: dma_inv_def)
    have en: "dma_enabled d \<longleftrightarrow> ctrl_DMAE d \<and> \<not> bit (enabler d) 16"
      using assms(3,4) by (simp add: dma_enabled_abs)
    have "dma_inv t" using none w assms(2-4) by (auto simp: dma_inv_def)
    moreover have "spec_resume (dma_abs t) = dma_abs t"
      using none en assms(2) by (auto simp: spec_resume_def dma_abs_def)
    moreover have "u = t" using False assms(5) by presburger
    ultimately show ?thesis by (simp add: a [symmetric])
  qed
qed

lemma index_of_Some: "index_of x xs = Some n \<Longrightarrow> n < length xs \<and> xs ! n = x"
  by (induction x xs arbitrary: n rule: index_of.induct) (auto split: if_splits)

lemma chcr_STR_set_MOD [simp]: "chcr_STR (set_MOD v c) = chcr_STR c"
  by (simp add: chcr_STR_def set_MOD_def bit_simps)

lemma DmaExec_refines:
  assumes "dma_inv s" "index_of mem D_CHCR = Some n"
  shows "dma_inv (DmaExec (log_funcs n) mem value s) \<and>
    dma_abs (DmaExec (log_funcs n) mem value s) = spec_chcr n (bit value 8) (dma_abs s)"
proof -
  have n: "n < 10" "ChannelNumber mem = n"
    using index_of_Some [OF assms(2)] assms(2) by (simp_all add: D_CHCR_def ChannelNumber_def)
  have stop: "\<not> chcr_STR (unset_bit 8 c)" for c by (simp add: chcr_STR_def bit_simps)
  have val: "bit value 8 = chcr_STR value" by (simp add: chcr_STR_def)
  have en: "dma_enabled (dregs s) \<longleftrightarrow> ctrl_DMAE (dregs s) \<and> \<not> bit (enabler (dregs s)) 16"
    using assms(1) by (simp add: dma_inv_def dma_enabled_abs)
  show ?thesis
  proof (cases "chcr_STR (chcr (ch n s))")
    case True
    then show ?thesis
      using assms(1) n stop
      by (auto simp: DmaExec_def Let_def dma_inv_def dma_abs_def spec_chcr_def running_def bit_simps val)
  next
    case False
    then show ?thesis
      using assms(1) n en
      by (auto simp: DmaExec_def Let_def dma_inv_def dma_abs_def spec_chcr_def running_def bit_simps log_funcs_def val)
  qed
qed

lemma cpuTestINTCInts_frame [simp]: "idev (cpuTestINTCInts s) = idev s"
  by (simp add: cpuTestINTCInts_def break_iop_def)

lemma chan_view:
  assumes "\<And>c. chcr (f c) = chcr c"
  shows "dma_abs (upd_chan n f s) = dma_abs s" "dma_inv (upd_chan n f s) = dma_inv s"
  by (rule dma_view_cong; simp add: running_def assms)+

lemma regs_view:
  assumes "ctrl (f (dregs s)) = ctrl (dregs s)" "enabler (f (dregs s)) = enabler (dregs s)"
    "enablew (f (dregs s)) = enablew (dregs s)"
  shows "dma_abs (upd_regs f s) = dma_abs s" "dma_inv (upd_regs f s) = dma_inv s"
  by (rule dma_view_cong; simp add: running_def assms)+

lemma test_ints_view:
  "dma_abs (cpuTestINTCInts s) = dma_abs s" "dma_inv (cpuTestINTCInts s) = dma_inv s"
  "dma_abs (cpuTestDMACInts s) = dma_abs s" "dma_inv (cpuTestDMACInts s) = dma_inv s"
  by (rule dma_view_cong; simp add: running_def)+

lemmas dma_views = chan_view regs_view test_ints_view

definition same_view :: "nat list machine \<Rightarrow> nat list machine \<Rightarrow> bool" where
  "same_view s t \<longleftrightarrow> dma_abs t = dma_abs s \<and> dma_inv t = dma_inv s"

lemma same_view_option:
  "same_view s a \<Longrightarrow> (\<And>n. same_view s (f n)) \<Longrightarrow> same_view s (case x of None \<Rightarrow> a | Some n \<Rightarrow> f n)"
  by (cases x) auto

lemma hw_store_view:
  assumes "mem \<noteq> 0x1000F520"
  shows "dma_abs (hw_store mem v s) = dma_abs s \<and> dma_inv (hw_store mem v s) = dma_inv s"
proof -
  have "same_view s (hw_store mem v s)"
    unfolding hw_store_def by (rule same_view_option)+ (simp_all add: same_view_def dma_views assms)
  then show ?thesis by (simp add: same_view_def)
qed

lemma dma_abs_switches:
  "(dma_abs s)\<lparr>sp_enabled := b, sp_suspended := bit (enabler (dregs s)) 16\<rparr> = (dma_abs s)\<lparr>sp_enabled := b\<rparr>"
  "(dma_abs s)\<lparr>sp_enabled := ctrl_DMAE (dregs s), sp_suspended := b\<rparr> = (dma_abs s)\<lparr>sp_suspended := b\<rparr>"
  by (simp_all add: dma_abs_def)

lemma ctrl_refines:
  assumes "dma_inv s"
  shows "dma_inv (dmac_write_ctrl log_funcs v s) \<and>
    dma_abs (dmac_write_ctrl log_funcs v s) = spec_resume ((dma_abs s)\<lparr>sp_enabled := bit v 0\<rparr>)"
proof -
  let ?d = "(dregs s)\<lparr>ctrl := v\<rparr>" and ?flip = "\<not> bit (ctrl (dregs s)) 0 \<and> bit v 0"
  have 1: "idev (upd_regs (\<lambda>d. d\<lparr>ctrl := v\<rparr>) s) = (idev s)\<lparr>dmacRegs := ?d\<rparr>" by (simp add: upd_regs_def)
  have 2: "enabler ?d = enablew ?d" "suspend_byte (enablew ?d) \<in> {0, 1}" using assms by (simp_all add: dma_inv_def)
  have 3: "dmac_write_ctrl log_funcs v s =
      (if ?flip \<and> QueuedDMA (idev (upd_regs (\<lambda>d. d\<lparr>ctrl := v\<rparr>) s)) \<noteq> 0
       then StartQueuedDMA log_funcs (upd_regs (\<lambda>d. d\<lparr>ctrl := v\<rparr>) s) else upd_regs (\<lambda>d. d\<lparr>ctrl := v\<rparr>) s)"
    by (simp only: dmac_write_ctrl_def Let_def conj_assoc)
  have 4: "dma_enabled (dregs s)" if "\<not> ?flip" "dma_enabled ?d"
    using that by (simp add: dma_enabled_def ctrl_DMAE_def)
  show ?thesis
    using switch_refines [OF assms 1 2 3 4] by (simp add: dma_abs_switches ctrl_DMAE_def [of ?d])
qed

lemma enablew_refines:
  assumes "dma_inv s" "suspend_byte v \<in> {0, 1}"
  shows "dma_inv (dmac_write_enablew log_funcs v s) \<and>
    dma_abs (dmac_write_enablew log_funcs v s) = spec_resume ((dma_abs s)\<lparr>sp_suspended := bit v 16\<rparr>)"
proof -
  let ?f = "\<lambda>d. d\<lparr>enablew := v, enabler := v\<rparr>"
  let ?d = "?f (dregs s)" and ?flip = "bit (enablew (dregs s)) 16 \<and> \<not> bit v 16"
  have old: "enabler (dregs s) = enablew (dregs s)" "suspend_byte (enablew (dregs s)) \<in> {0, 1}"
    using assms(1) by (simp_all add: dma_inv_def)
  have 1: "idev (upd_regs ?f s) = (idev s)\<lparr>dmacRegs := ?d\<rparr>" by (simp add: upd_regs_def)
  have 2: "enabler ?d = enablew ?d" "suspend_byte (enablew ?d) \<in> {0, 1}" using assms(2) by simp_all
  have 3: "dmac_write_enablew log_funcs v s =
      (if ?flip \<and> QueuedDMA (idev (upd_regs ?f s)) \<noteq> 0 then StartQueuedDMA log_funcs (upd_regs ?f s) else upd_regs ?f s)"
    by (simp only: dmac_write_enablew_def Let_def conj_assoc)
  have 4: "dma_enabled (dregs s)" if "\<not> ?flip" "dma_enabled ?d"
    using that old assms(2) by (simp add: dma_enabled_abs ctrl_DMAE_def)
  have "ctrl_DMAE ?d = ctrl_DMAE (dregs s)" by (simp add: ctrl_DMAE_def)
  then show ?thesis
    using switch_refines [OF assms(1) 1 2 3 4] by (simp add: dma_abs_switches)
qed

text \<open>No other register lies on a channel's control register, nor on another control register's word.\<close>

lemma D_CHCR_apart:
  "index_of (mem - 0x20) D_CHCR = Some n \<Longrightarrow> index_of mem D_CHCR = None \<and> mem \<noteq> 0x1000E000"
  "index_of mem D_CHCR = Some n \<Longrightarrow> hw_page mem \<noteq> 0x0f"
  by (auto simp: D_CHCR_def hw_page_def diff_eq_eq split: if_splits)

lemma dmacWrite32_refines:
  assumes "dma_inv s" "hw_page mem \<noteq> 0x0f"
  shows "dma_inv (snd (dmacWrite32 log_funcs mem v s)) \<and>
    dma_abs (snd (dmacWrite32 log_funcs mem v s)) = spec_write mem v (dma_abs s)"
proof -
  have m: "mem \<noteq> 0x1000F590" "\<not> is_ENABLEW mem" using assms(2) by (auto simp: hw_page_def is_ENABLEW_def)
  show ?thesis
  proof (cases "index_of (mem - 0x20) D_CHCR")
    case (Some n)
    then show ?thesis using D_CHCR_apart(1) [OF Some] assms(1) m by (simp add: dmacWrite32_def spec_write_def dma_views)
  next
    case none: None
    show ?thesis
    proof (cases "index_of mem D_CHCR")
      case (Some n)
      then show ?thesis using none DmaExec_refines [OF assms(1) Some] by (simp add: dmacWrite32_def spec_write_def)
    next
      case None
      then show ?thesis
        using none m ctrl_refines [OF assms(1)] assms(1)
        by (simp add: dmacWrite32_def spec_write_def dmac_write_stat_def dma_views)
    qed
  qed
qed

lemma hwWrite32_refines:
  assumes "dma_inv s" "dma_write_ok (mem, v)"
  shows "dma_inv (hwWrite32 log_funcs mem v s) \<and>
    dma_abs (hwWrite32 log_funcs mem v s) = spec_write mem v (dma_abs s)"
proof (cases "hw_page mem = 0x0f")
  case True
  have enw: "dmacWrite32 log_funcs 0x1000F590 v s = (False, dmac_write_enablew log_funcs v s)"
    by (simp add: dmacWrite32_def D_CHCR_def)
  have none: "index_of mem D_CHCR = None" "mem \<noteq> 0x1000E000"
    using True D_CHCR_apart(2) [of mem] by (cases "index_of mem D_CHCR"; auto simp: hw_page_def)+
  show ?thesis
    using True assms none hw_store_view [of mem v s] enablew_refines [OF assms(1), of v]
    by (simp add: hwWrite32_def spec_write_def is_ENABLEW_def enw dma_write_ok_def dma_views)
next
  case False
  obtain wb t where t: "dmacWrite32 log_funcs mem v s = (wb, t)" by (cases "dmacWrite32 log_funcs mem v s")
  show ?thesis
    using False dmacWrite32_refines [OF assms(1) False, of v] hw_store_view [of mem v t] assms(2)
    by (simp add: hwWrite32_def t dma_write_ok_def)
qed

interpretation dma: functional_simulation "case_prod (hwWrite32 log_funcs)" "case_prod spec_write" dma_abs dma_inv dma_write_ok
  by unfold_locales (auto simp: hwWrite32_refines)

definition log_machine :: "nat list machine" where
  "log_machine =
     \<lparr>psx = psxReset, ee_regs = cpuReset, psxMemWLUT = (\<lambda>pg. 0), psxMemRLUT = (\<lambda>pg. 0), ihost = (\<lambda>p. 0),
      ilayout = \<lparr>iMain = 0x1000000, iP = 0x1200000, iSif = 0x1210000, iHw = 0x1220000, iROM = 0x1400000, iROM1 = 0x1800000,
        iROM2 = 0x1C00000, eeHw = 0x1D00000\<rparr>,
      iopIsDelaySlot = False, ibranch2 = False, branchPC = 0, iopEventAction = False, iopEventTestIsActive = False,
      eeEventTestIsActive = False, psxNextStartCounter = 0, psxNextDeltaCounter = 1000, CurrentIRX_length = 0,
      idev = \<lparr>chan = (\<lambda>n. \<lparr>chcr = 0, madr = 0, qwc = 0, tadr = 0, asr0 = 0, asr1 = 0, sadr = 0\<rparr>),
        dmacRegs = \<lparr>ctrl = 0, stat = 0, pcr = 0, sqwc = 0, rbsr = 0, rbor = 0, stadr = 0, enabler = 0x1201, enablew = 0x1201,
          intc_stat = 0, intc_mask = 0\<rparr>,
        QueuedDMA = 0, hw_dma = (\<lambda>n. \<lparr>imadr = 0, ibcr = 0, ichcr = 0, itadr = 0\<rparr>), scan = INT_NOT_RUNNING, GameStarted = True,
        INSTANTDMAHACK = False, EETIMINGHACK = False,
        eelayout = \<lparr>eeMem_Main = 0x10000000, eeMem_ZeroRead = 0x12000000, eeMem_Scratch = 0x12400000,
          iopMem_Main = 0x14000000, iopMem_P = 0x14200000, VUMem_start = 0x18000000, VUMem_end = 0x1800A000\<rparr>,
        ZeroWrite = 0x13000000, other = []\<rparr>\<rparr>"

lemma direct_enabler_write:
  "let u = fold (\<lambda>(mem, value). hwWrite32 log_funcs mem value)
      [(0x1000E000, 1), (0x1000F590, 0x11201), (0x1000C000, 0x100), (0x1000F520, 0x1201)] log_machine
   in dma_enabled (dregs u) \<and> running 5 u \<and> bit (QueuedDMA (idev u)) 5 \<and> other (idev u) = []"
  by (simp add: Let_def hwWrite32_def hw_store_def hw_page_def HELPSWITCH_def dmacWrite32_def D_CHCR_def dmac_write_ctrl_def
      dmac_write_enablew_def DmaExec_def ChannelNumber_def dma_enabled_def ctrl_DMAE_def running_def chcr_STR_def
      chcr_MOD_def log_machine_def)

text \<open>C34: no start of a DMA channel is lost, none is made twice, and none comes out of order. Take the transfer
  functions to log their calls. From a state in which only running channels are marked as waiting, and none
  while the controller works, let the guest write any sequence of values to the registers of the DMA and
  interrupt controllers (the store of \<open>hwWrite32\<close> included), with the suspend field of \<open>DMAC_ENABLEW\<close> written as
  0 or 1 and \<open>DMAC_ENABLER\<close> not written. Then the running channels, the waiting channels, the two
  switches and the exact sequence of started transfers are those of the specification, which starts a channel at
  once when the controller is enabled and not suspended, lets it wait otherwise, forgets it when it is
  stopped, and on resumption starts the waiting channels in the order of their numbers; only running channels
  wait, and whenever the controller is enabled and not suspended none does. A direct write of \<open>DMAC_ENABLER\<close>,
  which the code stores like any other word, is the exception: it lifts the suspension and leaves channel 5 waiting.\<close>
theorem dma_starts_not_lost:
  assumes "dma_inv s" "\<forall>w\<in>set ws. dma_write_ok w"
  defines "t \<equiv> fold (\<lambda>(mem, value). hwWrite32 log_funcs mem value) ws s"
  shows "dma_abs t = fold (\<lambda>(mem, value). spec_write mem value) ws (dma_abs s) \<and>
    (\<forall>n<10. bit (QueuedDMA (idev t)) n \<longrightarrow> running n t) \<and>
    (dma_enabled (dregs t) \<longrightarrow> (\<forall>n<10. \<not> bit (QueuedDMA (idev t)) n)) \<and>
    (let u = fold (\<lambda>(mem, value). hwWrite32 log_funcs mem value)
        [(0x1000E000, 1), (0x1000F590, 0x11201), (0x1000C000, 0x100), (0x1000F520, 0x1201)] log_machine
     in dma_enabled (dregs u) \<and> running 5 u \<and> bit (QueuedDMA (idev u)) 5 \<and> other (idev u) = [])"
proof -
  have "dma_inv t \<and> dma_abs t = fold (\<lambda>(mem, value). spec_write mem value) ws (dma_abs s)"
    unfolding t_def using dma.simulation_fold [OF assms(1,2)] by simp
  then show ?thesis using direct_enabler_write by (auto simp: dma_inv_def)
qed

theorem dma_starts_not_lost_witness:
  "dma_inv log_machine \<and>
   (let t = fold (\<lambda>(mem, value). hwWrite32 log_funcs mem value)
      [(0x1000C400, 0x100), (0x1000C000, 0x100), (0x1000E000, 1)] log_machine
    in other (idev t) = [5, 6] \<and> (\<forall>n<10. \<not> bit (QueuedDMA (idev t)) n))"
proof -
  let ?ws = "[(0x1000C400, 0x100), (0x1000C000, 0x100), (0x1000E000, 1)] :: (u32 \<times> u32) list"
  let ?t = "fold (\<lambda>(mem, value). hwWrite32 log_funcs mem value) ?ws log_machine"
  have i: "dma_inv log_machine"
    by (simp add: dma_inv_def running_def log_machine_def suspend_byte_def)
  have w: "\<forall>w\<in>set ?ws. dma_write_ok w"
    by (simp add: dma_write_ok_def dma_register_def hw_page_def is_ENABLEW_def)
  have "fold (\<lambda>(mem, value). spec_write mem value) ?ws (dma_abs log_machine) =
      \<lparr>sp_running = {5, 6}, sp_waiting = {}, sp_enabled = True, sp_suspended = False, sp_started = [5, 6]\<rparr>"
    by (simp add: spec_write_def spec_chcr_def spec_resume_def dma_abs_def log_machine_def running_def chcr_STR_def
        D_CHCR_def ctrl_DMAE_def upt_rec) auto
  then have "dma_abs ?t = \<lparr>sp_running = {5, 6}, sp_waiting = {}, sp_enabled = True, sp_suspended = False, sp_started = [5, 6]\<rparr>"
    using dma_starts_not_lost [OF i w] by simp
  then show ?thesis using i by (auto simp: dma_abs_def)
qed

end
