(* ===== verification/Sif_Spec.thy ===== *)
theory Sif_Spec
  imports Sif Dmac_Spec
begin

text \<open>
  Correctness of the SIF transfers: the FIFOs are never written beyond their capacity nor read beyond
  their contents although the handlers do not always test for it, short packets are padded to whole
  quadwords, and where the code departs from what it means to do.
\<close>

subsection \<open>Frame facts\<close>

lemma upd_iopdma_frame [simp]:
  "other (idev (upd_iopdma n f s)) = other (idev s)" "chan (idev (upd_iopdma n f s)) = chan (idev s)"
  "dmacRegs (idev (upd_iopdma n f s)) = dmacRegs (idev s)"
  by (simp_all add: upd_iopdma_def)

lemma poke_frame [simp]: "idev (poke p v s) = idev s"
  by (simp add: poke_def)

lemma idev_frame [simp]:
  "idev (set_stall n b s) = idev s" "idev (schedule_iop k c s) = idev s"
  "idev (break_iop t) = idev t"
  by (simp_all add: set_stall_def schedule_iop_def case_prod_beta Let_def break_iop_def)

lemma idev_store_words [simp]: "idev (store_words p ws s) = idev s"
  by (induction p ws s rule: store_words.induct) simp_all

lemma idev_cpu_int [simp]:
  "other (idev (cpu_int n c s)) = other (idev s)" "chan (idev (cpu_int n c s)) = chan (idev s)"
  "dmacRegs (idev (cpu_int n c s)) = dmacRegs (idev s)"
  by (simp_all add: cpu_int_def Let_def)

lemma hwDmacIrq_frame [simp]:
  "other (idev (hwDmacIrq n s)) = other (idev s)" "chan (idev (hwDmacIrq n s)) = chan (idev s)"
  by (simp_all add: hwDmacIrq_def cpuTestDMACInts_def Let_def)

lemma iopIntcIrq_frame [simp]: "idev (iopIntcIrq n s) = idev s"
  by (simp add: iopIntcIrq_def iopTestIntc_def upd_psx_def poke_def)

lemma psxDmaInterrupt2_frame [simp]: "idev (psxDmaInterrupt2 n s) = idev s"
  by (simp add: psxDmaInterrupt2_def Let_def)

lemma getAddr_frame:
  "other (idev (snd (getAddr n a w s))) = other (idev s)"
  "fst (getAddr n a w s) = Some p \<Longrightarrow> snd (getAddr n a w s) = s"
  by (auto simp: getAddr_def split: option.splits)

lemma DMAtransfer_frame: "other (idev (snd (DMAtransfer n a s))) = other (idev s)"
  using getAddr_frame(1) [of n a False s]
  by (auto simp: DMAtransfer_def split: prod.splits option.splits)

lemma sbus_frame [simp]: "idev (sbus_and m s) = idev s" "idev (sbus_or m s) = idev s"
  by (simp_all add: sbus_and_def sbus_or_def)

lemma sf0_upd [simp]: "sf0 (upd_sif0 f s) = f (sf0 s)" "sf1 (upd_sif0 f s) = sf1 s"
    "sif1_dma_stall (other (idev (upd_sif0 f s))) = sif1_dma_stall (other (idev s))"
    "chan (idev (upd_sif0 f s)) = chan (idev s)" "dmacRegs (idev (upd_sif0 f s)) = dmacRegs (idev s)"
    "hw_dma (idev (upd_sif0 f s)) = hw_dma (idev s)"
  by (simp_all add: upd_sif0_def)

lemma sf1_upd [simp]: "sf1 (upd_sif1 f s) = f (sf1 s)" "sf0 (upd_sif1 f s) = sf0 s"
    "sif1_dma_stall (other (idev (upd_sif1 f s))) = sif1_dma_stall (other (idev s))"
    "chan (idev (upd_sif1 f s)) = chan (idev s)" "dmacRegs (idev (upd_sif1 f s)) = dmacRegs (idev s)"
    "hw_dma (idev (upd_sif1 f s)) = hw_dma (idev s)"
  by (simp_all add: upd_sif1_def)

lemma upd_parts [simp]:
  "fifo (upd_ee f x) = fifo x" "iop_part (upd_ee f x) = iop_part x" "ee_part (upd_ee f x) = f (ee_part x)"
  "fifo (upd_iop g x) = fifo x" "iop_part (upd_iop g x) = g (iop_part x)" "ee_part (upd_iop g x) = ee_part x"
  "fifo (upd_fifo h x) = h (fifo x)" "iop_part (upd_fifo h x) = iop_part x" "ee_part (upd_fifo h x) = ee_part x"
  by (simp_all add: upd_ee_def upd_iop_def upd_fifo_def)

lemma length_load_words [simp]: "length (load_words p n s) = n"
  by (simp add: load_words_def)

subsection \<open>SIF0 never overflows its FIFO\<close>

text \<open>Between passes, what is in the FIFO, what the current packet still has to send and the padding it
  needs add up to whole quadwords, and the read position is at a quadword.\<close>

definition sif0_ok :: "sif \<Rightarrow> bool" where
  "sif0_ok x \<longleftrightarrow> fifo_ok (fifo x) \<and> readPos (fifo x) mod 4 = 0 \<and> 0 \<le> counter (iop_part x) \<and>
     0 \<le> writeJunk (iop_part x) \<and> writeJunk (iop_part x) < 4 \<and>
     (fsize (fifo x) + counter (iop_part x) + writeJunk (iop_part x)) mod 4 = 0"

lemma zero_sif_ok: "sif0_ok zero_sif"
  by (simp add: sif0_ok_def zero_sif_def fifo_ok_def)

lemma sif0_ok_ee [simp]: "sif0_ok (upd_ee f x) = sif0_ok x"
  by (simp add: sif0_ok_def)

lemma mod4_sub: "(a + b + c) mod 4 = 0 \<Longrightarrow> (a - 4 * k + b + c) mod 4 = 0" for a b c k :: int
  by presburger

lemma mod4_add:
  fixes a n k :: nat
  assumes "a mod 4 = 0" "n mod 4 = k"
  shows "(a + n) mod 128 mod 4 = k"
proof -
  have "(a + n) mod 128 mod 4 = (a mod 4 + n mod 4) mod 4"
    by (simp add: mod_mod_cancel mod_add_eq)
  with assms show ?thesis by simp
qed

lemma mod4_ring: "a mod 4 = 0 \<Longrightarrow> (a + 4 * k) mod 128 mod 4 = 0" for a k :: nat
  by (rule mod4_add) simp_all

lemma fifo_read_quads:
  assumes "sif0_ok x" "0 < k" "4 * k \<le> fsize (fifo x)"
  shows "sif0_ok (upd_fifo (\<lambda>_. snd (fifo_read (nat (4 * k)) (fifo x))) x)"
proof -
  have "nat (4 * k) = 4 * nat k" using assms(2) by simp
  moreover have "(fsize (fifo x) - 4 * k + counter (iop_part x) + writeJunk (iop_part x)) mod 4 = 0"
    using assms(1) by (simp add: sif0_ok_def mod4_sub)
  moreover have "(readPos (fifo x) + 4 * nat k) mod 128 mod 4 = 0"
    using assms(1) by (simp add: sif0_ok_def mod4_ring del: mod_mod_trivial)
  ultimately show ?thesis
    using assms fifo_read_ok [of "fifo x" "nat (4 * k)"] by (simp add: sif0_ok_def)
qed

lemma sif0_WriteFifoToEE_ok:
  assumes "sif0_ok (sf0 s)" "4 \<le> fsize (fifo (sf0 s))"
  shows "sif0_ok (sf0 (sif0_WriteFifoToEE s))"
proof -
  define k where "k = min (sint (qwc (ch DMAC_SIF0 s))) (fsize (fifo (sf0 s)) div 4)"
  have "4 * k \<le> fsize (fifo (sf0 s))" by (simp add: k_def)
  note q = fifo_read_quads [OF assms(1) _ this]
  show ?thesis
    using q getAddr_frame [of DMAC_SIF0 "madr (ch DMAC_SIF0 s)" True s] assms(1)
    by (auto simp: sif0_WriteFifoToEE_def Let_def sif0_stadr_def case_prod_beta upd_fifo_def k_def [symmetric]
        split: prod.splits option.splits)
qed

lemma sif0_ProcessEETag_ok:
  assumes "sif0_ok (sf0 s)" "4 \<le> fsize (fifo (sf0 s))"
  shows "sif0_ok (sf0 (sif0_ProcessEETag s))"
  using fifo_read_quads [OF assms(1), of 1] assms(2)
  by (simp add: sif0_ProcessEETag_def Let_def case_prod_beta upd_fifo_def)

lemma sif0_WriteIOPtoFifo_ok:
  assumes "sif0_ok (sf0 s)"
  shows "sif0_ok (sf0 (sif0_WriteIOPtoFifo s))"
proof -
  define x where "x = sf0 s"
  define k where "k = min (counter (iop_part x)) (space (fifo x))"
  have k: "0 \<le> k" "k \<le> counter (iop_part x)" "fsize (fifo x) + k \<le> 128"
    using assms by (auto simp: k_def x_def sif0_ok_def fifo_ok_def space_def FIFO_SIF_W_def)
  have f: "fifo_ok (fifo_write ws (fifo x))" if "length ws = nat k" for ws
    using assms k that by (intro fifo_write_ok) (auto simp: x_def sif0_ok_def)
  show ?thesis
    using assms k f
    by (auto simp: sif0_WriteIOPtoFifo_def Let_def x_def [symmetric] k_def [symmetric] sif0_ok_def)
qed

text \<open>The padding is the tail of the quadword before the one it completes.\<close>

definition padding :: "nat \<Rightarrow> sifFifo \<Rightarrow> u32 list" where
  "padding n f = map (\<lambda>i. fdata f ! ((writePos f + 124 + i) mod 128)) [0..<n]"

lemma sif0_junk_cases:
  assumes "sif0_ok (sf0 s)" "counter (iop_part (sf0 s)) = 0"
  shows "sif0_ok (sf0 (sif0_junk s))" "writeJunk (iop_part (sf0 (sif0_junk s))) = 0"
    "contents (fifo (sf0 (sif0_junk s))) =
       contents (fifo (sf0 s)) @ padding (nat (writeJunk (iop_part (sf0 s)))) (fifo (sf0 s))"
proof -
  define x where "x = sf0 s"
  define j where "j = nat (writeJunk (iop_part x))"
  have ok: "fifo_ok (fifo x)" "readPos (fifo x) mod 4 = 0" "writeJunk (iop_part x) = int j" "j < 4"
    "(fsize (fifo x) + int j) mod 4 = 0" "counter (iop_part x) = 0"
    using assms by (auto simp: x_def j_def sif0_ok_def)
  have size: "0 \<le> fsize (fifo x)" "fsize (fifo x) \<le> 128" using ok(1) by (auto simp: fifo_ok_def)
  have room: "fsize (fifo x) + int j \<le> 128" using ok(4,5) size by presburger
  consider "j = 0" | "0 < j" by blast
  then have "sif0_ok (sf0 (sif0_junk s)) \<and> writeJunk (iop_part (sf0 (sif0_junk s))) = 0 \<and>
    contents (fifo (sf0 (sif0_junk s))) = contents (fifo x) @ padding j (fifo x)"
  proof cases
    case 1
    with ok assms show ?thesis by (simp add: sif0_junk_def Let_def x_def padding_def)
  next
    case 2
    have wp: "writePos (fifo x) = (readPos (fifo x) + nat (fsize (fifo x))) mod 128"
      using ok(1) by (simp add: fifo_ok_def)
    have "nat (fsize (fifo x)) mod 4 = 4 - j"
    proof -
      obtain n where n: "fsize (fifo x) = int n" using size(1) nonneg_int_cases by blast
      have "(n + j) mod 4 = 0" using ok(5) unfolding n by (metis of_nat_add of_nat_eq_0_iff of_nat_numeral zmod_int)
      then have "n mod 4 = 4 - j" using ok(4) 2 by presburger
      then show ?thesis by (simp add: n)
    qed
    then have "writePos (fifo x) mod 4 = 4 - j"
      unfolding wp by (rule mod4_add [OF ok(2)])
    from fifo_writeJunk_write [OF ok(1) 2 ok(4) this] obtain J where J: "length J = 4"
      and w: "fifo_writeJunk j (fifo x) = (fifo_write (padding j (fifo x)) (fifo x))\<lparr>junk := J\<rparr>"
      unfolding padding_def by blast
    have len: "length (padding j (fifo x)) = j" by (simp add: padding_def)
    have "fifo_ok (fifo_write (padding j (fifo x)) (fifo x))"
      "contents (fifo_write (padding j (fifo x)) (fifo x)) = contents (fifo x) @ padding j (fifo x)"
      using room by (simp_all add: fifo_write_ok fifo_write_contents ok(1) len)
    then have "fifo_ok (fifo_writeJunk j (fifo x))"
      "contents (fifo_writeJunk j (fifo x)) = contents (fifo x) @ padding j (fifo x)"
      "readPos (fifo_writeJunk j (fifo x)) = readPos (fifo x)"
      "fsize (fifo_writeJunk j (fifo x)) = fsize (fifo x) + int j"
      by (simp_all add: w fifo_ok_def contents_def len J)
    with 2 ok room show ?thesis
      by (simp add: sif0_junk_def Let_def x_def [symmetric] space_def FIFO_SIF_W_def sif0_ok_def)
  qed
  then show "sif0_ok (sf0 (sif0_junk s))" "writeJunk (iop_part (sf0 (sif0_junk s))) = 0"
    "contents (fifo (sf0 (sif0_junk s))) =
       contents (fifo (sf0 s)) @ padding (nat (writeJunk (iop_part (sf0 s)))) (fifo (sf0 s))"
    by (simp_all add: x_def j_def)
qed

lemma sif0_junk_ok: "sif0_ok (sf0 s) \<Longrightarrow> sif0_ok (sf0 (sif0_junk s))"
  using sif0_junk_cases(1) [of s] by (cases "counter (iop_part (sf0 s)) = 0") (auto simp: sif0_junk_def Let_def)

lemma sif0_junk_counter [simp]: "counter (iop_part (sf0 (sif0_junk s))) = counter (iop_part (sf0 s))"
  by (simp add: sif0_junk_def Let_def)

lemma sif0_ProcessIOPTag_ok:
  assumes "sif0_ok (sf0 s)" "counter (iop_part (sf0 s)) = 0" "writeJunk (iop_part (sf0 s)) = 0" "0 < space (fifo (sf0 s))"
  shows "sif0_ok (sf0 (sif0_ProcessIOPTag s))"
proof -
  define x where "x = sf0 s"
  have ok: "fifo_ok (fifo x)" "fsize (fifo x) mod 4 = 0" "readPos (fifo x) mod 4 = 0" "fsize (fifo x) < 128"
    using assms by (auto simp: x_def sif0_ok_def space_def FIFO_SIF_W_def)
  have "fsize (fifo x) + 4 \<le> 128" using ok(2,4) by presburger
  then have f: "fifo_ok (fifo_write ws (fifo x))" if "length ws = 4" for ws
    using fifo_write_ok [OF ok(1), of ws] that by simp
  have "(fsize (fifo x) + 4 + c + (if c mod 4 \<noteq> 0 then (4 - c) mod 4 else 0)) mod 4 = 0" for c
    using ok(2) by presburger
  then show ?thesis
    using f ok(3) by (simp add: sif0_ProcessIOPTag_def Let_def x_def [symmetric] sif0_ok_def)
qed

lemma sif0_HandleIOPTransfer_ok:
  assumes "sif0_ok (sf0 s)" "counter (iop_part (sf0 s)) = 0 \<Longrightarrow> writeJunk (iop_part (sf0 s)) = 0"
    "0 < space (fifo (sf0 s)) \<or> iop_end (iop_part (sf0 s)) \<and> counter (iop_part (sf0 s)) = 0"
  shows "sif0_ok (sf0 (sif0_HandleIOPTransfer s))"
proof (cases "counter (iop_part (sf0 s)) = 0")
  case True
  then show ?thesis
    using assms sif0_ProcessIOPTag_ok [OF assms(1)]
    by (auto simp: sif0_HandleIOPTransfer_def sif0_EndIOP_def Let_def sif0_ok_def)
next
  case False
  then show ?thesis
    using assms(1) sif0_WriteIOPtoFifo_ok [OF assms(1)] by (auto simp: sif0_HandleIOPTransfer_def sif0_ok_def)
qed

lemma sif0_HandleEETransfer_ok:
  assumes "sif0_ok (sf0 s)"
  shows "sif0_ok (sf0 (sif0_HandleEETransfer s))"
  using assms
  by (auto simp: sif0_HandleEETransfer_def Let_def sif0_EndEE_def intro!: sif0_WriteFifoToEE_ok sif0_ProcessEETag_ok)

lemma sif0_pass_ok: "sif0_ok (sf0 s) \<Longrightarrow> sif0_ok (sf0 (snd (sif0_pass s)))"
  using sif0_junk_ok [of s] sif0_junk_cases(2) [of s]
  by (auto simp: sif0_pass_def Let_def intro!: sif0_HandleEETransfer_ok sif0_HandleIOPTransfer_ok)

lemma sif0_loop_ok:
  assumes "sif0_loop s = Some t" "sif0_ok (sf0 s)"
  shows "sif0_ok (sf0 t)"
  using assms
proof (induction rule: sif0_loop.raw_induct [rotated, consumes 1, case_names step])
  case (step f s t)
  then show ?case
    using sif0_pass_ok [of s] by (auto split: prod.splits if_splits)
qed

lemma sif0_frame_ok [simp]: "sif0_ok (sf0 (Sif0Init s)) = sif0_ok (sf0 s)" "sf0 (Sif0End s) = sf0 s"
  by (simp_all add: Sif0Init_def Sif0End_def sif0_ok_def)

lemma SIF0Dma_ok: "SIF0Dma s = Some t \<Longrightarrow> sif0_ok (sf0 s) \<Longrightarrow> sif0_ok (sf0 t)"
  using sif0_loop_ok [of "Sif0Init s"] by (auto simp: SIF0Dma_def)

subsection \<open>SIF1 never overflows its FIFO\<close>

text \<open>Tags travel in pairs of words, so the FIFO always holds an even number of words.\<close>

definition sif1_ok :: "sif \<Rightarrow> bool" where
  "sif1_ok x \<longleftrightarrow> fifo_ok (fifo x) \<and> even (fsize (fifo x)) \<and> 0 \<le> counter (iop_part x) \<and> even (counter (iop_part x))"

lemma zero_sif_ok1: "sif1_ok zero_sif"
  by (simp add: sif1_ok_def zero_sif_def fifo_ok_def)

lemma sif1_ok_ee [simp]: "sif1_ok (upd_ee f x) = sif1_ok x"
  by (simp add: sif1_ok_def)

lemma fifo_write_even:
  assumes "sif1_ok x" "even (length ws)" "fsize (fifo x) + int (length ws) \<le> 128"
  shows "sif1_ok (upd_fifo (fifo_write ws) x)"
  using assms fifo_write_ok [of "fifo x" ws] by (simp add: sif1_ok_def)

lemma fifo_read_even:
  assumes "sif1_ok x" "even n" "0 \<le> n" "n \<le> fsize (fifo x)"
  shows "sif1_ok (upd_fifo (\<lambda>_. snd (fifo_read (nat n) (fifo x))) x)"
  using assms fifo_read_ok [of "fifo x" "nat n"] by (simp add: sif1_ok_def)

lemma sif1_WriteEEtoFifo_ok:
  assumes "sif1_ok (sf1 s)"
  shows "sif1_ok (sf1 (sif1_WriteEEtoFifo s))"
proof -
  define k where "k = sif1_writeSize s"
  have "fsize (fifo (sf1 s)) + 4 * k \<le> 128"
    by (simp add: k_def sif1_writeSize_def space_def FIFO_SIF_W_def)
  then have "sif1_ok (upd_fifo (fifo_write ws) (sf1 s))" if "0 < k" "length ws = nat (4 * k)" for ws
    using that by (intro fifo_write_even assms) (auto simp: nat_mult_distrib)
  then show ?thesis
    using getAddr_frame [of DMAC_SIF1 "madr (ch DMAC_SIF1 s)" False s] assms
    by (auto simp: sif1_WriteEEtoFifo_def Let_def k_def [symmetric] split: prod.splits option.splits)
qed

lemma sif1_ProcessEETag_ok:
  assumes "sif1_ok (sf1 s)" "0 < space (fifo (sf1 s))"
  shows "sif1_ok (sf1 (sif1_ProcessEETag s))"
proof -
  have "fsize (fifo (sf1 s)) + 2 \<le> 128"
    using assms by (auto simp: sif1_ok_def space_def FIFO_SIF_W_def)
  then have "sif1_ok (upd_fifo (fifo_write ws) (sf1 s))" if "length ws = 2" for ws
    using that by (intro fifo_write_even assms) auto
  then show ?thesis
    using DMAtransfer_frame [of DMAC_SIF1 "tadr (ch DMAC_SIF1 s)" s] assms
    by (auto simp: sif1_ProcessEETag_def Let_def split: prod.splits option.splits)
qed

lemma sif1_SIFIOPReadTag_ok:
  assumes "sif1_ok (sf1 s)" "4 \<le> fsize (fifo (sf1 s))"
  shows "sif1_ok (sf1 (sif1_SIFIOPReadTag s))"
proof -
  have "even (uint (w AND 0xFFFFC))" for w :: u32
    by (simp add: uint_and even_and_iff)
  then show ?thesis
    using fifo_read_even [OF assms(1), of 4] assms(2)
    by (simp add: sif1_SIFIOPReadTag_def Let_def case_prod_beta upd_fifo_def sif1_ok_def)
qed

lemma sif1_WriteFifoToIOP_ok:
  assumes clr: "\<And>a n d. other (psxCpu_Clear io a n d) = other d" and "sif1_ok (sf1 s)"
  shows "sif1_ok (sf1 (sif1_WriteFifoToIOP io s))"
proof -
  define k where "k = min (counter (iop_part (sf1 s))) (fsize (fifo (sf1 s)))"
  have k: "0 \<le> k" "even k" "k \<le> fsize (fifo (sf1 s))" "k \<le> counter (iop_part (sf1 s))"
    using assms(2) by (auto simp: k_def sif1_ok_def fifo_ok_def min_def)
  show ?thesis
    using fifo_read_even [OF assms(2) k(2,1,3)] k assms
    by (simp add: sif1_WriteFifoToIOP_def Let_def k_def [symmetric] case_prod_beta sif1_ok_def)
qed

lemma sif1_HandleEETransfer_ok:
  assumes "sif1_ok (sf1 s)" "0 < space (fifo (sf1 s)) \<or> ee_end (ee_part (sf1 s)) \<and> qwc (ch DMAC_SIF1 s) = 0"
  shows "sif1_ok (sf1 (sif1_HandleEETransfer s))"
  using assms
  by (auto simp: sif1_HandleEETransfer_def sif1_EndEE_def Let_def set_sif1_stall_def
      intro!: sif1_WriteEEtoFifo_ok sif1_ProcessEETag_ok)

lemma sif1_HandleIOPTransfer_ok:
  assumes clr: "\<And>a n d. other (psxCpu_Clear io a n d) = other d" and ok: "sif1_ok (sf1 s)"
  shows "sif1_ok (sf1 (sif1_HandleIOPTransfer io s))"
proof -
  have E: "sif1_ok (sf1 (sif1_EndIOP t))" if "sif1_ok (sf1 t)" for t
    using that by (simp add: sif1_EndIOP_def Let_def sif1_ok_def)
  show ?thesis
    using ok sif1_WriteFifoToIOP_ok [OF assms]
    by (auto simp: sif1_HandleIOPTransfer_def Let_def intro!: E sif1_SIFIOPReadTag_ok)
qed

lemma sif1_pass_ok:
  assumes clr: "\<And>a n d. other (psxCpu_Clear io a n d) = other d" and ok: "sif1_ok (sf1 s)"
  shows "sif1_ok (sf1 (snd (sif1_pass io s)))"
  using ok by (auto simp: sif1_pass_def Let_def intro!: sif1_HandleEETransfer_ok sif1_HandleIOPTransfer_ok clr)

lemma sif1_loop_ok:
  assumes "sif1_loop io s = Some t" "\<And>a n d. other (psxCpu_Clear io a n d) = other d" "sif1_ok (sf1 s)"
  shows "sif1_ok (sf1 t)"
  using assms
proof (induction rule: sif1_loop.raw_induct [rotated, consumes 1, case_names step])
  case (step f io s t)
  then show ?case
    using sif1_pass_ok [of io s] by (auto split: prod.splits if_splits)
qed

lemma sif1_frame_ok [simp]:
  "sif1_ok (sf1 (Sif1Init s)) = sif1_ok (sf1 s)" "sf1 (Sif1End s) = sf1 s" "sf1 (set_sif1_stall b s) = sf1 s"
  by (simp_all add: Sif1Init_def Sif1End_def sif1_ok_def set_sif1_stall_def)

lemma SIF1Dma_ok:
  assumes "SIF1Dma io s = Some t" "\<And>a n d. other (psxCpu_Clear io a n d) = other d" "sif1_ok (sf1 s)"
  shows "sif1_ok (sf1 t)"
  using assms sif1_loop_ok [of io "Sif1Init (set_sif1_stall False s)"]
  by (auto simp: SIF1Dma_def split: if_splits)

subsection \<open>The two channels side by side\<close>

lemma sif0_getAddr [simp]:
  "sf0 (snd (getAddr n a w s)) = sf0 s" "sf1 (snd (getAddr n a w s)) = sf1 s"
  by (simp_all add: getAddr_frame)

lemma sif0_WriteFifoToEE_sf1: "sf1 (sif0_WriteFifoToEE s) = sf1 s"
proof (cases "getAddr DMAC_SIF0 (madr (ch DMAC_SIF0 s)) True s")
  case (Pair p t)
  then have "sf1 t = sf1 s" using sif0_getAddr(2) [of DMAC_SIF0 "madr (ch DMAC_SIF0 s)" True s] by simp
  with Pair show ?thesis
    by (cases p) (simp_all add: sif0_WriteFifoToEE_def Let_def sif0_stadr_def case_prod_beta)
qed

lemma sif0_handlers_sf1:
  "sf1 (sif0_junk s) = sf1 s" "sf1 (sif0_EndIOP s) = sf1 s" "sf1 (sif0_ProcessIOPTag s) = sf1 s"
  "sf1 (sif0_WriteIOPtoFifo s) = sf1 s" "sf1 (sif0_EndEE s) = sf1 s" "sf1 (sif0_ProcessEETag s) = sf1 s"
  by (simp_all add: sif0_junk_def sif0_EndIOP_def sif0_ProcessIOPTag_def sif0_WriteIOPtoFifo_def sif0_EndEE_def
      sif0_ProcessEETag_def Let_def case_prod_beta)

lemma sif0_HandleEETransfer_sf1: "sf1 (sif0_HandleEETransfer s) = sf1 s"
  by (simp add: sif0_HandleEETransfer_def Let_def sif0_handlers_sf1 sif0_WriteFifoToEE_sf1)

lemma sif0_HandleIOPTransfer_sf1: "sf1 (sif0_HandleIOPTransfer s) = sf1 s"
  by (simp add: sif0_HandleIOPTransfer_def sif0_handlers_sf1)

lemma sif0_pass_sf1: "sf1 (snd (sif0_pass s)) = sf1 s"
  unfolding sif0_pass_def Let_def snd_conv
  by (simp only: sif0_handlers_sf1 sif0_HandleEETransfer_sf1 sif0_HandleIOPTransfer_sf1 if_distrib [of sf1] if_cancel)

lemma sif1_HandleEETransfer_sf0: "sf0 (sif1_HandleEETransfer s) = sf0 s"
proof -
  have "sf0 (sif1_WriteEEtoFifo s) = sf0 s"
    using getAddr_frame(1) [of DMAC_SIF1 "madr (ch DMAC_SIF1 s)" False s]
    by (auto simp: sif1_WriteEEtoFifo_def Let_def split: prod.split option.split)
  moreover have "sf0 (sif1_ProcessEETag s) = sf0 s"
    using DMAtransfer_frame [of DMAC_SIF1 "tadr (ch DMAC_SIF1 s)" s]
    by (auto simp: sif1_ProcessEETag_def Let_def split: prod.split option.split)
  ultimately show ?thesis
    by (simp add: sif1_HandleEETransfer_def sif1_EndEE_def set_sif1_stall_def Let_def)
qed

lemma sif1_handlers_sf0:
  "sf0 (sif1_EndIOP s) = sf0 s" "sf0 (sif1_SIFIOPReadTag s) = sf0 s"
  by (simp_all add: sif1_EndIOP_def sif1_SIFIOPReadTag_def Let_def case_prod_beta)

lemma sif1_HandleIOPTransfer_sf0:
  assumes "\<And>a n d. other (psxCpu_Clear io a n d) = other d"
  shows "sf0 (sif1_HandleIOPTransfer io s) = sf0 s"
proof -
  have "sf0 (sif1_WriteFifoToIOP io s) = sf0 s"
    using assms by (simp add: sif1_WriteFifoToIOP_def Let_def case_prod_beta)
  then show ?thesis
    by (simp add: sif1_HandleIOPTransfer_def Let_def sif1_handlers_sf0)
qed

lemma sif1_pass_sf0:
  assumes "\<And>a n d. other (psxCpu_Clear io a n d) = other d"
  shows "sf0 (snd (sif1_pass io s)) = sf0 s"
  unfolding sif1_pass_def Let_def snd_conv
  by (simp only: sif1_HandleIOPTransfer_sf0 [OF assms] sif1_HandleEETransfer_sf0 if_distrib [of sf0] if_cancel)

lemma sif0_loop_sf1:
  assumes "sif0_loop s = Some t"
  shows "sf1 t = sf1 s"
  using assms
proof (induction rule: sif0_loop.raw_induct [rotated, consumes 1, case_names step])
  case (step f s t)
  then show ?case using sif0_pass_sf1 [of s] by (auto split: prod.splits if_splits)
qed

lemma sif1_loop_sf0:
  assumes "sif1_loop io s = Some t" "\<And>a n d. other (psxCpu_Clear io a n d) = other d"
  shows "sf0 t = sf0 s"
  using assms
proof (induction rule: sif1_loop.raw_induct [rotated, consumes 1, case_names step])
  case (step f io s t)
  then show ?case using sif1_pass_sf0 [of io s] by (auto split: prod.splits if_splits)
qed

lemma SIF0Dma_sf1: "SIF0Dma s = Some t \<Longrightarrow> sf1 t = sf1 s"
  using sif0_loop_sf1 [of "Sif0Init s"] by (auto simp: SIF0Dma_def Sif0End_def Sif0Init_def)

lemma SIF1Dma_sf0:
  assumes "SIF1Dma io s = Some t" "\<And>a n d. other (psxCpu_Clear io a n d) = other d"
  shows "sf0 t = sf0 s"
  using assms sif1_loop_sf0 [of io "Sif1Init (set_sif1_stall False s)"]
  by (auto simp: SIF1Dma_def Sif1End_def Sif1Init_def set_sif1_stall_def split: if_splits)

text \<open>What happens to the channels: they are reset, started by either processor, their interrupts are
  delivered, and the remainder of the machine does anything that leaves the SIF structures alone,
  such as writing registers and memory.\<close>

inductive sif_step :: "sifs dma iop_io \<Rightarrow> smachine \<Rightarrow> smachine \<Rightarrow> bool" for io where
  reset: "sif_step io s (sifReset s)"
| ee0: "dmaSIF0 s = Some t \<Longrightarrow> sif_step io s t"
| iop0: "psxDma9 s = Some t \<Longrightarrow> sif_step io s t"
| ee1: "dmaSIF1 io s = Some t \<Longrightarrow> sif_step io s t"
| iop1: "psxDma10 io s = Some t \<Longrightarrow> sif_step io s t"
| int0: "sif_step io s (sif0Interrupt s)"
| ee_int0: "sif_step io s (EEsif0Interrupt s)"
| int1: "sif_step io s (sif1Interrupt s)"
| ee_int1: "sif_step io s (EEsif1Interrupt s)"
| elsewhere: "other (idev t) = other (idev s) \<Longrightarrow> sif_step io s t"

lemma sif_step_ok:
  assumes "sif_step io s t" "\<And>a n d. other (psxCpu_Clear io a n d) = other d" "sif0_ok (sf0 s)" "sif1_ok (sf1 s)"
  shows "sif0_ok (sf0 t) \<and> sif1_ok (sf1 t)"
  using assms(1)
proof cases
  case reset
  then show ?thesis by (simp add: sifReset_def zero_sif_ok zero_sif_ok1)
next
  case ee0
  with assms show ?thesis
    using SIF0Dma_ok SIF0Dma_sf1 by (fastforce simp: dmaSIF0_def)
next
  case iop0
  then have "sif0_ok (sf0 t)" using assms(3) SIF0Dma_ok [OF iop0 [unfolded psxDma9_def]] by (simp add: sif0_ok_def)
  with iop0 show ?thesis using assms(4) SIF0Dma_sf1 [OF iop0 [unfolded psxDma9_def]] by simp
next
  case ee1
  then obtain u where u: "SIF1Dma io u = Some t" "sf0 u = sf0 s" "sif1_ok (sf1 u)"
    using assms(4) by (auto simp: dmaSIF1_def Let_def split: if_splits)
  with assms show ?thesis using SIF1Dma_ok [OF u(1) assms(2)] SIF1Dma_sf0 [OF u(1) assms(2)] by simp
next
  case iop1
  then have "sif1_ok (sf1 t)"
    using assms(4) SIF1Dma_ok [OF iop1 [unfolded psxDma10_def] assms(2)] by (simp add: sif1_ok_def)
  with iop1 show ?thesis using assms(3) SIF1Dma_sf0 [OF iop1 [unfolded psxDma10_def] assms(2)] by simp
qed (use assms in \<open>simp_all add: sif0Interrupt_def EEsif0Interrupt_def sif1Interrupt_def EEsif1Interrupt_def\<close>)

lemma sif_reach_ok:
  assumes "(sif_step io)\<^sup>*\<^sup>* s t" "\<And>a n d. other (psxCpu_Clear io a n d) = other d" "sif0_ok (sf0 s)" "sif1_ok (sf1 s)"
  shows "sif0_ok (sf0 t) \<and> sif1_ok (sf1 t)"
  using assms by (induction rule: rtranclp_induct) (auto dest: sif_step_ok)

text \<open>C30: the SIF FIFOs are safe. From a reset on, whatever the two processors start, whatever tags and
  counts they find in memory and whatever the other devices do, neither FIFO ever holds more than its
  128 words, is read beyond what it holds, or gets its positions out of step, although
  \<open>ProcessIOPTag\<close> writes four words and the tag transfer of SIF1 two after testing for one free
  word only; and when a packet of SIF0 is complete, the pass that follows appends the padding that fills
  its last quadword, taken from the quadword before it, so that the FIFO holds whole quadwords again.
  The recompiler's \<open>Clear\<close> is assumed to keep the SIF structures.\<close>
theorem sif_fifos_safe:
  assumes "\<And>a n d. other (psxCpu_Clear io a n d) = other d" "(sif_step io)\<^sup>*\<^sup>* (sifReset s) t"
  shows "fifo_ok (fifo (sf0 t)) \<and> fifo_ok (fifo (sf1 t)) \<and>
    (counter (iop_part (sf0 t)) = 0 \<longrightarrow>
       contents (fifo (sf0 (sif0_junk t))) =
         contents (fifo (sf0 t)) @ padding (nat (writeJunk (iop_part (sf0 t)))) (fifo (sf0 t)) \<and>
       length (contents (fifo (sf0 (sif0_junk t)))) mod 4 = 0)"
proof -
  have ok: "sif0_ok (sf0 t)" "sif1_ok (sf1 t)"
    using sif_reach_ok [OF assms(2,1)] by (simp_all add: sifReset_def zero_sif_ok zero_sif_ok1)
  show ?thesis
  proof (intro conjI impI)
    assume c: "counter (iop_part (sf0 t)) = 0"
    note J = sif0_junk_cases [OF ok(1) c]
    show "contents (fifo (sf0 (sif0_junk t))) =
        contents (fifo (sf0 t)) @ padding (nat (writeJunk (iop_part (sf0 t)))) (fifo (sf0 t))"
      by (rule J(3))
    have "fsize (fifo (sf0 (sif0_junk t))) mod 4 = 0" using J(1,2) c by (simp add: sif0_ok_def)
    then obtain k where "fsize (fifo (sf0 (sif0_junk t))) = 4 * k" by auto
    then show "length (contents (fifo (sf0 (sif0_junk t)))) mod 4 = 0" by (simp add: nat_mult_distrib)
  qed (use ok in \<open>simp_all add: sif0_ok_def sif1_ok_def\<close>)
qed

subsection \<open>A tag transfer that never ends\<close>

lemma peek_frame [simp]:
  "peek p (upd_dma f s) = peek p s" "peek p (upd_chan n g s) = peek p s" "peek p (upd_sif1 h u) = peek p u"
  "peek p (set_sif1_stall b u) = peek p u" "peek p (Sif1Init u) = peek p u"
  by (simp_all add: peek_def upd_dma_def upd_chan_def upd_sif1_def upd_other_def set_sif1_stall_def Sif1Init_def)

lemma dmaGetAddr_frame [simp]:
  "dmaGetAddr a w (upd_chan n g s) = dmaGetAddr a w s" "dmaGetAddr a w (upd_sif1 h u) = dmaGetAddr a w u"
  "dmaGetAddr a w (set_sif1_stall b u) = dmaGetAddr a w u" "dmaGetAddr a w (Sif1Init u) = dmaGetAddr a w u"
  by (simp_all add: dmaGetAddr_def Let_def upd_chan_def upd_dma_def upd_sif1_def upd_other_def set_sif1_stall_def Sif1Init_def)

text \<open>With one to three words of room and quadwords left to send, a pass moves nothing; when the IOP does
  not read either, every further pass is the same.\<close>

definition sif1_stuck :: "smachine \<Rightarrow> bool" where
  "sif1_stuck s \<longleftrightarrow> ee_busy (ee_part (sf1 s)) \<and> \<not> sif1_dma_stall (other (idev s)) \<and> chcr_STR (chcr (ch 6 s)) \<and>
     0 < sint (qwc (ch 6 s)) \<and> ctrl_STD (dregs s) \<noteq> STD_SIF1 \<and> 0 < space (fifo (sf1 s)) \<and> space (fifo (sf1 s)) < 4 \<and>
     dmaGetAddr (madr (ch 6 s)) False s \<noteq> None \<and> \<not> iop_busy (iop_part (sf1 s))"

lemma hwDmacSrcTadrInc_frame [simp]:
  "chcr (hwDmacSrcTadrInc c) = chcr c" "madr (hwDmacSrcTadrInc c) = madr c" "qwc (hwDmacSrcTadrInc c) = qwc c"
  by (simp_all add: hwDmacSrcTadrInc_def)

lemma sif1_stuck_pass:
  assumes "sif1_stuck s"
  shows "fst (sif1_pass io s)" "sif1_stuck (snd (sif1_pass io s))"
proof -
  have k: "sif1_writeSize s = 0" "qwc (ch 6 s) \<noteq> 0"
    using assms by (auto simp: sif1_writeSize_def sif1_stuck_def)
  obtain p where p: "getAddr 6 (madr (ch 6 s)) False s = (Some p, s)"
    using assms by (auto simp: sif1_stuck_def getAddr_def)
  have H: "sif1_HandleEETransfer s = sif1_WriteEEtoFifo s"
    using assms k by (simp add: sif1_HandleEETransfer_def sif1_stuck_def sif1_stalls_def)
  show "fst (sif1_pass io s)" "sif1_stuck (snd (sif1_pass io s))"
    using assms
    by (auto simp: sif1_pass_def Let_def H sif1_WriteEEtoFifo_def k p sif1_stuck_def)
qed

lemma sif1_stuck_loop:
  assumes "sif1_stuck s"
  shows "sif1_loop io s = None"
proof (rule ccontr)
  assume "sif1_loop io s \<noteq> None"
  then obtain t where "sif1_loop io s = Some t" by auto
  then have "\<not> sif1_stuck s"
  proof (induction rule: sif1_loop.raw_induct [rotated, consumes 1, case_names step])
    case (step f io s t)
    then show ?case using sif1_stuck_pass [of s io] by (auto split: prod.splits if_splits)
  qed
  with assms show False by simp
qed

lemma set_TAG_fields [simp]:
  "chcr_STR (set_TAG v c) = chcr_STR c" "chcr_TTE (set_TAG v c) = chcr_TTE c" "chcr_TIE (set_TAG v c) = chcr_TIE c"
  by (simp_all add: set_TAG_def chcr_STR_def chcr_TTE_def chcr_TIE_def bit_simps)

lemma sif1_loop_pass:
  assumes "fst (sif1_pass io s)"
  shows "sif1_loop io s = sif1_loop io (snd (sif1_pass io s))"
  using assms by (subst sif1_loop.simps) (simp add: case_prod_beta)

lemma sif1_tag_pass:
  assumes "ee_busy (ee_part (sf1 s))" "\<not> ee_end (ee_part (sf1 s))" "\<not> sif1_dma_stall (other (idev s))"
    "chcr_STR (chcr (ch 6 s))" "chcr_MOD (chcr (ch 6 s)) = CHAIN_MODE" "chcr_TTE (chcr (ch 6 s))" "qwc (ch 6 s) = 0"
    "fsize (fifo (sf1 s)) = 0" "\<not> iop_busy (iop_part (sf1 s))"
    "dmaGetAddr (tadr (ch 6 s)) False s = Some p" "tag_ID (peek p s) = TAG_REF"
  shows "fst (sif1_pass io s) \<and>
    (let t = snd (sif1_pass io s) in
       ee_busy (ee_part (sf1 t)) \<and> sif1_dma_stall (other (idev t)) = sif1_dma_stall (other (idev s)) \<and>
       chcr_STR (chcr (ch 6 t)) \<and> qwc (ch 6 t) = tag_QWC (peek p s) \<and> madr (ch 6 t) = peek (p + 4) s \<and>
       dregs t = dregs s \<and> fsize (fifo (sf1 t)) = 2 \<and> \<not> iop_busy (iop_part (sf1 t)) \<and>
       (\<forall>a. dmaGetAddr a False t = dmaGetAddr a False s))"
proof -
  have T: "DMAtransfer 6 (tadr (ch 6 s)) s = (Some p, upd_chan 6 (unsafeTransfer (peek p s)) s)"
    using assms by (simp add: DMAtransfer_def getAddr_def)
  have H: "sif1_HandleEETransfer s = sif1_ProcessEETag s"
    using assms by (simp add: sif1_HandleEETransfer_def)
  show ?thesis
    using assms
    by (simp add: sif1_pass_def Let_def H sif1_ProcessEETag_def T unsafeTransfer_def hwDmacSrcChain_def space_def FIFO_SIF_W_def)
qed

lemma sint_qwc:
  fixes x :: u32
  assumes "x \<le> 0x10000"
  shows "sint x = uint x"
proof -
  have "signed_take_bit 31 i = i" if "0 \<le> i" "i \<le> 0x10000" for i :: int
    using that by (intro signed_take_bit_int_eq_self) simp_all
  from this [of "uint x"] have "signed_take_bit 31 (uint x) = uint x"
    using assms by (simp add: word_le_def)
  then show ?thesis by (simp add: sint_uint)
qed

lemma sif1_fill_pass:
  assumes "ee_busy (ee_part (sf1 s))" "\<not> sif1_dma_stall (other (idev s))"
    "chcr_STR (chcr (ch 6 s))" "32 \<le> qwc (ch 6 s)" "qwc (ch 6 s) \<le> 0x10000" "ctrl_STD (dregs s) \<noteq> STD_SIF1"
    "fsize (fifo (sf1 s)) = 2" "\<not> iop_busy (iop_part (sf1 s))"
    "dmaGetAddr (madr (ch 6 s)) False s \<noteq> None" "dmaGetAddr (madr (ch 6 s) + 0x1f0) False s \<noteq> None"
  shows "fst (sif1_pass io s) \<and> sif1_stuck (snd (sif1_pass io s))"
proof -
  have u: "32 \<le> uint (qwc (ch 6 s))" "uint (qwc (ch 6 s)) \<le> 0x10000"
    using assms(4,5) by (simp_all add: word_le_def)
  have d: "uint (qwc (ch 6 s) - 31) = uint (qwc (ch 6 s)) - 31"
    using u by (subst uint_sub_if') (simp add: word_le_def)
  have q: "0 < sint (qwc (ch 6 s) - 31)"
    using u d by (subst sint_qwc) (simp_all add: word_le_def)
  have k: "sif1_writeSize s = 31" "qwc (ch 6 s) \<noteq> 0"
    using assms u by (auto simp: sif1_writeSize_def space_def FIFO_SIF_W_def sint_qwc)
  obtain p where G: "getAddr 6 (madr (ch 6 s)) False s = (Some p, s)"
    using assms by (auto simp: getAddr_def)
  have H: "sif1_HandleEETransfer s = sif1_WriteEEtoFifo s"
    using assms k by (simp add: sif1_HandleEETransfer_def sif1_stalls_def space_def FIFO_SIF_W_def)
  show ?thesis
    using assms q
    by (simp add: sif1_pass_def Let_def H sif1_WriteEEtoFifo_def k G sif1_stuck_def space_def FIFO_SIF_W_def)
qed

text \<open>C31: SIF1 hangs on a long packet with tag transfer. When the Emotion Engine starts SIF1 in chain mode
  with \<open>TTE\<close> set and \<open>QWC\<close> zero, its FIFO is empty, the IOP has not started its side, the stall control does not
  drain to SIF1, and the first tag, in mapped memory, is a \<open>REF\<close> to mapped memory with 32 quadwords or more, \<open>SIF1Dma\<close> never returns: the two tag words and 31 quadwords leave two words
  of room, the loop sees room and counts itself busy, and no quadword fits.\<close>
theorem sif1_tag_transfer_hangs:
  assumes "ee_busy (ee_part (sf1 s))" "\<not> ee_end (ee_part (sf1 s))" "\<not> sif1_dma_stall (other (idev s))"
    "chcr_STR (chcr (ch 6 s))" "chcr_MOD (chcr (ch 6 s)) = CHAIN_MODE" "chcr_TTE (chcr (ch 6 s))" "qwc (ch 6 s) = 0"
    "fsize (fifo (sf1 s)) = 0" "\<not> iop_busy (iop_part (sf1 s))" "ctrl_STD (dregs s) \<noteq> STD_SIF1"
    "dmaGetAddr (tadr (ch 6 s)) False s = Some p" "tag_ID (peek p s) = TAG_REF" "32 \<le> tag_QWC (peek p s)"
    "dmaGetAddr (peek (p + 4) s) False s \<noteq> None" "dmaGetAddr (peek (p + 4) s + 0x1f0) False s \<noteq> None"
  shows "SIF1Dma io s = None"
proof -
  define u where "u = Sif1Init (set_sif1_stall False s)"
  have u: "sf1 u = upd_ee (\<lambda>e. e\<lparr>ee_cycles := 0\<rparr>) (upd_iop (\<lambda>i. i\<lparr>iop_cycles := 0\<rparr>) (sf1 s))"
    "\<not> sif1_dma_stall (other (idev u))" "chan (idev u) = chan (idev s)" "dregs u = dregs s"
    "\<And>a. dmaGetAddr a False u = dmaGetAddr a False s" "\<And>q. (peek q u :: u32) = peek q s"
    by (simp_all add: u_def) (simp_all add: Sif1Init_def set_sif1_stall_def)
  define v where "v = snd (sif1_pass io u)"
  have v: "fst (sif1_pass io u)" "ee_busy (ee_part (sf1 v))" "\<not> sif1_dma_stall (other (idev v))"
    "chcr_STR (chcr (ch 6 v))" "qwc (ch 6 v) = tag_QWC (peek p s)" "madr (ch 6 v) = peek (p + 4) s"
    "dregs v = dregs s" "fsize (fifo (sf1 v)) = 2" "\<not> iop_busy (iop_part (sf1 v))"
    "\<And>a. dmaGetAddr a False v = dmaGetAddr a False s"
    using sif1_tag_pass [of u p io] assms u by (simp_all add: v_def Let_def)
  have "tag_QWC (peek p s) \<le> 0xffff" by (simp add: tag_QWC_def word_and_le1)
  then have "tag_QWC (peek p s) \<le> 0x10000" by (rule order_trans) simp
  then have "fst (sif1_pass io v) \<and> sif1_stuck (snd (sif1_pass io v))"
    using v assms by (intro sif1_fill_pass) auto
  then have "sif1_loop io u = None"
    using sif1_loop_pass [OF v(1)] sif1_loop_pass [of io v] sif1_stuck_loop v_def by metis
  then show ?thesis
    using assms by (simp add: SIF1Dma_def u_def)
qed

text \<open>A machine with main memory of the Emotion Engine at 0x10000000, in which channel 6 is started on the tag
  at address 0: a \<open>REF\<close> to address 0 with 32 quadwords.\<close>

definition blank_machine :: "(nat \<Rightarrow> DMACh) \<Rightarrow> sif \<Rightarrow> smachine" where
  "blank_machine cs x =
     \<lparr>psx = psxReset, ee_regs = cpuReset, psxMemWLUT = (\<lambda>pg. 0), psxMemRLUT = (\<lambda>pg. 0),
      ihost = store_le 0x10000000 (0x30000020 :: u32) (\<lambda>p. 0),
      ilayout = \<lparr>iMain = 0x1000000, iP = 0x1200000, iSif = 0x1210000, iHw = 0x1220000, iROM = 0x1400000, iROM1 = 0x1800000,
        iROM2 = 0x1C00000, eeHw = 0x1D00000\<rparr>,
      iopIsDelaySlot = False, ibranch2 = False, branchPC = 0, iopEventAction = False, iopEventTestIsActive = False,
      eeEventTestIsActive = False, psxNextStartCounter = 0, psxNextDeltaCounter = 1000, CurrentIRX_length = 0,
      idev = \<lparr>chan = cs,
        dmacRegs = \<lparr>ctrl = 1, stat = 0, pcr = 0, sqwc = 0, rbsr = 0, rbor = 0, stadr = 0, enabler = 0x1201, enablew = 0x1201,
          intc_stat = 0, intc_mask = 0\<rparr>,
        QueuedDMA = 0, hw_dma = (\<lambda>n. \<lparr>imadr = 0, ibcr = 0, ichcr = 0, itadr = 0\<rparr>), scan = INT_NOT_RUNNING, GameStarted = True,
        INSTANTDMAHACK = False, EETIMINGHACK = False,
        eelayout = \<lparr>eeMem_Main = 0x10000000, eeMem_ZeroRead = 0x12000000, eeMem_Scratch = 0x12400000,
          iopMem_Main = 0x14000000, iopMem_P = 0x14200000, VUMem_start = 0x18000000, VUMem_end = 0x1800A000\<rparr>,
        ZeroWrite = 0x13000000, other = \<lparr>sif0 = zero_sif, sif1 = x, sif1_dma_stall = False\<rparr>\<rparr>\<rparr>"

definition idle_DMACh :: DMACh where
  "idle_DMACh = \<lparr>chcr = 0, madr = 0, qwc = 0, tadr = 0, asr0 = 0, asr1 = 0, sadr = 0\<rparr>"

definition blank_sio :: "sifs dma iop_io" where
  "blank_sio = \<lparr>hw_read = (\<lambda>n a s. (0, s)), hw_write = (\<lambda>n a v s. s), psxHw4Read8 = (\<lambda>a s. (0, s)),
     psxHw4Write8 = (\<lambda>a v s. s), DEV9read = (\<lambda>n a s. (0, s)), DEV9write = (\<lambda>n a v s. s), SPU2read = (\<lambda>a s. (0, s)),
     SPU2write = (\<lambda>a v s. s), psxCpu_Clear = (\<lambda>a n d. d)\<rparr>"

theorem sif_fifos_safe_witness:
  "fifo_ok (fifo (sf0 (sif0Interrupt (sifReset (blank_machine (\<lambda>n. idle_DMACh) zero_sif)))))"
  using sif_fifos_safe [of blank_sio "blank_machine (\<lambda>n. idle_DMACh) zero_sif"
      "sif0Interrupt (sifReset (blank_machine (\<lambda>n. idle_DMACh) zero_sif))"]
  by (simp add: blank_sio_def r_into_rtranclp sif_step.int0)

lemma blank_tag:
  "peek 0x10000000 (blank_machine cs x) = (0x30000020 :: u32)" "peek 0x10000004 (blank_machine cs x) = (0 :: u32)"
  unfolding peek_def blank_machine_def iop.simps by code_simp+

theorem sif1_tag_transfer_hangs_witness:
  "SIF1Dma blank_sio (blank_machine ((\<lambda>n. idle_DMACh)(6 := idle_DMACh\<lparr>chcr := 0x144\<rparr>))
     (upd_ee (\<lambda>e. e\<lparr>ee_busy := True\<rparr>) zero_sif)) = None"
  by (rule sif1_tag_transfer_hangs [where p = "0x10000000"], simp_all add: blank_tag tag_ID_def tag_QWC_def)
    (simp_all add: blank_machine_def idle_DMACh_def zero_sif_def chcr_STR_def chcr_MOD_def chcr_TTE_def ctrl_STD_def
      dmaGetAddr_def Let_def tag_SPR_def)

subsection \<open>Stall control\<close>

lemma TAG_shift: "unat (drop_bit 28 (chcr_TAG c) AND 7) = 0"
proof -
  have "drop_bit 28 (chcr_TAG c) = 0" by (rule bit_word_eqI) (simp add: chcr_TAG_def bit_simps)
  then show ?thesis by simp
qed

text \<open>C32: stall control does not see the tag. The tests on the kind of the current tag shift the 16-bit field
  \<open>TAG\<close> by 28, which always gives 0: SIF1 stalls in normal mode only, never for a \<open>REFS\<close> tag, and whenever a
  transfer of SIF0 is the stall source and ends a packet, the stall address follows it, whatever the
  tag, not only for \<open>CNTS\<close>.\<close>
theorem sif_stall_ignores_tag:
  "(sif1_stalls s \<longrightarrow> chcr_MOD (chcr (ch 6 s)) = NORMAL_MODE) \<and>
   (qwc (ch 5 s) = 0 \<and> ctrl_STS (dregs s) = STS_SIF0 \<longrightarrow>
      stadr_ADDR (dregs (sif0_stadr s)) = madr (ch 5 s) AND 0x7fffffff)"
proof -
  have "((a AND 0x80000000) OR (v AND 0x7fffffff)) AND 0x7fffffff = v AND 0x7fffffff" for a v :: u32
    by (rule bits_32I) (simp add: upt_32 bit_simps)
  then show ?thesis
    by (auto simp: sif1_stalls_def sif0_stadr_def TAG_shift stadr_ADDR_def set_stadr_ADDR_def)
qed

theorem sif_stall_ignores_tag_witness:
  "stadr_ADDR (dregs (sif0_stadr (upd_regs (\<lambda>d. d\<lparr>ctrl := 0x11\<rparr>) (blank_machine
     ((\<lambda>n. idle_DMACh)(5 := idle_DMACh\<lparr>chcr := 0x10000104, madr := 0x1230\<rparr>)) zero_sif)))) = 0x1230"
  using sif_stall_ignores_tag [of "upd_regs (\<lambda>d. d\<lparr>ctrl := 0x11\<rparr>) (blank_machine
     ((\<lambda>n. idle_DMACh)(5 := idle_DMACh\<lparr>chcr := 0x10000104, madr := 0x1230\<rparr>)) zero_sif)"]
  by (simp add: blank_machine_def idle_DMACh_def ctrl_STS_def)

end
