(* ===== verification/EE_Cache.thy ===== *)
theory EE_Cache
  imports EE_LoadStore
begin

text \<open>
  The data cache of the Emotion Engine, src/pcsx2/Cache.cpp: 64 sets of two ways with lines of 64 bytes, tagged with
  host addresses. A state with a cache is a state of the Emotion Engine whose device part holds the lines.
  None is an access to a way that does not exist, which the code does not exclude.
\<close>

subsection \<open>Lines\<close>

record CacheLine =
  rawValue :: u64
  bytes :: "6 word \<Rightarrow> u8"

record 'd cached =
  lines :: "6 word \<Rightarrow> nat \<Rightarrow> CacheLine"
  uncached :: 'd

type_synonym 'd cached_ee = "'d cached ee"

definition DIRTY_FLAG :: u64 where "DIRTY_FLAG = 0x40"
definition VALID_FLAG :: u64 where "VALID_FLAG = 0x20"
definition LRF_FLAG :: u64 where "LRF_FLAG = 0x10"
definition ALL_FLAGS :: u64 where "ALL_FLAGS = 0xFFF"

abbreviation line :: "6 word \<Rightarrow> nat \<Rightarrow> 'd cached_ee \<Rightarrow> CacheLine" where
  "line idx way s \<equiv> lines (dev s) idx way"

definition upd_line :: "6 word \<Rightarrow> nat \<Rightarrow> (CacheLine \<Rightarrow> CacheLine) \<Rightarrow> 'd cached_ee \<Rightarrow> 'd cached_ee" where
  "upd_line idx way f s =
     s\<lparr>dev := (dev s)\<lparr>lines := (lines (dev s))(idx := (lines (dev s) idx)(way := f (line idx way s)))\<rparr>\<rparr>"

text \<open>\<open>CacheLine::writeBackIfNeeded\<close> and \<open>CacheLine::load\<close>.\<close>

definition writeBackIfNeeded :: "6 word \<Rightarrow> nat \<Rightarrow> 'd cached_ee \<Rightarrow> 'd cached_ee" where
  "writeBackIfNeeded idx way s =
     (let l = line idx way s in
      if (rawValue l AND (DIRTY_FLAG OR VALID_FLAG)) \<noteq> (DIRTY_FLAG OR VALID_FLAG) then s
      else
        let target = (rawValue l AND NOT ALL_FLAGS) OR push_bit 6 (ucast idx)
        in upd_line idx way (\<lambda>l. l\<lparr>rawValue := rawValue l AND NOT DIRTY_FLAG\<rparr>)
             (s\<lparr>host := (\<lambda>p. if unat (p - target) < 64 then bytes l (ucast (p - target)) else host s p)\<rparr>))"

definition load_line :: "u64 \<Rightarrow> (u64 \<Rightarrow> u8) \<Rightarrow> CacheLine \<Rightarrow> CacheLine" where
  "load_line ppf m l =
     (let t1 = rawValue l AND ALL_FLAGS;
          t2 = t1 OR (ppf AND NOT ALL_FLAGS);
          t3 = t2 OR VALID_FLAG
      in \<lparr>rawValue = t3 AND NOT DIRTY_FLAG, bytes = (\<lambda>i. m ((ppf AND NOT 0x3F) + ucast i))\<rparr>)"

subsection \<open>Lookup\<close>

definition check_way :: "6 word \<Rightarrow> u64 \<Rightarrow> nat \<Rightarrow> 'd cached_ee \<Rightarrow> bool" where
  "check_way idx ppf way s \<longleftrightarrow>
     \<not> ((rawValue (line idx way s) AND VALID_FLAG) = 0 \<and>
        (rawValue (line idx way s) AND NOT ALL_FLAGS) = (ppf AND NOT ALL_FLAGS))"

definition findInCache :: "6 word \<Rightarrow> u64 \<Rightarrow> 'd cached_ee \<Rightarrow> nat option" where
  "findInCache idx ppf s =
     (if check_way idx ppf 0 s then Some 0 else if check_way idx ppf 1 s then Some 1 else None)"

definition cache_index :: "u32 \<Rightarrow> 6 word" where "cache_index mem = ucast (drop_bit 6 mem)"

definition cache_ppf :: "u32 \<Rightarrow> 'd ee \<Rightarrow> u64" where
  "cache_ppf mem s = vtlb_virt_ptr (vmap s (page_of mem)) mem"

definition getFreeCache :: "u32 \<Rightarrow> 'd cached_ee \<Rightarrow> (nat \<times> 'd cached_ee) option" where
  "getFreeCache mem s =
     (let idx = cache_index mem; ppf = cache_ppf mem s in
      case findInCache idx ppf s of
        Some way \<Rightarrow> Some (way, s)
      | None \<Rightarrow>
          let newWay = unat ((rawValue (line idx 0 s) AND LRF_FLAG) XOR (rawValue (line idx 1 s) AND LRF_FLAG)) in
          if newWay \<ge> 2 then None
          else
            let s1 = writeBackIfNeeded idx newWay s;
                s2 = upd_line idx newWay (load_line ppf (host s1)) s1
            in Some (newWay, upd_line idx newWay (\<lambda>l. l\<lparr>rawValue := rawValue l XOR LRF_FLAG\<rparr>) s2))"

subsection \<open>Accesses\<close>

text \<open>Accesses of \<open>LENGTH('a) div 8\<close> bytes, at the aligned offset in the line.\<close>

definition line_offset :: "'a::len itself \<Rightarrow> u32 \<Rightarrow> u64" where
  "line_offset TYPE('a) mem = ucast ((mem AND NOT (of_nat (LENGTH('a) div 8) - 1)) AND 0x3f)"

definition line_read :: "u64 \<Rightarrow> CacheLine \<Rightarrow> 'a::len word" where
  "line_read off l = load_le (\<lambda>p. bytes l (ucast p)) off"

definition line_write :: "u64 \<Rightarrow> 'a::len word \<Rightarrow> CacheLine \<Rightarrow> CacheLine" where
  "line_write off v l = l\<lparr>bytes := (\<lambda>i. store_le off v (\<lambda>p. bytes l (ucast p)) (ucast i))\<rparr>"

definition read_cache :: "u32 \<Rightarrow> 'd cached_ee \<Rightarrow> ('a::len word \<times> 'd cached_ee) option" where
  "read_cache mem s =
     (case getFreeCache mem s of
        None \<Rightarrow> None
      | Some (way, s1) \<Rightarrow> Some (line_read (line_offset TYPE('a) mem) (line (cache_index mem) way s1), s1))"

definition write_cache :: "u32 \<Rightarrow> 'a::len word \<Rightarrow> 'd cached_ee \<Rightarrow> 'd cached_ee option" where
  "write_cache mem v s =
     (case getFreeCache mem s of
        None \<Rightarrow> None
      | Some (way, s1) \<Rightarrow>
          Some (upd_line (cache_index mem) way (line_write (line_offset TYPE('a) mem) v)
            (upd_line (cache_index mem) way (\<lambda>l. l\<lparr>rawValue := rawValue l OR DIRTY_FLAG\<rparr>) s1)))"

definition readCache8 :: "u32 \<Rightarrow> 'd cached_ee \<Rightarrow> (u8 \<times> 'd cached_ee) option" where "readCache8 = read_cache"
definition readCache16 :: "u32 \<Rightarrow> 'd cached_ee \<Rightarrow> (u16 \<times> 'd cached_ee) option" where "readCache16 = read_cache"
definition readCache32 :: "u32 \<Rightarrow> 'd cached_ee \<Rightarrow> (u32 \<times> 'd cached_ee) option" where "readCache32 = read_cache"
definition readCache64 :: "u32 \<Rightarrow> 'd cached_ee \<Rightarrow> (u64 \<times> 'd cached_ee) option" where "readCache64 = read_cache"
definition readCache128 :: "u32 \<Rightarrow> 'd cached_ee \<Rightarrow> (u128 \<times> 'd cached_ee) option" where "readCache128 = read_cache"
definition writeCache8 :: "u32 \<Rightarrow> u8 \<Rightarrow> 'd cached_ee \<Rightarrow> 'd cached_ee option" where "writeCache8 = write_cache"
definition writeCache16 :: "u32 \<Rightarrow> u16 \<Rightarrow> 'd cached_ee \<Rightarrow> 'd cached_ee option" where "writeCache16 = write_cache"
definition writeCache32 :: "u32 \<Rightarrow> u32 \<Rightarrow> 'd cached_ee \<Rightarrow> 'd cached_ee option" where "writeCache32 = write_cache"
definition writeCache64 :: "u32 \<Rightarrow> u64 \<Rightarrow> 'd cached_ee \<Rightarrow> 'd cached_ee option" where "writeCache64 = write_cache"
definition writeCache128 :: "u32 \<Rightarrow> u128 \<Rightarrow> 'd cached_ee \<Rightarrow> 'd cached_ee option" where "writeCache128 = write_cache"

subsection \<open>The CACHE instruction\<close>

definition invalidate_line :: "CacheLine \<Rightarrow> CacheLine" where
  "invalidate_line l = \<lparr>rawValue = rawValue l AND LRF_FLAG, bytes = (\<lambda>i. 0)\<rparr>"

definition doCacheHitOp ::
  "u32 \<Rightarrow> (6 word \<Rightarrow> nat \<Rightarrow> 'd cached_ee \<Rightarrow> 'd cached_ee) \<Rightarrow> 'd cached_ee \<Rightarrow> 'd cached_ee" where
  "doCacheHitOp addr f s =
     (case findInCache (cache_index addr) (cache_ppf addr s) s of
        Some way \<Rightarrow> f (cache_index addr) way s
      | None \<Rightarrow> s)"

abbreviation (input) cp0_TagLo :: "5 word" where "cp0_TagLo \<equiv> 28"

definition CACHE :: "'d cached_ee \<Rightarrow> 'd cached_ee" where
  "CACHE s =
     (let addr = ea s; rt = unat (opRt (cpu s)); idx = cache_index addr; way = unat (addr AND 1);
          tagLo = CP0 (cpu s) cp0_TagLo; off = ucast (addr AND 0x3C) :: u64
      in if rt = 0x1a then doCacheHitOp addr (\<lambda>i w. upd_line i w invalidate_line) s
         else if rt = 0x18 then doCacheHitOp addr (\<lambda>i w s. upd_line i w invalidate_line (writeBackIfNeeded i w s)) s
         else if rt = 0x1c then doCacheHitOp addr writeBackIfNeeded s
         else if rt = 0x16 then upd_line idx way invalidate_line s
         else if rt = 0x11 then upd_cpu (set_CP0 cp0_TagLo (line_read off (line idx way s))) s
         else if rt = 0x10 then
           let s1 = writeBackIfNeeded idx way s
           in upd_cpu (set_CP0 cp0_TagLo (ucast (rawValue (line idx way s1) AND ALL_FLAGS))) s1
         else if rt = 0x13 then upd_line idx way (line_write off tagLo) s
         else if rt = 0x12 then
           upd_line idx way (\<lambda>l. l\<lparr>rawValue := (rawValue l AND NOT ALL_FLAGS) OR (ucast tagLo AND ALL_FLAGS)\<rparr>) s
         else if rt = 0x14 then upd_line idx way invalidate_line (writeBackIfNeeded idx way s)
         else s)"

end
