(* ===== verification/EE_Cache_Spec.thy ===== *)
theory EE_Cache_Spec
  imports EE_Cache EE_LoadStore_Spec
begin

text \<open>
  What the data cache does: the lookup takes way 0 of the indexed set as a hit whatever page its line
  holds, so no line is ever loaded from memory, and addresses that agree in their low twelve bits share one
  line.
\<close>

subsection \<open>Tags without a page\<close>

definition cold_tag :: "u64 \<Rightarrow> bool" where "cold_tag t \<longleftrightarrow> t AND NOT ALL_FLAGS = 0"

definition cold :: "'d cached_ee \<Rightarrow> bool" where "cold s \<longleftrightarrow> (\<forall>idx way. cold_tag (rawValue (line idx way s)))"

text \<open>Host pointers lie outside the first page of the address space.\<close>

definition host_mapped :: "u32 \<Rightarrow> 'd ee \<Rightarrow> bool" where
  "host_mapped mem s \<longleftrightarrow> cache_ppf mem s AND NOT ALL_FLAGS \<noteq> 0"

lemma cold_tag_flags [simp]:
  "cold_tag 0" "cold_tag t \<Longrightarrow> cold_tag (t AND m)" "cold_tag (m AND LRF_FLAG)"
  "cold_tag t \<Longrightarrow> cold_tag (t OR DIRTY_FLAG)" "cold_tag t \<Longrightarrow> cold_tag ((t AND NOT ALL_FLAGS) OR (m AND ALL_FLAGS))"
proof -
  show "cold_tag (t AND m)" if "cold_tag t"
    using that unfolding cold_tag_def by (metis and.commute and.left_commute and_zero_eq)
qed (simp_all add: cold_tag_def bit.conj_disj_distrib2 and.assoc ALL_FLAGS_def LRF_FLAG_def DIRTY_FLAG_def)

lemma cold_upd_line:
  assumes "cold s" "\<And>l. cold_tag (rawValue l) \<Longrightarrow> cold_tag (rawValue (f l))"
  shows "cold (upd_line idx way f s)"
  using assms by (simp add: cold_def upd_line_def)

lemma cold_writeBack: "cold s \<Longrightarrow> cold (writeBackIfNeeded idx way s)"
proof -
  assume "cold s"
  then have "cold (s\<lparr>host := m\<rparr>)" for m by (simp add: cold_def)
  with \<open>cold s\<close> show ?thesis
    by (auto simp: writeBackIfNeeded_def Let_def intro!: cold_upd_line)
qed

lemma cold_CACHE: "cold s \<Longrightarrow> cold (CACHE s)"
proof -
  assume c: "cold s"
  have inv: "cold (upd_line i w invalidate_line t)" if "cold t" for i w t
    using that by (intro cold_upd_line) (simp_all add: invalidate_line_def)
  have hit: "cold (doCacheHitOp a f s)" if "\<And>i w. cold (f i w s)" for a f
    using c that by (simp add: doCacheHitOp_def split: option.split)
  have cpu: "cold (upd_cpu f t)" if "cold t" for f t
    using that by (simp add: cold_def upd_cpu_def)
  show ?thesis
    using c by (auto simp: CACHE_def Let_def intro!: inv hit cpu cold_writeBack cold_upd_line simp: line_write_def)
qed

subsection \<open>Every access hits way 0\<close>

lemma cold_getFreeCache: "cold s \<Longrightarrow> host_mapped mem s \<Longrightarrow> getFreeCache mem s = Some (0, s)"
  by (simp add: getFreeCache_def Let_def findInCache_def check_way_def cold_def cold_tag_def host_mapped_def)

lemma cold_read:
  fixes mem :: u32
  assumes "cold s" "host_mapped mem s"
  shows "read_cache mem s = Some (line_read (line_offset TYPE('a::len) mem) (line (cache_index mem) 0 s) :: 'a word, s)"
  using cold_getFreeCache [OF assms] by (simp add: read_cache_def)

lemma line_offset_bound:
  fixes mem :: u32
  assumes "LENGTH('a::len) = 8 * n" "n \<in> {1, 2, 4, 8, 16}"
  shows "unat (line_offset TYPE('a) mem) + n \<le> 64"
proof -
  have le: "unat (mem AND k) \<le> unat k" for k by (simp add: word_and_le1 word_le_nat_alt [symmetric])
  have lt: "unat x < 2 ^ 64" for x :: u32
    by (rule less_le_trans [OF unsigned_less]) simp
  have u: "unat (line_offset TYPE('a) mem) = unat ((mem AND NOT (of_nat n - 1)) AND 0x3f)"
    using assms(1) lt by (simp add: line_offset_def unat_ucast)
  show ?thesis
    using assms(2) le [of "0x3f"] le [of "0x3e"] le [of "0x3c"] le [of "0x38"] le [of "0x30"]
    by (auto simp: u and.assoc)
qed

lemma line_read_write:
  fixes v :: "'a::len word" and mem :: u32
  assumes "LENGTH('a) = 8 * n" "n \<in> {1, 2, 4, 8, 16}"
  shows "line_read (line_offset TYPE('a) mem) (line_write (line_offset TYPE('a) mem) v l) = v"
proof (rule word_byte_eqI [OF assms(1)])
  fix i
  assume i: "i < n"
  define off where "off = line_offset TYPE('a) mem"
  have b: "unat off + n \<le> 64" using line_offset_bound [OF assms] by (simp add: off_def)
  have si: "unat (off + of_nat i) = unat off + i"
    using i b by (simp add: unat_word_ariths unat_of_nat)
  have "ucast (ucast (off + of_nat i) :: 6 word) = off + of_nat i"
    using si i b by (intro word_unat_eq_iff [THEN iffD2]) (simp add: unat_ucast)
  moreover have "unat (of_nat i :: u64) = i" using i b by (simp add: unat_of_nat)
  ultimately show "byte (line_read off (line_write off v l) :: 'a word) i = byte v i"
    using i by (simp add: line_read_def line_write_def byte_load_le [OF assms(1)] store_le_byte [OF assms(1)])
qed

subsection \<open>Aliasing\<close>

text \<open>What can happen to the cache: accesses of every width, the CACHE instruction, and anything that
  leaves the lines alone.\<close>

inductive cache_step :: "'d cached_ee \<Rightarrow> 'd cached_ee \<Rightarrow> bool" where
  lookup: "host_mapped mem s \<Longrightarrow> getFreeCache mem s = Some (way, t) \<Longrightarrow> cache_step s t"
| write8: "host_mapped mem s \<Longrightarrow> writeCache8 mem v8 s = Some t \<Longrightarrow> cache_step s t"
| write16: "host_mapped mem s \<Longrightarrow> writeCache16 mem v16 s = Some t \<Longrightarrow> cache_step s t"
| write32: "host_mapped mem s \<Longrightarrow> writeCache32 mem v32 s = Some t \<Longrightarrow> cache_step s t"
| write64: "host_mapped mem s \<Longrightarrow> writeCache64 mem v64 s = Some t \<Longrightarrow> cache_step s t"
| write128: "host_mapped mem s \<Longrightarrow> writeCache128 mem v128 s = Some t \<Longrightarrow> cache_step s t"
| cache_op: "cache_step s (CACHE s)"
| elsewhere: "lines (dev t) = lines (dev s) \<Longrightarrow> cache_step s t"

lemma cold_write:
  fixes v :: "'a::len word"
  assumes "cold s" "host_mapped mem s" "write_cache mem v s = Some t"
  shows "cold t" "line (cache_index mem) 0 t = line_write (line_offset TYPE('a) mem) v
      ((line (cache_index mem) 0 s)\<lparr>rawValue := rawValue (line (cache_index mem) 0 s) OR DIRTY_FLAG\<rparr>)"
    "host t = host s" "vmap t = vmap s"
proof -
  let ?u = "upd_line (cache_index mem) 0 (\<lambda>l. l\<lparr>rawValue := rawValue l OR DIRTY_FLAG\<rparr>) s"
  have t: "t = upd_line (cache_index mem) 0 (line_write (line_offset TYPE('a) mem) v) ?u"
    using assms cold_getFreeCache [OF assms(1,2)] by (simp add: write_cache_def)
  show "cold t" unfolding t using assms(1) by (intro cold_upd_line) (simp_all add: line_write_def)
  show "line (cache_index mem) 0 t = line_write (line_offset TYPE('a) mem) v
      ((line (cache_index mem) 0 s)\<lparr>rawValue := rawValue (line (cache_index mem) 0 s) OR DIRTY_FLAG\<rparr>)"
    "host t = host s" "vmap t = vmap s"
    by (simp_all add: t upd_line_def)
qed

lemmas cache_write_defs = writeCache8_def writeCache16_def writeCache32_def writeCache64_def writeCache128_def

lemma cold_step: "cache_step s t \<Longrightarrow> cold s \<Longrightarrow> cold t"
  by (induction rule: cache_step.induct)
    (auto simp: cold_getFreeCache cache_write_defs cold_CACHE dest: cold_write(1), simp add: cold_def)

lemma cold_reach: "cache_step\<^sup>*\<^sup>* s t \<Longrightarrow> cold s \<Longrightarrow> cold t"
  by (induction rule: rtranclp_induct) (auto dest: cold_step)

lemma same_offset:
  assumes "a AND 0xfff = b AND 0xfff"
  shows "cache_index a = cache_index b" "LENGTH('a::len) = 8 * n \<Longrightarrow> n \<in> {1, 2, 4, 8, 16} \<Longrightarrow>
      line_offset TYPE('a) a = line_offset TYPE('a) b"
proof -
  have b: "bit a i = bit b i" if "i < 12" for i
  proof -
    have "bit (a AND mask 12) i = bit (b AND mask 12) i"
      using assms by (simp add: mask_eq_exp_minus_1)
    with that show ?thesis by (simp add: bit_simps)
  qed
  then show "cache_index a = cache_index b"
    by (intro bit_word_eqI) (auto simp: cache_index_def bit_simps)
  have "(a AND k) AND 0x3f = (b AND k) AND 0x3f" for k
  proof -
    have "(a AND k) AND mask 6 = (b AND k) AND mask 6"
      using b by (intro bit_word_eqI) (auto simp: bit_simps)
    then show ?thesis by (simp add: mask_eq_exp_minus_1)
  qed
  then show "line_offset TYPE('a) a = line_offset TYPE('a) b" by (simp add: line_offset_def)
qed

text \<open>C35: the data cache is not a cache of memory. From power-on, whatever accesses and CACHE instructions are
  executed on addresses whose page is in host memory outside its first 4 KB, a read right after power-on returns 0
  whatever memory holds, a write does not reach memory, and a value written at one address, at any width, is
  read back there and at every address with the same low twelve bits, whichever page it belongs to.\<close>
theorem cache_lookup_aliases:
  fixes v :: "'a::len word"
  assumes width: "LENGTH('a) = 8 * n" "n \<in> {1, 2, 4, 8, 16}"
    and start: "\<And>idx way. line idx way z = \<lparr>rawValue = 0, bytes = (\<lambda>i. 0)\<rparr>"
    and reach: "cache_step\<^sup>*\<^sup>* z s" and a: "host_mapped a s" and b: "host_mapped b s" "a AND 0xfff = b AND 0xfff"
  shows "(s = z \<longrightarrow> read_cache a s = Some (0 :: 'a word, s)) \<and>
    (\<exists>t. write_cache b v s = Some t \<and> host t = host s \<and> read_cache b t = Some (v, t) \<and> read_cache a t = Some (v, t))"
proof -
  have "cold z" using start by (simp add: cold_def)
  from cold_reach [OF reach this] have c: "cold s" .
  have "byte (0 :: 'a word) i = 0" for i by (simp add: byte_def)
  then have "line_read off \<lparr>rawValue = 0, bytes = (\<lambda>i. 0)\<rparr> = (0 :: 'a word)" for off
    by (intro word_byte_eqI [OF width(1)]) (simp add: line_read_def byte_load_le [OF width(1)])
  then have r0: "s = z \<longrightarrow> read_cache a s = Some (0 :: 'a word, s)"
    using cold_read [OF c a, where 'a = 'a] start by auto
  obtain t where t: "write_cache b v s = Some t"
    using cold_getFreeCache [OF c b(1)] by (simp add: write_cache_def)
  note w = cold_write [OF c b(1) t]
  have m: "host_mapped x t = host_mapped x s" for x by (simp add: host_mapped_def cache_ppf_def w(4))
  have v: "line_read (line_offset TYPE('a) b) (line (cache_index b) 0 t) = v"
    unfolding w(2) by (rule line_read_write [OF width])
  have "read_cache b t = Some (v, t)"
    using cold_read [OF w(1), of b, where 'a = 'a] b(1) by (simp add: m v)
  moreover have "read_cache a t = Some (v, t)"
    using cold_read [OF w(1), of a, where 'a = 'a] a by (simp add: m v same_offset [OF b(2)] same_offset(2) [OF b(2) width])
  ultimately show ?thesis using r0 t w(3) by blast
qed

definition cache_ee :: "unit cached_ee" where
  "cache_ee = \<lparr>cpu = cpuReset, tlb = (\<lambda>i. blank_tlb), RWFT = (\<lambda>row w h. vtlbDefaultPhy), vtlbHandlerCount = 0,
     UnmappedVirtHandler = 0, UnmappedPhyHandler = 0, DefaultPhyHandler = 0, pmap = (\<lambda>pg. 0), vmap = (\<lambda>pg. 0x10000000),
     ppmap = None, fastmem_virtual_mapping = None, fastmem_area = (\<lambda>pg. None), pageshift = 12,
     fastmem_phys = phys_empty, host = (\<lambda>p. 0x55),
     layout = \<lparr>eeMem_Main = 0x10000000, eeMem_ZeroRead = 0x12000000, eeMem_Scratch = 0x12400000,
       iopMem_Main = 0x14000000, iopMem_P = 0x14200000, VUMem_start = 0x18000000, VUMem_end = 0x1800A000\<rparr>,
     Cpu_is_intCpu = True, CHECK_EEREC = False, CHECK_CACHE = True, CHECK_FASTMEM = False,
     branch2 = False, cpuBlockCycles = 0, intLastBranchTo = 0, EECycleRate = 0, WaitLoop = False,
     dev = \<lparr>lines = (\<lambda>idx way. \<lparr>rawValue = 0, bytes = (\<lambda>i. 0)\<rparr>), uncached = ()\<rparr>\<rparr>"

theorem cache_lookup_aliases_witness:
  "\<exists>t. write_cache 0x1234 (0xCAFEBABE :: u32) cache_ee = Some t \<and> host t = host cache_ee \<and>
     read_cache 0x1234 t = Some (0xCAFEBABE :: u32, t) \<and> read_cache 0x5234 t = Some (0xCAFEBABE :: u32, t)"
  using cache_lookup_aliases [where 'a = 32 and n = 4 and z = cache_ee and s = cache_ee and a = "0x5234" and b = "0x1234"
      and v = "0xCAFEBABE"]
  by (simp add: host_mapped_def cache_ppf_def vtlb_virt_ptr_def ALL_FLAGS_def cache_ee_def)

end
