(* ===== verification/GS_LocalMemory.thy ===== *)
theory GS_LocalMemory
  imports GS_Tables VTLB
begin

text \<open>
  The local memory of the Graphics Synthesizer, src/pcsx2/GS/GSLocalMemory.h and GSLocalMemory.cpp: 4 MB in pages
  of 8 KB and blocks of 256 bytes, where each pixel storage mode has its own order of blocks and pixels.
  Coordinates and addresses are integers; an unsigned result is reduced modulo \<open>2 ^ 32\<close>, and signed
  arithmetic does not overflow for the coordinates and base pointers of the hardware.
\<close>

definition GS_MAX_PAGES :: int where "GS_MAX_PAGES = 512"
definition GS_MAX_BLOCKS :: int where "GS_MAX_BLOCKS = 16384"
definition GS_BLOCKS_PER_PAGE :: int where "GS_BLOCKS_PER_PAGE = 32"

record GSVector4i =
  r_left :: int
  r_top :: int
  r_right :: int
  r_bottom :: int

subsection \<open>Swizzles\<close>

fun ilog2 :: "nat \<Rightarrow> nat" where "ilog2 i = (if i < 2 then 0 else 1 + ilog2 (i div 2))"

declare ilog2.simps [simp del]

record GSSwizzleInfo =
  m_blockSwizzle :: table
  m_pixelSwizzleCol :: "int list"
  m_pixelSwizzleRow :: "(int \<Rightarrow> int) list"
  m_pageMask :: "int \<times> int"
  m_blockMask :: "int \<times> int"
  m_pixelRowMask :: int
  m_pageShiftX :: nat
  m_pageShiftY :: nat
  m_blockShiftX :: nat
  m_blockShiftY :: nat
  m_blockAddressXor :: int
  m_pixelAddressXor :: int

definition make_GSSwizzleInfo :: "GSSwizzleTableList \<Rightarrow> int \<Rightarrow> GSSwizzleInfo" where
  "make_GSSwizzleInfo t blockXor =
     (let blockShiftX = ilog2 (nat (PageWidth t div BlocksWide t));
          blockShiftY = ilog2 (nat (PageHeight t div BlocksHigh t))
      in \<lparr>m_blockSwizzle = block_tab t, m_pixelSwizzleCol = col_tab t, m_pixelSwizzleRow = row_tab t,
          m_pageMask = (PageWidth t - 1, PageHeight t - 1),
          m_blockMask = (PageWidth t div BlocksWide t - 1, PageHeight t div BlocksHigh t - 1),
          m_pixelRowMask = RowMask t,
          m_pageShiftX = ilog2 (nat (PageWidth t)), m_pageShiftY = ilog2 (nat (PageHeight t)),
          m_blockShiftX = blockShiftX, m_blockShiftY = blockShiftY,
          m_blockAddressXor = blockXor, m_pixelAddressXor = push_bit (blockShiftX + blockShiftY) blockXor\<rparr>)"

definition swizzle32 :: GSSwizzleInfo where "swizzle32 = make_GSSwizzleInfo swizzleTables32 0x00"
definition swizzle32Z :: GSSwizzleInfo where "swizzle32Z = make_GSSwizzleInfo swizzleTables32 0x18"
definition swizzle16 :: GSSwizzleInfo where "swizzle16 = make_GSSwizzleInfo swizzleTables16 0x00"
definition swizzle16S :: GSSwizzleInfo where "swizzle16S = make_GSSwizzleInfo swizzleTables16S 0x00"
definition swizzle16Z :: GSSwizzleInfo where "swizzle16Z = make_GSSwizzleInfo swizzleTables16 0x18"
definition swizzle16SZ :: GSSwizzleInfo where "swizzle16SZ = make_GSSwizzleInfo swizzleTables16S 0x18"
definition swizzle8 :: GSSwizzleInfo where "swizzle8 = make_GSSwizzleInfo swizzleTables8 0x00"
definition swizzle4 :: GSSwizzleInfo where "swizzle4 = make_GSSwizzleInfo swizzleTables4 0x00"

record GSOffset = GSSwizzleInfo +
  m_bp :: int
  m_bwPg :: int
  m_psm_id :: int

definition make_GSOffset :: "GSSwizzleInfo \<Rightarrow> int \<Rightarrow> int \<Rightarrow> int \<Rightarrow> GSOffset" where
  "make_GSOffset swz bp bw psm =
     GSSwizzleInfo.extend swz (GSOffset.fields bp (drop_bit (m_pageShiftX swz - 6) bw) psm)"

subsection \<open>Block numbers\<close>

record BNHelper =
  bn_blockSwizzle :: table
  bn_baseBP :: int
  bn_bp :: int
  bn_baseBlkX :: int
  bn_blkX :: int
  bn_blkY :: int
  bn_pageMaskX :: int
  bn_pageMaskY :: int
  bn_addY :: int
  bn_xor :: int

definition bnMulti :: "GSOffset \<Rightarrow> int \<Rightarrow> int \<Rightarrow> BNHelper" where
  "bnMulti off x y =
     (let yAmt = (drop_bit (m_pageShiftY off - 5) y AND NOT 0x1f) * m_bwPg off;
          xAmt = drop_bit (m_pageShiftX off - 5) x AND NOT 0x1f;
          bp = m_bp off + yAmt + xAmt;
          blkX = drop_bit (m_blockShiftX off) x
      in \<lparr>bn_blockSwizzle = m_blockSwizzle off, bn_baseBP = bp, bn_bp = bp, bn_baseBlkX = blkX, bn_blkX = blkX,
          bn_blkY = drop_bit (m_blockShiftY off) y,
          bn_pageMaskX = push_bit (m_pageShiftX off - m_blockShiftX off) 1 - 1,
          bn_pageMaskY = push_bit (m_pageShiftY off - m_blockShiftY off) 1 - 1,
          bn_addY = 32 * m_bwPg off, bn_xor = m_blockAddressXor off\<rparr>)"

definition nextBlockX :: "BNHelper \<Rightarrow> BNHelper" where
  "nextBlockX h =
     (let blkX = bn_blkX h + 1
      in h\<lparr>bn_blkX := blkX, bn_bp := (if blkX AND bn_pageMaskX h = 0 then bn_bp h + 32 else bn_bp h)\<rparr>)"

definition nextBlockY :: "BNHelper \<Rightarrow> BNHelper" where
  "nextBlockY h =
     (let blkY = bn_blkY h + 1;
          baseBP = (if blkY AND bn_pageMaskY h = 0 then bn_baseBP h + bn_addY h else bn_baseBP h)
      in h\<lparr>bn_blkY := blkY, bn_baseBP := baseBP, bn_blkX := bn_baseBlkX h, bn_bp := baseBP\<rparr>)"

definition valueNoWrap :: "BNHelper \<Rightarrow> int" where
  "valueNoWrap h = ((bn_bp h + tab (bn_blockSwizzle h) (bn_blkY h AND 7) (bn_blkX h AND 7)) XOR bn_xor h) mod 2 ^ 32"

definition bn_value :: "BNHelper \<Rightarrow> int" where "bn_value h = valueNoWrap h mod GS_MAX_BLOCKS"

definition bn :: "GSOffset \<Rightarrow> int \<Rightarrow> int \<Rightarrow> int" where "bn off x y = bn_value (bnMulti off x y)"
definition bnNoWrap :: "GSOffset \<Rightarrow> int \<Rightarrow> int \<Rightarrow> int" where "bnNoWrap off x y = valueNoWrap (bnMulti off x y)"

function loopBlocks_row :: "int \<Rightarrow> (int \<Rightarrow> 's \<Rightarrow> 's) \<Rightarrow> BNHelper \<Rightarrow> 's \<Rightarrow> BNHelper \<times> 's" where
  "loopBlocks_row rgt fn h s =
     (if bn_blkX h < rgt then loopBlocks_row rgt fn (nextBlockX h) (fn (bn_value h) s) else (h, s))"
  by auto
termination
  by (relation "measure (\<lambda>(rgt, fn, h, s). nat (rgt - bn_blkX h))") (auto simp: nextBlockX_def Let_def)

declare loopBlocks_row.simps [simp del]

lemma loopBlocks_row_blkY: "bn_blkY (fst (loopBlocks_row rgt fn h s)) = bn_blkY h"
  by (induction rgt fn h s rule: loopBlocks_row.induct)
    (subst loopBlocks_row.simps, simp add: nextBlockX_def Let_def)

function loopBlocks_rows :: "int \<Rightarrow> int \<Rightarrow> (int \<Rightarrow> 's \<Rightarrow> 's) \<Rightarrow> BNHelper \<Rightarrow> 's \<Rightarrow> 's" where
  "loopBlocks_rows rgt btm fn h s =
     (if bn_blkY h < btm
      then loopBlocks_rows rgt btm fn (nextBlockY (fst (loopBlocks_row rgt fn h s))) (snd (loopBlocks_row rgt fn h s))
      else s)"
  by auto
termination
  by (relation "measure (\<lambda>(rgt, btm, fn, h, s). nat (btm - bn_blkY h))")
    (auto simp: nextBlockY_def Let_def loopBlocks_row_blkY)

declare loopBlocks_rows.simps [simp del]

definition loopBlocks :: "GSOffset \<Rightarrow> GSVector4i \<Rightarrow> (int \<Rightarrow> 's \<Rightarrow> 's) \<Rightarrow> 's \<Rightarrow> 's" where
  "loopBlocks off r fn =
     loopBlocks_rows (drop_bit (m_blockShiftX off) (r_right r + fst (m_blockMask off)))
       (drop_bit (m_blockShiftY off) (r_bottom r + snd (m_blockMask off))) fn (bnMulti off (r_left r) (r_top r))"

definition isAligned :: "GSVector4i \<Rightarrow> int \<times> int \<Rightarrow> bool" where
  "isAligned r msk \<longleftrightarrow> r_right r - r_left r > fst msk \<and> r_bottom r - r_top r > snd msk \<and> r_left r AND fst msk = 0 \<and>
     r_top r AND snd msk = 0 \<and> r_right r AND fst msk = 0 \<and> r_bottom r AND snd msk = 0"

definition isBlockAligned :: "GSOffset \<Rightarrow> GSVector4i \<Rightarrow> bool" where "isBlockAligned off r = isAligned r (m_blockMask off)"
definition isPageAligned :: "GSOffset \<Rightarrow> GSVector4i \<Rightarrow> bool" where "isPageAligned off r = isAligned r (m_pageMask off)"

subsection \<open>Pixel addresses\<close>

definition pixelAddressZeroXRaw :: "GSOffset \<Rightarrow> int \<Rightarrow> int" where
  "pixelAddressZeroXRaw off y =
     (let base1 = push_bit (m_pageShiftX off + m_pageShiftY off - 5) (m_bp off);
          base2 = base1 + push_bit (m_pageShiftX off) ((y AND NOT (snd (m_pageMask off))) * m_bwPg off);
          base3 = base2 AND (push_bit (m_pageShiftX off + m_pageShiftY off) GS_MAX_PAGES - 1)
      in base3 + m_pixelSwizzleCol off ! nat (y AND snd (m_pageMask off)))"

record PAHelper =
  pa_row :: "int \<Rightarrow> int"
  pa_base :: int
  pa_xor :: int

definition paMulti :: "GSOffset \<Rightarrow> int \<Rightarrow> int \<Rightarrow> PAHelper" where
  "paMulti off x y =
     \<lparr>pa_row = (\<lambda>i. (m_pixelSwizzleRow off ! nat (y AND m_pixelRowMask off)) (x + i)),
      pa_base = pixelAddressZeroXRaw off y, pa_xor = m_pixelAddressXor off\<rparr>"

definition pa_value :: "PAHelper \<Rightarrow> int \<Rightarrow> int" where
  "pa_value h x = ((pa_base h + pa_row h x) XOR pa_xor h) mod 2 ^ 32"

definition pa :: "GSOffset \<Rightarrow> int \<Rightarrow> int \<Rightarrow> int" where "pa off x y = pa_value (paMulti off 0 y) x"

text \<open>\<open>GSSwizzleInfo::bn\<close> and \<open>GSSwizzleInfo::pa\<close>.\<close>

definition swizzle_bn :: "GSSwizzleInfo \<Rightarrow> int \<Rightarrow> int \<Rightarrow> int \<Rightarrow> int \<Rightarrow> int" where
  "swizzle_bn swz x y bp bw = bn (make_GSOffset swz bp bw 0) x y"

definition swizzle_pa :: "GSSwizzleInfo \<Rightarrow> int \<Rightarrow> int \<Rightarrow> int \<Rightarrow> int \<Rightarrow> int" where
  "swizzle_pa swz x y bp bw = pa (make_GSOffset swz bp bw 0) x y"

end
