(* ===== verification/GS_Swizzle_Spec.thy ===== *)
theory GS_Swizzle_Spec
  imports GS_LocalMemory "HOL-Library.Multiset"
begin

text \<open>
  Addresses in the Graphics Synthesizer's local memory against their description: a pixel belongs to
  a page by its coordinates, to a block of the page by the block table, and has a place in the block by the column
  table. The code adds a column offset and a row offset from precomputed tables; that this is the same rests on
  finite facts about the tables, which are the assumptions of a locale.
\<close>

subsection \<open>Shifts and masks of integers\<close>

lemma drop_bit_int_div: "drop_bit n (x :: int) = x div 2 ^ n"
  by (rule drop_bit_eq_div)

lemma push_bit_int_mult: "push_bit n (x :: int) = x * 2 ^ n"
  by (rule push_bit_eq_mult)

lemma and_mask_int: "(x :: int) AND (2 ^ n - 1) = x mod 2 ^ n"
  by (simp add: take_bit_eq_mod [symmetric] take_bit_eq_mask mask_eq_exp_minus_1)

lemma and_not_mask_int: "(x :: int) AND NOT (2 ^ n - 1) = x div 2 ^ n * 2 ^ n"
proof -
  have "x AND NOT (mask n) = push_bit n (drop_bit n x)"
    by (rule bit_eqI) (auto simp: bit_simps)
  then show ?thesis by (simp add: mask_eq_exp_minus_1 push_bit_eq_mult drop_bit_eq_div)
qed

lemma xor_high:
  fixes a z c :: int
  assumes "0 \<le> c" "c < 2 ^ n"
  shows "(a * 2 ^ n + c) XOR push_bit n z = (a XOR z) * 2 ^ n + c"
proof -
  have c: "take_bit n c = c" using assms by (simp add: take_bit_int_eq_self)
  have cat: "k * 2 ^ n + c = concat_bit n c k" for k
    by (simp add: concat_bit_eq c push_bit_eq_mult)
  show ?thesis unfolding cat
    by (rule bit_eqI) (auto simp: bit_concat_bit_iff bit_simps)
qed

lemma xor_cancel:
  fixes a b z :: int
  assumes "a XOR z = b XOR z"
  shows "a = b"
proof -
  have "(a XOR z) XOR z = (b XOR z) XOR z" using assms by simp
  then show ?thesis by (simp only: xor.assoc xor_self_eq xor.right_neutral)
qed

lemma xor_mod: "0 \<le> z \<Longrightarrow> z < 2 ^ n \<Longrightarrow> ((a :: int) XOR z) mod 2 ^ n = (a mod 2 ^ n) XOR z"
  by (simp add: take_bit_eq_mod [symmetric] take_bit_xor take_bit_int_eq_self)

lemma xor_div: "0 \<le> z \<Longrightarrow> z < 32 \<Longrightarrow> ((a :: int) XOR z) div 32 = a div 32"
proof -
  assume "0 \<le> z" "z < 32"
  then have "drop_bit 5 z = 0" by (simp add: drop_bit_eq_div)
  then have "drop_bit 5 (a XOR z) = drop_bit 5 a" by (simp only: drop_bit_xor xor.right_neutral)
  then show ?thesis by (simp add: drop_bit_eq_div)
qed

lemma xor_small:
  fixes a z :: int
  assumes "0 \<le> a" "a < 32 * k" "0 \<le> z" "z < 32"
  shows "0 \<le> a XOR z" "a XOR z < 32 * k"
proof -
  show "0 \<le> a XOR z" using assms by simp
  have "(a XOR z) div 32 = a div 32" using assms(3,4) by (rule xor_div)
  moreover have "a div 32 < k" using assms(2) by simp
  ultimately show "a XOR z < 32 * k" by (simp add: div_less_iff_less_mult mult.commute)
qed

lemma int_div_less:
  fixes y a b :: int
  assumes "y < a * b" "0 < b"
  shows "y div b < a"
proof (rule ccontr)
  assume "\<not> y div b < a"
  then have "a * b \<le> y div b * b" using assms(2) by (simp add: mult_right_mono)
  moreover have "y div b * b \<le> y" using assms(2) by (simp add: minus_mod_eq_div_mult [symmetric])
  ultimately show False using assms(1) by simp
qed

lemma mod_div_int: "0 < b \<Longrightarrow> 0 < c \<Longrightarrow> (y :: int) mod (c * b) div b = y div b mod c"
  by (simp add: zmod_zmult2_eq mult.commute [of c b])

lemma pow_split: "m \<le> n \<Longrightarrow> (2 :: int) ^ n = 2 ^ (n - m) * 2 ^ m"
  by (simp flip: power_add)

lemma euclid_unique:
  fixes k k' n c c' :: int
  assumes "0 \<le> c" "c < n" "0 \<le> c'" "c' < n" "k * n + c = k' * n + c'"
  shows "k = k' \<and> c = c'"
proof -
  have "(k * n + c) div n = k" "(k * n + c) mod n = c" "(k' * n + c') div n = k'" "(k' * n + c') mod n = c'"
    using assms(1-4) by simp_all
  then show ?thesis using assms(5) by metis
qed

lemma div_mod_eqI: "u div m = v div m \<Longrightarrow> u mod m = v mod m \<Longrightarrow> u = v" for u v m :: int
  by (metis div_mult_mod_eq)

lemma div_parts:
  fixes n k :: int
  assumes "0 < n"
  shows "k = n * (k div n) + k mod n" "0 \<le> k mod n" "k mod n < n" "n * (k div n) \<le> k" "k < n * (k div n) + n"
proof -
  show m: "k = n * (k div n) + k mod n" "0 \<le> k mod n" "k mod n < n" using assms by simp_all
  show "n * (k div n) \<le> k" "k < n * (k div n) + n" using m by linarith+
qed

lemma ceil_eq: "0 < n \<Longrightarrow> (k + n - 1) div n = k div n + (if k mod n = 0 then 0 else 1)" for n k :: int
proof -
  have "(n * q + r + n - 1) div n = q + (if r = 0 then 0 else 1)" if "0 < n" "0 \<le> r" "r < n" for q r
    by (rule int_div_pos_eq [where r = "if r = 0 then n - 1 else r - 1"]) (use that in \<open>auto simp: algebra_simps\<close>)
  from this [of "k mod n" "k div n"] show "0 < n \<Longrightarrow> ?thesis" by simp
qed

lemma last_eq: "0 < n \<Longrightarrow> (k - 1) div n = k div n - (if k mod n = 0 then 1 else 0)" for n k :: int
proof -
  have "(n * q + r - 1) div n = q - (if r = 0 then 1 else 0)" if "0 < n" "0 \<le> r" "r < n" for q r
    by (rule int_div_pos_eq [where r = "if r = 0 then n - 1 else r - 1"]) (use that in \<open>auto simp: algebra_simps\<close>)
  from this [of "k mod n" "k div n"] show "0 < n \<Longrightarrow> ?thesis" by simp
qed

lemma ceil_pow: "(c + (2 ^ j - 1)) div 2 ^ j = (c - 1) div 2 ^ j + 1" for c :: int and j :: nat
  using div_add_self2 [of "2 ^ j" "c - 1"] by (simp add: algebra_simps)

lemma list_all_upto: "list_all P [a..b] \<longleftrightarrow> (\<forall>i. a \<le> i \<and> i \<le> b \<longrightarrow> P i)"
  by (auto simp: list_all_iff)

subsection \<open>The description of an address\<close>

definition block_spec :: "table \<Rightarrow> table \<Rightarrow> int \<Rightarrow> int \<Rightarrow> int \<Rightarrow> int \<Rightarrow> int \<Rightarrow> int" where
  "block_spec bt ct z bp bw x y =
     (let h = nrows ct; w = ncols ct; pageH = nrows bt * h; pageW = ncols bt * w; bwPg = 64 * bw div pageW
      in ((bp + 32 * (y div pageH * bwPg + x div pageW) + tab bt (y mod pageH div h) (x mod pageW div w)) XOR z) mod 16384)"

definition pixel_spec :: "table \<Rightarrow> table \<Rightarrow> int \<Rightarrow> int \<Rightarrow> int \<Rightarrow> int \<Rightarrow> int \<Rightarrow> int" where
  "pixel_spec bt ct z bp bw x y =
     block_spec bt ct z bp bw x y * (nrows ct * ncols ct) + tab ct (y mod nrows ct) (x mod ncols ct)"

text \<open>The pixels of a buffer of \<open>bw\<close> times 64 pixels in width that fit into the memory.\<close>

definition in_buffer :: "GSSwizzleInfo \<Rightarrow> int \<Rightarrow> int \<Rightarrow> int \<Rightarrow> bool" where
  "in_buffer swz bw x y \<longleftrightarrow>
     (let pageW = fst (m_pageMask swz) + 1; pageH = snd (m_pageMask swz) + 1; bwPg = 64 * bw div pageW
      in 0 \<le> x \<and> x < bwPg * pageW \<and> x < 2048 \<and> 0 \<le> y \<and> y div pageH * bwPg + x div pageW < 512)"

subsection \<open>What the tables provide\<close>

text \<open>A table is a permutation, and each row differs by a constant from the row that \<open>sel\<close> names for it.\<close>

definition table_ok :: "(int \<Rightarrow> int) \<Rightarrow> int \<Rightarrow> table \<Rightarrow> bool" where
  "table_ok sel m t \<longleftrightarrow>
     list_all (\<lambda>r. length r = length (hd t)) t \<and> sort (concat t) = [0..nrows t * ncols t - 1] \<and>
     list_all (\<lambda>i. let r = t ! i; k = t ! nat (sel (int i mod m))
       in map (\<lambda>v. v - hd r) r = map (\<lambda>v. v - hd k) k) [0..<length t]"

lemma distinct_concat_nth:
  "distinct (concat t) \<Longrightarrow> i < length t \<Longrightarrow> i' < length t \<Longrightarrow> j < length (t ! i) \<Longrightarrow> j' < length (t ! i') \<Longrightarrow>
     t ! i ! j = t ! i' ! j' \<Longrightarrow> i = i' \<and> j = j'"
proof (induction t arbitrary: i i')
  case (Cons r t)
  have out: "x \<notin> set (concat t)" if "x \<in> set r" for x using Cons.prems(1) that by auto
  have deep: "t ! k ! l \<in> set (concat t)" if "k < length t" "l < length (t ! k)" for k l
    using that by (auto intro!: bexI [of _ "t ! k"])
  show ?case
    using Cons.prems Cons.IH [of "i - 1" "i' - 1"] out deep
    by (cases i; cases i') (auto simp: nth_eq_iff_index_eq, metis nth_mem, metis nth_mem)
qed simp

lemma table_ok_length: "table_ok sel m t \<Longrightarrow> k < length t \<Longrightarrow> length (t ! k) = length (hd t)"
  by (auto simp: table_ok_def list_all_iff)

lemma table_ok_inj:
  assumes "table_ok sel m t" "0 \<le> i" "i < nrows t" "0 \<le> j" "j < ncols t" "0 \<le> i'" "i' < nrows t" "0 \<le> j'" "j' < ncols t"
    and "tab t i j = tab t i' j'"
  shows "i = i'" "j = j'"
proof -
  have "distinct (concat t)"
    using assms(1) by (metis distinct_sort distinct_upto table_ok_def)
  moreover note len = table_ok_length [OF assms(1)]
  ultimately have "nat i = nat i' \<and> nat j = nat j'"
    using assms by (intro distinct_concat_nth [of t]) (auto simp: tab_def len nat_less_iff)
  then show "i = i'" "j = j'" using assms by auto
qed

lemma table_ok_range:
  assumes "table_ok sel m t" "0 \<le> i" "i < nrows t" "0 \<le> j" "j < ncols t"
  shows "0 \<le> tab t i j \<and> tab t i j < nrows t * ncols t"
proof -
  have "nat j < length (t ! nat i)" using assms table_ok_length [OF assms(1)] by (simp add: nat_less_iff)
  then have "tab t i j \<in> set (concat t)" using assms by (auto simp: tab_def intro!: bexI [of _ "t ! nat i"])
  also have "set (concat t) = set (sort (concat t))" by (simp only: set_sort)
  also have "\<dots> = {0..nrows t * ncols t - 1}" using assms(1) unfolding table_ok_def by (simp only: set_upto)
  finally show ?thesis by simp
qed

lemma table_ok_rows:
  assumes "table_ok sel m t" "0 \<le> i" "i < nrows t" "0 \<le> j" "j < ncols t"
    and "0 \<le> sel (i mod m)" "sel (i mod m) < nrows t"
  shows "tab t i j = tab t i 0 + tab t (sel (i mod m)) j - tab t (sel (i mod m)) 0"
proof -
  define r k where "r = t ! nat i" and "k = t ! nat (sel (i mod m))"
  have len: "length r = length (hd t)" "length k = length (hd t)"
    using assms by (auto simp: r_def k_def table_ok_length [OF assms(1)] nat_less_iff)
  have "map (\<lambda>v. v - hd r) r = map (\<lambda>v. v - hd k) k"
    using assms unfolding table_ok_def list_all_iff Let_def r_def k_def by (auto dest!: bspec [of _ _ "nat i"])
  then have "map (\<lambda>v. v - hd r) r ! nat j = map (\<lambda>v. v - hd k) k ! nat j" by simp
  moreover have "hd r = r ! 0" "hd k = k ! 0" "nat j < length r" "nat j < length k"
    using assms len by (auto simp: hd_conv_nth nat_less_iff simp flip: length_greater_0_conv)
  ultimately show ?thesis by (simp add: tab_def r_def k_def)
qed

locale swizzle =
  fixes swz :: GSSwizzleInfo and bt ct :: table and z :: int and psx psy bsx bsy rs :: nat and sel :: "int \<Rightarrow> int"
  assumes shifts: "m_pageShiftX swz = psx" "m_pageShiftY swz = psy" "m_blockShiftX swz = bsx" "m_blockShiftY swz = bsy"
    and masks: "m_pageMask swz = (2 ^ psx - 1, 2 ^ psy - 1)" "m_blockMask swz = (2 ^ bsx - 1, 2 ^ bsy - 1)"
      "m_pixelRowMask swz = 2 ^ rs - 1"
    and xors: "m_blockAddressXor swz = z" "m_pixelAddressXor swz = push_bit (bsx + bsy) z" "0 \<le> z" "z < 32"
    and sizes: "length bt = 2 ^ (psy - bsy)" "length (hd bt) = 2 ^ (psx - bsx)" "length ct = 2 ^ bsy" "length (hd ct) = 2 ^ bsx"
    and ranges: "6 \<le> psx" "5 \<le> psy" "bsx \<le> psx" "bsy \<le> psy" "bsx + bsy \<le> 9" "psx + psy = bsx + bsy + 5"
      "rs \<le> 3" "rs \<le> bsy" "psx - bsx \<le> 3" "psy - bsy \<le> 3" "psx \<le> 7"
    and blocks: "m_blockSwizzle swz = makeSwizzleTable bt" "table_ok (\<lambda>i. 0) 1 bt" "tab bt 0 0 = 0" "sorted (bt ! 0)"
    and pixels: "table_ok sel (2 ^ rs) ct"
    and offsets: "m_pixelSwizzleCol swz = makeColOffsetTable bt ct"
      "m_pixelSwizzleRow swz = map (\<lambda>i. makeRowOffsetTable bt ct (sel i)) [0..7]"
      "list_all (\<lambda>i. 0 \<le> sel i \<and> sel i < 2 ^ bsy) [0..2 ^ rs - 1]"
begin

lemma page_split:
  "(2 :: int) ^ psx = 2 ^ (psx - bsx) * 2 ^ bsx" "(2 :: int) ^ psy = 2 ^ (psy - bsy) * 2 ^ bsy"
  using ranges by (auto intro: pow_split)

lemma table_sizes:
  "nrows ct = 2 ^ bsy" "ncols ct = 2 ^ bsx" "nrows bt * nrows ct = 2 ^ psy" "ncols bt * ncols ct = 2 ^ psx"
  "nrows ct * ncols ct = 2 ^ (bsx + bsy)" "nrows bt * ncols bt = 32"
proof -
  show "nrows ct = 2 ^ bsy" "ncols ct = 2 ^ bsx" "nrows bt * nrows ct = 2 ^ psy" "ncols bt * ncols ct = 2 ^ psx"
    "nrows ct * ncols ct = 2 ^ (bsx + bsy)"
    using page_split by (simp_all add: sizes power_add)
  have "psy - bsy + (psx - bsx) = 5" using ranges by linarith
  then have "(2 :: int) ^ (psy - bsy) * 2 ^ (psx - bsx) = 2 ^ 5" by (simp flip: power_add)
  then show "nrows bt * ncols bt = 32" by (simp add: sizes)
qed

lemma block_entry:
  assumes "0 \<le> i" "i < nrows bt" "0 \<le> j" "j < ncols bt"
  shows "tab bt i j = tab bt i 0 + tab bt 0 j" "0 \<le> tab bt i j" "tab bt i j < 32"
proof -
  have "0 < nrows bt" using assms by linarith
  with table_ok_rows [OF blocks(2) assms] show "tab bt i j = tab bt i 0 + tab bt 0 j" by (simp add: blocks(3))
  show "0 \<le> tab bt i j" "tab bt i j < 32"
    using table_ok_range [OF blocks(2) assms] by (simp_all add: table_sizes(6))
qed

lemma sel_range: "0 \<le> sel (y mod 2 ^ rs)" "sel (y mod 2 ^ rs) < 2 ^ bsy"
  using offsets(3) unfolding list_all_upto by (simp_all add: zle_diff1_eq)

lemma pixel_entry:
  assumes "0 \<le> i" "i < nrows ct" "0 \<le> j" "j < ncols ct"
  shows "tab ct i j = tab ct i 0 + tab ct (sel (i mod 2 ^ rs)) j - tab ct (sel (i mod 2 ^ rs)) 0"
    "0 \<le> tab ct i j" "tab ct i j < 2 ^ (bsx + bsy)"
proof -
  show "tab ct i j = tab ct i 0 + tab ct (sel (i mod 2 ^ rs)) j - tab ct (sel (i mod 2 ^ rs)) 0"
    using table_ok_rows [OF pixels assms] sel_range [of i] by (simp only: table_sizes(1))
  show "0 \<le> tab ct i j" "tab ct i j < 2 ^ (bsx + bsy)"
    using table_ok_range [OF pixels assms] by (simp_all only: table_sizes(5))
qed

text \<open>An offset of a pixel in its row of pages: page, block, place in the block.\<close>

lemma pxOffset_eq:
  "pxOffset bt ct x y = (32 * (x div 2 ^ psx) + tab bt (y div 2 ^ bsy) (x mod 2 ^ psx div 2 ^ bsx)) * 2 ^ (bsx + bsy)
     + tab ct (y mod 2 ^ bsy) (x mod 2 ^ bsx)"
proof -
  have "x mod 2 ^ psx mod 2 ^ bsx = x mod 2 ^ bsx"
    using ranges by (simp add: mod_mod_cancel le_imp_power_dvd)
  moreover have "nrows ct * ncols ct * nrows bt * ncols bt = 32 * 2 ^ (bsx + bsy)"
    unfolding table_sizes(5) using table_sizes(6) by (simp add: mult.assoc)
  ultimately show ?thesis
    unfolding pxOffset_def Let_def by (simp only: table_sizes(4,5)) (simp add: algebra_simps table_sizes(1,2))
qed

lemma pxOffset_separable:
  assumes "0 \<le> x" "0 \<le> y" "y < 2 ^ psy"
  shows "pxOffset bt ct 0 y + (pxOffset bt ct x (sel (y mod 2 ^ rs)) - pxOffset bt ct 0 (sel (y mod 2 ^ rs))) = pxOffset bt ct x y"
proof -
  define k where "k = sel (y mod 2 ^ rs)"
  have k: "0 \<le> k" "k < 2 ^ bsy" by (simp_all add: k_def sel_range)
  have m: "y mod 2 ^ bsy mod 2 ^ rs = y mod 2 ^ rs"
    using ranges by (simp add: mod_mod_cancel le_imp_power_dvd)
  have iy: "0 \<le> y div 2 ^ bsy" "y div 2 ^ bsy < nrows bt"
    using assms page_split(2) by (auto simp: sizes pos_imp_zdiv_nonneg_iff intro!: int_div_less)
  have bx: "0 \<le> x mod 2 ^ psx div 2 ^ bsx" "x mod 2 ^ psx div 2 ^ bsx < ncols bt"
    by (auto simp: sizes pos_imp_zdiv_nonneg_iff page_split(1) [symmetric] intro!: int_div_less)
  have cx: "0 \<le> x mod 2 ^ bsx" "x mod 2 ^ bsx < ncols ct" and cy: "0 \<le> y mod 2 ^ bsy" "y mod 2 ^ bsy < nrows ct"
    by (simp_all add: table_sizes)
  note b = block_entry(1) [OF iy bx] and c = pixel_entry(1) [OF cy cx, unfolded m, folded k_def]
  show ?thesis
    unfolding pxOffset_eq k_def [symmetric] using k by (simp add: blocks(3) b c algebra_simps)
qed

lemma col_entry: "0 \<le> y \<Longrightarrow> m_pixelSwizzleCol swz ! nat (y AND snd (m_pageMask swz)) = pxOffset bt ct 0 (y mod 2 ^ psy)"
proof -
  have "nat (y mod 2 ^ psy) < length [0..2 ^ psy - 1]" by simp
  then show ?thesis
    unfolding offsets(1) makeColOffsetTable_def table_sizes(3) masks snd_conv and_mask_int
    by (subst nth_map) (simp_all add: nth_upto)
qed

lemma row_entry:
  "0 \<le> y \<Longrightarrow> 0 \<le> x \<Longrightarrow> x < 2048 \<Longrightarrow> (m_pixelSwizzleRow swz ! nat (y AND m_pixelRowMask swz)) x =
     pxOffset bt ct x (sel (y mod 2 ^ rs)) - pxOffset bt ct 0 (sel (y mod 2 ^ rs))"
proof -
  assume x: "0 \<le> x" "x < 2048"
  have "y mod 2 ^ rs < 2 ^ rs" by simp
  moreover have "(2 :: int) ^ rs \<le> 8" using ranges power_increasing [of rs 3 "2 :: int"] by simp
  ultimately have "y mod 2 ^ rs < 8" by linarith
  then have "nat (y mod 2 ^ rs) < length [0..7::int]" by simp
  then show ?thesis
    unfolding offsets(2) masks and_mask_int using x
    by (subst nth_map) (simp_all add: nth_upto makeRowOffsetTable_def)
qed

lemma offset_fields [simp]:
  "m_pageShiftX (make_GSOffset swz bp bw p) = psx" "m_pageShiftY (make_GSOffset swz bp bw p) = psy"
  "m_blockShiftX (make_GSOffset swz bp bw p) = bsx" "m_blockShiftY (make_GSOffset swz bp bw p) = bsy"
  "m_pageMask (make_GSOffset swz bp bw p) = m_pageMask swz" "m_blockMask (make_GSOffset swz bp bw p) = m_blockMask swz"
  "m_pixelRowMask (make_GSOffset swz bp bw p) = m_pixelRowMask swz"
  "m_blockAddressXor (make_GSOffset swz bp bw p) = z" "m_pixelAddressXor (make_GSOffset swz bp bw p) = push_bit (bsx + bsy) z"
  "m_blockSwizzle (make_GSOffset swz bp bw p) = makeSwizzleTable bt"
  "m_pixelSwizzleCol (make_GSOffset swz bp bw p) = m_pixelSwizzleCol swz"
  "m_pixelSwizzleRow (make_GSOffset swz bp bw p) = m_pixelSwizzleRow swz"
  "m_bp (make_GSOffset swz bp bw p) = bp" "m_psm_id (make_GSOffset swz bp bw p) = p"
  by (simp_all add: make_GSOffset_def GSSwizzleInfo.extend_def GSOffset.fields_def shifts xors blocks)

lemma bwPg_eq [simp]: "m_bwPg (make_GSOffset swz bp bw p) = 64 * bw div 2 ^ psx"
proof -
  have "(2 :: int) ^ psx = 64 * 2 ^ (psx - 6)" using ranges pow_split [of 6 psx] by simp
  then show ?thesis
    by (simp add: make_GSOffset_def GSSwizzleInfo.extend_def GSOffset.fields_def shifts drop_bit_eq_div div_mult_mult1)
qed

lemma page_part: "5 \<le> n \<Longrightarrow> (k :: int) div 2 ^ (n - 5) AND - 32 = 32 * (k div 2 ^ n)"
  using and_not_mask_int [of "k div 2 ^ (n - 5)" 5] pow_split [of 5 n] by (simp add: zdiv_zmult2_eq)

lemma swizzle_entry:
  "tab (makeSwizzleTable bt) (i AND 7) (j AND 7) = tab bt (i mod nrows bt) (j mod ncols bt)"
proof -
  have seven: "k AND 7 = k mod 8" for k :: int using and_mask_int [of k 3] by simp
  have "2 ^ n dvd (2 ^ 3 :: int)" if "n \<le> 3" for n :: nat using that by (rule le_imp_power_dvd)
  then have "nrows bt dvd 8" "ncols bt dvd 8" using ranges by (simp_all add: sizes)
  then have m: "i mod 8 mod nrows bt = i mod nrows bt" "j mod 8 mod ncols bt = j mod ncols bt"
    by (simp_all add: mod_mod_cancel)
  have n: "nat (k mod 8) < length [0..7::int]" for k :: int by simp
  show ?thesis
    unfolding makeSwizzleTable_def seven using n
    by (simp add: tab_def [of "map f [0..7]" for f] nth_upto m del: length_upto)
qed

text \<open>The tile of a pixel: its block before the exclusive or.\<close>

definition tile :: "int \<Rightarrow> int \<Rightarrow> int" where
  "tile x y = tab bt (y mod 2 ^ psy div 2 ^ bsy) (x mod 2 ^ psx div 2 ^ bsx)"

lemma tile_range: "0 \<le> tile x y" "tile x y < 32"
  unfolding tile_def
  by (intro block_entry; auto simp: sizes pos_imp_zdiv_nonneg_iff page_split [symmetric] intro!: int_div_less)+

lemma block_spec_eq:
  "block_spec bt ct z bp bw x y =
     ((bp + 32 * (y div 2 ^ psy * (64 * bw div 2 ^ psx) + x div 2 ^ psx) + tile x y) XOR z) mod 16384"
  unfolding block_spec_def Let_def tile_def by (simp only: table_sizes(3,4)) (simp only: table_sizes(1,2))

lemma pixel_spec_eq:
  "pixel_spec bt ct z bp bw x y = block_spec bt ct z bp bw x y * 2 ^ (bsx + bsy) + tab ct (y mod 2 ^ bsy) (x mod 2 ^ bsx)"
  unfolding pixel_spec_def by (simp only: table_sizes(5)) (simp only: table_sizes(1,2))

lemma bn_eq: "swizzle_bn swz x y bp bw = block_spec bt ct z bp bw x y"
proof -
  have "y div 2 ^ bsy mod nrows bt = y mod 2 ^ psy div 2 ^ bsy" "x div 2 ^ bsx mod ncols bt = x mod 2 ^ psx div 2 ^ bsx"
    unfolding page_split by (simp_all add: sizes mod_div_int)
  moreover have "5 \<le> psx" "5 \<le> psy" using ranges by auto
  ultimately show ?thesis
    unfolding block_spec_eq tile_def
    by (simp add: swizzle_bn_def bn_def bn_value_def valueNoWrap_def bnMulti_def Let_def swizzle_entry page_part
        drop_bit_eq_div mod_mod_cancel GS_MAX_BLOCKS_def algebra_simps)
qed

lemma raw_eq:
  assumes "0 \<le> y"
  shows "pixelAddressZeroXRaw (make_GSOffset swz bp bw p) y =
    (bp + 32 * (y div 2 ^ psy * (64 * bw div 2 ^ psx))) mod 16384 * 2 ^ (bsx + bsy) + pxOffset bt ct 0 (y mod 2 ^ psy)"
proof -
  have area: "(2 :: int) ^ psy * 2 ^ psx = 32 * 2 ^ (bsx + bsy)"
    using ranges by (simp add: add.commute [of psy] flip: power_add) (simp add: power_add)
  define w where "w = 64 * bw div 2 ^ psx"
  have "push_bit (psx + psy) (512 :: int) - 1 = 2 ^ (14 + (bsx + bsy)) - 1"
    using ranges by (simp add: push_bit_eq_mult power_add)
  moreover have "push_bit (psx + psy - 5) bp + push_bit psx ((y AND NOT (2 ^ psy - 1)) * w) =
      (bp + 32 * (y div 2 ^ psy * w)) * 2 ^ (bsx + bsy)"
  proof -
    have "psx + psy - 5 = bsx + bsy" using ranges by simp
    moreover have "y div 2 ^ psy * 2 ^ psy * w * 2 ^ psx = y div 2 ^ psy * w * (2 ^ psy * 2 ^ psx)" by simp
    ultimately show ?thesis
      unfolding push_bit_eq_mult and_not_mask_int by (simp only: area) (simp add: algebra_simps)
  qed
  moreover have "k * 2 ^ (bsx + bsy) AND (2 ^ (14 + (bsx + bsy)) - 1) = k mod 16384 * 2 ^ (bsx + bsy)" for k :: int
    unfolding and_mask_int by (simp only: power_add [of 2 14] mult.commute [of "2 ^ 14"] mult.commute [of k] mod_mult_mult1)
      (simp add: mult.commute)
  ultimately show ?thesis
    using col_entry [OF assms] by (simp add: pixelAddressZeroXRaw_def Let_def GS_MAX_PAGES_def masks w_def)
qed

lemma pixel_place:
  "0 \<le> tab ct (y mod 2 ^ bsy) (x mod 2 ^ bsx)" "tab ct (y mod 2 ^ bsy) (x mod 2 ^ bsx) < 2 ^ (bsx + bsy)"
  by (intro pixel_entry; simp add: table_sizes)+

lemma pa_eq:
  assumes "0 \<le> x" "x < 2048" "0 \<le> y"
  shows "swizzle_pa swz x y bp bw =
    (((bp + 32 * (y div 2 ^ psy * (64 * bw div 2 ^ psx))) mod 16384 + 32 * (x div 2 ^ psx) + tile x y) XOR z) * 2 ^ (bsx + bsy)
      + tab ct (y mod 2 ^ bsy) (x mod 2 ^ bsx)" (is "_ = (?a XOR z) * _ + ?c")
    and "swizzle_pa swz x y bp bw < 2 * 16384 * 2 ^ (bsx + bsy)" "0 \<le> swizzle_pa swz x y bp bw"
proof -
  have m: "y mod 2 ^ psy mod 2 ^ rs = y mod 2 ^ rs" "y mod 2 ^ psy mod 2 ^ bsy = y mod 2 ^ bsy"
    using ranges by (simp_all add: mod_mod_cancel le_imp_power_dvd)
  have row: "(m_pixelSwizzleRow swz ! nat (y AND m_pixelRowMask swz)) x =
      pxOffset bt ct x (y mod 2 ^ psy) - pxOffset bt ct 0 (y mod 2 ^ psy)"
    using row_entry [OF assms(3,1,2)] pxOffset_separable [OF assms(1), of "y mod 2 ^ psy"] by (simp add: m)
  have "pixelAddressZeroXRaw (make_GSOffset swz bp bw 0) y + (m_pixelSwizzleRow swz ! nat (y AND m_pixelRowMask swz)) x =
      ?a * 2 ^ (bsx + bsy) + ?c"
    by (simp add: raw_eq [OF assms(3)] row pxOffset_eq m tile_def algebra_simps)
  moreover have "(?a * 2 ^ (bsx + bsy) + ?c) XOR push_bit (bsx + bsy) z = (?a XOR z) * 2 ^ (bsx + bsy) + ?c"
    by (rule xor_high [OF pixel_place])
  ultimately have raw: "swizzle_pa swz x y bp bw = ((?a XOR z) * 2 ^ (bsx + bsy) + ?c) mod 2 ^ 32"
    by (simp add: swizzle_pa_def pa_def pa_value_def paMulti_def)
  have "x div 2 ^ psx \<le> x div 2 ^ 6"
    using assms(1) ranges by (intro zdiv_mono2 power_increasing) auto
  then have tx: "0 \<le> x div 2 ^ psx" "x div 2 ^ psx < 32"
    using assms by (auto simp: pos_imp_zdiv_nonneg_iff)
  have "0 \<le> (k :: int) mod 16384" "k mod 16384 < 16384" for k by simp_all
  then have a: "0 \<le> ?a" "?a < 32 * 1024" using tx tile_range [of x y] by (simp_all add: add_nonneg_nonneg)
  note x = xor_small [OF a xors(3,4)]
  have "(?a XOR z) * 2 ^ (bsx + bsy) + ?c < ((?a XOR z) + 1) * 2 ^ (bsx + bsy)"
    using pixel_place [of y x] by (simp add: algebra_simps)
  also have "\<dots> \<le> 32768 * 2 ^ (bsx + bsy)" using x(2) by (intro mult_right_mono) simp_all
  finally have u: "(?a XOR z) * 2 ^ (bsx + bsy) + ?c < 32768 * 2 ^ (bsx + bsy)" .
  have l: "0 \<le> (?a XOR z) * 2 ^ (bsx + bsy) + ?c" using x(1) pixel_place [of y x] by simp
  have "(2 :: int) ^ (bsx + bsy) \<le> 2 ^ 9" using ranges by (intro power_increasing) auto
  then have "(?a XOR z) * 2 ^ (bsx + bsy) + ?c < 2 ^ 32" using u by simp
  then show e: "swizzle_pa swz x y bp bw = (?a XOR z) * 2 ^ (bsx + bsy) + ?c" using l raw by simp
  show "swizzle_pa swz x y bp bw < 2 * 16384 * 2 ^ (bsx + bsy)" "0 \<le> swizzle_pa swz x y bp bw"
    using u l by (simp_all add: e)
qed

lemma pa_spec:
  assumes "0 \<le> x" "x < 2048" "0 \<le> y"
  shows "swizzle_pa swz x y bp bw mod (16384 * (nrows ct * ncols ct)) = pixel_spec bt ct z bp bw x y"
proof -
  let ?p = "bp + 32 * (y div 2 ^ psy * (64 * bw div 2 ^ psx))"
  have "(?p mod 16384 + 32 * (x div 2 ^ psx) + tile x y) mod 2 ^ 14 = (?p + 32 * (x div 2 ^ psx) + tile x y) mod 2 ^ 14"
    by (simp add: mod_simps add.assoc)
  moreover have "z < 2 ^ 14" using xors by simp
  ultimately have "((?p mod 16384 + 32 * (x div 2 ^ psx) + tile x y) XOR z) mod 2 ^ 14 = ((?p + 32 * (x div 2 ^ psx) + tile x y) XOR z) mod 2 ^ 14"
    by (simp only: xor_mod [OF xors(3)])
  then have b: "((?p mod 16384 + 32 * (x div 2 ^ psx) + tile x y) XOR z) mod 16384 = block_spec bt ct z bp bw x y"
    by (simp add: block_spec_eq algebra_simps)
  have "(k * n + c) mod (16384 * n) = k mod 16384 * n + c" if "0 \<le> c" "c < n" for k n c :: int
  proof -
    have "(k * n + c) div n = k" "(k * n + c) mod n = c" using that by simp_all
    then show ?thesis using that by (simp add: mult.commute [of 16384] zmod_zmult2_eq)
  qed
  from this [OF pixel_place] show ?thesis
    unfolding pa_eq(1) [OF assms] pixel_spec_eq table_sizes(5) by (simp add: b)
qed

lemma tile_inj:
  assumes "tile x y = tile x' y'" "tab ct (y mod 2 ^ bsy) (x mod 2 ^ bsx) = tab ct (y' mod 2 ^ bsy) (x' mod 2 ^ bsx)"
  shows "x mod 2 ^ psx = x' mod 2 ^ psx" "y mod 2 ^ psy = y' mod 2 ^ psy"
proof -
  have r: "0 \<le> k mod 2 ^ psy div 2 ^ bsy" "k mod 2 ^ psy div 2 ^ bsy < nrows bt"
    "0 \<le> k mod 2 ^ psx div 2 ^ bsx" "k mod 2 ^ psx div 2 ^ bsx < ncols bt" for k :: int
    by (auto simp: sizes pos_imp_zdiv_nonneg_iff page_split [symmetric] intro!: int_div_less)
  have q: "0 \<le> k mod 2 ^ bsy" "k mod 2 ^ bsy < nrows ct" "0 \<le> k mod 2 ^ bsx" "k mod 2 ^ bsx < ncols ct" for k :: int
    by (simp_all add: table_sizes)
  note b = table_ok_inj [OF blocks(2) r(1) r(2) r(3) r(4) r(1) r(2) r(3) r(4) assms(1) [unfolded tile_def]]
  note c = table_ok_inj [OF pixels q(1) q(2) q(3) q(4) q(1) q(2) q(3) q(4) assms(2)]
  have join: "u mod 2 ^ m = v mod 2 ^ m"
    if "u mod 2 ^ m div 2 ^ n = v mod 2 ^ m div 2 ^ n" "u mod 2 ^ n = v mod 2 ^ n" "n \<le> m" for u v :: int and m n :: nat
  proof -
    have "w mod 2 ^ m mod 2 ^ n = w mod 2 ^ n" for w :: int using that(3) by (simp add: mod_mod_cancel le_imp_power_dvd)
    then show ?thesis using that(1,2) by (metis div_mult_mod_eq)
  qed
  show "x mod 2 ^ psx = x' mod 2 ^ psx" "y mod 2 ^ psy = y' mod 2 ^ psy"
    using join b c ranges(3,4) by blast+
qed

lemma pixel_spec_inj:
  assumes "in_buffer swz bw x y" "in_buffer swz bw x' y'" and eq: "pixel_spec bt ct z bp bw x y = pixel_spec bt ct z bp bw x' y'"
  shows "x = x' \<and> y = y'"
proof -
  define w where "w = 64 * bw div 2 ^ psx"
  have buf: "0 \<le> x" "x < w * 2 ^ psx" "0 \<le> y" "y div 2 ^ psy * w + x div 2 ^ psx < 512"
    "0 \<le> x'" "x' < w * 2 ^ psx" "0 \<le> y'" "y' div 2 ^ psy * w + x' div 2 ^ psx < 512"
    using assms(1,2) by (simp_all add: in_buffer_def masks Let_def w_def)
  have b: "block_spec bt ct z bp bw x y = block_spec bt ct z bp bw x' y'"
    and c: "tab ct (y mod 2 ^ bsy) (x mod 2 ^ bsx) = tab ct (y' mod 2 ^ bsy) (x' mod 2 ^ bsx)"
    using euclid_unique [OF pixel_place pixel_place] eq unfolding pixel_spec_eq by blast+
  have "0 < w" using buf(1,2) by (smt (verit) mult_nonpos_nonneg zero_le_power)
  then have pg0: "0 \<le> y div 2 ^ psy * w + x div 2 ^ psx" "0 \<le> y' div 2 ^ psy * w + x' div 2 ^ psx"
    using buf by (auto simp: pos_imp_zdiv_nonneg_iff intro!: add_nonneg_nonneg mult_nonneg_nonneg)
  let ?n = "\<lambda>x y. 32 * (y div 2 ^ psy * w + x div 2 ^ psx) + tile x y"
  have n: "0 \<le> ?n x y" "?n x y < 16384" "0 \<le> ?n x' y'" "?n x' y' < 16384"
    using buf tile_range [of x y] tile_range [of x' y'] pg0 by auto
  have "z < 2 ^ 14" using xors by simp
  note xm = xor_mod [OF xors(3) this]
  have "((bp + ?n x y) mod 2 ^ 14 XOR z) = ((bp + ?n x' y') mod 2 ^ 14 XOR z)"
    using b unfolding block_spec_eq w_def [symmetric] xm [symmetric] by (simp add: add.assoc)
  then have "(bp + ?n x y) mod 2 ^ 14 = (bp + ?n x' y') mod 2 ^ 14"
    by (rule xor_cancel)
  from mod_diff_cong [OF this refl, of bp] have "?n x y mod 2 ^ 14 = ?n x' y' mod 2 ^ 14" by (simp only: add_diff_cancel_left')
  then have "?n x y = ?n x' y'" using n by simp
  then have t: "tile x y = tile x' y'" and pg: "y div 2 ^ psy * w + x div 2 ^ psx = y' div 2 ^ psy * w + x' div 2 ^ psx"
    using euclid_unique [OF tile_range tile_range] by (metis mult.commute)+
  have dx: "0 \<le> x div 2 ^ psx" "x div 2 ^ psx < w" "0 \<le> x' div 2 ^ psx" "x' div 2 ^ psx < w"
    using buf by (auto simp: pos_imp_zdiv_nonneg_iff intro!: int_div_less)
  note d = euclid_unique [OF dx pg]
  show ?thesis using div_mod_eqI tile_inj [OF t c] d by blast
qed

text \<open>The position of the block loop at block column \<open>i\<close> and row \<open>j\<close>, started at column \<open>i0\<close>.\<close>

definition at_block :: "int \<Rightarrow> int \<Rightarrow> int \<Rightarrow> int \<Rightarrow> int \<Rightarrow> BNHelper" where
  "at_block bp bw i0 i j =
     (let blk = (\<lambda>i. bp + 32 * (j div 2 ^ (psy - bsy) * (64 * bw div 2 ^ psx) + i div 2 ^ (psx - bsx)))
      in \<lparr>bn_blockSwizzle = makeSwizzleTable bt, bn_baseBP = blk i0, bn_bp = blk i, bn_baseBlkX = i0, bn_blkX = i, bn_blkY = j,
          bn_pageMaskX = 2 ^ (psx - bsx) - 1, bn_pageMaskY = 2 ^ (psy - bsy) - 1, bn_addY = 32 * (64 * bw div 2 ^ psx), bn_xor = z\<rparr>)"

lemma bnMulti_at:
  "bnMulti (make_GSOffset swz bp bw p) x y = at_block bp bw (x div 2 ^ bsx) (x div 2 ^ bsx) (y div 2 ^ bsy)"
proof -
  have "x div 2 ^ psx = x div 2 ^ bsx div 2 ^ (psx - bsx)" "y div 2 ^ psy = y div 2 ^ bsy div 2 ^ (psy - bsy)"
    unfolding page_split by (simp_all add: zdiv_zmult2_eq mult.commute [of _ "2 ^ bsx"] mult.commute [of _ "2 ^ bsy"])
  moreover have "5 \<le> psx" "5 \<le> psy" using ranges by auto
  ultimately show ?thesis
    by (simp add: bnMulti_def at_block_def Let_def drop_bit_eq_div page_part push_bit_eq_mult algebra_simps)
qed

lemma div_step: "0 < n \<Longrightarrow> (k + 1) div n = k div n + (if (k + 1) mod n = 0 then 1 else 0)" for n k :: int
  using last_eq [of n "k + 1"] by simp

lemma nextBlock_at:
  "nextBlockX (at_block bp bw i0 i j) = at_block bp bw i0 (i + 1) j"
  "nextBlockY (at_block bp bw i0 i j) = at_block bp bw i0 i0 (j + 1)"
  by (simp_all add: nextBlockX_def nextBlockY_def at_block_def Let_def and_mask_int div_step distrib_left distrib_right)

lemma value_at: "bn_value (at_block bp bw i0 i j) = swizzle_bn swz (i * 2 ^ bsx) (j * 2 ^ bsy) bp bw"
  by (simp add: swizzle_bn_def bn_def bnMulti_at at_block_def Let_def bn_value_def valueNoWrap_def)

lemma row_at:
  "loopBlocks_row R (\<lambda>n ns. ns @ [n]) (at_block bp bw i0 i j) s =
     (at_block bp bw i0 (max i R) j, s @ map (\<lambda>i. swizzle_bn swz (i * 2 ^ bsx) (j * 2 ^ bsy) bp bw) [i..R - 1])"
proof (induction "nat (R - i)" arbitrary: i s)
  case 0
  then show ?case by (subst loopBlocks_row.simps) (simp add: at_block_def [of _ _ _ i] Let_def max_def)
next
  case (Suc k)
  then have "bn_blkX (at_block bp bw i0 i j) < R" "max (i + 1) R = max i R" "k = nat (R - (i + 1))" by (auto simp: at_block_def Let_def)
  with Suc.hyps(1) [of "i + 1"] show ?case
    using Suc.hyps(2) by (subst loopBlocks_row.simps) (simp add: nextBlock_at value_at upto_rec1 [of i])
qed

lemma rows_at:
  "loopBlocks_rows R B (\<lambda>n ns. ns @ [n]) (at_block bp bw i0 i0 j) s =
     s @ concat (map (\<lambda>j. map (\<lambda>i. swizzle_bn swz (i * 2 ^ bsx) (j * 2 ^ bsy) bp bw) [i0..R - 1]) [j..B - 1])"
proof (induction "nat (B - j)" arbitrary: j s)
  case 0
  then show ?case by (subst loopBlocks_rows.simps) (simp add: at_block_def [of _ _ _ i0] Let_def)
next
  case (Suc k)
  then have "bn_blkY (at_block bp bw i0 i0 j) < B" "k = nat (B - (j + 1))" by (auto simp: at_block_def Let_def)
  with Suc.hyps(1) [of "j + 1"] show ?case
    using Suc.hyps(2) by (subst loopBlocks_rows.simps) (simp add: nextBlock_at row_at upto_rec1 [of j])
qed

lemma loopBlocks_eq:
  "loopBlocks (make_GSOffset swz bp bw p) \<lparr>r_left = l, r_top = t, r_right = r, r_bottom = b\<rparr> (\<lambda>n ns. ns @ [n]) [] =
     concat (map (\<lambda>j. map (\<lambda>i. block_spec bt ct z bp bw (i * ncols ct) (j * nrows ct)) [l div ncols ct..(r - 1) div ncols ct])
       [t div nrows ct..(b - 1) div nrows ct])"
  by (simp add: loopBlocks_def bnMulti_at rows_at masks drop_bit_eq_div ceil_pow table_sizes(1,2) bn_eq)

end

subsection \<open>The eight swizzles\<close>

lemmas swizzle_defs = make_GSSwizzleInfo_def Let_def ilog2.simps swizzle32_def swizzle32Z_def swizzle16_def
  swizzle16S_def swizzle16Z_def swizzle16SZ_def swizzle8_def swizzle4_def swizzleTables32_def
  swizzleTables16_def swizzleTables16S_def swizzleTables8_def swizzleTables4_def

definition rowsel :: "int \<Rightarrow> int" where "rowsel i = (if i \<in> {2, 3, 4, 5} then 2 else 0)"

lemma upto_07: "[0..7::int] = [0, 1, 2, 3, 4, 5, 6, 7]"
  by code_simp

lemma tables_ok:
  "table_ok (\<lambda>i. 0) 1 raw_blockTable32" "table_ok (\<lambda>i. 0) 1 raw_blockTable16" "table_ok (\<lambda>i. 0) 1 raw_blockTable16S"
  "table_ok (\<lambda>i. 0) 1 raw_blockTable8" "table_ok (\<lambda>i. 0) 1 raw_blockTable4"
  "table_ok (\<lambda>i. 0) 1 columnTable32" "table_ok (\<lambda>i. 0) 1 columnTable16" "table_ok rowsel 8 columnTable8"
  "table_ok rowsel 8 columnTable4"
  by code_simp+

lemma table_facts:
  "length raw_blockTable32 = 4" "length (hd raw_blockTable32) = 8" "length raw_blockTable8 = 4" "length (hd raw_blockTable8) = 8"
  "length raw_blockTable16 = 8" "length (hd raw_blockTable16) = 4" "length raw_blockTable16S = 8" "length (hd raw_blockTable16S) = 4"
  "length raw_blockTable4 = 8" "length (hd raw_blockTable4) = 4" "length columnTable32 = 8" "length (hd columnTable32) = 8"
  "length columnTable16 = 8" "length (hd columnTable16) = 16" "length columnTable8 = 16" "length (hd columnTable8) = 16"
  "length columnTable4 = 16" "length (hd columnTable4) = 32"
  "tab raw_blockTable32 0 0 = 0" "tab raw_blockTable16 0 0 = 0" "tab raw_blockTable16S 0 0 = 0" "tab raw_blockTable8 0 0 = 0"
  "tab raw_blockTable4 0 0 = 0" "sorted (raw_blockTable32 ! 0)" "sorted (raw_blockTable16 ! 0)" "sorted (raw_blockTable16S ! 0)"
  "sorted (raw_blockTable8 ! 0)" "sorted (raw_blockTable4 ! 0)"
  by (simp_all add: raw_blockTable32_def raw_blockTable16_def raw_blockTable16S_def raw_blockTable8_def raw_blockTable4_def
      columnTable32_def columnTable16_def columnTable8_def columnTable4_def tab_def)

lemmas swizzle_facts = swizzle_defs tables_ok table_facts push_bit_eq_mult upto_07 rowsel_def
  blockTable32_def blockTable16_def blockTable16S_def blockTable8_def blockTable4_def
  pixelColOffset32_def pixelColOffset16_def pixelColOffset16S_def pixelColOffset8_def pixelColOffset4_def
  pixelRowOffset32_def pixelRowOffset16_def pixelRowOffset16S_def pixelRowOffset8_def pixelRowOffset4_def
  makeRowOffsetTableList1_def makeRowOffsetTableList2_def

interpretation sw32: swizzle swizzle32 raw_blockTable32 columnTable32 "0" "6" "5" "3" "3" "0" "\<lambda>i. 0"
  by (rule swizzle.intro) (simp_all add: swizzle_facts)

interpretation sw32Z: swizzle swizzle32Z raw_blockTable32 columnTable32 "24" "6" "5" "3" "3" "0" "\<lambda>i. 0"
  by (rule swizzle.intro) (simp_all add: swizzle_facts)

interpretation sw16: swizzle swizzle16 raw_blockTable16 columnTable16 "0" "6" "6" "4" "3" "0" "\<lambda>i. 0"
  by (rule swizzle.intro) (simp_all add: swizzle_facts)

interpretation sw16S: swizzle swizzle16S raw_blockTable16S columnTable16 "0" "6" "6" "4" "3" "0" "\<lambda>i. 0"
  by (rule swizzle.intro) (simp_all add: swizzle_facts)

interpretation sw16Z: swizzle swizzle16Z raw_blockTable16 columnTable16 "24" "6" "6" "4" "3" "0" "\<lambda>i. 0"
  by (rule swizzle.intro) (simp_all add: swizzle_facts)

interpretation sw16SZ: swizzle swizzle16SZ raw_blockTable16S columnTable16 "24" "6" "6" "4" "3" "0" "\<lambda>i. 0"
  by (rule swizzle.intro) (simp_all add: swizzle_facts)

interpretation sw8: swizzle swizzle8 raw_blockTable8 columnTable8 "0" "7" "6" "4" "4" "3" rowsel
  by (rule swizzle.intro) (simp_all add: swizzle_facts)

interpretation sw4: swizzle swizzle4 raw_blockTable4 columnTable4 "0" "7" "7" "5" "4" "3" rowsel
  by (rule swizzle.intro) (simp_all add: swizzle_facts)

text \<open>The swizzles with their block table, pixel table and the exclusive or of the depth formats.\<close>

definition swizzles :: "(GSSwizzleInfo \<times> table \<times> table \<times> int) list" where
  "swizzles = [(swizzle32, raw_blockTable32, columnTable32, 0), (swizzle32Z, raw_blockTable32, columnTable32, 0x18),
     (swizzle16, raw_blockTable16, columnTable16, 0), (swizzle16S, raw_blockTable16S, columnTable16, 0),
     (swizzle16Z, raw_blockTable16, columnTable16, 0x18), (swizzle16SZ, raw_blockTable16S, columnTable16, 0x18),
     (swizzle8, raw_blockTable8, columnTable8, 0), (swizzle4, raw_blockTable4, columnTable4, 0)]"

lemma swizzles_locale:
  assumes "(swz, bt, ct, z) \<in> set swizzles"
  obtains psx psy bsx bsy rs sel where "swizzle swz bt ct z psx psy bsx bsy rs sel"
  using assms sw32.swizzle_axioms sw32Z.swizzle_axioms sw16.swizzle_axioms sw16S.swizzle_axioms sw16Z.swizzle_axioms
    sw16SZ.swizzle_axioms sw8.swizzle_axioms sw4.swizzle_axioms by (auto simp: swizzles_def)

lemma address_facts:
  fixes x y l t r b bp bw p :: int
  assumes "(swz, bt, ct, z) \<in> set swizzles"
  shows "swizzle_bn swz x y bp bw = block_spec bt ct z bp bw x y"
    "0 \<le> x \<Longrightarrow> x < 2048 \<Longrightarrow> 0 \<le> y \<Longrightarrow> swizzle_pa swz x y bp bw mod (16384 * (nrows ct * ncols ct)) = pixel_spec bt ct z bp bw x y"
    "0 \<le> x \<Longrightarrow> x < 2048 \<Longrightarrow> 0 \<le> y \<Longrightarrow> 0 \<le> swizzle_pa swz x y bp bw \<and> swizzle_pa swz x y bp bw < 2 * 16384 * (nrows ct * ncols ct)"
    "in_buffer swz bw x y \<Longrightarrow> in_buffer swz bw x' y' \<Longrightarrow> pixel_spec bt ct z bp bw x y = pixel_spec bt ct z bp bw x' y' \<Longrightarrow> x = x' \<and> y = y'"
    "loopBlocks (make_GSOffset swz bp bw p) \<lparr>r_left = l, r_top = t, r_right = r, r_bottom = b\<rparr> (\<lambda>n ns. ns @ [n]) [] =
       concat (map (\<lambda>j. map (\<lambda>i. block_spec bt ct z bp bw (i * ncols ct) (j * nrows ct)) [l div ncols ct..(r - 1) div ncols ct])
         [t div nrows ct..(b - 1) div nrows ct])"
    "0 \<le> tab ct (y mod nrows ct) (x mod ncols ct) \<and> tab ct (y mod nrows ct) (x mod ncols ct) < nrows ct * ncols ct"
proof -
  obtain psx psy bsx bsy rs sel where s: "swizzle swz bt ct z psx psy bsx bsy rs sel" using swizzles_locale [OF assms] .
  note size = swizzle.table_sizes [OF s]
  show "swizzle_bn swz x y bp bw = block_spec bt ct z bp bw x y" by (rule swizzle.bn_eq [OF s])
  show "swizzle_pa swz x y bp bw mod (16384 * (nrows ct * ncols ct)) = pixel_spec bt ct z bp bw x y" if "0 \<le> x" "x < 2048" "0 \<le> y"
    by (rule swizzle.pa_spec [OF s that])
  show "0 \<le> swizzle_pa swz x y bp bw \<and> swizzle_pa swz x y bp bw < 2 * 16384 * (nrows ct * ncols ct)" if "0 \<le> x" "x < 2048" "0 \<le> y"
    unfolding size(5) using swizzle.pa_eq(2,3) [OF s that] by blast
  show "x = x' \<and> y = y'" if "in_buffer swz bw x y" "in_buffer swz bw x' y'" "pixel_spec bt ct z bp bw x y = pixel_spec bt ct z bp bw x' y'"
    by (rule swizzle.pixel_spec_inj [OF s that])
  show "loopBlocks (make_GSOffset swz bp bw p) \<lparr>r_left = l, r_top = t, r_right = r, r_bottom = b\<rparr> (\<lambda>n ns. ns @ [n]) [] =
       concat (map (\<lambda>j. map (\<lambda>i. block_spec bt ct z bp bw (i * ncols ct) (j * nrows ct)) [l div ncols ct..(r - 1) div ncols ct])
         [t div nrows ct..(b - 1) div nrows ct])"
    by (rule swizzle.loopBlocks_eq [OF s])
  show "0 \<le> tab ct (y mod nrows ct) (x mod ncols ct) \<and> tab ct (y mod nrows ct) (x mod ncols ct) < nrows ct * ncols ct"
    unfolding size(5) unfolding size(1,2) using swizzle.pixel_place [OF s] by blast
qed

text \<open>C36: in every swizzle, the address of a pixel, which the code adds up from a base, a column table and a row table, is the place
  that the block table and the column table describe: the block of the pixel in its page, with the depth formats' exclusive
  or, then the pixel in its block, up to the wrap of the memory, of which it stays within two copies. The block number of a pixel
  agrees with its address, and the loop over the blocks of a rectangle gives the block numbers row by row.\<close>
theorem pixel_addresses:
  assumes "(swz, bt, ct, z) \<in> set swizzles" and "0 \<le> x" "x < 2048" "0 \<le> y"
  defines "area \<equiv> nrows ct * ncols ct"
  shows "swizzle_pa swz x y bp bw mod (16384 * area) = pixel_spec bt ct z bp bw x y \<and>
    0 \<le> swizzle_pa swz x y bp bw \<and> swizzle_pa swz x y bp bw < 2 * (16384 * area) \<and>
    swizzle_bn swz x y bp bw = block_spec bt ct z bp bw x y \<and>
    swizzle_bn swz x y bp bw = swizzle_pa swz x y bp bw div area mod 16384 \<and>
    loopBlocks (make_GSOffset swz bp bw p) \<lparr>r_left = l, r_top = t, r_right = r, r_bottom = b\<rparr> (\<lambda>n ns. ns @ [n]) [] =
      concat (map (\<lambda>j. map (\<lambda>i. swizzle_bn swz (i * ncols ct) (j * nrows ct) bp bw) [l div ncols ct..(r - 1) div ncols ct])
        [t div nrows ct..(b - 1) div nrows ct])"
proof -
  note facts = address_facts [OF assms(1)]
  have pa: "swizzle_pa swz x y bp bw mod (16384 * area) = pixel_spec bt ct z bp bw x y"
    unfolding area_def by (rule facts(2) [OF assms(2-4)])
  have c: "0 \<le> tab ct (y mod nrows ct) (x mod ncols ct)" "tab ct (y mod nrows ct) (x mod ncols ct) < area"
    using facts(6) [of y x] by (auto simp: area_def)
  then have "swizzle_pa swz x y bp bw div area mod 16384 = pixel_spec bt ct z bp bw x y div area"
    using mod_div_int [of area 16384 "swizzle_pa swz x y bp bw"] pa by simp
  also have "\<dots> = block_spec bt ct z bp bw x y"
    using c by (simp add: pixel_spec_def area_def [symmetric])
  finally have bn: "swizzle_bn swz x y bp bw = swizzle_pa swz x y bp bw div area mod 16384" by (simp only: facts(1))
  show ?thesis
    using pa bn facts(3) [OF assms(2-4), of bp bw] facts(5) [of bp bw p l t r b] by (simp add: area_def facts(1))
qed

theorem pixel_addresses_witness:
  "swizzle_pa swizzle32Z 70 40 33 10 mod (16384 * 64) = pixel_spec raw_blockTable32 columnTable32 0x18 33 10 70 40 \<and>
   swizzle_bn swizzle32Z 70 40 33 10 = swizzle_pa swizzle32Z 70 40 33 10 div 64 mod 16384"
  using pixel_addresses [of swizzle32Z raw_blockTable32 columnTable32 "0x18" 70 40 33 10 0 0 0 0 0]
  by (simp add: swizzles_def table_facts)

end
