(* ===== verification/GS_Pages.thy ===== *)
theory GS_Pages
  imports GS_LocalMemory
begin

text \<open>
  The pages that a rectangle of a buffer touches: \<open>GSOffset::pageLooperForRect\<close> and
  \<open>PageLooper::loopPagesWithBreak\<close> of src/pcsx2/GS/GSLocalMemory.cpp and GSLocalMemory.h.
\<close>

subsection \<open>Computing the loop\<close>

record PageLooper =
  firstRowPgXStart :: int
  firstRowPgXEnd :: int
  midRowPgXStart :: int
  midRowPgXEnd :: int
  lastRowPgXStart :: int
  lastRowPgXEnd :: int
  pl_bp :: int
  yInc :: int
  yCnt :: int
  slowPath :: bool

record TextureAligned =
  ox1 :: int
  oy1 :: int
  ox2 :: int
  oy2 :: int
  ix1 :: int
  iy1 :: int
  ix2 :: int
  iy2 :: int

definition ralign_outside :: "int \<times> int \<Rightarrow> GSVector4i \<Rightarrow> GSVector4i" where
  "ralign_outside mk r =
     \<lparr>r_left = r_left r AND NOT (fst mk), r_top = r_top r AND NOT (snd mk),
      r_right = (r_right r + fst mk) AND NOT (fst mk), r_bottom = (r_bottom r + snd mk) AND NOT (snd mk)\<rparr>"

definition ralign_inside :: "int \<times> int \<Rightarrow> GSVector4i \<Rightarrow> GSVector4i" where
  "ralign_inside mk r =
     \<lparr>r_left = (r_left r + fst mk) AND NOT (fst mk), r_top = (r_top r + snd mk) AND NOT (snd mk),
      r_right = r_right r AND NOT (fst mk), r_bottom = r_bottom r AND NOT (snd mk)\<rparr>"

definition align :: "GSVector4i \<Rightarrow> int \<times> int \<Rightarrow> int \<times> int \<Rightarrow> nat \<Rightarrow> nat \<Rightarrow> TextureAligned" where
  "align r blockMask pageMask blockShiftX blockShiftY =
     (let outer = ralign_outside blockMask r; inner = ralign_inside pageMask outer
      in \<lparr>ox1 = drop_bit blockShiftX (r_left outer), oy1 = drop_bit blockShiftY (r_top outer),
          ox2 = drop_bit blockShiftX (r_right outer), oy2 = drop_bit blockShiftY (r_bottom outer),
          ix1 = drop_bit blockShiftX (r_left inner), iy1 = drop_bit blockShiftY (r_top inner),
          ix2 = drop_bit blockShiftX (r_right inner), iy2 = drop_bit blockShiftY (r_bottom inner)\<rparr>)"

definition rectUsesPage :: "table \<Rightarrow> int \<Rightarrow> int \<Rightarrow> int \<Rightarrow> int \<Rightarrow> int \<Rightarrow> bool \<Rightarrow> bool" where
  "rectUsesPage blockSwizzle invBlockOff x1 x2 y1 y2 lowPage \<longleftrightarrow>
     list_ex (\<lambda>y. list_ex (\<lambda>x. (tab blockSwizzle (y AND 7) (x AND 7) < invBlockOff) = lowPage) [x1..x2 - 1]) [y1..y2 - 1]"

definition staysWithinOnePage :: "int \<Rightarrow> int \<Rightarrow> int \<Rightarrow> int \<Rightarrow> bool" where
  "staysWithinOnePage o1 o2 i1 i2 = (if i2 < i1 then True else if i2 = i1 then o1 = i1 \<or> o2 = i1 else False)"

definition adjustStartEnd :: "GSOffset \<Rightarrow> TextureAligned \<Rightarrow> int \<Rightarrow> int \<Rightarrow> int \<Rightarrow> int \<Rightarrow> int \<times> int" where
  "adjustStartEnd off a start fin y1 y2 =
     (let invBlockOff = 32 - (m_bp off AND 0x1f);
          blkW = push_bit (m_pageShiftX off - m_blockShiftX off) 1;
          onePageX = staysWithinOnePage (ox1 a) (ox2 a) (ix1 a) (ix2 a);
          startAdj1 = (if onePageX then ox1 a else if ox1 a = ix1 a then 0 else ox1 a);
          startAdj2 = (if onePageX then ox2 a else if ox1 a = ix1 a then blkW else ix1 a);
          endAdj1 = (if onePageX then ox1 a else if ox2 a = ix2 a then 0 else ix2 a);
          endAdj2 = (if onePageX then ox2 a else if ox2 a = ix2 a then blkW else ox2 a)
      in (if \<not> rectUsesPage (m_blockSwizzle off) invBlockOff startAdj1 startAdj2 y1 y2 True then start + 1 else start,
          if \<not> rectUsesPage (m_blockSwizzle off) invBlockOff endAdj1 endAdj2 y1 y2 False then fin - 1 else fin))"

definition pageLooperForRect :: "GSOffset \<Rightarrow> GSVector4i \<Rightarrow> PageLooper" where
  "pageLooperForRect off r =
     (let topPg = drop_bit (m_pageShiftY off) (r_top r);
          botPg = drop_bit (m_pageShiftY off) (r_bottom r + snd (m_pageMask off));
          blockOff = m_bp off AND 0x1f;
          aligned = (blockOff = 0);
          start = drop_bit (m_pageShiftX off) (r_left r);
          fin = drop_bit (m_pageShiftX off) (r_right r + fst (m_pageMask off)) + (if aligned then 0 else 1);
          out = \<lparr>firstRowPgXStart = start, firstRowPgXEnd = fin, midRowPgXStart = start, midRowPgXEnd = fin,
            lastRowPgXStart = start, lastRowPgXEnd = fin, pl_bp = drop_bit 5 (m_bp off) + topPg * m_bwPg off,
            yInc = m_bwPg off, yCnt = botPg - topPg,
            slowPath = ((botPg - topPg) * m_bwPg off + fin - start) mod 2 ^ 32 > GS_MAX_PAGES\<rparr>
      in if aligned then out
         else
           let a = align r (m_blockMask off) (m_pageMask off) (m_blockShiftX off) (m_blockShiftY off);
               blkH = push_bit (m_pageShiftY off - m_blockShiftY off) 1
           in if staysWithinOnePage (oy1 a) (oy2 a) (iy1 a) (iy2 a) then
                let f = adjustStartEnd off a start fin (oy1 a) (oy2 a)
                in out\<lparr>firstRowPgXStart := fst f, firstRowPgXEnd := snd f\<rparr>
              else
                let md = adjustStartEnd off a start fin 0 blkH;
                    f = (if oy1 a \<noteq> iy1 a then adjustStartEnd off a start fin (oy1 a) (iy1 a) else md);
                    l = (if oy2 a \<noteq> iy2 a then adjustStartEnd off a start fin (iy2 a) (oy2 a) else md)
                in out\<lparr>firstRowPgXStart := fst f, firstRowPgXEnd := snd f, midRowPgXStart := fst md, midRowPgXEnd := snd md,
                     lastRowPgXStart := fst l, lastRowPgXEnd := snd l\<rparr>)"

subsection \<open>Running the loop\<close>

text \<open>The function that is called on each page returns False to end the loop. Each loop returns whether it
  ran to its end, and the state.\<close>

fun slowRow :: "(int \<Rightarrow> 's \<Rightarrow> bool \<times> 's) \<Rightarrow> int list \<Rightarrow> (int \<Rightarrow> bool) \<Rightarrow> 's \<Rightarrow> bool \<times> (int \<Rightarrow> bool) \<times> 's" where
  "slowRow fn [] touched s = (True, touched, s)"
| "slowRow fn (pos # ps) touched s =
     (let page = pos mod GS_MAX_PAGES in
      if touched page then slowRow fn ps touched s
      else case fn page s of
        (False, s1) \<Rightarrow> (False, touched, s1)
      | (True, s1) \<Rightarrow> slowRow fn ps (touched(page := True)) s1)"

fun fastRow :: "(int \<Rightarrow> 's \<Rightarrow> bool \<times> 's) \<Rightarrow> int list \<Rightarrow> 's \<Rightarrow> bool \<times> 's" where
  "fastRow fn [] s = (True, s)"
| "fastRow fn (pos # ps) s =
     (case fn (pos mod GS_MAX_PAGES) s of (False, s1) \<Rightarrow> (False, s1) | (True, s1) \<Rightarrow> fastRow fn ps s1)"

definition next_row :: "PageLooper \<Rightarrow> int \<Rightarrow> int \<times> int" where
  "next_row l y =
     (if y < yCnt l - 2 then (midRowPgXStart l, midRowPgXEnd l) else (lastRowPgXStart l, lastRowPgXEnd l))"

fun slowRows :: "(int \<Rightarrow> 's \<Rightarrow> bool \<times> 's) \<Rightarrow> PageLooper \<Rightarrow> int list \<Rightarrow> int \<Rightarrow> int \<times> int \<Rightarrow> (int \<Rightarrow> bool) \<Rightarrow> 's \<Rightarrow> 's" where
  "slowRows fn l [] lineBP offs touched s = s"
| "slowRows fn l (y # ys) lineBP offs touched s =
     (let start = (lineBP + fst offs) mod 2 ^ 32; fin = (lineBP + snd offs) mod 2 ^ 32
      in case slowRow fn [start..fin - 1] touched s of
        (False, touched1, s1) \<Rightarrow> s1
      | (True, touched1, s1) \<Rightarrow> slowRows fn l ys (lineBP + yInc l) (next_row l y) touched1 s1)"

fun fastRows :: "(int \<Rightarrow> 's \<Rightarrow> bool \<times> 's) \<Rightarrow> PageLooper \<Rightarrow> int list \<Rightarrow> int \<Rightarrow> int \<times> int \<Rightarrow> int \<Rightarrow> 's \<Rightarrow> 's" where
  "fastRows fn l [] lineBP offs nextMin s = s"
| "fastRows fn l (y # ys) lineBP offs nextMin s =
     (let start = max nextMin ((lineBP + fst offs) mod 2 ^ 32); fin = (lineBP + snd offs) mod 2 ^ 32
      in case fastRow fn [start..fin - 1] s of
        (False, s1) \<Rightarrow> s1
      | (True, s1) \<Rightarrow> fastRows fn l ys (lineBP + yInc l) (next_row l y) fin s1)"

definition loopPagesWithBreak :: "PageLooper \<Rightarrow> (int \<Rightarrow> 's \<Rightarrow> bool \<times> 's) \<Rightarrow> 's \<Rightarrow> 's" where
  "loopPagesWithBreak l fn s =
     (if slowPath l
      then slowRows fn l [0..yCnt l - 1] (pl_bp l) (firstRowPgXStart l, firstRowPgXEnd l) (\<lambda>page. False) s
      else fastRows fn l [0..yCnt l - 1] (pl_bp l) (firstRowPgXStart l, firstRowPgXEnd l) 0 s)"

definition PageLooper_loopPages :: "PageLooper \<Rightarrow> (int \<Rightarrow> 's \<Rightarrow> 's) \<Rightarrow> 's \<Rightarrow> 's" where
  "PageLooper_loopPages l fn = loopPagesWithBreak l (\<lambda>page s. (True, fn page s))"

definition loopPages :: "GSOffset \<Rightarrow> GSVector4i \<Rightarrow> (int \<Rightarrow> 's \<Rightarrow> 's) \<Rightarrow> 's \<Rightarrow> 's" where
  "loopPages off r = PageLooper_loopPages (pageLooperForRect off r)"

end
