(* ===== verification/GS_Pages_Spec.thy ===== *)
theory GS_Pages_Spec
  imports GS_Swizzle_Spec GS_Pages
begin

text \<open>
  The page loop visits exactly the pages of the rectangle's pixels, each once.
\<close>

subsection \<open>Ranges of blocks cut into pages\<close>

text \<open>The blocks of page \<open>t\<close>, of \<open>n\<close> blocks, that lie in the range from \<open>o1\<close> to \<open>o2\<close>.\<close>

definition cover :: "int \<Rightarrow> int \<Rightarrow> int \<Rightarrow> int \<Rightarrow> int set" where
  "cover n o1 o2 t = {j. 0 \<le> j \<and> j < n \<and> o1 \<le> n * t + j \<and> n * t + j < o2}"

definition residues :: "int \<Rightarrow> int \<Rightarrow> int \<Rightarrow> int set" where
  "residues n a b = (\<lambda>k. k mod n) ` {a..<b}"

lemma residues_page:
  fixes n t a b :: int
  assumes "0 < n" "n * t \<le> a" "b \<le> n * t + n"
  shows "residues n a b = cover n a b t"
proof
  have m: "(n * t + j) mod n = j" if "0 \<le> j" "j < n" for j using that by simp
  show "residues n a b \<subseteq> cover n a b t"
  proof
    fix j
    assume "j \<in> residues n a b"
    then obtain k where k: "a \<le> k" "k < b" "j = k mod n" by (auto simp: residues_def)
    then have "j = k - n * t" using m [of "k - n * t"] assms by simp
    then show "j \<in> cover n a b t" using k assms by (simp add: cover_def)
  qed
  show "cover n a b t \<subseteq> residues n a b"
  proof
    fix j
    assume "j \<in> cover n a b t"
    then show "j \<in> residues n a b"
      unfolding residues_def cover_def by (intro image_eqI [of _ _ "n * t + j"]) (auto simp: m)
  qed
qed

lemma residues_full: "0 < n \<Longrightarrow> residues n 0 n = {0..<n}"
  by (subst residues_page [of n 0]) (auto simp: cover_def)

text \<open>The page lines around a range, as the code computes them.\<close>

abbreviation inner1 :: "int \<Rightarrow> int \<Rightarrow> int" where "inner1 n o1 \<equiv> (o1 + n - 1) div n * n"
abbreviation inner2 :: "int \<Rightarrow> int \<Rightarrow> int" where "inner2 n o2 \<equiv> o2 div n * n"

lemma page_lines:
  fixes n o1 o2 :: int
  assumes "0 < n" "o1 < o2"
  shows "n * (o1 div n) \<le> o1" "o1 < n * (o1 div n) + n" "n * (o2 div n) \<le> o2" "o2 < n * (o2 div n) + n"
    "inner1 n o1 = (if o1 = n * (o1 div n) then o1 else n * (o1 div n) + n)" "inner2 n o2 = n * (o2 div n)"
    "(o2 - 1) div n = o2 div n - (if o2 = n * (o2 div n) then 1 else 0)"
    "o2 div n = o1 div n \<or> (o2 div n = o1 div n + 1 \<and> n * (o2 div n) = n * (o1 div n) + n) \<or>
       (o2 div n \<ge> o1 div n + 2 \<and> n * (o2 div n) \<ge> n * (o1 div n) + 2 * n)"
proof -
  have z: "k mod n = 0 \<longleftrightarrow> k = n * (k div n)" for k by (metis add.right_neutral add_cancel_right_right mult_div_mod_eq)
  show "n * (o1 div n) \<le> o1" "o1 < n * (o1 div n) + n" "n * (o2 div n) \<le> o2" "o2 < n * (o2 div n) + n"
    using assms(1) by (simp_all add: div_parts(4,5))
  show "inner1 n o1 = (if o1 = n * (o1 div n) then o1 else n * (o1 div n) + n)"
    unfolding ceil_eq [OF assms(1)] using z [of o1] by (simp add: algebra_simps)
  show "(o2 - 1) div n = o2 div n - (if o2 = n * (o2 div n) then 1 else 0)" using assms(1) z [of o2] by (simp add: last_eq)
  have "o1 div n \<le> o2 div n" using assms by (simp add: zdiv_mono1)
  then consider "o2 div n = o1 div n" | "o2 div n = o1 div n + 1" | "o1 div n + 2 \<le> o2 div n" by linarith
  then show "o2 div n = o1 div n \<or> (o2 div n = o1 div n + 1 \<and> n * (o2 div n) = n * (o1 div n) + n) \<or>
       (o2 div n \<ge> o1 div n + 2 \<and> n * (o2 div n) \<ge> n * (o1 div n) + 2 * n)"
  proof cases
    case 2
    then show ?thesis by (simp add: distrib_left)
  next
    case 3
    then have "n * (o1 div n + 2) \<le> n * (o2 div n)" using assms(1) by simp
    with 3 show ?thesis by (simp add: distrib_left mult.commute)
  qed simp
qed simp

lemma cover_cong:
  "max o1 (n * t) = max p1 (n * t) \<Longrightarrow> min o2 (n * t + n) = min p2 (n * t + n) \<Longrightarrow> cover n o1 o2 t = cover n p1 p2 t"
  unfolding cover_def by (rule Collect_cong) linarith

lemma cover_stays:
  assumes "0 < n" "o1 < o2" "staysWithinOnePage o1 o2 (inner1 n o1) (inner2 n o2)"
  shows "(o2 - 1) div n = o1 div n" "residues n o1 o2 = cover n o1 o2 (o1 div n)"
proof -
  note pl = page_lines [OF assms(1,2)]
  have "o2 \<le> n * (o1 div n) + n"
    using assms(3) pl assms(1,2) unfolding staysWithinOnePage_def pl(5,6) by (auto split: if_splits)
  then show "residues n o1 o2 = cover n o1 o2 (o1 div n)" using pl(1) assms(1) by (intro residues_page)
  from \<open>o2 \<le> n * (o1 div n) + n\<close> show "(o2 - 1) div n = o1 div n" unfolding pl(7) using pl(1,3,8) assms(1,2) by auto
qed

lemma cover_leaves:
  assumes "0 < n" "o1 < o2" "\<not> staysWithinOnePage o1 o2 (inner1 n o1) (inner2 n o2)"
  shows "(if o1 = inner1 n o1 then residues n 0 n else residues n o1 (inner1 n o1)) = cover n o1 o2 (o1 div n)"
    "(if o2 = inner2 n o2 then residues n 0 n else residues n (inner2 n o2) o2) = cover n o1 o2 ((o2 - 1) div n)"
proof -
  note pl = page_lines [OF assms(1,2)]
  have far: "n * (o1 div n) + n \<le> n * (o2 div n)"
    using assms(3) pl assms(1,2) unfolding staysWithinOnePage_def pl(5,6) by (auto split: if_splits)
  have last: "o1 \<le> o2 - n" if "o2 = n * (o2 div n)"
    using assms(3) pl(1,2,8) assms(1,2) that unfolding staysWithinOnePage_def pl(5,6) by (auto split: if_splits)
  have full: "residues n 0 n = cover n (n * t) (n * t + n) t" for t
    using assms(1) residues_page [of n t "n * t" "n * t + n"] residues_full by (auto simp: cover_def)
  show "(if o1 = inner1 n o1 then residues n 0 n else residues n o1 (inner1 n o1)) = cover n o1 o2 (o1 div n)"
    unfolding pl(5) using pl(1,2,3) far assms(1)
    by (auto simp: full [of "o1 div n"] residues_page [of n "o1 div n"] intro!: cover_cong)
  show "(if o2 = inner2 n o2 then residues n 0 n else residues n (inner2 n o2) o2) = cover n o1 o2 ((o2 - 1) div n)"
    unfolding pl(6,7) using pl(1-4) far last assms(1)
    by (auto simp: full [of "o2 div n - 1"] residues_page [of n "o2 div n"] algebra_simps intro!: cover_cong)
qed

lemma cover_nonempty:
  fixes n o1 o2 t :: int
  assumes "0 < n" "o1 < o2" "o1 div n \<le> t" "t \<le> (o2 - 1) div n"
  shows "cover n o1 o2 t \<noteq> {}"
proof -
  have "n * (o1 div n) \<le> n * t" "n * t \<le> n * ((o2 - 1) div n)" using assms by simp_all
  then have "o1 < n * t + n" "n * t < o2"
    using div_parts(5) [OF assms(1), of o1] div_parts(4) [OF assms(1), of "o2 - 1"] by linarith+
  then have "max 0 (o1 - n * t) \<in> cover n o1 o2 t" using assms(1,2) unfolding cover_def by auto
  then show ?thesis by blast
qed

lemma cover_inner:
  fixes n o1 o2 t :: int
  assumes "0 < n" "o1 div n < t" "t < (o2 - 1) div n"
  shows "cover n o1 o2 t = {0..<n}"
proof -
  have "n * (o1 div n + 1) \<le> n * t" "n * (t + 1) \<le> n * ((o2 - 1) div n)" using assms by simp_all
  moreover note div_parts(5) [OF assms(1), of o1] div_parts(4) [OF assms(1), of "o2 - 1"]
  ultimately show ?thesis by (auto simp: cover_def algebra_simps)
qed

subsection \<open>What the loops visit\<close>

lemma image_UN_eq: "(\<Union>x\<in>f ` A. B x) = (\<Union>a\<in>A. B (f a))"
  by blast

definition row_offs :: "PageLooper \<Rightarrow> int \<Rightarrow> int \<times> int" where
  "row_offs l y = (if y = 0 then (firstRowPgXStart l, firstRowPgXEnd l)
     else if y < yCnt l - 1 then (midRowPgXStart l, midRowPgXEnd l) else (lastRowPgXStart l, lastRowPgXEnd l))"

definition row_start :: "PageLooper \<Rightarrow> int \<Rightarrow> int" where "row_start l y = pl_bp l + y * yInc l + fst (row_offs l y)"
definition row_stop :: "PageLooper \<Rightarrow> int \<Rightarrow> int" where "row_stop l y = pl_bp l + y * yInc l + snd (row_offs l y)"

abbreviation row_pages :: "PageLooper \<Rightarrow> int \<Rightarrow> int \<Rightarrow> int set" where
  "row_pages l a b \<equiv> \<Union>y\<in>{a..<b}. {row_start l y..<row_stop l y}"

lemma next_row_offs: "0 \<le> y \<Longrightarrow> next_row l y = row_offs l (y + 1)"
  by (simp add: next_row_def row_offs_def)

lemma upto_less: "set [a..b - 1] = {a..<b}" for a b :: int
  by auto

lemma fastRow_collect: "fastRow (\<lambda>p s. (True, s @ [p])) ps s = (True, s @ map (\<lambda>p. p mod GS_MAX_PAGES) ps)"
  by (induction ps arbitrary: s) simp_all

lemma slowRow_collect:
  "\<exists>ps touched'. slowRow (\<lambda>p s. (True, s @ [p])) qs touched s = (True, touched', s @ ps) \<and> distinct ps \<and>
     set ps = (\<lambda>q. q mod GS_MAX_PAGES) ` set qs - {p. touched p} \<and> (\<forall>p. touched' p \<longleftrightarrow> touched p \<or> p \<in> set ps)"
proof (induction qs arbitrary: touched s)
  case (Cons q qs)
  let ?p = "q mod GS_MAX_PAGES"
  show ?case
  proof (cases "touched ?p")
    case True
    then show ?thesis using Cons.IH [of touched s] by (auto simp: Let_def)
  next
    case False
    from Cons.IH [of "touched(?p := True)" "s @ [?p]"] obtain ps touched' where
      "slowRow (\<lambda>p s. (True, s @ [p])) qs (touched(?p := True)) (s @ [?p]) = (True, touched', (s @ [?p]) @ ps)" "distinct ps"
      "set ps = (\<lambda>q. q mod GS_MAX_PAGES) ` set qs - {p. (touched(?p := True)) p}"
      "\<forall>p. touched' p \<longleftrightarrow> (touched(?p := True)) p \<or> p \<in> set ps" by blast
    with False show ?thesis by (intro exI [of _ "?p # ps"] exI [of _ touched']) (auto simp: Let_def)
  qed
qed auto

lemma fastRows_visits:
  assumes "0 \<le> a" "a \<le> b"
    and fits: "\<And>y. a \<le> y \<Longrightarrow> y < b \<Longrightarrow> 0 \<le> row_start l y \<and> row_start l y < 2 ^ 32 \<and> 0 \<le> row_stop l y \<and> row_stop l y < 2 ^ 32"
    and mono: "\<And>y. a \<le> y \<Longrightarrow> y + 1 < b \<Longrightarrow> row_start l y \<le> row_start l (y + 1) \<and> row_stop l y \<le> row_stop l (y + 1)"
    and "a < b \<Longrightarrow> nm \<le> row_stop l a"
  shows "\<exists>ps. fastRows (\<lambda>p s. (True, s @ [p])) l [a..b - 1] (pl_bp l + a * yInc l) (row_offs l a) nm s =
      s @ map (\<lambda>p. p mod GS_MAX_PAGES) ps \<and> sorted_wrt (<) ps \<and> set ps = row_pages l a b \<inter> {nm..}"
  using assms
proof (induction "nat (b - a)" arbitrary: a nm s)
  case 0
  then show ?case by simp
next
  case (Suc k)
  then have ab: "a < b" and k: "k = nat (b - (a + 1))" by simp_all
  let ?qs = "[max nm (row_start l a)..row_stop l a - 1]" and ?rest = "fastRows (\<lambda>p s. (True, s @ [p])) l [a + 1..b - 1]"
  have step: "fastRows (\<lambda>p s. (True, s @ [p])) l [a..b - 1] (pl_bp l + a * yInc l) (row_offs l a) nm s =
      ?rest (pl_bp l + (a + 1) * yInc l) (row_offs l (a + 1)) (row_stop l a) (s @ map (\<lambda>p. p mod GS_MAX_PAGES) ?qs)"
    using ab Suc.prems(3) [of a] next_row_offs [OF Suc.prems(1), of l]
    by (simp add: upto_rec1 fastRow_collect row_start_def row_stop_def Let_def algebra_simps)
  obtain ps where ps: "?rest (pl_bp l + (a + 1) * yInc l) (row_offs l (a + 1)) (row_stop l a) (s @ map (\<lambda>p. p mod GS_MAX_PAGES) ?qs) =
      (s @ map (\<lambda>p. p mod GS_MAX_PAGES) ?qs) @ map (\<lambda>p. p mod GS_MAX_PAGES) ps" "sorted_wrt (<) ps"
      "set ps = row_pages l (a + 1) b \<inter> {row_stop l a..}"
    using Suc.hyps(1) [of "a + 1" "row_stop l a" "s @ map (\<lambda>p. p mod GS_MAX_PAGES) ?qs", OF k] Suc.prems ab by auto
  have start: "row_start l a \<le> row_start l y" if "a \<le> y" "y < b" for y
    using that by (induction y rule: int_ge_induct) (use Suc.prems(4) in fastforce)+
  have "row_pages l a b = {row_start l a..<row_stop l a} \<union> row_pages l (a + 1) b"
  proof -
    have "{a..<b} = insert a {a + 1..<b}" using ab by auto
    then show ?thesis by simp
  qed
  then have split: "x \<in> row_pages l a b \<longleftrightarrow> x \<in> {row_start l a..<row_stop l a} \<or> x \<in> row_pages l (a + 1) b" for x by blast
  have later: "j \<in> {row_start l a..<row_stop l a}" if "j \<in> row_pages l (a + 1) b" "j < row_stop l a" for j
  proof -
    obtain y where "a + 1 \<le> y" "y < b" "row_start l y \<le> j" using \<open>j \<in> row_pages l (a + 1) b\<close> by auto
    with start [of y] that(2) show ?thesis by simp
  qed
  have "set (?qs @ ps) = row_pages l a b \<inter> {nm..}"
  proof (rule set_eqI)
    fix x
    show "x \<in> set (?qs @ ps) \<longleftrightarrow> x \<in> row_pages l a b \<inter> {nm..}"
    proof (cases "x < row_stop l a")
      case True
      then show ?thesis unfolding Int_iff split set_append Un_iff ps(3) using later [of x] by auto
    next
      case False
      then show ?thesis unfolding Int_iff split set_append Un_iff ps(3) using Suc.prems(5) [OF ab] by auto
    qed
  qed
  moreover have "sorted_wrt (<) (?qs @ ps)"
    using ps(2,3) by (auto simp: sorted_wrt_append sorted_wrt_upto)
  ultimately show ?case unfolding step ps(1) by (intro exI [of _ "?qs @ ps"]) simp
qed

lemma slowRows_visits:
  assumes "0 \<le> a" "a \<le> b"
    and fits: "\<And>y. a \<le> y \<Longrightarrow> y < b \<Longrightarrow> 0 \<le> row_start l y \<and> row_start l y < 2 ^ 32 \<and> 0 \<le> row_stop l y \<and> row_stop l y < 2 ^ 32"
  shows "\<exists>ps. slowRows (\<lambda>p s. (True, s @ [p])) l [a..b - 1] (pl_bp l + a * yInc l) (row_offs l a) touched s = s @ ps \<and>
      distinct ps \<and> set ps = (\<lambda>q. q mod GS_MAX_PAGES) ` row_pages l a b - {p. touched p}"
  using assms
proof (induction "nat (b - a)" arbitrary: a touched s)
  case 0
  then show ?case by simp
next
  case (Suc k)
  then have ab: "a < b" and k: "k = nat (b - (a + 1))" by simp_all
  let ?rest = "slowRows (\<lambda>p s. (True, s @ [p])) l [a + 1..b - 1] (pl_bp l + (a + 1) * yInc l) (row_offs l (a + 1))"
  obtain qs touched' where qs: "slowRow (\<lambda>p s. (True, s @ [p])) [row_start l a..row_stop l a - 1] touched s = (True, touched', s @ qs)"
      "distinct qs" "set qs = (\<lambda>q. q mod GS_MAX_PAGES) ` {row_start l a..<row_stop l a} - {p. touched p}"
      "\<forall>p. touched' p \<longleftrightarrow> touched p \<or> p \<in> set qs"
    using slowRow_collect [of "[row_start l a..row_stop l a - 1]" touched s] upto_less by metis
  have step: "slowRows (\<lambda>p s. (True, s @ [p])) l [a..b - 1] (pl_bp l + a * yInc l) (row_offs l a) touched s = ?rest touched' (s @ qs)"
    using ab Suc.prems(3) [of a] next_row_offs [OF Suc.prems(1), of l] qs(1)
    by (simp add: upto_rec1 row_start_def row_stop_def Let_def algebra_simps)
  obtain ps where ps: "?rest touched' (s @ qs) = (s @ qs) @ ps" "distinct ps"
      "set ps = (\<lambda>q. q mod GS_MAX_PAGES) ` row_pages l (a + 1) b - {p. touched' p}"
    using Suc.hyps(1) [of "a + 1" touched' "s @ qs", OF k] Suc.prems ab by auto
  have "{a..<b} = insert a {a + 1..<b}" using ab by auto
  then have "set (qs @ ps) = (\<lambda>q. q mod GS_MAX_PAGES) ` row_pages l a b - {p. touched p}"
    using qs(3,4) ps(3) by (auto simp: image_Un)
  then show ?case unfolding step ps(1) using qs(2,4) ps(2,3) by (intro exI [of _ "qs @ ps"]) auto
qed

lemma loop_visits:
  assumes "0 \<le> yCnt l"
    and fits: "\<And>y. 0 \<le> y \<Longrightarrow> y < yCnt l \<Longrightarrow> 0 \<le> row_start l y \<and> row_start l y < 2 ^ 32 \<and> 0 \<le> row_stop l y \<and> row_stop l y < 2 ^ 32"
    and mono: "\<And>y. 0 \<le> y \<Longrightarrow> y + 1 < yCnt l \<Longrightarrow> row_start l y \<le> row_start l (y + 1) \<and> row_stop l y \<le> row_stop l (y + 1)"
    and window: "\<And>y. \<not> slowPath l \<Longrightarrow> 0 \<le> y \<Longrightarrow> y < yCnt l \<Longrightarrow> lo \<le> row_start l y \<and> row_stop l y \<le> lo + 512"
  shows "distinct (PageLooper_loopPages l (\<lambda>p ps. ps @ [p]) []) \<and>
    set (PageLooper_loopPages l (\<lambda>p ps. ps @ [p]) []) = (\<lambda>q. q mod GS_MAX_PAGES) ` row_pages l 0 (yCnt l)"
proof (cases "slowPath l")
  case True
  then have "PageLooper_loopPages l (\<lambda>p ps. ps @ [p]) [] =
      slowRows (\<lambda>p s. (True, s @ [p])) l [0..yCnt l - 1] (pl_bp l + 0 * yInc l) (row_offs l 0) (\<lambda>p. False) []"
    by (simp add: PageLooper_loopPages_def loopPagesWithBreak_def row_offs_def)
  then show ?thesis
    using slowRows_visits [OF order_refl assms(1) fits, of "\<lambda>p. False" "[]"] by fastforce
next
  case False
  then have "PageLooper_loopPages l (\<lambda>p ps. ps @ [p]) [] =
      fastRows (\<lambda>p s. (True, s @ [p])) l [0..yCnt l - 1] (pl_bp l + 0 * yInc l) (row_offs l 0) 0 []"
    by (simp add: PageLooper_loopPages_def loopPagesWithBreak_def row_offs_def)
  moreover have "0 < yCnt l \<Longrightarrow> 0 \<le> row_stop l 0" using fits [of 0] by simp
  ultimately obtain ps where
    ps: "PageLooper_loopPages l (\<lambda>p ps. ps @ [p]) [] = map (\<lambda>p. p mod GS_MAX_PAGES) ps" "sorted_wrt (<) ps"
      "set ps = row_pages l 0 (yCnt l) \<inter> {0..}"
    using fastRows_visits [OF order_refl assms(1) fits mono, of 0 "[]"] by fastforce
  have in_row: "\<exists>y. 0 \<le> y \<and> y < yCnt l \<and> row_start l y \<le> k \<and> k < row_stop l y" if "k \<in> row_pages l 0 (yCnt l)" for k
    using that by auto
  have nonneg: "row_pages l 0 (yCnt l) \<inter> {0..} = row_pages l 0 (yCnt l)"
  proof -
    have "0 \<le> k" if k: "k \<in> row_pages l 0 (yCnt l)" for k using in_row [OF k] fits by fastforce
    then show ?thesis by blast
  qed
  have "inj_on (\<lambda>p. p mod GS_MAX_PAGES) {lo..<lo + 512}"
  proof (rule inj_onI)
    fix p q
    assume pq: "p \<in> {lo..<lo + 512}" "q \<in> {lo..<lo + 512}" "p mod GS_MAX_PAGES = q mod GS_MAX_PAGES"
    then have "512 dvd p - q" by (simp add: GS_MAX_PAGES_def mod_eq_dvd_iff)
    moreover have "\<bar>p - q\<bar> < 512" using pq by auto
    ultimately show "p = q" using dvd_imp_le_int [of "p - q" 512] by force
  qed
  moreover have "set ps \<subseteq> {lo..<lo + 512}"
  proof
    fix k
    assume "k \<in> set ps"
    with in_row [of k] obtain y where "0 \<le> y" "y < yCnt l" "row_start l y \<le> k" "k < row_stop l y" by (auto simp: ps(3))
    with window [OF False, of y] show "k \<in> {lo..<lo + 512}" by simp
  qed
  moreover have "distinct ps" using ps(2) strict_sorted_iff by blast
  ultimately show ?thesis unfolding ps(1) using ps(3) nonneg by (auto simp: distinct_map intro: inj_on_subset)
qed

subsection \<open>Rows of pages\<close>

context swizzle
begin

abbreviation blocks_x :: int where "blocks_x \<equiv> 2 ^ (psx - bsx)"
abbreviation blocks_y :: int where "blocks_y \<equiv> 2 ^ (psy - bsy)"

lemma outer_inner:
  fixes a :: int and bs ps :: nat
  assumes "bs \<le> ps"
  shows "drop_bit bs (a AND NOT (2 ^ bs - 1)) = a div 2 ^ bs"
    "drop_bit bs ((a + (2 ^ bs - 1)) AND NOT (2 ^ bs - 1)) = (a - 1) div 2 ^ bs + 1"
    "drop_bit bs (((a AND NOT (2 ^ bs - 1)) + (2 ^ ps - 1)) AND NOT (2 ^ ps - 1)) = inner1 (2 ^ (ps - bs)) (a div 2 ^ bs)"
    "drop_bit bs (((a + (2 ^ bs - 1)) AND NOT (2 ^ bs - 1)) AND NOT (2 ^ ps - 1)) = inner2 (2 ^ (ps - bs)) ((a - 1) div 2 ^ bs + 1)"
proof -
  note up = ceil_pow
  have ps: "(2 :: int) ^ ps = 2 ^ bs * 2 ^ (ps - bs)" using pow_split [OF assms] by (simp add: mult.commute)
  have unpage: "c * 2 ^ ps div 2 ^ bs = c * 2 ^ (ps - bs)" for c :: int unfolding ps by simp
  show "drop_bit bs (a AND NOT (2 ^ bs - 1)) = a div 2 ^ bs"
    "drop_bit bs ((a + (2 ^ bs - 1)) AND NOT (2 ^ bs - 1)) = (a - 1) div 2 ^ bs + 1"
    by (simp_all add: drop_bit_eq_div and_not_mask_int up)
  have "(k * 2 ^ bs - 1) div 2 ^ bs = k - 1" for k :: int by (simp add: last_eq)
  then have "(k * 2 ^ bs - 1) div 2 ^ ps = (k - 1) div 2 ^ (ps - bs)" for k :: int
    unfolding ps by (simp add: zdiv_zmult2_eq)
  moreover have "(k - 1) div 2 ^ (ps - bs) + 1 = (k + 2 ^ (ps - bs) - 1) div 2 ^ (ps - bs)" for k :: int
    using up [of k "ps - bs"] by (simp add: algebra_simps)
  ultimately have "(k * 2 ^ bs + (2 ^ ps - 1)) div 2 ^ ps = (k + 2 ^ (ps - bs) - 1) div 2 ^ (ps - bs)" for k :: int
    by (simp add: up)
  then show "drop_bit bs (((a AND NOT (2 ^ bs - 1)) + (2 ^ ps - 1)) AND NOT (2 ^ ps - 1)) = inner1 (2 ^ (ps - bs)) (a div 2 ^ bs)"
    by (simp add: drop_bit_eq_div and_not_mask_int unpage)
  have "k * 2 ^ bs div 2 ^ ps = k div 2 ^ (ps - bs)" for k :: int unfolding ps by (simp add: zdiv_zmult2_eq)
  then show "drop_bit bs (((a + (2 ^ bs - 1)) AND NOT (2 ^ bs - 1)) AND NOT (2 ^ ps - 1)) = inner2 (2 ^ (ps - bs)) ((a - 1) div 2 ^ bs + 1)"
    by (simp add: drop_bit_eq_div and_not_mask_int up unpage)
qed

lemma align_eq:
  "align \<lparr>r_left = l, r_top = t, r_right = r, r_bottom = b\<rparr> (m_blockMask swz) (m_pageMask swz) bsx bsy =
     (let X1 = l div 2 ^ bsx; X2 = (r - 1) div 2 ^ bsx + 1; Y1 = t div 2 ^ bsy; Y2 = (b - 1) div 2 ^ bsy + 1
      in \<lparr>ox1 = X1, oy1 = Y1, ox2 = X2, oy2 = Y2, ix1 = inner1 blocks_x X1, iy1 = inner1 blocks_y Y1,
          ix2 = inner2 blocks_x X2, iy2 = inner2 blocks_y Y2\<rparr>)"
  unfolding align_def ralign_outside_def ralign_inside_def masks Let_def fst_conv snd_conv
  by (simp add: outer_inner [OF ranges(3)] outer_inner [OF ranges(4)] ceil_pow del: drop_bit_and)

text \<open>Whether the blocks in rows \<open>I\<close> and columns \<open>J\<close> of a tile use its lower or its upper page.\<close>

definition uses :: "int \<Rightarrow> int set \<Rightarrow> int set \<Rightarrow> bool \<Rightarrow> bool" where
  "uses lim I J low \<longleftrightarrow> (\<exists>i\<in>I. \<exists>j\<in>J. (tab bt i j < lim) = low)"

lemma rectUsesPage_eq:
  "rectUsesPage (makeSwizzleTable bt) lim x1 x2 y1 y2 low = uses lim (residues blocks_y y1 y2) (residues blocks_x x1 x2) low"
  unfolding rectUsesPage_def swizzle_entry residues_def list_ex_iff upto_less uses_def by (simp add: sizes)

definition touched_pages :: "int \<Rightarrow> int set \<Rightarrow> int \<Rightarrow> int \<Rightarrow> int set" where
  "touched_pages lim I X1 X2 =
     {tx + (if tab bt i j < lim then 0 else 1) | tx i j. i \<in> I \<and> j \<in> cover blocks_x X1 X2 tx}"

lemma row_mono:
  assumes "0 \<le> i" "i < blocks_y"
  shows "tab bt i 0 \<le> tab bt i (blocks_x - 1)"
proof -
  have n: "0 \<le> blocks_x - 1" "blocks_x - 1 < ncols bt" "0 < ncols bt" by (simp_all add: sizes)
  have "0 < length bt" by (simp add: sizes)
  then have "length (bt ! 0) = length (hd bt)" by (rule table_ok_length [OF blocks(2)])
  then have "nat (blocks_x - 1) < length (bt ! 0)" using n by (simp add: sizes nat_less_iff)
  then have "tab bt 0 0 \<le> tab bt 0 (blocks_x - 1)"
    using blocks(4) by (auto simp: tab_def intro: sorted_nth_mono)
  then show ?thesis
    using block_entry(1) [of i "blocks_x - 1"] assms n blocks(3) by (simp add: sizes)
qed

lemma touched_interval:
  fixes X1 X2 lim :: int
  defines "n \<equiv> blocks_x" and "t1 \<equiv> X1 div blocks_x" and "t2 \<equiv> (X2 - 1) div blocks_x"
  assumes X: "X1 < X2" and I: "I \<noteq> {}" "I \<subseteq> {0..<blocks_y}"
  shows "touched_pages lim I X1 X2 =
    {t1 + (if uses lim I (cover n X1 X2 t1) True then 0 else 1)..<t2 + 2 - (if uses lim I (cover n X1 X2 t2) False then 0 else 1)}"
    (is "_ = {?s..<?f}")
proof -
  have n: "0 < n" by (simp add: n_def)
  have edge: "n * t1 \<le> X1" "X1 < n * t1 + n" "n * t2 \<le> X2 - 1" "X2 - 1 < n * t2 + n"
    using div_parts(4,5) [OF n, of X1] div_parts(4,5) [OF n, of "X2 - 1"] by (simp_all add: t1_def t2_def n_def)
  have mono: "n * u \<le> n * v" if "u \<le> v" for u v using n that by simp
  have t: "t1 \<le> t2" using X by (simp add: t1_def t2_def zdiv_mono1)
  have range: "t1 \<le> tx \<and> tx \<le> t2" if "j \<in> cover n X1 X2 tx" for j tx
  proof -
    have "\<not> tx + 1 \<le> t1" "\<not> t2 + 1 \<le> tx"
      using that edge mono [of "tx + 1" t1] mono [of "t2 + 1" tx] by (auto simp: cover_def distrib_left)
    then show ?thesis by linarith
  qed
  show ?thesis
  proof (intro set_eqI iffI)
    fix k
    assume "k \<in> touched_pages lim I X1 X2"
    then obtain tx i j where k: "k = tx + (if tab bt i j < lim then 0 else 1)" "i \<in> I" "j \<in> cover n X1 X2 tx"
      by (auto simp: touched_pages_def n_def)
    note r = range [OF k(3)]
    have "uses lim I (cover n X1 X2 t1) True" if "k = t1" using k r that by (auto simp: uses_def split: if_splits)
    moreover have "uses lim I (cover n X1 X2 t2) False" if "k = t2 + 1" using k r that by (auto simp: uses_def split: if_splits)
    moreover have "t1 \<le> k" "k \<le> t2 + 1" using k(1) r by auto
    ultimately show "k \<in> {?s..<?f}" by (cases "k = t1"; cases "k = t2 + 1") auto
  next
    fix k
    assume k: "k \<in> {?s..<?f}"
    have touch: "k \<in> touched_pages lim I X1 X2" if "k = tx + (if tab bt i j < lim then 0 else 1)" "i \<in> I" "j \<in> cover n X1 X2 tx" for tx i j
      using that by (auto simp: touched_pages_def n_def)
    consider "k = t1" | "k = t2 + 1" | "t1 < k" "k \<le> t2" using k by (fastforce split: if_splits)
    then show "k \<in> touched_pages lim I X1 X2"
    proof cases
      case 1
      with k have "uses lim I (cover n X1 X2 t1) True" by (auto split: if_splits)
      then obtain i j where "i \<in> I" "j \<in> cover n X1 X2 t1" "tab bt i j < lim" by (auto simp: uses_def)
      with 1 show ?thesis by (intro touch [of t1 i j]) simp_all
    next
      case 2
      with k have "uses lim I (cover n X1 X2 t2) False" by (auto split: if_splits)
      then obtain i j where "i \<in> I" "j \<in> cover n X1 X2 t2" "\<not> tab bt i j < lim" by (auto simp: uses_def)
      with 2 show ?thesis by (intro touch [of t2 i j]) simp_all
    next
      case 3
      have "n * (t1 + 1) \<le> n * k" "n * k \<le> n * t2" using 3 by (intro mono; simp)+
      then have "X1 \<le> n * k - 1" "n * k < X2" using edge by (auto simp only: distrib_left mult_1_right)
      then have c: "0 \<in> cover n X1 X2 k" "n - 1 \<in> cover n X1 X2 (k - 1)"
        using n by (auto simp: cover_def right_diff_distrib)
      obtain i where "i \<in> I" using I(1) by auto
      with I(2) have i: "i \<in> I" "0 \<le> i" "i < blocks_y" by auto
      show ?thesis
      proof (cases "tab bt i 0 < lim")
        case True
        with i c show ?thesis by (intro touch [of k i 0]) simp_all
      next
        case False
        then have "\<not> tab bt i (n - 1) < lim" using row_mono [OF i(2,3)] by (simp add: n_def)
        with i c show ?thesis by (intro touch [of "k - 1" i "n - 1"]) simp_all
      qed
    qed
  qed
qed

subsection \<open>The loop of a rectangle\<close>

lemma adjust_eq:
  fixes l t r b bp bw p :: int
  defines "X1 \<equiv> l div 2 ^ bsx" and "X2 \<equiv> (r - 1) div 2 ^ bsx + 1" and "lim \<equiv> 32 - bp mod 32"
  assumes "X1 < X2" and I: "residues blocks_y y1 y2 = I"
  shows "adjustStartEnd (make_GSOffset swz bp bw p)
      (align \<lparr>r_left = l, r_top = t, r_right = r, r_bottom = b\<rparr> (m_blockMask swz) (m_pageMask swz) bsx bsy) start fin y1 y2 =
    (start + (if uses lim I (cover blocks_x X1 X2 (X1 div blocks_x)) True then 0 else 1),
     fin - (if uses lim I (cover blocks_x X1 X2 ((X2 - 1) div blocks_x)) False then 0 else 1))"
proof -
  have five: "bp AND 0x1f = bp mod 32" using and_mask_int [of bp 5] by simp
  have n: "0 < blocks_x" by simp
  note st = cover_stays [OF n \<open>X1 < X2\<close>] and lv = cover_leaves [OF n \<open>X1 < X2\<close>]
  show ?thesis
  proof (cases "staysWithinOnePage X1 X2 (inner1 blocks_x X1) (inner2 blocks_x X2)")
    case True
    then show ?thesis
      using st(2) [OF True] st(1) [OF True]
      by (simp add: adjustStartEnd_def align_eq Let_def five rectUsesPage_eq I X1_def [symmetric] X2_def [symmetric] lim_def)
  next
    case False
    then show ?thesis
      using lv(1) [OF False] lv(2) [OF False]
      by (simp add: adjustStartEnd_def align_eq Let_def five rectUsesPage_eq I push_bit_eq_mult
          X1_def [symmetric] X2_def [symmetric] lim_def cong: if_cong split: if_splits)
  qed
qed

text \<open>The range of pages of a row whose blocks are in the block rows \<open>I\<close>, as offsets from the first page of the row.\<close>

definition row_range :: "int \<Rightarrow> int set \<Rightarrow> int \<Rightarrow> int \<Rightarrow> int \<times> int" where
  "row_range bp I X1 X2 =
     (let t1 = X1 div blocks_x; t2 = (X2 - 1) div blocks_x; lim = 32 - bp mod 32
      in if bp mod 32 = 0 then (t1, t2 + 1)
         else (t1 + (if uses lim I (cover blocks_x X1 X2 t1) True then 0 else 1),
               t2 + 2 - (if uses lim I (cover blocks_x X1 X2 t2) False then 0 else 1)))"

lemma looper_rows:
  fixes l t r b bp bw p :: int
  defines "X1 \<equiv> l div 2 ^ bsx" and "X2 \<equiv> (r - 1) div 2 ^ bsx + 1" and "Y1 \<equiv> t div 2 ^ bsy" and "Y2 \<equiv> (b - 1) div 2 ^ bsy + 1"
    and "L \<equiv> pageLooperForRect (make_GSOffset swz bp bw p) \<lparr>r_left = l, r_top = t, r_right = r, r_bottom = b\<rparr>"
  assumes "l < r" "t < b"
  shows "yCnt L = (Y2 - 1) div blocks_y - Y1 div blocks_y + 1" "yInc L = 64 * bw div 2 ^ psx"
    "pl_bp L = bp div 32 + Y1 div blocks_y * (64 * bw div 2 ^ psx)"
    "slowPath L \<longleftrightarrow> (yCnt L * yInc L + ((X2 - 1) div blocks_x + 1 + (if bp mod 32 = 0 then 0 else 1)) - X1 div blocks_x) mod 2 ^ 32 > 512"
    "0 \<le> y \<Longrightarrow> y < yCnt L \<Longrightarrow> row_offs L y = row_range bp (cover blocks_y Y1 Y2 (Y1 div blocks_y + y)) X1 X2"
proof -
  have X: "X1 < X2" and Y: "Y1 < Y2"
    using assms(6,7) by (simp_all add: X1_def X2_def Y1_def Y2_def less_le_trans [OF _ zdiv_mono1] zdiv_mono1 le_imp_less_Suc)
  have pgs: "l div 2 ^ psx = X1 div blocks_x" "(r - 1) div 2 ^ psx = (X2 - 1) div blocks_x"
      "t div 2 ^ psy = Y1 div blocks_y" "(b - 1) div 2 ^ psy = (Y2 - 1) div blocks_y"
    unfolding page_split X1_def X2_def Y1_def Y2_def by (simp_all add: zdiv_zmult2_eq mult.commute [of _ "2 ^ bsx"] mult.commute [of _ "2 ^ bsy"])
  have five: "bp AND 0x1f = bp mod 32" using and_mask_int [of bp 5] by simp
  note defs = L_def pageLooperForRect_def Let_def masks drop_bit_eq_div ceil_pow five pgs GS_MAX_PAGES_def
  show cnt: "yCnt L = (Y2 - 1) div blocks_y - Y1 div blocks_y + 1" and "yInc L = 64 * bw div 2 ^ psx"
    and "pl_bp L = bp div 32 + Y1 div blocks_y * (64 * bw div 2 ^ psx)"
    and "slowPath L \<longleftrightarrow> (yCnt L * yInc L + ((X2 - 1) div blocks_x + 1 + (if bp mod 32 = 0 then 0 else 1)) - X1 div blocks_x) mod 2 ^ 32 > 512"
    by (simp_all add: defs)
  let ?a = "align \<lparr>r_left = l, r_top = t, r_right = r, r_bottom = b\<rparr> (m_blockMask swz) (m_pageMask swz) bsx bsy"
  assume y: "0 \<le> y" "y < yCnt L"
  show "row_offs L y = row_range bp (cover blocks_y Y1 Y2 (Y1 div blocks_y + y)) X1 X2"
  proof (cases "bp mod 32 = 0")
    case True
    then show ?thesis by (simp add: defs row_offs_def row_range_def)
  next
    case False
    have adj: "adjustStartEnd (make_GSOffset swz bp bw p) ?a (X1 div blocks_x) ((X2 - 1) div blocks_x + 2) y1 y2 = row_range bp I X1 X2"
      if "residues blocks_y y1 y2 = I" for y1 y2 I
      using False adjust_eq [OF X [unfolded X1_def X2_def] that, of bp bw p t b] by (simp add: row_range_def Let_def X1_def X2_def)
    define a where "a = ?a"
    have a: "align \<lparr>r_left = l, r_top = t, r_right = r, r_bottom = b\<rparr> (2 ^ bsx - 1, 2 ^ bsy - 1) (2 ^ psx - 1, 2 ^ psy - 1) bsx bsy = a"
      by (simp add: a_def masks)
    have f: "oy1 a = Y1" "oy2 a = Y2" "iy1 a = inner1 blocks_y Y1" "iy2 a = inner2 blocks_y Y2"
      by (simp_all add: a_def align_eq Let_def Y1_def Y2_def)
    have m: "0 < blocks_y" by simp
    have fin: "(X2 - 1) div blocks_x + 1 + 1 = (X2 - 1) div blocks_x + 2" by simp
    note adj = adj [folded a_def]
    show ?thesis
    proof (cases "staysWithinOnePage Y1 Y2 (inner1 blocks_y Y1) (inner2 blocks_y Y2)")
      case True
      with cnt y have "y = 0" using cover_stays(1) [OF m Y True] by simp
      then show ?thesis
        using adj [OF cover_stays(2) [OF m Y True]] True False by (simp add: defs row_offs_def a f fin)
    next
      case leaves: False
      note lv = cover_leaves [OF m Y leaves]
      consider "y = 0" | "y \<noteq> 0" "y = yCnt L - 1" | "y \<noteq> 0" "y < yCnt L - 1" using y by linarith
      then show ?thesis
      proof cases
        case 1
        have "(if Y1 \<noteq> inner1 blocks_y Y1 then residues blocks_y Y1 (inner1 blocks_y Y1) else residues blocks_y 0 blocks_y)
            = cover blocks_y Y1 Y2 (Y1 div blocks_y + y)" using lv(1) 1 by (auto split: if_splits)
        then show ?thesis
          using leaves False 1 adj by (auto simp: defs row_offs_def a f fin push_bit_eq_mult split: if_splits)
      next
        case 2
        have "(if Y2 \<noteq> inner2 blocks_y Y2 then residues blocks_y (inner2 blocks_y Y2) Y2 else residues blocks_y 0 blocks_y)
            = cover blocks_y Y1 Y2 (Y1 div blocks_y + y)" using lv(2) 2 cnt by (auto split: if_splits)
        then show ?thesis
          using leaves False 2 cnt adj by (auto simp: defs row_offs_def a f fin push_bit_eq_mult split: if_splits)
      next
        case 3
        have "residues blocks_y 0 blocks_y = cover blocks_y Y1 Y2 (Y1 div blocks_y + y)"
          using 3 y cnt by (subst cover_inner) (auto simp: residues_full)
        then show ?thesis
          using leaves False 3 cnt adj by (simp add: defs row_offs_def a f fin push_bit_eq_mult)
      qed
    qed
  qed
qed

lemma range_row:
  assumes X: "X1 < X2" and I: "I \<noteq> {}" "I \<subseteq> {0..<blocks_y}"
  shows "{fst (row_range bp I X1 X2)..<snd (row_range bp I X1 X2)} = touched_pages (32 - bp mod 32) I X1 X2"
proof (cases "bp mod 32 = 0")
  case True
  have n: "0 < blocks_x" by simp
  have low: "tab bt i j < 32" if "i \<in> I" "j \<in> cover blocks_x X1 X2 tx" for i j tx
    using that I(2) by (intro block_entry(3)) (auto simp: cover_def sizes)
  have "X1 mod blocks_x \<in> cover blocks_x X1 X2 (X1 div blocks_x)" using X by (simp add: cover_def)
  with I(1) low have "uses 32 I (cover blocks_x X1 X2 (X1 div blocks_x)) True" unfolding uses_def by (metis ex_in_conv)
  moreover have "\<not> uses 32 I (cover blocks_x X1 X2 ((X2 - 1) div blocks_x)) False" using low by (auto simp: uses_def)
  ultimately show ?thesis using touched_interval [OF X I, of 32] True by (simp add: row_range_def Let_def add.commute [of 1])
next
  case False
  then show ?thesis using touched_interval [OF X I] by (simp add: row_range_def Let_def)
qed

lemma range_bounds:
  "X1 div blocks_x \<le> fst (row_range bp I X1 X2)" "fst (row_range bp I X1 X2) \<le> X1 div blocks_x + 1"
  "(X2 - 1) div blocks_x + 1 \<le> snd (row_range bp I X1 X2)"
  "snd (row_range bp I X1 X2) \<le> (X2 - 1) div blocks_x + 1 + (if bp mod 32 = 0 then 0 else 1)"
  "bp mod 32 = 0 \<Longrightarrow> row_range bp I X1 X2 = (X1 div blocks_x, (X2 - 1) div blocks_x + 1)"
  by (auto simp: row_range_def Let_def)

lemma page_of_pixel:
  "swizzle_bn swz x y bp bw div 32 =
     (bp div 32 + y div 2 ^ psy * (64 * bw div 2 ^ psx) + (x div 2 ^ psx + (if tile x y < 32 - bp mod 32 then 0 else 1))) mod 512"
proof -
  define P where "P = y div 2 ^ psy * (64 * bw div 2 ^ psx) + x div 2 ^ psx"
  have sum: "bp + 32 * P + tile x y = (bp mod 32 + tile x y) + (bp div 32 + P) * 32"
    by (simp add: algebra_simps minus_mod_eq_mult_div [symmetric])
  have "0 \<le> bp mod 32" "bp mod 32 < 32" by simp_all
  then have "(bp mod 32 + tile x y) div 32 = (if tile x y < 32 - bp mod 32 then 0 else 1)"
    using tile_range [of x y] by auto
  then have "(bp + 32 * P + tile x y) div 32 = bp div 32 + P + (if tile x y < 32 - bp mod 32 then 0 else 1)"
    unfolding sum by (subst div_mult_self1) simp_all
  moreover have "(k XOR z) mod 16384 div 32 = k div 32 mod 512" for k
    using mod_div_int [of 32 512 "k XOR z"] xor_div [OF xors(3,4), of k] by simp
  ultimately show ?thesis unfolding bn_eq block_spec_eq by (simp add: P_def add.assoc)
qed

lemma pixel_cover:
  fixes l r x :: int and bs ps :: nat
  defines "X1 \<equiv> l div 2 ^ bs" and "X2 \<equiv> (r - 1) div 2 ^ bs + 1"
  assumes "bs \<le> ps" "l < r"
  shows "l \<le> x \<Longrightarrow> x < r \<Longrightarrow> x mod 2 ^ ps div 2 ^ bs \<in> cover (2 ^ (ps - bs)) X1 X2 (x div 2 ^ ps)"
    "j \<in> cover (2 ^ (ps - bs)) X1 X2 tx \<Longrightarrow> \<exists>x. l \<le> x \<and> x < r \<and> x div 2 ^ ps = tx \<and> x mod 2 ^ ps div 2 ^ bs = j"
proof -
  have ps: "(2 :: int) ^ ps = 2 ^ (ps - bs) * 2 ^ bs" by (rule pow_split [OF assms(3)])
  have parts: "x mod 2 ^ ps div 2 ^ bs = x div 2 ^ bs mod 2 ^ (ps - bs)" "x div 2 ^ ps = x div 2 ^ bs div 2 ^ (ps - bs)" for x :: int
    unfolding ps by (simp_all add: mod_div_int) (simp add: zdiv_zmult2_eq mult.commute [of _ "2 ^ bs"])
  show "x mod 2 ^ ps div 2 ^ bs \<in> cover (2 ^ (ps - bs)) X1 X2 (x div 2 ^ ps)" if "l \<le> x" "x < r"
    using that by (simp add: cover_def parts X1_def X2_def zdiv_mono1 le_imp_less_Suc)
  assume j: "j \<in> cover (2 ^ (ps - bs)) X1 X2 tx"
  define k x where "k = 2 ^ (ps - bs) * tx + j" and "x = max l (k * 2 ^ bs)"
  have k: "X1 \<le> k" "k < X2" "0 \<le> j" "j < 2 ^ (ps - bs)" using j by (auto simp: cover_def k_def)
  have "k \<le> (r - 1) div 2 ^ bs" using k(2) by (simp add: X2_def)
  then have "k * 2 ^ bs \<le> (r - 1) div 2 ^ bs * 2 ^ bs" by simp
  also have "\<dots> \<le> r - 1" using div_parts(4) [of "2 ^ bs" "r - 1"] by (simp add: mult.commute)
  finally have "k * 2 ^ bs < r" by simp
  have "x div 2 ^ bs = k"
  proof (cases "l \<le> k * 2 ^ bs")
    case False
    then have "k \<le> l div 2 ^ bs" using zdiv_mono1 [of "k * 2 ^ bs" l "2 ^ bs"] by simp
    with False k(1) show ?thesis by (simp add: x_def X1_def)
  qed (simp add: x_def)
  then show "\<exists>x. l \<le> x \<and> x < r \<and> x div 2 ^ ps = tx \<and> x mod 2 ^ ps div 2 ^ bs = j"
    using k \<open>k * 2 ^ bs < r\<close> \<open>l < r\<close> by (intro exI [of _ x]) (simp add: parts k_def x_def)
qed

lemma pages_of_rect:
  fixes l t r b bp bw :: int
  defines "X1 \<equiv> l div 2 ^ bsx" and "X2 \<equiv> (r - 1) div 2 ^ bsx + 1" and "Y1 \<equiv> t div 2 ^ bsy" and "Y2 \<equiv> (b - 1) div 2 ^ bsy + 1"
    and "w \<equiv> 64 * bw div 2 ^ psx"
  assumes "l < r" "t < b"
  shows "(\<lambda>(x, y). swizzle_bn swz x y bp bw div 32) ` ({l..<r} \<times> {t..<b}) =
    (\<lambda>q. q mod 512) ` (\<Union>ty\<in>{Y1 div blocks_y..(Y2 - 1) div blocks_y}.
      (\<lambda>k. bp div 32 + ty * w + k) ` touched_pages (32 - bp mod 32) (cover blocks_y Y1 Y2 ty) X1 X2)" (is "?lhs = ?rhs")
proof
  note px = pixel_cover [OF ranges(3) assms(6), folded X1_def X2_def] and py = pixel_cover [OF ranges(4) assms(7), folded Y1_def Y2_def]
  show "?lhs \<subseteq> ?rhs"
  proof
    fix q
    assume "q \<in> ?lhs"
    then obtain x y where xy: "l \<le> x" "x < r" "t \<le> y" "y < b" and q: "q = swizzle_bn swz x y bp bw div 32" by auto
    have "Y1 div blocks_y \<le> y div 2 ^ psy \<and> y div 2 ^ psy \<le> (Y2 - 1) div blocks_y"
      unfolding page_split(2) Y1_def Y2_def using xy(3,4)
      by (simp add: mult.commute [of _ "2 ^ bsy"] zdiv_zmult2_eq zdiv_mono1)
    moreover have "x div 2 ^ psx + (if tile x y < 32 - bp mod 32 then 0 else 1)
        \<in> touched_pages (32 - bp mod 32) (cover blocks_y Y1 Y2 (y div 2 ^ psy)) X1 X2"
      using px(1) [OF xy(1,2)] py(1) [OF xy(3,4)] unfolding touched_pages_def tile_def by blast
    ultimately show "q \<in> ?rhs" unfolding q page_of_pixel w_def [symmetric] by (auto intro!: imageI)
  qed
  show "?rhs \<subseteq> ?lhs"
  proof
    fix q
    assume "q \<in> ?rhs"
    then obtain ty tx i j where q: "q = (bp div 32 + ty * w + (tx + (if tab bt i j < 32 - bp mod 32 then 0 else 1))) mod 512"
      and ij: "i \<in> cover blocks_y Y1 Y2 ty" "j \<in> cover blocks_x X1 X2 tx" by (auto simp: touched_pages_def)
    from px(2) [OF ij(2)] obtain x where x: "l \<le> x" "x < r" "x div 2 ^ psx = tx" "x mod 2 ^ psx div 2 ^ bsx = j" by blast
    from py(2) [OF ij(1)] obtain y where y: "t \<le> y" "y < b" "y div 2 ^ psy = ty" "y mod 2 ^ psy div 2 ^ bsy = i" by blast
    have "q = swizzle_bn swz x y bp bw div 32" unfolding page_of_pixel q tile_def by (simp add: x y w_def)
    with x y show "q \<in> ?lhs" by force
  qed
qed

lemma loopPages_exact:
  fixes l t r b bp bw :: int
  assumes rect: "0 \<le> l" "l < r" "r \<le> 2048" "0 \<le> t" "t < b" "b \<le> 2048" and base: "0 \<le> bp" "bp < 16384" "0 \<le> bw" "bw < 64"
    and wide: "bp mod 32 = 0 \<or> 0 < 64 * bw div 2 ^ psx"
  shows "distinct (loopPages (make_GSOffset swz bp bw p) \<lparr>r_left = l, r_top = t, r_right = r, r_bottom = b\<rparr> (\<lambda>p ps. ps @ [p]) []) \<and>
    set (loopPages (make_GSOffset swz bp bw p) \<lparr>r_left = l, r_top = t, r_right = r, r_bottom = b\<rparr> (\<lambda>p ps. ps @ [p]) []) =
      (\<lambda>(x, y). swizzle_bn swz x y bp bw div 32) ` ({l..<r} \<times> {t..<b})"
proof -
  define L where "L = pageLooperForRect (make_GSOffset swz bp bw p) \<lparr>r_left = l, r_top = t, r_right = r, r_bottom = b\<rparr>"
  define w where "w = 64 * bw div 2 ^ psx"
  define X1 X2 Y1 Y2 where "X1 = l div 2 ^ bsx" and "X2 = (r - 1) div 2 ^ bsx + 1" and "Y1 = t div 2 ^ bsy" and "Y2 = (b - 1) div 2 ^ bsy + 1"
  define t1 t2 u1 u2 where "t1 = X1 div blocks_x" and "t2 = (X2 - 1) div blocks_x" and "u1 = Y1 div blocks_y" and "u2 = (Y2 - 1) div blocks_y"
  note rows = looper_rows [OF rect(2,5), where bp = bp and bw = bw and p = p, folded L_def X1_def X2_def Y1_def Y2_def w_def, folded t1_def t2_def u1_def u2_def]
  let ?C = "\<lambda>y. cover blocks_y Y1 Y2 (u1 + y)"
  have X: "X1 < X2" and Y: "Y1 < Y2"
    using rect by (simp_all add: X1_def X2_def Y1_def Y2_def zdiv_mono1 le_imp_less_Suc)
  have pgs: "0 \<le> t1" "t1 \<le> t2" "t2 \<le> 2047" "0 \<le> u1" "u1 \<le> u2" "u2 \<le> 2047" "0 \<le> w" "w \<le> 64"
  proof -
    have small: "0 \<le> k div 2 ^ n \<and> k div 2 ^ n \<le> k" if "0 \<le> k" for k :: int and n :: nat
      using that zdiv_mono2 [of k 1 "2 ^ n"] by (simp add: pos_imp_zdiv_nonneg_iff)
    have "64 * bw div 2 ^ psx \<le> 64 * bw div 2 ^ 6" using base(3) ranges(1) by (intro zdiv_mono2 power_increasing) auto
    then show "0 \<le> w" "w \<le> 64" using base(3,4) by (auto simp: w_def pos_imp_zdiv_nonneg_iff)
    show "t1 \<le> t2" "u1 \<le> u2" using X Y by (simp_all add: t1_def t2_def u1_def u2_def zdiv_mono1)
    show "0 \<le> t1" "0 \<le> u1" using rect by (simp_all add: t1_def u1_def X1_def Y1_def pos_imp_zdiv_nonneg_iff)
    have "(r - 1) div 2 ^ bsx div blocks_x \<le> r - 1" "(b - 1) div 2 ^ bsy div blocks_y \<le> b - 1"
      using rect small [of "r - 1" bsx] small [of "(r - 1) div 2 ^ bsx" "psx - bsx"] small [of "b - 1" bsy]
        small [of "(b - 1) div 2 ^ bsy" "psy - bsy"] by linarith+
    then show "t2 \<le> 2047" "u2 \<le> 2047" using rect by (simp_all add: t2_def u2_def X2_def Y2_def)
  qed
  have range: "t1 \<le> fst (row_offs L y)" "fst (row_offs L y) \<le> t1 + 1" "t2 + 1 \<le> snd (row_offs L y)"
      "snd (row_offs L y) \<le> t2 + 1 + (if bp mod 32 = 0 then 0 else 1)" "bp mod 32 = 0 \<Longrightarrow> row_offs L y = (t1, t2 + 1)"
    if "0 \<le> y" "y < yCnt L" for y
    unfolding rows(5) [OF that] t1_def t2_def by (rule range_bounds; assumption?)+
  have line: "0 \<le> y * w" "y * w \<le> (u2 - u1) * w" if "0 \<le> y" "y < yCnt L" for y
    using that pgs(7) rows(1) by (auto intro!: mult_right_mono)
  have span: "0 \<le> (u2 - u1) * w" "(u2 - u1) * w \<le> 2047 * 64" "0 \<le> u1 * w" "u1 * w \<le> 2047 * 64"
  proof -
    show "(u2 - u1) * w \<le> 2047 * 64" by (rule mult_mono) (use pgs in auto)
    show "u1 * w \<le> 2047 * 64" by (rule mult_mono) (use pgs in auto)
  qed (use pgs in auto)
  have bp: "0 \<le> bp div 32" "bp div 32 < 512" using base by auto
  have "distinct (PageLooper_loopPages L (\<lambda>p ps. ps @ [p]) []) \<and>
      set (PageLooper_loopPages L (\<lambda>p ps. ps @ [p]) []) = (\<lambda>q. q mod GS_MAX_PAGES) ` row_pages L 0 (yCnt L)"
  proof (rule loop_visits [where lo = "pl_bp L + t1"])
    show "0 \<le> yCnt L" using rows(1) pgs by simp
  next
    fix y
    assume y: "0 \<le> y" "y < yCnt L"
    show "0 \<le> row_start L y \<and> row_start L y < 2 ^ 32 \<and> 0 \<le> row_stop L y \<and> row_stop L y < 2 ^ 32"
      using range(1-4) [OF y] line [OF y] span bp pgs by (auto simp: row_start_def row_stop_def rows(2,3) split: if_splits)
    assume "\<not> slowPath L"
    moreover have "yCnt L * w = (u2 - u1) * w + w" by (simp add: rows(1) algebra_simps)
    ultimately have "(u2 - u1) * w + w + (t2 + 1 + (if bp mod 32 = 0 then 0 else 1)) - t1 \<le> 512"
      using span pgs by (simp add: rows(2,4) split: if_splits)
    then show "pl_bp L + t1 \<le> row_start L y \<and> row_stop L y \<le> pl_bp L + t1 + 512"
      using range(1-4) [OF y] line [OF y] pgs by (auto simp: row_start_def row_stop_def rows(2) split: if_splits)
  next
    fix y
    assume y: "0 \<le> y" "y + 1 < yCnt L"
    then have y': "0 \<le> y" "y < yCnt L" "0 \<le> y + 1" "y + 1 < yCnt L" by simp_all
    have "1 \<le> w" if "bp mod 32 \<noteq> 0" using wide that by (simp add: w_def)
    then show "row_start L y \<le> row_start L (y + 1) \<and> row_stop L y \<le> row_stop L (y + 1)"
      using range [OF y'(1,2)] range [OF y'(3,4)] pgs(7)
      by (cases "bp mod 32 = 0") (auto simp: row_start_def row_stop_def rows(2) distrib_right)
  qed
  moreover have "(\<lambda>q. q mod GS_MAX_PAGES) ` row_pages L 0 (yCnt L) =
      (\<lambda>(x, y). swizzle_bn swz x y bp bw div 32) ` ({l..<r} \<times> {t..<b})"
  proof -
    let ?T = "\<lambda>ty. (\<lambda>k. bp div 32 + ty * w + k) ` touched_pages (32 - bp mod 32) (cover blocks_y Y1 Y2 ty) X1 X2"
    have row: "{row_start L y..<row_stop L y} = ?T (u1 + y)" if y: "0 \<le> y" "y < yCnt L" for y
    proof -
      have "?C y \<noteq> {}" using y rows(1) Y by (intro cover_nonempty) (auto simp: u1_def u2_def)
      moreover have "?C y \<subseteq> {0..<blocks_y}" by (auto simp: cover_def)
      ultimately have "touched_pages (32 - bp mod 32) (?C y) X1 X2 = {fst (row_offs L y)..<snd (row_offs L y)}"
        unfolding rows(5) [OF y] by (rule range_row [OF X, symmetric])
      moreover have "row_start L y = bp div 32 + (u1 + y) * w + fst (row_offs L y)" "row_stop L y = bp div 32 + (u1 + y) * w + snd (row_offs L y)"
        by (simp_all add: row_start_def row_stop_def rows(2,3) distrib_right)
      ultimately show ?thesis by (simp add: image_add_atLeastLessThan add.commute)
    qed
    have e: "{u1..u2} = (\<lambda>y. u1 + y) ` {0..<yCnt L}" using rows(1) by (simp add: image_add_atLeastLessThan atLeastLessThanPlusOne_atLeastAtMost_int)
    have "(\<Union>ty\<in>(\<lambda>y. u1 + y) ` {0..<yCnt L}. ?T ty) = (\<Union>y\<in>{0..<yCnt L}. ?T (u1 + y))" by (rule image_UN_eq)
    also have "\<dots> = row_pages L 0 (yCnt L)" using row by (intro SUP_cong) auto
    finally have "row_pages L 0 (yCnt L) = (\<Union>ty\<in>{u1..u2}. ?T ty)" unfolding e by simp
    then show ?thesis
      using pages_of_rect [OF rect(2,5), of bp bw, folded X1_def X2_def Y1_def Y2_def w_def, folded u1_def u2_def]
      by (simp add: GS_MAX_PAGES_def)
  qed
  ultimately show ?thesis by (simp add: loopPages_def L_def)
qed

end

text \<open>C38: the loop over the pages of a rectangle visits exactly the pages that hold a pixel of it, each once, in every
  pixel storage mode, whether or not the base pointer is at the start of a page, and also when the buffer is large
  enough to wrap around the memory. It needs a buffer at least one page wide unless the base pointer is aligned to a
  page; the second part is a rectangle in a narrower buffer where the loop misses a page.\<close>
theorem loopPages_visits_pages:
  assumes "(swz, bt, ct, z) \<in> set swizzles"
    and "0 \<le> l" "l < r" "r \<le> 2048" "0 \<le> t" "t < b" "b \<le> 2048" "0 \<le> bp" "bp < 16384" "0 \<le> bw" "bw < 64"
    and "bp mod 32 = 0 \<or> 0 < m_bwPg (make_GSOffset swz bp bw p)"
  defines "ps \<equiv> loopPages (make_GSOffset swz bp bw p) \<lparr>r_left = l, r_top = t, r_right = r, r_bottom = b\<rparr> (\<lambda>p ps. ps @ [p]) []"
  shows "(distinct ps \<and> set ps = (\<lambda>(x, y). swizzle_bn swz x y bp bw div 32) ` ({l..<r} \<times> {t..<b})) \<and>
    loopPages (make_GSOffset swizzle16S 21 0 0) \<lparr>r_left = 29, r_top = 51, r_right = 62, r_bottom = 74\<rparr> (\<lambda>p ps. ps @ [p]) [] = [1] \<and>
    swizzle_bn swizzle16S 29 64 21 0 div 32 = 0"
proof -
  obtain psx psy bsx bsy rs sel where s: "swizzle swz bt ct z psx psy bsx bsy rs sel" using swizzles_locale [OF assms(1)] .
  have "distinct ps \<and> set ps = (\<lambda>(x, y). swizzle_bn swz x y bp bw div 32) ` ({l..<r} \<times> {t..<b})"
    unfolding ps_def by (rule swizzle.loopPages_exact [OF s assms(2-11) assms(12) [unfolded swizzle.bwPg_eq [OF s]]])
  moreover have "loopPages (make_GSOffset swizzle16S 21 0 0) \<lparr>r_left = 29, r_top = 51, r_right = 62, r_bottom = 74\<rparr> (\<lambda>p ps. ps @ [p]) [] = [1]"
    by code_simp
  moreover have "swizzle_bn swizzle16S 29 64 21 0 div 32 = 0" by code_simp
  ultimately show ?thesis by blast
qed

theorem loopPages_visits_pages_witness:
  "set (loopPages (make_GSOffset swizzle8 37 4 0) \<lparr>r_left = 10, r_top = 60, r_right = 200, r_bottom = 70\<rparr> (\<lambda>p ps. ps @ [p]) []) =
     (\<lambda>(x, y). swizzle_bn swizzle8 x y 37 4 div 32) ` ({10..<200} \<times> {60..<70})"
  using loopPages_visits_pages [of swizzle8 raw_blockTable8 columnTable8 0 10 200 60 70 37 4 0] by (simp add: swizzles_def)

end
