(* ===== verification/GS_Pixels.thy ===== *)
theory GS_Pixels
  imports GS_LocalMemory
begin

text \<open>
  Reading and writing pixels and texels in each pixel storage mode, and the table of modes that the constructor of
  \<open>GSLocalMemory\<close> fills (src/pcsx2/GS/GSLocalMemory.h, GSLocalMemory.cpp). The 4 MB are mapped several times in a row,
  so a byte address counts modulo 4 MB.
\<close>

subsection \<open>Memory\<close>

record GSLocalMemory =
  m_vm8 :: "22 word \<Rightarrow> u8"
  m_buff32 :: "u32 \<Rightarrow> u32"

definition vm_load :: "int \<Rightarrow> GSLocalMemory \<Rightarrow> 'a::len word" where
  "vm_load p m = load_le (\<lambda>q. m_vm8 m (ucast q)) (word_of_int p)"

definition vm_store :: "int \<Rightarrow> 'a::len word \<Rightarrow> GSLocalMemory \<Rightarrow> GSLocalMemory" where
  "vm_store p v m = m\<lparr>m_vm8 := (\<lambda>i. let k = unat (i - word_of_int p) in
     if k < LENGTH('a) div 8 then ucast (drop_bit (8 * k) v) else m_vm8 m i)\<rparr>"

definition vm8 :: "GSLocalMemory \<Rightarrow> int \<Rightarrow> u8" where "vm8 m addr = vm_load addr m"
definition vm16 :: "GSLocalMemory \<Rightarrow> int \<Rightarrow> u16" where "vm16 m addr = vm_load (2 * addr) m"
definition vm32 :: "GSLocalMemory \<Rightarrow> int \<Rightarrow> u32" where "vm32 m addr = vm_load (4 * addr) m"
definition set_vm8 :: "int \<Rightarrow> u8 \<Rightarrow> GSLocalMemory \<Rightarrow> GSLocalMemory" where "set_vm8 addr v = vm_store addr v"
definition set_vm16 :: "int \<Rightarrow> u16 \<Rightarrow> GSLocalMemory \<Rightarrow> GSLocalMemory" where "set_vm16 addr v = vm_store (2 * addr) v"
definition set_vm32 :: "int \<Rightarrow> u32 \<Rightarrow> GSLocalMemory \<Rightarrow> GSLocalMemory" where "set_vm32 addr v = vm_store (4 * addr) v"

text \<open>The palette buffer, \<open>GSClut::operator[]\<close>.\<close>

definition clut_read :: "GSLocalMemory \<Rightarrow> u32 \<Rightarrow> u32" where "clut_read m i = m_buff32 m i"

subsection \<open>Addresses of each mode\<close>

definition BlockNumber32 :: "int \<Rightarrow> int \<Rightarrow> int \<Rightarrow> int \<Rightarrow> int" where "BlockNumber32 = swizzle_bn swizzle32"
definition BlockNumber16 :: "int \<Rightarrow> int \<Rightarrow> int \<Rightarrow> int \<Rightarrow> int" where "BlockNumber16 = swizzle_bn swizzle16"
definition BlockNumber16S :: "int \<Rightarrow> int \<Rightarrow> int \<Rightarrow> int \<Rightarrow> int" where "BlockNumber16S = swizzle_bn swizzle16S"
definition BlockNumber8 :: "int \<Rightarrow> int \<Rightarrow> int \<Rightarrow> int \<Rightarrow> int" where "BlockNumber8 = swizzle_bn swizzle8"
definition BlockNumber4 :: "int \<Rightarrow> int \<Rightarrow> int \<Rightarrow> int \<Rightarrow> int" where "BlockNumber4 = swizzle_bn swizzle4"
definition BlockNumber32Z :: "int \<Rightarrow> int \<Rightarrow> int \<Rightarrow> int \<Rightarrow> int" where "BlockNumber32Z = swizzle_bn swizzle32Z"
definition BlockNumber16Z :: "int \<Rightarrow> int \<Rightarrow> int \<Rightarrow> int \<Rightarrow> int" where "BlockNumber16Z = swizzle_bn swizzle16Z"
definition BlockNumber16SZ :: "int \<Rightarrow> int \<Rightarrow> int \<Rightarrow> int \<Rightarrow> int" where "BlockNumber16SZ = swizzle_bn swizzle16SZ"

definition BlockPtr :: "int \<Rightarrow> int" where "BlockPtr bp = push_bit 8 (bp mod GS_MAX_BLOCKS)"
definition BlockPtr32 :: "int \<Rightarrow> int \<Rightarrow> int \<Rightarrow> int \<Rightarrow> int" where "BlockPtr32 x y bp bw = push_bit 8 (BlockNumber32 x y bp bw)"
definition BlockPtr16 :: "int \<Rightarrow> int \<Rightarrow> int \<Rightarrow> int \<Rightarrow> int" where "BlockPtr16 x y bp bw = push_bit 8 (BlockNumber16 x y bp bw)"
definition BlockPtr16S :: "int \<Rightarrow> int \<Rightarrow> int \<Rightarrow> int \<Rightarrow> int" where "BlockPtr16S x y bp bw = push_bit 8 (BlockNumber16S x y bp bw)"
definition BlockPtr8 :: "int \<Rightarrow> int \<Rightarrow> int \<Rightarrow> int \<Rightarrow> int" where "BlockPtr8 x y bp bw = push_bit 8 (BlockNumber8 x y bp bw)"
definition BlockPtr4 :: "int \<Rightarrow> int \<Rightarrow> int \<Rightarrow> int \<Rightarrow> int" where "BlockPtr4 x y bp bw = push_bit 8 (BlockNumber4 x y bp bw)"
definition BlockPtr32Z :: "int \<Rightarrow> int \<Rightarrow> int \<Rightarrow> int \<Rightarrow> int" where "BlockPtr32Z x y bp bw = push_bit 8 (BlockNumber32Z x y bp bw)"
definition BlockPtr16Z :: "int \<Rightarrow> int \<Rightarrow> int \<Rightarrow> int \<Rightarrow> int" where "BlockPtr16Z x y bp bw = push_bit 8 (BlockNumber16Z x y bp bw)"
definition BlockPtr16SZ :: "int \<Rightarrow> int \<Rightarrow> int \<Rightarrow> int \<Rightarrow> int" where "BlockPtr16SZ x y bp bw = push_bit 8 (BlockNumber16SZ x y bp bw)"

definition PixelAddress32 :: "int \<Rightarrow> int \<Rightarrow> int \<Rightarrow> int \<Rightarrow> int" where "PixelAddress32 = swizzle_pa swizzle32"
definition PixelAddress16 :: "int \<Rightarrow> int \<Rightarrow> int \<Rightarrow> int \<Rightarrow> int" where "PixelAddress16 = swizzle_pa swizzle16"
definition PixelAddress16S :: "int \<Rightarrow> int \<Rightarrow> int \<Rightarrow> int \<Rightarrow> int" where "PixelAddress16S = swizzle_pa swizzle16S"
definition PixelAddress8 :: "int \<Rightarrow> int \<Rightarrow> int \<Rightarrow> int \<Rightarrow> int" where "PixelAddress8 = swizzle_pa swizzle8"
definition PixelAddress4 :: "int \<Rightarrow> int \<Rightarrow> int \<Rightarrow> int \<Rightarrow> int" where "PixelAddress4 = swizzle_pa swizzle4"
definition PixelAddress32Z :: "int \<Rightarrow> int \<Rightarrow> int \<Rightarrow> int \<Rightarrow> int" where "PixelAddress32Z = swizzle_pa swizzle32Z"
definition PixelAddress16Z :: "int \<Rightarrow> int \<Rightarrow> int \<Rightarrow> int \<Rightarrow> int" where "PixelAddress16Z = swizzle_pa swizzle16Z"
definition PixelAddress16SZ :: "int \<Rightarrow> int \<Rightarrow> int \<Rightarrow> int \<Rightarrow> int" where "PixelAddress16SZ = swizzle_pa swizzle16SZ"

subsection \<open>Colours\<close>

record GIFRegTEXA =
  TA0 :: u8
  AEM :: bool
  TA1 :: u8

record GIFRegTEX0 =
  TBP0 :: int
  TBW :: int

definition Expand24To32 :: "u32 \<Rightarrow> GIFRegTEXA \<Rightarrow> u32" where
  "Expand24To32 c TEXA =
     push_bit 24 (if \<not> AEM TEXA \<or> c AND 0xffffff \<noteq> 0 then ucast (TA0 TEXA) else 0) OR (c AND 0xffffff)"

definition Expand16To32 :: "u16 \<Rightarrow> GIFRegTEXA \<Rightarrow> u32" where
  "Expand16To32 c TEXA =
     push_bit 24 (if c AND 0x8000 \<noteq> 0 then ucast (TA1 TEXA) else if \<not> AEM TEXA \<or> c \<noteq> 0 then ucast (TA0 TEXA) else 0)
     OR push_bit 9 (ucast (c AND 0x7c00)) OR push_bit 6 (ucast (c AND 0x03e0)) OR push_bit 3 (ucast (c AND 0x001f))"

subsection \<open>Reading at an address\<close>

type_synonym read_at = "int \<Rightarrow> GSLocalMemory \<Rightarrow> u32"
type_synonym write_at = "int \<Rightarrow> u32 \<Rightarrow> GSLocalMemory \<Rightarrow> GSLocalMemory"

definition ReadPixel32_at :: read_at where "ReadPixel32_at addr m = vm32 m addr"
definition ReadPixel24_at :: read_at where "ReadPixel24_at addr m = vm32 m addr AND 0x00ffffff"
definition ReadPixel16_at :: read_at where "ReadPixel16_at addr m = ucast (vm16 m addr)"
definition ReadPixel8_at :: read_at where "ReadPixel8_at addr m = ucast (vm8 m addr)"
definition ReadPixel4_at :: read_at where
  "ReadPixel4_at addr m = ucast (drop_bit (nat (push_bit 2 (addr AND 1))) (vm8 m (drop_bit 1 addr))) AND 0x0f"
definition ReadPixel8H_at :: read_at where "ReadPixel8H_at addr m = drop_bit 24 (vm32 m addr)"
definition ReadPixel4HL_at :: read_at where "ReadPixel4HL_at addr m = drop_bit 24 (vm32 m addr) AND 0x0f"
definition ReadPixel4HH_at :: read_at where "ReadPixel4HH_at addr m = drop_bit 28 (vm32 m addr) AND 0x0f"
definition ReadFrame24_at :: read_at where "ReadFrame24_at addr m = 0x80000000 OR (vm32 m addr AND 0xffffff)"
definition ReadFrame16_at :: read_at where
  "ReadFrame16_at addr m =
     (let c = ucast (vm16 m addr) :: u32
      in push_bit 16 (c AND 0x8000) OR push_bit 9 (c AND 0x7c00) OR push_bit 6 (c AND 0x03e0) OR push_bit 3 (c AND 0x001f))"

subsection \<open>Writing at an address\<close>

definition WritePixel32_at :: write_at where "WritePixel32_at addr c = set_vm32 addr c"
definition WritePixel24_at :: write_at where
  "WritePixel24_at addr c m = set_vm32 addr ((vm32 m addr AND 0xff000000) OR (c AND 0x00ffffff)) m"
definition WritePixel16_at :: write_at where "WritePixel16_at addr c = set_vm16 addr (ucast c)"
definition WritePixel8_at :: write_at where "WritePixel8_at addr c = set_vm8 addr (ucast c)"
definition WritePixel4_at :: write_at where
  "WritePixel4_at addr c m =
     (let shift = nat (push_bit 2 (addr AND 1)); addr' = drop_bit 1 addr
      in set_vm8 addr' (ucast ((ucast (vm8 m addr') AND drop_bit shift 0xf0) OR push_bit shift (c AND 0x0f))) m)"
definition WritePixel8H_at :: write_at where
  "WritePixel8H_at addr c m = set_vm32 addr ((vm32 m addr AND 0x00ffffff) OR push_bit 24 c) m"
definition WritePixel4HL_at :: write_at where
  "WritePixel4HL_at addr c m = set_vm32 addr ((vm32 m addr AND 0xf0ffffff) OR push_bit 24 (c AND 0x0f)) m"
definition WritePixel4HH_at :: write_at where
  "WritePixel4HH_at addr c m = set_vm32 addr ((vm32 m addr AND 0x0fffffff) OR push_bit 28 (c AND 0x0f)) m"
definition WriteFrame16_at :: write_at where
  "WriteFrame16_at addr c =
     (let rb = c AND 0x00f800f8; ga = c AND 0x8000f800
      in WritePixel16_at addr (drop_bit 16 ga OR drop_bit 9 rb OR drop_bit 6 ga OR drop_bit 3 rb))"

subsection \<open>Texels at an address\<close>

type_synonym texel_at = "int \<Rightarrow> GIFRegTEXA \<Rightarrow> GSLocalMemory \<Rightarrow> u32"

definition ReadTexel32_at :: texel_at where "ReadTexel32_at addr TEXA m = vm32 m addr"
definition ReadTexel24_at :: texel_at where "ReadTexel24_at addr TEXA m = Expand24To32 (vm32 m addr) TEXA"
definition ReadTexel16_at :: texel_at where "ReadTexel16_at addr TEXA m = Expand16To32 (vm16 m addr) TEXA"
definition ReadTexel8_at :: texel_at where "ReadTexel8_at addr TEXA m = clut_read m (ReadPixel8_at addr m)"
definition ReadTexel4_at :: texel_at where "ReadTexel4_at addr TEXA m = clut_read m (ReadPixel4_at addr m)"
definition ReadTexel8H_at :: texel_at where "ReadTexel8H_at addr TEXA m = clut_read m (ReadPixel8H_at addr m)"
definition ReadTexel4HL_at :: texel_at where "ReadTexel4HL_at addr TEXA m = clut_read m (ReadPixel4HL_at addr m)"
definition ReadTexel4HH_at :: texel_at where "ReadTexel4HH_at addr TEXA m = clut_read m (ReadPixel4HH_at addr m)"

subsection \<open>Access by coordinates\<close>

type_synonym read_px = "int \<Rightarrow> int \<Rightarrow> int \<Rightarrow> int \<Rightarrow> GSLocalMemory \<Rightarrow> u32"
type_synonym write_px = "int \<Rightarrow> int \<Rightarrow> u32 \<Rightarrow> int \<Rightarrow> int \<Rightarrow> GSLocalMemory \<Rightarrow> GSLocalMemory"
type_synonym read_tx = "int \<Rightarrow> int \<Rightarrow> GIFRegTEX0 \<Rightarrow> GIFRegTEXA \<Rightarrow> GSLocalMemory \<Rightarrow> u32"

definition ReadPixel32 :: read_px where "ReadPixel32 x y bp bw = ReadPixel32_at (PixelAddress32 x y bp bw)"
definition ReadPixel24 :: read_px where "ReadPixel24 x y bp bw = ReadPixel24_at (PixelAddress32 x y bp bw)"
definition ReadPixel16 :: read_px where "ReadPixel16 x y bp bw = ReadPixel16_at (PixelAddress16 x y bp bw)"
definition ReadPixel16S :: read_px where "ReadPixel16S x y bp bw = ReadPixel16_at (PixelAddress16S x y bp bw)"
definition ReadPixel8 :: read_px where "ReadPixel8 x y bp bw = ReadPixel8_at (PixelAddress8 x y bp bw)"
definition ReadPixel4 :: read_px where "ReadPixel4 x y bp bw = ReadPixel4_at (PixelAddress4 x y bp bw)"
definition ReadPixel8H :: read_px where "ReadPixel8H x y bp bw = ReadPixel8H_at (PixelAddress32 x y bp bw)"
definition ReadPixel4HL :: read_px where "ReadPixel4HL x y bp bw = ReadPixel4HL_at (PixelAddress32 x y bp bw)"
definition ReadPixel4HH :: read_px where "ReadPixel4HH x y bp bw = ReadPixel4HH_at (PixelAddress32 x y bp bw)"
definition ReadPixel32Z :: read_px where "ReadPixel32Z x y bp bw = ReadPixel32_at (PixelAddress32Z x y bp bw)"
definition ReadPixel24Z :: read_px where "ReadPixel24Z x y bp bw = ReadPixel24_at (PixelAddress32Z x y bp bw)"
definition ReadPixel16Z :: read_px where "ReadPixel16Z x y bp bw = ReadPixel16_at (PixelAddress16Z x y bp bw)"
definition ReadPixel16SZ :: read_px where "ReadPixel16SZ x y bp bw = ReadPixel16_at (PixelAddress16SZ x y bp bw)"
definition ReadFrame24 :: read_px where "ReadFrame24 x y bp bw = ReadFrame24_at (PixelAddress32 x y bp bw)"
definition ReadFrame16 :: read_px where "ReadFrame16 x y bp bw = ReadFrame16_at (PixelAddress16 x y bp bw)"
definition ReadFrame16S :: read_px where "ReadFrame16S x y bp bw = ReadFrame16_at (PixelAddress16S x y bp bw)"
definition ReadFrame24Z :: read_px where "ReadFrame24Z x y bp bw = ReadFrame24_at (PixelAddress32Z x y bp bw)"
definition ReadFrame16Z :: read_px where "ReadFrame16Z x y bp bw = ReadFrame16_at (PixelAddress16Z x y bp bw)"
definition ReadFrame16SZ :: read_px where "ReadFrame16SZ x y bp bw = ReadFrame16_at (PixelAddress16SZ x y bp bw)"

definition WritePixel32 :: write_px where "WritePixel32 x y c bp bw = WritePixel32_at (PixelAddress32 x y bp bw) c"
definition WritePixel24 :: write_px where "WritePixel24 x y c bp bw = WritePixel24_at (PixelAddress32 x y bp bw) c"
definition WritePixel16 :: write_px where "WritePixel16 x y c bp bw = WritePixel16_at (PixelAddress16 x y bp bw) c"
definition WritePixel16S :: write_px where "WritePixel16S x y c bp bw = WritePixel16_at (PixelAddress16S x y bp bw) c"
definition WritePixel8 :: write_px where "WritePixel8 x y c bp bw = WritePixel8_at (PixelAddress8 x y bp bw) c"
definition WritePixel4 :: write_px where "WritePixel4 x y c bp bw = WritePixel4_at (PixelAddress4 x y bp bw) c"
definition WritePixel8H :: write_px where "WritePixel8H x y c bp bw = WritePixel8H_at (PixelAddress32 x y bp bw) c"
definition WritePixel4HL :: write_px where "WritePixel4HL x y c bp bw = WritePixel4HL_at (PixelAddress32 x y bp bw) c"
definition WritePixel4HH :: write_px where "WritePixel4HH x y c bp bw = WritePixel4HH_at (PixelAddress32 x y bp bw) c"
definition WritePixel32Z :: write_px where "WritePixel32Z x y c bp bw = WritePixel32_at (PixelAddress32Z x y bp bw) c"
definition WritePixel24Z :: write_px where "WritePixel24Z x y c bp bw = WritePixel24_at (PixelAddress32Z x y bp bw) c"
definition WritePixel16Z :: write_px where "WritePixel16Z x y c bp bw = WritePixel16_at (PixelAddress16Z x y bp bw) c"
definition WritePixel16SZ :: write_px where "WritePixel16SZ x y c bp bw = WritePixel16_at (PixelAddress16SZ x y bp bw) c"
definition WriteFrame16 :: write_px where "WriteFrame16 x y c bp bw = WriteFrame16_at (PixelAddress16 x y bp bw) c"
definition WriteFrame16S :: write_px where "WriteFrame16S x y c bp bw = WriteFrame16_at (PixelAddress16S x y bp bw) c"
definition WriteFrame16Z :: write_px where "WriteFrame16Z x y c bp bw = WriteFrame16_at (PixelAddress16Z x y bp bw) c"
definition WriteFrame16SZ :: write_px where "WriteFrame16SZ x y c bp bw = WriteFrame16_at (PixelAddress16SZ x y bp bw) c"

definition ReadTexel32 :: read_tx where
  "ReadTexel32 x y TEX0 = ReadTexel32_at (PixelAddress32 x y (TBP0 TEX0) (TBW TEX0))"
definition ReadTexel24 :: read_tx where
  "ReadTexel24 x y TEX0 = ReadTexel24_at (PixelAddress32 x y (TBP0 TEX0) (TBW TEX0))"
definition ReadTexel16 :: read_tx where
  "ReadTexel16 x y TEX0 = ReadTexel16_at (PixelAddress16 x y (TBP0 TEX0) (TBW TEX0))"
definition ReadTexel16S :: read_tx where
  "ReadTexel16S x y TEX0 = ReadTexel16_at (PixelAddress16S x y (TBP0 TEX0) (TBW TEX0))"
definition ReadTexel8 :: read_tx where
  "ReadTexel8 x y TEX0 = ReadTexel8_at (PixelAddress8 x y (TBP0 TEX0) (TBW TEX0))"
definition ReadTexel4 :: read_tx where
  "ReadTexel4 x y TEX0 = ReadTexel4_at (PixelAddress4 x y (TBP0 TEX0) (TBW TEX0))"
definition ReadTexel8H :: read_tx where
  "ReadTexel8H x y TEX0 = ReadTexel8H_at (PixelAddress32 x y (TBP0 TEX0) (TBW TEX0))"
definition ReadTexel4HL :: read_tx where
  "ReadTexel4HL x y TEX0 = ReadTexel4HL_at (PixelAddress32 x y (TBP0 TEX0) (TBW TEX0))"
definition ReadTexel4HH :: read_tx where
  "ReadTexel4HH x y TEX0 = ReadTexel4HH_at (PixelAddress32 x y (TBP0 TEX0) (TBW TEX0))"
definition ReadTexel32Z :: read_tx where
  "ReadTexel32Z x y TEX0 = ReadTexel32_at (PixelAddress32Z x y (TBP0 TEX0) (TBW TEX0))"
definition ReadTexel24Z :: read_tx where
  "ReadTexel24Z x y TEX0 = ReadTexel24_at (PixelAddress32Z x y (TBP0 TEX0) (TBW TEX0))"
definition ReadTexel16Z :: read_tx where
  "ReadTexel16Z x y TEX0 = ReadTexel16_at (PixelAddress16Z x y (TBP0 TEX0) (TBW TEX0))"
definition ReadTexel16SZ :: read_tx where
  "ReadTexel16SZ x y TEX0 = ReadTexel16_at (PixelAddress16SZ x y (TBP0 TEX0) (TBW TEX0))"

subsection \<open>Pixel storage modes\<close>

definition PSMCT32 :: int where "PSMCT32 = 0"
definition PSMCT24 :: int where "PSMCT24 = 1"
definition PSMCT16 :: int where "PSMCT16 = 2"
definition PSMCT16S :: int where "PSMCT16S = 10"
definition PSGPU24 :: int where "PSGPU24 = 18"
definition PSMT8 :: int where "PSMT8 = 19"
definition PSMT4 :: int where "PSMT4 = 20"
definition PSMT8H :: int where "PSMT8H = 27"
definition PSMT4HL :: int where "PSMT4HL = 36"
definition PSMT4HH :: int where "PSMT4HH = 44"
definition PSMZ32 :: int where "PSMZ32 = 48"
definition PSMZ24 :: int where "PSMZ24 = 49"
definition PSMZ16 :: int where "PSMZ16 = 50"
definition PSMZ16S :: int where "PSMZ16S = 58"

record psm_t =
  info :: GSSwizzleInfo
  rp :: read_px
  rpa :: read_at
  wp :: write_px
  wpa :: write_at
  rt :: read_tx
  rta :: texel_at
  wfa :: write_at
  bpp :: int
  trbpp :: int
  pal :: int
  fmt :: int
  bs :: "int \<times> int"
  pgs :: "int \<times> int"
  msk :: u8
  depth :: int
  fmsk :: u32

text \<open>The initial entry of every mode, then the assignments of the constructor, grouped by mode.\<close>

definition psm_default :: psm_t where
  "psm_default = \<lparr>info = swizzle32, rp = ReadPixel32, rpa = ReadPixel32_at, wp = WritePixel32, wpa = WritePixel32_at,
     rt = ReadTexel32, rta = ReadTexel32_at, wfa = WritePixel32_at, bpp = 32, trbpp = 32, pal = 0, fmt = 3,
     bs = (8, 8), pgs = (64, 32), msk = 0xff, depth = 0, fmsk = 0xffffffff\<rparr>"

definition psm_PSMCT32 :: psm_t where
  "psm_PSMCT32 = psm_default\<lparr>fmt := 0\<rparr>"

definition psm_PSMCT24 :: psm_t where
  "psm_PSMCT24 = psm_default\<lparr>rp := ReadPixel24, rpa := ReadPixel24_at, wp := WritePixel24, wpa := WritePixel24_at,
     rt := ReadTexel24, rta := ReadTexel24_at, wfa := WritePixel24_at, trbpp := 24, fmt := 1, msk := 0x3f, fmsk := 0x00FFFFFF\<rparr>"

definition psm_PSMCT16 :: psm_t where
  "psm_PSMCT16 = psm_default\<lparr>info := swizzle16, rp := ReadPixel16, rpa := ReadPixel16_at, wp := WritePixel16, wpa := WritePixel16_at,
     rt := ReadTexel16, rta := ReadTexel16_at, wfa := WriteFrame16_at, bpp := 16, trbpp := 16, fmt := 2, bs := (16, 8),
     pgs := (64, 64), fmsk := 0x80F8F8F8\<rparr>"

definition psm_PSMCT16S :: psm_t where
  "psm_PSMCT16S = psm_default\<lparr>info := swizzle16S, rp := ReadPixel16S, rpa := ReadPixel16_at, wp := WritePixel16S, wpa := WritePixel16_at,
     rt := ReadTexel16S, rta := ReadTexel16_at, wfa := WriteFrame16_at, bpp := 16, trbpp := 16, fmt := 2, bs := (16, 8),
     pgs := (64, 64), fmsk := 0x80F8F8F8\<rparr>"

definition psm_PSGPU24 :: psm_t where
  "psm_PSGPU24 = psm_default\<lparr>info := swizzle16, bpp := 16, trbpp := 16, bs := (16, 8), pgs := (64, 64), fmsk := 0x00FFFFFF\<rparr>"

definition psm_PSMT8 :: psm_t where
  "psm_PSMT8 = psm_default\<lparr>info := swizzle8, rp := ReadPixel8, rpa := ReadPixel8_at, wp := WritePixel8, wpa := WritePixel8_at,
     rt := ReadTexel8, rta := ReadTexel8_at, bpp := 8, trbpp := 8, pal := 256, bs := (16, 16), pgs := (128, 64)\<rparr>"

definition psm_PSMT4 :: psm_t where
  "psm_PSMT4 = psm_default\<lparr>info := swizzle4, rp := ReadPixel4, rpa := ReadPixel4_at, wp := WritePixel4, wpa := WritePixel4_at,
     rt := ReadTexel4, rta := ReadTexel4_at, bpp := 4, trbpp := 4, pal := 16, bs := (32, 16), pgs := (128, 128)\<rparr>"

definition psm_PSMT8H :: psm_t where
  "psm_PSMT8H = psm_default\<lparr>rp := ReadPixel8H, rpa := ReadPixel8H_at, wp := WritePixel8H, wpa := WritePixel8H_at,
     rt := ReadTexel8H, rta := ReadTexel8H_at, trbpp := 8, pal := 256, msk := 0xc0, fmsk := 0xFF000000\<rparr>"

definition psm_PSMT4HL :: psm_t where
  "psm_PSMT4HL = psm_default\<lparr>rp := ReadPixel4HL, rpa := ReadPixel4HL_at, wp := WritePixel4HL, wpa := WritePixel4HL_at,
     rt := ReadTexel4HL, rta := ReadTexel4HL_at, trbpp := 4, pal := 16, msk := 0x40, fmsk := 0x0F000000\<rparr>"

definition psm_PSMT4HH :: psm_t where
  "psm_PSMT4HH = psm_default\<lparr>rp := ReadPixel4HH, rpa := ReadPixel4HH_at, wp := WritePixel4HH, wpa := WritePixel4HH_at,
     rt := ReadTexel4HH, rta := ReadTexel4HH_at, trbpp := 4, pal := 16, msk := 0x80, fmsk := 0xF0000000\<rparr>"

definition psm_PSMZ32 :: psm_t where
  "psm_PSMZ32 = psm_default\<lparr>info := swizzle32Z, rp := ReadPixel32Z, wp := WritePixel32Z, rt := ReadTexel32Z, fmt := 0, depth := 1\<rparr>"

definition psm_PSMZ24 :: psm_t where
  "psm_PSMZ24 = psm_default\<lparr>info := swizzle32Z, rp := ReadPixel24Z, rpa := ReadPixel24_at, wp := WritePixel24Z, wpa := WritePixel24_at,
     rt := ReadTexel24Z, rta := ReadTexel24_at, wfa := WritePixel24_at, trbpp := 24, fmt := 1, msk := 0x3f, depth := 1,
     fmsk := 0x00FFFFFF\<rparr>"

definition psm_PSMZ16 :: psm_t where
  "psm_PSMZ16 = psm_default\<lparr>info := swizzle16Z, rp := ReadPixel16Z, rpa := ReadPixel16_at, wp := WritePixel16Z, wpa := WritePixel16_at,
     rt := ReadTexel16Z, rta := ReadTexel16_at, wfa := WriteFrame16_at, bpp := 16, trbpp := 16, fmt := 2, bs := (16, 8),
     pgs := (64, 64), depth := 1, fmsk := 0x80F8F8F8\<rparr>"

definition psm_PSMZ16S :: psm_t where
  "psm_PSMZ16S = psm_default\<lparr>info := swizzle16SZ, rp := ReadPixel16SZ, rpa := ReadPixel16_at, wp := WritePixel16SZ, wpa := WritePixel16_at,
     rt := ReadTexel16SZ, rta := ReadTexel16_at, wfa := WriteFrame16_at, bpp := 16, trbpp := 16, fmt := 2, bs := (16, 8),
     pgs := (64, 64), depth := 1, fmsk := 0x80F8F8F8\<rparr>"

definition m_psm :: "int \<Rightarrow> psm_t" where
  "m_psm psm =
     (if psm = PSMCT32 then psm_PSMCT32
      else if psm = PSMCT24 then psm_PSMCT24
      else if psm = PSMCT16 then psm_PSMCT16
      else if psm = PSMCT16S then psm_PSMCT16S
      else if psm = PSGPU24 then psm_PSGPU24
      else if psm = PSMT8 then psm_PSMT8
      else if psm = PSMT4 then psm_PSMT4
      else if psm = PSMT8H then psm_PSMT8H
      else if psm = PSMT4HL then psm_PSMT4HL
      else if psm = PSMT4HH then psm_PSMT4HH
      else if psm = PSMZ32 then psm_PSMZ32
      else if psm = PSMZ24 then psm_PSMZ24
      else if psm = PSMZ16 then psm_PSMZ16
      else if psm = PSMZ16S then psm_PSMZ16S
      else psm_default)"

definition GetOffset :: "int \<Rightarrow> int \<Rightarrow> int \<Rightarrow> GSOffset" where
  "GetOffset bp bw psm = make_GSOffset (info (m_psm psm)) bp bw psm"

definition fromKnownPSM :: "int \<Rightarrow> int \<Rightarrow> int \<Rightarrow> GSOffset" where
  "fromKnownPSM bp bw psm =
     (if psm = PSMT4 then make_GSOffset swizzle4 bp bw psm
      else if psm = PSMT8 then make_GSOffset swizzle8 bp bw psm
      else if psm = PSMZ16 then make_GSOffset swizzle16Z bp bw psm
      else if psm = PSMCT16S then make_GSOffset swizzle16S bp bw psm
      else if psm = PSMZ16S then make_GSOffset swizzle16SZ bp bw psm
      else if psm = PSMCT16 \<or> psm = PSGPU24 then make_GSOffset swizzle16 bp bw psm
      else if psm = PSMZ32 \<or> psm = PSMZ24 then make_GSOffset swizzle32Z bp bw psm
      else make_GSOffset swizzle32 bp bw psm)"

end
