(* ===== verification/GS_Pixels_Spec.thy ===== *)
theory GS_Pixels_Spec
  imports GS_Swizzle_Spec GS_Pixels EE_LoadStore_Spec
begin

text \<open>
  Pixels of a buffer are independent cells: what is written is read back, in the bits of the mode, and nothing else
  of the buffer changes, nor do the modes that keep other bits of the same words.
\<close>

subsection \<open>The memory as bits\<close>

definition membit :: "GSLocalMemory \<Rightarrow> int \<Rightarrow> bool" where
  "membit m k = bit (m_vm8 m (word_of_int (k div 8))) (nat (k mod 8))"

text \<open>The number of bits, kept folded in proofs.\<close>

definition vm_bits :: int where "vm_bits = 2 ^ 25"

lemma membit_wrap: "k mod vm_bits = k' mod vm_bits \<Longrightarrow> membit m k = membit m k'"
proof -
  assume k: "k mod vm_bits = k' mod vm_bits"
  have "x div 8 mod 2 ^ 22 = x mod vm_bits div 8" for x :: int using mod_div_int [of 8 "2 ^ 22" x] by (simp add: vm_bits_def)
  then have "(word_of_int (k div 8) :: 22 word) = word_of_int (k' div 8)"
    using k by (simp add: word_of_int_eq_iff take_bit_eq_mod)
  moreover have "x mod vm_bits mod 8 = x mod 8" for x using mod_mod_cancel [of 8 vm_bits x] by (simp add: vm_bits_def)
  then have "k mod 8 = k' mod 8" using k by metis
  ultimately show ?thesis by (simp add: membit_def)
qed

lemma bit_vm_load:
  assumes "LENGTH('a::len) mod 8 = 0" "j < LENGTH('a)"
  shows "bit (vm_load p m :: 'a word) j = membit m (8 * p + int j)"
proof -
  have "ucast (word_of_int p + of_nat n :: u64) = (word_of_int (p + int n) :: 22 word)" for n
  proof -
    have "word_of_int p + of_nat n = (word_of_int (p + int n) :: u64)" by simp
    moreover have "ucast (word_of_int x :: u64) = (word_of_int x :: 22 word)" for x by (intro bit_word_eqI) (simp add: bit_simps)
    ultimately show ?thesis by metis
  qed
  moreover have "(8 * p + int j) div 8 = p + int (j div 8)" "(8 * p + int j) mod 8 = int (j mod 8)"
    by (simp_all add: zdiv_int zmod_int)
  ultimately show ?thesis using assms by (simp add: vm_load_def bit_load_le membit_def)
qed

lemma membit_vm_store:
  fixes v :: "'a::len word"
  assumes "LENGTH('a) = 8 * n" "n < 2 ^ 22"
  shows "membit (vm_store p v m) k =
    (if (k - 8 * p) mod vm_bits < int LENGTH('a) then bit v (nat ((k - 8 * p) mod vm_bits)) else membit m k)"
proof -
  define e where "e = (k div 8 - p) mod 2 ^ 22"
  have e: "0 \<le> e" "e < 2 ^ 22" by (simp_all add: e_def)
  have u: "unat (word_of_int (k div 8) - word_of_int p :: 22 word) = nat e"
  proof -
    have "word_of_int (k div 8) - word_of_int p = (word_of_int (k div 8 - p) :: 22 word)" by simp
    then have "uint (word_of_int (k div 8) - word_of_int p :: 22 word) = uint (word_of_int (k div 8 - p) :: 22 word)" by (rule arg_cong)
    also have "\<dots> = (k div 8 - p) mod 2 ^ 22" by (subst uint_word_of_int) simp
    finally show ?thesis by (simp add: e_def unat_eq_nat_uint)
  qed
  have "(k - 8 * p) div 8 = k div 8 - p" "(k - 8 * p) mod 8 = k mod 8"
    using div_mult_self4 [of 8 "- p" k] mod_mult_self4 [of 8 "- p" k] by simp_all
  then have d: "(k - 8 * p) mod vm_bits = 8 * e + k mod 8"
    using zmod_zmult2_eq [of "2 ^ 22" "k - 8 * p" 8] by (simp add: e_def vm_bits_def)
  have "0 \<le> k mod 8" "k mod 8 < 8" by simp_all
  with e have lt: "(k - 8 * p) mod vm_bits < int LENGTH('a) \<longleftrightarrow> nat e < n" and "nat ((k - 8 * p) mod vm_bits) = 8 * nat e + nat (k mod 8)"
    unfolding d assms(1) by (auto simp: nat_add_distrib nat_mult_distrib)
  then show ?thesis
    using \<open>k mod 8 < 8\<close> assms(1) by (simp add: membit_def vm_store_def Let_def u bit_simps lt nat_less_iff add.commute)
qed

text \<open>Distances modulo the size.\<close>

lemma mod_bits_cases:
  assumes "- vm_bits \<le> x" "x < vm_bits"
  shows "x mod vm_bits = (if 0 \<le> x then x else x + vm_bits)"
proof (cases "0 \<le> x")
  case False
  then have "(x + vm_bits) mod vm_bits = x + vm_bits" using assms by (intro mod_pos_pos_trivial) auto
  then show ?thesis using False by simp
qed (use assms in simp)

lemma store_law:
  fixes v :: "'a::len word" and c :: u32
  assumes "LENGTH('a) = 8 * n" "n < 8" "lo + width \<le> LENGTH('a)"
    and v: "\<And>i. i < LENGTH('a) \<Longrightarrow> bit v i = (if lo \<le> i \<and> i < lo + width then bit c (i - lo) else bit (vm_load p m :: 'a word) i)"
  shows "membit (vm_store p v m) k =
    (if (k - (8 * p + int lo)) mod vm_bits < int width then bit c (nat ((k - (8 * p + int lo)) mod vm_bits)) else membit m k)"
proof -
  define d where "d = (k - 8 * p) mod vm_bits"
  have d: "0 \<le> d" "d < vm_bits" and big: "64 < vm_bits" by (simp_all add: d_def vm_bits_def)
  have w: "membit (vm_store p v m) k = (if d < int LENGTH('a) then bit v (nat d) else membit m k)"
    unfolding d_def using assms(1,2) by (intro membit_vm_store) auto
  have "(k - (8 * p + int lo)) mod vm_bits = (d - int lo) mod vm_bits"
    unfolding d_def by (simp add: mod_diff_left_eq diff_diff_add)
  also have "\<dots> = (if 0 \<le> d - int lo then d - int lo else d - int lo + vm_bits)"
    using d big assms(1-3) by (intro mod_bits_cases) auto
  finally have s: "(k - (8 * p + int lo)) mod vm_bits = (if int lo \<le> d then d - int lo else d - int lo + vm_bits)" by simp
  have old: "bit (vm_load p m :: 'a word) (nat d) = membit m k" if "d < int LENGTH('a)"
  proof -
    have "bit (vm_load p m :: 'a word) (nat d) = membit m (8 * p + int (nat d))"
      using that d assms(1) by (intro bit_vm_load) auto
    also have "\<dots> = membit m k" by (rule membit_wrap) (use d in \<open>simp add: d_def mod_simps\<close>)
    finally show ?thesis .
  qed
  show ?thesis
  proof (cases "int lo \<le> d \<and> d < int lo + int width")
    case True
    then have "(k - (8 * p + int lo)) mod vm_bits = d - int lo" "nat d - lo = nat (d - int lo)" using s by simp_all
    with True show ?thesis using assms(3) v [of "nat d"] by (simp add: w nat_le_iff nat_less_iff le_nat_iff)
  next
    case False
    then have "\<not> (k - (8 * p + int lo)) mod vm_bits < int width" unfolding s using d big assms(1-3) by auto
    moreover have "membit (vm_store p v m) k = membit m k"
      using False v [of "nat d"] old d by (auto simp: w nat_less_iff le_nat_iff)
    ultimately show ?thesis by simp
  qed
qed

subsection \<open>Pixel formats\<close>

text \<open>A format keeps a pixel in \<open>width\<close> bits, \<open>lo\<close> bits into its cell of \<open>cell\<close> bits.\<close>

locale pixel_format =
  fixes get :: read_at and put :: write_at and cell lo width :: nat
  assumes cell: "cell \<in> {4, 8, 16, 32}" "lo + width \<le> cell"
    and get: "bit (get a m) j \<longleftrightarrow> j < width \<and> membit m (int cell * a + int lo + int j)"
    and put: "membit (put a c m) k =
      (if (k - (int cell * a + int lo)) mod vm_bits < int width then bit c (nat ((k - (int cell * a + int lo)) mod vm_bits)) else membit m k)"
begin

definition same_cell :: "int \<Rightarrow> int \<Rightarrow> bool" where
  "same_cell a a' \<longleftrightarrow> int cell * a mod vm_bits = int cell * a' mod vm_bits"

text \<open>Bit \<open>j\<close> of a field at offset \<open>lo'\<close> of cell \<open>a'\<close>, seen from the field of cell \<open>a\<close>, is inside it only for the
  same cell and an offset inside the field.\<close>

lemma field_distance:
  fixes lo' j :: nat
  assumes "lo' + j < cell"
  shows "(int cell * a' + int lo' + int j - (int cell * a + int lo)) mod vm_bits < int width \<longleftrightarrow>
      same_cell a a' \<and> lo \<le> lo' + j \<and> lo' + j < lo + width"
    and "same_cell a a' \<Longrightarrow> lo \<le> lo' + j \<Longrightarrow>
      (int cell * a' + int lo' + int j - (int cell * a + int lo)) mod vm_bits = int (lo' + j - lo)"
proof -
  define e where "e = (int cell * a' - int cell * a) mod vm_bits"
  have big: "0 < int cell" "int cell < vm_bits" "int cell dvd vm_bits" using cell(1) by (auto simp: vm_bits_def)
  have e: "0 \<le> e" "e < vm_bits" using big by (simp_all add: e_def)
  have same: "same_cell a a' \<longleftrightarrow> e = 0"
    unfolding e_def same_cell_def by (metis mod_eq_dvd_iff dvd_eq_mod_eq_0)
  have apart: "int cell \<le> e \<and> e \<le> vm_bits - int cell" if "e \<noteq> 0"
  proof -
    have "int cell dvd e" unfolding e_def using big(3) by (simp add: dvd_mod right_diff_distrib [symmetric])
    moreover have "int cell dvd vm_bits - e" using calculation big(3) by simp
    ultimately show ?thesis using that e by (auto dest!: zdvd_imp_le)
  qed
  have "(int cell * a' + int lo' + int j - (int cell * a + int lo)) mod vm_bits = (e + (int lo' + int j - int lo)) mod vm_bits"
  proof -
    have "int cell * a' + int lo' + int j - (int cell * a + int lo) = (int cell * a' - int cell * a) + (int lo' + int j - int lo)" by simp
    then show ?thesis unfolding e_def by (simp only: mod_add_left_eq)
  qed
  also have "\<dots> = (if 0 \<le> e + (int lo' + int j - int lo) then e + (int lo' + int j - int lo) else e + (int lo' + int j - int lo) + vm_bits)"
    using e apart big(2) assms cell(2) by (intro mod_bits_cases) (cases "e = 0"; auto)+
  finally have d: "(int cell * a' + int lo' + int j - (int cell * a + int lo)) mod vm_bits =
      (if 0 \<le> e + (int lo' + int j - int lo) then e + (int lo' + int j - int lo) else e + (int lo' + int j - int lo) + vm_bits)" .
  show "(int cell * a' + int lo' + int j - (int cell * a + int lo)) mod vm_bits < int width \<longleftrightarrow>
      same_cell a a' \<and> lo \<le> lo' + j \<and> lo' + j < lo + width"
    unfolding d same using e apart big(2) assms cell(2) by (cases "e = 0") auto
  show "(int cell * a' + int lo' + int j - (int cell * a + int lo)) mod vm_bits = int (lo' + j - lo)" if "same_cell a a'" "lo \<le> lo' + j"
    unfolding d using that same by auto
qed

lemma read_write: "get a' (put a c m) = (if same_cell a a' then c AND mask width else get a' m)"
proof (rule bit_word_eqI)
  fix j
  assume "j < LENGTH(32)"
  show "bit (get a' (put a c m)) j = bit (if same_cell a a' then c AND mask width else get a' m) j"
  proof (cases "j < width")
    case True
    then have "lo + j < cell" using cell(2) by simp
    from field_distance [OF this, where a = a and a' = a'] show ?thesis
      using True \<open>j < LENGTH(32)\<close> by (cases "same_cell a a'") (simp_all add: get put bit_simps)
  qed (use \<open>j < LENGTH(32)\<close> in \<open>auto simp: get bit_simps\<close>)
qed

lemma other_bits:
  assumes "pixel_format get' put' cell lo' width'" "lo + width \<le> lo' \<or> lo' + width' \<le> lo"
  shows "get' a' (put a c m) = get' a' m"
proof (rule bit_word_eqI)
  fix j
  note get' = pixel_format.get [OF assms(1)] and cell' = pixel_format.cell [OF assms(1)]
  show "bit (get' a' (put a c m)) j = bit (get' a' m) j"
  proof (cases "j < width'")
    case True
    then have "lo' + j < cell" using cell'(2) by simp
    from field_distance(1) [OF this, where a = a and a' = a'] show ?thesis using True assms(2) by (auto simp: get' put)
  qed (simp add: get')
qed

end

subsection \<open>The formats of the code\<close>

lemma bit_vm_load_iff: "LENGTH('a::len) mod 8 = 0 \<Longrightarrow> bit (vm_load p m :: 'a word) j \<longleftrightarrow> j < LENGTH('a) \<and> membit m (8 * p + int j)"
  using bit_vm_load [where 'a = 'a, of j p m] bit_imp_le_length [of "vm_load p m :: 'a word" j] by (cases "j < LENGTH('a)") auto

lemma vm_loads:
  "bit (vm32 m a) j \<longleftrightarrow> j < 32 \<and> membit m (32 * a + int j)" "bit (vm16 m a) j \<longleftrightarrow> j < 16 \<and> membit m (16 * a + int j)"
  "bit (vm8 m a) j \<longleftrightarrow> j < 8 \<and> membit m (8 * a + int j)"
  by (simp_all add: vm32_def vm16_def vm8_def bit_vm_load_iff)

lemma masks_32:
  "(0x00ffffff :: u32) = mask 24" "(0xff000000 :: u32) = NOT (mask 24)" "(0x0f :: u32) = mask 4"
  "(0xf0ffffff :: u32) = NOT (push_bit 24 (mask 4))" "(0x0fffffff :: u32) = mask 28"
  by (simp_all add: mask_eq_exp_minus_1)

interpretation f32: pixel_format ReadPixel32_at WritePixel32_at 32 0 32
proof (unfold_locales)
  show "bit (ReadPixel32_at a m) j \<longleftrightarrow> j < 32 \<and> membit m (int 32 * a + int 0 + int j)" for a m j
    by (auto simp: ReadPixel32_at_def vm_loads masks_32 bit_simps ac_simps)
  show "membit (WritePixel32_at a c m) k = (if (k - (int 32 * a + int 0)) mod vm_bits < int 32
      then bit c (nat ((k - (int 32 * a + int 0)) mod vm_bits)) else membit m k)" for a c m k
  proof -
    have "bit (c) i = (if 0 \<le> i \<and> i < 32 then bit c (i - 0) else bit (vm_load (4 * a) m :: 32 word) i)" if "i < 32" for i
      using that by (auto simp: masks_32 bit_simps)
    then show ?thesis
      using store_law [where n = 4 and lo = 0 and width = 32 and v = "c" and c = c and p = "4 * a" and m = m and k = k]
      by (simp add: WritePixel32_at_def set_vm32_def)
  qed
qed simp_all

interpretation f24: pixel_format ReadPixel24_at WritePixel24_at 32 0 24
proof (unfold_locales)
  show "bit (ReadPixel24_at a m) j \<longleftrightarrow> j < 24 \<and> membit m (int 32 * a + int 0 + int j)" for a m j
    by (auto simp: ReadPixel24_at_def vm_loads masks_32 bit_simps ac_simps)
  show "membit (WritePixel24_at a c m) k = (if (k - (int 32 * a + int 0)) mod vm_bits < int 24
      then bit c (nat ((k - (int 32 * a + int 0)) mod vm_bits)) else membit m k)" for a c m k
  proof -
    have "bit ((vm32 m a AND 0xff000000) OR (c AND 0x00ffffff)) i = (if 0 \<le> i \<and> i < 24 then bit c (i - 0) else bit (vm_load (4 * a) m :: 32 word) i)" if "i < 32" for i
      using that by (auto simp: vm32_def masks_32 bit_simps)
    then show ?thesis
      using store_law [where n = 4 and lo = 0 and width = 24 and v = "(vm32 m a AND 0xff000000) OR (c AND 0x00ffffff)" and c = c and p = "4 * a" and m = m and k = k]
      by (simp add: WritePixel24_at_def set_vm32_def)
  qed
qed simp_all

interpretation f16: pixel_format ReadPixel16_at WritePixel16_at 16 0 16
proof (unfold_locales)
  show "bit (ReadPixel16_at a m) j \<longleftrightarrow> j < 16 \<and> membit m (int 16 * a + int 0 + int j)" for a m j
    by (auto simp: ReadPixel16_at_def vm_loads masks_32 bit_simps ac_simps)
  show "membit (WritePixel16_at a c m) k = (if (k - (int 16 * a + int 0)) mod vm_bits < int 16
      then bit c (nat ((k - (int 16 * a + int 0)) mod vm_bits)) else membit m k)" for a c m k
  proof -
    have "bit (ucast c :: u16) i = (if 0 \<le> i \<and> i < 16 then bit c (i - 0) else bit (vm_load (2 * a) m :: 16 word) i)" if "i < 16" for i
      using that by (auto simp: masks_32 bit_simps)
    then show ?thesis
      using store_law [where n = 2 and lo = 0 and width = 16 and v = "ucast c :: u16" and c = c and p = "2 * a" and m = m and k = k]
      by (simp add: WritePixel16_at_def set_vm16_def)
  qed
qed simp_all

interpretation f8: pixel_format ReadPixel8_at WritePixel8_at 8 0 8
proof (unfold_locales)
  show "bit (ReadPixel8_at a m) j \<longleftrightarrow> j < 8 \<and> membit m (int 8 * a + int 0 + int j)" for a m j
    by (auto simp: ReadPixel8_at_def vm_loads masks_32 bit_simps ac_simps)
  show "membit (WritePixel8_at a c m) k = (if (k - (int 8 * a + int 0)) mod vm_bits < int 8
      then bit c (nat ((k - (int 8 * a + int 0)) mod vm_bits)) else membit m k)" for a c m k
  proof -
    have "bit (ucast c :: u8) i = (if 0 \<le> i \<and> i < 8 then bit c (i - 0) else bit (vm_load (a) m :: 8 word) i)" if "i < 8" for i
      using that by (auto simp: masks_32 bit_simps)
    then show ?thesis
      using store_law [where n = 1 and lo = 0 and width = 8 and v = "ucast c :: u8" and c = c and p = "a" and m = m and k = k]
      by (simp add: WritePixel8_at_def set_vm8_def)
  qed
qed simp_all

interpretation f8H: pixel_format ReadPixel8H_at WritePixel8H_at 32 24 8
proof (unfold_locales)
  show "bit (ReadPixel8H_at a m) j \<longleftrightarrow> j < 8 \<and> membit m (int 32 * a + int 24 + int j)" for a m j
    by (auto simp: ReadPixel8H_at_def vm_loads masks_32 bit_simps ac_simps)
  show "membit (WritePixel8H_at a c m) k = (if (k - (int 32 * a + int 24)) mod vm_bits < int 8
      then bit c (nat ((k - (int 32 * a + int 24)) mod vm_bits)) else membit m k)" for a c m k
  proof -
    have "bit ((vm32 m a AND 0x00ffffff) OR push_bit 24 c) i = (if 24 \<le> i \<and> i < 32 then bit c (i - 24) else bit (vm_load (4 * a) m :: 32 word) i)" if "i < 32" for i
      using that by (auto simp: vm32_def masks_32 bit_simps)
    then show ?thesis
      using store_law [where n = 4 and lo = 24 and width = 8 and v = "(vm32 m a AND 0x00ffffff) OR push_bit 24 c" and c = c and p = "4 * a" and m = m and k = k]
      by (simp add: WritePixel8H_at_def set_vm32_def)
  qed
qed simp_all

interpretation f4HL: pixel_format ReadPixel4HL_at WritePixel4HL_at 32 24 4
proof (unfold_locales)
  show "bit (ReadPixel4HL_at a m) j \<longleftrightarrow> j < 4 \<and> membit m (int 32 * a + int 24 + int j)" for a m j
    by (auto simp: ReadPixel4HL_at_def vm_loads masks_32 bit_simps ac_simps)
  show "membit (WritePixel4HL_at a c m) k = (if (k - (int 32 * a + int 24)) mod vm_bits < int 4
      then bit c (nat ((k - (int 32 * a + int 24)) mod vm_bits)) else membit m k)" for a c m k
  proof -
    have "bit ((vm32 m a AND 0xf0ffffff) OR push_bit 24 (c AND 0x0f)) i = (if 24 \<le> i \<and> i < 28 then bit c (i - 24) else bit (vm_load (4 * a) m :: 32 word) i)" if "i < 32" for i
      using that by (auto simp: vm32_def masks_32 bit_simps)
    then show ?thesis
      using store_law [where n = 4 and lo = 24 and width = 4 and v = "(vm32 m a AND 0xf0ffffff) OR push_bit 24 (c AND 0x0f)" and c = c and p = "4 * a" and m = m and k = k]
      by (simp add: WritePixel4HL_at_def set_vm32_def)
  qed
qed simp_all

interpretation f4HH: pixel_format ReadPixel4HH_at WritePixel4HH_at 32 28 4
proof (unfold_locales)
  show "bit (ReadPixel4HH_at a m) j \<longleftrightarrow> j < 4 \<and> membit m (int 32 * a + int 28 + int j)" for a m j
    by (auto simp: ReadPixel4HH_at_def vm_loads masks_32 bit_simps ac_simps)
  show "membit (WritePixel4HH_at a c m) k = (if (k - (int 32 * a + int 28)) mod vm_bits < int 4
      then bit c (nat ((k - (int 32 * a + int 28)) mod vm_bits)) else membit m k)" for a c m k
  proof -
    have "bit ((vm32 m a AND 0x0fffffff) OR push_bit 28 (c AND 0x0f)) i = (if 28 \<le> i \<and> i < 32 then bit c (i - 28) else bit (vm_load (4 * a) m :: 32 word) i)" if "i < 32" for i
      using that by (auto simp: vm32_def masks_32 bit_simps)
    then show ?thesis
      using store_law [where n = 4 and lo = 28 and width = 4 and v = "(vm32 m a AND 0x0fffffff) OR push_bit 28 (c AND 0x0f)" and c = c and p = "4 * a" and m = m and k = k]
      by (simp add: WritePixel4HH_at_def set_vm32_def)
  qed
qed simp_all

text \<open>Two pixels of four bits share a byte.\<close>

lemma nibble:
  fixes a :: int
  obtains s :: nat where "nat (push_bit 2 (a AND 1)) = s" "s = 0 \<or> s = 4" "8 * drop_bit 1 a + int s = 4 * a"
proof -
  have eq: "a AND 1 = a mod 2" "drop_bit 1 a = a div 2" by (simp_all add: and_one_eq drop_bit_eq_div)
  have "a = 2 * (a div 2) + a mod 2" by simp
  then consider "a mod 2 = 0" "8 * (a div 2) = 4 * a" | "a mod 2 = 1" "8 * (a div 2) + 4 = 4 * a"
    by (cases "a mod 2 = 0") linarith+
  then show thesis
  proof cases
    case 1
    then show thesis by (intro that [of 0]) (simp_all only: eq, simp_all)
  next
    case 2
    then show thesis by (intro that [of 4]) (simp_all only: eq, simp_all add: push_bit_eq_mult)
  qed
qed

lemma bits_f0: "bit (0xf0 :: int) i \<longleftrightarrow> 4 \<le> i \<and> i < 8"
proof -
  have f0: "(0xf0 :: int) = push_bit 4 (mask 4)" by (simp add: mask_eq_exp_minus_1 push_bit_eq_mult)
  show ?thesis unfolding f0 by (auto simp: bit_simps)
qed

interpretation f4: pixel_format ReadPixel4_at WritePixel4_at 4 0 4
proof (unfold_locales)
  show "bit (ReadPixel4_at a m) j \<longleftrightarrow> j < 4 \<and> membit m (int 4 * a + int 0 + int j)" for a m j
  proof -
    have law: "bit (ReadPixel4_at a m) j \<longleftrightarrow> j < 4 \<and> membit m ((8 * drop_bit 1 a + int s) + int j)"
      if s: "nat (push_bit 2 (a AND 1)) = s" "s = 0 \<or> s = 4" for s
      using s(2) unfolding ReadPixel4_at_def s(1) by (auto simp: vm_loads masks_32 bit_simps add.assoc)
    obtain s where s: "nat (push_bit 2 (a AND 1)) = s" "s = 0 \<or> s = 4" "8 * drop_bit 1 a + int s = 4 * a" by (rule nibble)
    show ?thesis using law [OF s(1,2)] unfolding s(3) by simp
  qed
  show "membit (WritePixel4_at a c m) k = (if (k - (int 4 * a + int 0)) mod vm_bits < int 4
      then bit c (nat ((k - (int 4 * a + int 0)) mod vm_bits)) else membit m k)" for a c m k
  proof -
    have law: "membit (WritePixel4_at a c m) k = (if (k - (8 * drop_bit 1 a + int s)) mod vm_bits < int 4
        then bit c (nat ((k - (8 * drop_bit 1 a + int s)) mod vm_bits)) else membit m k)"
      if s: "nat (push_bit 2 (a AND 1)) = s" "s = 0 \<or> s = 4" for s
    proof -
      define v :: u8 where "v = ucast ((ucast (vm8 m (drop_bit 1 a)) AND drop_bit s 0xf0) OR push_bit s (c AND 0x0f))"
      have "bit v i = (if s \<le> i \<and> i < s + 4 then bit c (i - s) else bit (vm_load (drop_bit 1 a) m :: u8) i)" if "i < 8" for i
        using that s(2) unfolding v_def vm8_def by (auto simp: masks_32 bits_f0 bit_simps)
      moreover have "WritePixel4_at a c m = vm_store (drop_bit 1 a) v m"
        unfolding WritePixel4_at_def Let_def s(1) set_vm8_def v_def ..
      ultimately show ?thesis
        using store_law [where n = 1 and lo = s and width = 4 and v = v and c = c and p = "drop_bit 1 a" and m = m and k = k] s(2) by auto
    qed
    obtain s where s: "nat (push_bit 2 (a AND 1)) = s" "s = 0 \<or> s = 4" "8 * drop_bit 1 a + int s = 4 * a" by (rule nibble)
    show ?thesis using law [OF s(1,2)] unfolding s(3) by simp
  qed
qed simp_all

subsection \<open>Buffers of pixels\<close>

lemma pixel_cells:
  assumes "(swz, bt, ct, z) \<in> set swizzles" "pixel_format get put cell lo width" "int cell * (nrows ct * ncols ct) = 2048"
    and "in_buffer swz bw x y" "in_buffer swz bw x' y'"
  shows "pixel_format.same_cell cell (swizzle_pa swz x y bp bw) (swizzle_pa swz x' y' bp bw) \<longleftrightarrow> (x, y) = (x', y')"
proof -
  note facts = address_facts [OF assms(1)]
  have b: "0 \<le> x" "x < 2048" "0 \<le> y" "0 \<le> x'" "x' < 2048" "0 \<le> y'"
    using assms(4,5) by (auto simp: in_buffer_def Let_def)
  have v: "vm_bits = int cell * (16384 * (nrows ct * ncols ct))" using assms(3) by (simp add: vm_bits_def mult.left_commute)
  have "0 < int cell" using pixel_format.cell(1) [OF assms(2)] by auto
  then have "pixel_format.same_cell cell (swizzle_pa swz x y bp bw) (swizzle_pa swz x' y' bp bw) \<longleftrightarrow>
      pixel_spec bt ct z bp bw x y = pixel_spec bt ct z bp bw x' y'"
    unfolding pixel_format.same_cell_def [OF assms(2)] v mod_mult_mult1 using facts(2) [OF b(1-3), of bp bw] facts(2) [OF b(4-6), of bp bw] by simp
  also have "\<dots> \<longleftrightarrow> (x, y) = (x', y')" using facts(4) [OF assms(4,5)] by auto
  finally show ?thesis .
qed

text \<open>Each mode of the table, with its format and its swizzle.\<close>

definition mode_of :: "int \<Rightarrow> GSSwizzleInfo \<times> table \<times> table \<times> int \<Rightarrow> read_at \<Rightarrow> write_at \<Rightarrow> nat \<Rightarrow> nat \<Rightarrow> nat \<Rightarrow> bool" where
  "mode_of psm sw get put cell lo width \<longleftrightarrow> (case sw of (swz, bt, ct, z) \<Rightarrow>
     sw \<in> set swizzles \<and> info (m_psm psm) = swz \<and> pixel_format get put cell lo width \<and> int cell * (nrows ct * ncols ct) = 2048 \<and>
     rp (m_psm psm) = (\<lambda>x y bp bw. get (swizzle_pa swz x y bp bw)) \<and>
     wp (m_psm psm) = (\<lambda>x y c bp bw. put (swizzle_pa swz x y bp bw) c) \<and> trbpp (m_psm psm) = int width)"

definition pixel_modes :: "int list" where
  "pixel_modes = [PSMCT32, PSMCT24, PSMCT16, PSMCT16S, PSMT8, PSMT4, PSMT8H, PSMT4HL, PSMT4HH, PSMZ32, PSMZ24, PSMZ16, PSMZ16S]"

lemmas psm_defs = m_psm_def psm_default_def PSMCT32_def PSMCT24_def PSMCT16_def PSMCT16S_def PSGPU24_def PSMT8_def PSMT4_def
  PSMT8H_def PSMT4HL_def PSMT4HH_def PSMZ32_def PSMZ24_def PSMZ16_def PSMZ16S_def psm_PSMCT32_def psm_PSMCT24_def
  psm_PSMCT16_def psm_PSMCT16S_def psm_PSGPU24_def psm_PSMT8_def psm_PSMT4_def psm_PSMT8H_def psm_PSMT4HL_def
  psm_PSMT4HH_def psm_PSMZ32_def psm_PSMZ24_def psm_PSMZ16_def psm_PSMZ16S_def

lemmas pixel_defs = ReadPixel32_def ReadPixel24_def ReadPixel16_def ReadPixel16S_def ReadPixel8_def ReadPixel4_def ReadPixel8H_def
  ReadPixel4HL_def ReadPixel4HH_def ReadPixel32Z_def ReadPixel24Z_def ReadPixel16Z_def ReadPixel16SZ_def
  WritePixel32_def WritePixel24_def WritePixel16_def WritePixel16S_def WritePixel8_def WritePixel4_def WritePixel8H_def
  WritePixel4HL_def WritePixel4HH_def WritePixel32Z_def WritePixel24Z_def WritePixel16Z_def WritePixel16SZ_def
  PixelAddress32_def PixelAddress16_def PixelAddress16S_def PixelAddress8_def PixelAddress4_def PixelAddress32Z_def
  PixelAddress16Z_def PixelAddress16SZ_def

lemma modes:
  "mode_of PSMCT32 (swizzle32, raw_blockTable32, columnTable32, 0) ReadPixel32_at WritePixel32_at 32 0 32"
  "mode_of PSMCT24 (swizzle32, raw_blockTable32, columnTable32, 0) ReadPixel24_at WritePixel24_at 32 0 24"
  "mode_of PSMCT16 (swizzle16, raw_blockTable16, columnTable16, 0) ReadPixel16_at WritePixel16_at 16 0 16"
  "mode_of PSMCT16S (swizzle16S, raw_blockTable16S, columnTable16, 0) ReadPixel16_at WritePixel16_at 16 0 16"
  "mode_of PSMT8 (swizzle8, raw_blockTable8, columnTable8, 0) ReadPixel8_at WritePixel8_at 8 0 8"
  "mode_of PSMT4 (swizzle4, raw_blockTable4, columnTable4, 0) ReadPixel4_at WritePixel4_at 4 0 4"
  "mode_of PSMT8H (swizzle32, raw_blockTable32, columnTable32, 0) ReadPixel8H_at WritePixel8H_at 32 24 8"
  "mode_of PSMT4HL (swizzle32, raw_blockTable32, columnTable32, 0) ReadPixel4HL_at WritePixel4HL_at 32 24 4"
  "mode_of PSMT4HH (swizzle32, raw_blockTable32, columnTable32, 0) ReadPixel4HH_at WritePixel4HH_at 32 28 4"
  "mode_of PSMZ32 (swizzle32Z, raw_blockTable32, columnTable32, 24) ReadPixel32_at WritePixel32_at 32 0 32"
  "mode_of PSMZ24 (swizzle32Z, raw_blockTable32, columnTable32, 24) ReadPixel24_at WritePixel24_at 32 0 24"
  "mode_of PSMZ16 (swizzle16Z, raw_blockTable16, columnTable16, 24) ReadPixel16_at WritePixel16_at 16 0 16"
  "mode_of PSMZ16S (swizzle16SZ, raw_blockTable16S, columnTable16, 24) ReadPixel16_at WritePixel16_at 16 0 16"
  unfolding mode_of_def swizzles_def
  by (simp_all add: psm_defs pixel_defs table_facts fun_eq_iff f32.pixel_format_axioms f24.pixel_format_axioms f16.pixel_format_axioms
      f8.pixel_format_axioms f4.pixel_format_axioms f8H.pixel_format_axioms f4HL.pixel_format_axioms f4HH.pixel_format_axioms)

lemma mode_exists: "psm \<in> set pixel_modes \<Longrightarrow> \<exists>sw get put cell lo width. mode_of psm sw get put cell lo width"
  using modes by (simp add: pixel_modes_def) blast


text \<open>The modes whose pixels are fields of whole words, with the bits they own.\<close>

definition word_modes :: "int list" where
  "word_modes = [PSMCT32, PSMCT24, PSMT8H, PSMT4HL, PSMT4HH, PSMZ32, PSMZ24]"

lemma word_mode:
  assumes "psm \<in> set word_modes"
  obtains sw get put lo width where "mode_of psm sw get put 32 lo width" "fmsk (m_psm psm) = push_bit lo (mask width)" "0 < width"
proof -
  have fmsk: "fmsk (m_psm PSMCT32) = push_bit 0 (mask 32)" "fmsk (m_psm PSMCT24) = push_bit 0 (mask 24)"
    "fmsk (m_psm PSMT8H) = push_bit 24 (mask 8)" "fmsk (m_psm PSMT4HL) = push_bit 24 (mask 4)"
    "fmsk (m_psm PSMT4HH) = push_bit 28 (mask 4)" "fmsk (m_psm PSMZ32) = push_bit 0 (mask 32)"
    "fmsk (m_psm PSMZ24) = push_bit 0 (mask 24)"
    by (simp_all add: psm_defs mask_eq_exp_minus_1)
  from assms consider "psm = PSMCT32" | "psm = PSMCT24" | "psm = PSMT8H" | "psm = PSMT4HL" | "psm = PSMT4HH" | "psm = PSMZ32" | "psm = PSMZ24"
    by (auto simp: word_modes_def)
  then show thesis by cases (use modes fmsk that in \<open>auto\<close>)
qed

lemma disjoint_fields:
  fixes lo lo' width width' :: nat
  assumes "push_bit lo (mask width) AND push_bit lo' (mask width') = (0 :: u32)" "0 < width" "0 < width'" "lo + width \<le> 32" "lo' + width' \<le> 32"
  shows "lo + width \<le> lo' \<or> lo' + width' \<le> lo"
proof (rule ccontr)
  assume "\<not> ?thesis"
  then have "bit (push_bit lo (mask width) AND push_bit lo' (mask width') :: u32) (max lo lo')"
    using assms(2-5) by (auto simp: bit_simps max_def)
  then show False using assms(1) by simp
qed

lemma mode_rw:
  assumes "mode_of psm (swz, bt, ct, z) get put cell lo width" "in_buffer (info (m_psm psm)) bw x y" "in_buffer (info (m_psm psm)) bw x' y'"
  shows "rp (m_psm psm) x' y' bp bw (wp (m_psm psm) x y c bp bw m) =
    (if (x', y') = (x, y) then c AND mask (nat (trbpp (m_psm psm))) else rp (m_psm psm) x' y' bp bw m)"
proof -
  from assms(1) have sw: "(swz, bt, ct, z) \<in> set swizzles" "info (m_psm psm) = swz" "pixel_format get put cell lo width"
    "int cell * (nrows ct * ncols ct) = 2048" and w: "trbpp (m_psm psm) = int width"
    and r: "rp (m_psm psm) = (\<lambda>x y bp bw. get (swizzle_pa swz x y bp bw))"
    and p: "wp (m_psm psm) = (\<lambda>x y c bp bw. put (swizzle_pa swz x y bp bw) c)" by (simp_all add: mode_of_def)
  show ?thesis
    using pixel_format.read_write [OF sw(3)] pixel_cells [OF sw(1,3,4)] assms(2,3) by (auto simp: r p w sw(2))
qed

lemma mode_other_bits:
  assumes "psm \<in> set word_modes" "psm' \<in> set word_modes" "fmsk (m_psm psm) AND fmsk (m_psm psm') = 0"
  shows "rp (m_psm psm') x' y' bp' bw' (wp (m_psm psm) x y c bp bw m) = rp (m_psm psm') x' y' bp' bw' m"
proof -
  obtain sw get put lo width where a: "mode_of psm sw get put 32 lo width" "fmsk (m_psm psm) = push_bit lo (mask width)" "0 < width"
    using assms(1) by (rule word_mode)
  obtain sw' get' put' lo' width' where b: "mode_of psm' sw' get' put' 32 lo' width'"
    "fmsk (m_psm psm') = push_bit lo' (mask width')" "0 < width'" using assms(2) by (rule word_mode)
  from a(1) obtain swz where f: "pixel_format get put 32 lo width"
    "wp (m_psm psm) = (\<lambda>x y c bp bw. put (swizzle_pa swz x y bp bw) c)" by (cases sw) (auto simp: mode_of_def)
  from b(1) obtain swz' where g: "pixel_format get' put' 32 lo' width'"
    "rp (m_psm psm') = (\<lambda>x y bp bw. get' (swizzle_pa swz' x y bp bw))" by (cases sw') (auto simp: mode_of_def)
  have "lo + width \<le> lo' \<or> lo' + width' \<le> lo"
    using assms(3) a(2,3) b(2,3) pixel_format.cell(2) [OF f(1)] pixel_format.cell(2) [OF g(1)] by (intro disjoint_fields) simp_all
  then show ?thesis using pixel_format.other_bits [OF f(1) g(1)] by (simp add: f(2) g(2))
qed

text \<open>The offset with the tables known at compile time is the one looked up in the table of modes.\<close>

lemma GetOffset_fromKnownPSM: "psm \<in> set (PSGPU24 # pixel_modes) \<Longrightarrow> GetOffset bp bw psm = fromKnownPSM bp bw psm"
  by (auto simp: pixel_modes_def GetOffset_def fromKnownPSM_def psm_defs)

text \<open>Frame buffers of sixteen bits keep the upper five bits of each colour and the top bit of alpha.\<close>

lemma frame16_colour:
  fixes c p :: u32
  assumes p: "p = (drop_bit 16 (c AND 0x8000f800) OR drop_bit 9 (c AND 0x00f800f8) OR drop_bit 6 (c AND 0x8000f800) OR
    drop_bit 3 (c AND 0x00f800f8)) AND mask 16"
  shows "push_bit 16 (p AND 0x8000) OR push_bit 9 (p AND 0x7c00) OR push_bit 6 (p AND 0x03e0) OR push_bit 3 (p AND 0x001f) = c AND 0x80f8f8f8"
  unfolding p by (rule bits_32I) (simp add: upt_32 bit_simps)

lemma frame16_write_read: "ReadFrame16_at a (WriteFrame16_at a c m) = c AND 0x80f8f8f8"
proof -
  define v where "v = drop_bit 16 (c AND 0x8000f800) OR drop_bit 9 (c AND 0x00f800f8) OR drop_bit 6 (c AND 0x8000f800) OR drop_bit 3 (c AND 0x00f800f8)"
  have "WriteFrame16_at a c m = WritePixel16_at a v m" by (simp only: WriteFrame16_at_def Let_def v_def)
  moreover have "ReadPixel16_at a (WritePixel16_at a v m) = v AND mask 16" using f16.read_write [of a a v m] by (simp add: f16.same_cell_def)
  ultimately show ?thesis
    unfolding ReadFrame16_at_def Let_def ReadPixel16_at_def [symmetric] by (simp only: frame16_colour [of "v AND mask 16" c, unfolded v_def, OF refl] v_def)
qed

definition frame16_modes :: "int list" where "frame16_modes = [PSMCT16, PSMCT16S, PSMZ16, PSMZ16S]"

lemma frame16_mode: "psm \<in> set frame16_modes \<Longrightarrow> wfa (m_psm psm) = WriteFrame16_at \<and> fmsk (m_psm psm) = 0x80f8f8f8"
  by (auto simp: frame16_modes_def psm_defs)

text \<open>C37: the pixels of a buffer are independent cells. In each of the thirteen storage modes, after a pixel is written
  with the writer of the mode, reading it with the mode's reader gives the low bits of the colour, as many as the
  mode transfers per pixel, and reading any other pixel of the buffer gives what it gave before; this includes the
  four-bit mode, where two pixels share a byte, and buffers that wrap around the four megabytes. Modes whose pixels
  are fields of whole words with disjoint masks, such as 24-bit colour with the 8-bit indices of the upper byte, do not
  disturb each other at any address, so one buffer can hold both. In the sixteen-bit modes a colour written by the
  frame writer of the mode and read as frame keeps exactly the bits of the frame mask.
\<close>

theorem pixel_write_read:
  "(psm \<in> set pixel_modes \<longrightarrow> in_buffer (info (m_psm psm)) bw x y \<longrightarrow> in_buffer (info (m_psm psm)) bw x' y' \<longrightarrow>
      rp (m_psm psm) x' y' bp bw (wp (m_psm psm) x y c bp bw m) =
        (if (x', y') = (x, y) then c AND mask (nat (trbpp (m_psm psm))) else rp (m_psm psm) x' y' bp bw m)) \<and>
   (psm \<in> set word_modes \<longrightarrow> psm' \<in> set word_modes \<longrightarrow> fmsk (m_psm psm) AND fmsk (m_psm psm') = 0 \<longrightarrow>
      rp (m_psm psm') x' y' bp' bw' (wp (m_psm psm) x y c bp bw m) = rp (m_psm psm') x' y' bp' bw' m) \<and>
   (psm \<in> set frame16_modes \<longrightarrow> ReadFrame16_at a (wfa (m_psm psm) a c m) = c AND fmsk (m_psm psm))"
proof (intro conjI impI)
  assume a: "psm \<in> set pixel_modes" "in_buffer (info (m_psm psm)) bw x y" "in_buffer (info (m_psm psm)) bw x' y'"
  obtain swz bt ct z get put cell lo width where "mode_of psm (swz, bt, ct, z) get put cell lo width"
    using mode_exists [OF a(1)] by auto
  from mode_rw [OF this a(2,3)] show "rp (m_psm psm) x' y' bp bw (wp (m_psm psm) x y c bp bw m) =
      (if (x', y') = (x, y) then c AND mask (nat (trbpp (m_psm psm))) else rp (m_psm psm) x' y' bp bw m)" .
qed (rule mode_other_bits, assumption+, simp add: frame16_mode frame16_write_read)

definition blank_memory :: GSLocalMemory where "blank_memory = \<lparr>m_vm8 = (\<lambda>i. 0), m_buff32 = (\<lambda>i. 0)\<rparr>"

text \<open>Witness of C39: two neighbours of a 4-bit buffer, and 24-bit colour under upper-byte indices.\<close>

theorem pixel_write_read_witness:
  "rp (m_psm PSMT4) 1 0 0 2 (wp (m_psm PSMT4) 1 0 0x1a 0 2 blank_memory) = 0x1a AND mask (nat (trbpp (m_psm PSMT4))) \<and>
   rp (m_psm PSMT4) 0 0 0 2 (wp (m_psm PSMT4) 1 0 0x1a 0 2 blank_memory) = rp (m_psm PSMT4) 0 0 0 2 blank_memory \<and>
   rp (m_psm PSMT8H) 5 6 0 1 (wp (m_psm PSMCT24) 5 6 0xffffffff 0 1 blank_memory) = rp (m_psm PSMT8H) 5 6 0 1 blank_memory \<and>
   ReadFrame16_at 7 (wfa (m_psm PSMZ16S) 7 0x12345678 blank_memory) = 0x12345678 AND fmsk (m_psm PSMZ16S)"
proof -
  have b: "in_buffer (info (m_psm PSMT4)) 2 0 0" "in_buffer (info (m_psm PSMT4)) 2 1 0"
    by (simp_all add: in_buffer_def Let_def psm_defs sw4.masks)
  have m: "PSMT4 \<in> set pixel_modes" "PSMCT24 \<in> set word_modes" "PSMT8H \<in> set word_modes" "PSMZ16S \<in> set frame16_modes"
    by (simp_all add: pixel_modes_def word_modes_def frame16_modes_def)
  have f: "fmsk (m_psm PSMCT24) AND fmsk (m_psm PSMT8H) = 0" by (simp add: psm_defs)
  show ?thesis
    using pixel_write_read [of PSMT4 2 1 0 1 0] pixel_write_read [of PSMT4 2 1 0 0 0] pixel_write_read [of PSMCT24 _ _ _ _ _ _ _ _ PSMT8H]
      pixel_write_read [of PSMZ16S] m b f by simp
qed

end
