(* ===== verification/GS_Offsets.thy ===== *)
theory GS_Offsets
  imports GS_Pixels
begin

text \<open>
  Address tables of a pair of frame and depth buffer, which \<open>GSLocalMemory\<close> computes once for each setting of the
  registers and keeps in a map, and the block ranges that decide whether two rectangles of the memory
  overlap (src/pcsx2/GS/GSLocalMemory.cpp, GSLocalMemory.h, GSRegs.h).
\<close>

subsection \<open>Registers\<close>

record GIFRegFRAME =
  FBP :: "9 word"
  FBW :: "6 word"
  FRAME_PSM :: "6 word"

record GIFRegZBUF =
  ZBP :: "9 word"
  ZBUF_PSM :: "6 word"

definition FRAME_Block :: "GIFRegFRAME \<Rightarrow> int" where "FRAME_Block r = push_bit 5 (uint (FBP r))"

definition ZBUF_Block :: "GIFRegZBUF \<Rightarrow> int" where "ZBUF_Block r = push_bit 5 (uint (ZBP r))"

subsection \<open>Tables of pixel offsets\<close>

text \<open>In units of sixteen bits, the frame first and the depth second in each pair. \<open>GSPixelOffset4\<close> differs in
  the number of columns only.\<close>

record GSPixelOffset =
  po_row :: "(int \<times> int) list"
  po_col :: "(int \<times> int) list"
  po_hash :: u32
  po_fbp :: int
  po_zbp :: int
  po_fpsm :: int
  po_zpsm :: int
  po_bw :: int

text \<open>The value of an \<open>int\<close> of 32 bits.\<close>

definition to_int :: "int \<Rightarrow> int" where "to_int k = signed_take_bit 31 k"

definition psm_hash :: "6 word \<Rightarrow> u32" where
  "psm_hash psm = (ucast psm AND 0x0f) XOR drop_bit 2 (ucast psm AND 0x30)"

definition offset_hash :: "GIFRegFRAME \<Rightarrow> GIFRegZBUF \<Rightarrow> u32" where
  "offset_hash FRAME ZBUF = push_bit 0 (ucast (FBP FRAME)) OR push_bit 9 (ucast (ZBP ZBUF)) OR push_bit 18 (ucast (FBW FRAME)) OR
     push_bit 24 (psm_hash (FRAME_PSM FRAME)) OR push_bit 28 (psm_hash (ZBUF_PSM ZBUF))"

definition row_offset :: "int \<Rightarrow> int \<Rightarrow> int \<Rightarrow> int \<Rightarrow> int" where
  "row_offset psm bp bw i =
     to_int (push_bit (nat (drop_bit 5 (bpp (m_psm psm)))) (swizzle_pa (info (m_psm psm)) 0 i bp bw))"

definition col_offset :: "int \<Rightarrow> int \<Rightarrow> int" where
  "col_offset psm i =
     to_int (push_bit (nat (drop_bit 5 (bpp (m_psm psm))))
       (swizzle_pa (info (m_psm psm)) i 0 0 32 - swizzle_pa (info (m_psm psm)) 0 0 0 32))"

definition new_offset :: "int list \<Rightarrow> GIFRegFRAME \<Rightarrow> GIFRegZBUF \<Rightarrow> GSPixelOffset" where
  "new_offset cols FRAME ZBUF =
     (let fbp = FRAME_Block FRAME; zbp = ZBUF_Block ZBUF; fpsm = uint (FRAME_PSM FRAME); zpsm = uint (ZBUF_PSM ZBUF);
          bw = uint (FBW FRAME)
      in \<lparr>po_row = map (\<lambda>i. (row_offset fpsm fbp bw i, row_offset zpsm zbp bw i)) [0..2047],
          po_col = map (\<lambda>i. (col_offset fpsm i, col_offset zpsm i)) cols,
          po_hash = offset_hash FRAME ZBUF, po_fbp = fbp, po_zbp = zbp, po_fpsm = fpsm, po_zpsm = zpsm, po_bw = bw\<rparr>)"

type_synonym offset_map = "u32 \<rightharpoonup> GSPixelOffset"

definition GetPixelOffset :: "GIFRegFRAME \<Rightarrow> GIFRegZBUF \<Rightarrow> offset_map \<Rightarrow> GSPixelOffset \<times> offset_map" where
  "GetPixelOffset FRAME ZBUF m_pomap =
     (let hash = offset_hash FRAME ZBUF
      in case m_pomap hash of
        Some off \<Rightarrow> (off, m_pomap)
      | None \<Rightarrow> (let off = new_offset [0..2047] FRAME ZBUF in (off, m_pomap(hash \<mapsto> off))))"

definition GetPixelOffset4 :: "GIFRegFRAME \<Rightarrow> GIFRegZBUF \<Rightarrow> offset_map \<Rightarrow> GSPixelOffset \<times> offset_map" where
  "GetPixelOffset4 FRAME ZBUF m_po4map =
     (let hash = offset_hash FRAME ZBUF
      in case m_po4map hash of
        Some off \<Rightarrow> (off, m_po4map)
      | None \<Rightarrow> (let off = new_offset (map (\<lambda>i. i * 4) [0..511]) FRAME ZBUF in (off, m_po4map(hash \<mapsto> off))))"

subsection \<open>Page alignment and block ranges\<close>

text \<open>Unsigned arithmetic of 32 bits.\<close>

definition to_u32 :: "int \<Rightarrow> int" where "to_u32 k = k mod 2 ^ 32"

definition page_lanes :: "int \<Rightarrow> GSVector4i \<Rightarrow> bool list" where
  "page_lanes psm rc =
     (let mx = fst (pgs (m_psm psm)) - 1; my = snd (pgs (m_psm psm)) - 1
      in [r_left rc AND mx = 0, r_top rc AND my = 0, r_right rc AND mx = 0, r_bottom rc AND my = 0])"

text \<open>\<open>GSVector4i::mask\<close> collects the top bit of each byte, four for a lane.\<close>

definition IsPageAlignedMasked :: "int \<Rightarrow> GSVector4i \<Rightarrow> int" where
  "IsPageAlignedMasked psm rc = foldr (\<lambda>b k. push_bit 4 k OR (if b then 0xf else 0)) (page_lanes psm rc) 0"

definition IsPageAligned :: "int \<Rightarrow> GSVector4i \<Rightarrow> bool" where
  "IsPageAligned psm rc = list_all (\<lambda>b. b) (page_lanes psm rc)"

definition GetStartBlockAddress :: "int \<Rightarrow> int \<Rightarrow> int \<Rightarrow> GSVector4i \<Rightarrow> int" where
  "GetStartBlockAddress bp bw psm rect =
     (let result = swizzle_bn (info (m_psm psm)) (r_left rect) (r_top rect) bp bw; page_size = pgs (m_psm psm)
      in if r_left rect AND (fst page_size - 1) = 0 \<and> r_top rect AND (snd page_size - 1) = 0
         then result AND NOT 31 else result)"

definition GetEndBlockAddress :: "int \<Rightarrow> int \<Rightarrow> int \<Rightarrow> GSVector4i \<Rightarrow> int" where
  "GetEndBlockAddress bp bw psm rect =
     (let result = swizzle_bn (info (m_psm psm)) (r_right rect - 1) (r_bottom rect - 1) bp bw; page_size = pgs (m_psm psm)
      in if r_right rect AND (fst page_size - 1) = 0 \<and> r_bottom rect AND (snd page_size - 1) = 0
         then to_u32 (((result + 31) AND NOT 31) - 1) else result)"

definition GetUnwrappedEndBlockAddress :: "int \<Rightarrow> int \<Rightarrow> int \<Rightarrow> GSVector4i \<Rightarrow> int" where
  "GetUnwrappedEndBlockAddress bp bw psm rect =
     (let result = GetEndBlockAddress bp bw psm rect in if result < bp then to_u32 (result + GS_MAX_BLOCKS) else result)"

definition GetRectForPageOffset :: "int \<Rightarrow> int \<Rightarrow> int \<Rightarrow> int \<Rightarrow> GSVector4i" where
  "GetRectForPageOffset base_bp offset_bp bw psm =
     (let page_offset = drop_bit 5 (to_u32 (offset_bp - base_bp)); valid_bw = max 1 bw;
          px = fst (pgs (m_psm psm)) * (page_offset mod valid_bw);
          py = snd (pgs (m_psm psm)) * (page_offset div max 1 valid_bw)
      in \<lparr>r_left = px, r_top = py, r_right = px + fst (pgs (m_psm psm)), r_bottom = py + snd (pgs (m_psm psm))\<rparr>)"

definition HasOverlap :: "int \<Rightarrow> int \<Rightarrow> int \<Rightarrow> GSVector4i \<Rightarrow> int \<Rightarrow> int \<Rightarrow> int \<Rightarrow> GSVector4i \<Rightarrow> bool" where
  "HasOverlap src_bp src_bw src_psm src_rect dst_bp dst_bw dst_psm dst_rect =
     (let pageAlign = (\<lambda>k. to_u32 k AND NOT (GS_BLOCKS_PER_PAGE - 1));
          src_start = pageAlign (GetStartBlockAddress src_bp src_bw src_psm src_rect);
          dst_start = pageAlign (GetStartBlockAddress dst_bp dst_bw dst_psm dst_rect);
          src_end = pageAlign (to_u32 (GetUnwrappedEndBlockAddress src_bp src_bw src_psm src_rect + 1) + (GS_BLOCKS_PER_PAGE - 1));
          dst_end = pageAlign (to_u32 (GetUnwrappedEndBlockAddress dst_bp dst_bw dst_psm dst_rect + 1) + (GS_BLOCKS_PER_PAGE - 1));
          ranges = (if dst_end > GS_MAX_BLOCKS \<and> src_end < dst_start
                    then (to_u32 (src_start + GS_MAX_BLOCKS), to_u32 (src_end + GS_MAX_BLOCKS), dst_start, dst_end)
                    else if src_end > GS_MAX_BLOCKS \<and> dst_end < src_start
                    then (src_start, src_end, to_u32 (dst_start + GS_MAX_BLOCKS), to_u32 (dst_end + GS_MAX_BLOCKS))
                    else (src_start, src_end, dst_start, dst_end))
      in case ranges of (ss, se, ds, de) \<Rightarrow> ss < de \<and> ds < se)"

end
