(* ===== verification/GS_Offsets_Spec.thy ===== *)
theory GS_Offsets_Spec
  imports GS_Pixels_Spec GS_Offsets
begin

text \<open>
  The tables of pixel offsets give the addresses of the pixels, whatever was asked for before, and the overlap test
  of two rectangles misses no shared page.
\<close>

subsection \<open>Rows and columns\<close>

text \<open>In a render target the address of a pixel is the sum of an offset of its row and one of its column, also under
  the exclusive or of the depth formats, since rows and columns contribute to different bits of the block number.\<close>

locale target_swizzle = swizzle swz bt ct z psx psy bsx bsy 0 "\<lambda>i. 0"
  for swz bt ct z psx psy bsx bsy +
  assumes xor_blocks: "list_all (\<lambda>i. list_all (\<lambda>j. (tab bt i 0 XOR z) + (tab bt 0 j XOR z) = (tab bt i j XOR z) + z)
    [0..ncols bt - 1]) [0..nrows bt - 1]"
begin

lemma xor_low: "0 \<le> t \<Longrightarrow> t < 32 \<Longrightarrow> (32 * k + t) XOR z = 32 * k + (t XOR z)"
proof -
  assume t: "0 \<le> t" "t < 32"
  have "((32 * k + t) XOR z) div 32 = k" using xor_div [OF xors(3,4), of "32 * k + t"] t by simp
  moreover have "((32 * k + t) XOR z) mod 32 = t XOR z" using xor_mod [of z 5 "32 * k + t"] xors(3,4) t by simp
  ultimately show ?thesis by (metis mult_div_mod_eq)
qed

lemma tile_sum: "(tile 0 y XOR z) + (tile x 0 XOR z) = (tile x y XOR z) + z"
proof -
  define i j where "i = y mod 2 ^ psy div 2 ^ bsy" and "j = x mod 2 ^ psx div 2 ^ bsx"
  have "0 \<le> i" "i < nrows bt" "0 \<le> j" "j < ncols bt" unfolding i_def j_def
    by (auto simp: sizes pos_imp_zdiv_nonneg_iff page_split [symmetric] intro!: int_div_less)
  then have "(tab bt i 0 XOR z) + (tab bt 0 j XOR z) = (tab bt i j XOR z) + z" using xor_blocks by (simp add: list_all_upto)
  then show ?thesis by (simp add: tile_def i_def j_def)
qed

lemma row_col_sum:
  assumes "0 \<le> x" "x < 2048" "0 \<le> y"
  shows "swizzle_pa swz 0 y (32 * k) bw + (swizzle_pa swz x 0 0 32 - swizzle_pa swz 0 0 0 32) = swizzle_pa swz x y (32 * k) bw"
proof -
  define q where "q = (k + y div 2 ^ psy * (64 * bw div 2 ^ psx)) mod 512"
  have q: "(32 * k + 32 * (y div 2 ^ psy * (64 * bw div 2 ^ psx))) mod 16384 = 32 * q"
    using mult_mod_right [of 32 "k + y div 2 ^ psy * (64 * bw div 2 ^ psx)" 512] by (simp add: q_def distrib_left)
  define c where "c i j = tab ct (i mod 2 ^ bsy) (j mod 2 ^ bsx)" for i j
  have c: "c y x = c y 0 + c 0 x - c 0 0"
    using pixel_entry(1) [of "y mod 2 ^ bsy" "x mod 2 ^ bsx"] by (simp add: c_def table_sizes(1,2))
  have t: "tile 0 0 = 0" by (simp add: tile_def blocks(3))
  have e: "swizzle_pa swz x y (32 * k) bw = (32 * (q + x div 2 ^ psx) + (tile x y XOR z)) * 2 ^ (bsx + bsy) + c y x"
    "swizzle_pa swz 0 y (32 * k) bw = (32 * q + (tile 0 y XOR z)) * 2 ^ (bsx + bsy) + c y 0"
    using pa_eq(1) [OF assms, of "32 * k" bw] pa_eq(1) [of 0 y "32 * k" bw] assms(3) tile_range xor_low [of "tile x y" "q + x div 2 ^ psx"]
      xor_low [of "tile 0 y" q] by (simp_all add: q c_def distrib_left)
  have f: "swizzle_pa swz x 0 0 32 = (32 * (x div 2 ^ psx) + (tile x 0 XOR z)) * 2 ^ (bsx + bsy) + c 0 x"
    "swizzle_pa swz 0 0 0 32 = z * 2 ^ (bsx + bsy) + c 0 0"
    using pa_eq(1) [OF assms(1,2), of 0 0 32] pa_eq(1) [of 0 0 0 32] tile_range xor_low [of "tile x 0" "x div 2 ^ psx"]
    by (simp_all add: c_def t)
  have "(tile x y XOR z) * 2 ^ (bsx + bsy) = ((tile 0 y XOR z) + (tile x 0 XOR z) - z) * 2 ^ (bsx + bsy)"
    using tile_sum [of y x] by simp
  then show ?thesis unfolding e f c by (simp add: algebra_simps)
qed

lemma pa_small: "0 \<le> x \<Longrightarrow> x < 2048 \<Longrightarrow> 0 \<le> y \<Longrightarrow> 0 \<le> swizzle_pa swz x y bp bw \<and> swizzle_pa swz x y bp bw < 2 ^ 25"
proof -
  assume a: "0 \<le> x" "x < 2048" "0 \<le> y"
  have "(2 :: int) ^ (bsx + bsy) \<le> 2 ^ 9" using ranges by (intro power_increasing) auto
  then show ?thesis using pa_eq(2,3) [OF a, of bp bw] by simp
qed

end

interpretation t32: target_swizzle swizzle32 raw_blockTable32 columnTable32 "0" "6" "5" "3" "3"
  by (intro target_swizzle.intro target_swizzle_axioms.intro sw32.swizzle_axioms) code_simp

interpretation t32Z: target_swizzle swizzle32Z raw_blockTable32 columnTable32 "24" "6" "5" "3" "3"
  by (intro target_swizzle.intro target_swizzle_axioms.intro sw32Z.swizzle_axioms) code_simp

interpretation t16: target_swizzle swizzle16 raw_blockTable16 columnTable16 "0" "6" "6" "4" "3"
  by (intro target_swizzle.intro target_swizzle_axioms.intro sw16.swizzle_axioms) code_simp

interpretation t16S: target_swizzle swizzle16S raw_blockTable16S columnTable16 "0" "6" "6" "4" "3"
  by (intro target_swizzle.intro target_swizzle_axioms.intro sw16S.swizzle_axioms) code_simp

interpretation t16Z: target_swizzle swizzle16Z raw_blockTable16 columnTable16 "24" "6" "6" "4" "3"
  by (intro target_swizzle.intro target_swizzle_axioms.intro sw16Z.swizzle_axioms) code_simp

interpretation t16SZ: target_swizzle swizzle16SZ raw_blockTable16S columnTable16 "24" "6" "6" "4" "3"
  by (intro target_swizzle.intro target_swizzle_axioms.intro sw16SZ.swizzle_axioms) code_simp

definition target_modes :: "int list" where
  "target_modes = [PSMCT32, PSMCT24, PSMCT16, PSMCT16S, PSMZ32, PSMZ24, PSMZ16, PSMZ16S]"

lemma target_mode:
  assumes "psm \<in> set target_modes"
  obtains bt ct z psx psy bsx bsy where "target_swizzle (info (m_psm psm)) bt ct z psx psy bsx bsy" "bpp (m_psm psm) \<in> {16, 32}"
proof -
  have b: "bpp (m_psm psm) \<in> {16, 32}" using assms by (auto simp: target_modes_def psm_defs)
  have "info (m_psm psm) \<in> {swizzle32, swizzle16, swizzle16S, swizzle32Z, swizzle16Z, swizzle16SZ}"
    using assms by (auto simp: target_modes_def psm_defs)
  then show thesis
    using that [OF _ b] t32.target_swizzle_axioms t32Z.target_swizzle_axioms t16.target_swizzle_axioms t16S.target_swizzle_axioms
      t16Z.target_swizzle_axioms t16SZ.target_swizzle_axioms by auto
qed

lemma to_int_small: "- (2 ^ 25) < k \<Longrightarrow> k < 2 ^ 25 \<Longrightarrow> to_int (push_bit n k) = push_bit n k" if "n \<le> 1"
proof -
  assume k: "- (2 ^ 25) < k" "k < 2 ^ 25"
  from that consider "n = 0" | "n = 1" by linarith
  then show ?thesis using k by cases (simp_all add: to_int_def push_bit_eq_mult signed_take_bit_int_eq_self)
qed

lemma offsets_sum:
  assumes "psm \<in> set target_modes" "0 \<le> x" "x < 2048" "0 \<le> y"
  shows "row_offset psm (32 * k) bw y + col_offset psm x =
    push_bit (nat (drop_bit 5 (bpp (m_psm psm)))) (swizzle_pa (info (m_psm psm)) x y (32 * k) bw)"
proof -
  obtain bt ct z psx psy bsx bsy where t: "target_swizzle (info (m_psm psm)) bt ct z psx psy bsx bsy" and b: "bpp (m_psm psm) \<in> {16, 32}"
    using assms(1) by (rule target_mode)
  have n: "nat (drop_bit 5 (bpp (m_psm psm))) \<le> 1" using b by (auto simp: drop_bit_eq_div)
  note small = target_swizzle.pa_small [OF t]
  have "row_offset psm (32 * k) bw y = push_bit (nat (drop_bit 5 (bpp (m_psm psm)))) (swizzle_pa (info (m_psm psm)) 0 y (32 * k) bw)"
    unfolding row_offset_def using small [of 0 y "32 * k" bw] assms(4) by (intro to_int_small n) simp_all
  moreover have "col_offset psm x = push_bit (nat (drop_bit 5 (bpp (m_psm psm))))
      (swizzle_pa (info (m_psm psm)) x 0 0 32 - swizzle_pa (info (m_psm psm)) 0 0 0 32)"
    unfolding col_offset_def using small [of x 0 0 32] small [of 0 0 0 32] assms(2,3) by (intro to_int_small n) simp_all
  ultimately show ?thesis
    using target_swizzle.row_col_sum [OF t assms(2-4), of k bw] by (simp add: push_bit_eq_mult distrib_right [symmetric])
qed

subsection \<open>The key of the map\<close>

lemma psm_hash_inj:
  assumes "uint p \<in> set target_modes" "uint q \<in> set target_modes" "psm_hash p = psm_hash q"
  shows "p = q"
proof -
  have w: "r \<in> set [0, 1, 2, 10, 48, 49, 50, 58]" if "uint r \<in> set target_modes" for r :: "6 word"
  proof -
    have "word_of_int (uint r) \<in> (word_of_int ` set target_modes :: 6 word set)" using that by (rule imageI)
    then show ?thesis by (simp add: target_modes_def psm_defs)
  qed
  have "list_all (\<lambda>p. list_all (\<lambda>q. psm_hash p = psm_hash q \<longrightarrow> p = q) [0, 1, 2, 10, 48, 49, 50, 58]) [0, 1, 2, 10, 48, 49, 50, 58]"
    by code_simp
  then show ?thesis using w [OF assms(1)] w [OF assms(2)] assms(3) unfolding list_all_iff by blast
qed

lemma psm_hash_bits: "bit (psm_hash p) i \<Longrightarrow> i < 4"
proof -
  assume b: "bit (psm_hash p) i"
  have "psm_hash p = psm_hash p AND mask 4" by (rule bits_32I) (simp add: upt_32 psm_hash_def bit_simps)
  with b have "bit (psm_hash p AND mask 4) i" by metis
  then show "i < 4" by (simp add: bit_simps)
qed

lemma offset_hash_fields:
  "FBP F = ucast (offset_hash F Z)" "ZBP Z = ucast (drop_bit 9 (offset_hash F Z))" "FBW F = ucast (drop_bit 18 (offset_hash F Z))"
  "psm_hash (FRAME_PSM F) = drop_bit 24 (offset_hash F Z) AND mask 4" "psm_hash (ZBUF_PSM Z) = drop_bit 28 (offset_hash F Z)"
  by (rule bit_word_eqI; auto simp: offset_hash_def bit_simps dest: psm_hash_bits bit_imp_le_length)+

lemma offset_hash_inj:
  assumes "offset_hash F Z = offset_hash F' Z'"
    and "uint (FRAME_PSM F) \<in> set target_modes" "uint (ZBUF_PSM Z) \<in> set target_modes"
      "uint (FRAME_PSM F') \<in> set target_modes" "uint (ZBUF_PSM Z') \<in> set target_modes"
  shows "F = F'" "Z = Z'"
proof -
  note f = offset_hash_fields [where F = F and Z = Z, unfolded assms(1)]
    and f' = offset_hash_fields [where F = F' and Z = Z']
  have "FRAME_PSM F = FRAME_PSM F'" "ZBUF_PSM Z = ZBUF_PSM Z'"
    using assms(2-5) f(4,5) f'(4,5) by (auto intro!: psm_hash_inj)
  then show "F = F'" "Z = Z'" using f(1-3) f'(1-3) by (auto intro: GIFRegFRAME.equality GIFRegZBUF.equality)
qed

subsection \<open>The map\<close>

definition targets :: "GIFRegFRAME \<Rightarrow> GIFRegZBUF \<Rightarrow> bool" where
  "targets F Z \<longleftrightarrow> uint (FRAME_PSM F) \<in> set target_modes \<and> uint (ZBUF_PSM Z) \<in> set target_modes"

definition after_requests ::
  "(GIFRegFRAME \<Rightarrow> GIFRegZBUF \<Rightarrow> offset_map \<Rightarrow> GSPixelOffset \<times> offset_map) \<Rightarrow> (GIFRegFRAME \<times> GIFRegZBUF) list \<Rightarrow> offset_map" where
  "after_requests get qs = fold (\<lambda>(F, Z) m. snd (get F Z m)) qs Map.empty"

locale offset_cache =
  fixes get :: "GIFRegFRAME \<Rightarrow> GIFRegZBUF \<Rightarrow> offset_map \<Rightarrow> GSPixelOffset \<times> offset_map" and cols :: "int list"
  assumes get_hit: "m (offset_hash F Z) = Some off \<Longrightarrow> get F Z m = (off, m)"
    and get_miss: "m (offset_hash F Z) = None \<Longrightarrow> get F Z m = (new_offset cols F Z, m(offset_hash F Z \<mapsto> new_offset cols F Z))"
begin

definition cache_ok :: "offset_map \<Rightarrow> bool" where
  "cache_ok m \<longleftrightarrow> (\<forall>h off. m h = Some off \<longrightarrow> (\<exists>F Z. targets F Z \<and> h = offset_hash F Z \<and> off = new_offset cols F Z))"

lemma get_fresh:
  assumes "cache_ok m" "targets F Z"
  shows "fst (get F Z m) = new_offset cols F Z" "cache_ok (snd (get F Z m))"
proof -
  have "fst (get F Z m) = new_offset cols F Z \<and> cache_ok (snd (get F Z m))"
  proof (cases "m (offset_hash F Z)")
    case None
    then show ?thesis using assms by (auto simp: get_miss cache_ok_def)
  next
    case (Some off)
    then obtain F' Z' where "targets F' Z'" "offset_hash F Z = offset_hash F' Z'" "off = new_offset cols F' Z'"
      using assms(1) unfolding cache_ok_def by blast
    then show ?thesis using assms Some offset_hash_inj [of F Z F' Z'] by (auto simp: get_hit targets_def)
  qed
  then show "fst (get F Z m) = new_offset cols F Z" "cache_ok (snd (get F Z m))" by simp_all
qed

lemma requests_ok:
  assumes "list_all (\<lambda>(F, Z). targets F Z) qs"
  shows "cache_ok (after_requests get qs)"
proof -
  have "cache_ok m \<Longrightarrow> cache_ok (fold (\<lambda>(F, Z) m. snd (get F Z m)) qs m)" for m
    using assms by (induction qs arbitrary: m) (auto simp: get_fresh)
  moreover have "cache_ok Map.empty" by (simp add: cache_ok_def)
  ultimately show ?thesis by (simp only: after_requests_def)
qed

lemma get_after:
  "list_all (\<lambda>(F, Z). targets F Z) qs \<Longrightarrow> targets F Z \<Longrightarrow> fst (get F Z (after_requests get qs)) = new_offset cols F Z"
  by (intro get_fresh(1) requests_ok)

end

interpretation po: offset_cache GetPixelOffset "[0..2047]"
  by unfold_locales (simp_all add: GetPixelOffset_def Let_def)

interpretation po4: offset_cache GetPixelOffset4 "map (\<lambda>i. i * 4) [0..511]"
  by unfold_locales (simp_all add: GetPixelOffset4_def Let_def)

text \<open>The address of a pixel in units of sixteen bits.\<close>

definition address16 :: "int \<Rightarrow> int \<Rightarrow> int \<Rightarrow> int \<Rightarrow> int \<Rightarrow> int" where
  "address16 psm bp bw x y = push_bit (nat (drop_bit 5 (bpp (m_psm psm)))) (swizzle_pa (info (m_psm psm)) x y bp bw)"

lemma offset_entries:
  assumes "targets F Z" "0 \<le> y" "y < 2048" "0 \<le> x" "x < 2048" "0 \<le> i" "i < int (length cols)" "cols ! nat i = x"
  shows "fst (po_row (new_offset cols F Z) ! nat y) + fst (po_col (new_offset cols F Z) ! nat i) =
      address16 (uint (FRAME_PSM F)) (FRAME_Block F) (uint (FBW F)) x y"
    "snd (po_row (new_offset cols F Z) ! nat y) + snd (po_col (new_offset cols F Z) ! nat i) =
      address16 (uint (ZBUF_PSM Z)) (ZBUF_Block Z) (uint (FBW F)) x y"
proof -
  have y: "nat y < length [0..2047::int]" "[0..2047] ! nat y = y" using assms(2,3) by (simp_all add: nth_upto)
  have i: "nat i < length cols" using assms(6,7) by simp
  have p: "FRAME_Block F = 32 * uint (FBP F)" "ZBUF_Block Z = 32 * uint (ZBP Z)"
    by (simp_all add: FRAME_Block_def ZBUF_Block_def push_bit_eq_mult)
  note s = offsets_sum [OF _ assms(4,5,2), folded address16_def]
  show "fst (po_row (new_offset cols F Z) ! nat y) + fst (po_col (new_offset cols F Z) ! nat i) =
      address16 (uint (FRAME_PSM F)) (FRAME_Block F) (uint (FBW F)) x y"
    "snd (po_row (new_offset cols F Z) ! nat y) + snd (po_col (new_offset cols F Z) ! nat i) =
      address16 (uint (ZBUF_PSM Z)) (ZBUF_Block Z) (uint (FBW F)) x y"
    using assms(1) s by (simp_all add: new_offset_def Let_def nth_map [OF y(1)] nth_map [OF i] y(2) assms(8) p targets_def del: length_upto)
qed

text \<open>C39: whatever settings of the frame and depth registers were asked for before, the table of pixel offsets that the
  local memory returns for a setting is the one of that setting, and for every pixel the offset of its row and the offset
  of its column add up to its address, for the frame and for the depth buffer, in the eight modes of render
  targets. The tables with one column in four give the address of the first of the four pixels.\<close>
theorem pixel_offsets:
  assumes "list_all (\<lambda>(F, Z). targets F Z) qs" "targets F Z" "0 \<le> x" "x < 2048" "0 \<le> y" "y < 2048"
  defines "off \<equiv> fst (GetPixelOffset F Z (after_requests GetPixelOffset qs))"
    and "off4 \<equiv> fst (GetPixelOffset4 F Z (after_requests GetPixelOffset4 qs))"
    and "frame \<equiv> address16 (uint (FRAME_PSM F)) (FRAME_Block F) (uint (FBW F))"
    and "zbuf \<equiv> address16 (uint (ZBUF_PSM Z)) (ZBUF_Block Z) (uint (FBW F))"
  shows "fst (po_row off ! nat y) + fst (po_col off ! nat x) = frame x y \<and>
    snd (po_row off ! nat y) + snd (po_col off ! nat x) = zbuf x y \<and>
    fst (po_row off4 ! nat y) + fst (po_col off4 ! nat (x div 4)) = frame (x div 4 * 4) y \<and>
    snd (po_row off4 ! nat y) + snd (po_col off4 ! nat (x div 4)) = zbuf (x div 4 * 4) y"
proof -
  have off: "off = new_offset [0..2047] F Z" "off4 = new_offset (map (\<lambda>i. i * 4) [0..511]) F Z"
    unfolding off_def off4_def using assms(1,2) by (rule po.get_after, rule po4.get_after)
  have x4: "0 \<le> x div 4 * 4" "x div 4 * 4 < 2048" "0 \<le> x div 4" "x div 4 < 512" using assms(3,4) by auto
  have c: "x < int (length [0..2047])" "[0..2047] ! nat x = x" using assms(3,4) by (simp_all add: nth_upto)
  have n: "nat (x div 4) < length [0..511::int]" using x4 by simp
  have c4: "x div 4 < int (length (map (\<lambda>i. i * 4) [0..511]))" "map (\<lambda>i. i * 4) [0..511] ! nat (x div 4) = x div 4 * 4"
    using x4 n by (simp_all add: nth_map [OF n] nth_upto del: length_upto)
  show ?thesis
    unfolding off frame_def zbuf_def
    using offset_entries [OF assms(2,5,6,3,4,3) c] offset_entries [OF assms(2,5,6) x4(1,2,3) c4] by simp
qed

definition frame_reg :: GIFRegFRAME where "frame_reg = \<lparr>FBP = 3, FBW = 10, FRAME_PSM = 0\<rparr>"

definition zbuf_reg :: GIFRegZBUF where "zbuf_reg = \<lparr>ZBP = 70, ZBUF_PSM = 50\<rparr>"

theorem pixel_offsets_witness:
  "let off = fst (GetPixelOffset frame_reg zbuf_reg (after_requests GetPixelOffset [(frame_reg, zbuf_reg)]))
   in snd (po_row off ! 40) + snd (po_col off ! 100) = address16 50 2240 10 100 40"
proof -
  have t: "targets frame_reg zbuf_reg" by (simp add: targets_def target_modes_def frame_reg_def zbuf_reg_def psm_defs)
  have b: "ZBUF_Block zbuf_reg = 2240" "uint (ZBUF_PSM zbuf_reg) = 50" "uint (FBW frame_reg) = 10"
    by (simp_all add: ZBUF_Block_def zbuf_reg_def frame_reg_def push_bit_eq_mult)
  show ?thesis using pixel_offsets [of "[(frame_reg, zbuf_reg)]" frame_reg zbuf_reg 100 40] t unfolding b by (simp add: Let_def)
qed

subsection \<open>Page ranges of rectangles\<close>

definition page_no :: "GSSwizzleInfo \<Rightarrow> int \<Rightarrow> int \<Rightarrow> int \<Rightarrow> int" where
  "page_no swz bw x y =
     (let pageW = fst (m_pageMask swz) + 1; pageH = snd (m_pageMask swz) + 1 in y div pageH * (64 * bw div pageW) + x div pageW)"

text \<open>A rectangle inside a buffer whose base is at the start of a page.\<close>

definition rect_ok :: "int \<Rightarrow> int \<Rightarrow> int \<Rightarrow> GSVector4i \<Rightarrow> bool" where
  "rect_ok bp bw psm r \<longleftrightarrow> psm \<in> set pixel_modes \<and> 0 \<le> bp \<and> bp < 16384 \<and> bp mod 32 = 0 \<and> r_left r < r_right r \<and>
     r_top r < r_bottom r \<and> in_buffer (info (m_psm psm)) bw (r_left r) (r_top r) \<and>
     in_buffer (info (m_psm psm)) bw (r_right r - 1) (r_bottom r - 1)"

definition rect_pages :: "int \<Rightarrow> int \<Rightarrow> int \<Rightarrow> GSVector4i \<Rightarrow> int set" where
  "rect_pages bp bw psm r =
     (\<lambda>(x, y). swizzle_bn (info (m_psm psm)) x y bp bw div 32) ` ({r_left r..<r_right r} \<times> {r_top r..<r_bottom r})"

definition first_page :: "int \<Rightarrow> int \<Rightarrow> int \<Rightarrow> GSVector4i \<Rightarrow> int" where
  "first_page bp bw psm r = (bp div 32 + page_no (info (m_psm psm)) bw (r_left r) (r_top r)) mod 512"

definition end_page :: "int \<Rightarrow> int \<Rightarrow> int \<Rightarrow> GSVector4i \<Rightarrow> int" where
  "end_page bp bw psm r = bp div 32 + page_no (info (m_psm psm)) bw (r_right r - 1) (r_bottom r - 1) + 1"

lemma and_not_31: "(k :: int) AND - 32 = 32 * (k div 32)"
  using and_not_mask_int [of k 5] by simp

context swizzle
begin

lemma page_no_eq: "page_no swz bw x y = y div 2 ^ psy * (64 * bw div 2 ^ psx) + x div 2 ^ psx"
  by (simp add: page_no_def masks Let_def)

lemma bn_parts:
  "swizzle_bn swz x y (32 * k) bw div 32 = (k + page_no swz bw x y) mod 512"
  "swizzle_bn swz x y (32 * k) bw mod 32 = tile x y XOR z"
proof -
  let ?a = "32 * (k + page_no swz bw x y) + tile x y"
  have a: "?a div 32 = k + page_no swz bw x y" "?a mod 32 = tile x y"
    using tile_range [of x y] mod_mult_self4 [of 32 "k + page_no swz bw x y" "tile x y"] by simp_all
  have b: "swizzle_bn swz x y (32 * k) bw = (?a XOR z) mod 16384"
    by (simp add: bn_eq block_spec_eq page_no_eq algebra_simps)
  show "swizzle_bn swz x y (32 * k) bw div 32 = (k + page_no swz bw x y) mod 512"
    unfolding b using mod_div_int [of 32 512 "?a XOR z"] xor_div [OF xors(3,4), of ?a] a by simp
  show "swizzle_bn swz x y (32 * k) bw mod 32 = tile x y XOR z"
    unfolding b using xor_mod [of z 5 ?a] xors(3,4) a by (simp add: mod_mod_cancel)
qed

lemma in_buffer_page:
  assumes "in_buffer swz bw x y"
  shows "0 \<le> x" "0 \<le> y" "0 < 64 * bw div 2 ^ psx" "0 \<le> page_no swz bw x y" "page_no swz bw x y < 512"
proof -
  have b: "0 \<le> x" "x < 64 * bw div 2 ^ psx * 2 ^ psx" "0 \<le> y" "page_no swz bw x y < 512"
    using assms by (simp_all add: in_buffer_def masks Let_def page_no_eq)
  then show "0 \<le> x" "0 \<le> y" "page_no swz bw x y < 512" by simp_all
  show w: "0 < 64 * bw div 2 ^ psx" using b(1,2) by (smt (verit) mult_nonpos_nonneg zero_le_power)
  have "0 \<le> y div 2 ^ psy" "0 \<le> x div 2 ^ psx" using b(1,3) by (simp_all add: pos_imp_zdiv_nonneg_iff)
  then show "0 \<le> page_no swz bw x y" unfolding page_no_eq using w by (intro add_nonneg_nonneg mult_nonneg_nonneg) simp_all
qed

lemma page_no_mono:
  assumes "0 < 64 * bw div 2 ^ psx" "x \<le> x'" "y \<le> y'"
  shows "page_no swz bw x y \<le> page_no swz bw x' y'"
  unfolding page_no_eq using assms by (intro add_mono mult_right_mono zdiv_mono1) auto

lemma end_tile:
  assumes "tab bt (nrows bt - 1) (ncols bt - 1) XOR z \<noteq> 0" "x mod 2 ^ psx = 0" "y mod 2 ^ psy = 0"
  shows "tile (x - 1) (y - 1) XOR z \<noteq> 0"
proof -
  have m: "(k - 1) mod 2 ^ n = 2 ^ n - 1" if "k mod 2 ^ n = 0" for k :: int and n :: nat
    using that mod_diff_left_eq [of k "2 ^ n" 1] by (simp add: zmod_minus1)
  have d: "(a * 2 ^ n - 1) div 2 ^ n = a - 1" for a :: int and n :: nat
    using div_mult_self3 [of "2 ^ n" a "- 1 :: int"] by (simp add: div_eq_minus1)
  have "((2 :: int) ^ psx - 1) div 2 ^ bsx = ncols bt - 1" "((2 :: int) ^ psy - 1) div 2 ^ bsy = nrows bt - 1"
    unfolding page_split sizes by (simp_all only: d) simp_all
  then show ?thesis using assms by (simp add: tile_def m)
qed

end

text \<open>The last block of a page is not at its start, also after the exclusive or.\<close>

lemma last_blocks: "list_all (\<lambda>(swz, bt, ct, z). tab bt (nrows bt - 1) (ncols bt - 1) XOR z \<noteq> 0) swizzles"
  by (simp add: swizzles_def table_facts)
    (simp add: tab_def raw_blockTable32_def raw_blockTable16_def raw_blockTable16S_def raw_blockTable8_def raw_blockTable4_def)

lemma mode_pages:
  assumes "psm \<in> set pixel_modes"
  obtains bt ct z psx psy bsx bsy rs sel where "swizzle (info (m_psm psm)) bt ct z psx psy bsx bsy rs sel"
    "tab bt (nrows bt - 1) (ncols bt - 1) XOR z \<noteq> 0" "pgs (m_psm psm) = (2 ^ psx, 2 ^ psy)"
proof -
  obtain swz bt ct z get put cell lo width where "mode_of psm (swz, bt, ct, z) get put cell lo width"
    using mode_exists [OF assms] by auto
  then have i: "info (m_psm psm) = swz" "(swz, bt, ct, z) \<in> set swizzles" by (simp_all add: mode_of_def)
  obtain psx psy bsx bsy rs sel where s: "swizzle swz bt ct z psx psy bsx bsy rs sel" using swizzles_locale [OF i(2)] .
  have "pgs (m_psm psm) = (fst (m_pageMask swz) + 1, snd (m_pageMask swz) + 1)"
    using assms unfolding i(1) [symmetric]
    by (auto simp: pixel_modes_def psm_defs sw32.masks sw32Z.masks sw16.masks sw16S.masks sw16Z.masks sw16SZ.masks sw8.masks sw4.masks)
  then have p: "pgs (m_psm psm) = (2 ^ psx, 2 ^ psy)" by (simp add: swizzle.masks [OF s])
  have "tab bt (nrows bt - 1) (ncols bt - 1) XOR z \<noteq> 0" using last_blocks i(2) by (auto simp: list_all_iff)
  then show thesis using that s p i(1) by blast
qed

lemma block_range: "0 \<le> swizzle_bn swz x y bp bw" "swizzle_bn swz x y bp bw < 16384" "swizzle_bn swz x y bp bw mod 2 ^ 32 = swizzle_bn swz x y bp bw"
  by (simp_all add: swizzle_bn_def bn_def bn_value_def GS_MAX_BLOCKS_def mod_mod_cancel mod_pos_pos_trivial)

lemma start_page:
  assumes "rect_ok bp bw psm r"
  shows "to_u32 (GetStartBlockAddress bp bw psm r) AND NOT (GS_BLOCKS_PER_PAGE - 1) = 32 * first_page bp bw psm r"
proof -
  have m: "psm \<in> set pixel_modes" using assms by (simp add: rect_ok_def)
  obtain bt ct z psx psy bsx bsy rs sel where s: "swizzle (info (m_psm psm)) bt ct z psx psy bsx bsy rs sel" by (rule mode_pages [OF m])
  define n where "n = swizzle_bn (info (m_psm psm)) (r_left r) (r_top r) bp bw"
  have n: "0 \<le> n" "n < 16384" by (simp_all add: n_def block_range)
  have "bp = 32 * (bp div 32)" using assms by (auto simp: rect_ok_def)
  then have d: "n div 32 = first_page bp bw psm r"
    using swizzle.bn_parts(1) [OF s, of "r_left r" "r_top r" "bp div 32" bw] by (simp add: n_def first_page_def)
  have "GetStartBlockAddress bp bw psm r \<in> {n, 32 * (n div 32)}"
    by (auto simp: GetStartBlockAddress_def Let_def n_def and_not_31)
  then have "GetStartBlockAddress bp bw psm r div 32 = n div 32" "0 \<le> GetStartBlockAddress bp bw psm r" "GetStartBlockAddress bp bw psm r < 2 ^ 32"
    using n by auto
  then show ?thesis by (simp add: to_u32_def GS_BLOCKS_PER_PAGE_def and_not_31 d)
qed

lemma stop_page:
  assumes "rect_ok bp bw psm r"
  shows "to_u32 (to_u32 (GetUnwrappedEndBlockAddress bp bw psm r + 1) + (GS_BLOCKS_PER_PAGE - 1)) AND NOT (GS_BLOCKS_PER_PAGE - 1) =
    32 * end_page bp bw psm r"
proof -
  have m: "psm \<in> set pixel_modes" using assms by (simp add: rect_ok_def)
  obtain bt ct z psx psy bsx bsy rs sel where s: "swizzle (info (m_psm psm)) bt ct z psx psy bsx bsy rs sel"
    and last: "tab bt (nrows bt - 1) (ncols bt - 1) XOR z \<noteq> 0" and p: "pgs (m_psm psm) = (2 ^ psx, 2 ^ psy)"
    by (rule mode_pages [OF m])
  define k where "k = bp div 32"
  have k: "bp = 32 * k" "0 \<le> k" "k < 512" using assms by (auto simp: rect_ok_def k_def)
  define i where "i = page_no (info (m_psm psm)) bw (r_right r - 1) (r_bottom r - 1)"
  have i: "0 \<le> i" "i < 512" using assms swizzle.in_buffer_page(4,5) [OF s] by (simp_all add: rect_ok_def i_def)
  define n where "n = swizzle_bn (info (m_psm psm)) (r_right r - 1) (r_bottom r - 1) bp bw"
  have n: "n div 32 = (k + i) mod 512" unfolding n_def k(1) i_def by (rule swizzle.bn_parts(1) [OF s])
  have "GetEndBlockAddress bp bw psm r div 32 = n div 32"
  proof (cases "r_right r mod 2 ^ psx = 0 \<and> r_bottom r mod 2 ^ psy = 0")
    case True
    then have "n mod 32 \<noteq> 0"
      unfolding n_def k(1) swizzle.bn_parts(2) [OF s] by (intro swizzle.end_tile [OF s last]) auto
    then have "(n + 31) div 32 = n div 32 + 1" using ceil_eq [of 32 n] by simp
    moreover have "0 \<le> n div 32" "n div 32 < 512" using n by simp_all
    ultimately show ?thesis using True p
      by (simp add: GetEndBlockAddress_def Let_def n_def [symmetric] and_mask_int and_not_31 to_u32_def)
  next
    case False
    then show ?thesis using p by (auto simp: GetEndBlockAddress_def Let_def n_def [symmetric] and_mask_int)
  qed
  then obtain t where e: "GetEndBlockAddress bp bw psm r = 32 * ((k + i) mod 512) + t" "0 \<le> t" "t < 32"
    using n mult_div_mod_eq [of 32 "GetEndBlockAddress bp bw psm r"] by (metis pos_mod_bound pos_mod_sign zero_less_numeral)
  have q: "(k + i) mod 512 = (if k + i < 512 then k + i else k + i - 512)"
  proof (cases "k + i < 512")
    case False
    then have "(k + i - 512) mod 512 = k + i - 512" using k i by (intro mod_pos_pos_trivial) simp_all
    then show ?thesis using False by simp
  qed (use k i in simp)
  have "GetUnwrappedEndBlockAddress bp bw psm r = 32 * (k + i) + t"
    unfolding GetUnwrappedEndBlockAddress_def Let_def e q using k i e(2,3) by (auto simp: GS_MAX_BLOCKS_def to_u32_def)
  moreover have "32 + (32 * k + (32 * i + t)) = t + 32 * (k + i + 1)" by simp
  then have "(32 + (32 * k + (32 * i + t))) div 32 = k + i + 1" using e(2,3) by simp
  ultimately show ?thesis using k i e(2,3)
    by (simp add: to_u32_def GS_BLOCKS_PER_PAGE_def and_not_31 end_page_def i_def [symmetric] k_def [symmetric])
qed

lemma pages_in_range:
  assumes "rect_ok bp bw psm r"
  shows "0 \<le> first_page bp bw psm r" "first_page bp bw psm r < 512" "0 < end_page bp bw psm r" "end_page bp bw psm r \<le> 1024"
    and "p \<in> rect_pages bp bw psm r \<Longrightarrow>
      \<exists>j. p = j mod 512 \<and> first_page bp bw psm r \<le> j \<and> 0 \<le> j \<and> j < end_page bp bw psm r"
proof -
  have m: "psm \<in> set pixel_modes" using assms by (simp add: rect_ok_def)
  obtain bt ct z psx psy bsx bsy rs sel where s: "swizzle (info (m_psm psm)) bt ct z psx psy bsx bsy rs sel" by (rule mode_pages [OF m])
  define k where "k = bp div 32"
  have k: "bp = 32 * k" "0 \<le> k" "k < 512" using assms by (auto simp: rect_ok_def k_def)
  have b: "in_buffer (info (m_psm psm)) bw (r_left r) (r_top r)" "in_buffer (info (m_psm psm)) bw (r_right r - 1) (r_bottom r - 1)"
    using assms by (simp_all add: rect_ok_def)
  note first = swizzle.in_buffer_page [OF s b(1)] and last = swizzle.in_buffer_page [OF s b(2)]
  show "0 \<le> first_page bp bw psm r" "first_page bp bw psm r < 512" by (simp_all add: first_page_def)
  show "0 < end_page bp bw psm r" "end_page bp bw psm r \<le> 1024" using last(4,5) k by (simp_all add: end_page_def)
  assume "p \<in> rect_pages bp bw psm r"
  then obtain x y where xy: "r_left r \<le> x" "x \<le> r_right r - 1" "r_top r \<le> y" "y \<le> r_bottom r - 1"
    and p: "p = swizzle_bn (info (m_psm psm)) x y bp bw div 32" by (auto simp: rect_pages_def)
  let ?j = "k + page_no (info (m_psm psm)) bw x y"
  have lo: "k + page_no (info (m_psm psm)) bw (r_left r) (r_top r) \<le> ?j" and hi: "?j < end_page bp bw psm r"
    using swizzle.page_no_mono [OF s first(3) xy(1,3)] swizzle.page_no_mono [OF s first(3) xy(2,4)]
    by (simp_all add: end_page_def k_def [symmetric])
  have "0 \<le> k + page_no (info (m_psm psm)) bw (r_left r) (r_top r)" using first(4) k by simp
  then have "first_page bp bw psm r \<le> k + page_no (info (m_psm psm)) bw (r_left r) (r_top r)"
    by (simp add: first_page_def k_def zmod_le_nonneg_dividend)
  moreover have "p = ?j mod 512" unfolding p k(1) by (rule swizzle.bn_parts(1) [OF s])
  ultimately show "\<exists>j. p = j mod 512 \<and> first_page bp bw psm r \<le> j \<and> 0 \<le> j \<and> j < end_page bp bw psm r"
    using lo hi first(4) k(2) by (intro exI [of _ ?j]) simp
qed

lemma HasOverlap_pages:
  assumes "rect_ok bp bw psm r" "rect_ok bp' bw' psm' r'"
  defines "s \<equiv> first_page bp bw psm r" and "e \<equiv> end_page bp bw psm r" and "s' \<equiv> first_page bp' bw' psm' r'" and "e' \<equiv> end_page bp' bw' psm' r'"
  shows "HasOverlap bp bw psm r bp' bw' psm' r' \<longleftrightarrow>
    (if e' > 512 \<and> e < s' then s + 512 < e' else if e > 512 \<and> e' < s then s' + 512 < e else s < e' \<and> s' < e)"
proof -
  have b: "0 \<le> s" "s < 512" "0 < e" "e \<le> 1024" "0 \<le> s'" "s' < 512" "0 < e'" "e' \<le> 1024"
    using pages_in_range(1-4) [OF assms(1)] pages_in_range(1-4) [OF assms(2)] by (simp_all add: s_def e_def s'_def e'_def)
  show ?thesis
    unfolding HasOverlap_def Let_def start_page [OF assms(1)] start_page [OF assms(2)] stop_page [OF assms(1)] stop_page [OF assms(2)]
      s_def [symmetric] e_def [symmetric] s'_def [symmetric] e'_def [symmetric]
    using b by (auto simp: to_u32_def GS_MAX_BLOCKS_def)
qed

text \<open>C40: the overlap test misses no shared page: for two rectangles that lie inside their buffers, with bases at the
  start of a page, in any two storage modes, if some page holds pixels of both, the test answers true, also when one of
  them or both run over the end of the memory. It needs that the range of neither ends where the other starts, and
  bases at pages: the last two parts are a wrapping buffer and one that ends where it starts, which share pages
  unnoticed, and a buffer off the page boundary that does not overlap itself.\<close>
theorem overlap_not_missed:
  assumes "rect_ok bp bw psm r" "rect_ok bp' bw' psm' r'" "rect_pages bp bw psm r \<inter> rect_pages bp' bw' psm' r' \<noteq> {}"
    and "end_page bp bw psm r \<noteq> first_page bp' bw' psm' r'" "end_page bp' bw' psm' r' \<noteq> first_page bp bw psm r"
  shows "HasOverlap bp bw psm r bp' bw' psm' r' \<and>
    \<not> HasOverlap 0 10 PSMCT32 \<lparr>r_left = 0, r_top = 0, r_right = 640, r_bottom = 1600\<rparr>
        16000 10 PSMCT32 \<lparr>r_left = 0, r_top = 0, r_right = 640, r_bottom = 64\<rparr> \<and>
    swizzle_bn swizzle32 0 0 0 10 div 32 = swizzle_bn swizzle32 128 32 16000 10 div 32 \<and>
    \<not> HasOverlap 16353 1 PSMCT32 \<lparr>r_left = 0, r_top = 0, r_right = 64, r_bottom = 32\<rparr>
        16353 1 PSMCT32 \<lparr>r_left = 0, r_top = 0, r_right = 64, r_bottom = 32\<rparr>"
proof (intro conjI)
  from assms(3) obtain p where "p \<in> rect_pages bp bw psm r" "p \<in> rect_pages bp' bw' psm' r'" by blast
  then obtain j j' where j: "j mod 512 = j' mod 512" "first_page bp bw psm r \<le> j" "0 \<le> j" "j < end_page bp bw psm r"
    "first_page bp' bw' psm' r' \<le> j'" "0 \<le> j'" "j' < end_page bp' bw' psm' r'"
    using pages_in_range(5) [OF assms(1), of p] pages_in_range(5) [OF assms(2), of p] by metis
  note b = pages_in_range(1-4) [OF assms(1)] pages_in_range(1-4) [OF assms(2)]
  obtain q where q: "j' = j + 512 * q" using j(1) by (metis mod_eq_dvd_iff dvdE add_diff_cancel_left' diff_add_cancel add.commute)
  have "j < 1024" "j' < 1024" using j(4,7) b by linarith+
  then have "q = 0 \<or> q = 1 \<or> q = -1" using q j(3,6) by linarith
  then show "HasOverlap bp bw psm r bp' bw' psm' r'"
    unfolding HasOverlap_pages [OF assms(1,2)] using j(2,4,5,7) b assms(4,5) \<open>j < 1024\<close> \<open>j' < 1024\<close> j(3,6) q by auto
next
  show "\<not> HasOverlap 0 10 PSMCT32 \<lparr>r_left = 0, r_top = 0, r_right = 640, r_bottom = 1600\<rparr>
      16000 10 PSMCT32 \<lparr>r_left = 0, r_top = 0, r_right = 640, r_bottom = 64\<rparr>" by code_simp
  show "swizzle_bn swizzle32 0 0 0 10 div 32 = swizzle_bn swizzle32 128 32 16000 10 div 32" by code_simp
  show "\<not> HasOverlap 16353 1 PSMCT32 \<lparr>r_left = 0, r_top = 0, r_right = 64, r_bottom = 32\<rparr>
      16353 1 PSMCT32 \<lparr>r_left = 0, r_top = 0, r_right = 64, r_bottom = 32\<rparr>" by code_simp
qed

theorem overlap_not_missed_witness:
  "HasOverlap 0 10 PSMCT32 \<lparr>r_left = 0, r_top = 0, r_right = 640, r_bottom = 64\<rparr>
     320 10 PSMT8 \<lparr>r_left = 0, r_top = 0, r_right = 100, r_bottom = 100\<rparr>"
proof -
  define r where "r = \<lparr>r_left = 0, r_top = 0, r_right = 640, r_bottom = 64\<rparr>"
  define r' where "r' = \<lparr>r_left = 0, r_top = 0, r_right = 100, r_bottom = 100\<rparr>"
  have i: "info (m_psm PSMCT32) = swizzle32" "info (m_psm PSMT8) = swizzle8" by (simp_all add: psm_defs)
  have ok: "rect_ok 0 10 PSMCT32 r" "rect_ok 320 10 PSMT8 r'"
    by (simp_all add: rect_ok_def i in_buffer_def Let_def sw32.masks sw8.masks r_def r'_def pixel_modes_def)
  have b: "swizzle_bn swizzle32 0 32 0 10 div 32 = 10" "swizzle_bn swizzle8 0 0 320 10 div 32 = 10" by code_simp+
  have "10 \<in> rect_pages 0 10 PSMCT32 r"
    unfolding rect_pages_def i by (rule image_eqI [of _ _ "(0, 32)"]) (simp_all add: b r_def)
  moreover have "10 \<in> rect_pages 320 10 PSMT8 r'"
    unfolding rect_pages_def i by (rule image_eqI [of _ _ "(0, 0)"]) (simp_all add: b r'_def)
  ultimately have p: "rect_pages 0 10 PSMCT32 r \<inter> rect_pages 320 10 PSMT8 r' \<noteq> {}" by blast
  have e: "end_page 0 10 PSMCT32 r \<noteq> first_page 320 10 PSMT8 r'" "end_page 320 10 PSMT8 r' \<noteq> first_page 0 10 PSMCT32 r"
    by (simp_all add: end_page_def first_page_def i page_no_def Let_def sw32.masks sw8.masks r_def r'_def)
  show ?thesis using overlap_not_missed [OF ok p e] by (simp add: r_def r'_def)
qed

end
