(* ===== verification/Spec2Isabelle.thy ===== *)
theory Spec2Isabelle
  imports EE_ALU_Spec EE_MMI_Lanes EE_MMI_Spec EE_COP0_Spec EE_LoadStore_Spec EE_Interp_Spec IOP_Slice Sif_Spec EE_Cache_Spec GS_Pages_Spec GS_Offsets_Spec
begin

text \<open>
  This development models the processors of the PlayStation 2 emulator in src/pcsx2, as the interpreters execute
  them, the paths between them, and the local memory of the graphics synthesizer, and proves what makes them correct.

  \<^bold>\<open>The program.\<close> Two processors share one host process: the Emotion Engine (EE; R5900.cpp,
  Interpreter.cpp, R5900OpcodeImpl.cpp, MMI.cpp, COP0.cpp) and the I/O processor (IOP; R3000A.cpp,
  R3000AInterpreter.cpp, R3000AOpcodeTables.cpp). Each runs until its next event is due; DMA channels, timers
  and devices schedule events with \<open>CPU_INT\<close> and \<open>PSX_INT\<close>, and the event test calls them. Guest addresses
  go through page tables (vtlb.cpp for the EE with a TLB from COP0.cpp, IopMem.cpp for the IOP) to host memory or to
  handlers of devices. The processors exchange data through the SBUS registers and the SIF channels, which the DMA
  controller (Dmac.cpp, Hw.cpp) starts. The Graphics Synthesizer (GS) keeps its images in four megabytes of
  local memory (GS/GSLocalMemory.h, GS/GSTables.cpp), where each storage mode permutes the pixels of a page.

  \<^bold>\<open>Theories and sources.\<close>
  \<^item> Prelude: fixed-width integers, lanes of 128-bit registers, truncating division.
  \<^item> EE_State, EE_ALU, EE_MMI, EE_COP0: \<open>cpuRegisters\<close> as a record, one definition per instruction, exceptions,
    event scheduling. EE_ALU_Spec, EE_MMI_Lanes, EE_MMI_Spec, EE_COP0_Spec: the instructions against
    integer and lane-wise specifications, round trips of exceptions, the scheduling invariant.
  \<^item> Fastmem_Pool: the reverse map of vtlb.cpp as a linked pool; it refines a multimap.
    VTLB and VTLB_Spec: page entries, handlers, mappings and accesses of every width. EE_LoadStore and
    EE_LoadStore_Spec: loads and stores and the fused helpers of the arm64 recompiler.
  \<^item> EE_TLB, EE_TLB_Spec: the TLB instructions and the address translation they establish.
  \<^item> EE_Interp, EE_Opcodes: branches, delay slots, cycle accounting, the opcode tables and the instruction
    step. EE_Decode_Spec, EE_Zero_Reg, EE_Interp_Spec: the decoder against the encodings of the instruction set,
    register 0, cycles, exceptions in delay slots, the wait-loop test.
  \<^item> IOP_State, IOP_Mem, IOP_Interp, IOP_Spec: the IOP with its memory map, instructions and execution loop.
    IOP_Slice: a time slice ends, and by how much it is overrun.
  \<^item> Sif_Fifo: the ring between the processors, as an interpretation of a bounded queue. Dmac and
    Dmac_Spec: channels, tag chains, starts, register writes and interrupts of the DMA controller; the writes refine a
    specification of running and waiting channels. Sif and Sif_Spec:
    the transfer loops of SIF0 and SIF1.
  \<^item> EE_Cache, EE_Cache_Spec: the data cache of Cache.cpp with the CACHE instruction, and what its lookup accepts.
  \<^item> GS_Tables, GS_LocalMemory, GS_Pages, GS_Pixels: the swizzle tables of the GS, the addresses
    computed from them, the loops over blocks and pages, and pixel access in each storage mode. GS_Swizzle_Spec: a locale for
    one swizzle, interpreted for the eight of the code, with addresses against the tables' description. GS_Pages_Spec:
    the page loop visits the pages of a rectangle. GS_Pixels_Spec: a locale for a format that keeps a pixel in
    a field of a cell, interpreted for the eight formats; pixels of a buffer are independent. GS_Offsets,
    GS_Offsets_Spec: the cached tables of row and column offsets of frame and depth buffers, and the overlap test.

  \<^bold>\<open>State.\<close> A processor is a record; memory is a function from host addresses to bytes, and a pointer of the
  code is a host address with 0 for null. The EE state carries a device part of arbitrary type, as does the
  IOP state; the DMA machine is an IOP state whose device part holds the registers of the DMA controller and
  the SIF structures, so both processors and their memories are one state.

  \<^bold>\<open>Errors and control flow.\<close> An access that cancels the instruction is a value of \<open>result\<close>; an instruction
  that runs its delay slot calls the step of the machine, which is a parameter bounded by the nesting depth
  (None when it is exceeded). The loops of the IOP's time slice are bounded by fuel, and it is proved how much
  is enough when the blocks of the guest end. The loops of the SIF transfers follow chains in guest memory that need not end, so they are partial:
  None means that the loop never ends, and it is proved where it happens.

  \<^bold>\<open>Parameters.\<close> Handlers of devices, the recompilers' \<open>Clear\<close>, the operating system's mapping calls, the
  high-level emulation inside SYSCALL, the counters, the geometry engine and the transfer functions of
  the other DMA channels are arguments of the definitions that call them; what a theorem needs of them is among
  its hypotheses.

  \<^bold>\<open>Not modelled.\<close> Floating point and the vector units, whose meaning is that of the host's floating
  point; the recompilers, which emit host code; rendering, image transfers and palettes of the GS, whose code is
  vectorised per instruction set or calls graphics libraries; disc, network, USB and sound output, which are host
  input and output; settings and the libretro frontend. The VIF, the GIF, the IPU, the counters, the sound
  processor's voices and the peripheral ports are not modelled.
\<close>

end
